(* ===== verification/GoPrelude.thy ===== *)
theory GoPrelude
  imports
    Main
    "HOL-Library.AList"
    "HOL-Library.Multiset"
    "HOL-Library.Sublist"
    "HOL-Library.Word"
    "HOL-Library.Char_ord"
    "HOL-Library.List_Lexorder"
begin

text \<open>
  The prelude of the development: what the Go code uses of its language and standard
  library, over the types of the model.

  A Go string is a sequence of bytes and is modelled as \<^typ>\<open>string\<close>, whose
  characters are the 256 byte values. The order on strings that
  \<open>List_Lexorder\<close> and \<open>Char_ord\<close> give is the byte-wise order of \<open>sort.Strings\<close>.
  A Go map is an association list with at most one entry per key; where the code ranges
  over a map, the order of the iteration is an explicit argument that only has to be a
  permutation of the entries, as the language specification says.
  A \<open>time.Time\<close> and a \<open>time.Duration\<close> are integers (nanoseconds).
  A call that returns \<open>(value, err)\<close> is a value of a sum type, \<open>Inl\<close> for the error.
\<close>

named_theorems go_simps "defining equations of the standard library functions used by the model"

type_synonym time = int
type_synonym ('k, 'v) gomap = "('k \<times> 'v) list"

section \<open>Prefixes, suffixes and splitting\<close>

text \<open>\<open>strings.HasPrefix\<close>, \<open>strings.TrimPrefix\<close> and \<open>strings.Contains\<close>.\<close>

definition has_prefix :: "string \<Rightarrow> string \<Rightarrow> bool" where
  "has_prefix s p \<longleftrightarrow> length p \<le> length s \<and> take (length p) s = p"

definition trim_prefix :: "string \<Rightarrow> string \<Rightarrow> string" where
  "trim_prefix s p = (if has_prefix s p then drop (length p) s else s)"

fun contains :: "string \<Rightarrow> string \<Rightarrow> bool" where
  "contains s sub = (has_prefix s sub \<or> (case s of [] \<Rightarrow> False | _ # t \<Rightarrow> contains t sub))"

declare contains.simps [simp del]

lemma has_prefix_append [simp]: "has_prefix (p @ s) p"
  by (simp add: has_prefix_def)

lemma has_prefix_iff: "has_prefix s p \<longleftrightarrow> (\<exists>t. s = p @ t)"
  by (metis append_take_drop_id has_prefix_append has_prefix_def)

lemma has_prefix_Nil [simp]: "has_prefix s []"
  by (simp add: has_prefix_def)

lemma has_prefix_Cons [simp]:
  "has_prefix (a # s) (b # p) \<longleftrightarrow> a = b \<and> has_prefix s p"
  by (auto simp: has_prefix_def)

lemma has_prefix_empty [simp]: "has_prefix [] p \<longleftrightarrow> p = []"
  by (auto simp: has_prefix_def)

lemma trim_prefix_append [simp]: "trim_prefix (p @ s) p = s"
  by (simp add: trim_prefix_def)

lemma trim_prefix_noprefix [simp]: "\<not> has_prefix s p \<Longrightarrow> trim_prefix s p = s"
  by (simp add: trim_prefix_def)

lemma contains_iff: "contains s sub \<longleftrightarrow> (\<exists>a b. s = a @ sub @ b)"
proof (induction s)
  case Nil
  show ?case by (subst contains.simps) auto
next
  case (Cons x s)
  show ?case
    by (subst contains.simps) (auto simp: Cons has_prefix_iff Cons_eq_append_conv)
qed

lemma contains_singleton: "contains s [c] \<longleftrightarrow> c \<in> set s"
  by (auto simp: contains_iff in_set_conv_decomp)

text \<open>\<open>strings.Split\<close> on a one-byte separator, and \<open>strings.Join\<close>.\<close>

fun split_char :: "char \<Rightarrow> string \<Rightarrow> string list" where
  "split_char c [] = [[]]"
| "split_char c (x # xs) =
     (if x = c then [] # split_char c xs
      else (case split_char c xs of [] \<Rightarrow> [[x]] | p # ps \<Rightarrow> (x # p) # ps))"

fun join :: "string \<Rightarrow> string list \<Rightarrow> string" where
  "join sep [] = []"
| "join sep [x] = x"
| "join sep (x # y # ys) = x @ sep @ join sep (y # ys)"

lemma split_char_not_Nil [simp]: "split_char c s \<noteq> []"
  by (induction s) (auto split: list.splits)

lemma split_char_no_sep [simp]: "c \<notin> set s \<Longrightarrow> split_char c s = [s]"
  by (induction s) auto

lemma split_char_append [simp]:
  "c \<notin> set a \<Longrightarrow> split_char c (a @ c # b) = a # split_char c b"
  by (induction a) auto

lemma split_char_parts: "p \<in> set (split_char c s) \<Longrightarrow> c \<notin> set p"
proof (induction s arbitrary: p)
  case Nil
  then show ?case by simp
next
  case (Cons x s)
  then show ?case by (cases "split_char c s") (auto split: if_splits)
qed

lemma join_split_char: "join [c] (split_char c s) = s"
proof (induction s)
  case Nil
  show ?case by simp
next
  case (Cons x s)
  obtain p ps where ps: "split_char c s = p # ps"
    by (cases "split_char c s") auto
  with Cons show ?case by (cases ps) auto
qed

lemma length_split_char: "length (split_char c s) = Suc (count_list s c)"
proof (induction s)
  case Nil
  show ?case by simp
next
  case (Cons x s)
  then show ?case by (cases "split_char c s") auto
qed

lemma split_join_char:
  "xs \<noteq> [] \<Longrightarrow> (\<And>x. x \<in> set xs \<Longrightarrow> c \<notin> set x) \<Longrightarrow> split_char c (join [c] xs) = xs"
proof (induction "[c]" xs rule: join.induct)
  case (3 x y ys)
  then show ?case by simp
qed auto

section \<open>White space\<close>

text \<open>
  The code points that \<open>unicode.IsSpace\<close> accepts, as their UTF-8 encodings, and
  \<open>strings.TrimSpace\<close>, \<open>bytes.TrimLeftFunc(_, unicode.IsSpace)\<close>. A code point is cut
  off at an end of the string exactly when its encoding stands there.
\<close>

definition space_encodings :: "string list" where
  "space_encodings =
     [[CHR 0x09], [CHR 0x0A], [CHR 0x0B], [CHR 0x0C], [CHR 0x0D], [CHR 0x20],
      [CHR 0xC2, CHR 0x85], [CHR 0xC2, CHR 0xA0], [CHR 0xE1, CHR 0x9A, CHR 0x80],
      [CHR 0xE2, CHR 0x80, CHR 0x80], [CHR 0xE2, CHR 0x80, CHR 0x81],
      [CHR 0xE2, CHR 0x80, CHR 0x82], [CHR 0xE2, CHR 0x80, CHR 0x83],
      [CHR 0xE2, CHR 0x80, CHR 0x84], [CHR 0xE2, CHR 0x80, CHR 0x85],
      [CHR 0xE2, CHR 0x80, CHR 0x86], [CHR 0xE2, CHR 0x80, CHR 0x87],
      [CHR 0xE2, CHR 0x80, CHR 0x88], [CHR 0xE2, CHR 0x80, CHR 0x89],
      [CHR 0xE2, CHR 0x80, CHR 0x8A], [CHR 0xE2, CHR 0x80, CHR 0xA8],
      [CHR 0xE2, CHR 0x80, CHR 0xA9], [CHR 0xE2, CHR 0x80, CHR 0xAF],
      [CHR 0xE2, CHR 0x81, CHR 0x9F], [CHR 0xE3, CHR 0x80, CHR 0x80]]"

fun trim_with :: "string list \<Rightarrow> nat \<Rightarrow> string \<Rightarrow> string" where
  "trim_with encs 0 s = s"
| "trim_with encs (Suc n) s =
     (case find (has_prefix s) encs of
        None \<Rightarrow> s
      | Some e \<Rightarrow> trim_with encs n (drop (length e) s))"

text \<open>The bound is the length of the string: every step cuts at least one byte.\<close>

definition trim_left_space :: "string \<Rightarrow> string" where
  "trim_left_space s = trim_with space_encodings (length s) s"

definition trim_right_space :: "string \<Rightarrow> string" where
  "trim_right_space s = rev (trim_with (map rev space_encodings) (length s) (rev s))"

definition trim_space :: "string \<Rightarrow> string" where
  "trim_space s = trim_right_space (trim_left_space s)"

lemma trim_with_suffix: "\<exists>u. s = u @ trim_with encs n s"
proof (induction n arbitrary: s)
  case 0
  show ?case by simp
next
  case (Suc n)
  show ?case
  proof (cases "find (has_prefix s) encs")
    case None
    then show ?thesis by simp
  next
    case (Some e)
    then have "has_prefix s e" by (auto simp: find_Some_iff)
    then obtain t where "s = e @ t" by (auto simp: has_prefix_iff)
    moreover from Suc [of t] obtain u where "t = u @ trim_with encs n t" ..
    ultimately have "s = (e @ u) @ trim_with encs (Suc n) s" using Some by simp
    then show ?thesis ..
  qed
qed

lemma trim_with_clean:
  "[] \<notin> set encs \<Longrightarrow> length s \<le> n \<Longrightarrow> e \<in> set encs \<Longrightarrow> \<not> has_prefix (trim_with encs n s) e"
proof (induction n arbitrary: s)
  case 0
  then show ?case by (auto simp: has_prefix_def)
next
  case (Suc n)
  show ?case
  proof (cases "find (has_prefix s) encs")
    case None
    with Suc.prems(3) have "\<not> has_prefix s e" by (auto simp: find_None_iff)
    with None show ?thesis by simp
  next
    case (Some d)
    then have d: "has_prefix s d" "d \<in> set encs"
      by (auto simp: find_Some_iff)
    with Suc.prems(1,2) have "length (drop (length d) s) \<le> n"
      by (cases d) (auto simp: has_prefix_def)
    with Suc.IH Suc.prems Some show ?thesis by simp
  qed
qed

lemma trim_with_id:
  "(\<And>e. e \<in> set encs \<Longrightarrow> \<not> has_prefix s e) \<Longrightarrow> trim_with encs n s = s"
  by (cases n) (auto simp: find_Some_iff split: option.splits dest: nth_mem)

lemma Nil_notin_space_encodings [simp]:
  "[] \<notin> set space_encodings" "[] \<notin> set (map rev space_encodings)"
  by (simp_all add: space_encodings_def)

text \<open>\<open>space_free s\<close>: no white space code point stands at either end of \<open>s\<close>.\<close>

definition space_free :: "string \<Rightarrow> bool" where
  "space_free s \<longleftrightarrow> (\<forall>e \<in> set space_encodings. \<not> has_prefix s e \<and> \<not> has_prefix (rev s) (rev e))"

lemma trim_space_id [simp]: "space_free s \<Longrightarrow> trim_space s = s"
proof -
  assume "space_free s"
  then have "trim_with space_encodings (length s) s = s"
    and "trim_with (map rev space_encodings) (length s) (rev s) = rev s"
    by (auto intro!: trim_with_id simp: space_free_def)
  then show ?thesis
    by (simp add: trim_space_def trim_left_space_def trim_right_space_def)
qed

lemma trim_space_Nil [simp]: "trim_space [] = []"
  by (simp add: trim_space_def trim_left_space_def trim_right_space_def)

lemma trim_right_prefix: "\<exists>u. s = trim_right_space s @ u"
proof -
  obtain u where u: "rev s = u @ trim_with (map rev space_encodings) (length s) (rev s)"
    using trim_with_suffix by blast
  have "s = rev (trim_with (map rev space_encodings) (length s) (rev s)) @ rev u"
    by (subst rev_rev_ident [of s, symmetric], subst u) simp
  then show ?thesis by (auto simp: trim_right_space_def)
qed

lemma space_free_trim_space: "space_free (trim_space s)"
  unfolding space_free_def
proof (intro ballI conjI)
  fix e assume e: "e \<in> set space_encodings"
  have "rev e \<in> set (map rev space_encodings)" using e by simp
  from trim_with_clean [OF Nil_notin_space_encodings(2) _ this, of "rev (trim_left_space s)"]
  show "\<not> has_prefix (rev (trim_space s)) (rev e)"
    by (simp add: trim_space_def trim_right_space_def)
  have l: "\<not> has_prefix (trim_left_space s) e"
    using trim_with_clean [OF Nil_notin_space_encodings(1) _ e]
    by (simp add: trim_left_space_def)
  show "\<not> has_prefix (trim_space s) e"
  proof
    assume "has_prefix (trim_space s) e"
    moreover obtain u where "trim_left_space s = trim_space s @ u"
      using trim_right_prefix by (auto simp: trim_space_def)
    ultimately show False using l by (auto simp: has_prefix_iff)
  qed
qed

lemma trim_space_idem [simp]: "trim_space (trim_space s) = trim_space s"
  by (simp add: space_free_trim_space)

text \<open>A visible ASCII character belongs to no white space encoding, so no trimming cuts it.\<close>

definition graphic :: "char \<Rightarrow> bool" where
  "graphic c \<longleftrightarrow> (33::nat) \<le> of_char c \<and> of_char c \<le> (126::nat)"

lemma graphic_not_space: "graphic c \<Longrightarrow> e \<in> set space_encodings \<Longrightarrow> c \<notin> set e"
  by (auto simp: graphic_def space_encodings_def)

lemma trim_with_keeps:
  "c \<in> set s \<Longrightarrow> (\<And>e. e \<in> set encs \<Longrightarrow> c \<notin> set e) \<Longrightarrow> c \<in> set (trim_with encs n s)"
proof (induction n arbitrary: s)
  case 0
  then show ?case by simp
next
  case (Suc n)
  show ?case
  proof (cases "find (has_prefix s) encs")
    case None
    with Suc.prems show ?thesis by simp
  next
    case (Some e)
    then have e: "has_prefix s e" "e \<in> set encs" by (auto simp: find_Some_iff)
    then obtain t where t: "s = e @ t" by (auto simp: has_prefix_iff)
    with e Suc.prems have "c \<in> set t" by auto
    with Suc.IH [OF this] Suc.prems Some t show ?thesis by auto
  qed
qed

lemma trim_space_keeps: "c \<in> set s \<Longrightarrow> graphic c \<Longrightarrow> c \<in> set (trim_space s)"
  by (auto simp: trim_space_def trim_left_space_def trim_right_space_def graphic_not_space
      intro!: trim_with_keeps)

lemma trim_space_not_Nil: "c \<in> set s \<Longrightarrow> graphic c \<Longrightarrow> trim_space s \<noteq> []"
  by (auto dest: trim_space_keeps)

lemma space_free_graphic:
  assumes "s \<noteq> []" and "graphic (hd s)" and "graphic (last s)"
  shows "space_free s"
  unfolding space_free_def
proof (intro ballI conjI notI)
  fix e assume e: "e \<in> set space_encodings"
  then have "e \<noteq> []" using Nil_notin_space_encodings(1) by auto
  { assume "has_prefix s e"
    then have "hd s \<in> set e" using \<open>e \<noteq> []\<close> by (auto simp: has_prefix_iff)
    with graphic_not_space [OF assms(2) e] show False by simp }
  { assume "has_prefix (rev s) (rev e)"
    then obtain t where "rev s = rev e @ t" by (auto simp: has_prefix_iff)
    then have "s = rev t @ e" by (metis rev_append rev_rev_ident)
    then have "last s \<in> set e" using \<open>e \<noteq> []\<close> by simp
    with graphic_not_space [OF assms(3) e] show False by simp }
qed

lemma char_code_eq: "c = d \<longleftrightarrow> of_char c = (of_char d :: nat)"
  by (simp only: of_char_eq_iff)

section \<open>Numbers as text\<close>

text \<open>\<open>strconv.Itoa\<close> and the verb \<open>%d\<close>.\<close>

definition digit :: "nat \<Rightarrow> char" where
  "digit d = char_of (48 + d)"

fun show_nat :: "nat \<Rightarrow> string" where
  "show_nat n = (if n < 10 then [digit n] else show_nat (n div 10) @ [digit (n mod 10)])"

declare show_nat.simps [simp del]

definition itoa :: "int \<Rightarrow> string" where
  "itoa i = (if i < 0 then CHR ''-'' # show_nat (nat (- i)) else show_nat (nat i))"

definition is_digit :: "char \<Rightarrow> bool" where
  "is_digit c \<longleftrightarrow> (48::nat) \<le> of_char c \<and> of_char c \<le> (57::nat)"

definition digit_val :: "char \<Rightarrow> nat" where
  "digit_val c = of_char c - 48"

definition nat_of_digits :: "string \<Rightarrow> nat" where
  "nat_of_digits s = foldl (\<lambda>n c. 10 * n + digit_val c) 0 s"

lemma digit_val_digit [simp]: "d < 10 \<Longrightarrow> digit_val (digit d) = d"
  by (simp add: digit_def digit_val_def)

lemma is_digit_digit [simp]: "d < 10 \<Longrightarrow> is_digit (digit d)"
  by (simp add: digit_def is_digit_def)

lemma show_nat_digits: "\<forall>c \<in> set (show_nat n). is_digit c"
proof (induction n rule: show_nat.induct)
  case (1 n)
  then show ?case by (subst show_nat.simps) auto
qed

lemma show_nat_not_Nil [simp]: "show_nat n \<noteq> []"
  by (subst show_nat.simps) simp

lemma nat_of_digits_show_nat [simp]: "nat_of_digits (show_nat n) = n"
proof (induction n rule: show_nat.induct)
  case (1 n)
  then show ?case by (subst show_nat.simps) (auto simp: nat_of_digits_def)
qed

lemma show_nat_inject [simp]: "show_nat m = show_nat n \<longleftrightarrow> m = n"
  by (metis nat_of_digits_show_nat)

lemma is_digit_graphic: "is_digit c \<Longrightarrow> graphic c"
  by (simp add: is_digit_def graphic_def)

text \<open>\<open>hex.EncodeToString\<close>.\<close>

definition hex_digit :: "nat \<Rightarrow> char" where
  "hex_digit d = (if d < 10 then char_of (48 + d) else char_of (87 + d))"

definition hex_encode :: "string \<Rightarrow> string" where
  "hex_encode bs = concat (map (\<lambda>c. [hex_digit (of_char c div 16), hex_digit (of_char c mod 16)]) bs)"

lemma of_char_hex_digit: "d < 16 \<Longrightarrow> of_char (hex_digit d) = (if d < 10 then 48 + d else 87 + d)"
  by (simp add: hex_digit_def)

lemma hex_digit_inject:
  assumes "a < 16" "b < 16" "hex_digit a = hex_digit b"
  shows "a = b"
proof -
  from assms have "(if a < 10 then 48 + a else 87 + a) = (if b < 10 then 48 + b else 87 + b)"
    by (metis of_char_hex_digit)
  then show ?thesis by (simp split: if_splits)
qed

lemma length_hex_encode [simp]: "length (hex_encode bs) = 2 * length bs"
  by (induction bs) (auto simp: hex_encode_def)

lemma hex_encode_inject: "hex_encode a = hex_encode b \<longleftrightarrow> a = b"
proof
  assume "hex_encode a = hex_encode b"
  then show "a = b"
  proof (induction a arbitrary: b)
    case Nil
    then show ?case by (cases b) (auto simp: hex_encode_def)
  next
    case (Cons x a)
    then obtain y b' where b: "b = y # b'"
      by (cases b) (auto simp: hex_encode_def)
    have lt: "(of_char c :: nat) < 256" for c by simp
    from Cons.prems b have eqs:
      "hex_digit (of_char x div 16) = hex_digit (of_char y div 16)"
      "hex_digit (of_char x mod 16) = hex_digit (of_char y mod 16)"
      and rest: "hex_encode a = hex_encode b'"
      by (auto simp: hex_encode_def)
    have "of_char x div 16 = (of_char y div 16 :: nat)"
      by (rule hex_digit_inject [OF _ _ eqs(1)]) (use lt [of x] lt [of y] in \<open>simp_all add: less_mult_imp_div_less\<close>)
    moreover have "of_char x mod 16 = (of_char y mod 16 :: nat)"
      by (rule hex_digit_inject [OF _ _ eqs(2)]) auto
    ultimately have "of_char x = (of_char y :: nat)"
      by (metis mult_div_mod_eq)
    with rest b Cons.IH show ?case by simp
  qed
qed simp

text \<open>The value of a hexadecimal digit.\<close>

definition hex_val :: "char \<Rightarrow> nat option" where
  "hex_val c =
     (let n = of_char c :: nat in
      if 48 \<le> n \<and> n \<le> 57 then Some (n - 48)
      else if 97 \<le> n \<and> n \<le> 102 then Some (n - 87)
      else if 65 \<le> n \<and> n \<le> 70 then Some (n - 55)
      else None)"

lemma hex_val_hex_digit [simp]: "d < 16 \<Longrightarrow> hex_val (hex_digit d) = Some d"
  by (auto simp: hex_val_def of_char_hex_digit Let_def)

section \<open>Letter case, quoting\<close>

text \<open>
  \<open>strings.ToUpper\<close> and \<open>strings.ToLower\<close> on the ASCII strings the code applies them to,
  and the verb \<open>%q\<close> (\<open>strconv.Quote\<close>; bytes above 127 are kept, as the printable
  code points of a valid UTF-8 string are).
\<close>

definition upper_char :: "char \<Rightarrow> char" where
  "upper_char c = (let n = of_char c :: nat in if 97 \<le> n \<and> n \<le> 122 then char_of (n - 32) else c)"

definition lower_char :: "char \<Rightarrow> char" where
  "lower_char c = (let n = of_char c :: nat in if 65 \<le> n \<and> n \<le> 90 then char_of (n + 32) else c)"

definition to_upper :: "string \<Rightarrow> string" where
  "to_upper = map upper_char"

definition to_lower :: "string \<Rightarrow> string" where
  "to_lower = map lower_char"

definition quote_char :: "char \<Rightarrow> string" where
  "quote_char c =
     (let n = of_char c :: nat in
      if n = 34 then [CHR 0x5C, CHR 0x22]
      else if n = 92 then [CHR 0x5C, CHR 0x5C]
      else if n = 7 then [CHR 0x5C, CHR ''a'']
      else if n = 8 then [CHR 0x5C, CHR ''b'']
      else if n = 12 then [CHR 0x5C, CHR ''f'']
      else if n = 10 then [CHR 0x5C, CHR ''n'']
      else if n = 13 then [CHR 0x5C, CHR ''r'']
      else if n = 9 then [CHR 0x5C, CHR ''t'']
      else if n = 11 then [CHR 0x5C, CHR ''v'']
      else if n < 32 \<or> n = 127 then [CHR 0x5C, CHR ''x'', hex_digit (n div 16), hex_digit (n mod 16)]
      else [c])"

definition go_quote :: "string \<Rightarrow> string" where
  "go_quote s = [CHR 0x22] @ concat (map quote_char s) @ [CHR 0x22]"

section \<open>Maps\<close>

text \<open>
  A Go map with at most one entry per key. \<open>AList.update\<close> and \<open>AList.delete\<close> are the
  assignment \<open>m[k] = v\<close> and \<open>delete(m, k)\<close>; \<open>map_of m k\<close> is the two-valued read.
  \<open>range_order m xs\<close>: the loop \<open>for k, v := range m\<close> visits the entries as \<open>xs\<close>.
\<close>

definition wf_map :: "('k, 'v) gomap \<Rightarrow> bool" where
  "wf_map m \<longleftrightarrow> distinct (map fst m)"

definition range_order :: "('k, 'v) gomap \<Rightarrow> ('k, 'v) gomap \<Rightarrow> bool" where
  "range_order m xs \<longleftrightarrow> mset xs = mset m"

lemma wf_map_Nil [simp]: "wf_map []"
  by (simp add: wf_map_def)

lemma wf_map_update [simp]: "wf_map m \<Longrightarrow> wf_map (AList.update k v m)"
  by (simp add: wf_map_def distinct_update)

lemma wf_map_delete [simp]: "wf_map m \<Longrightarrow> wf_map (AList.delete k m)"
  by (simp add: wf_map_def distinct_delete)

lemma wf_map_filter [simp]: "wf_map m \<Longrightarrow> wf_map (filter P m)"
  by (induction m) (auto simp: wf_map_def)

lemma map_of_update [simp]: "map_of (AList.update k v m) k' = (if k' = k then Some v else map_of m k')"
  by (simp add: update_conv)

lemma map_of_delete [simp]: "map_of (AList.delete k m) k' = (if k' = k then None else map_of m k')"
  by (simp add: delete_conv)

lemma map_of_wf: "wf_map m \<Longrightarrow> map_of m k = Some v \<longleftrightarrow> (k, v) \<in> set m"
  by (simp add: wf_map_def map_of_eq_Some_iff)

lemma range_order_set: "range_order m xs \<Longrightarrow> set xs = set m"
  unfolding range_order_def by (rule mset_eq_setD)

lemma range_order_wf: "range_order m xs \<Longrightarrow> wf_map m \<Longrightarrow> wf_map xs"
  unfolding range_order_def wf_map_def
  by (metis distinct_map mset_eq_imp_distinct_iff mset_map)

lemma range_order_map_of:
  assumes "range_order m xs" and "wf_map m"
  shows "map_of xs = map_of m"
proof
  fix k
  have "map_of xs k = Some v \<longleftrightarrow> map_of m k = Some v" for v
    using map_of_wf [OF assms(2)] map_of_wf [OF range_order_wf [OF assms]]
      range_order_set [OF assms(1)] by simp
  then show "map_of xs k = map_of m k"
    by (metis option.exhaust)
qed

lemma range_order_refl [simp]: "range_order m m"
  by (simp add: range_order_def)

lemma map_of_filter_wf:
  "wf_map m \<Longrightarrow>
   map_of (filter (\<lambda>(k, v). P k v) m) k =
     (case map_of m k of None \<Rightarrow> None | Some v \<Rightarrow> if P k v then Some v else None)"
proof (induction m)
  case Nil
  then show ?case by simp
next
  case (Cons e m)
  then have "map_of m (fst e) = None" by (auto simp: wf_map_def map_of_eq_None_iff)
  with Cons show ?case by (cases e) (auto simp: wf_map_def)
qed

lemma find_append: "find P (xs @ ys) = (case find P xs of None \<Rightarrow> find P ys | Some x \<Rightarrow> Some x)"
  by (induction xs) auto

section \<open>Lines\<close>

text \<open>
  \<open>bufio.Scanner\<close> on lines: a line ends at \<open>\n\<close>, one \<open>\r\<close> before it is dropped, a last
  line without an end is kept when it is not empty, and a line that does not fit the buffer
  of 65536 bytes together with its end stops the scan with an error.
\<close>

definition chomp_cr :: "string \<Rightarrow> string" where
  "chomp_cr l = (if l \<noteq> [] \<and> last l = CHR 0x0D then butlast l else l)"

definition file_lines :: "string \<Rightarrow> string list" where
  "file_lines s = (let ps = split_char (CHR 0x0A) s in if last ps = [] then butlast ps else ps)"

text \<open>The lines a scanner of a stream hands out before it stops.\<close>

definition scanned_lines :: "string \<Rightarrow> string list" where
  "scanned_lines s = map chomp_cr (takeWhile (\<lambda>l. length l < 65536) (file_lines s))"

definition scan_lines :: "string \<Rightarrow> string list option" where
  "scan_lines s =
     (if list_all (\<lambda>l. length l < 65536) (file_lines s) then Some (map chomp_cr (file_lines s)) else None)"

lemma split_lines_concat:
  "list_all (\<lambda>l. CHR 0x0A \<notin> set l) ls \<Longrightarrow>
   split_char (CHR 0x0A) (concat (map (\<lambda>l. l @ [CHR 0x0A]) ls)) = ls @ [[]]"
  by (induction ls) auto

definition line_ok :: "string \<Rightarrow> bool" where
  "line_ok l \<longleftrightarrow> CHR 0x0A \<notin> set l \<and> (l = [] \<or> last l \<noteq> CHR 0x0D) \<and> length l < 65536"

lemma scan_written_lines:
  assumes "list_all line_ok ls"
  shows "scan_lines (concat (map (\<lambda>l. l @ [CHR 0x0A]) ls)) = Some ls"
proof -
  have "split_char (CHR 0x0A) (concat (map (\<lambda>l. l @ [CHR 0x0A]) ls)) = ls @ [[]]"
    using assms by (intro split_lines_concat) (simp add: list_all_iff line_ok_def)
  moreover have "map chomp_cr ls = ls" "list_all (\<lambda>l. length l < 65536) ls"
    using assms by (induction ls) (auto simp: line_ok_def chomp_cr_def)
  ultimately show ?thesis by (simp add: scan_lines_def file_lines_def)
qed

lemma scanned_written_lines:
  assumes "list_all line_ok ls"
  shows "scanned_lines (concat (map (\<lambda>l. l @ [CHR 0x0A]) ls)) = ls"
  using scan_written_lines [OF assms]
  by (auto simp: scan_lines_def scanned_lines_def list_all_iff takeWhile_eq_all_conv [THEN iffD2] split: if_splits)

section \<open>Outcomes\<close>

text \<open>What a call ends in: a value, an error value the caller gets, or a crash of the program
  (a panic nobody recovers, or \<open>lg.Fatal\<close>).\<close>

datatype 'a outcome = Crashed | Failed | Returned 'a

end
