(* ===== verification/NetAddr.thy ===== *)
theory NetAddr
  imports GoPrelude
begin

unbundle bit_operations_syntax

text \<open>
  What the code uses of package \<open>net\<close> of Go 1.5 (the version \<open>hacking.md\<close> asks for): splitting \<open>host:port\<close>, parsing IP
  addresses and network prefixes, and the predicates on addresses. An \<open>net.IP\<close> is a
  list of bytes of length 4 or 16; \<open>nil\<close> is \<open>None\<close>.
\<close>

type_synonym byte = "8 word"
type_synonym ip = "byte list"

section \<open>Host and port\<close>

text \<open>\<open>byteIndex\<close> and \<open>last\<close>: the position of the first and of the last occurrence of a byte.\<close>

fun byte_index :: "char \<Rightarrow> string \<Rightarrow> nat option" where
  "byte_index c [] = None"
| "byte_index c (x # xs) = (if x = c then Some 0 else map_option Suc (byte_index c xs))"

definition last_index :: "char \<Rightarrow> string \<Rightarrow> nat option" where
  "last_index c s = map_option (\<lambda>i. length s - Suc i) (byte_index c (rev s))"

datatype addr_error = MissingPort | TooManyColons | MissingBracket | MissingBrackets | UnexpectedOpen | UnexpectedClose

text \<open>\<open>net.SplitHostPort\<close>; \<open>finish j k\<close> is its common tail.\<close>

definition split_host_port :: "string \<Rightarrow> addr_error + (string \<times> string)" where
  "split_host_port hp =
     (case last_index (CHR '':'') hp of
        None \<Rightarrow> Inl MissingPort
      | Some i \<Rightarrow>
          let finish = (\<lambda>host j k.
                if CHR ''['' \<in> set (drop j hp) then Inl UnexpectedOpen
                else if CHR '']'' \<in> set (drop k hp) then Inl UnexpectedClose
                else Inr (host, drop (Suc i) hp))
          in if take 1 hp = ''['' then
               (case byte_index (CHR '']'') hp of
                  None \<Rightarrow> Inl MissingBracket
                | Some e \<Rightarrow>
                    if Suc e = length hp then Inl MissingPort
                    else if Suc e = i then finish (take (e - 1) (drop 1 hp)) 1 (Suc e)
                    else if hp ! Suc e = CHR '':'' then Inl TooManyColons
                    else Inl MissingPort)
             else
               (let host = take i hp in
                if CHR '':'' \<in> set host then Inl TooManyColons
                else if CHR ''%'' \<in> set host then Inl MissingBrackets
                else finish host 0 0))"

lemma byte_index_None [simp]: "byte_index c s = None \<longleftrightarrow> c \<notin> set s"
  by (induction s) auto

lemma byte_index_append [simp]: "c \<notin> set a \<Longrightarrow> byte_index c (a @ c # b) = Some (length a)"
  by (induction a) auto

lemma last_index_append [simp]: "c \<notin> set b \<Longrightarrow> last_index c (a @ c # b) = Some (length a)"
  by (simp add: last_index_def)

lemma last_index_None [simp]: "last_index c s = None \<longleftrightarrow> c \<notin> set s"
  by (simp add: last_index_def)

definition plain_host :: "string \<Rightarrow> bool" where
  "plain_host h \<longleftrightarrow> CHR '':'' \<notin> set h \<and> CHR ''['' \<notin> set h \<and> CHR '']'' \<notin> set h"

lemma plain_hostD:
  "plain_host h \<Longrightarrow> CHR '':'' \<notin> set h"
  "plain_host h \<Longrightarrow> CHR ''['' \<notin> set h"
  "plain_host h \<Longrightarrow> CHR '']'' \<notin> set h"
  by (auto simp: plain_host_def)

lemma split_host_port_plain:
  assumes "plain_host h" and "CHR ''%'' \<notin> set h" and "plain_host p"
  shows "split_host_port (h @ CHR '':'' # p) = Inr (h, p)"
proof -
  have nb: "take 1 (h @ CHR '':'' # p) \<noteq> ''[''"
    using plain_hostD(2) [OF assms(1)] by (cases h) auto
  show ?thesis
    unfolding split_host_port_def Let_def
    using assms nb last_index_append [OF plain_hostD(1) [OF assms(3)], of h]
    by (simp add: plain_hostD)
qed

lemma split_host_port_bracket:
  assumes "CHR '']'' \<notin> set h" and "CHR ''['' \<notin> set h" and "plain_host p"
  shows "split_host_port (CHR ''['' # h @ CHR '']'' # CHR '':'' # p) = Inr (h, p)"
proof -
  let ?hp = "CHR ''['' # h @ CHR '']'' # CHR '':'' # p"
  have l: "last_index (CHR '':'') ?hp = Some (length h + 2)"
    using last_index_append [of "CHR '':''" p "CHR ''['' # h @ [CHR '']'']"] assms(3)
    by (simp add: plain_hostD)
  have b: "byte_index (CHR '']'') ?hp = Some (Suc (length h))"
    using assms(1) by simp
  show ?thesis
    unfolding split_host_port_def l b
    using assms by (simp add: Let_def plain_hostD)
qed

section \<open>IP addresses\<close>

text \<open>
  \<open>dtoi\<close> and \<open>xtoi\<close>: a decimal or hexadecimal number at the front of the string, with the
  limit \<open>big = 0xFFFFFF\<close>; \<open>None\<close> is \<open>ok = false\<close>, otherwise the number and the rest.
\<close>

fun dtoi_loop :: "nat \<Rightarrow> string \<Rightarrow> (nat \<times> string) option" where
  "dtoi_loop n [] = Some (n, [])"
| "dtoi_loop n (c # s) =
     (if is_digit c
      then (let m = n * 10 + digit_val c in if 0xFFFFFF \<le> m then None else dtoi_loop m s)
      else Some (n, c # s))"

definition dtoi :: "string \<Rightarrow> (nat \<times> string) option" where
  "dtoi s = (case s of [] \<Rightarrow> None | c # _ \<Rightarrow> if is_digit c then dtoi_loop 0 s else None)"

fun xtoi_loop :: "nat \<Rightarrow> string \<Rightarrow> (nat \<times> string) option" where
  "xtoi_loop n [] = Some (n, [])"
| "xtoi_loop n (c # s) =
     (case hex_val c of
        None \<Rightarrow> Some (n, c # s)
      | Some d \<Rightarrow> (let m = n * 16 + d in if 0xFFFFFF \<le> m then None else xtoi_loop m s))"

definition xtoi :: "string \<Rightarrow> (nat \<times> string) option" where
  "xtoi s = (case s of [] \<Rightarrow> None | c # _ \<Rightarrow> if hex_val c = None then None else xtoi_loop 0 s)"

fun parse_octets :: "nat \<Rightarrow> bool \<Rightarrow> string \<Rightarrow> byte list \<Rightarrow> byte list option" where
  "parse_octets 0 first s p = (if s = [] then Some p else None)"
| "parse_octets (Suc k) first s p =
     (if s = [] then None
      else if \<not> first \<and> hd s \<noteq> CHR ''.'' then None
      else (case dtoi (if first then s else tl s) of
              None \<Rightarrow> None
            | Some (n, rest) \<Rightarrow> if 0xFF < n then None else parse_octets k False rest (p @ [of_nat n])))"

text \<open>\<open>parseIPv4\<close> gives the 16-byte form, as \<open>net.IPv4\<close> does.\<close>

definition v4_prefix :: "byte list" where
  "v4_prefix = [0,0,0,0,0,0,0,0,0,0,0xff,0xff]"

definition parse_ipv4 :: "string \<Rightarrow> ip option" where
  "parse_ipv4 s = map_option (\<lambda>p. v4_prefix @ p) (parse_octets 4 True s [])"

text \<open>
  The loop of \<open>parseIPv6\<close>: the bytes found so far, the position of the ellipsis, and the
  text left. Each round appends at least two bytes, so eight rounds fill the address.
\<close>

fun parse_ipv6_loop :: "nat \<Rightarrow> string \<Rightarrow> byte list \<Rightarrow> nat option \<Rightarrow> (string \<times> byte list \<times> nat option) option" where
  "parse_ipv6_loop 0 s p ell = Some (s, p, ell)"
| "parse_ipv6_loop (Suc k) s p ell =
     (if 16 \<le> length p then Some (s, p, ell)
      else (case xtoi s of
        None \<Rightarrow> None
      | Some (n, r) \<Rightarrow>
          if 0xFFFF < n then None
          else if r \<noteq> [] \<and> hd r = CHR ''.'' then
            (if ell = None \<and> length p \<noteq> 12 then None
             else if 16 < length p + 4 then None
             else (case parse_ipv4 s of
                     None \<Rightarrow> None
                   | Some ip4 \<Rightarrow> Some ([], p @ drop 12 ip4, ell)))
          else
            (let p' = p @ [of_nat (n div 256), of_nat (n mod 256)] in
             if r = [] then Some ([], p', ell)
             else if hd r \<noteq> CHR '':'' \<or> length r = 1 then None
             else
               (let r' = tl r in
                if hd r' = CHR '':'' then
                  (if ell \<noteq> None then None
                   else if tl r' = [] then Some ([], p', Some (length p'))
                   else parse_ipv6_loop k (tl r') p' (Some (length p')))
                else parse_ipv6_loop k r' p' ell))))"

definition parse_ipv6 :: "string \<Rightarrow> ip option" where
  "parse_ipv6 s =
     (let lead = has_prefix s ''::''; s' = (if lead then drop 2 s else s) in
      if lead \<and> s' = [] then Some (replicate 16 0)
      else (case parse_ipv6_loop 8 s' [] (if lead then Some 0 else None) of
        None \<Rightarrow> None
      | Some (rest, p, ell) \<Rightarrow>
          if rest \<noteq> [] then None
          else if length p < 16 then
            (case ell of
               None \<Rightarrow> None
             | Some e \<Rightarrow> Some (take e p @ replicate (16 - length p) 0 @ drop e p))
          else if ell \<noteq> None then None
          else Some p))"

text \<open>\<open>net.ParseIP\<close>: the first dot or colon decides the family.\<close>

fun ip_family :: "string \<Rightarrow> char option" where
  "ip_family [] = None"
| "ip_family (c # s) = (if c = CHR ''.'' \<or> c = CHR '':'' then Some c else ip_family s)"

definition parse_ip :: "string \<Rightarrow> ip option" where
  "parse_ip s =
     (case ip_family s of
        None \<Rightarrow> None
      | Some c \<Rightarrow> if c = CHR ''.'' then parse_ipv4 s else parse_ipv6 s)"

definition to4 :: "ip \<Rightarrow> ip option" where
  "to4 ip =
     (if length ip = 4 then Some ip
      else if length ip = 16 \<and> take 12 ip = v4_prefix then Some (drop 12 ip)
      else None)"

definition ip_equal :: "ip \<Rightarrow> ip \<Rightarrow> bool" where
  "ip_equal a b \<longleftrightarrow>
     (if length a = length b then a = b
      else if length a = 4 \<and> length b = 16 then take 12 b = v4_prefix \<and> drop 12 b = a
      else if length a = 16 \<and> length b = 4 then take 12 a = v4_prefix \<and> drop 12 a = b
      else False)"

definition is_loopback :: "ip \<Rightarrow> bool" where
  "is_loopback ip =
     (case to4 ip of
        Some a \<Rightarrow> a ! 0 = 127
      | None \<Rightarrow> ip_equal ip (replicate 15 0 @ [1]))"

section \<open>Networks\<close>

record ipnet =
  net_ip :: ip
  net_mask :: "byte list"

text \<open>\<open>net.CIDRMask\<close> for 32 bits and \<open>net.ParseCIDR\<close> for the IPv4 prefixes of the code.\<close>

fun mask_bytes :: "nat \<Rightarrow> nat \<Rightarrow> byte list" where
  "mask_bytes 0 ones = []"
| "mask_bytes (Suc k) ones =
     (if 8 \<le> ones then 0xff # mask_bytes k (ones - 8)
      else of_nat (256 - 2 ^ (8 - ones)) # mask_bytes k 0)"

definition parse_cidr :: "string \<Rightarrow> ipnet option" where
  "parse_cidr s =
     (case byte_index (CHR ''/'') s of
        None \<Rightarrow> None
      | Some i \<Rightarrow>
          (case (parse_ipv4 (take i s), dtoi (drop (Suc i) s)) of
             (Some a, Some (n, [])) \<Rightarrow>
               if 32 < n then None
               else Some \<lparr>net_ip = map2 (\<lambda>x m. x AND m) (drop 12 a) (mask_bytes 4 n), net_mask = mask_bytes 4 n\<rparr>
           | _ \<Rightarrow> None))"

definition net_contains :: "ipnet \<Rightarrow> ip \<Rightarrow> bool" where
  "net_contains n ip =
     (let a = (case to4 ip of Some x \<Rightarrow> x | None \<Rightarrow> ip) in
      length a = length (net_ip n) \<and>
      list_all (\<lambda>(x, y, m). x AND m = y AND m) (zip (net_ip n) (zip a (net_mask n))))"

text \<open>Evaluation on literals: the recursions on a numeral, and the tests on characters.\<close>

lemmas mask_bytes_numeral = mask_bytes.simps(2) [of "pred_numeral k" for k, folded numeral_eq_Suc]
lemmas parse_octets_numeral = parse_octets.simps(2) [of "pred_numeral k" for k, folded numeral_eq_Suc]
lemmas parse_ipv6_loop_numeral = parse_ipv6_loop.simps(2) [of "pred_numeral k" for k, folded numeral_eq_Suc]

lemmas net_eval = mask_bytes_numeral parse_octets_numeral parse_ipv6_loop_numeral
  dtoi_def xtoi_def is_digit_def digit_val_def hex_val_def parse_ipv4_def parse_ipv6_def parse_ip_def
  split_host_port_def last_index_def

section \<open>Reading back printed addresses\<close>

definition dotted :: "nat \<Rightarrow> nat \<Rightarrow> nat \<Rightarrow> nat \<Rightarrow> string" where
  "dotted a b c d =
     show_nat a @ CHR ''.'' # show_nat b @ CHR ''.'' # show_nat c @ CHR ''.'' # show_nat d"

abbreviation digits_value :: "nat \<Rightarrow> string \<Rightarrow> nat" where
  "digits_value m s \<equiv> foldl (\<lambda>n c. 10 * n + digit_val c) m s"

lemma digits_value_ge: "m \<le> digits_value m s"
proof (induction s arbitrary: m)
  case Nil
  show ?case by simp
next
  case (Cons c s)
  have "m \<le> 10 * m + digit_val c" by simp
  also have "\<dots> \<le> digits_value (10 * m + digit_val c) s" by (rule Cons)
  finally show ?case by simp
qed

lemma dtoi_loop_digits:
  "\<forall>c \<in> set s. is_digit c \<Longrightarrow> digits_value m s < 0xFFFFFF \<Longrightarrow> rest = [] \<or> \<not> is_digit (hd rest) \<Longrightarrow>
   dtoi_loop m (s @ rest) = Some (digits_value m s, rest)"
proof (induction s arbitrary: m)
  case Nil
  then show ?case by (cases rest) auto
next
  case (Cons c s)
  then have "10 * m + digit_val c < 0xFFFFFF"
    using digits_value_ge [of "10 * m + digit_val c" s] by simp
  with Cons show ?case by (simp add: Let_def mult.commute)
qed

lemma dtoi_show_nat:
  assumes "n < 0xFFFFFF" and "rest = [] \<or> \<not> is_digit (hd rest)"
  shows "dtoi (show_nat n @ rest) = Some (n, rest)"
proof -
  obtain c s where cs: "show_nat n = c # s" by (cases "show_nat n") auto
  then have "is_digit c" using show_nat_digits [of n] by simp
  moreover have "digits_value 0 (show_nat n) = n"
    using nat_of_digits_show_nat [of n] by (simp add: nat_of_digits_def)
  then have "dtoi_loop 0 (show_nat n @ rest) = Some (n, rest)"
    using dtoi_loop_digits [OF show_nat_digits, of 0 n rest] assms by simp
  ultimately show ?thesis using cs by (simp add: dtoi_def)
qed

lemma dtoi_show_nat_end: "n < 0xFFFFFF \<Longrightarrow> dtoi (show_nat n) = Some (n, [])"
  using dtoi_show_nat [of n "[]"] by simp

lemma dtoi_show_nat_dot: "n < 0xFFFFFF \<Longrightarrow> dtoi (show_nat n @ CHR ''.'' # s) = Some (n, CHR ''.'' # s)"
  by (rule dtoi_show_nat) (simp_all add: is_digit_def)

lemma dot_not_digit [simp]: "\<not> is_digit (CHR ''.'')"
  by (simp add: is_digit_def)

lemma parse_octets_dotted:
  assumes "a < 256" "b < 256" "c < 256" "d < 256"
  shows "parse_octets 4 True (dotted a b c d) [] = Some [of_nat a, of_nat b, of_nat c, of_nat d]"
proof -
  have four: "(4::nat) = Suc (Suc (Suc (Suc 0)))" by simp
  show ?thesis
    unfolding dotted_def four
    using assms by (simp add: dtoi_show_nat_dot dtoi_show_nat_end)
qed

lemma show_nat_no_sep: "\<not> is_digit x \<Longrightarrow> x \<notin> set (show_nat n)"
  using show_nat_digits by blast

lemma ip_family_digits: "\<forall>c \<in> set s. is_digit c \<Longrightarrow> ip_family (s @ CHR ''.'' # t) = Some (CHR ''.'')"
  by (induction s) (auto simp: is_digit_def)

lemma parse_ip_dotted:
  assumes "a < 256" "b < 256" "c < 256" "d < 256"
  shows "parse_ip (dotted a b c d) = Some (v4_prefix @ [of_nat a, of_nat b, of_nat c, of_nat d])"
proof -
  have "ip_family (dotted a b c d) = Some (CHR ''.'')"
    unfolding dotted_def by (rule ip_family_digits [OF show_nat_digits])
  then show ?thesis
    by (simp add: parse_ip_def parse_ipv4_def parse_octets_dotted [OF assms])
qed

lemma dotted_plain: "plain_host (dotted a b c d)" "CHR ''%'' \<notin> set (dotted a b c d)"
  by (auto simp: plain_host_def dotted_def show_nat_no_sep is_digit_def)

end
