(* ===== verification/UrlValidator.thy ===== *)
theory UrlValidator
  imports NetAddr
begin

text \<open>
  \<open>pkg/shared/urlvalidator.go\<close>: which URLs, hosts, addresses and ports may be suggested
  to alkasir. The package variables filled by \<open>init\<close> are constants; the log lines of the
  refusals are left out. A \<open>url.URL\<close> has the two fields the code reads.
\<close>

record url =
  u_scheme :: string
  u_host :: string

definition disallowed_cidrs :: "string list" where
  "disallowed_cidrs = [''10.0.0.0/8'', ''172.16.0.0/12'', ''192.168.0.0/16'', ''127.0.0.0/8'']"

text \<open>\<open>init\<close> panics on a prefix that does not parse; \<open>disallowed_nets_parse\<close> below shows
  that none does.\<close>

definition disallowed_nets :: "ipnet list" where
  "disallowed_nets = List.map_filter parse_cidr disallowed_cidrs"

definition disallowed_hosts :: "string list" where
  "disallowed_hosts = [''localhost'']"

definition allowed_protocols :: "string list" where
  "allowed_protocols = [''http'', ''https'']"

definition disallowed_ports :: "int list" where
  "disallowed_ports =
     [1, 7, 9, 11, 13, 15, 17, 19, 20, 21, 22, 23, 25, 37, 42, 43, 53, 77, 79, 87, 95,
      101, 102, 103, 104, 109, 110, 111, 113, 115, 117, 119, 123, 135, 139, 143, 179,
      389, 465, 512, 513, 514, 515, 526, 530, 531, 532, 540, 556, 563, 587, 601, 636,
      993, 995, 2049, 3659, 4045, 6000, 6665, 6666, 6667, 6668, 6669]"

definition accepted_ip :: "ip \<Rightarrow> bool" where
  "accepted_ip ip \<longleftrightarrow>
     (if is_loopback ip \<or> ip_equal ip (v4_prefix @ [0,0,0,0]) \<or> ip_equal ip (replicate 16 0) then False
      else \<not> list_ex (\<lambda>n. net_contains n ip) disallowed_nets)"

definition accepted_host :: "string \<Rightarrow> bool" where
  "accepted_host host \<longleftrightarrow>
     (if trim_space host = [] then False
      else
        (let h = (if CHR '':'' \<in> set host
                  then (case split_host_port host of Inr (onlyhost, _) \<Rightarrow> onlyhost | Inl _ \<Rightarrow> host)
                  else host)
         in if h \<in> set disallowed_hosts then False
            else (case parse_ip h of Some ip \<Rightarrow> accepted_ip ip | None \<Rightarrow> True)))"

definition accepted_url :: "url \<Rightarrow> bool" where
  "accepted_url u \<longleftrightarrow>
     (if u_scheme u \<notin> set allowed_protocols then False else accepted_host (u_host u))"

definition accepted_port :: "int \<Rightarrow> bool" where
  "accepted_port p \<longleftrightarrow> p \<notin> set disallowed_ports"

section \<open>The private IPv4 ranges\<close>

text \<open>What the prefixes mean: loopback, zero and the three private ranges of RFC 1918.\<close>

definition reserved4 :: "nat \<Rightarrow> nat \<Rightarrow> nat \<Rightarrow> nat \<Rightarrow> bool" where
  "reserved4 a b c d \<longleftrightarrow>
     a = 127 \<or> a = 10 \<or> (a = 172 \<and> 16 \<le> b \<and> b \<le> 31) \<or> (a = 192 \<and> b = 168) \<or>
     (a = 0 \<and> b = 0 \<and> c = 0 \<and> d = 0)"

lemma disallowed_nets_parse: "list_all (\<lambda>s. parse_cidr s \<noteq> None) disallowed_cidrs"
  by (simp add: disallowed_cidrs_def parse_cidr_def net_eval)

lemma disallowed_nets_eq:
  "disallowed_nets =
     [\<lparr>net_ip = [10,0,0,0], net_mask = [255,0,0,0]\<rparr>,
      \<lparr>net_ip = [172,16,0,0], net_mask = [255,240,0,0]\<rparr>,
      \<lparr>net_ip = [192,168,0,0], net_mask = [255,255,0,0]\<rparr>,
      \<lparr>net_ip = [127,0,0,0], net_mask = [255,0,0,0]\<rparr>]"
  by (simp add: disallowed_nets_def disallowed_cidrs_def List.map_filter_simps parse_cidr_def net_eval v4_prefix_def)

lemma and_255 [simp]: "(x :: byte) AND 255 = x"
proof -
  have "(255 :: byte) = - 1" by simp
  then show ?thesis by (simp only: and.right_neutral)
qed

lemma replicate_16: "replicate 16 (0 :: byte) = [0,0,0,0,0,0,0,0,0,0,0,0,0,0,0,0]"
  by code_simp

lemma and_240_eq_16: "(16 = (of_nat b :: byte) AND 240) \<longleftrightarrow> 16 \<le> b \<and> b \<le> 31" if "b < 256"
proof -
  have "list_all (\<lambda>n. (16 = (of_nat n :: byte) AND 240) \<longleftrightarrow> 16 \<le> n \<and> n \<le> 31) [0..<256]"
    by code_simp
  with that show ?thesis by (simp add: list_all_iff)
qed

lemma of_nat_byte_eq: "a < 256 \<Longrightarrow> b < 256 \<Longrightarrow> (of_nat a :: byte) = of_nat b \<longleftrightarrow> a = b"
  by (simp add: word_of_nat_eq_iff take_bit_nat_eq_self)

lemma to4_mapped [simp]: "length q = 4 \<Longrightarrow> to4 (v4_prefix @ q) = Some q"
  by (simp add: to4_def v4_prefix_def)

lemma net_contains_mapped: "length q = 4 \<Longrightarrow> net_contains n (v4_prefix @ q) = net_contains n q"
  by (simp add: net_contains_def to4_def [of q])

text \<open>The IPv4-mapped form of an address is judged as the address itself.\<close>

lemma accepted_ip_mapped: "length q = 4 \<Longrightarrow> accepted_ip (v4_prefix @ q) = accepted_ip q"
proof -
  assume q: "length q = 4"
  have "is_loopback (v4_prefix @ q) = is_loopback q"
    using q by (simp add: is_loopback_def to4_def [of q])
  moreover have "ip_equal (v4_prefix @ q) (v4_prefix @ [0,0,0,0]) = ip_equal q (v4_prefix @ [0,0,0,0])"
    using q by (auto simp: ip_equal_def v4_prefix_def)
  moreover have "ip_equal (v4_prefix @ q) (replicate 16 0) = ip_equal q (replicate 16 0)"
    using q by (simp add: ip_equal_def v4_prefix_def replicate_16)
  ultimately show ?thesis
    using q by (simp add: accepted_ip_def net_contains_mapped)
qed

lemma byte_eq_numeral:
  assumes "n < 256" and "numeral k < (256 :: nat)"
  shows "(of_nat n :: byte) = numeral k \<longleftrightarrow> n = numeral k"
    and "numeral k = (of_nat n :: byte) \<longleftrightarrow> n = numeral k"
  using of_nat_byte_eq [OF assms] by auto

lemma byte_eq_zero: "n < 256 \<Longrightarrow> (of_nat n :: byte) = 0 \<longleftrightarrow> n = 0"
  using of_nat_byte_eq [of n 0] by simp

lemma nets_octets:
  assumes "a < 256" "b < 256"
  shows "list_ex (\<lambda>n. net_contains n [of_nat a, of_nat b, x, y]) disallowed_nets \<longleftrightarrow>
      a = 10 \<or> (a = 172 \<and> 16 \<le> b \<and> b \<le> 31) \<or> (a = 192 \<and> b = 168) \<or> a = 127"
  using assms
  by (simp add: disallowed_nets_eq net_contains_def to4_def byte_eq_numeral and_240_eq_16)

lemma accepted_ip_octets:
  assumes "a < 256" "b < 256" "c < 256" "d < 256"
  shows "accepted_ip [of_nat a, of_nat b, of_nat c, of_nat d] \<longleftrightarrow> \<not> reserved4 a b c d"
proof -
  let ?q = "[of_nat a, of_nat b, of_nat c, of_nat d] :: byte list"
  have "is_loopback ?q \<longleftrightarrow> a = 127"
    using assms by (simp add: is_loopback_def to4_def byte_eq_numeral)
  moreover have "ip_equal ?q (v4_prefix @ [0,0,0,0]) \<longleftrightarrow> a = 0 \<and> b = 0 \<and> c = 0 \<and> d = 0"
    using byte_eq_zero assms by (auto simp: ip_equal_def v4_prefix_def)
  moreover have "\<not> ip_equal ?q (replicate 16 0)"
    by (simp add: ip_equal_def v4_prefix_def replicate_16)
  ultimately show ?thesis
    unfolding accepted_ip_def nets_octets [OF assms(1,2)] reserved4_def by auto
qed

text \<open>Hosts written as an address, alone or with a port.\<close>

lemma dotted_trim: "trim_space (dotted a b c d @ s) \<noteq> []"
  by (rule trim_space_not_Nil [of "CHR ''.''"]) (auto simp: dotted_def graphic_def)

lemma accepted_host_dotted_core:
  assumes "a < 256" "b < 256" "c < 256" "d < 256"
    and "s = [] \<or> (\<exists>p. s = CHR '':'' # p \<and> plain_host p)"
  shows "accepted_host (dotted a b c d @ s) \<longleftrightarrow> \<not> reserved4 a b c d"
proof -
  have "CHR ''.'' \<in> set (dotted a b c d)" by (simp add: dotted_def)
  then have name: "dotted a b c d \<notin> set disallowed_hosts"
    by (auto simp: disallowed_hosts_def)
  have host: "(if CHR '':'' \<in> set (dotted a b c d @ s)
      then (case split_host_port (dotted a b c d @ s) of Inr (onlyhost, _) \<Rightarrow> onlyhost | Inl _ \<Rightarrow> dotted a b c d @ s)
      else dotted a b c d @ s) = dotted a b c d"
    using assms(5) dotted_plain split_host_port_plain by (auto simp: plain_hostD)
  show ?thesis
    unfolding accepted_host_def host Let_def
    using name dotted_trim parse_ip_dotted [OF assms(1-4)] accepted_ip_octets [OF assms(1-4)]
    by (simp add: accepted_ip_mapped)
qed

section \<open>Properties\<close>

text \<open>
  C21. A host written as a dotted IPv4 address, with or without a port, is accepted exactly
  when the address is outside loopback, zero and the three private ranges: no spelling of a
  private address as \<open>a.b.c.d\<close> or \<open>a.b.c.d:port\<close> gets through, and no public one is refused.
\<close>

theorem accepted_host_dotted:
  assumes "a < 256" "b < 256" "c < 256" "d < 256" and "plain_host p"
  shows "(accepted_host (dotted a b c d) \<longleftrightarrow> \<not> reserved4 a b c d) \<and>
    (accepted_host (dotted a b c d @ CHR '':'' # p) \<longleftrightarrow> \<not> reserved4 a b c d)"
  using accepted_host_dotted_core [OF assms(1-4), of "[]"]
    accepted_host_dotted_core [OF assms(1-4), of "CHR '':'' # p"] assms(5)
  by simp_all

lemma accepted_host_dotted_witness:
  "\<not> accepted_host (dotted 172 31 0 9 @ CHR '':'' # ''80'') \<and> accepted_host (dotted 172 32 0 9)"
  using accepted_host_dotted [of 172 31 0 9 "''80''"] accepted_host_dotted [of 172 32 0 9 "''80''"]
  by (simp add: plain_host_def reserved4_def)

lemma parse_ip_bracket: "parse_ip (CHR ''['' # h) = None"
proof -
  have "parse_octets 4 True (CHR ''['' # h) [] = None"
    by (simp add: parse_octets_numeral dtoi_def is_digit_def)
  moreover have "parse_ipv6_loop 8 (CHR ''['' # h) [] None = None"
    by (simp add: parse_ipv6_loop_numeral xtoi_def hex_val_def)
  ultimately show ?thesis
    by (simp add: parse_ip_def parse_ipv4_def parse_ipv6_def has_prefix_def split: option.split)
qed

lemma accepted_host_bracket:
  assumes "CHR '']'' \<notin> set h"
  shows "accepted_host (CHR ''['' # h @ '']'')"
proof -
  let ?H = "CHR ''['' # h @ '']''"
  have b: "byte_index (CHR '']'') ?H = Some (Suc (length h))"
    using byte_index_append [of "CHR '']''" "CHR ''['' # h" "[]"] assms by simp
  have "split_host_port ?H = Inl MissingPort" if "CHR '':'' \<in> set ?H"
  proof -
    have "last_index (CHR '':'') ?H \<noteq> None" using that by (simp only: last_index_None not_not)
    then obtain i where i: "last_index (CHR '':'') ?H = Some i" by (auto simp only: not_None_eq)
    show ?thesis unfolding split_host_port_def i b by (simp add: Let_def)
  qed
  then have host: "(if CHR '':'' \<in> set ?H
      then (case split_host_port ?H of Inr (onlyhost, _) \<Rightarrow> onlyhost | Inl _ \<Rightarrow> ?H) else ?H) = ?H"
    by auto
  have "trim_space ?H \<noteq> []"
    by (rule trim_space_not_Nil [of "CHR ''[''"]) (auto simp: graphic_def)
  moreover have "?H \<notin> set disallowed_hosts" by (simp add: disallowed_hosts_def)
  ultimately show ?thesis
    unfolding accepted_host_def host Let_def by (simp add: parse_ip_bracket)
qed

lemmas replicate_eval = replicate_Suc [of "pred_numeral k" for k, folded numeral_eq_Suc]

lemma special_ipv6_refused:
  "\<not> accepted_ip [0,0,0,0,0,0,0,0,0,0,0,0,0,0,0,1]" "\<not> accepted_ip (replicate 16 0)"
  by (simp_all add: accepted_ip_def is_loopback_def to4_def ip_equal_def v4_prefix_def replicate_eval)

lemma accepted_host_special_ipv6: "\<not> accepted_host ''[::1]:80''" "\<not> accepted_host ''[::]:80''"
proof -
  have p: "parse_ip ''::1'' = Some [0,0,0,0,0,0,0,0,0,0,0,0,0,0,0,1]" "parse_ip ''::'' = Some (replicate 16 0)"
    by (simp_all add: net_eval has_prefix_def replicate_eval)
  have t: "trim_space ''[::1]:80'' \<noteq> []" "trim_space ''[::]:80'' \<noteq> []"
    by (rule trim_space_not_Nil [of "CHR ''[''"]; simp add: graphic_def)+
  have h: "split_host_port ''[::1]:80'' = Inr (''::1'', ''80'')" "split_host_port ''[::]:80'' = Inr (''::'', ''80'')"
    using split_host_port_bracket [of "''::1''" "''80''"] split_host_port_bracket [of "''::''" "''80''"]
    by (simp_all add: plain_host_def)
  show "\<not> accepted_host ''[::1]:80''" "\<not> accepted_host ''[::]:80''"
    unfolding accepted_host_def using p t h special_ipv6_refused
    by (simp_all add: disallowed_hosts_def)
qed

text \<open>
  A bracketed IPv6 literal without a port, which is what \<open>url.URL.Host\<close> holds for
  \<open>http://[::1]/\<close>, is never judged as an address: \<open>net.SplitHostPort\<close> fails for want of a
  port, the host keeps its brackets and is accepted whatever is between them, so the
  loopback and zero addresses pass, though they are refused with a port.
\<close>

lemma bracketed_host_accepted:
  "(\<forall>h. CHR '']'' \<notin> set h \<longrightarrow> accepted_host (CHR ''['' # h @ '']'')) \<and>
   \<not> accepted_host ''[::1]:80'' \<and> \<not> accepted_host ''[::]:80''"
  using accepted_host_bracket accepted_host_special_ipv6 by blast

lemma bracketed_host_accepted_witness: "accepted_host ''[::1]''"
  using bracketed_host_accepted [THEN conjunct1, rule_format, of "''::1''"] by simp

end
