(* ===== verification/GoText.thy ===== *)
theory GoText
  imports GoPrelude
begin

text \<open>
  The text formats of Go's standard library that the code relies on: UTF-8, the two URL
  alphabets of \<open>encoding/base64\<close>, and \<open>encoding/json\<close> (the scanner, string unquoting,
  and the escapes of \<open>json.Marshal\<close>).
\<close>

section \<open>UTF-8\<close>

text \<open>
  \<open>utf8.DecodeRune\<close>: the code point at the front of a non-empty string and its width;
  \<open>(0xFFFD, 1)\<close> for an ill-formed sequence.
\<close>

definition cont_byte :: "char \<Rightarrow> bool" where
  "cont_byte c \<longleftrightarrow> (128::nat) \<le> of_char c \<and> of_char c < (192::nat)"

definition decode_rune :: "string \<Rightarrow> nat \<times> nat" where
  "decode_rune s =
     (case s of
        [] \<Rightarrow> (0xFFFD, 0)
      | c0 # t \<Rightarrow>
          let b0 = of_char c0 :: nat; bad = (0xFFFD, 1);
              ct = (\<lambda>i. if i < length t \<and> cont_byte (t ! i) then Some (of_char (t ! i) - 128 :: nat) else None)
          in if b0 < 128 then (b0, 1)
             else if 194 \<le> b0 \<and> b0 < 224 then
               (case ct 0 of Some x \<Rightarrow> ((b0 - 192) * 64 + x, 2) | None \<Rightarrow> bad)
             else if 224 \<le> b0 \<and> b0 < 240 then
               (case (ct 0, ct 1) of
                  (Some x, Some y) \<Rightarrow>
                    (let r = (b0 - 224) * 4096 + x * 64 + y in
                     if r < 2048 \<or> (0xD800 \<le> r \<and> r \<le> 0xDFFF) then bad else (r, 3))
                | _ \<Rightarrow> bad)
             else if 240 \<le> b0 \<and> b0 < 245 then
               (case (ct 0, ct 1, ct 2) of
                  (Some x, Some y, Some z) \<Rightarrow>
                    (let r = (b0 - 240) * 262144 + x * 4096 + y * 64 + z in
                     if r < 65536 \<or> 0x10FFFF < r then bad else (r, 4))
                | _ \<Rightarrow> bad)
             else bad)"

text \<open>\<open>utf8.EncodeRune\<close>; surrogates and values past the end of the range become \<open>U+FFFD\<close>.\<close>

definition encode_rune :: "nat \<Rightarrow> string" where
  "encode_rune r0 =
     (let r = (if 0x10FFFF < r0 \<or> (0xD800 \<le> r0 \<and> r0 \<le> 0xDFFF) then 0xFFFD else r0) in
      if r < 128 then [char_of r]
      else if r < 2048 then [char_of (192 + r div 64), char_of (128 + r mod 64)]
      else if r < 65536 then
        [char_of (224 + r div 4096), char_of (128 + r div 64 mod 64), char_of (128 + r mod 64)]
      else
        [char_of (240 + r div 262144), char_of (128 + r div 4096 mod 64),
         char_of (128 + r div 64 mod 64), char_of (128 + r mod 64)])"

definition ascii :: "string \<Rightarrow> bool" where
  "ascii s \<longleftrightarrow> (\<forall>c \<in> set s. of_char c < (128::nat))"

lemma ascii_simps [simp]: "ascii []" "ascii (c # s) \<longleftrightarrow> of_char c < (128::nat) \<and> ascii s"
  "ascii (s @ t) \<longleftrightarrow> ascii s \<and> ascii t"
  by (auto simp: ascii_def)

lemma decode_rune_width: "s \<noteq> [] \<Longrightarrow> 0 < snd (decode_rune s)"
  by (auto simp: decode_rune_def Let_def split: list.splits option.splits)

section \<open>Base64\<close>

text \<open>The URL alphabet, and the value of a character of it.\<close>

definition b64_alphabet :: string where
  "b64_alphabet = ''ABCDEFGHIJKLMNOPQRSTUVWXYZabcdefghijklmnopqrstuvwxyz0123456789-_''"

definition b64_char :: "nat \<Rightarrow> char" where
  "b64_char x =
     (if x < 26 then char_of (65 + x) else if x < 52 then char_of (71 + x)
      else if x < 62 then char_of (x - 4) else if x = 62 then CHR ''-'' else CHR ''_'')"

definition b64_val :: "char \<Rightarrow> nat option" where
  "b64_val c =
     (let n = of_char c :: nat in
      if 65 \<le> n \<and> n \<le> 90 then Some (n - 65)
      else if 97 \<le> n \<and> n \<le> 122 then Some (n - 71)
      else if 48 \<le> n \<and> n \<le> 57 then Some (n + 4)
      else if n = 45 then Some 62
      else if n = 95 then Some 63
      else None)"

text \<open>\<open>padded\<close> is \<open>base64.URLEncoding\<close>, otherwise \<open>base64.RawURLEncoding\<close>.\<close>

fun b64_encode :: "bool \<Rightarrow> string \<Rightarrow> string" where
  "b64_encode padded [] = []"
| "b64_encode padded [a] =
     (let x = of_char a :: nat in
      [b64_char (x div 4), b64_char (x mod 4 * 16)] @ (if padded then ''=='' else []))"
| "b64_encode padded [a, b] =
     (let x = of_char a :: nat; y = of_char b :: nat in
      [b64_char (x div 4), b64_char (x mod 4 * 16 + y div 16), b64_char (y mod 16 * 4)]
      @ (if padded then ''='' else []))"
| "b64_encode padded (a # b # c # s) =
     (let x = of_char a :: nat; y = of_char b :: nat; z = of_char c :: nat in
      [b64_char (x div 4), b64_char (x mod 4 * 16 + y div 16),
       b64_char (y mod 16 * 4 + z div 64), b64_char (z mod 64)] @ b64_encode padded s)"

text \<open>\<open>Decode\<close> of the padded encoding, after the line breaks have been taken out.\<close>

definition b64_bytes1 :: "nat \<Rightarrow> nat \<Rightarrow> string" where
  "b64_bytes1 x y = [char_of (x * 4 + y div 16)]"

definition b64_bytes2 :: "nat \<Rightarrow> nat \<Rightarrow> nat \<Rightarrow> string" where
  "b64_bytes2 x y z = b64_bytes1 x y @ [char_of (y mod 16 * 16 + z div 4)]"

definition b64_bytes3 :: "nat \<Rightarrow> nat \<Rightarrow> nat \<Rightarrow> nat \<Rightarrow> string" where
  "b64_bytes3 x y z w = b64_bytes2 x y z @ [char_of (z mod 4 * 64 + w)]"

fun b64_quanta :: "string \<Rightarrow> string option" where
  "b64_quanta [] = Some []"
| "b64_quanta (a # b # c # d # s) =
     (case (b64_val a, b64_val b) of
        (Some x, Some y) \<Rightarrow>
          if c = CHR ''='' then (if d = CHR ''='' \<and> s = [] then Some (b64_bytes1 x y) else None)
          else (case b64_val c of
                  None \<Rightarrow> None
                | Some z \<Rightarrow>
                    if d = CHR ''='' then (if s = [] then Some (b64_bytes2 x y z) else None)
                    else (case b64_val d of
                            None \<Rightarrow> None
                          | Some w \<Rightarrow> map_option ((@) (b64_bytes3 x y z w)) (b64_quanta s)))
      | _ \<Rightarrow> None)"
| "b64_quanta _ = None"

definition b64_decode :: "string \<Rightarrow> string option" where
  "b64_decode s = b64_quanta (filter (\<lambda>c. c \<noteq> CHR 0x0A \<and> c \<noteq> CHR 0x0D) s)"

lemma b64_val_char: "x < 64 \<Longrightarrow> b64_val (b64_char x) = Some x"
  by (auto simp: b64_val_def b64_char_def Let_def)

lemma b64_char_neq:
  "x < 64 \<Longrightarrow> b64_char x \<noteq> CHR ''=''" "x < 64 \<Longrightarrow> b64_char x \<noteq> CHR 0x0A"
  "x < 64 \<Longrightarrow> b64_char x \<noteq> CHR 0x0D"
  by (auto dest!: b64_val_char simp: b64_val_def)

lemma of_char_lt [simp]: "(of_char (c::char) :: nat) < 256"
  by simp

lemma pack_div_mod:
  fixes k m n :: nat
  assumes "k < n"
  shows "(m * n + k) div n = m" "(m * n + k) mod n = k"
  using assms by simp_all

lemma sextets:
  fixes x y z :: nat
  assumes "x < 256" "y < 256" "z < 256"
  shows "x div 4 < 64" "x mod 4 * 16 < 64" "x mod 4 * 16 + y div 16 < 64"
    "y mod 16 * 4 < 64" "y mod 16 * 4 + z div 64 < 64" "z mod 64 < 64"
proof -
  have "x mod 4 < 4" "y mod 16 < 16" "y div 16 < 16" "z div 64 < 4"
    using assms by (simp_all add: less_mult_imp_div_less)
  then show "x mod 4 * 16 < 64" "x mod 4 * 16 + y div 16 < 64"
    "y mod 16 * 4 < 64" "y mod 16 * 4 + z div 64 < 64" by linarith+
  show "x div 4 < 64" "z mod 64 < 64" using assms by (simp_all add: less_mult_imp_div_less)
qed

lemma b64_bytes_inverse:
  fixes x y z :: nat
  assumes "x < 256" "y < 256" "z < 256"
  shows "x div 4 * 4 + x mod 4 * 16 div 16 = x"
    "x div 4 * 4 + (x mod 4 * 16 + y div 16) div 16 = x"
    "(x mod 4 * 16 + y div 16) mod 16 * 16 + y mod 16 * 4 div 4 = y"
    "(x mod 4 * 16 + y div 16) mod 16 * 16 + (y mod 16 * 4 + z div 64) div 4 = y"
    "(y mod 16 * 4 + z div 64) mod 4 * 64 + z mod 64 = z"
proof -
  have "y div 16 < 16" "z div 64 < 4"
    using assms by (simp_all add: less_mult_imp_div_less)
  note p = pack_div_mod [OF this(1), of "x mod 4"] pack_div_mod [OF this(2), of "y mod 16"]
  show "x div 4 * 4 + x mod 4 * 16 div 16 = x"
    by simp
  show "x div 4 * 4 + (x mod 4 * 16 + y div 16) div 16 = x"
    by (simp only: p div_mult_mod_eq)
  show "(x mod 4 * 16 + y div 16) mod 16 * 16 + y mod 16 * 4 div 4 = y"
    by (simp only: p) simp
  show "(x mod 4 * 16 + y div 16) mod 16 * 16 + (y mod 16 * 4 + z div 64) div 4 = y"
    by (simp only: p div_mult_mod_eq)
  show "(y mod 16 * 4 + z div 64) mod 4 * 64 + z mod 64 = z"
    by (simp only: p div_mult_mod_eq)
qed

lemma nibble_high: "(of_char (b::char) :: nat) div 16 div 16 = 0" "(of_char b :: nat) div 16 mod 16 = of_char b div 16"
proof -
  have "(of_char b :: nat) div 16 < 16" using of_char_lt [of b] by (simp add: less_mult_imp_div_less)
  then show "(of_char b :: nat) div 16 div 16 = 0" "(of_char b :: nat) div 16 mod 16 = of_char b div 16" by simp_all
qed

lemma pair_high: "(of_char (b::char) :: nat) div 64 div 4 = 0" "(of_char b :: nat) div 64 mod 4 = of_char b div 64"
proof -
  have "(of_char b :: nat) div 64 < 4" using of_char_lt [of b] by (simp add: less_mult_imp_div_less)
  then show "(of_char b :: nat) div 64 div 4 = 0" "(of_char b :: nat) div 64 mod 4 = of_char b div 64" by simp_all
qed

lemma b64_quanta_encode: "b64_quanta (b64_encode True s) = Some s"
proof (induction True s rule: b64_encode.induct)
  case (2 a)
  have "(of_char a :: nat) < 256" by simp
  note s = sextets [OF this this this] and i = b64_bytes_inverse [OF this this this]
  show ?case by (simp add: Let_def b64_val_char s b64_bytes1_def i)
next
  case (3 a b)
  have "(of_char a :: nat) < 256" "(of_char b :: nat) < 256" by simp_all
  note s = sextets [OF this this(2)] and i = b64_bytes_inverse [OF this this(2)]
  show ?case by (simp add: Let_def b64_val_char b64_char_neq s b64_bytes1_def b64_bytes2_def i nibble_high)
next
  case (4 a b c s)
  have "(of_char a :: nat) < 256" "(of_char b :: nat) < 256" "(of_char c :: nat) < 256" by simp_all
  note s = sextets [OF this] and i = b64_bytes_inverse [OF this]
  show ?case
    by (simp add: Let_def b64_val_char b64_char_neq s b64_bytes1_def b64_bytes2_def b64_bytes3_def i
        nibble_high pair_high 4 [OF refl refl refl])
qed simp

lemma b64_encode_no_breaks:
  "filter (\<lambda>c. c \<noteq> CHR 0x0A \<and> c \<noteq> CHR 0x0D) (b64_encode p s) = b64_encode p s"
proof (induction p s rule: b64_encode.induct)
  case (2 p a)
  have "(of_char a :: nat) < 256" by simp
  note s = sextets [OF this this this]
  show ?case by (simp add: Let_def b64_char_neq s)
next
  case (3 p a b)
  have "(of_char a :: nat) < 256" "(of_char b :: nat) < 256" by simp_all
  note s = sextets [OF this this(2)]
  show ?case by (simp add: Let_def b64_char_neq s)
next
  case (4 p a b c s)
  have "(of_char a :: nat) < 256" "(of_char b :: nat) < 256" "(of_char c :: nat) < 256" by simp_all
  note s = sextets [OF this]
  show ?case using 4 by (simp add: Let_def b64_char_neq s)
qed simp

lemma b64_decode_encode: "b64_decode (b64_encode True s) = Some s"
  by (simp add: b64_decode_def b64_encode_no_breaks b64_quanta_encode)

end
