(* ===== verification/GoJson.thy ===== *)
theory GoJson
  imports GoText
begin

text \<open>
  \<open>encoding/json\<close> of Go 1.5 as far as the code uses it: the escapes \<open>json.Marshal\<close>
  writes into a string, the scanner with its unquoting of strings, and a syntax tree from
  which the components read the fields of their structs.
\<close>

section \<open>Writing strings\<close>

abbreviation backslash :: char where "backslash \<equiv> CHR 0x5C"
abbreviation dquote :: char where "dquote \<equiv> CHR 0x22"

definition json_esc_char :: "char \<Rightarrow> string" where
  "json_esc_char c =
     (let n = of_char c :: nat in
      if n = 0x5C \<or> n = 0x22 then [backslash, c]
      else if n = 10 then [backslash, CHR ''n'']
      else if n = 13 then [backslash, CHR ''r'']
      else if n < 32 \<or> n = 60 \<or> n = 62 \<or> n = 38
        then [backslash, CHR ''u'', CHR ''0'', CHR ''0'', hex_digit (n div 16), hex_digit (n mod 16)]
      else [c])"

function json_escape :: "string \<Rightarrow> string" where
  "json_escape [] = []"
| "json_escape (c # s) =
     (if of_char c < (128::nat) then json_esc_char c @ json_escape s
      else if decode_rune (c # s) = (0xFFFD, 1) then backslash # ''ufffd'' @ json_escape s
      else if fst (decode_rune (c # s)) = 0x2028 \<or> fst (decode_rune (c # s)) = 0x2029
        then backslash # ''u202'' @ [hex_digit (fst (decode_rune (c # s)) mod 16)]
             @ json_escape (drop (snd (decode_rune (c # s)) - 1) s)
      else take (snd (decode_rune (c # s))) (c # s)
             @ json_escape (drop (snd (decode_rune (c # s)) - 1) s))"
  by pat_completeness auto
termination
  by (relation "measure length") auto

definition json_string :: "string \<Rightarrow> string" where
  "json_string s = [dquote] @ json_escape s @ [dquote]"

section \<open>Scanning\<close>

datatype json =
    JNull
  | JBool bool
  | JNum string
  | JStr string
  | JArr "json list"
  | JObj "(string \<times> json) list"

definition json_ws :: "char \<Rightarrow> bool" where
  "json_ws c \<longleftrightarrow> c = CHR '' '' \<or> c = CHR 0x09 \<or> c = CHR 0x0A \<or> c = CHR 0x0D"

abbreviation skip_ws :: "string \<Rightarrow> string" where
  "skip_ws s \<equiv> dropWhile json_ws s"

definition hex4 :: "string \<Rightarrow> (nat \<times> string) option" where
  "hex4 s =
     (case s of
        a # b # c # d # t \<Rightarrow>
          (case (hex_val a, hex_val b, hex_val c, hex_val d) of
             (Some w, Some x, Some y, Some z) \<Rightarrow> Some (w * 4096 + x * 256 + y * 16 + z, t)
           | _ \<Rightarrow> None)
      | _ \<Rightarrow> None)"

text \<open>The second half of a surrogate pair, when \<open>\uXXXX\<close> with a low surrogate follows a high one.\<close>

definition low_surrogate :: "nat \<Rightarrow> string \<Rightarrow> (nat \<times> string) option" where
  "low_surrogate hi s =
     (case s of
        b # u # t \<Rightarrow>
          if b = backslash \<and> u = CHR ''u'' then
            (case hex4 t of
               None \<Rightarrow> None
             | Some (lo, t') \<Rightarrow>
                 if 0xD800 \<le> hi \<and> hi < 0xDC00 \<and> 0xDC00 \<le> lo \<and> lo < 0xE000
                 then Some ((hi - 0xD800) * 1024 + (lo - 0xDC00) + 0x10000, t') else None)
          else None
      | _ \<Rightarrow> None)"

definition simple_escape :: "char \<Rightarrow> char option" where
  "simple_escape e =
     (if e = backslash \<or> e = dquote \<or> e = CHR ''/'' then Some e
      else if e = CHR ''b'' then Some (CHR 0x08)
      else if e = CHR ''f'' then Some (CHR 0x0C)
      else if e = CHR ''n'' then Some (CHR 0x0A)
      else if e = CHR ''r'' then Some (CHR 0x0D)
      else if e = CHR ''t'' then Some (CHR 0x09)
      else None)"

lemma hex4_shorter: "hex4 s = Some (n, t) \<Longrightarrow> length t < length s"
  by (auto simp: hex4_def split: list.splits option.splits)

lemma low_surrogate_shorter: "low_surrogate h s = Some (n, t) \<Longrightarrow> length t < length s"
  by (auto simp: low_surrogate_def dest!: hex4_shorter split: list.splits option.splits if_splits)

text \<open>
  The body of a string literal, up to and with the closing quote: the unquoted bytes and
  the rest of the text. Ill-formed UTF-8 and lone surrogates become \<open>U+FFFD\<close>.
\<close>

function scan_string :: "string \<Rightarrow> (string \<times> string) option" where
  "scan_string [] = None"
| "scan_string (c # s) =
     (if c = dquote then Some ([], s)
      else if c = backslash then
        (case s of
           [] \<Rightarrow> None
         | e # s1 \<Rightarrow>
             if e = CHR ''u'' then
               (case hex4 s1 of
                  None \<Rightarrow> None
                | Some (r, s2) \<Rightarrow>
                    (case low_surrogate r s2 of
                       Some (r', s3) \<Rightarrow> map_option (apfst ((@) (encode_rune r'))) (scan_string s3)
                     | None \<Rightarrow> map_option (apfst ((@) (encode_rune r))) (scan_string s2)))
             else
               (case simple_escape e of
                  None \<Rightarrow> None
                | Some b \<Rightarrow> map_option (apfst ((#) b)) (scan_string s1)))
      else if of_char c < (32::nat) then None
      else if of_char c < (128::nat) then map_option (apfst ((#) c)) (scan_string s)
      else map_option (apfst ((@) (encode_rune (fst (decode_rune (c # s))))))
             (scan_string (drop (snd (decode_rune (c # s)) - 1) s)))"
  by pat_completeness auto
termination
  by (relation "measure length") (auto dest!: hex4_shorter low_surrogate_shorter)

text \<open>The grammar of numbers; the text of the number is kept.\<close>

fun digits_prefix :: "string \<Rightarrow> string" where
  "digits_prefix [] = []"
| "digits_prefix (c # s) = (if is_digit c then c # digits_prefix s else [])"

definition scan_number :: "string \<Rightarrow> (string \<times> string) option" where
  "scan_number s =
     (let sign = (if has_prefix s ''-'' then ''-'' else []);
          s1 = drop (length sign) s;
          int_part = (if has_prefix s1 ''0'' then ''0'' else digits_prefix s1);
          s2 = drop (length int_part) s1
      in if int_part = [] then None
         else
           (let frac = (if has_prefix s2 ''.'' then CHR ''.'' # digits_prefix (tl s2) else []);
                s3 = drop (length frac) s2
            in if frac = ''.'' then None
               else
                 (let e = (if has_prefix s3 ''e'' \<or> has_prefix s3 ''E'' then take 1 s3 else []);
                      s4 = drop (length e) s3;
                      esign = (if e \<noteq> [] \<and> (has_prefix s4 ''+'' \<or> has_prefix s4 ''-'') then take 1 s4 else []);
                      s5 = drop (length esign) s4;
                      ex = (if e \<noteq> [] then digits_prefix s5 else [])
                  in if e \<noteq> [] \<and> ex = [] then None
                     else Some (sign @ int_part @ frac @ e @ esign @ ex, drop (length ex) s5))))"

text \<open>
  Values, with the length of the text as a bound on the nesting and the number of elements:
  every call consumes at least one byte of the text or closes a value that did.
\<close>

fun scan_value :: "nat \<Rightarrow> string \<Rightarrow> (json \<times> string) option"
and scan_elems :: "nat \<Rightarrow> string \<Rightarrow> (json list \<times> string) option"
and scan_members :: "nat \<Rightarrow> string \<Rightarrow> ((string \<times> json) list \<times> string) option" where
  "scan_value 0 s = None"
| "scan_value (Suc n) s0 =
     (let s = skip_ws s0 in
      if has_prefix s ''null'' then Some (JNull, drop 4 s)
      else if has_prefix s ''true'' then Some (JBool True, drop 4 s)
      else if has_prefix s ''false'' then Some (JBool False, drop 5 s)
      else (case s of
              [] \<Rightarrow> None
            | c # t \<Rightarrow>
                if c = dquote then map_option (apfst JStr) (scan_string t)
                else if c = CHR ''['' then
                  (if has_prefix (skip_ws t) '']'' then Some (JArr [], tl (skip_ws t))
                   else map_option (apfst JArr) (scan_elems n t))
                else if c = CHR ''{'' then
                  (if has_prefix (skip_ws t) ''}'' then Some (JObj [], tl (skip_ws t))
                   else map_option (apfst JObj) (scan_members n t))
                else map_option (apfst JNum) (scan_number s)))"
| "scan_elems 0 s = None"
| "scan_elems (Suc n) s =
     (case scan_value n s of
        None \<Rightarrow> None
      | Some (v, r) \<Rightarrow>
          (case skip_ws r of
             [] \<Rightarrow> None
           | c # t \<Rightarrow>
               if c = CHR '']'' then Some ([v], t)
               else if c = CHR '','' then map_option (apfst ((#) v)) (scan_elems n t)
               else None))"
| "scan_members 0 s = None"
| "scan_members (Suc n) s =
     (case skip_ws s of
        [] \<Rightarrow> None
      | q # t0 \<Rightarrow>
          if q \<noteq> dquote then None
          else (case scan_string t0 of
             None \<Rightarrow> None
           | Some (k, r0) \<Rightarrow>
               (case skip_ws r0 of
                  [] \<Rightarrow> None
                | col # r1 \<Rightarrow>
                    if col \<noteq> CHR '':'' then None
                    else (case scan_value n r1 of
                       None \<Rightarrow> None
                     | Some (v, r) \<Rightarrow>
                         (case skip_ws r of
                            [] \<Rightarrow> None
                          | c # t \<Rightarrow>
                              if c = CHR ''}'' then Some ([(k, v)], t)
                              else if c = CHR '','' then map_option (apfst ((#) (k, v))) (scan_members n t)
                              else None)))))"

definition parse_json :: "string \<Rightarrow> json option" where
  "parse_json s =
     (case scan_value (Suc (2 * length s)) s of
        Some (v, r) \<Rightarrow> if skip_ws r = [] then Some v else None
      | None \<Rightarrow> None)"

text \<open>
  The key of an object finds a struct field by the field's name up to letter case, where
  the long s (\<open>U+017F\<close>) folds to \<open>s\<close> and the Kelvin sign (\<open>U+212A\<close>) to \<open>k\<close>.
\<close>

fun fold_key :: "string \<Rightarrow> string" where
  "fold_key [] = []"
| "fold_key (a # b # c # s) =
     (if a = CHR 0xC5 \<and> b = CHR 0xBF then CHR ''s'' # fold_key (c # s)
      else if a = CHR 0xE2 \<and> b = CHR 0x84 \<and> c = CHR 0xAA then CHR ''k'' # fold_key s
      else lower_char a # fold_key (b # c # s))"
| "fold_key (a # b # s) =
     (if a = CHR 0xC5 \<and> b = CHR 0xBF then CHR ''s'' # fold_key s else lower_char a # fold_key (b # s))"
| "fold_key (a # s) = lower_char a # fold_key s"

definition key_matches :: "string \<Rightarrow> string \<Rightarrow> bool" where
  "key_matches field key \<longleftrightarrow> fold_key key = field"

text \<open>
  How \<open>json.Unmarshal\<close> fills a struct: a member sets the field its key matches, \<open>null\<close>
  sets nothing in a string, number or boolean, a value of the wrong kind is an error.
\<close>

fun set_string_field :: "(string \<Rightarrow> 'a \<Rightarrow> 'a) \<Rightarrow> json \<Rightarrow> 'a \<Rightarrow> 'a option" where
  "set_string_field f (JStr s) c = Some (f s c)"
| "set_string_field f JNull c = Some c"
| "set_string_field f _ c = None"

fun set_bool_field :: "(bool \<Rightarrow> 'a \<Rightarrow> 'a) \<Rightarrow> json \<Rightarrow> 'a \<Rightarrow> 'a option" where
  "set_bool_field f (JBool b) c = Some (f b c)"
| "set_bool_field f JNull c = Some c"
| "set_bool_field f _ c = None"

text \<open>An \<open>int\<close> of 64 bits takes a number without fraction and exponent that fits.\<close>

definition json_int :: "string \<Rightarrow> int option" where
  "json_int t =
     (let neg = has_prefix t ''-''; d = (if neg then drop 1 t else t);
          v = (if neg then - int (nat_of_digits d) else int (nat_of_digits d))
      in if d \<noteq> [] \<and> list_all is_digit d \<and> - (2 ^ 63) \<le> v \<and> v < 2 ^ 63 then Some v else None)"

fun set_int_field :: "(int \<Rightarrow> 'a \<Rightarrow> 'a) \<Rightarrow> json \<Rightarrow> 'a \<Rightarrow> 'a option" where
  "set_int_field f (JNum t) c = map_option (\<lambda>i. f i c) (json_int t)"
| "set_int_field f JNull c = Some c"
| "set_int_field f _ c = None"

fun set_members :: "(string \<times> json \<Rightarrow> 'a \<Rightarrow> 'a option) \<Rightarrow> (string \<times> json) list \<Rightarrow> 'a \<Rightarrow> 'a option" where
  "set_members f [] c = Some c"
| "set_members f (m # ms) c = (case f m c of None \<Rightarrow> None | Some c' \<Rightarrow> set_members f ms c')"

fun set_struct :: "(string \<times> json \<Rightarrow> 'a \<Rightarrow> 'a option) \<Rightarrow> json \<Rightarrow> 'a \<Rightarrow> 'a option" where
  "set_struct f (JObj ms) c = set_members f ms c"
| "set_struct f JNull c = Some c"
| "set_struct f _ c = None"

section \<open>Scanning what was written\<close>

lemma hex4_low_byte: "n < 256 \<Longrightarrow> hex4 (CHR ''0'' # CHR ''0'' # hex_digit (n div 16) # hex_digit (n mod 16) # t) = Some (n, t)"
  by (simp add: hex4_def hex_val_def [of "CHR ''0''"] less_mult_imp_div_less)

lemma low_surrogate_None: "r < 0xD800 \<Longrightarrow> low_surrogate r s = None"
  by (auto simp: low_surrogate_def split: list.splits option.splits)

lemma scan_string_plain:
  assumes "of_char c < (128::nat)" "32 \<le> (of_char c :: nat)" "c \<noteq> backslash" "c \<noteq> dquote"
  shows "scan_string (c # s) = map_option (apfst ((#) c)) (scan_string s)"
  using assms by simp

lemma scan_string_simple:
  "e \<noteq> CHR ''u'' \<Longrightarrow> simple_escape e = Some b \<Longrightarrow>
   scan_string (backslash # e # s) = map_option (apfst ((#) b)) (scan_string s)"
  by simp

lemma scan_string_hex:
  assumes "hex4 t = Some (n, s)" "n < 128"
  shows "scan_string (backslash # CHR ''u'' # t) = map_option (apfst ((#) (char_of n))) (scan_string s)"
proof -
  have "encode_rune n = [char_of n]" using assms(2) by (simp add: encode_rune_def)
  moreover have "low_surrogate n s = None" using assms(2) by (simp add: low_surrogate_None)
  moreover have "(@) [char_of n :: char] = (#) (char_of n)" by (rule ext) simp
  ultimately show ?thesis using assms(1) by simp
qed

declare scan_string.simps(2) [simp del]

lemma scan_string_esc_char:
  assumes "of_char c < (128::nat)"
  shows "scan_string (json_esc_char c @ s) = map_option (apfst ((#) c)) (scan_string s)"
proof -
  let ?n = "of_char c :: nat"
  consider (esc) "c = backslash \<or> c = dquote" | (nl) "c = CHR 0x0A" | (cr) "c = CHR 0x0D"
    | (hex) "c \<noteq> backslash" "c \<noteq> dquote" "c \<noteq> CHR 0x0A" "c \<noteq> CHR 0x0D" "?n < 32 \<or> ?n = 60 \<or> ?n = 62 \<or> ?n = 38"
    | (plain) "c \<noteq> backslash" "c \<noteq> dquote" "32 \<le> ?n" "\<not> (?n = 60 \<or> ?n = 62 \<or> ?n = 38)"
    by force
  then show ?thesis
  proof cases
    case esc
    then show ?thesis
      by (auto simp: json_esc_char_def scan_string_simple simple_escape_def)
  next
    case nl
    then show ?thesis by (simp add: json_esc_char_def scan_string_simple simple_escape_def)
  next
    case cr
    then show ?thesis by (simp add: json_esc_char_def scan_string_simple simple_escape_def)
  next
    case hex
    then have e: "json_esc_char c @ s =
        backslash # CHR ''u'' # CHR ''0'' # CHR ''0'' # hex_digit (?n div 16) # hex_digit (?n mod 16) # s"
      by (simp add: json_esc_char_def char_code_eq Let_def)
    show ?thesis unfolding e
      using scan_string_hex [OF hex4_low_byte, of ?n s] assms by simp
  next
    case plain
    then have e: "json_esc_char c @ s = c # s"
      by (simp add: json_esc_char_def char_code_eq Let_def)
    show ?thesis unfolding e using scan_string_plain assms plain by simp
  qed
qed

lemma scan_string_escape:
  "ascii s \<Longrightarrow> scan_string (json_escape s @ dquote # rest) = Some (s, rest)"
proof (induction s)
  case Nil
  show ?case by (simp add: scan_string.simps(2))
next
  case (Cons c s)
  then show ?case by (simp add: scan_string_esc_char)
qed

end
