(* ===== verification/Contracts.thy ===== *)
theory Contracts
  imports GoPrelude
begin

text \<open>
  The interfaces the components share, as locales. Each is interpreted in the theory of
  the component that provides it, on the component's own operations.

  \<^item> \<open>keyed_store\<close>: a store with a lookup, an insertion and a removal by key: the
    service registry, the suggestion session tokens, the single use keys, the
    suggestions kept by the client.
  \<^item> \<open>expiring_store\<close>: a keyed store that drops the entries stamped before a threshold.
  \<^item> \<open>text_codec\<close>: a printer and a parser that undoes it on the well-formed values.
  \<^item> \<open>guarded_machine\<close>: a step function with a state predicate that every step keeps.
\<close>

section \<open>Stores\<close>

locale keyed_store =
  fixes lookup :: "'s \<Rightarrow> 'k \<Rightarrow> 'v option"
    and insert :: "'k \<Rightarrow> 'v \<Rightarrow> 's \<Rightarrow> 's"
    and remove :: "'k \<Rightarrow> 's \<Rightarrow> 's"
    and inv :: "'s \<Rightarrow> bool"
  assumes lookup_insert: "inv s \<Longrightarrow> lookup (insert k v s) k' = (if k' = k then Some v else lookup s k')"
    and lookup_remove: "inv s \<Longrightarrow> lookup (remove k s) k' = (if k' = k then None else lookup s k')"
    and inv_insert: "inv s \<Longrightarrow> inv (insert k v s)"
    and inv_remove: "inv s \<Longrightarrow> inv (remove k s)"
begin

lemma lookup_removed: "inv s \<Longrightarrow> lookup (remove k s) k = None"
  by (simp add: lookup_remove)

lemma lookup_insert_remove:
  "inv s \<Longrightarrow> lookup (remove k (insert k v s)) k' = (if k' = k then None else lookup s k')"
  by (simp add: lookup_remove lookup_insert inv_insert)

lemma inv_fold_remove: "inv s \<Longrightarrow> inv (fold remove ks s)"
  by (induction ks arbitrary: s) (auto simp: inv_remove)

lemma lookup_fold_remove:
  "inv s \<Longrightarrow> lookup (fold remove ks s) k = (if k \<in> set ks then None else lookup s k)"
  by (induction ks arbitrary: s) (auto simp: lookup_remove inv_remove)

lemma inv_fold_insert: "inv s \<Longrightarrow> inv (fold (\<lambda>v. insert (f v) v) vs s)"
  by (induction vs arbitrary: s) (auto simp: inv_insert)

lemma lookup_fold_insert_other:
  "inv s \<Longrightarrow> k \<notin> f ` set vs \<Longrightarrow> lookup (fold (\<lambda>v. insert (f v) v) vs s) k = lookup s k"
  by (induction vs arbitrary: s) (auto simp: lookup_insert inv_insert)

lemma lookup_fold_insert:
  "inv s \<Longrightarrow> distinct (map f vs) \<Longrightarrow> v \<in> set vs \<Longrightarrow>
   lookup (fold (\<lambda>v. insert (f v) v) vs s) (f v) = Some v"
proof (induction vs arbitrary: s)
  case Nil
  then show ?case by simp
next
  case (Cons w vs)
  show ?case
  proof (cases "v = w")
    case True
    with Cons.prems show ?thesis
      by (simp add: lookup_fold_insert_other lookup_insert inv_insert)
  next
    case False
    with Cons.prems Cons.IH [of "insert (f w) w s"] show ?thesis
      by (simp add: inv_insert)
  qed
qed

end

locale expiring_store = keyed_store +
  fixes stamp :: "'v \<Rightarrow> time"
    and expire :: "time \<Rightarrow> 's \<Rightarrow> 's"
  assumes lookup_expire: "inv s \<Longrightarrow>
      lookup (expire th s) k =
        (case lookup s k of None \<Rightarrow> None | Some v \<Rightarrow> if stamp v < th then None else Some v)"
    and inv_expire: "inv s \<Longrightarrow> inv (expire th s)"
begin

lemma expire_drops: "inv s \<Longrightarrow> lookup s k = Some v \<Longrightarrow> stamp v < th \<Longrightarrow> lookup (expire th s) k = None"
  by (simp add: lookup_expire)

lemma expire_keeps: "inv s \<Longrightarrow> lookup s k = Some v \<Longrightarrow> th \<le> stamp v \<Longrightarrow> lookup (expire th s) k = Some v"
  by (simp add: lookup_expire)

lemma expire_only_old:
  "inv s \<Longrightarrow> lookup (expire th s) k = Some v \<Longrightarrow> lookup s k = Some v \<and> th \<le> stamp v"
  by (auto simp: lookup_expire split: option.splits if_splits)

lemma expire_twice:
  "inv s \<Longrightarrow> t1 \<le> t2 \<Longrightarrow> lookup (expire t2 (expire t1 s)) k = lookup (expire t2 s) k"
  by (auto simp: lookup_expire inv_expire split: option.splits)

lemma expire_insert:
  "inv s \<Longrightarrow> th \<le> stamp v \<Longrightarrow> lookup (expire th (insert k v s)) k = Some v"
  by (simp add: lookup_expire lookup_insert inv_insert)

end

section \<open>Printers and parsers\<close>

locale text_codec =
  fixes print :: "'a \<Rightarrow> string"
    and parse :: "string \<Rightarrow> 'b option"
    and view :: "'a \<Rightarrow> 'b"
    and ok :: "'a \<Rightarrow> bool"
  assumes parse_print: "ok a \<Longrightarrow> parse (print a) = Some (view a)"
begin

lemma print_view: "ok a \<Longrightarrow> ok b \<Longrightarrow> print a = print b \<Longrightarrow> view a = view b"
  by (metis option.inject parse_print)

lemma print_inj: "inj_on view (Collect ok) \<Longrightarrow> inj_on print (Collect ok)"
  by (auto intro!: inj_onI dest: print_view inj_onD)

end

section \<open>Machines\<close>

locale guarded_machine =
  fixes step :: "'s \<Rightarrow> 'e \<Rightarrow> 's"
    and good :: "'s \<Rightarrow> bool"
  assumes step_good: "good s \<Longrightarrow> good (step s e)"
begin

lemma run_good: "good s \<Longrightarrow> good (foldl step s es)"
  by (induction es arbitrary: s) (auto simp: step_good)

lemma run_prefix_good: "good s \<Longrightarrow> prefix ds es \<Longrightarrow> good (foldl step s ds)"
  by (rule run_good)

end

end
