(* ===== verification/ConnectionCode.thy ===== *)
theory ConnectionCode
  imports GoJson Contracts
begin

text \<open>
  \<open>pkg/shared/connection.go\<close>: a saved connection, its identifier, and the string a user
  pastes into the settings. The hash function \<open>sha256\<close> is an argument of the definitions
  that use it: nothing is assumed of it.
\<close>

record connection =
  c_transport :: string
  c_secret :: string
  c_addr :: string
  c_disabled :: bool
  c_protected :: bool
  c_id :: string

definition zero_connection :: connection where
  "zero_connection = \<lparr>c_transport = [], c_secret = [], c_addr = [], c_disabled = False, c_protected = False, c_id = []\<rparr>"

section \<open>Operations\<close>

definition shareable_version :: string where
  "shareable_version = ''ai''"

definition id_preimage :: "connection \<Rightarrow> string" where
  "id_preimage c = ''ADDR'' @ c_addr c @ ''TRANSPORT'' @ c_transport c @ ''SECRET'' @ c_secret c"

definition ensure_id :: "(string \<Rightarrow> string) \<Rightarrow> connection \<Rightarrow> connection" where
  "ensure_id sha256 c =
     (if c_id c = [] then c\<lparr>c_id := b64_encode False (sha256 (id_preimage c))\<rparr> else c)"

text \<open>\<open>DisplayName\<close>; \<open>displayname.FromString\<close> is a third-party function.\<close>

definition display_name :: "(string \<Rightarrow> string) \<Rightarrow> connection \<Rightarrow> string" where
  "display_name from_string c = from_string (c_id c) @ '' ('' @ c_transport c @ '')''"

text \<open>What \<open>json.Marshal\<close> writes for the anonymous struct of \<open>Encode\<close>.\<close>

definition conn_json :: "connection \<Rightarrow> string" where
  "conn_json c =
     CHR ''{'' # json_string ''t'' @ CHR '':'' # json_string (c_transport c) @
     CHR '','' # json_string ''s'' @ CHR '':'' # json_string (c_secret c) @
     CHR '','' # json_string ''a'' @ CHR '':'' # json_string (c_addr c) @ ''}''"

definition conn_encode :: "connection \<Rightarrow> string" where
  "conn_encode c = shareable_version @ b64_encode True (conn_json c)"

text \<open>\<open>json.Unmarshal\<close> into a \<open>Connection\<close>, whose identifier is not a field of the text.\<close>

definition set_member :: "string \<times> json \<Rightarrow> connection \<Rightarrow> connection option" where
  "set_member kv c =
     (let (k, v) = kv in
      if key_matches ''t'' k then set_string_field (\<lambda>s. c_transport_update (\<lambda>_. s)) v c
      else if key_matches ''s'' k then set_string_field (\<lambda>s. c_secret_update (\<lambda>_. s)) v c
      else if key_matches ''a'' k then set_string_field (\<lambda>s. c_addr_update (\<lambda>_. s)) v c
      else if key_matches ''disabled'' k then set_bool_field (\<lambda>b. c_disabled_update (\<lambda>_. b)) v c
      else if key_matches ''protected'' k then set_bool_field (\<lambda>b. c_protected_update (\<lambda>_. b)) v c
      else Some c)"

definition connection_of_json :: "json \<Rightarrow> connection \<Rightarrow> connection option" where
  "connection_of_json = set_struct set_member"

definition unmarshal_connection :: "string \<Rightarrow> connection option" where
  "unmarshal_connection s =
     (case parse_json s of None \<Rightarrow> None | Some j \<Rightarrow> connection_of_json j zero_connection)"

datatype decode_error = TooShort | UnknownVersion | BadBase64 | BadJson

definition conn_decode :: "string \<Rightarrow> decode_error + connection" where
  "conn_decode s0 =
     (let s = trim_space s0 in
      if length s < 3 then Inl TooShort
      else
        (let version = take 2 s; data = drop 2 s in
         if version \<noteq> shareable_version then Inl UnknownVersion
         else (case b64_decode data of
                 None \<Rightarrow> Inl BadBase64
               | Some bytes \<Rightarrow>
                   (case unmarshal_connection bytes of
                      None \<Rightarrow> Inl BadJson
                    | Some c \<Rightarrow> Inr c))))"

text \<open>\<open>DecodeConnection\<close> returns the zero connection beside an error.\<close>

definition decode_connection :: "(string \<Rightarrow> string) \<Rightarrow> string \<Rightarrow> connection \<times> decode_error option" where
  "decode_connection sha256 s =
     (case conn_decode s of
        Inl e \<Rightarrow> (zero_connection, Some e)
      | Inr c \<Rightarrow> (ensure_id sha256 c, None))"

section \<open>Identifiers\<close>

lemma ensure_id_fields [simp]:
  "c_transport (ensure_id h c) = c_transport c" "c_secret (ensure_id h c) = c_secret c"
  "c_addr (ensure_id h c) = c_addr c" "c_disabled (ensure_id h c) = c_disabled c"
  "c_protected (ensure_id h c) = c_protected c"
  by (simp_all add: ensure_id_def)

lemma id_preimage_id [simp]: "id_preimage (c\<lparr>c_id := i\<rparr>) = id_preimage c"
  by (simp add: id_preimage_def)

lemma ensure_id_idem [simp]: "ensure_id h (ensure_id h c) = ensure_id h c"
  by (simp add: ensure_id_def)

lemma conn_encode_id [simp]: "conn_encode (c\<lparr>c_id := i\<rparr>) = conn_encode c"
  by (simp add: conn_encode_def conn_json_def)

section \<open>Decoding what was encoded\<close>

definition shareable :: "connection \<Rightarrow> bool" where
  "shareable c \<longleftrightarrow> ascii (c_transport c) \<and> ascii (c_secret c) \<and> ascii (c_addr c)"

definition shared_view :: "connection \<Rightarrow> connection" where
  "shared_view c = c\<lparr>c_disabled := False, c_protected := False, c_id := []\<rparr>"

lemma key_matches_letters:
  "key_matches ''t'' ''t''" "\<not> key_matches ''t'' ''s''" "\<not> key_matches ''t'' ''a''"
  "key_matches ''s'' ''s''" "\<not> key_matches ''s'' ''a''" "key_matches ''a'' ''a''"
  by (simp_all add: key_matches_def lower_char_def)

lemma skip_ws_token: "\<not> json_ws c \<Longrightarrow> skip_ws (c # s) = c # s"
  by simp

lemma json_escape_letter: "json_escape ''t'' = ''t''" "json_escape ''s'' = ''s''" "json_escape ''a'' = ''a''"
  by (simp_all add: json_esc_char_def)

lemma scan_value_string:
  "ascii v \<Longrightarrow> scan_value (Suc n) (json_string v @ rest) = Some (JStr v, rest)"
  by (simp add: json_string_def json_ws_def scan_string_escape Let_def)

lemma scan_members_Suc:
  assumes "ascii k"
  shows "scan_members (Suc n) (json_string k @ CHR '':'' # r) =
    (case scan_value n r of
       None \<Rightarrow> None
     | Some (v, r') \<Rightarrow>
         (case skip_ws r' of
            [] \<Rightarrow> None
          | c # t \<Rightarrow>
              if c = CHR ''}'' then Some ([(k, v)], t)
              else if c = CHR '','' then map_option (apfst ((#) (k, v))) (scan_members n t)
              else None))"
  using assms by (simp add: json_string_def json_ws_def scan_string_escape)

lemma scan_member_more:
  assumes "ascii k" "ascii v"
  shows "scan_members (Suc (Suc n)) (json_string k @ CHR '':'' # json_string v @ CHR '','' # r) =
           map_option (apfst ((#) (k, JStr v))) (scan_members (Suc n) r)"
  unfolding scan_members_Suc [OF assms(1)] scan_value_string [OF assms(2)] by (simp add: json_ws_def)

lemma scan_member_last:
  assumes "ascii k" "ascii v"
  shows "scan_members (Suc (Suc n)) (json_string k @ CHR '':'' # json_string v @ CHR ''}'' # r) =
           Some ([(k, JStr v)], r)"
  unfolding scan_members_Suc [OF assms(1)] scan_value_string [OF assms(2)] by (simp add: json_ws_def)

lemma scan_object:
  "scan_value (Suc n) (CHR ''{'' # json_string k @ r) = map_option (apfst JObj) (scan_members n (json_string k @ r))"
  by (simp add: json_ws_def json_string_def)

lemma parse_conn_json:
  assumes "shareable c"
  shows "parse_json (conn_json c) =
    Some (JObj [(''t'', JStr (c_transport c)), (''s'', JStr (c_secret c)), (''a'', JStr (c_addr c))])"
proof -
  define n where "n = 2 * length (conn_json c) - 4"
  have "6 \<le> 2 * length (conn_json c)" by (simp add: conn_json_def json_string_def)
  then have n: "Suc (2 * length (conn_json c)) = Suc (Suc (Suc (Suc (Suc n))))" by (simp add: n_def)
  have a: "ascii ''t''" "ascii ''s''" "ascii ''a''" by simp_all
  have c: "ascii (c_transport c)" "ascii (c_secret c)" "ascii (c_addr c)"
    using assms by (simp_all add: shareable_def)
  show ?thesis
    unfolding parse_json_def n
    unfolding conn_json_def scan_object
      scan_member_more [OF a(1) c(1)] scan_member_more [OF a(2) c(2)] scan_member_last [OF a(3) c(3)]
    by simp
qed

lemma unmarshal_conn_json: "shareable c \<Longrightarrow> unmarshal_connection (conn_json c) = Some (shared_view c)"
  by (simp add: unmarshal_connection_def connection_of_json_def parse_conn_json set_member_def key_matches_letters shared_view_def
      zero_connection_def)

lemma b64_chars_graphic: "c \<in> set (b64_encode p s) \<Longrightarrow> graphic c"
proof -
  have g: "graphic (b64_char x)" if "x < 64" for x
    using that by (auto simp: graphic_def b64_char_def)
  show "c \<in> set (b64_encode p s) \<Longrightarrow> graphic c"
  proof (induction p s rule: b64_encode.induct)
    case (2 p a)
    have "(of_char a :: nat) < 256" by simp
    from 2 g sextets [OF this this this] show ?case by (auto simp: Let_def graphic_def split: if_splits)
  next
    case (3 p a b)
    have "(of_char a :: nat) < 256" "(of_char b :: nat) < 256" by simp_all
    from 3 g sextets [OF this this(2)] show ?case by (auto simp: Let_def graphic_def split: if_splits)
  next
    case (4 p a b d s)
    have "(of_char a :: nat) < 256" "(of_char b :: nat) < 256" "(of_char d :: nat) < 256" by simp_all
    from 4 g sextets [OF this] show ?case by (auto simp: Let_def)
  qed simp
qed

lemma conn_encode_space_free: "space_free (conn_encode c)"
proof (rule space_free_graphic)
  have "x \<in> set (conn_encode c) \<Longrightarrow> graphic x" for x
    by (auto simp: conn_encode_def shareable_version_def graphic_def dest: b64_chars_graphic)
  moreover show "conn_encode c \<noteq> []" by (simp add: conn_encode_def shareable_version_def)
  ultimately show "graphic (hd (conn_encode c))" "graphic (last (conn_encode c))" by auto
qed

lemma length_conn_encode: "3 \<le> length (conn_encode c)"
proof -
  have "conn_json c \<noteq> []" by (simp add: conn_json_def)
  then obtain x s where "conn_json c = x # s" by (cases "conn_json c") auto
  then have "b64_encode True (conn_json c) \<noteq> []"
    by (cases s rule: list.exhaust; cases "tl s" rule: list.exhaust) (auto simp: Let_def)
  then have "Suc 0 \<le> length (b64_encode True (conn_json c))" by (cases "b64_encode True (conn_json c)") auto
  then show ?thesis by (simp add: conn_encode_def shareable_version_def)
qed

lemma conn_decode_encode:
  assumes "shareable c" and "trim_space p = conn_encode c"
  shows "conn_decode p = Inr (shared_view c)"
  using assms length_conn_encode [of c]
  by (auto simp: conn_decode_def conn_encode_def shareable_version_def b64_decode_encode unmarshal_conn_json Let_def)

interpretation share_code: text_codec conn_encode "\<lambda>s. case conn_decode s of Inr c \<Rightarrow> Some c | Inl _ \<Rightarrow> None" shared_view shareable
  by unfold_locales (simp add: conn_decode_encode conn_encode_space_free)

section \<open>Properties\<close>

text \<open>
  C2. A connection with ASCII fields survives being shared: decoding the string that
  \<open>Encode\<close> wrote, with any white space a user pasted around it, gives back the transport,
  the secret and the address; the flags are cleared and the identifier is the one
  \<open>EnsureID\<close> computes, without an error.
\<close>

theorem decode_connection_encode:
  assumes "shareable c" and "trim_space p = conn_encode c"
  shows "decode_connection sha256 p = (ensure_id sha256 (shared_view c), None)"
  using assms by (simp add: decode_connection_def conn_decode_encode)

lemma decode_connection_encode_witness:
  "let c = zero_connection\<lparr>c_transport := ''obfs4'', c_secret := ''k<\"''\<rparr> in
   decode_connection id (conn_encode c) = (ensure_id id (shared_view c), None)"
  unfolding Let_def
  by (rule decode_connection_encode)
    (simp_all add: shareable_def zero_connection_def conn_encode_space_free)

text \<open>
  Two connections with ASCII fields have the same shareable string only if they agree on
  transport, secret and address; the identifier in contrast is ambiguous: connections that
  differ in transport and address, yet concatenate to the same text, get one identifier,
  whatever the hash function is.
\<close>

lemma encode_separates_id_does_not:
  "(shareable c \<longrightarrow> shareable d \<longrightarrow> conn_encode c = conn_encode d \<longrightarrow> shared_view c = shared_view d) \<and>
   (\<exists>x y. shareable x \<and> shareable y \<and> conn_encode x \<noteq> conn_encode y \<and>
      (\<forall>sha256. c_id (ensure_id sha256 x) = c_id (ensure_id sha256 y)))"
proof
  show "shareable c \<longrightarrow> shareable d \<longrightarrow> conn_encode c = conn_encode d \<longrightarrow> shared_view c = shared_view d"
    using share_code.print_view by blast
  let ?x = "zero_connection\<lparr>c_addr := ''a'', c_transport := ''bTRANSPORTc''\<rparr>"
  let ?y = "zero_connection\<lparr>c_addr := ''aTRANSPORTb'', c_transport := ''c''\<rparr>"
  have "shareable ?x" "shareable ?y" by (simp_all add: shareable_def zero_connection_def)
  moreover have "shared_view ?x \<noteq> shared_view ?y" by (simp add: shared_view_def zero_connection_def)
  then have "conn_encode ?x \<noteq> conn_encode ?y"
    using share_code.print_view calculation by blast
  moreover have "c_id (ensure_id sha256 ?x) = c_id (ensure_id sha256 ?y)" for sha256
    by (simp add: ensure_id_def id_preimage_def zero_connection_def)
  ultimately show "\<exists>x y. shareable x \<and> shareable y \<and> conn_encode x \<noteq> conn_encode y \<and>
      (\<forall>sha256. c_id (ensure_id sha256 x) = c_id (ensure_id sha256 y))" by blast
qed

lemma encode_separates_id_does_not_witness:
  "shared_view (zero_connection\<lparr>c_id := ''x''\<rparr>) = shared_view zero_connection"
proof (rule encode_separates_id_does_not [THEN conjunct1, rule_format])
  show "conn_encode (zero_connection\<lparr>c_id := ''x''\<rparr>) = conn_encode zero_connection" by (rule conn_encode_id)
qed (simp_all add: shareable_def zero_connection_def)

end
