(* ===== verification/ClientConfig.thy ===== *)
theory ClientConfig
  imports ConnectionCode
begin

text \<open>
  \<open>pkg/client/internal/config\<close>: the settings of the client, the lists of hosts, and the
  upgrade of settings written by older versions. The hash functions are arguments, and
  so is the order in which a loop ranges over a map. In the upgrade \<open>None\<close> is \<open>lg.Fatal\<close>,
  which ends the program. The mutex around the
  configuration makes each operation atomic, so an operation is a function of the state.
\<close>

section \<open>The configuration\<close>

record transport =
  t_name :: string
  t_bundled :: bool
  t_command :: string
  t_torpt :: bool

record local_settings =
  l_client_bind_addr :: string
  l_client_auth_key :: string
  l_country_code :: string
  l_language :: string
  l_client_auto_update :: bool
  l_blocklist_auto_update :: bool
  l_central_addr :: string

record settings =
  s_version :: int
  s_last_id :: int
  s_local :: local_settings
  s_connections :: "connection list"
  s_transports :: "(string, transport) gomap"

record hosts_file =
  h_name :: string
  h_hosts :: "string list"
  h_country_code :: string

record config =
  cfg_settings :: settings
  cfg_blocked_central :: hosts_file
  cfg_blocked :: hosts_file
  cfg_direct :: hosts_file
  cfg_read :: bool

definition user_setup :: "local_settings \<Rightarrow> bool" where
  "user_setup l \<longleftrightarrow> l_country_code l \<noteq> ''__''"

definition hour :: time where "hour = 3600000000000"

definition application_update_duration :: "local_settings \<Rightarrow> time" where
  "application_update_duration l = (if \<not> l_client_auto_update l then 0 else 2 * hour)"

definition blocklist_update_duration :: "local_settings \<Rightarrow> time" where
  "blocklist_update_duration l = (if \<not> l_blocklist_auto_update l then 0 else 6 * hour)"

section \<open>Host lists\<close>

definition hosts_add :: "string \<Rightarrow> hosts_file \<Rightarrow> hosts_file" where
  "hosts_add host h =
     (let x = trim_space host in
      if x \<in> set (h_hosts h) then h else h\<lparr>h_hosts := h_hosts h @ [x]\<rparr>)"

definition hosts_remove :: "string \<Rightarrow> hosts_file \<Rightarrow> hosts_file" where
  "hosts_remove host h = (let x = trim_space host in h\<lparr>h_hosts := filter (\<lambda>y. y \<noteq> x) (h_hosts h)\<rparr>)"

text \<open>\<open>HostsFile.Read\<close> on the contents of the file (\<open>None\<close>: it cannot be opened); an error
  leaves the list as it was.\<close>

definition hosts_read :: "string option \<Rightarrow> hosts_file \<Rightarrow> hosts_file \<times> bool" where
  "hosts_read contents h =
     (case contents of
        None \<Rightarrow> (h, False)
      | Some s \<Rightarrow> (case scan_lines s of None \<Rightarrow> (h, False) | Some ls \<Rightarrow> (h\<lparr>h_hosts := ls\<rparr>, True)))"

text \<open>What \<open>HostsFile.Write\<close> puts into the file.\<close>

definition hosts_write :: "hosts_file \<Rightarrow> string" where
  "hosts_write h = concat (map (\<lambda>l. l @ [CHR 0x0A]) (h_hosts h))"

definition read_host_files :: "string option \<Rightarrow> config \<Rightarrow> config \<times> bool" where
  "read_host_files central_contents c =
     (let cc = l_country_code (s_local (cfg_settings c));
          (central, ok) = hosts_read central_contents \<lparr>h_name = ''central-blocked'', h_hosts = [], h_country_code = cc\<rparr>
      in (c\<lparr>cfg_blocked := \<lparr>h_name = ''local-blocked'', h_hosts = [], h_country_code = cc\<rparr>,
            cfg_blocked_central := central,
            cfg_direct := \<lparr>h_name = ''local-direct'', h_hosts = [], h_country_code = cc\<rparr>\<rparr>, ok))"

section \<open>Reading the settings\<close>

text \<open>
  \<open>json.Unmarshal\<close> into \<open>Settings\<close>. The elements of an array are decoded over the elements
  the slice already has; \<open>null\<close> empties a slice and a map; a map entry is decoded from a
  zero value.
\<close>

definition zero_transport :: transport where
  "zero_transport = \<lparr>t_name = [], t_bundled = False, t_command = [], t_torpt = False\<rparr>"

definition zero_local :: local_settings where
  "zero_local =
     \<lparr>l_client_bind_addr = [], l_client_auth_key = [], l_country_code = [], l_language = [],
      l_client_auto_update = False, l_blocklist_auto_update = False, l_central_addr = []\<rparr>"

definition zero_settings :: settings where
  "zero_settings = \<lparr>s_version = 0, s_last_id = 0, s_local = zero_local, s_connections = [], s_transports = []\<rparr>"

definition set_transport_member :: "string \<times> json \<Rightarrow> transport \<Rightarrow> transport option" where
  "set_transport_member kv t =
     (let (k, v) = kv in
      if key_matches ''name'' k then set_string_field (\<lambda>s. t_name_update (\<lambda>_. s)) v t
      else if key_matches ''bundled'' k then set_bool_field (\<lambda>b. t_bundled_update (\<lambda>_. b)) v t
      else if key_matches ''command'' k then set_string_field (\<lambda>s. t_command_update (\<lambda>_. s)) v t
      else if key_matches ''torpt'' k then set_bool_field (\<lambda>b. t_torpt_update (\<lambda>_. b)) v t
      else Some t)"

definition set_local_member :: "string \<times> json \<Rightarrow> local_settings \<Rightarrow> local_settings option" where
  "set_local_member kv l =
     (let (k, v) = kv in
      if key_matches ''clientbindaddr'' k then set_string_field (\<lambda>s. l_client_bind_addr_update (\<lambda>_. s)) v l
      else if key_matches ''clientauthkey'' k then set_string_field (\<lambda>s. l_client_auth_key_update (\<lambda>_. s)) v l
      else if key_matches ''countrycode'' k then set_string_field (\<lambda>s. l_country_code_update (\<lambda>_. s)) v l
      else if key_matches ''language'' k then set_string_field (\<lambda>s. l_language_update (\<lambda>_. s)) v l
      else if key_matches ''clientautoupdate'' k then set_bool_field (\<lambda>b. l_client_auto_update_update (\<lambda>_. b)) v l
      else if key_matches ''blocklistautoupdate'' k then set_bool_field (\<lambda>b. l_blocklist_auto_update_update (\<lambda>_. b)) v l
      else if key_matches ''centraladdr'' k then set_string_field (\<lambda>s. l_central_addr_update (\<lambda>_. s)) v l
      else Some l)"

fun set_connection_elems :: "json list \<Rightarrow> connection list \<Rightarrow> connection list option" where
  "set_connection_elems [] old = Some []"
| "set_connection_elems (j # js) old =
     (case connection_of_json j (case old of [] \<Rightarrow> zero_connection | c # _ \<Rightarrow> c) of
        None \<Rightarrow> None
      | Some c \<Rightarrow> map_option ((#) c) (set_connection_elems js (tl old)))"

fun set_connections_field :: "json \<Rightarrow> connection list \<Rightarrow> connection list option" where
  "set_connections_field (JArr js) old = set_connection_elems js old"
| "set_connections_field JNull old = Some []"
| "set_connections_field _ old = None"

fun set_transport_entries :: "(string \<times> json) list \<Rightarrow> (string, transport) gomap \<Rightarrow> (string, transport) gomap option" where
  "set_transport_entries [] m = Some m"
| "set_transport_entries ((k, j) # ms) m =
     (case set_struct set_transport_member j zero_transport of
        None \<Rightarrow> None
      | Some t \<Rightarrow> set_transport_entries ms (AList.update k t m))"

fun set_transports_field :: "json \<Rightarrow> (string, transport) gomap \<Rightarrow> (string, transport) gomap option" where
  "set_transports_field (JObj ms) old = set_transport_entries ms old"
| "set_transports_field JNull old = Some []"
| "set_transports_field _ old = None"

definition set_settings_member :: "string \<times> json \<Rightarrow> settings \<Rightarrow> settings option" where
  "set_settings_member kv s =
     (let (k, v) = kv in
      if key_matches ''version'' k then set_int_field (\<lambda>i. s_version_update (\<lambda>_. i)) v s
      else if key_matches ''lastid'' k then set_int_field (\<lambda>i. s_last_id_update (\<lambda>_. i)) v s
      else if key_matches ''local'' k
        then map_option (\<lambda>l. s\<lparr>s_local := l\<rparr>) (set_struct set_local_member v (s_local s))
      else if key_matches ''connections'' k
        then map_option (\<lambda>cs. s\<lparr>s_connections := cs\<rparr>) (set_connections_field v (s_connections s))
      else if key_matches ''transports'' k
        then map_option (\<lambda>m. s\<lparr>s_transports := m\<rparr>) (set_transports_field v (s_transports s))
      else Some s)"

text \<open>
  \<open>parseConfig\<close> decodes through a pointer to the pointer to the settings: the text \<open>null\<close>
  sets that pointer to \<open>nil\<close>, and the loop over its connections crashes.
\<close>

definition parse_config :: "(string \<Rightarrow> string) \<Rightarrow> string \<Rightarrow> settings outcome" where
  "parse_config sha256 data =
     (case parse_json data of
        None \<Rightarrow> Failed
      | Some JNull \<Rightarrow> Crashed
      | Some j \<Rightarrow>
          (case set_struct set_settings_member j zero_settings of
             None \<Rightarrow> Failed
           | Some s \<Rightarrow> Returned (s\<lparr>s_connections := map (ensure_id sha256) (s_connections s)\<rparr>)))"

definition bundled_transports :: "transport list" where
  "bundled_transports =
     [\<lparr>t_name = ''obfs3'', t_bundled = True, t_command = [], t_torpt = True\<rparr>,
      \<lparr>t_name = ''obfs4'', t_bundled = True, t_command = [], t_torpt = True\<rparr>,
      \<lparr>t_name = ''shadowsocks-client'', t_bundled = True, t_command = [], t_torpt = False\<rparr>]"

definition add_transports :: "transport list \<Rightarrow> (string, transport) gomap \<Rightarrow> (string, transport) gomap" where
  "add_transports ts m = fold (\<lambda>t. AList.update (t_name t) t) ts m"

definition settings_template :: string where
  "settings_template =
     [CHR 0x0A] @
     ''{'' @ [CHR 0x0A] @
     ''  \"Local\": {'' @ [CHR 0x0A] @
     ''    \"ClientBindAddr\": \"127.0.0.1:8899\",'' @ [CHR 0x0A] @
     ''    \"CountryCode\": \"__\",'' @ [CHR 0x0A] @
     ''    \"Language\": \"en\",'' @ [CHR 0x0A] @
     ''    \"ClientAutoUpdate\": true,'' @ [CHR 0x0A] @
     ''    \"BlocklistAutoUpdate\": true'' @ [CHR 0x0A] @
     ''  }'' @ [CHR 0x0A] @
     ''}'' @ [CHR 0x0A]"

text \<open>
  \<open>readSettings\<close>: \<open>dir_ok\<close> is whether \<open>mkConfigDir\<close> succeeds, \<open>contents\<close> the settings
  file; a file that does not parse is deleted (the second component) and the template used.
  \<open>ts\<close> is the order in which the transports of the file are visited.
\<close>

definition install_settings ::
  "((string, transport) gomap \<Rightarrow> (string, transport) gomap) \<Rightarrow> settings \<Rightarrow> config \<Rightarrow> config" where
  "install_settings ts s c =
     c\<lparr>cfg_settings := s\<lparr>s_transports :=
        add_transports bundled_transports (add_transports (map snd (ts (s_transports s))) [])\<rparr>\<rparr>"

definition read_settings ::
  "(string \<Rightarrow> string) \<Rightarrow> ((string, transport) gomap \<Rightarrow> (string, transport) gomap) \<Rightarrow>
   bool \<Rightarrow> string option \<Rightarrow> config \<Rightarrow> (config \<times> bool) outcome" where
  "read_settings sha256 ts dir_ok contents c =
     (if \<not> dir_ok then Failed
      else
        (case (case contents of None \<Rightarrow> Failed | Some d \<Rightarrow> parse_config sha256 d) of
           Crashed \<Rightarrow> Crashed
         | Returned s \<Rightarrow> Returned (install_settings ts s c, False)
         | Failed \<Rightarrow>
             (case parse_config sha256 settings_template of
                Returned s \<Rightarrow> Returned (install_settings ts s c, contents \<noteq> None)
              | _ \<Rightarrow> Crashed)))"

definition read_config ::
  "(string \<Rightarrow> string) \<Rightarrow> ((string, transport) gomap \<Rightarrow> (string, transport) gomap) \<Rightarrow>
   bool \<Rightarrow> string option \<Rightarrow> string option \<Rightarrow> config \<Rightarrow> config outcome" where
  "read_config sha256 ts dir_ok contents central_contents c =
     (case read_settings sha256 ts dir_ok contents c of
        Returned (c', _) \<Rightarrow> Returned ((fst (read_host_files central_contents c'))\<lparr>cfg_read := True\<rparr>)
      | Failed \<Rightarrow> Failed
      | Crashed \<Rightarrow> Crashed)"

section \<open>Upgrading the settings\<close>

record modify_connections =
  m_connections :: "connection list"
  m_remove :: "string list"
  m_add :: "string list"
  m_protect :: "string list"

definition conns_by_id :: "connection list \<Rightarrow> (string, connection) gomap" where
  "conns_by_id cs = fold (\<lambda>c. AList.update (c_id c) c) cs []"

fun add_encoded :: "(string \<Rightarrow> string) \<Rightarrow> string list \<Rightarrow> (string, connection) gomap \<Rightarrow> (string, connection) gomap option" where
  "add_encoded sha256 [] m = Some m"
| "add_encoded sha256 (v # vs) m =
     (case decode_connection sha256 v of
        (_, Some e) \<Rightarrow> None
      | (conn, None) \<Rightarrow>
          add_encoded sha256 vs
            (if map_of m (c_id conn) = None then AList.update (c_id conn) (conn\<lparr>c_protected := True\<rparr>) m else m))"

definition protect_id :: "string \<Rightarrow> (string, connection) gomap \<Rightarrow> (string, connection) gomap" where
  "protect_id i m =
     (case map_of m i of None \<Rightarrow> m | Some c \<Rightarrow> AList.update i (c\<lparr>c_protected := True\<rparr>) m)"

definition modify_update ::
  "(string \<Rightarrow> string) \<Rightarrow> ((string, connection) gomap \<Rightarrow> (string, connection) gomap) \<Rightarrow>
   modify_connections \<Rightarrow> connection list option" where
  "modify_update sha256 ord m =
     (case add_encoded sha256 (m_add m) (fold AList.delete (m_remove m) (conns_by_id (m_connections m))) of
        None \<Rightarrow> None
      | Some conns \<Rightarrow> Some (map snd (ord (fold protect_id (m_protect m) conns))))"

text \<open>
  The cases of the \<open>switch\<close> of \<open>UpgradeConfig\<close>, one function each; each sets the version the
  next case expects and falls through to it. \<open>central_addr\<close> is the package variable after
  its default, \<open>new_key\<close> what \<open>browsercode.NewKey\<close> returns, \<open>md5hex\<close> the hash in
  hexadecimal, and \<open>ord v\<close> the order in which case \<open>v\<close> ranges over its map.
\<close>

record upgrade_env =
  e_sha256 :: "string \<Rightarrow> string"
  e_md5hex :: "string \<Rightarrow> string"
  e_new_key :: string
  e_central_addr :: string
  e_ord :: "int \<Rightarrow> (string, connection) gomap \<Rightarrow> (string, connection) gomap"

definition default_central_addr :: "string \<Rightarrow> string" where
  "default_central_addr a = (if a = [] then ''https://localhost:8080'' else a)"

definition set_connections :: "settings \<Rightarrow> int \<Rightarrow> connection list option \<Rightarrow> settings option" where
  "set_connections s v cs = map_option (\<lambda>cs. s\<lparr>s_connections := cs, s_version := v\<rparr>) cs"

definition upgrade_0 :: "upgrade_env \<Rightarrow> settings \<Rightarrow> settings option" where
  "upgrade_0 e s = Some (s\<lparr>s_version := 1, s_local := (s_local s)\<lparr>l_central_addr := e_central_addr e\<rparr>\<rparr>)"

definition v1_add :: "string list" where
  "v1_add = [''aieyJ0Ijoib2JmczQiLCJzIjoiXCJjZXJ0PUdzVFAxVmNwcjBJeE9aUkNnUHZ0Z1JsZVJWQzFTRmpYWVhxSDVvSEhYVFJ4M25QVnZXN2xHK2RkREhKWmw4YjBOVFZ1VGc7aWF0LW1vZGU9MFwiIiwiYSI6IjEzOS4xNjIuMjIxLjEyMzo0NDMifQ=='',
     ''aieyJ0Ijoib2JmczQiLCJzIjoiXCJjZXJ0PTMzdXNkSUVDemFyRUpsWFpQM0w0Y2x0bi9vNXdhVUlOcHRUU0JSYk5BQVpVcVlsajhiZm5MWGYyb3BFNHE2c0NlYzY3Ync7aWF0LW1vZGU9MFwiIiwiYSI6IjQ2LjIxLjEwMi4xMDk6NDQzIn0='']"

definition v1_remove :: "string list" where
  "v1_remove = [''xFa9T1i6bJMJIvK6kxFA1xvQGfW58BY3OLkrPXbpvAY='']"

definition upgrade_1 :: "upgrade_env \<Rightarrow> settings \<Rightarrow> settings option" where
  "upgrade_1 e s =
     set_connections s 2 (modify_update (e_sha256 e) (e_ord e 1)
       \<lparr>m_connections = s_connections s, m_remove = v1_remove, m_add = v1_add, m_protect = []\<rparr>)"

definition v2_protect :: "string list" where
  "v2_protect = [''z0VZS-Kx9tMfoBEyX6br19GaJgKDe0IK0i6JKyhKp2s'',
     ''ipJ2oW8xr9TFDvfU92qGvDaPwZttf_GSjGZ4KW7inBI'']"

definition v2_remove :: "string list" where
  "v2_remove = [''Ul3D2G1dI3_Z4sLXQ9IUQdIFH4pSDyNjTwf_auy93Os'']"

definition upgrade_2 :: "upgrade_env \<Rightarrow> settings \<Rightarrow> settings option" where
  "upgrade_2 e s =
     set_connections s 3 (modify_update (e_sha256 e) (e_ord e 2)
       \<lparr>m_connections = s_connections s, m_remove = v2_remove, m_add = [], m_protect = v2_protect\<rparr>)"

definition upgrade_3 :: "upgrade_env \<Rightarrow> settings \<Rightarrow> settings option" where
  "upgrade_3 e s =
     Some (s\<lparr>s_version := 4,
            s_local := (s_local s)\<lparr>l_client_auth_key := e_new_key e, l_client_bind_addr := ''127.0.0.1:8899''\<rparr>\<rparr>)"

definition upgrade_4 :: "upgrade_env \<Rightarrow> settings \<Rightarrow> settings option" where
  "upgrade_4 e s =
     (let l = s_local s;
          l' = (if e_md5hex e (l_central_addr l) = ''796547bd38f0d8722c2e0802de34b53f''
                then l\<lparr>l_central_addr := e_central_addr e\<rparr> else l)
      in Some (s\<lparr>s_version := 5, s_local := l'\<rparr>))"

definition v5_add :: "string list" where
  "v5_add = [''aieyJ0Ijoib2JmczQiLCJzIjoiXCJjZXJ0PWpvaUcwTFdzYmNDUWIvSG5zOWlWKytvUzMvSDBORGZ0RlJDRnZNbEpiYjRNZXByYThLZ2tLS2tMWDVaK3ZIV3M4ZWliQmc7aWF0LW1vZGU9MFwiIiwiYSI6IjEyOC4xOTkuOTkuMTY0OjQ0MyJ9'']"

definition v5_remove :: "string list" where
  "v5_remove = [''ipJ2oW8xr9TFDvfU92qGvDaPwZttf_GSjGZ4KW7inBI'']"

definition upgrade_5 :: "upgrade_env \<Rightarrow> settings \<Rightarrow> settings option" where
  "upgrade_5 e s =
     set_connections s 6 (modify_update (e_sha256 e) (e_ord e 5)
       \<lparr>m_connections = s_connections s, m_remove = v5_remove, m_add = v5_add, m_protect = []\<rparr>)"

definition upgrade_cases :: "upgrade_env \<Rightarrow> (settings \<Rightarrow> settings option) list" where
  "upgrade_cases e = [upgrade_0 e, upgrade_1 e, upgrade_2 e, upgrade_3 e, upgrade_4 e, upgrade_5 e]"

fun fall_through :: "(settings \<Rightarrow> settings option) list \<Rightarrow> settings \<Rightarrow> settings option" where
  "fall_through [] s = Some s"
| "fall_through (u # us) s = (case u s of None \<Rightarrow> None | Some s' \<Rightarrow> fall_through us s')"

text \<open>A version past 6 (or below 0) is the default case: it is logged and left alone.\<close>

definition upgrade_settings :: "upgrade_env \<Rightarrow> settings \<Rightarrow> settings option" where
  "upgrade_settings e s =
     (if 0 \<le> s_version s \<and> s_version s \<le> 6
      then fall_through (drop (nat (s_version s)) (upgrade_cases e)) s
      else Some s)"

datatype upgrade_result = NotRead | Fatal | Upgraded config bool

definition upgrade_config :: "upgrade_env \<Rightarrow> config \<Rightarrow> upgrade_result" where
  "upgrade_config e c =
     (let e' = e\<lparr>e_central_addr := default_central_addr (e_central_addr e)\<rparr> in
      if \<not> cfg_read c then NotRead
      else (case upgrade_settings e' (cfg_settings c) of
              None \<Rightarrow> Fatal
            | Some s \<Rightarrow> Upgraded (c\<lparr>cfg_settings := s\<rparr>) (s_version s \<noteq> s_version (cfg_settings c))))"

section \<open>The upgrade of a list of connections\<close>

definition protected :: "connection \<Rightarrow> connection" where
  "protected c = c\<lparr>c_protected := True\<rparr>"

lemma protected_simps [simp]:
  "c_id (protected c) = c_id c" "c_protected (protected c)" "protected (protected c) = protected c"
  by (simp_all add: protected_def)

definition conn_with_id :: "string \<Rightarrow> connection list \<Rightarrow> connection option" where
  "conn_with_id i cs = find (\<lambda>c. c_id c = i) cs"

text \<open>
  What \<open>Update\<close> promises for an identifier: the last connection that had it, unless it is
  removed; else the first connection to add that has it, protected; protected when asked.
\<close>

definition updated_conn :: "(string \<Rightarrow> string) \<Rightarrow> modify_connections \<Rightarrow> string \<Rightarrow> connection option" where
  "updated_conn sha256 m i =
     (let kept = (if i \<in> set (m_remove m) then None else conn_with_id i (rev (m_connections m)));
          added = map_option protected (conn_with_id i (map (fst \<circ> decode_connection sha256) (m_add m)));
          c = (case kept of Some c \<Rightarrow> Some c | None \<Rightarrow> added)
      in if i \<in> set (m_protect m) then map_option protected c else c)"

definition keyed_by_id :: "(string, connection) gomap \<Rightarrow> bool" where
  "keyed_by_id m \<longleftrightarrow> wf_map m \<and> (\<forall>k c. map_of m k = Some c \<longrightarrow> c_id c = k)"

lemma keyed_Nil [simp]: "keyed_by_id []"
  by (simp add: keyed_by_id_def)

lemma keyed_update: "keyed_by_id m \<Longrightarrow> c_id c = i \<Longrightarrow> keyed_by_id (AList.update i c m)"
  by (simp add: keyed_by_id_def)

lemma keyed_delete: "keyed_by_id m \<Longrightarrow> keyed_by_id (AList.delete i m)"
  by (simp add: keyed_by_id_def)

lemma conn_with_id_simps [simp]:
  "conn_with_id i [] = None"
  "conn_with_id i (c # cs) = (if c_id c = i then Some c else conn_with_id i cs)"
  by (simp_all add: conn_with_id_def)

lemma conn_with_id_append:
  "conn_with_id i (cs @ ds) = (case conn_with_id i cs of None \<Rightarrow> conn_with_id i ds | Some c \<Rightarrow> Some c)"
  by (induction cs) auto

lemma conns_by_id_fold:
  "keyed_by_id m \<Longrightarrow>
   keyed_by_id (fold (\<lambda>c. AList.update (c_id c) c) cs m) \<and>
   map_of (fold (\<lambda>c. AList.update (c_id c) c) cs m) i =
     (case conn_with_id i (rev cs) of None \<Rightarrow> map_of m i | Some c \<Rightarrow> Some c)"
  by (induction cs arbitrary: m)
    (auto simp: conn_with_id_append keyed_update split: option.splits)

lemma conns_by_id_spec:
  "keyed_by_id (conns_by_id cs)" "map_of (conns_by_id cs) i = conn_with_id i (rev cs)"
  using conns_by_id_fold [OF keyed_Nil, of cs i] by (auto simp: conns_by_id_def split: option.splits)

lemma delete_all_spec:
  "keyed_by_id m \<Longrightarrow>
   keyed_by_id (fold AList.delete is m) \<and>
   map_of (fold AList.delete is m) i = (if i \<in> set is then None else map_of m i)"
  by (induction "is" arbitrary: m) (auto simp: keyed_delete)

lemma add_encoded_spec:
  assumes "\<forall>v \<in> set vs. snd (decode_connection h v) = None" "keyed_by_id m"
  shows "\<exists>m'. add_encoded h vs m = Some m' \<and> keyed_by_id m' \<and>
    (\<forall>i. map_of m' i =
      (case map_of m i of
         None \<Rightarrow> map_option protected (conn_with_id i (map (fst \<circ> decode_connection h) vs))
       | Some c \<Rightarrow> Some c))"
  using assms
proof (induction vs arbitrary: m)
  case Nil
  then show ?case by (auto split: option.splits)
next
  case (Cons v vs)
  obtain c where c: "decode_connection h v = (c, None)"
    using Cons.prems by (cases "decode_connection h v") auto
  define n where
    "n = (if map_of m (c_id c) = None then AList.update (c_id c) (protected c) m else m)"
  have "keyed_by_id n" using Cons.prems by (auto simp: n_def keyed_update)
  then obtain m' where m': "add_encoded h vs n = Some m'" "keyed_by_id m'"
    "\<forall>i. map_of m' i = (case map_of n i of
         None \<Rightarrow> map_option protected (conn_with_id i (map (fst \<circ> decode_connection h) vs))
       | Some c \<Rightarrow> Some c)"
    using Cons.IH [of n] Cons.prems by auto
  then show ?case
    using c by (intro exI [of _ m']) (auto simp: n_def protected_def split: option.splits)
qed

lemma protect_id_spec:
  "keyed_by_id m \<Longrightarrow>
   keyed_by_id (protect_id j m) \<and>
   map_of (protect_id j m) i = (if i = j then map_option protected (map_of m i) else map_of m i)"
  unfolding protect_id_def protected_def [symmetric]
  by (cases "map_of m j") (auto simp: keyed_by_id_def)

lemma protect_all_spec:
  "keyed_by_id m \<Longrightarrow>
   keyed_by_id (fold protect_id is m) \<and>
   map_of (fold protect_id is m) i = (if i \<in> set is then map_option protected (map_of m i) else map_of m i)"
  by (induction "is" arbitrary: m) (auto simp: protect_id_spec option.map_comp comp_def)

lemma keyed_values:
  assumes "keyed_by_id m" "range_order m xs"
  shows "distinct (map c_id (map snd xs))" "conn_with_id i (map snd xs) = map_of m i"
proof -
  have wf: "wf_map xs" and mo: "map_of xs = map_of m"
    using assms range_order_wf range_order_map_of by (auto simp: keyed_by_id_def)
  have key: "c_id c = k" if "(k, c) \<in> set xs" for k c
    using that wf mo assms(1) by (auto simp: keyed_by_id_def map_of_wf [symmetric])
  then have ids: "map c_id (map snd xs) = map fst xs" by auto
  show "distinct (map c_id (map snd xs))" unfolding ids using wf by (simp add: wf_map_def)
  have "conn_with_id i (map snd xs) = map_of xs i"
    using key by (induction xs) auto
  then show "conn_with_id i (map snd xs) = map_of m i" by (simp add: mo)
qed

lemma modify_update_result:
  assumes "\<forall>n. range_order n (ord n)" "\<forall>v \<in> set (m_add m). snd (decode_connection h v) = None"
  shows "\<exists>cs. modify_update h ord m = Some cs \<and> distinct (map c_id cs) \<and>
    (\<forall>i. conn_with_id i cs = updated_conn h m i)"
proof -
  let ?m1 = "fold AList.delete (m_remove m) (conns_by_id (m_connections m))"
  have m1: "keyed_by_id ?m1" by (simp add: delete_all_spec conns_by_id_spec)
  obtain m2 where m2: "add_encoded h (m_add m) ?m1 = Some m2" "keyed_by_id m2"
    "\<forall>i. map_of m2 i =
      (case map_of ?m1 i of
         None \<Rightarrow> map_option protected (conn_with_id i (map (fst \<circ> decode_connection h) (m_add m)))
       | Some c \<Rightarrow> Some c)"
    using add_encoded_spec [OF assms(2) m1] by blast
  let ?m3 = "fold protect_id (m_protect m) m2"
  have "map_of ?m3 i = updated_conn h m i" for i
    using m2 by (simp add: protect_all_spec updated_conn_def Let_def delete_all_spec conns_by_id_spec)
  then show ?thesis
    using keyed_values [of ?m3 "ord ?m3"] assms(1) m2 protect_all_spec [OF m2(2)]
    by (auto simp: modify_update_def)
qed

section \<open>The connections built in\<close>

definition decodes :: "string \<Rightarrow> bool" where
  "decodes v = (case conn_decode v of Inl _ \<Rightarrow> False | Inr _ \<Rightarrow> True)"

lemma decodes_decode: "decodes v \<Longrightarrow> snd (decode_connection h v) = None"
  by (auto simp: decodes_def decode_connection_def split: sum.splits)

lemma v1_add_decodes: "list_all decodes v1_add"
  by code_simp

lemma v5_add_decodes: "list_all decodes v5_add"
  by code_simp

section \<open>Host lists on disk\<close>

datatype host_op = Add_Host string | Remove_Host string

fun op_host :: "host_op \<Rightarrow> string" where
  "op_host (Add_Host x) = trim_space x"
| "op_host (Remove_Host x) = trim_space x"

fun host_step :: "hosts_file \<Rightarrow> host_op \<Rightarrow> hosts_file" where
  "host_step h (Add_Host x) = hosts_add x h"
| "host_step h (Remove_Host x) = hosts_remove x h"

definition hosts_ok :: "hosts_file \<Rightarrow> bool" where
  "hosts_ok h \<longleftrightarrow> distinct (h_hosts h) \<and> list_all (\<lambda>x. trim_space x = x) (h_hosts h)"

interpretation host_list: guarded_machine host_step hosts_ok
proof
  fix h e
  assume "hosts_ok h"
  then show "hosts_ok (host_step h e)"
    by (cases e) (auto simp: hosts_ok_def hosts_add_def hosts_remove_def Let_def list_all_iff trim_space_idem)
qed

lemma host_step_member:
  "y \<in> set (h_hosts (host_step h e)) \<longleftrightarrow>
   (if op_host e = y then (case e of Add_Host _ \<Rightarrow> True | Remove_Host _ \<Rightarrow> False) else y \<in> set (h_hosts h))"
  by (cases e) (auto simp: hosts_add_def hosts_remove_def Let_def)

lemma host_run_member:
  "y \<in> set (h_hosts (foldl host_step h ops)) \<longleftrightarrow>
   (case find (\<lambda>e. op_host e = y) (rev ops) of
      None \<Rightarrow> y \<in> set (h_hosts h)
    | Some (Add_Host _) \<Rightarrow> True
    | Some (Remove_Host _) \<Rightarrow> False)"
  by (induction ops rule: rev_induct) (auto simp: host_step_member split: host_op.splits)

end
