(* ===== verification/ConfigUpgrade.thy ===== *)
theory ConfigUpgrade
  imports ClientConfig
begin

text \<open>
  The upgrade of the settings of \<open>pkg/client/internal/config/updates.go\<close>: what the steps
  modelled in \<open>ClientConfig\<close> do to the connections, and the properties of the package.
\<close>

section \<open>The steps\<close>

definition env_ok :: "upgrade_env \<Rightarrow> bool" where
  "env_ok e \<longleftrightarrow> (\<forall>v n. range_order n (e_ord e v n))"

definition added_ids :: "upgrade_env \<Rightarrow> string list" where
  "added_ids e = map (\<lambda>v. c_id (fst (decode_connection (e_sha256 e) v))) (v1_add @ v5_add)"

text \<open>An identifier the upgrade steps do not name.\<close>

definition own_id :: "upgrade_env \<Rightarrow> string \<Rightarrow> bool" where
  "own_id e i \<longleftrightarrow> i \<notin> set (v1_remove @ v2_remove @ v5_remove @ v2_protect @ added_ids e)"

definition conn_of :: "settings \<Rightarrow> string \<Rightarrow> connection option" where
  "conn_of s i = conn_with_id i (rev (s_connections s))"

definition current_server :: "upgrade_env \<Rightarrow> connection" where
  "current_server e = fst (decode_connection (e_sha256 e) (hd v5_add))"

lemma conn_with_id_rev: "distinct (map c_id cs) \<Longrightarrow> conn_with_id i (rev cs) = conn_with_id i cs"
proof (induction cs)
  case (Cons c cs)
  have "conn_with_id i cs = None" if "c_id c = i"
    using Cons.prems that by (induction cs) auto
  with Cons show ?case by (auto simp: conn_with_id_append split: option.splits)
qed simp

lemma conn_with_id_absent: "i \<notin> c_id ` set cs \<Longrightarrow> conn_with_id i cs = None"
  by (induction cs) auto

lemma updated_conn_own:
  assumes "i \<notin> set (m_remove m)" "i \<notin> set (m_protect m)"
    "i \<notin> (\<lambda>v. c_id (fst (decode_connection h v))) ` set (m_add m)"
  shows "updated_conn h m i = conn_with_id i (rev (m_connections m))"
  using assms by (auto simp: updated_conn_def Let_def conn_with_id_absent image_image split: option.splits)

lemma set_connections_step:
  assumes "env_ok e" "list_all decodes add"
    and own: "i \<notin> set remove" "i \<notin> set protect"
      "i \<notin> (\<lambda>w. c_id (fst (decode_connection (e_sha256 e) w))) ` set add"
  shows "\<exists>s'. set_connections s v (modify_update (e_sha256 e) (e_ord e k)
        \<lparr>m_connections = s_connections s, m_remove = remove, m_add = add, m_protect = protect\<rparr>) = Some s' \<and>
      s_version s' = v \<and> conn_of s' i = conn_of s i"
  using modify_update_result [of "e_ord e k"
      "\<lparr>m_connections = s_connections s, m_remove = remove, m_add = add, m_protect = protect\<rparr>" "e_sha256 e"] assms
  by (auto simp: set_connections_def env_ok_def list_all_iff decodes_decode conn_of_def conn_with_id_rev
      updated_conn_own)

lemmas upgrade_defs = upgrade_0_def upgrade_1_def upgrade_2_def upgrade_3_def upgrade_4_def upgrade_5_def

lemma upgrade_case:
  assumes "env_ok e" "own_id e i" "k < 6"
  shows "\<exists>s'. (upgrade_cases e ! k) s = Some s' \<and> s_version s' = int k + 1 \<and> conn_of s' i = conn_of s i"
proof -
  have add: "list_all decodes []" by simp
  have own: "i \<notin> set v1_remove" "i \<notin> set v2_remove" "i \<notin> set v5_remove" "i \<notin> set v2_protect" "i \<notin> set []"
    "i \<notin> (\<lambda>w. c_id (fst (decode_connection (e_sha256 e) w))) ` set v1_add"
    "i \<notin> (\<lambda>w. c_id (fst (decode_connection (e_sha256 e) w))) ` set v5_add"
    "i \<notin> (\<lambda>w. c_id (fst (decode_connection (e_sha256 e) w))) ` set []"
    using assms(2) by (auto simp: own_id_def added_ids_def)
  from assms(3) consider "k = 0" | "k = 1" | "k = 2" | "k = 3" | "k = 4" | "k = 5" by linarith
  then show ?thesis
  proof cases
    case 2
    then show ?thesis
      using set_connections_step [OF assms(1) v1_add_decodes own(1) own(5) own(6), of s 2 1]
      by (simp add: upgrade_cases_def upgrade_1_def)
  next
    case 3
    then show ?thesis
      using set_connections_step [OF assms(1) add own(2) own(4) own(8), of s 3 2]
      by (simp add: upgrade_cases_def upgrade_2_def)
  next
    case 6
    then show ?thesis
      using set_connections_step [OF assms(1) v5_add_decodes own(3) own(5) own(7), of s 6 5]
      by (simp add: upgrade_cases_def upgrade_5_def)
  qed (simp_all add: upgrade_cases_def upgrade_defs conn_of_def Let_def)
qed

lemma length_upgrade_cases [simp]: "length (upgrade_cases e) = 6"
  by (simp add: upgrade_cases_def)

lemma fall_through_cases:
  assumes "env_ok e" "own_id e i" "n \<le> 6"
  shows "s_version s = int (6 - n) \<Longrightarrow>
    \<exists>s'. fall_through (drop (6 - n) (upgrade_cases e)) s = Some s' \<and> s_version s' = 6 \<and> conn_of s' i = conn_of s i"
  using assms(3)
proof (induction n arbitrary: s)
  case 0
  then show ?case by simp
next
  case (Suc n)
  have k: "6 - Suc n < 6" "int (6 - Suc n) + 1 = int (6 - n)" using Suc.prems by auto
  obtain s1 where s1: "(upgrade_cases e ! (6 - Suc n)) s = Some s1" "s_version s1 = int (6 - n)" "conn_of s1 i = conn_of s i"
    using upgrade_case [OF assms(1,2) k(1), of s] unfolding k(2) by blast
  have k3: "Suc (6 - Suc n) = 6 - n" using Suc.prems by simp
  have "drop (6 - Suc n) (upgrade_cases e) = (upgrade_cases e ! (6 - Suc n)) # drop (6 - n) (upgrade_cases e)"
    unfolding k3 [symmetric] by (rule Cons_nth_drop_Suc [symmetric]) (use k in simp)
  then show ?case using s1 Suc.IH [of s1] Suc.prems by simp
qed

lemma upgrade_settings_own:
  assumes "env_ok e" "own_id e i" "0 \<le> s_version s" "s_version s \<le> 6"
  shows "\<exists>s'. upgrade_settings e s = Some s' \<and> s_version s' = 6 \<and> conn_of s' i = conn_of s i"
proof -
  define n where "n = 6 - nat (s_version s)"
  have n: "6 - n = nat (s_version s)" "n \<le> 6" "s_version s = int (6 - n)"
    using assms by (auto simp: n_def)
  show ?thesis
    using fall_through_cases [OF assms(1,2) n(2) n(3)] assms(3,4) by (simp add: upgrade_settings_def n(1))
qed

lemma fall_through_append:
  "fall_through (us @ vs) s = (case fall_through us s of None \<Rightarrow> None | Some s' \<Rightarrow> fall_through vs s')"
  by (induction us arbitrary: s) (auto split: option.splits)

lemma upgrade_last_case:
  assumes "upgrade_settings e s = Some s'" "0 \<le> s_version s" "s_version s < 6"
  shows "\<exists>s1. upgrade_5 e s1 = Some s'"
proof -
  have c: "upgrade_cases e = [upgrade_0 e, upgrade_1 e, upgrade_2 e, upgrade_3 e, upgrade_4 e] @ [upgrade_5 e]"
    by (simp add: upgrade_cases_def)
  have "nat (s_version s) - 5 = 0" using assms by simp
  then show ?thesis
    using assms by (auto simp: upgrade_settings_def c fall_through_append split: option.splits simp del: append.simps)
qed

lemma upgrade_5_result:
  assumes "env_ok e" "upgrade_5 e s = Some s'"
  shows "distinct (map c_id (s_connections s'))"
    "conn_with_id (c_id (current_server e)) (s_connections s') \<noteq> None"
    "i \<in> set v5_remove \<Longrightarrow> i \<noteq> c_id (current_server e) \<Longrightarrow> conn_with_id i (s_connections s') = None"
proof -
  let ?m = "\<lparr>m_connections = s_connections s, m_remove = v5_remove, m_add = v5_add, m_protect = []\<rparr>"
  have r: "distinct (map c_id (s_connections s')) \<and> (\<forall>i. conn_with_id i (s_connections s') = updated_conn (e_sha256 e) ?m i)"
    using modify_update_result [of "e_ord e 5" ?m "e_sha256 e"] assms v5_add_decodes
    by (auto simp: upgrade_5_def set_connections_def env_ok_def list_all_iff decodes_decode)
  have m: "map (fst \<circ> decode_connection (e_sha256 e)) v5_add = [current_server e]"
    by (simp add: v5_add_def current_server_def)
  from r show "distinct (map c_id (s_connections s'))" by simp
  from r m show "conn_with_id (c_id (current_server e)) (s_connections s') \<noteq> None"
    "i \<in> set v5_remove \<Longrightarrow> i \<noteq> c_id (current_server e) \<Longrightarrow> conn_with_id i (s_connections s') = None"
    by (auto simp: updated_conn_def Let_def split: option.splits)
qed

text \<open>What \<open>settingsTemplate\<close> decodes to.\<close>

definition default_settings :: settings where
  "default_settings =
     zero_settings\<lparr>s_local :=
       \<lparr>l_client_bind_addr = ''127.0.0.1:8899'', l_client_auth_key = [], l_country_code = ''__'', l_language = ''en'',
        l_client_auto_update = True, l_blocklist_auto_update = True, l_central_addr = []\<rparr>\<rparr>"

lemma settings_template_parses: "parse_config sha256 settings_template = Returned default_settings"
  by code_simp

lemma ex_own_id: "\<exists>i. own_id e i"
  using ex_new_if_finite [OF infinite_UNIV_listI finite_set] unfolding own_id_def by blast

section \<open>Properties\<close>

text \<open>
  C9. From any settings of version 0 to 6 the upgrade ends at version 6 and says that it
  changed something exactly when the version was below 6; it never dies on one of the
  connections built into it, and running it again changes nothing.
\<close>

theorem upgrade_reaches_current:
  assumes "env_ok e" "cfg_read c" "0 \<le> s_version (cfg_settings c)" "s_version (cfg_settings c) \<le> 6"
  shows "\<exists>c'. upgrade_config e c = Upgraded c' (s_version (cfg_settings c) \<noteq> 6) \<and>
    s_version (cfg_settings c') = 6 \<and> upgrade_config e c' = Upgraded c' False"
proof -
  let ?e = "e\<lparr>e_central_addr := default_central_addr (e_central_addr e)\<rparr>"
  have "env_ok ?e" using assms(1) by (simp add: env_ok_def)
  moreover have "\<exists>i. own_id ?e i" by (rule ex_own_id)
  ultimately obtain s' where "upgrade_settings ?e (cfg_settings c) = Some s'" "s_version s' = 6"
    using upgrade_settings_own [of ?e _ "cfg_settings c"] assms(3,4) by blast
  then show ?thesis
    using assms(2) by (auto simp: upgrade_config_def upgrade_settings_def upgrade_cases_def Let_def)
qed

definition plain_env :: upgrade_env where
  "plain_env = \<lparr>e_sha256 = (\<lambda>s. s), e_md5hex = (\<lambda>s. s), e_new_key = ''key'', e_central_addr = [], e_ord = (\<lambda>_ m. m)\<rparr>"

lemma env_ok_plain [simp]: "env_ok (plain_env\<lparr>e_central_addr := a\<rparr>)" "env_ok plain_env"
  by (simp_all add: env_ok_def plain_env_def)

definition blank_hosts :: hosts_file where
  "blank_hosts = \<lparr>h_name = [], h_hosts = [], h_country_code = []\<rparr>"

definition blank_config :: config where
  "blank_config = \<lparr>cfg_settings = zero_settings, cfg_blocked_central = blank_hosts, cfg_blocked = blank_hosts,
     cfg_direct = blank_hosts, cfg_read = True\<rparr>"

lemma upgrade_reaches_current_witness:
  "\<exists>c'. upgrade_config plain_env blank_config = Upgraded c' True \<and>
    s_version (cfg_settings c') = 6 \<and> upgrade_config plain_env c' = Upgraded c' False"
  using upgrade_reaches_current [of plain_env blank_config] by (simp add: blank_config_def zero_settings_def)

text \<open>
  An upgrade from a version below 6 leaves connections with distinct identifiers; a
  connection whose identifier the upgrade does not name is the one that was there before,
  with its flags; the server added last is there, and the identifiers it replaces are not.
\<close>

lemma upgrade_connections:
  assumes "env_ok e" "0 \<le> s_version s" "s_version s < 6" "upgrade_settings e s = Some s'"
  shows "distinct (map c_id (s_connections s')) \<and>
    (own_id e i \<longrightarrow> conn_with_id i (s_connections s') = conn_with_id i (rev (s_connections s))) \<and>
    conn_with_id (c_id (current_server e)) (s_connections s') \<noteq> None \<and>
    (i \<in> set v5_remove \<longrightarrow> i \<noteq> c_id (current_server e) \<longrightarrow> conn_with_id i (s_connections s') = None)"
proof -
  obtain s1 where s1: "upgrade_5 e s1 = Some s'"
    using upgrade_last_case [OF assms(4,2,3)] by blast
  note r = upgrade_5_result [OF assms(1) s1]
  have "conn_with_id i (s_connections s') = conn_with_id i (rev (s_connections s))" if "own_id e i"
    using upgrade_settings_own [OF assms(1) that assms(2)] assms(3,4) conn_with_id_rev [OF r(1)]
    by (simp add: conn_of_def)
  then show ?thesis using r by simp
qed

definition own_connection :: connection where
  "own_connection = zero_connection\<lparr>c_transport := ''obfs4'', c_id := ''mine'', c_disabled := True\<rparr>"

lemma upgrade_connections_witness:
  "\<exists>s'. upgrade_settings plain_env (zero_settings\<lparr>s_version := 5, s_connections := [own_connection]\<rparr>) = Some s' \<and>
     distinct (map c_id (s_connections s'))"
proof -
  let ?s = "zero_settings\<lparr>s_version := 5, s_connections := [own_connection]\<rparr>"
  obtain i where i: "own_id plain_env i" using ex_own_id by blast
  obtain s' where s': "upgrade_settings plain_env ?s = Some s'"
    using upgrade_settings_own [OF env_ok_plain(2) i, of ?s] by auto
  show ?thesis
    using upgrade_connections [OF env_ok_plain(2) _ _ s'] s' by simp
qed

text \<open>
  \<open>Update\<close>, in whatever order the loop visits the map: when the connections to add decode,
  the result has no identifier twice, and for every identifier it holds what was asked: the
  last connection that had it unless it is removed, else the first one to add with it,
  protected; and a connection to protect is protected.
\<close>

lemma modify_update_spec:
  assumes "\<forall>n. range_order n (ord n)" and "\<forall>v \<in> set (m_add m). snd (decode_connection sha256 v) = None"
  shows "\<exists>cs. modify_update sha256 ord m = Some cs \<and> distinct (map c_id cs) \<and>
    (\<forall>i. conn_with_id i cs = updated_conn sha256 m i)"
  using assms by (rule modify_update_result)

lemma modify_update_spec_witness:
  "let m = \<lparr>m_connections = [own_connection, own_connection\<lparr>c_id := ''old''\<rparr>], m_remove = [''old''], m_add = v5_add,
            m_protect = [''mine'']\<rparr> in
   \<exists>cs. modify_update (\<lambda>s. s) rev m = Some cs \<and> conn_with_id ''mine'' cs = Some (protected own_connection) \<and>
     conn_with_id ''old'' cs = updated_conn (\<lambda>s. s) m ''old''"
proof -
  let ?m = "\<lparr>m_connections = [own_connection, own_connection\<lparr>c_id := ''old''\<rparr>], m_remove = [''old''], m_add = v5_add,
            m_protect = [''mine'']\<rparr>"
  have "\<forall>v \<in> set (m_add ?m). snd (decode_connection (\<lambda>s. s) v) = None"
    using v5_add_decodes by (simp add: list_all_iff decodes_decode)
  moreover have "\<forall>n :: (string, connection) gomap. range_order n (rev n)" by (simp add: range_order_def)
  moreover have "updated_conn (\<lambda>s. s) ?m ''mine'' = Some (protected own_connection)"
    by (simp add: updated_conn_def own_connection_def)
  ultimately show ?thesis using modify_update_spec [of rev ?m "\<lambda>s. s"] by (auto simp: Let_def)
qed

text \<open>
  A host list built from an empty one by any adding and removing of hosts, written to disk
  and read back, is the same list, provided no host holds a line break or is longer than the
  scanner's buffer; no host is in it twice, and a host is in it just when the last
  operation on it, up to white space around it, was an addition.
\<close>

lemma hosts_survive_disk:
  assumes "h_hosts h0 = []" and "h = foldl host_step h0 ops" and "list_all line_ok (h_hosts h)"
  shows "hosts_read (Some (hosts_write h)) h' = (h'\<lparr>h_hosts := h_hosts h\<rparr>, True) \<and>
    distinct (h_hosts h) \<and>
    (y \<in> set (h_hosts h) \<longleftrightarrow> (case find (\<lambda>e. op_host e = y) (rev ops) of Some (Add_Host _) \<Rightarrow> True | _ \<Rightarrow> False))"
proof -
  have "hosts_ok h0" using assms(1) by (simp add: hosts_ok_def)
  from host_list.run_good [OF this] have "hosts_ok h" by (simp add: assms(2))
  then show ?thesis
    using assms scan_written_lines [OF assms(3)] host_run_member [of y h0 ops]
    by (auto simp: hosts_read_def hosts_write_def hosts_ok_def split: option.splits host_op.splits)
qed

lemma hosts_survive_disk_witness:
  "let h = foldl host_step blank_hosts [Add_Host '' b.example '', Add_Host ''a.example'', Remove_Host ''b.example''] in
   hosts_read (Some (hosts_write h)) blank_hosts = (h, True) \<and> h_hosts h = [''a.example'']"
proof -
  let ?ops = "[Add_Host '' b.example '', Add_Host ''a.example'', Remove_Host ''b.example'']"
  have h: "foldl host_step blank_hosts ?ops = blank_hosts\<lparr>h_hosts := [''a.example'']\<rparr>" by code_simp
  show ?thesis
    using hosts_survive_disk [of blank_hosts "blank_hosts\<lparr>h_hosts := [''a.example'']\<rparr>" ?ops blank_hosts]
    unfolding h by (simp add: blank_hosts_def line_ok_def)
qed

text \<open>
  Reading the settings crashes exactly when the file holds the JSON value \<open>null\<close>. Otherwise
  the three bundled transports are configured as built in, whatever the file says of them,
  and a file that is broken and thus deleted, or that is missing, leaves version 0 and a
  user who has not been through the setup.
\<close>

lemma read_settings_result:
  "(read_settings sha256 ts True contents c = Crashed \<longleftrightarrow>
      (\<exists>d. contents = Some d \<and> parse_json d = Some JNull)) \<and>
   (read_settings sha256 ts True contents c = Returned (c', deleted) \<longrightarrow>
      (\<forall>t \<in> set bundled_transports. map_of (s_transports (cfg_settings c')) (t_name t) = Some t) \<and>
      (deleted \<or> contents = None \<longrightarrow>
         s_version (cfg_settings c') = 0 \<and> \<not> user_setup (s_local (cfg_settings c')) \<and>
         s_connections (cfg_settings c') = []))"
proof -
  have bundled: "\<forall>t \<in> set bundled_transports. map_of (add_transports bundled_transports m) (t_name t) = Some t" for m
    by (simp add: bundled_transports_def add_transports_def)
  have crash: "parse_config sha256 d = Crashed \<longleftrightarrow> parse_json d = Some JNull" for d
    by (simp add: parse_config_def split: option.splits json.splits)
  have crashed: "parse_json d = Some JNull \<Longrightarrow> parse_config sha256 d = Crashed" for d
    by (simp add: crash)
  have deflt: "l_country_code (s_local default_settings) = ''__''" "s_version default_settings = 0"
    "s_connections default_settings = []"
    by (simp_all add: default_settings_def zero_settings_def)
  show ?thesis
    using bundled
    by (cases contents)
      (auto simp: read_settings_def settings_template_parses crash install_settings_def deflt user_setup_def
        split: outcome.splits dest: crash [THEN iffD1] crashed)
qed

lemma read_settings_result_witness:
  "\<exists>c' deleted. read_settings (\<lambda>s. s) (\<lambda>m. m) True (Some ''{]'') blank_config = Returned (c', deleted) \<and>
     map_of (s_transports (cfg_settings c')) ''obfs4'' = Some (bundled_transports ! 1)"
proof -
  have "parse_config (\<lambda>s. s) ''{]'' = Failed" by code_simp
  then obtain c' d where r: "read_settings (\<lambda>s. s) (\<lambda>m. m) True (Some ''{]'') blank_config = Returned (c', d)"
    by (simp add: read_settings_def settings_template_parses)
  then show ?thesis
    using read_settings_result [THEN conjunct2, rule_format, OF r] by (auto simp: bundled_transports_def)
qed

end
