(* ===== verification/SharedUtils.thy ===== *)
theory SharedUtils
  imports GoText
begin

text \<open>
  \<open>pkg/shared/utils.go\<close>: the generator of instance identifiers, and the scrubbing of
  addresses from log text. The regular expression for addresses is matched as Go matches
  it: leftmost, and of the ways to match at one place the first in the order of the
  alternatives. \<open>ipv4_matches s\<close> lists, in that order, what is left of \<open>s\<close> after each way.
\<close>

section \<open>Identifiers\<close>

record id_gen =
  ig_count :: "64 word"
  ig_prefix :: string

definition alnum :: "char \<Rightarrow> bool" where
  "alnum c \<longleftrightarrow> is_digit c \<or> c \<in> set ''abcdefghijklmnopqrstuvwxyzABCDEFGHIJKLMNOPQRSTUVWXYZ''"

definition valid_id_prefix :: "string \<Rightarrow> bool" where
  "valid_id_prefix p \<longleftrightarrow> p \<noteq> [] \<and> list_all alnum p"

definition new_id_gen :: "string \<Rightarrow> id_gen option" where
  "new_id_gen p = (if valid_id_prefix p then Some \<lparr>ig_count = 0, ig_prefix = p\<rparr> else None)"

definition id_text :: "string \<Rightarrow> 64 word \<Rightarrow> string" where
  "id_text p n = p @ ''-'' @ show_nat (unat n)"

definition id_new :: "id_gen \<Rightarrow> string \<times> id_gen" where
  "id_new g = (let n = ig_count g + 1 in (id_text (ig_prefix g) n, g\<lparr>ig_count := n\<rparr>))"

fun id_stream :: "nat \<Rightarrow> id_gen \<Rightarrow> string list" where
  "id_stream 0 g = []"
| "id_stream (Suc k) g = (let (i, g') = id_new g in i # id_stream k g')"

lemma id_text_inj: "id_text p m = id_text p n \<Longrightarrow> m = n"
  proof -
  assume "id_text p m = id_text p n"
  then have "nat_of_digits (show_nat (unat m)) = nat_of_digits (show_nat (unat n))" by (simp add: id_text_def)
  then show "m = n" by (simp add: word_unat_eq_iff)
qed

lemma id_stream_nth: "id_stream k g = map (\<lambda>j. id_text (ig_prefix g) (ig_count g + of_nat (Suc j))) [0..<k]"
proof (induction k arbitrary: g)
  case (Suc k)
  have "[0..<Suc k] = 0 # map Suc [0..<k]" by (metis map_Suc_upt upt_conv_Cons zero_less_Suc)
  then show ?case by (simp add: Suc.IH id_new_def Let_def comp_def ac_simps)
qed simp

section \<open>Scrubbing\<close>

definition scrubbed :: string where
  "scrubbed = ''[scrubbed]''"

text \<open>\<open>SafeCleanReplace\<close>: \<open>strings.Replace\<close> without a limit; an empty text to replace matches
  before every rune and at the end.\<close>

function replace_from :: "string \<Rightarrow> string \<Rightarrow> string \<Rightarrow> string" where
  "replace_from old new s =
     (if old = [] then s
      else if has_prefix s old then new @ replace_from old new (drop (length old) s)
      else (case s of [] \<Rightarrow> [] | c # t \<Rightarrow> c # replace_from old new t))"
  by pat_completeness auto
termination
  by (relation "measure (\<lambda>(_, _, s). length s)") (auto simp: has_prefix_def intro!: diff_less)

declare replace_from.simps [simp del]

function replace_empty :: "string \<Rightarrow> string \<Rightarrow> string" where
  "replace_empty new s =
     (if s = [] then new
      else (let n = snd (decode_rune s) in new @ take (Suc (n - 1)) s @ replace_empty new (drop (Suc (n - 1)) s)))"
  by pat_completeness auto
termination
  by (relation "measure (\<lambda>(_, s). length s)") auto

declare replace_empty.simps [simp del]

definition safe_clean_replace :: "string \<Rightarrow> string \<Rightarrow> string" where
  "safe_clean_replace s secret =
     (if secret = [] then replace_empty scrubbed s else replace_from secret scrubbed s)"

definition between :: "char \<Rightarrow> char \<Rightarrow> char \<Rightarrow> bool" where
  "between a b c \<longleftrightarrow> (of_char a :: nat) \<le> of_char c \<and> (of_char c :: nat) \<le> of_char b"

definition block3 :: "(char \<Rightarrow> bool) \<Rightarrow> (char \<Rightarrow> bool) \<Rightarrow> (char \<Rightarrow> bool) \<Rightarrow> string \<Rightarrow> string list" where
  "block3 p q r s = (case s of a # b # c # t \<Rightarrow> if p a \<and> q b \<and> r c then [t] else [] | _ \<Rightarrow> [])"

definition block2 :: "(char \<Rightarrow> bool) \<Rightarrow> (char \<Rightarrow> bool) \<Rightarrow> string \<Rightarrow> string list" where
  "block2 p q s = (case s of a # b # t \<Rightarrow> if p a \<and> q b then [t] else [] | _ \<Rightarrow> [])"

definition block1 :: "(char \<Rightarrow> bool) \<Rightarrow> string \<Rightarrow> string list" where
  "block1 p s = (case s of a # t \<Rightarrow> if p a then [t] else [] | _ \<Rightarrow> [])"

definition addr_block :: "string \<Rightarrow> string list" where
  "addr_block s =
     block3 (\<lambda>a. a = CHR ''2'') (\<lambda>b. b = CHR ''5'') (between (CHR ''0'') (CHR ''5'')) s @
     block3 (\<lambda>a. a = CHR ''2'') (between (CHR ''0'') (CHR ''4'')) is_digit s @
     block3 (\<lambda>a. a = CHR ''1'') is_digit is_digit s @
     block2 (between (CHR ''1'') (CHR ''9'')) is_digit s @
     block1 is_digit s"

definition dot :: "string \<Rightarrow> string list" where
  "dot = block1 (\<lambda>c. c = CHR ''.'')"

definition ipv4_matches :: "string \<Rightarrow> string list" where
  "ipv4_matches s =
     concat (map addr_block (concat (map dot (concat (map addr_block (concat (map dot
       (concat (map addr_block (concat (map dot (addr_block s))))))))))))"

definition match_ipv4 :: "string \<Rightarrow> string option" where
  "match_ipv4 s = (case ipv4_matches s of [] \<Rightarrow> None | r # _ \<Rightarrow> Some r)"

text \<open>A way to match consumes digits and dots, and does so whatever follows them.\<close>

definition consumes :: "(string \<Rightarrow> string list) \<Rightarrow> bool" where
  "consumes f \<longleftrightarrow>
     (\<forall>s r. r \<in> set (f s) \<longrightarrow>
        (\<exists>p. s = p @ r \<and> p \<noteq> [] \<and> list_all (\<lambda>c. is_digit c \<or> c = CHR ''.'') p \<and> (\<forall>u. u \<in> set (f (p @ u)))))"

lemma consumesD:
  "consumes f \<Longrightarrow> r \<in> set (f s) \<Longrightarrow>
   \<exists>p. s = p @ r \<and> p \<noteq> [] \<and> list_all (\<lambda>c. is_digit c \<or> c = CHR ''.'') p \<and> (\<forall>u. u \<in> set (f (p @ u)))"
  by (simp add: consumes_def)

lemma consumes_then:
  assumes "consumes f" "consumes g"
  shows "consumes (\<lambda>s. concat (map g (f s)))"
  unfolding consumes_def
proof (intro allI impI)
  fix s r
  assume "r \<in> set (concat (map g (f s)))"
  then obtain m where m: "m \<in> set (f s)" "r \<in> set (g m)" by auto
  obtain p where p: "s = p @ m" "p \<noteq> []" "list_all (\<lambda>c. is_digit c \<or> c = CHR ''.'') p" "\<forall>u. u \<in> set (f (p @ u))"
    using consumesD [OF assms(1) m(1)] by blast
  obtain q where q: "m = q @ r" "list_all (\<lambda>c. is_digit c \<or> c = CHR ''.'') q" "\<forall>u. u \<in> set (g (q @ u))"
    using consumesD [OF assms(2) m(2)] by blast
  have "u \<in> set (concat (map g (f ((p @ q) @ u))))" for u using p(4) q(3) by auto
  then show "\<exists>p. s = p @ r \<and> p \<noteq> [] \<and> list_all (\<lambda>c. is_digit c \<or> c = CHR ''.'') p \<and>
      (\<forall>u. u \<in> set (concat (map g (f (p @ u)))))"
    using p q by (intro exI [of _ "p @ q"]) auto
qed

lemma consumes_append: "consumes f \<Longrightarrow> consumes g \<Longrightarrow> consumes (\<lambda>s. f s @ g s)"
  unfolding consumes_def by fastforce

lemma consumes_block3:
  "(\<And>c. p c \<or> q c \<or> r c \<Longrightarrow> is_digit c) \<Longrightarrow> consumes (block3 p q r)"
  unfolding consumes_def by (auto simp: block3_def split: list.splits if_splits)

lemma consumes_block2: "(\<And>c. p c \<or> q c \<Longrightarrow> is_digit c) \<Longrightarrow> consumes (block2 p q)"
  unfolding consumes_def by (auto simp: block2_def split: list.splits if_splits)

lemma consumes_block1: "(\<And>c. p c \<Longrightarrow> is_digit c \<or> c = CHR ''.'') \<Longrightarrow> consumes (block1 p)"
  unfolding consumes_def by (auto simp: block1_def split: list.splits if_splits)

lemma between_digit:
  "between (CHR ''0'') (CHR ''5'') c \<Longrightarrow> is_digit c" "between (CHR ''0'') (CHR ''4'') c \<Longrightarrow> is_digit c"
  "between (CHR ''1'') (CHR ''9'') c \<Longrightarrow> is_digit c"
  by (simp_all add: between_def is_digit_def)

lemma digit_chars: "is_digit (CHR ''1'')" "is_digit (CHR ''2'')" "is_digit (CHR ''5'')"
  by (simp_all add: is_digit_def)

lemma consumes_addr_block: "consumes addr_block"
  unfolding addr_block_def
  by (intro consumes_append consumes_block3 consumes_block2 consumes_block1) (auto dest: between_digit simp: digit_chars)

lemma consumes_dot: "consumes dot"
  unfolding dot_def by (rule consumes_block1) simp

lemma consumes_ipv4: "consumes ipv4_matches"
proof -
  have "consumes (\<lambda>s. concat (map addr_block (concat (map dot (concat (map addr_block (concat (map dot
       (concat (map addr_block (concat (map dot (addr_block s)))))))))))))"
    by (intro consumes_then consumes_addr_block consumes_dot)
  then show ?thesis by (simp add: ipv4_matches_def [abs_def])
qed

lemma match_ipv4_shorter: "match_ipv4 s = Some r \<Longrightarrow> length r < length s"
proof -
  assume "match_ipv4 s = Some r"
  then have "r \<in> set (ipv4_matches s)" by (auto simp: match_ipv4_def split: list.splits)
  from consumesD [OF consumes_ipv4 this] show "length r < length s" by auto
qed

function safe_clean :: "string \<Rightarrow> string" where
  "safe_clean s =
     (case match_ipv4 s of
        Some r \<Rightarrow> scrubbed @ safe_clean r
      | None \<Rightarrow> (case s of [] \<Rightarrow> [] | c # t \<Rightarrow> c # safe_clean t))"
  by pat_completeness auto
termination
  by (relation "measure length") (auto dest: match_ipv4_shorter)

declare safe_clean.simps [simp del]

section \<open>What is left after scrubbing\<close>

text \<open>No place of the text starts an address.\<close>

definition address_free :: "string \<Rightarrow> bool" where
  "address_free t \<longleftrightarrow> (\<forall>k \<le> length t. match_ipv4 (drop k t) = None)"

lemma match_ipv4_None: "match_ipv4 s = None \<longleftrightarrow> ipv4_matches s = []"
  by (simp add: match_ipv4_def split: list.splits)

lemma address_free_Nil [simp]: "address_free []"
  by (simp add: address_free_def match_ipv4_def ipv4_matches_def addr_block_def block3_def block2_def block1_def)

lemma address_free_Cons: "address_free (c # t) \<longleftrightarrow> match_ipv4 (c # t) = None \<and> address_free t"
proof
  assume a: "address_free (c # t)"
  then have "match_ipv4 (drop (Suc k) (c # t)) = None" if "k \<le> length t" for k
    using that unfolding address_free_def by (metis Suc_le_mono length_Cons)
  then show "match_ipv4 (c # t) = None \<and> address_free t"
    using a unfolding address_free_def by force
next
  assume a: "match_ipv4 (c # t) = None \<and> address_free t"
  show "address_free (c # t)"
    unfolding address_free_def
  proof (intro allI impI)
    fix k
    assume "k \<le> length (c # t)"
    then show "match_ipv4 (drop k (c # t)) = None" using a by (cases k) (auto simp: address_free_def)
  qed
qed

lemma match_needs_digit: "\<not> is_digit c \<Longrightarrow> c \<noteq> CHR ''.'' \<Longrightarrow> match_ipv4 (c # t) = None"
proof (rule ccontr)
  assume c: "\<not> is_digit c" "c \<noteq> CHR ''.''" and "match_ipv4 (c # t) \<noteq> None"
  then obtain r where "r \<in> set (ipv4_matches (c # t))" by (cases "ipv4_matches (c # t)") (auto simp: match_ipv4_None)
  from consumesD [OF consumes_ipv4 this] c show False by (auto simp: Cons_eq_append_conv)
qed

lemma scrubbed_address_free: "address_free t \<Longrightarrow> address_free (scrubbed @ t)"
  by (simp add: scrubbed_def address_free_Cons match_needs_digit is_digit_def)

text \<open>Up to the first mark, the scrubbed text is the text.\<close>

lemma safe_clean_prefix:
  "list_all (\<lambda>c. is_digit c \<or> c = CHR ''.'') p \<Longrightarrow> safe_clean t = p @ u \<Longrightarrow> \<exists>v. t = p @ v"
proof (induction p arbitrary: t)
  case (Cons c p)
  show ?case
  proof (cases "match_ipv4 t")
    case None
    with Cons.prems(2) obtain t' where t: "t = c # t'" "safe_clean t' = p @ u"
      by (subst (asm) safe_clean.simps) (auto split: list.splits)
    with Cons show ?thesis by auto
  next
    case (Some r)
    with Cons.prems(2) have "c = CHR ''[''"
      by (subst (asm) safe_clean.simps) (simp add: scrubbed_def)
    with Cons.prems(1) show ?thesis by (simp add: is_digit_def)
  qed
qed simp

lemma safe_clean_address_free: "address_free (safe_clean s)"
proof (induction s rule: safe_clean.induct)
  case (1 s)
  show ?case
  proof (cases "match_ipv4 s")
    case (Some r)
    have "safe_clean s = scrubbed @ safe_clean r" by (subst safe_clean.simps) (simp add: Some)
    then show ?thesis using 1(2) [OF Some] by (simp add: scrubbed_address_free)
  next
    case None
    show ?thesis
    proof (cases s)
      case Nil
      then show ?thesis using None by (subst safe_clean.simps) simp
    next
      case (Cons c t)
      have clean: "safe_clean s = c # safe_clean t" using None unfolding Cons by (subst safe_clean.simps) simp
      have "ipv4_matches (c # safe_clean t) = []"
      proof (rule ccontr)
        assume "ipv4_matches (c # safe_clean t) \<noteq> []"
        then obtain r where "r \<in> set (ipv4_matches (c # safe_clean t))"
          by (cases "ipv4_matches (c # safe_clean t)") auto
        then obtain p where p: "c # safe_clean t = p @ r" "list_all (\<lambda>c. is_digit c \<or> c = CHR ''.'') p"
          "p \<noteq> []" "\<forall>u. u \<in> set (ipv4_matches (p @ u))"
          using consumesD [OF consumes_ipv4] by blast
        then obtain q where q: "p = c # q" "safe_clean t = q @ r" by (cases p) auto
        with p safe_clean_prefix [of q t r] obtain v where "s = p @ v" by (auto simp: Cons)
        with p(4) have "v \<in> set (ipv4_matches s)" by simp
        with None show False by (simp add: match_ipv4_None)
      qed
      then show ?thesis using 1(1) [OF None Cons] by (simp add: clean address_free_Cons match_ipv4_None)
    qed
  qed
qed

lemma safe_clean_same: "address_free s \<Longrightarrow> safe_clean s = s"
proof (induction s)
  case Nil
  then show ?case by (subst safe_clean.simps) (simp add: address_free_def)
next
  case (Cons c s)
  then show ?case by (subst safe_clean.simps) (simp add: address_free_Cons)
qed

section \<open>Properties\<close>

text \<open>
  The scrubbed text holds no address of version 4 anywhere, not even one that arises where
  an address was cut out; a text without an address is left as it is, and scrubbing a
  second time changes nothing.
\<close>

lemma safe_clean_scrubs:
  "address_free (safe_clean s) \<and> (safe_clean s = s \<longleftrightarrow> address_free s) \<and> safe_clean (safe_clean s) = safe_clean s"
  using safe_clean_address_free safe_clean_same by metis

text \<open>
  The identifiers one generator hands out are pairwise different, as long as it hands out
  at most the 2^64 its counter has values for.
\<close>

lemma id_stream_distinct:
  assumes "k \<le> 2 ^ 64"
  shows "distinct (id_stream k g)"
proof -
  have "inj_on (\<lambda>j. id_text (ig_prefix g) (ig_count g + of_nat (Suc j))) {0..<k}"
  proof (rule inj_onI)
    fix i j
    assume ij: "i \<in> {0..<k}" "j \<in> {0..<k}"
      and "id_text (ig_prefix g) (ig_count g + of_nat (Suc i)) = id_text (ig_prefix g) (ig_count g + of_nat (Suc j))"
    then have "(of_nat i :: 64 word) = of_nat j" by (auto dest: id_text_inj)
    then show "i = j" using ij assms by (simp add: word_of_nat_eq_iff take_bit_nat_eq_self)
  qed
  then show ?thesis by (simp add: id_stream_nth distinct_map)
qed

lemma id_stream_distinct_witness: "distinct (id_stream 3 \<lparr>ig_count = - 2, ig_prefix = ''service''\<rparr>)"
  by (rule id_stream_distinct) simp

end
