(* ===== verification/ServiceServer.thy ===== *)
theory ServiceServer
  imports SharedUtils Contracts
begin

text \<open>
  \<open>pkg/service/server\<close>: the side of the service protocol that runs in the transport process.
  The environment is a map; what is printed is appended to the text of standard output. A
  panic is \<open>None\<close> or \<open>Crashed\<close>. A method handler counts bytes and open connections in
  words of 64 bits; the order in which the reports range over its map is an argument.
\<close>

section \<open>Options\<close>

type_synonym environment = "(string, string) gomap"

definition getenv :: "environment \<Rightarrow> string \<Rightarrow> string" where
  "getenv env k = (case map_of env k of None \<Rightarrow> [] | Some v \<Rightarrow> v)"

record opt =
  op_name :: string
  op_default :: string

definition new_option :: "string \<Rightarrow> opt" where
  "new_option n = \<lparr>op_name = n, op_default = []\<rparr>"

definition env_name :: "opt \<Rightarrow> string" where
  "env_name o1 = ''ALKASIR_'' @ to_upper (op_name o1)"

definition opt_has :: "environment \<Rightarrow> opt \<Rightarrow> bool" where
  "opt_has env o1 \<longleftrightarrow> op_default o1 \<noteq> [] \<or> getenv env (env_name o1) \<noteq> []"

definition opt_get :: "environment \<Rightarrow> opt \<Rightarrow> string" where
  "opt_get env o1 = (let v = getenv env (env_name o1) in if v = [] then op_default o1 else v)"

definition opt_is :: "environment \<Rightarrow> opt \<Rightarrow> string \<Rightarrow> bool" where
  "opt_is env o1 v \<longleftrightarrow> opt_has env o1 \<and> opt_get env o1 = v"

definition opt_set_default :: "string \<Rightarrow> opt \<Rightarrow> opt" where
  "opt_set_default v o1 = o1\<lparr>op_default := v\<rparr>"

definition opt_required :: "environment \<Rightarrow> opt \<Rightarrow> string option" where
  "opt_required env o1 =
     (if getenv env (env_name o1) = [] then Some (''required variable not set: '' @ env_name o1) else None)"

definition opt_bind_addr :: "environment \<Rightarrow> opt \<Rightarrow> string" where
  "opt_bind_addr env o1 = (if opt_has env o1 then opt_get env o1 else ''127.0.0.1:'')"

section \<open>Lines of the protocol\<close>

definition keyword_is_safe :: "string \<Rightarrow> bool" where
  "keyword_is_safe k \<longleftrightarrow> k \<noteq> [] \<and> list_all (\<lambda>c. alnum c \<or> c = CHR ''_'' \<or> c = CHR ''-'') k"

definition arg_is_safe :: "string \<Rightarrow> bool" where
  "arg_is_safe a \<longleftrightarrow> list_all (\<lambda>c. of_char c < (0x80::nat) \<and> of_char c \<noteq> (0::nat) \<and> c \<noteq> CHR 0x0A) a"

definition formatline :: "string \<Rightarrow> string list \<Rightarrow> string option" where
  "formatline keyword args =
     (if keyword_is_safe keyword \<and> list_all arg_is_safe args
      then Some (keyword @ concat (map (\<lambda>x. CHR '' '' # x) args)) else None)"

definition line :: "string \<Rightarrow> string list \<Rightarrow> string \<Rightarrow> string option" where
  "line keyword args out = map_option (\<lambda>l. out @ l @ [CHR 0x0A]) (formatline keyword args)"

datatype server_error = Plain_Err string | Pt_Err string "string list"

fun error_text :: "server_error \<Rightarrow> string option" where
  "error_text (Plain_Err s) = Some s"
| "error_text (Pt_Err k args) = formatline k args"

definition get_error :: "string \<Rightarrow> string list \<Rightarrow> server_error" where
  "get_error k args = Pt_Err k args"

definition do_error :: "string \<Rightarrow> string list \<Rightarrow> string \<Rightarrow> (string \<times> server_error) option" where
  "do_error k args out = map_option (\<lambda>out'. (out', Pt_Err k args)) (line k args out)"

definition transport_not_found :: "environment \<Rightarrow> server_error" where
  "transport_not_found env = get_error ''METHOD-ERROR'' [getenv env ''ALKASIR_TRANSPORT'', ''TRANSPORT NOT FOUND'']"

definition service_not_found :: "environment \<Rightarrow> server_error" where
  "service_not_found env = get_error ''METHOD-ERROR'' [getenv env ''ALKASIR_SERVICE'', ''SERVICE NOT FOUND'']"

section \<open>Method handlers\<close>

record method_handler =
  mh_method :: string
  mh_version :: string
  mh_nread :: "64 word"
  mh_nwrite :: "64 word"
  mh_addrs :: "(string, 64 word) gomap"

definition new_handler :: "string \<Rightarrow> method_handler" where
  "new_handler m = \<lparr>mh_method = m, mh_version = ''1.0'', mh_nread = 0, mh_nwrite = 0, mh_addrs = []\<rparr>"

definition track_open :: "string \<Rightarrow> method_handler \<Rightarrow> method_handler" where
  "track_open a h =
     (case map_of (mh_addrs h) a of
        Some n \<Rightarrow> h\<lparr>mh_addrs := AList.update a (n + 1) (mh_addrs h)\<rparr>
      | None \<Rightarrow> h\<lparr>mh_addrs := AList.update a 1 (mh_addrs h)\<rparr>)"

definition track_close :: "string \<Rightarrow> method_handler \<Rightarrow> method_handler" where
  "track_close a h =
     (case map_of (mh_addrs h) a of
        Some n \<Rightarrow> h\<lparr>mh_addrs := AList.update a (n - 1) (mh_addrs h)\<rparr>
      | None \<Rightarrow> h\<lparr>mh_addrs := AList.update a 0 (mh_addrs h)\<rparr>)"

text \<open>What a monitored connection or listener reports; \<open>n\<close> is an \<open>int64\<close>.\<close>

definition on_read :: "64 word \<Rightarrow> method_handler \<Rightarrow> method_handler" where
  "on_read n h = h\<lparr>mh_nread := mh_nread h + n\<rparr>"

definition on_write :: "64 word \<Rightarrow> method_handler \<Rightarrow> method_handler" where
  "on_write n h = h\<lparr>mh_nwrite := mh_nwrite h + n\<rparr>"

definition handles :: "environment \<Rightarrow> method_handler \<Rightarrow> bool" where
  "handles env h \<longleftrightarrow>
     opt_get env (new_option ''service'') = ''transport'' \<and> opt_get env (new_option ''transport'') = mh_method h"

definition print_error :: "method_handler \<Rightarrow> string \<Rightarrow> string \<Rightarrow> (string \<times> server_error) option" where
  "print_error h text1 out = do_error ''ERROR'' [mh_method h, text1] out"

definition print_version :: "environment \<Rightarrow> method_handler \<Rightarrow> string \<Rightarrow> (string \<times> server_error option) option" where
  "print_version env h out =
     (case line ''VERSION'' [mh_version h] out of
        None \<Rightarrow> None
      | Some out' \<Rightarrow>
          (case opt_required env (new_option ''service'') of
             Some msg \<Rightarrow> map_option (\<lambda>(o2, e). (o2, Some e)) (print_error h msg out')
           | None \<Rightarrow> Some (out', None)))"

definition print_done :: "string \<Rightarrow> string option" where
  "print_done out = line ''DONE'' [] out"

definition print_parent :: "method_handler \<Rightarrow> string \<Rightarrow> string \<Rightarrow> string \<Rightarrow> string option" where
  "print_parent h proto addr out = line ''PARENT'' [mh_method h, proto, addr] out"

definition print_expose :: "method_handler \<Rightarrow> string \<Rightarrow> string \<Rightarrow> string \<Rightarrow> string option" where
  "print_expose h proto addr out = line ''EXPOSE'' [mh_method h, proto, addr] out"

text \<open>
  One turn of \<open>monitor\<close>: the report, and the time and byte total the next turn starts from.
  The throughput is a \<open>float64\<close> quotient, kept as dividend and divisor (nanoseconds).
\<close>

record transport_traffic =
  tt_opened :: "string list"
  tt_read_total :: "64 word"
  tt_write_total :: "64 word"
  tt_throughput :: "64 word \<times> time"

definition opened_addrs :: "((string, 64 word) gomap \<Rightarrow> (string, 64 word) gomap) \<Rightarrow> method_handler \<Rightarrow> string list" where
  "opened_addrs ord h = map fst (filter (\<lambda>(k, v). 0 < v) (ord (mh_addrs h)))"

definition monitor_turn ::
  "((string, 64 word) gomap \<Rightarrow> (string, 64 word) gomap) \<Rightarrow> time \<Rightarrow> time \<times> 64 word \<Rightarrow> method_handler \<Rightarrow>
   transport_traffic \<times> (time \<times> 64 word)" where
  "monitor_turn ord now st h =
     (let (lasttime, lastval) = st;
          ntotal = mh_nread h + mh_nwrite h;
          since = ntotal - lastval
      in (\<lparr>tt_opened = opened_addrs ord h, tt_read_total = mh_nread h, tt_write_total = mh_nwrite h,
           tt_throughput = (since, now - lasttime)\<rparr>, (now, ntotal)))"

text \<open>\<open>postActivity\<close>: the address and the authorization header of the request, when there is one.\<close>

definition post_activity :: "environment \<Rightarrow> transport_traffic \<Rightarrow> (string \<times> string \<times> transport_traffic) option" where
  "post_activity env t =
     (let auth = new_option ''sauth''; addr = new_option ''saddr'' in
      if \<not> opt_has env auth \<or> \<not> opt_has env addr then None
      else Some (opt_get env addr, ''Bearer '' @ opt_get env auth, t))"

section \<open>Entry point\<close>

definition check_service_env :: "environment \<Rightarrow> bool" where
  "check_service_env env \<longleftrightarrow> getenv env ''ALKASIR_SERVICE'' \<noteq> []"

text \<open>A checker returns a parser and an error, either of which may be \<open>nil\<close>.\<close>

fun first_parser :: "(opt \<Rightarrow> 'p option \<times> string option) list \<Rightarrow> opt \<Rightarrow> 'p option \<times> string option \<Rightarrow> 'p option \<times> string option" where
  "first_parser [] o1 r = r"
| "first_parser (c # cs) o1 r = (case c o1 of (p, None) \<Rightarrow> (p, None) | (p, Some e) \<Rightarrow> first_parser cs o1 (p, Some e))"

definition find_parser :: "environment \<Rightarrow> (opt \<Rightarrow> 'p option \<times> string option) list \<Rightarrow> 'p option \<times> string option" where
  "find_parser env checkers =
     (let o1 = new_option ''service'' in
      if \<not> opt_has env o1 then (None, Some ''no service specified'') else first_parser checkers o1 (None, None))"

text \<open>\<open>tryRunService\<close> calls through the parser it found, which crashes when that is \<open>nil\<close>.\<close>

definition try_run_service ::
  "environment \<Rightarrow> (opt \<Rightarrow> 'p option \<times> string option) list \<Rightarrow> ('p \<Rightarrow> 's + string) \<Rightarrow> ('s \<Rightarrow> string option) \<Rightarrow>
   string option outcome" where
  "try_run_service env checkers parse start =
     (case find_parser env checkers of
        (_, Some e) \<Rightarrow> Returned (Some e)
      | (None, None) \<Rightarrow> Crashed
      | (Some p, None) \<Rightarrow> (case parse p of Inr e \<Rightarrow> Returned (Some e) | Inl s \<Rightarrow> Returned (start s)))"

definition run_service ::
  "environment \<Rightarrow> (opt \<Rightarrow> 'p option \<times> string option) list \<Rightarrow> ('p \<Rightarrow> 's + string) \<Rightarrow> ('s \<Rightarrow> string option) \<Rightarrow>
   nat outcome" where
  "run_service env checkers parse start =
     (case try_run_service env checkers parse start of
        Returned None \<Rightarrow> Returned 0
      | Returned (Some _) \<Rightarrow> Returned 1
      | Failed \<Rightarrow> Failed
      | Crashed \<Rightarrow> Crashed)"

section \<open>Counting connections\<close>

datatype conn_event = Opened string | Closed string

fun track :: "method_handler \<Rightarrow> conn_event \<Rightarrow> method_handler" where
  "track h (Opened a) = track_open a h"
| "track h (Closed a) = track_close a h"

text \<open>
  The count of an address after some events. A closing that is the first event on the
  address only makes it known; every later closing counts.
\<close>

definition own_events :: "string \<Rightarrow> conn_event list \<Rightarrow> conn_event list" where
  "own_events a es = filter (\<lambda>e. e = Opened a \<or> e = Closed a) es"

definition counted_events :: "string \<Rightarrow> conn_event list \<Rightarrow> conn_event list" where
  "counted_events a es =
     (let own = own_events a es in if own \<noteq> [] \<and> hd own = Closed a then tl own else own)"

definition net_count :: "string \<Rightarrow> conn_event list \<Rightarrow> 64 word" where
  "net_count a es =
     of_nat (count_list (counted_events a es) (Opened a)) - of_nat (count_list (counted_events a es) (Closed a))"

lemma track_addrs:
  "map_of (mh_addrs (track h e)) a =
     (if e = Opened a then Some (case map_of (mh_addrs h) a of None \<Rightarrow> 1 | Some n \<Rightarrow> n + 1)
      else if e = Closed a then Some (case map_of (mh_addrs h) a of None \<Rightarrow> 0 | Some n \<Rightarrow> n - 1)
      else map_of (mh_addrs h) a)"
  by (cases e) (auto simp: track_open_def track_close_def split: option.splits)

interpretation tracker: guarded_machine track "\<lambda>h :: method_handler. wf_map (mh_addrs h)"
proof
  fix h :: method_handler and e
  assume "wf_map (mh_addrs h)"
  then show "wf_map (mh_addrs (track h e))"
    by (cases e) (auto simp: track_open_def track_close_def split: option.splits)
qed

lemma count_list_snoc: "count_list (xs @ [x]) y = count_list xs y + (if x = y then 1 else 0)"
  by (induction xs) auto

lemma own_events_snoc:
  "own_events a (es @ [e]) = own_events a es @ (if e = Opened a \<or> e = Closed a then [e] else [])"
  by (simp add: own_events_def)

lemma counted_events_snoc:
  "counted_events a (es @ [e]) =
     (if own_events a es = [] \<and> e = Closed a then []
      else counted_events a es @ (if e = Opened a \<or> e = Closed a then [e] else []))"
  by (cases "own_events a es") (auto simp: counted_events_def own_events_snoc Let_def)

lemma track_run:
  "map_of (mh_addrs (foldl track (new_handler m) es)) a =
     (if own_events a es = [] then None else Some (net_count a es))"
proof (induction es rule: rev_induct)
  case Nil
  show ?case by (simp add: new_handler_def own_events_def)
next
  case (snoc e es)
  have "own_events a es = [] \<Longrightarrow> counted_events a es = []" by (simp add: counted_events_def)
  with snoc show ?case
    by (auto simp: track_addrs own_events_snoc counted_events_snoc net_count_def count_list_snoc)
qed

lemma track_run_wf: "wf_map (mh_addrs (foldl track (new_handler m) es))"
  by (rule tracker.run_good) (simp add: new_handler_def)

lemma opened_addrs_set:
  "range_order (mh_addrs h) (ord (mh_addrs h)) \<Longrightarrow> wf_map (mh_addrs h) \<Longrightarrow>
   a \<in> set (opened_addrs ord h) \<longleftrightarrow> (\<exists>n. map_of (mh_addrs h) a = Some n \<and> n \<noteq> 0)"
  by (force simp: opened_addrs_def range_order_set map_of_wf word_gt_0)

section \<open>Properties\<close>

text \<open>
  A report of the monitor lists an address as open exactly when its openings and its
  counted closings differ modulo 2^64. So as long as no connection is closed more often than
  it was opened the list is right, and one closing too many makes the address count as open.
\<close>

lemma monitor_opened:
  assumes "h = foldl track (new_handler m) es" and "range_order (mh_addrs h) (ord (mh_addrs h))"
  shows "a \<in> set (tt_opened (fst (monitor_turn ord now st h))) \<longleftrightarrow> net_count a es \<noteq> 0"
proof -
  have "own_events a es = [] \<Longrightarrow> net_count a es = 0"
    by (simp add: net_count_def counted_events_def)
  then show ?thesis
    using assms opened_addrs_set [where h = h and ord = ord, OF assms(2)] track_run_wf [of m es]
    by (auto simp: monitor_turn_def track_run Let_def split: prod.splits)
qed

lemma monitor_opened_witness:
  "let h = foldl track (new_handler ''obfs4'') [Opened ''a'', Closed ''a'', Opened ''b'', Closed ''b'', Closed ''b''] in
   ''a'' \<notin> set (tt_opened (fst (monitor_turn (\<lambda>m. m) 9 (0, 0) h))) \<and>
   ''b'' \<in> set (tt_opened (fst (monitor_turn (\<lambda>m. m) 9 (0, 0) h)))"
  unfolding Let_def
  by (simp add: monitor_opened [OF refl] net_count_def counted_events_def own_events_def del: foldl_Cons)

text \<open>
  Running as a service crashes exactly when the service variable is set and no checker
  is registered; it uses the first checker that accepts, and without a service it ends with
  the error that none was named.
\<close>

lemma run_service_cases:
  "(try_run_service env checkers parse start = Crashed \<longleftrightarrow>
      check_service_env env \<and> (checkers = [] \<or> (\<exists>c. find (\<lambda>c. snd (c (new_option ''service'')) = None) checkers = Some c \<and>
         fst (c (new_option ''service'')) = None))) \<and>
   (check_service_env env \<longrightarrow>
      find (\<lambda>c. snd (c (new_option ''service'')) = None) checkers = Some c \<longrightarrow> c (new_option ''service'') = (Some p, None) \<longrightarrow>
      try_run_service env checkers parse start =
        (case parse p of Inr e \<Rightarrow> Returned (Some e) | Inl s \<Rightarrow> Returned (start s))) \<and>
   (\<not> check_service_env env \<longrightarrow> run_service env checkers parse start = Returned 1)"
proof -
  let ?o = "new_option ''service''"
  have env: "opt_has env ?o = check_service_env env"
  proof -
    have "env_name ?o = ''ALKASIR_SERVICE''" by code_simp
    then show ?thesis by (simp add: opt_has_def new_option_def check_service_env_def)
  qed
  have first: "first_parser cs ?o r =
      (case find (\<lambda>c. snd (c ?o) = None) cs of
         Some c \<Rightarrow> (fst (c ?o), None)
       | None \<Rightarrow> if cs = [] then r else (last cs) ?o)" for cs :: "(opt \<Rightarrow> 'a option \<times> string option) list" and r
    by (induction cs arbitrary: r) (auto split: option.splits prod.splits)
  have last: "find (\<lambda>c. snd (c ?o) = None) cs = None \<Longrightarrow> cs \<noteq> [] \<Longrightarrow> snd ((last cs) ?o) \<noteq> None"
    for cs :: "(opt \<Rightarrow> 'a option \<times> string option) list"
    by (auto simp: find_None_iff)
  show ?thesis
    using last [of checkers]
    by (auto simp: try_run_service_def run_service_def find_parser_def env first split: option.splits sum.splits prod.splits)
qed

end
