(* ===== verification/Service.thy ===== *)
theory Service
  imports ServiceServer ClientConfig
begin

text \<open>
  \<open>pkg/service\<close>: the side of the service protocol that runs in the client. The services are
  objects of a store (a list; a pointer is an index), because the registry, the transport
  and the goroutine of a service all change the same object. The registry maps identifiers
  to pointers. The process behind a service is an argument: what it prints until it goes
  quiet, or the error that keeps it from starting.

  A goroutine waits for the stop request of every running service. \<open>sv_quitting\<close> says that it
  received one; \<open>service_stopped\<close> is what it does then. A second stop request in between is
  sent to a channel nobody receives from, which is closed when the goroutine ends: the
  sender crashes.
\<close>

section \<open>State\<close>

record meth =
  me_id :: string
  me_name :: string
  me_service :: nat
  me_bind_addr :: string
  me_protocol :: string

record service =
  sv_id :: string
  sv_name :: string
  sv_running :: bool
  sv_quitting :: bool
  sv_command :: string
  sv_request :: "(string, string) gomap"
  sv_response :: "(string, string) gomap"
  sv_methods :: "meth list"
  sv_auth_secret :: string
  sv_remove_on_stop :: bool
  sv_is_copy :: bool

record world =
  w_heap :: "service list"
  w_items :: "(string, nat) gomap"
  w_service_ids :: id_gen
  w_method_ids :: id_gen
  w_transports :: "(string, transport) gomap"

definition initial_world :: world where
  "initial_world =
     \<lparr>w_heap = [], w_items = [], w_service_ids = \<lparr>ig_count = 0, ig_prefix = ''service''\<rparr>,
      w_method_ids = \<lparr>ig_count = 0, ig_prefix = ''method''\<rparr>, w_transports = []\<rparr>"

definition sv_at :: "world \<Rightarrow> nat \<Rightarrow> service" where
  "sv_at w r = w_heap w ! r"

definition change_service :: "(service \<Rightarrow> service) \<Rightarrow> nat \<Rightarrow> world \<Rightarrow> world" where
  "change_service f r w = w\<lparr>w_heap := (w_heap w)[r := f (w_heap w ! r)]\<rparr>"

definition service_copy :: "service \<Rightarrow> service" where
  "service_copy s = s\<lparr>sv_is_copy := True\<rparr>"

section \<open>The registry\<close>

definition services_service :: "string \<Rightarrow> world \<Rightarrow> service option" where
  "services_service i w = map_option (\<lambda>r. service_copy (sv_at w r)) (map_of (w_items w) i)"

definition all_services :: "((string, nat) gomap \<Rightarrow> (string, nat) gomap) \<Rightarrow> world \<Rightarrow> service list" where
  "all_services ord w = map (\<lambda>(_, r). service_copy (sv_at w r)) (ord (w_items w))"

definition services_add :: "nat \<Rightarrow> world \<Rightarrow> string option \<times> world" where
  "services_add r w =
     (let i = sv_id (sv_at w r) in
      if map_of (w_items w) i \<noteq> None then (Some ''must have unique id'', w)
      else (None, w\<lparr>w_items := AList.update i r (w_items w)\<rparr>))"

definition services_remove :: "nat \<Rightarrow> world \<Rightarrow> string option \<times> world" where
  "services_remove r w =
     (let i = sv_id (sv_at w r) in
      if map_of (w_items w) i = None then (Some ''service not registered, cannot be removed'', w)
      else (None, w\<lparr>w_items := AList.delete i (w_items w)\<rparr>))"

definition all_methods :: "((string, nat) gomap \<Rightarrow> (string, nat) gomap) \<Rightarrow> world \<Rightarrow> meth list" where
  "all_methods ord w = concat (map (\<lambda>(_, r). sv_methods (sv_at w r)) (ord (w_items w)))"

definition services_method :: "((string, nat) gomap \<Rightarrow> (string, nat) gomap) \<Rightarrow> string \<Rightarrow> world \<Rightarrow> meth option" where
  "services_method ord i w =
     (if trim_space i = [] then None
      else fold (\<lambda>m found. if me_id m = i then Some m else found) (all_methods ord w) None)"

section \<open>Services\<close>

definition fresh_service :: "string \<Rightarrow> string \<Rightarrow> service" where
  "fresh_service i name =
     \<lparr>sv_id = i, sv_name = name, sv_running = False, sv_quitting = False, sv_command = [], sv_request = [],
      sv_response = [], sv_methods = [], sv_auth_secret = [], sv_remove_on_stop = False, sv_is_copy = False\<rparr>"

definition new_service :: "string \<Rightarrow> world \<Rightarrow> (nat \<times> world) outcome" where
  "new_service name w =
     (let (i, ids) = id_new (w_service_ids w);
          r = length (w_heap w)
      in (case services_add r (w\<lparr>w_service_ids := ids, w_heap := w_heap w @ [fresh_service i name]\<rparr>) of
            (Some e, _) \<Rightarrow> Crashed
          | (None, w') \<Rightarrow> Returned (r, w')))"

definition register_method :: "string \<Rightarrow> string \<Rightarrow> string \<Rightarrow> nat \<Rightarrow> world \<Rightarrow> world" where
  "register_method name protocol bind_addr r w =
     (let (i, ids) = id_new (w_method_ids w);
          m = \<lparr>me_id = i, me_name = name, me_service = r, me_bind_addr = bind_addr, me_protocol = protocol\<rparr>
      in change_service (\<lambda>s. s\<lparr>sv_methods := sv_methods s @ [m]\<rparr>) r (w\<lparr>w_method_ids := ids\<rparr>))"

definition service_stop :: "nat \<Rightarrow> world \<Rightarrow> world outcome" where
  "service_stop r w =
     (if \<not> sv_running (sv_at w r) then Returned w
      else if sv_quitting (sv_at w r) then Crashed
      else Returned (change_service (\<lambda>s. s\<lparr>sv_quitting := True\<rparr>) r w))"

definition service_stopped :: "nat \<Rightarrow> world \<Rightarrow> world" where
  "service_stopped r w =
     (if sv_running (sv_at w r) \<and> sv_quitting (sv_at w r)
      then change_service (\<lambda>s. s\<lparr>sv_running := False, sv_quitting := False\<rparr>) r
             (if sv_remove_on_stop (sv_at w r) then snd (services_remove r w) else w)
      else w)"

definition service_remove :: "nat \<Rightarrow> world \<Rightarrow> (string option \<times> world) outcome" where
  "service_remove r w =
     (if sv_running (sv_at w r)
      then (case service_stop r (change_service (\<lambda>s. s\<lparr>sv_remove_on_stop := True\<rparr>) r w) of
              Returned w' \<Rightarrow> Returned (None, w')
            | Failed \<Rightarrow> Failed
            | Crashed \<Rightarrow> Crashed)
      else Returned (services_remove r w))"

definition set_var :: "string \<Rightarrow> string \<Rightarrow> nat \<Rightarrow> world \<Rightarrow> world outcome" where
  "set_var k v r w =
     (if sv_running (sv_at w r) then Crashed
      else Returned (change_service (\<lambda>s. s\<lparr>sv_request := AList.update k v (sv_request s)\<rparr>) r w))"

definition alkasir_prefix :: string where "alkasir_prefix = ''ALKASIR_''"

definition init_env :: "((string, string) gomap \<Rightarrow> (string, string) gomap) \<Rightarrow> string list \<Rightarrow> service \<Rightarrow> string list" where
  "init_env ord environ s =
     filter (\<lambda>v. v \<noteq> ''ALKASIR_DEBUG'' \<and> \<not> has_prefix v alkasir_prefix) environ @
     map (\<lambda>(k, v). alkasir_prefix @ to_upper k @ ''='' @ v) (ord (sv_request s)) @
     [''ALKASIR_SAUTH='' @ sv_auth_secret s,
      ''ALKASIR_SADDR='' @ ''http://localhost:8899/api/transports/traffic/'']"

section \<open>The lines a service prints\<close>

datatype service_line =
    Error_Line
  | Done_Line
  | Expose_Line string string string
  | Version_Line
  | Parent_Line string string string
  | Other_Line

text \<open>\<open>keyword a b c\<close> with three words that are not empty, after the regular expressions.\<close>

definition three_words :: "string \<Rightarrow> string \<Rightarrow> (string \<times> string \<times> string) option" where
  "three_words keyword l =
     (if has_prefix l (keyword @ '' '')
      then (case split_char (CHR '' '') (drop (Suc (length keyword)) l) of
              [a, b, c] \<Rightarrow> if a \<noteq> [] \<and> b \<noteq> [] \<and> c \<noteq> [] then Some (a, b, c) else None
            | _ \<Rightarrow> None)
      else None)"

definition parse_line :: "string \<Rightarrow> service_line" where
  "parse_line l =
     (if has_prefix l ''ERROR'' then Error_Line
      else if l = ''DONE'' then Done_Line
      else (case three_words ''EXPOSE'' l of
              Some (m, p, a) \<Rightarrow> Expose_Line m p a
            | None \<Rightarrow>
                if has_prefix l ''VERSION '' then Version_Line
                else (case three_words ''PARENT'' l of
                        Some (m, p, a) \<Rightarrow> Parent_Line m p a
                      | None \<Rightarrow> Other_Line)))"

definition set_response :: "string \<Rightarrow> string \<Rightarrow> nat \<Rightarrow> world \<Rightarrow> world" where
  "set_response k v r w = change_service (\<lambda>s. s\<lparr>sv_response := AList.update k v (sv_response s)\<rparr>) r w"

text \<open>The loop of \<open>initService\<close>; when the output ends before \<open>DONE\<close> there is no error.\<close>

fun handle_lines :: "string list \<Rightarrow> nat \<Rightarrow> world \<Rightarrow> string option \<times> world" where
  "handle_lines [] r w = (None, w)"
| "handle_lines (l # ls) r w =
     (case parse_line l of
        Error_Line \<Rightarrow> (Some (''error: '' @ l), w)
      | Done_Line \<Rightarrow> (None, w)
      | Expose_Line m p a \<Rightarrow>
          handle_lines ls r (register_method m p a r (set_response ''protocol'' p r (set_response ''bindaddr'' a r w)))
      | Version_Line \<Rightarrow> handle_lines ls r w
      | Parent_Line m p a \<Rightarrow> handle_lines ls r (set_response ''parentaddr'' a r w)
      | Other_Line \<Rightarrow> (Some ''unhandeled line'', w))"

definition init_service :: "(string \<Rightarrow> string list \<Rightarrow> string + string) \<Rightarrow> string list \<Rightarrow> nat \<Rightarrow> world \<Rightarrow> string option \<times> world" where
  "init_service launch env r w =
     (case launch (sv_command (sv_at w r)) env of
        Inl e \<Rightarrow> (Some e, w)
      | Inr out \<Rightarrow> handle_lines (scanned_lines out) r w)"

definition init_done :: "nat \<Rightarrow> world \<Rightarrow> world" where
  "init_done r w = change_service (\<lambda>s. s\<lparr>sv_running := True\<rparr>) r w"

definition service_start ::
  "(string \<Rightarrow> string list \<Rightarrow> string + string) \<Rightarrow> ((string, string) gomap \<Rightarrow> (string, string) gomap) \<Rightarrow> string list \<Rightarrow>
   nat \<Rightarrow> world \<Rightarrow> string option \<times> world" where
  "service_start launch ord environ r w =
     (case init_service launch (init_env ord environ (sv_at w r)) r w of
        (Some e, w') \<Rightarrow> (Some e, w')
      | (None, w') \<Rightarrow> (None, init_done r w'))"

section \<open>Transport services\<close>

record transport_service =
  ts_service :: nat
  ts_connection :: connection

definition ts_set :: "string \<Rightarrow> string \<Rightarrow> string \<Rightarrow> transport_service \<Rightarrow> world \<Rightarrow> string option \<times> world" where
  "ts_set msg k v t w =
     (if sv_running (sv_at w (ts_service t)) then (Some msg, w)
      else (case set_var k v (ts_service t) w of Returned w' \<Rightarrow> (None, w') | _ \<Rightarrow> (Some msg, w)))"

definition set_bindaddr :: "string \<Rightarrow> transport_service \<Rightarrow> world \<Rightarrow> string option \<times> world" where
  "set_bindaddr addr = ts_set ''Service already running, cannot set bindaddr'' ''bindaddr'' addr"

definition set_verbose :: "transport_service \<Rightarrow> world \<Rightarrow> string option \<times> world" where
  "set_verbose = ts_set ''Service already running, cannot set bindaddr'' ''verbose'' ''yes''"

definition response_of :: "nat \<Rightarrow> world \<Rightarrow> string \<Rightarrow> string" where
  "response_of r w k = (case map_of (sv_response (sv_at w r)) k of None \<Rightarrow> [] | Some v \<Rightarrow> v)"

definition set_parent :: "transport_service \<Rightarrow> transport_service \<Rightarrow> world \<Rightarrow> string option \<times> world" where
  "set_parent parent t w =
     (if sv_running (sv_at w (ts_service t)) then (Some ''Service already running, cannot set parent'', w)
      else if \<not> sv_running (sv_at w (ts_service parent))
        then (Some ''Parent must be running before starting service'', w)
      else ts_set ''Service already running, cannot set parent'' ''parentaddr''
             (response_of (ts_service parent) w ''bindaddr'') t w)"

definition update_transports :: "(string, transport) gomap \<Rightarrow> world \<Rightarrow> world" where
  "update_transports ts w = w\<lparr>w_transports := ts\<rparr>"

definition transport_command :: "string \<Rightarrow> connection \<Rightarrow> world \<Rightarrow> string option" where
  "transport_command arg0 c w =
     (let t = (case map_of (w_transports w) (c_transport c) of Some t \<Rightarrow> t | None \<Rightarrow> zero_transport) in
      if t_bundled t then Some arg0
      else if t_command t \<noteq> [] then Some (t_command t)
      else None)"

definition connection_vars :: "connection \<Rightarrow> (string \<times> string) list" where
  "connection_vars c =
     [(''service'', ''transport''), (''transport'', c_transport c), (''remoteaddr'', c_addr c), (''secret'', c_secret c)]"

fun set_vars :: "(string \<times> string) list \<Rightarrow> nat \<Rightarrow> world \<Rightarrow> world outcome" where
  "set_vars [] r w = Returned w"
| "set_vars ((k, v) # kvs) r w =
     (case set_var k v r w of Returned w' \<Rightarrow> set_vars kvs r w' | Failed \<Rightarrow> Failed | Crashed \<Rightarrow> Crashed)"

definition new_transport_service :: "string \<Rightarrow> connection \<Rightarrow> world \<Rightarrow> ((transport_service + string) \<times> world) outcome" where
  "new_transport_service arg0 c w =
     (case transport_command arg0 c w of
        None \<Rightarrow> Returned (Inr ''no command registered for service'', w)
      | Some command \<Rightarrow>
          (case new_service ''transport'' w of
             Returned (r, w1) \<Rightarrow>
               (case set_vars (connection_vars c) r (change_service (\<lambda>s. s\<lparr>sv_command := command\<rparr>) r w1) of
                  Returned w2 \<Rightarrow> Returned (Inl \<lparr>ts_service = r, ts_connection = c\<rparr>, w2)
                | _ \<Rightarrow> Crashed)
           | _ \<Rightarrow> Crashed))"

text \<open>
  \<open>StopAll\<close>: every registered service is asked to stop, then its goroutine waited for. (Asked
  of a service that is already quitting to be removed, it does not crash but blocks for
  ever: the goroutine waits for the lock \<open>StopAll\<close> holds. Both are \<open>Crashed\<close>.)
\<close>

fun stop_each :: "nat list \<Rightarrow> world \<Rightarrow> world outcome" where
  "stop_each [] w = Returned w"
| "stop_each (r # rs) w =
     (case service_stop r w of Returned w' \<Rightarrow> stop_each rs w' | Failed \<Rightarrow> Failed | Crashed \<Rightarrow> Crashed)"

definition stop_all :: "((string, nat) gomap \<Rightarrow> (string, nat) gomap) \<Rightarrow> world \<Rightarrow> world outcome" where
  "stop_all ord w =
     (case stop_each (map snd (ord (w_items w))) w of
        Returned w' \<Rightarrow> Returned (fold service_stopped (map snd (ord (w_items w))) w')
      | Failed \<Rightarrow> Failed
      | Crashed \<Rightarrow> Crashed)"

section \<open>The registry invariant\<close>

text \<open>
  The objects have the identifiers of the generator in the order of their creation, and the
  registry maps the identifier of an object to the object.
\<close>

definition heap_ok :: "service list \<Rightarrow> bool" where
  "heap_ok h \<longleftrightarrow> (\<forall>r < length h. sv_id (h ! r) = id_text ''service'' (of_nat (Suc r)))"

definition world_ok :: "world \<Rightarrow> bool" where
  "world_ok w \<longleftrightarrow>
     ig_prefix (w_service_ids w) = ''service'' \<and> ig_count (w_service_ids w) = of_nat (length (w_heap w)) \<and>
     heap_ok (w_heap w) \<and> wf_map (w_items w) \<and>
     (\<forall>i r. map_of (w_items w) i = Some r \<longrightarrow> r < length (w_heap w) \<and> sv_id (w_heap w ! r) = i)"

lemma world_ok_initial: "world_ok initial_world"
  by (simp add: world_ok_def heap_ok_def initial_world_def)

lemma sv_id_change: "(\<And>s. sv_id (f s) = sv_id s) \<Longrightarrow> sv_id (h[r := f (h ! r)] ! j) = sv_id (h ! j)"
  by (cases "r < length h") (auto simp: nth_list_update list_update_beyond)

lemma world_ok_change:
  assumes "world_ok w" "\<And>s. sv_id (f s) = sv_id s"
  shows "world_ok (change_service f r w)"
proof -
  have "heap_ok ((w_heap w)[r := f (w_heap w ! r)])"
    using assms by (simp add: heap_ok_def world_ok_def sv_id_change)
  then show ?thesis using assms by (simp add: world_ok_def change_service_def sv_id_change)
qed

lemma world_ok_method_ids: "world_ok (w\<lparr>w_method_ids := g\<rparr>) = world_ok w"
  by (simp add: world_ok_def)

lemma world_ok_services_remove: "world_ok w \<Longrightarrow> world_ok (snd (services_remove r w))"
  by (auto simp: services_remove_def world_ok_def Let_def)

lemma services_remove_ok: "services_remove r w = (e, w') \<Longrightarrow> world_ok w \<Longrightarrow> world_ok w'"
  using world_ok_services_remove [of w r] by simp

lemma world_ok_set_response: "world_ok w \<Longrightarrow> world_ok (set_response k v r w)"
  by (simp add: set_response_def world_ok_change)

lemma world_ok_register: "world_ok w \<Longrightarrow> world_ok (register_method n p a r w)"
  by (simp add: register_method_def world_ok_change world_ok_method_ids split: prod.splits)

lemma world_ok_handle_lines: "world_ok w \<Longrightarrow> world_ok (snd (handle_lines ls r w))"
  by (induction ls r w rule: handle_lines.induct)
    (auto simp: world_ok_register world_ok_set_response split: service_line.splits)

lemma handle_lines_ok: "handle_lines ls r w = (e, w') \<Longrightarrow> world_ok w \<Longrightarrow> world_ok w'"
  using world_ok_handle_lines [of w ls r] by simp

lemma world_ok_start: "world_ok w \<Longrightarrow> world_ok (snd (service_start launch ord environ r w))"
proof -
  assume w: "world_ok w"
  let ?env = "init_env ord environ (sv_at w r)"
  obtain e w' where i: "init_service launch ?env r w = (e, w')" by fastforce
  then have "world_ok w'"
    using w handle_lines_ok by (auto simp: init_service_def split: sum.splits)
  then show ?thesis
    by (cases e) (simp_all add: service_start_def i init_done_def world_ok_change)
qed

lemma heap_ok_snoc: "heap_ok (h @ [s]) \<longleftrightarrow> heap_ok h \<and> sv_id s = id_text ''service'' (of_nat (Suc (length h)))"
  by (auto simp: heap_ok_def nth_append less_Suc_eq)

definition next_service_id :: "world \<Rightarrow> string" where
  "next_service_id w = id_text ''service'' (of_nat (Suc (length (w_heap w))))"

lemma new_service_eq:
  assumes "world_ok w"
  shows "new_service name w =
    (if map_of (w_items w) (next_service_id w) \<noteq> None then Crashed
     else Returned (length (w_heap w),
       w\<lparr>w_service_ids := snd (id_new (w_service_ids w)),
         w_heap := w_heap w @ [fresh_service (next_service_id w) name],
         w_items := AList.update (next_service_id w) (length (w_heap w)) (w_items w)\<rparr>))"
proof -
  have "fst (id_new (w_service_ids w)) = next_service_id w"
    using assms by (simp add: id_new_def world_ok_def next_service_id_def Let_def ac_simps)
  then obtain g where g: "id_new (w_service_ids w) = (next_service_id w, g)"
    by (cases "id_new (w_service_ids w)") simp
  show ?thesis
    by (simp add: new_service_def services_add_def sv_at_def fresh_service_def Let_def g)
qed

lemma new_service_ok:
  assumes "world_ok w" "new_service name w = Returned (r, w')"
  shows "world_ok w'" "r = length (w_heap w)"
proof -
  have w': "r = length (w_heap w)" "w_service_ids w' = snd (id_new (w_service_ids w))"
    "w_heap w' = w_heap w @ [fresh_service (next_service_id w) name]"
    "w_items w' = AList.update (next_service_id w) (length (w_heap w)) (w_items w)"
    using assms(2) unfolding new_service_eq [OF assms(1)] by (auto split: if_splits)
  then show "r = length (w_heap w)" by simp
  have "heap_ok (w_heap w')"
    using assms(1) by (simp add: w' heap_ok_snoc world_ok_def next_service_id_def fresh_service_def)
  moreover have "ig_count (w_service_ids w') = of_nat (length (w_heap w'))" "ig_prefix (w_service_ids w') = ''service''"
    using assms(1) by (simp_all add: w' id_new_def world_ok_def Let_def)
  ultimately show "world_ok w'"
    using assms(1) by (auto simp: world_ok_def w' nth_append fresh_service_def intro: less_SucI)
qed

datatype service_op =
    New_Op string
  | Set_Op string string nat
  | Start_Op "string \<Rightarrow> string list \<Rightarrow> string + string" "(string, string) gomap \<Rightarrow> (string, string) gomap" "string list" nat
  | Stop_Op nat
  | Stopped_Op nat
  | Remove_Op nat

text \<open>A run of operations; one that crashes leaves the state nobody will look at.\<close>

fun service_step :: "world \<Rightarrow> service_op \<Rightarrow> world" where
  "service_step w (New_Op n) = (case new_service n w of Returned (_, w') \<Rightarrow> w' | _ \<Rightarrow> w)"
| "service_step w (Set_Op k v r) = (case set_var k v r w of Returned w' \<Rightarrow> w' | _ \<Rightarrow> w)"
| "service_step w (Start_Op l ord e r) = snd (service_start l ord e r w)"
| "service_step w (Stop_Op r) = (case service_stop r w of Returned w' \<Rightarrow> w' | _ \<Rightarrow> w)"
| "service_step w (Stopped_Op r) = service_stopped r w"
| "service_step w (Remove_Op r) = (case service_remove r w of Returned (_, w') \<Rightarrow> w' | _ \<Rightarrow> w)"

interpretation services: guarded_machine service_step world_ok
proof
  fix w e
  assume "world_ok w"
  then show "world_ok (service_step w e)"
    by (cases e)
      (auto simp: new_service_ok world_ok_start set_var_def service_stop_def service_stopped_def service_remove_def
        world_ok_change world_ok_services_remove split: outcome.splits prod.splits if_splits
        dest: services_remove_ok)
qed

section \<open>The handshake\<close>

definition word_ok :: "string \<Rightarrow> bool" where
  "word_ok s \<longleftrightarrow> s \<noteq> [] \<and> arg_is_safe s \<and> CHR '' '' \<notin> set s \<and> last s \<noteq> CHR 0x0D \<and> length s < 1000"

text \<open>What a transport prints that starts successfully, with an address it was given as parent or not.\<close>

definition printed_handshake ::
  "environment \<Rightarrow> method_handler \<Rightarrow> (string \<times> string) option \<Rightarrow> string \<Rightarrow> string \<Rightarrow> string option" where
  "printed_handshake env h parent proto addr =
     (case print_version env h [] of
        Some (o1, None) \<Rightarrow>
          Option.bind (case parent of None \<Rightarrow> Some o1 | Some (pp, pa) \<Rightarrow> print_parent h pp pa o1)
            (\<lambda>o2. Option.bind (print_expose h proto addr o2) print_done)
      | _ \<Rightarrow> None)"

definition words_line :: "string \<Rightarrow> string \<Rightarrow> string \<Rightarrow> string \<Rightarrow> string" where
  "words_line k a b c = k @ '' '' @ a @ '' '' @ b @ '' '' @ c"

lemma three_words_printed:
  assumes "word_ok a" "word_ok b" "word_ok c"
  shows "three_words k (words_line k a b c) = Some (a, b, c)"
  using assms by (simp add: three_words_def has_prefix_def word_ok_def words_line_def)

lemma parse_expose:
  "word_ok a \<Longrightarrow> word_ok b \<Longrightarrow> word_ok c \<Longrightarrow>
   parse_line (words_line ''EXPOSE'' a b c) = Expose_Line a b c"
  using three_words_printed [of a b c "''EXPOSE''"] by (simp add: parse_line_def has_prefix_def words_line_def)

lemma parse_parent:
  "word_ok a \<Longrightarrow> word_ok b \<Longrightarrow> word_ok c \<Longrightarrow>
   parse_line (words_line ''PARENT'' a b c) = Parent_Line a b c"
  using three_words_printed [of a b c "''PARENT''"]
  by (simp add: parse_line_def has_prefix_def three_words_def words_line_def)

lemma parse_constant_lines:
  "parse_line ''VERSION 1.0'' = Version_Line" "parse_line ''DONE'' = Done_Line"
  by code_simp+

lemma formatline_three:
  assumes "keyword_is_safe k" "word_ok a" "word_ok b" "word_ok c"
  shows "formatline k [a, b, c] = Some (words_line k a b c)"
  using assms by (simp add: formatline_def word_ok_def words_line_def)

lemma safe_keywords:
  "keyword_is_safe ''VERSION''" "keyword_is_safe ''PARENT''" "keyword_is_safe ''EXPOSE''" "keyword_is_safe ''DONE''"
  "keyword_is_safe ''ERROR''"
  by (simp_all add: keyword_is_safe_def alnum_def)

lemma safe_arg_line: "arg_is_safe a \<Longrightarrow> CHR 0x0A \<notin> set a"
  by (auto simp: arg_is_safe_def list_all_iff)

lemma printed_line_ok:
  assumes "CHR 0x0A \<notin> set k" "length k < 1000" "word_ok a" "word_ok b" "word_ok c"
  shows "line_ok (words_line k a b c)"
  using assms by (auto simp: line_ok_def word_ok_def words_line_def dest: safe_arg_line)

definition handshake_lines :: "string \<Rightarrow> (string \<times> string) option \<Rightarrow> string \<Rightarrow> string \<Rightarrow> string list" where
  "handshake_lines m parent proto addr =
     [''VERSION 1.0''] @
     (case parent of None \<Rightarrow> [] | Some (pp, pa) \<Rightarrow> [words_line ''PARENT'' m pp pa]) @
     [words_line ''EXPOSE'' m proto addr, ''DONE'']"

lemma printed_handshake_lines:
  assumes "mh_version h = ''1.0''" "opt_required env (new_option ''service'') = None"
    "word_ok (mh_method h)" "word_ok proto" "word_ok addr"
    "\<And>pp pa. parent = Some (pp, pa) \<Longrightarrow> word_ok pp \<and> word_ok pa"
  shows "printed_handshake env h parent proto addr =
    Some (concat (map (\<lambda>l. l @ [CHR 0x0A]) (handshake_lines (mh_method h) parent proto addr)))"
proof -
  have v: "formatline ''VERSION'' [''1.0''] = Some ''VERSION 1.0''"
    by (simp add: formatline_def safe_keywords arg_is_safe_def)
  have d: "formatline ''DONE'' [] = Some ''DONE''" by (simp add: formatline_def safe_keywords)
  show ?thesis
    using assms
    by (cases parent)
      (auto simp: printed_handshake_def print_version_def print_parent_def print_expose_def print_done_def line_def
        formatline_three safe_keywords v d handshake_lines_def)
qed

lemma handshake_lines_ok:
  assumes "word_ok m" "word_ok proto" "word_ok addr" "\<And>pp pa. parent = Some (pp, pa) \<Longrightarrow> word_ok pp \<and> word_ok pa"
  shows "list_all line_ok (handshake_lines m parent proto addr)"
proof -
  have k: "CHR 0x0A \<notin> set ''EXPOSE''" "length ''EXPOSE'' < 1000" "CHR 0x0A \<notin> set ''PARENT''" "length ''PARENT'' < 1000"
    by simp_all
  have "line_ok ''VERSION 1.0''" "line_ok ''DONE''" by (simp_all add: line_ok_def)
  then show ?thesis
    using assms printed_line_ok [OF k(1,2)] printed_line_ok [OF k(3,4)]
    by (cases parent) (auto simp: handshake_lines_def)
qed

lemma handle_handshake:
  assumes "word_ok m" "word_ok proto" "word_ok addr" "\<And>pp pa. parent = Some (pp, pa) \<Longrightarrow> word_ok pp \<and> word_ok pa"
  shows "handle_lines (handshake_lines m parent proto addr) r w =
    (None, register_method m proto addr r (set_response ''protocol'' proto r (set_response ''bindaddr'' addr r
       (case parent of None \<Rightarrow> w | Some (_, pa) \<Rightarrow> set_response ''parentaddr'' pa r w))))"
  using assms parse_expose parse_parent parse_constant_lines
  by (cases parent) (auto simp: handshake_lines_def)

lemma response_of_set_response:
  "r < length (w_heap w) \<Longrightarrow> response_of r (set_response k v r w) k' = (if k' = k then v else response_of r w k')"
  by (simp add: response_of_def set_response_def change_service_def sv_at_def)

lemma response_of_register:
  "r < length (w_heap w) \<Longrightarrow> response_of r (register_method m p a r w) k = response_of r w k"
  by (simp add: response_of_def register_method_def change_service_def sv_at_def split: prod.splits)

lemma length_heap_change [simp]: "length (w_heap (change_service f r w)) = length (w_heap w)"
  by (simp add: change_service_def)

lemma nth_list_update': "h[r := x] ! r = (if r < length h then x else h ! r)"
  by (simp add: list_update_beyond)

lemma set_response_heap [simp]:
  "length (w_heap (set_response k v r w)) = length (w_heap w)"
  "sv_methods (w_heap (set_response k v r w) ! r) = sv_methods (w_heap w ! r)"
  by (simp_all add: set_response_def change_service_def nth_list_update' list_update_beyond)

section \<open>The environment of a service\<close>

text \<open>How a Go program reads its environment: the first entry of a name counts.\<close>

definition entry_key :: "string \<Rightarrow> string" where
  "entry_key e = takeWhile (\<lambda>c. c \<noteq> CHR ''='') e"

definition environ_map :: "string list \<Rightarrow> environment" where
  "environ_map es =
     fold (\<lambda>e m. if CHR ''='' \<in> set e \<and> map_of m (entry_key e) = None
                then m @ [(entry_key e, drop (Suc (length (entry_key e))) e)] else m) es []"

lemma fold_environ:
  "map_of (fold (\<lambda>e m. if CHR ''='' \<in> set e \<and> map_of m (entry_key e) = None
       then m @ [(entry_key e, drop (Suc (length (entry_key e))) e)] else m) es m) k =
   (case map_of m k of
      Some v \<Rightarrow> Some v
    | None \<Rightarrow> map_option (\<lambda>e. drop (Suc (length k)) e) (find (\<lambda>e. CHR ''='' \<in> set e \<and> entry_key e = k) es))"
  by (induction es arbitrary: m) (auto simp: map_add_def split: option.splits)

lemma environ_map_find:
  "map_of (environ_map es) k =
     map_option (\<lambda>e. drop (Suc (length k)) e) (find (\<lambda>e. CHR ''='' \<in> set e \<and> entry_key e = k) es)"
  using fold_environ [of es "[]"] by (simp add: environ_map_def)

lemma entry_key_prefix: "entry_key e = alkasir_prefix @ n \<Longrightarrow> has_prefix e alkasir_prefix"
proof -
  assume a: "entry_key e = alkasir_prefix @ n"
  have "e = takeWhile (\<lambda>c. c \<noteq> CHR ''='') e @ dropWhile (\<lambda>c. c \<noteq> CHR ''='') e" by simp
  with a have "e = alkasir_prefix @ n @ dropWhile (\<lambda>c. c \<noteq> CHR ''='') e" by (simp add: entry_key_def)
  then show ?thesis by (metis append_eq_conv_conj has_prefix_def length_append le_add1)
qed

lemma entry_key_entry: "CHR ''='' \<notin> set k \<Longrightarrow> entry_key (k @ CHR ''='' # v) = k"
  unfolding entry_key_def by (subst takeWhile_append2) auto

text \<open>The variables the process sees: those of the request under their names, and two more.\<close>

definition request_names :: "service \<Rightarrow> string list" where
  "request_names s = map (\<lambda>(k, _). alkasir_prefix @ to_upper k) (sv_request s)"

definition request_ok :: "service \<Rightarrow> bool" where
  "request_ok s \<longleftrightarrow> distinct (request_names s @ [''ALKASIR_SAUTH'', ''ALKASIR_SADDR'']) \<and>
     (\<forall>n \<in> set (request_names s). CHR ''='' \<notin> set n)"

definition alkasir_entry :: "string \<times> string \<Rightarrow> string" where
  "alkasir_entry = (\<lambda>(n, v). n @ CHR ''='' # v)"

lemma find_entry:
  "distinct (map fst xs) \<Longrightarrow> \<forall>n \<in> fst ` set xs. CHR ''='' \<notin> set n \<Longrightarrow>
   find (\<lambda>e. CHR ''='' \<in> set e \<and> entry_key e = n) (map alkasir_entry xs) =
   map_option (\<lambda>v. n @ CHR ''='' # v) (map_of xs n)"
  by (induction xs) (auto simp: alkasir_entry_def entry_key_entry)

definition service_entries :: "service \<Rightarrow> (string, string) gomap \<Rightarrow> (string, string) gomap" where
  "service_entries s req =
     map (\<lambda>(k, v). (alkasir_prefix @ to_upper k, v)) req @
     [(''ALKASIR_SAUTH'', sv_auth_secret s), (''ALKASIR_SADDR'', ''http://localhost:8899/api/transports/traffic/'')]"

lemma init_env_entries:
  "init_env ord environ s =
     filter (\<lambda>v. v \<noteq> ''ALKASIR_DEBUG'' \<and> \<not> has_prefix v alkasir_prefix) environ @
     map alkasir_entry (service_entries s (ord (sv_request s)))"
  by (simp add: init_env_def alkasir_entry_def service_entries_def comp_def case_prod_unfold)

lemma service_environment:
  assumes "request_ok s" "range_order (sv_request s) (ord (sv_request s))"
  shows "map_of (environ_map (init_env ord environ s)) (alkasir_prefix @ n) =
    map_of (service_entries s (sv_request s)) (alkasir_prefix @ n)"
proof -
  let ?ys = "service_entries s (sv_request s)" and ?xs = "service_entries s (ord (sv_request s))"
  have "mset ?xs = mset ?ys"
    using assms(2) by (simp add: service_entries_def range_order_def del: mset_map) (simp add: mset_map)
  then have ro: "range_order ?ys ?xs" by (simp only: range_order_def)
  have "map fst ?ys = request_names s @ [''ALKASIR_SAUTH'', ''ALKASIR_SADDR'']"
    by (simp add: service_entries_def request_names_def comp_def case_prod_unfold)
  then have wf: "wf_map ?ys" using assms(1) by (simp add: wf_map_def request_ok_def)
  have wfx: "distinct (map fst ?xs)" using range_order_wf [OF ro wf] by (simp only: wf_map_def)
  have "set (map fst ?ys) \<subseteq> {x. CHR ''='' \<notin> set x}"
    using assms(1) unfolding \<open>map fst ?ys = _\<close> by (auto simp: request_ok_def)
  then have keys: "\<forall>x \<in> fst ` set ?xs. CHR ''='' \<notin> set x"
    unfolding range_order_set [OF ro] by auto
  have none: "find (\<lambda>e. CHR ''='' \<in> set e \<and> entry_key e = alkasir_prefix @ n)
      (filter (\<lambda>v. v \<noteq> ''ALKASIR_DEBUG'' \<and> \<not> has_prefix v alkasir_prefix) environ) = None"
    by (auto simp: find_None_iff dest: entry_key_prefix)
  have "map_of (environ_map (init_env ord environ s)) (alkasir_prefix @ n) = map_of ?xs (alkasir_prefix @ n)"
    unfolding environ_map_find init_env_entries find_append none
    by (simp only: option.case find_entry [OF wfx keys] option.map_comp)
      (cases "map_of ?xs (alkasir_prefix @ n)"; simp)
  then show ?thesis by (simp only: range_order_map_of [OF ro wf])
qed

section \<open>Properties\<close>

text \<open>
  After any operations on services, and as long as fewer than 2^64 - 1 were created, a new
  service is registered without an error under an identifier that no registered service has;
  looking it up gives a copy of it, and all others are found as before.
\<close>

lemma new_service_registers:
  assumes "w = foldl service_step initial_world ops" and "Suc (length (w_heap w)) < 2 ^ 64"
  shows "\<exists>r w' i. new_service name w = Returned (r, w') \<and> sv_id (sv_at w' r) = i \<and>
    services_service i w = None \<and> services_service i w' = Some (service_copy (fresh_service i name)) \<and>
    (\<forall>j. j \<noteq> i \<longrightarrow> services_service j w' = services_service j w)"
proof -
  have ok: "world_ok w" using services.run_good [OF world_ok_initial] by (simp add: assms(1))
  have fresh: "sv_id (w_heap w ! r) \<noteq> next_service_id w" if "r < length (w_heap w)" for r
  proof
    assume "sv_id (w_heap w ! r) = next_service_id w"
    then have "(of_nat (Suc r) :: 64 word) = of_nat (Suc (length (w_heap w)))"
      using ok that by (auto simp: world_ok_def heap_ok_def next_service_id_def dest: id_text_inj)
    then show False
      using that assms(2) take_bit_nat_eq_self [of "Suc r" 64] take_bit_nat_eq_self [of "Suc (length (w_heap w))" 64]
      by (simp add: word_of_nat_eq_iff del: of_nat_Suc)
  qed
  then have none: "map_of (w_items w) (next_service_id w) = None"
    using ok by (cases "map_of (w_items w) (next_service_id w)") (auto simp: world_ok_def)
  have old: "services_service j
      (w\<lparr>w_service_ids := g, w_heap := w_heap w @ [s], w_items := AList.update (next_service_id w) r (w_items w)\<rparr>) =
      services_service j w" if "j \<noteq> next_service_id w" for j g s r
    using ok that by (cases "map_of (w_items w) j") (auto simp: services_service_def sv_at_def nth_append world_ok_def)
  show ?thesis
    using none old unfolding new_service_eq [OF ok]
    by (auto simp: services_service_def sv_at_def fresh_service_def)
qed

lemma new_service_registers_witness:
  "\<exists>r w' i. new_service ''t'' (foldl service_step initial_world [New_Op ''a'']) = Returned (r, w') \<and>
     services_service i w' = Some (service_copy (fresh_service i ''t''))"
proof -
  let ?w = "foldl service_step initial_world [New_Op ''a'']"
  have "length (w_heap ?w) = 1" by code_simp
  then have "Suc (length (w_heap ?w)) < 2 ^ 64" by simp
  from new_service_registers [OF refl this, of "''t''"] show ?thesis by blast
qed

text \<open>
  C38. What a transport prints when it starts, the client understands: with a method, protocols
  and addresses that are single words, the printed lines are scanned back without an error,
  the response of the service holds the protocol and the address that were exposed and the
  parent's address, and the exposed method is registered with the service.
\<close>

theorem handshake_understood:
  assumes "h = new_handler m" "opt_required env (new_option ''service'') = None" "r < length (w_heap w)"
    and "word_ok m" "word_ok proto" "word_ok addr" "\<forall>pp pa. parent = Some (pp, pa) \<longrightarrow> word_ok pp \<and> word_ok pa"
  shows "\<exists>out w'. printed_handshake env h parent proto addr = Some out \<and>
    handle_lines (scanned_lines out) r w = (None, w') \<and>
    response_of r w' ''protocol'' = proto \<and> response_of r w' ''bindaddr'' = addr \<and>
    (\<forall>pp pa. parent = Some (pp, pa) \<longrightarrow> response_of r w' ''parentaddr'' = pa) \<and>
    map (\<lambda>x. (me_name x, me_protocol x, me_bind_addr x, me_service x)) (sv_methods (sv_at w' r)) =
      map (\<lambda>x. (me_name x, me_protocol x, me_bind_addr x, me_service x)) (sv_methods (sv_at w r)) @ [(m, proto, addr, r)]"
proof -
  have h: "mh_method h = m" "mh_version h = ''1.0''" by (simp_all add: assms(1) new_handler_def)
  let ?w1 = "case parent of None \<Rightarrow> w | Some (_, pa) \<Rightarrow> set_response ''parentaddr'' pa r w"
  let ?w' = "register_method m proto addr r (set_response ''protocol'' proto r (set_response ''bindaddr'' addr r ?w1))"
  have len: "length (w_heap ?w1) = length (w_heap w)"
    "sv_methods (w_heap ?w1 ! r) = sv_methods (w_heap w ! r)"
    by (auto split: option.splits)
  have "printed_handshake env h parent proto addr =
      Some (concat (map (\<lambda>l. l @ [CHR 0x0A]) (handshake_lines m parent proto addr)))"
    using printed_handshake_lines [of h env proto addr parent] assms h by simp
  moreover have "handle_lines (scanned_lines (concat (map (\<lambda>l. l @ [CHR 0x0A]) (handshake_lines m parent proto addr)))) r w = (None, ?w')"
    using assms scanned_written_lines [OF handshake_lines_ok] handle_handshake by simp
  moreover have "response_of r ?w' ''protocol'' = proto" "response_of r ?w' ''bindaddr'' = addr"
    using assms(3) len by (simp_all add: response_of_register response_of_set_response)
  moreover have "response_of r ?w' ''parentaddr'' = pa" if "parent = Some (pp, pa)" for pp pa
    using assms(3) that by (simp add: response_of_register response_of_set_response)
  moreover have "map (\<lambda>x. (me_name x, me_protocol x, me_bind_addr x, me_service x)) (sv_methods (sv_at ?w' r)) =
      map (\<lambda>x. (me_name x, me_protocol x, me_bind_addr x, me_service x)) (sv_methods (sv_at w r)) @ [(m, proto, addr, r)]"
    using assms(3) len by (simp add: register_method_def change_service_def sv_at_def split: prod.splits)
  ultimately show ?thesis by blast
qed

definition one_service :: world where
  "one_service = initial_world\<lparr>w_heap := [fresh_service ''service-1'' ''transport'']\<rparr>"

lemma handshake_understood_witness:
  "\<exists>out w'. printed_handshake [(''ALKASIR_SERVICE'', ''transport'')] (new_handler ''obfs4'') (Some (''socks5'', ''10.0.0.1:80''))
      ''socks5'' ''127.0.0.1:1080'' = Some out \<and>
    handle_lines (scanned_lines out) 0 one_service = (None, w') \<and> response_of 0 w' ''bindaddr'' = ''127.0.0.1:1080''"
proof -
  have w: "opt_required [(''ALKASIR_SERVICE'', ''transport'')] (new_option ''service'') = None"
    "word_ok ''obfs4''" "word_ok ''socks5''" "word_ok ''127.0.0.1:1080''" "word_ok ''10.0.0.1:80''"
    by code_simp+
  have "(0::nat) < length (w_heap one_service)" by (simp add: one_service_def)
  from handshake_understood [OF refl w(1) this w(2-4), of "Some (''socks5'', ''10.0.0.1:80'')"] w
  show ?thesis by blast
qed

text \<open>
  A handshake that breaks off is taken for a complete one: when the output of the process
  ends after any of its lines, even before the first one, the client reports no error, and
  the service has the exposed address only if the line that exposes it was among them.
\<close>

lemma truncated_handshake_accepted:
  assumes "word_ok m" "word_ok proto" "word_ok addr" "\<forall>pp pa. parent = Some (pp, pa) \<longrightarrow> word_ok pp \<and> word_ok pa"
    and "r < length (w_heap w)" "sv_response (sv_at w r) = []"
  shows "fst (handle_lines (take k (handshake_lines m parent proto addr)) r w) = None \<and>
    (response_of r (snd (handle_lines (take k (handshake_lines m parent proto addr)) r w)) ''bindaddr'' =
      (if k < length (handshake_lines m parent proto addr) - 1 then [] else addr))"
proof (cases parent)
  case None
  consider "k = 0" | "k = 1" | "2 \<le> k" by linarith
  then show ?thesis
    using assms parse_expose [OF assms(1-3)]
    by cases (auto simp: None handshake_lines_def parse_constant_lines take_Cons' response_of_set_response
        response_of_register, auto simp: response_of_def)
next
  case (Some p)
  obtain pp pa where p: "p = (pp, pa)" by force
  with assms(4) Some have w: "word_ok pp" "word_ok pa" by auto
  have "response_of r w ''bindaddr'' = []" using assms(6) by (simp add: response_of_def)
  moreover consider "k = 0" | "k = 1" | "k = 2" | "3 \<le> k" by linarith
  ultimately show ?thesis
    using assms parse_expose [OF assms(1-3)] parse_parent [OF assms(1) w]
    by cases (auto simp: Some p handshake_lines_def parse_constant_lines take_Cons' response_of_set_response
        response_of_register)
qed

lemma truncated_handshake_accepted_witness:
  "fst (handle_lines (take 1 (handshake_lines ''obfs4'' None ''socks5'' ''127.0.0.1:1080'')) 0 one_service) = None"
proof -
  have w: "word_ok ''obfs4''" "word_ok ''socks5''" "word_ok ''127.0.0.1:1080''" by code_simp+
  show ?thesis
    using truncated_handshake_accepted [OF w, of None 0 one_service 1]
    by (simp add: one_service_def fresh_service_def sv_at_def)
qed

lemma set_var_request:
  "r < length (w_heap w) \<Longrightarrow> set_var k v r w = Returned w' \<Longrightarrow>
   length (w_heap w') = length (w_heap w) \<and> sv_running (sv_at w' r) = sv_running (sv_at w r) \<and>
   sv_request (sv_at w' r) = AList.update k v (sv_request (sv_at w r))"
  by (auto simp: set_var_def change_service_def sv_at_def split: if_splits)

lemma set_vars_request:
  "r < length (w_heap w) \<Longrightarrow> set_vars kvs r w = Returned w' \<Longrightarrow>
   length (w_heap w') = length (w_heap w) \<and> sv_running (sv_at w' r) = sv_running (sv_at w r) \<and>
   sv_request (sv_at w' r) = fold (\<lambda>(k, v). AList.update k v) kvs (sv_request (sv_at w r))"
proof (induction kvs r w rule: set_vars.induct)
  case (2 k v kvs r w)
  from 2(3) obtain w1 where w1: "set_var k v r w = Returned w1" "set_vars kvs r w1 = Returned w'"
    by (auto split: outcome.splits)
  from set_var_request [OF 2(2) w1(1)] 2(1) [OF w1(1) _ w1(2)] 2(2) show ?case by simp
qed simp

lemma new_transport_request:
  assumes "world_ok w" "new_transport_service arg0 c w = Returned (Inl t, w1)"
  shows "ts_service t < length (w_heap w1)" "\<not> sv_running (sv_at w1 (ts_service t))"
    "sv_request (sv_at w1 (ts_service t)) = connection_vars c" "ts_connection t = c"
proof -
  from assms(2) obtain command r w0 where n: "new_service ''transport'' w = Returned (r, w0)" and t: "t = \<lparr>ts_service = r, ts_connection = c\<rparr>"
    and s: "set_vars (connection_vars c) r (change_service (\<lambda>s. s\<lparr>sv_command := command\<rparr>) r w0) = Returned w1"
    by (auto simp: new_transport_service_def split: option.splits outcome.splits prod.splits)
  have w0: "r < length (w_heap w0)" "\<not> sv_running (sv_at w0 r)" "sv_request (sv_at w0 r) = []"
    using n unfolding new_service_eq [OF assms(1)] by (auto simp: sv_at_def fresh_service_def split: if_splits)
  let ?w = "change_service (\<lambda>s. s\<lparr>sv_command := command\<rparr>) r w0"
  have w: "r < length (w_heap ?w)" "\<not> sv_running (sv_at ?w r)" "sv_request (sv_at ?w r) = []"
    using w0 by (simp_all add: change_service_def sv_at_def)
  from set_vars_request [OF w(1) s] w
  show "ts_service t < length (w_heap w1)" "\<not> sv_running (sv_at w1 (ts_service t))"
    "sv_request (sv_at w1 (ts_service t)) = connection_vars c" "ts_connection t = c"
    by (simp_all add: t connection_vars_def)
qed

definition transport_entries :: "connection \<Rightarrow> string \<Rightarrow> service \<Rightarrow> (string, string) gomap" where
  "transport_entries c b s =
     [(''ALKASIR_SERVICE'', ''transport''), (''ALKASIR_TRANSPORT'', c_transport c), (''ALKASIR_REMOTEADDR'', c_addr c),
      (''ALKASIR_SECRET'', c_secret c), (''ALKASIR_BINDADDR'', b), (''ALKASIR_SAUTH'', sv_auth_secret s),
      (''ALKASIR_SADDR'', ''http://localhost:8899/api/transports/traffic/'')]"

lemma upper_names:
  "alkasir_prefix @ to_upper ''service'' = ''ALKASIR_SERVICE''" "alkasir_prefix @ to_upper ''transport'' = ''ALKASIR_TRANSPORT''"
  "alkasir_prefix @ to_upper ''remoteaddr'' = ''ALKASIR_REMOTEADDR''" "alkasir_prefix @ to_upper ''secret'' = ''ALKASIR_SECRET''"
  "alkasir_prefix @ to_upper ''bindaddr'' = ''ALKASIR_BINDADDR''"
  "alkasir_prefix @ to_upper ''saddr'' = ''ALKASIR_SADDR''"
  by code_simp+

lemma bound_transport_entries:
  assumes "sv_request s = connection_vars c @ [(''bindaddr'', b)]"
  shows "service_entries s (sv_request s) = transport_entries c b s" "request_ok s"
proof -
  show "service_entries s (sv_request s) = transport_entries c b s"
    by (simp add: assms service_entries_def transport_entries_def connection_vars_def upper_names)
  have "request_names s = map fst (take 5 (transport_entries c b s))"
    by (simp add: assms request_names_def transport_entries_def connection_vars_def upper_names)
  then show "request_ok s" by (simp add: request_ok_def transport_entries_def)
qed

text \<open>
  The process started for a connection sees, whatever the environment of the client is, the
  service and the transport that make it handle exactly the connection's transport, the
  remote address, the secret and the address to bind to, and under the prefix of the program
  no variable but these and the two for its reports.
\<close>

lemma transport_environment:
  assumes "world_ok w" "new_transport_service arg0 c w = Returned (Inl t, w1)" "set_bindaddr b t w1 = (None, w2)"
    and "\<forall>m. range_order m (ord m)"
    and "env = environ_map (init_env ord environ (sv_at w2 (ts_service t)))"
  shows "(handles env h \<longleftrightarrow> mh_method h = c_transport c) \<and>
    getenv env ''ALKASIR_REMOTEADDR'' = c_addr c \<and> getenv env ''ALKASIR_SECRET'' = c_secret c \<and>
    opt_bind_addr env (new_option ''bindaddr'') = (if b = [] then ''127.0.0.1:'' else b) \<and>
    (\<forall>n. map_of env (alkasir_prefix @ n) \<noteq> None \<longrightarrow>
       n \<in> {''SERVICE'', ''TRANSPORT'', ''REMOTEADDR'', ''SECRET'', ''BINDADDR'', ''SAUTH'', ''SADDR''})"
proof -
  let ?r = "ts_service t"
  note t = new_transport_request [OF assms(1,2)]
  from assms(3) obtain w3 where "set_var ''bindaddr'' b ?r w1 = Returned w3" "w2 = w3"
    using t(2) by (auto simp: set_bindaddr_def ts_set_def split: outcome.splits)
  then have "sv_request (sv_at w2 ?r) = connection_vars c @ [(''bindaddr'', b)]"
    using set_var_request [OF t(1)] by (auto simp: t(3) connection_vars_def)
  note e = bound_transport_entries [OF this]
  have env: "map_of env (alkasir_prefix @ n) = map_of (transport_entries c b (sv_at w2 ?r)) (alkasir_prefix @ n)" for n
    unfolding assms(5) using service_environment [OF e(2)] assms(4) e(1) by simp
  have name: "env_name (new_option k) = alkasir_prefix @ to_upper k" for k
    by (simp add: env_name_def new_option_def alkasir_prefix_def)
  have get: "getenv env (alkasir_prefix @ to_upper k) =
      (case map_of (transport_entries c b (sv_at w2 ?r)) (alkasir_prefix @ to_upper k) of None \<Rightarrow> [] | Some v \<Rightarrow> v)" for k
    by (simp add: getenv_def env)
  have "map_of env (alkasir_prefix @ n) \<noteq> None \<Longrightarrow>
       n \<in> {''SERVICE'', ''TRANSPORT'', ''REMOTEADDR'', ''SECRET'', ''BINDADDR'', ''SAUTH'', ''SADDR''}" for n
    using env [of n] by (auto simp: transport_entries_def alkasir_prefix_def split: if_splits)
  moreover have "op_default (new_option k) = []" for k by (simp add: new_option_def)
  ultimately show ?thesis
    using get [of "''service''"] get [of "''transport''"] get [of "''remoteaddr''"] get [of "''secret''"] get [of "''bindaddr''"]
    by (auto simp: handles_def opt_get_def opt_has_def opt_bind_addr_def name upper_names transport_entries_def Let_def)
qed

definition obfs4_world :: world where
  "obfs4_world = update_transports (add_transports bundled_transports []) initial_world"

definition obfs4_connection :: connection where
  "obfs4_connection = zero_connection\<lparr>c_transport := ''obfs4'', c_addr := ''10.0.0.1:443''\<rparr>"

lemma transport_environment_witness:
  "\<exists>t w1 w2. new_transport_service ''alkasir'' obfs4_connection obfs4_world = Returned (Inl t, w1) \<and>
     set_bindaddr ''127.0.0.1:0'' t w1 = (None, w2) \<and>
     handles (environ_map (init_env (\<lambda>m. m) [''ALKASIR_TRANSPORT=x'', ''HOME=/''] (sv_at w2 (ts_service t)))) (new_handler ''obfs4'')"
proof -
  have w: "world_ok obfs4_world"
    using world_ok_initial by (simp add: obfs4_world_def update_transports_def world_ok_def)
  have "case new_transport_service ''alkasir'' obfs4_connection obfs4_world of
          Returned (Inl t, w1) \<Rightarrow> fst (set_bindaddr ''127.0.0.1:0'' t w1) = None | _ \<Rightarrow> False"
    by code_simp
  then obtain t w1 w2 where n: "new_transport_service ''alkasir'' obfs4_connection obfs4_world = Returned (Inl t, w1)"
    and b: "set_bindaddr ''127.0.0.1:0'' t w1 = (None, w2)"
    by (auto split: outcome.splits prod.splits sum.splits) (metis prod.collapse)
  have "\<forall>m :: (string, string) gomap. range_order m ((\<lambda>m. m) m)" by simp
  from transport_environment [OF w n b this refl] n b show ?thesis
    by (auto simp: new_handler_def obfs4_connection_def)
qed

end
