(* ===== verification/ConnManager.thy ===== *)
theory ConnManager
  imports Service
begin

text \<open>
  \<open>pkg/service/connectionmanager.go\<close>: the loop that keeps a transport connected. The loop is a
  step function: a message it receives takes its state to the next and to a list of actions
  (goroutines it starts, notices, histories it forwards). The goroutines \<open>connect\<close> and
  \<open>testConn\<close> are functions to the messages they send, in order. Timers that will ask for a
  reconnect are numbers; a timer that fired keeps its message until the loop takes it. Time stamps are taken from
  a function from the number of the event, and the random choices of the shuffle and the
  outcome of the test request are arguments.
\<close>

section \<open>Events\<close>

datatype connection_state =
    Init | ServiceInit | ServiceStart | Test | Up | Backoff | WrongProtocol | ConnFailed | NotConfigured | TestFailed | Ended

fun state_code :: "connection_state \<Rightarrow> int" where
  "state_code Init = 0"
| "state_code ServiceInit = 1"
| "state_code ServiceStart = 2"
| "state_code Test = 3"
| "state_code Up = 4"
| "state_code Backoff = 5"
| "state_code WrongProtocol = 6"
| "state_code ConnFailed = 7"
| "state_code NotConfigured = 8"
| "state_code TestFailed = 9"
| "state_code Ended = 10"

definition state_names :: string where
  "state_names = ''InitServiceInitServiceStartTestUpBackoffWrongProtocolFailedNotConfiguredTestFailedEnded''"

definition state_index :: "nat list" where
  "state_index = [0, 4, 15, 27, 31, 33, 40, 53, 59, 72, 82, 87]"

definition state_string :: "int \<Rightarrow> string" where
  "state_string i =
     (if i < 0 \<or> int (length state_index) \<le> i + 1 then ''ConnectionState('' @ itoa i @ '')''
      else (let a = state_index ! nat i; b = state_index ! (nat i + 1) in take (b - a) (drop a state_names)))"

text \<open>\<open>BrowserProtocols.String\<close> on the constants 1, 2, 4, 8 and 16.\<close>

definition protocol_string :: "int \<Rightarrow> string" where
  "protocol_string b =
     (if b = 1 then ''socks5'' else if b = 4 then ''socks4a'' else if b = 8 then ''http'' else if b = 16 then ''https'' else [])"

record connection_event =
  ce_state :: connection_state
  ce_time :: time
  ce_connection :: connection
  ce_service_id :: string

definition new_state :: "time \<Rightarrow> connection_state \<Rightarrow> connection_event \<Rightarrow> connection_event option" where
  "new_state now st c =
     (if ce_state c = Ended then None
      else Some \<lparr>ce_state = st, ce_time = now, ce_connection = ce_connection c, ce_service_id = ce_service_id c\<rparr>)"

definition new_history :: "time \<Rightarrow> connection \<Rightarrow> connection_event" where
  "new_history now c = \<lparr>ce_state = Init, ce_time = now, ce_connection = c, ce_service_id = []\<rparr>"

fun announce :: "(nat \<Rightarrow> time) \<Rightarrow> nat \<Rightarrow> connection_event \<Rightarrow> connection_state list \<Rightarrow> connection_event list option" where
  "announce t k c [] = Some []"
| "announce t k c (s # ss) =
     (case new_state (t k) s c of
        None \<Rightarrow> None
      | Some e \<Rightarrow> map_option ((#) e) (announce t (Suc k) c ss))"

section \<open>The list of connections\<close>

fun swap :: "nat \<Rightarrow> nat \<Rightarrow> 'a list \<Rightarrow> 'a list" where
  "swap i j xs = xs[j := xs ! i, i := xs ! j]"

text \<open>\<open>rnd i n\<close> is the number \<open>rand.Intn n\<close> gives at step \<open>i\<close>.\<close>

definition shuffle :: "(nat \<Rightarrow> nat \<Rightarrow> nat) \<Rightarrow> 'a list \<Rightarrow> 'a list" where
  "shuffle rnd xs = fold (\<lambda>i ys. swap i (i + rnd i (length xs - i)) ys) [0..<length xs] xs"

definition update_connections :: "(nat \<Rightarrow> nat \<Rightarrow> nat) \<Rightarrow> connection list \<Rightarrow> connection list" where
  "update_connections rnd cs = shuffle rnd (filter (\<lambda>c. \<not> c_disabled c) cs)"

section \<open>Connecting and testing\<close>

datatype message = Event connection_event | Transport_Ok bool

text \<open>
  \<open>connect\<close>. It crashes when no command is registered for the transport, because it stores the
  key in the service before it looks at the error. The last two components are the event
  \<open>testConn\<close> is started on and the new default transport, if it gets that far.
\<close>

record connect_env =
  x_arg0 :: string
  x_auth_key :: string
  x_verbose :: bool
  x_bind_addr :: string
  x_clock :: "nat \<Rightarrow> time"
  x_launch :: "string \<Rightarrow> string list \<Rightarrow> string + string"
  x_order :: "(string, string) gomap \<Rightarrow> (string, string) gomap"
  x_environ :: "string list"

definition remove_default :: "transport_service option \<Rightarrow> world \<Rightarrow> world outcome" where
  "remove_default dt w =
     (case dt of
        None \<Rightarrow> Returned w
      | Some t \<Rightarrow>
          (case service_remove (ts_service t) w of
             Returned (_, w') \<Rightarrow> Returned w'
           | Failed \<Rightarrow> Failed
           | Crashed \<Rightarrow> Crashed))"

definition prepare_transport :: "connect_env \<Rightarrow> transport_service \<Rightarrow> world \<Rightarrow> world" where
  "prepare_transport x t w =
     (let w1 = change_service (\<lambda>s. s\<lparr>sv_auth_secret := x_auth_key x\<rparr>) (ts_service t) w;
          w2 = (if x_verbose x then snd (set_verbose t w1) else w1)
      in snd (set_bindaddr (x_bind_addr x) t w2))"

definition connect ::
  "connect_env \<Rightarrow> connection \<Rightarrow> transport_service option \<Rightarrow> world \<Rightarrow>
   (message list \<times> (connection_event \<times> transport_service) option \<times> world) outcome" where
  "connect x conn dt w =
     (case remove_default dt w of
        Returned w0 \<Rightarrow>
          (let ev = new_history (x_clock x 0) conn in
           case (announce (x_clock x) 1 ev [ServiceInit], new_transport_service (x_arg0 x) conn w0) of
             (Some es1, Returned (Inl t, w1)) \<Rightarrow>
               (let w2 = prepare_transport x t w1;
                    ev' = ev\<lparr>ce_service_id := sv_id (sv_at w2 (ts_service t))\<rparr>
                in case (announce (x_clock x) 2 ev [ServiceStart],
                         service_start (x_launch x) (x_order x) (x_environ x) (ts_service t) w2) of
                     (Some es2, Some err, w3) \<Rightarrow>
                       (case announce (x_clock x) 3 ev' [ConnFailed, Ended] of
                          Some es3 \<Rightarrow> Returned (map Event (ev # es1 @ es2 @ es3), None, w3)
                        | None \<Rightarrow> Crashed)
                   | (Some es2, None, w3) \<Rightarrow>
                       (case announce (x_clock x) 3 ev'
                               ((if response_of (ts_service t) w3 ''protocol'' \<noteq> ''socks5''
                                 then [WrongProtocol, ConnFailed] else []) @ [Test]) of
                          Some es3 \<Rightarrow> Returned (map Event (ev # es1 @ es2 @ es3), Some (ev', t), w3)
                        | None \<Rightarrow> Crashed)
                   | _ \<Rightarrow> Crashed)
           | _ \<Rightarrow> Crashed)
      | _ \<Rightarrow> Crashed)"

text \<open>\<open>testConn\<close>: the messages, and whether it returns an error; \<open>http_ok\<close> is the request.\<close>

definition test_conn ::
  "(nat \<Rightarrow> time) \<Rightarrow> (string \<Rightarrow> bool) \<Rightarrow> transport_service option \<Rightarrow> world \<Rightarrow> connection_event \<Rightarrow>
   (message list \<times> string option) option" where
  "test_conn t http_ok dt w ev =
     (case dt of
        None \<Rightarrow>
          map_option (\<lambda>es. (Transport_Ok False # map Event es, Some ''No active transport''))
            (announce t 0 ev [TestFailed, NotConfigured, Ended])
      | Some ts \<Rightarrow>
          if \<not> http_ok (response_of (ts_service ts) w ''bindaddr'') then
            map_option (\<lambda>es. (Transport_Ok False # map Event es, Some ''Http get test failed''))
              (announce t 0 ev [TestFailed, ConnFailed, Ended])
          else
            map_option (\<lambda>es. (Transport_Ok True # map Event es @ [Transport_Ok True], None))
              (announce t 0 ev (if ce_state ev \<noteq> Up then [Up] else [])))"

section \<open>The loop\<close>

record manager =
  cm_connections :: "connection list"
  cm_idx :: nat
  cm_current_id :: string
  cm_listeners :: "nat list"
  cm_histories :: "(string, connection_event list) gomap"
  cm_currents :: "(string, connection_event) gomap"
  cm_first_up :: bool
  cm_testing :: bool
  cm_timers :: "nat list"
  cm_fired :: "nat list"
  cm_timer :: "nat option"
  cm_next_timer :: nat
  cm_running :: bool

datatype input =
    Stop_In
  | Fire_In nat
  | Reconnect_In nat
  | Listener_In nat
  | Event_In connection_event
  | Tick_In
  | Tested_In
  | Update_In "connection list"

datatype action =
    Start_Connect connection
  | Notify string
  | Forward nat "connection_event list"
  | Start_Test connection_event

definition start_manager :: "connection list \<Rightarrow> (manager \<times> action list) option" where
  "start_manager cs =
     (case cs of
        [] \<Rightarrow> None
      | c # _ \<Rightarrow>
          Some (\<lparr>cm_connections = cs, cm_idx = 0, cm_current_id = c_id c, cm_listeners = [], cm_histories = [],
                 cm_currents = [], cm_first_up = True, cm_testing = False, cm_timers = [], cm_fired = [], cm_timer = None,
                 cm_next_timer = 0, cm_running = True\<rparr>, [Start_Connect c]))"

definition arm_timer :: "manager \<Rightarrow> manager" where
  "arm_timer m =
     m\<lparr>cm_timers := cm_timers m @ [cm_next_timer m], cm_timer := Some (cm_next_timer m),
       cm_next_timer := cm_next_timer m + 1\<rparr>"

definition stop_timer :: "manager \<Rightarrow> manager" where
  "stop_timer m =
     (case cm_timer m of None \<Rightarrow> m | Some k \<Rightarrow> m\<lparr>cm_timers := filter (\<lambda>j. j \<noteq> k) (cm_timers m)\<rparr>)"

definition push_history :: "connection_event list option \<Rightarrow> connection_event \<Rightarrow> connection_event list" where
  "push_history h e =
     (case h of None \<Rightarrow> [] | Some es \<Rightarrow> if 20 < length es then take 20 es else es) @ [e]"

definition on_reconnect :: "nat \<Rightarrow> manager \<Rightarrow> manager \<times> action list" where
  "on_reconnect k m0 =
     (let m = m0\<lparr>cm_fired := filter (\<lambda>j. j \<noteq> k) (cm_fired m0)\<rparr> in
      if cm_connections m = [] then (arm_timer m, [])
      else
        (let i = (cm_idx m + 1) mod length (cm_connections m); c = cm_connections m ! i
         in (m\<lparr>cm_idx := i, cm_current_id := c_id c\<rparr>, [Start_Connect c])))"

definition on_event :: "connection_event \<Rightarrow> manager \<Rightarrow> manager \<times> action list" where
  "on_event e m =
     (let i = c_id (ce_connection e);
          h = push_history (map_of (cm_histories m) i) e;
          m1 = m\<lparr>cm_histories := AList.update i h (cm_histories m), cm_currents := AList.update i e (cm_currents m)\<rparr>;
          (m2, notices) =
            (case ce_state e of
               Up \<Rightarrow> if cm_first_up m1 then (m1\<lparr>cm_first_up := False\<rparr>, []) else (m1, [Notify ''transport_connected_message''])
             | ConnFailed \<Rightarrow> (m1\<lparr>cm_first_up := False\<rparr>, [Notify ''transport_error_message''])
             | TestFailed \<Rightarrow> (m1\<lparr>cm_first_up := False\<rparr>, [Notify ''transport_retry''])
             | Ended \<Rightarrow> (arm_timer (stop_timer (m1\<lparr>cm_currents := AList.delete i (cm_currents m1)\<rparr>)), [])
             | _ \<Rightarrow> (m1, []))
      in (m2, notices @ map (\<lambda>l. Forward l h) (cm_listeners m2)))"

definition on_tick :: "manager \<Rightarrow> manager \<times> action list" where
  "on_tick m =
     (if cm_testing m then (m, [])
      else (case map_of (cm_currents m) (cm_current_id m) of
              Some e \<Rightarrow> if ce_state e = Up then (m\<lparr>cm_testing := True\<rparr>, [Start_Test e]) else (m, [])
            | None \<Rightarrow> (m, [])))"

text \<open>
  One turn of the loop; \<open>Update_In\<close> is \<open>UpdateConnections\<close>, which changes the list under the
  lock the loop takes. A reconnect message comes from a timer that fired.
\<close>

fun manager_step :: "input \<Rightarrow> manager \<Rightarrow> manager \<times> action list" where
  "manager_step Stop_In m = (m\<lparr>cm_running := False\<rparr>, [])"
| "manager_step (Fire_In k) m =
     (if k \<in> set (cm_timers m)
      then (m\<lparr>cm_timers := filter (\<lambda>j. j \<noteq> k) (cm_timers m), cm_fired := cm_fired m @ [k]\<rparr>, []) else (m, []))"
| "manager_step (Reconnect_In k) m = (if k \<in> set (cm_fired m) then on_reconnect k m else (m, []))"
| "manager_step (Listener_In l) m = (m\<lparr>cm_listeners := cm_listeners m @ [l]\<rparr>, [])"
| "manager_step (Event_In e) m = on_event e m"
| "manager_step Tick_In m = on_tick m"
| "manager_step Tested_In m = (m\<lparr>cm_testing := False\<rparr>, [])"
| "manager_step (Update_In cs) m = (m\<lparr>cm_connections := cs\<rparr>, [])"

fun run_manager :: "input list \<Rightarrow> manager \<Rightarrow> manager \<times> action list" where
  "run_manager [] m = (m, [])"
| "run_manager (i # is) m =
     (if cm_running m
      then (let (m1, as) = manager_step i m; (m2, bs) = run_manager is m1 in (m2, as @ bs))
      else (m, []))"

text \<open>\<open>updateTransportOkLoop\<close>, and the client that goes through the default transport.\<close>

fun transport_ok :: "message list \<Rightarrow> bool \<Rightarrow> bool" where
  "transport_ok [] ok = ok"
| "transport_ok (Transport_Ok b # ms) ok = transport_ok ms b"
| "transport_ok (Event _ # ms) ok = transport_ok ms ok"

definition transport_http_client :: "time \<Rightarrow> transport_service option \<Rightarrow> world \<Rightarrow> (string \<times> time) option" where
  "transport_http_client timeout dt w = map_option (\<lambda>t. (response_of (ts_service t) w ''bindaddr'', timeout)) dt"

section \<open>Shuffling\<close>

lemma mset_swap: "i < length xs \<Longrightarrow> j < length xs \<Longrightarrow> mset (swap i j xs) = mset xs"
  by (cases "i = j") (simp_all add: mset_swap list_update_swap)

lemma length_swap [simp]: "length (swap i j xs) = length xs"
  by simp

lemma shuffle_steps:
  assumes "\<And>i n. 0 < n \<Longrightarrow> rnd i n < n" "k \<le> length xs"
  shows "mset (fold (\<lambda>i ys. swap i (i + rnd i (length xs - i)) ys) [0..<k] xs) = mset xs \<and>
    length (fold (\<lambda>i ys. swap i (i + rnd i (length xs - i)) ys) [0..<k] xs) = length xs"
  using assms(2)
proof (induction k)
  case (Suc k)
  have "rnd k (length xs - k) < length xs - k" using Suc.prems assms(1) by simp
  then have "k + rnd k (length xs - k) < length xs" by simp
  with Suc show ?case by (simp del: swap.simps add: mset_swap)
qed simp

section \<open>Histories\<close>

definition events_of :: "input list \<Rightarrow> string \<Rightarrow> connection_event list" where
  "events_of is i = concat (map (\<lambda>x. case x of Event_In e \<Rightarrow> if c_id (ce_connection e) = i then [e] else [] | _ \<Rightarrow> []) is)"

definition bounded_history :: "connection_event list \<Rightarrow> connection_event list" where
  "bounded_history es = (if length es \<le> 21 then es else take 20 es @ [last es])"

lemma push_bounded:
  "push_history (if es = [] then None else Some (bounded_history es)) e = bounded_history (es @ [e])"
  by (auto simp: push_history_def bounded_history_def)

definition history_ok :: "connection_event list \<Rightarrow> string \<Rightarrow> manager \<Rightarrow> bool" where
  "history_ok es i m \<longleftrightarrow> map_of (cm_histories m) i = (if es = [] then None else Some (bounded_history es))"

lemma step_history:
  assumes "history_ok es i m"
  shows "history_ok (es @ events_of [x] i) i (fst (manager_step x m))"
proof (cases x)
  case (Event_In e)
  let ?j = "c_id (ce_connection e)"
  have h: "map_of (cm_histories (fst (on_event e m))) i =
      (if i = ?j then Some (push_history (map_of (cm_histories m) i) e) else map_of (cm_histories m) i)"
    by (simp add: on_event_def Let_def arm_timer_def stop_timer_def split: connection_state.splits option.splits)
  then show ?thesis
    using assms push_bounded [of es e] by (auto simp: Event_In history_ok_def events_of_def)
qed (use assms in \<open>auto simp: history_ok_def events_of_def on_reconnect_def arm_timer_def on_tick_def Let_def split: option.splits\<close>)

lemma run_history:
  "history_ok es i m \<Longrightarrow> cm_running (fst (run_manager is m)) \<Longrightarrow>
   history_ok (es @ events_of is i) i (fst (run_manager is m))"
proof (induction "is" arbitrary: es m)
  case (Cons x xs)
  have r: "cm_running m"
    using Cons.prems(2) by (auto split: if_splits)
  let ?m = "fst (manager_step x m)"
  have f: "fst (run_manager (x # xs) m) = fst (run_manager xs ?m)"
    using r by (simp add: split_beta)
  have "events_of (x # xs) i = events_of [x] i @ events_of xs i" by (simp add: events_of_def)
  then show ?case
    using Cons.IH [OF step_history [OF Cons.prems(1), of x]] Cons.prems(2) unfolding f by simp
qed (simp add: events_of_def)

section \<open>Messages of a connection attempt\<close>

lemma announce_all:
  "ce_state c \<noteq> Ended \<Longrightarrow>
   \<exists>es. announce t k c ss = Some es \<and> map ce_state es = ss \<and>
     (\<forall>e \<in> set es. ce_connection e = ce_connection c \<and> ce_service_id e = ce_service_id c)"
proof (induction ss arbitrary: k)
  case (Cons s ss)
  then obtain es where "announce t (Suc k) c ss = Some es" "map ce_state es = ss"
    "\<forall>e \<in> set es. ce_connection e = ce_connection c \<and> ce_service_id e = ce_service_id c"
    by blast
  then show ?case using Cons.prems by (simp add: new_state_def)
qed simp

lemma announce_states:
  "announce t k c ss = Some es \<Longrightarrow>
   map ce_state es = ss \<and> (\<forall>e \<in> set es. ce_connection e = ce_connection c)"
  by (induction ss arbitrary: k es) (auto simp: new_state_def split: option.splits if_splits)

fun inputs_of :: "message list \<Rightarrow> input list" where
  "inputs_of [] = []"
| "inputs_of (Event e # ms) = Event_In e # inputs_of ms"
| "inputs_of (Transport_Ok _ # ms) = inputs_of ms"

lemma inputs_of_append [simp]: "inputs_of (xs @ ys) = inputs_of xs @ inputs_of ys"
  by (induction xs rule: inputs_of.induct) auto

lemma inputs_of_events [simp]: "inputs_of (map Event es) = map Event_In es"
  by (induction es) auto

lemma on_event_running [simp]: "cm_running (fst (on_event e m)) = cm_running m"
  by (simp add: on_event_def Let_def arm_timer_def stop_timer_def split: connection_state.splits option.splits)

lemma run_events_append:
  "cm_running m \<Longrightarrow> fst (run_manager (map Event_In es @ is) m) = fst (run_manager is (fst (run_manager (map Event_In es) m)))"
  by (induction es arbitrary: m) (auto simp: split_beta)

lemma run_events_running: "cm_running (fst (run_manager (map Event_In es) m)) = cm_running m"
  by (induction es arbitrary: m) (auto simp: split_beta)

text \<open>A connection is settled when it is up, or when it has ended and a reconnect is coming.\<close>

definition settled :: "connection \<Rightarrow> manager \<Rightarrow> bool" where
  "settled c m \<longleftrightarrow>
     (\<exists>e. map_of (cm_currents m) (c_id c) = Some e \<and> ce_state e = Up) \<or>
     (map_of (cm_currents m) (c_id c) = None \<and> cm_timer m \<noteq> None \<and> the (cm_timer m) \<in> set (cm_timers m))"

lemma on_event_up:
  "ce_state e = Up \<Longrightarrow> map_of (cm_currents (fst (on_event e m))) (c_id (ce_connection e)) = Some e"
  by (simp add: on_event_def Let_def)

lemma on_event_ended:
  assumes "ce_state e = Ended"
  shows "map_of (cm_currents (fst (on_event e m))) (c_id (ce_connection e)) = None"
    "cm_timer (fst (on_event e m)) = Some (cm_next_timer (stop_timer m))"
    "cm_next_timer (stop_timer m) \<in> set (cm_timers (fst (on_event e m)))"
  using assms by (simp_all add: on_event_def Let_def arm_timer_def stop_timer_def split: option.splits)

lemma last_event_settles:
  assumes "cm_running m" "es \<noteq> []" "ce_connection (last es) = c" "ce_state (last es) = Up \<or> ce_state (last es) = Ended"
  shows "settled c (fst (run_manager (map Event_In es) m))"
proof -
  have es: "map Event_In es = map Event_In (butlast es) @ [Event_In (last es)]"
    using assms(2) by (cases es rule: rev_cases) auto
  let ?m = "fst (run_manager (map Event_In (butlast es)) m)"
  have "cm_running ?m" using assms(1) by (simp add: run_events_running)
  then have "fst (run_manager (map Event_In es) m) = fst (on_event (last es) ?m)"
    unfolding es using run_events_append [OF assms(1), of "butlast es" "[Event_In (last es)]"] by (simp add: split_beta)
  then show ?thesis
    using assms(3,4) on_event_up [of "last es" ?m] on_event_ended [of "last es" ?m] by (auto simp: settled_def)
qed

lemma connect_messages:
  assumes "connect x conn dt w = Returned (ms, k, w')"
  shows "\<exists>es. ms = map Event es \<and> es \<noteq> [] \<and> (\<forall>e \<in> set es. ce_connection e = conn) \<and>
    (case k of
       None \<Rightarrow> map ce_state es = [Init, ServiceInit, ServiceStart, ConnFailed, Ended]
     | Some (ev, t) \<Rightarrow> ce_connection ev = conn \<and> ce_state ev = Init \<and> ts_connection t = conn \<and> ce_state (last es) = Test \<and>
         (map ce_state es = [Init, ServiceInit, ServiceStart, Test] \<or>
          map ce_state es = [Init, ServiceInit, ServiceStart, WrongProtocol, ConnFailed, Test]))"
proof -
  let ?ev = "new_history (x_clock x 0) conn"
  obtain w0 where w0: "remove_default dt w = Returned w0"
    using assms by (auto simp: connect_def split: outcome.splits)
  obtain es1 t w1 where 1: "announce (x_clock x) 1 ?ev [ServiceInit] = Some es1"
    "new_transport_service (x_arg0 x) conn w0 = Returned (Inl t, w1)"
    using assms by (auto simp: connect_def w0 Let_def simp del: announce.simps split: outcome.splits option.splits sum.splits)
  let ?w2 = "prepare_transport x t w1"
  let ?ev' = "?ev\<lparr>ce_service_id := sv_id (sv_at ?w2 (ts_service t))\<rparr>"
  obtain es2 r w3 where 2: "announce (x_clock x) 2 ?ev [ServiceStart] = Some es2"
    "service_start (x_launch x) (x_order x) (x_environ x) (ts_service t) ?w2 = (r, w3)"
    using assms by (auto simp: connect_def w0 1 [unfolded One_nat_def] Let_def simp del: announce.simps split: outcome.splits option.splits prod.splits)
  let ?ss = "case r of Some _ \<Rightarrow> [ConnFailed, Ended]
    | None \<Rightarrow> (if response_of (ts_service t) w3 ''protocol'' \<noteq> ''socks5'' then [WrongProtocol, ConnFailed] else []) @ [Test]"
  obtain es3 where 3: "announce (x_clock x) 3 ?ev' ?ss = Some es3" "ms = map Event (?ev # es1 @ es2 @ es3)"
    "k = (if r = None then Some (?ev', t) else None)"
    using assms by (auto simp: connect_def w0 1 [unfolded One_nat_def] 2 Let_def simp del: announce.simps split: outcome.splits option.splits)
  have ev: "ce_connection ?ev = conn" "ce_state ?ev = Init" by (simp_all add: new_history_def)
  have t: "ts_connection t = conn"
    using 1(2) by (auto simp: new_transport_service_def split: option.splits outcome.splits prod.splits)
  have e1: "map ce_state es1 = [ServiceInit]" "\<forall>e \<in> set es1. ce_connection e = conn"
    using announce_states [OF 1(1)] ev by simp_all
  have e2: "map ce_state es2 = [ServiceStart]" "\<forall>e \<in> set es2. ce_connection e = conn"
    using announce_states [OF 2(1)] ev by simp_all
  have e3: "map ce_state es3 = ?ss" "\<forall>e \<in> set es3. ce_connection e = conn"
    using announce_states [OF 3(1)] ev by simp_all
  have "es3 \<noteq> []" using e3(1) by (cases r) auto
  then have "ce_state (last (?ev # es1 @ es2 @ es3)) = last ?ss" using e3(1) by (metis last.simps last_append last_map append_is_Nil_conv)
  moreover have "map ce_state (?ev # es1 @ es2 @ es3) = [Init, ServiceInit, ServiceStart] @ ?ss"
    by (simp add: ev e1(1) e2(1) e3(1))
  ultimately show ?thesis
    using 3(2,3) t ev e1(2) e2(2) e3(2)
    by (intro exI [of _ "?ev # es1 @ es2 @ es3"]) (cases r; auto)
qed

lemma test_conn_messages:
  assumes "ce_state ev \<noteq> Ended"
  shows "\<exists>ms r. test_conn t http_ok dt w ev = Some (ms, r) \<and>
    (r = None \<longleftrightarrow> (\<exists>ts. dt = Some ts \<and> http_ok (response_of (ts_service ts) w ''bindaddr''))) \<and>
    (\<forall>ok. transport_ok ms ok \<longleftrightarrow> r = None) \<and>
    (\<exists>es. inputs_of ms = map Event_In es \<and> (\<forall>e \<in> set es. ce_connection e = ce_connection ev) \<and>
       (if r \<noteq> None then es \<noteq> [] \<and> ce_state (last es) = Ended
        else if ce_state ev = Up then es = [] else es \<noteq> [] \<and> ce_state (last es) = Up))"
proof -
  have ok: "transport_ok (map Event es) b = b" for es b by (induction es) auto
  have ok2: "transport_ok (map Event es @ [Transport_Ok b']) b = b'" for es b b' by (induction es) auto
  define good where "good \<longleftrightarrow> (\<exists>ts. dt = Some ts \<and> http_ok (response_of (ts_service ts) w ''bindaddr''))"
  show ?thesis
  proof (cases good)
    case True
    then obtain ts where ts: "dt = Some ts" "http_ok (response_of (ts_service ts) w ''bindaddr'')"
      by (auto simp: good_def)
    obtain es where es: "announce t 0 ev (if ce_state ev \<noteq> Up then [Up] else []) = Some es"
      "map ce_state es = (if ce_state ev \<noteq> Up then [Up] else [])" "\<forall>e \<in> set es. ce_connection e = ce_connection ev"
      using announce_all [OF assms] by blast
    have "test_conn t http_ok dt w ev = Some (Transport_Ok True # map Event es @ [Transport_Ok True], None)"
      by (simp only: test_conn_def ts option.case es(1)) simp
    moreover have "if ce_state ev = Up then es = [] else es \<noteq> [] \<and> ce_state (last es) = Up"
      using es(2) by (auto split: if_splits)
    ultimately show ?thesis
      using es(3) True ts by (intro exI conjI) (auto simp: ok2)
  next
    case False
    let ?ss = "case dt of None \<Rightarrow> [TestFailed, NotConfigured, Ended] | Some _ \<Rightarrow> [TestFailed, ConnFailed, Ended]"
    obtain es where es: "announce t 0 ev ?ss = Some es" "map ce_state es = ?ss" "\<forall>e \<in> set es. ce_connection e = ce_connection ev"
      using announce_all [OF assms] by blast
    obtain msg where "test_conn t http_ok dt w ev = Some (Transport_Ok False # map Event es, Some msg)"
      using False es(1) by (auto simp: test_conn_def good_def split: option.splits)
    moreover have "es \<noteq> []" using es(2) by (auto split: option.splits)
    moreover from this have "ce_state (last es) = Ended"
      using es(2) by (cases dt) (auto simp: last_map [symmetric])
    ultimately show ?thesis
      using es(3) False by (auto simp: ok good_def)
  qed
qed

section \<open>Properties\<close>

text \<open>
  Every attempt to connect settles. Whatever transport the process turns out to be, and
  whatever the test of the connection finds, once the loop has taken the messages of
  \<open>connect\<close> and of the test it started, the connection is either current and up, or no
  longer current with a timer armed that will ask for a reconnect.
\<close>

lemma connect_settles:
  assumes "connect x conn dt w = Returned (ms, k, w')" and "cm_running m"
    and "tms = (case k of None \<Rightarrow> [] | Some (ev, t) \<Rightarrow> fst (the (test_conn tc http_ok dt' w'' ev)))"
  shows "settled conn (fst (run_manager (inputs_of (ms @ tms)) m))"
proof -
  obtain es where es: "ms = map Event es" "es \<noteq> []" "\<forall>e \<in> set es. ce_connection e = conn"
    "case k of None \<Rightarrow> map ce_state es = [Init, ServiceInit, ServiceStart, ConnFailed, Ended]
     | Some (ev, t) \<Rightarrow> ce_connection ev = conn \<and> ce_state ev = Init \<and> ts_connection t = conn \<and> ce_state (last es) = Test \<and>
         (map ce_state es = [Init, ServiceInit, ServiceStart, Test] \<or>
          map ce_state es = [Init, ServiceInit, ServiceStart, WrongProtocol, ConnFailed, Test])"
    using connect_messages [OF assms(1)] by blast
  show ?thesis
  proof (cases k)
    case None
    then have "ce_state (last es) = Ended" using es(2,4) by (simp add: last_map [symmetric])
    then show ?thesis
      using last_event_settles [OF assms(2) es(2), of conn] es(1-3) None assms(3) by simp
  next
    case (Some p)
    obtain ev t where p: "p = (ev, t)" by force
    have ev: "ce_connection ev = conn" "ce_state ev = Init" using es(4) by (simp_all add: Some p)
    obtain tes where tes: "inputs_of tms = map Event_In tes" "\<forall>e \<in> set tes. ce_connection e = conn" "tes \<noteq> []"
      "ce_state (last tes) = Up \<or> ce_state (last tes) = Ended"
      using test_conn_messages [of ev tc http_ok dt' w''] ev assms(3) by (fastforce simp: Some p split: if_splits)
    have "settled conn (fst (run_manager (map Event_In (es @ tes)) m))"
      using tes by (intro last_event_settles assms(2)) auto
    then show ?thesis by (simp add: es(1) tes(1))
  qed
qed

definition example_env :: "(string \<Rightarrow> string list \<Rightarrow> string + string) \<Rightarrow> connect_env" where
  "example_env launch =
     \<lparr>x_arg0 = ''alkasir'', x_auth_key = ''key'', x_verbose = False, x_bind_addr = ''127.0.0.1:0'', x_clock = int,
      x_launch = launch, x_order = (\<lambda>m. m), x_environ = []\<rparr>"

definition silent_launch :: "string \<Rightarrow> string list \<Rightarrow> string + string" where
  "silent_launch command env = Inl ''no such file''"

definition idle_manager :: manager where
  "idle_manager =
     \<lparr>cm_connections = [obfs4_connection], cm_idx = 0, cm_current_id = [], cm_listeners = [], cm_histories = [],
      cm_currents = [], cm_first_up = True, cm_testing = False, cm_timers = [], cm_fired = [], cm_timer = None,
      cm_next_timer = 0, cm_running = True\<rparr>"

lemma connect_settles_witness:
  "\<exists>ms w'. connect (example_env silent_launch) obfs4_connection None obfs4_world = Returned (ms, None, w') \<and>
     settled obfs4_connection (fst (run_manager (inputs_of ms) idle_manager))"
proof -
  have "case connect (example_env silent_launch) obfs4_connection None obfs4_world of
          Returned (ms, None, w') \<Rightarrow> True | _ \<Rightarrow> False"
    by code_simp
  then obtain ms w' where c: "connect (example_env silent_launch) obfs4_connection None obfs4_world = Returned (ms, None, w')"
    by (auto split: outcome.splits option.splits)
  have r: "cm_running idle_manager" by (simp add: idle_manager_def)
  show ?thesis using connect_settles [OF c r, of "[]"] c by auto
qed

text \<open>
  The history of a connection after any messages to the loop: all its events while there
  are at most 21; from then on the first twenty and the newest one. So it is bounded and its
  last event is the current one, but what is kept before it is the oldest and not the newest.
\<close>

lemma history_contents:
  assumes "start_manager cs = Some (m0, acts)" and "cm_running (fst (run_manager is m0))" and "events_of is i \<noteq> []"
  shows "map_of (cm_histories (fst (run_manager is m0))) i =
    Some (if length (events_of is i) \<le> 21 then events_of is i
          else take 20 (events_of is i) @ [last (events_of is i)])"
proof -
  have "history_ok [] i m0" using assms(1) by (auto simp: start_manager_def history_ok_def split: list.splits)
  from run_history [OF this assms(2)] assms(3) show ?thesis
    by (simp add: history_ok_def bounded_history_def)
qed

definition up_event :: "time \<Rightarrow> connection_event" where
  "up_event t = \<lparr>ce_state = Up, ce_time = t, ce_connection = obfs4_connection, ce_service_id = ''service-1''\<rparr>"

lemma history_contents_witness:
  "map_of (cm_histories (fst (run_manager [Tick_In, Event_In (up_event 1), Listener_In 0] idle_manager))) [] = Some [up_event 1]"
proof -
  have "start_manager [obfs4_connection] = Some (idle_manager, [Start_Connect obfs4_connection])"
    by (simp add: start_manager_def idle_manager_def obfs4_connection_def zero_connection_def)
  from history_contents [OF this, of "[Tick_In, Event_In (up_event 1), Listener_In 0]" "[]"]
  show ?thesis
    by (simp add: events_of_def up_event_def obfs4_connection_def zero_connection_def idle_manager_def on_tick_def split_beta)
qed

text \<open>The connections a series of reconnects starts.\<close>

fun reconnects :: "nat list \<Rightarrow> manager \<Rightarrow> action list" where
  "reconnects [] m = []"
| "reconnects (k # ks) m = (let (m', as) = on_reconnect k m in as @ reconnects ks m')"

lemma reconnects_nth:
  "cm_connections m \<noteq> [] \<Longrightarrow>
   reconnects ks m =
     map (\<lambda>j. Start_Connect (cm_connections m ! ((cm_idx m + Suc j) mod length (cm_connections m)))) [0..<length ks]"
proof (induction ks arbitrary: m)
  case (Cons k ks)
  let ?n = "length (cm_connections m)"
  let ?m = "fst (on_reconnect k m)"
  have m: "cm_connections ?m = cm_connections m" "cm_idx ?m = (cm_idx m + 1) mod ?n"
    "snd (on_reconnect k m) = [Start_Connect (cm_connections m ! ((cm_idx m + 1) mod ?n))]"
    using Cons.prems by (simp_all add: on_reconnect_def Let_def)
  have "[0..<Suc (length ks)] = 0 # map Suc [0..<length ks]"
    by (metis map_Suc_upt upt_conv_Cons zero_less_Suc)
  moreover have "((cm_idx m + 1) mod ?n + Suc j) mod ?n = (cm_idx m + Suc (Suc j)) mod ?n" for j
    using mod_add_left_eq [of "cm_idx m + 1" ?n "Suc j"] by simp
  ultimately show ?case using Cons by (simp add: split_beta m comp_def)
qed simp

text \<open>
  C40. Reconnecting goes round: as many reconnects in a row as there are enabled connections
  start each of them, from whatever index the loop is at, even one that a shorter list of
  connections has left behind; no index is ever out of range.
\<close>

theorem reconnects_visit_all:
  assumes "cm_connections m \<noteq> []" and "length ks = length (cm_connections m)"
  shows "set (reconnects ks m) = Start_Connect ` set (cm_connections m)"
proof -
  let ?n = "length (cm_connections m)"
  have n: "0 < ?n" using assms(1) by simp
  have eq: "i = j" if "i \<le> j" "j < ?n" "(cm_idx m + Suc i) mod ?n = (cm_idx m + Suc j) mod ?n" for i j
  proof (rule ccontr)
    assume "i \<noteq> j"
    have "cm_idx m + Suc i \<le> cm_idx m + Suc j" using that(1) by simp
    from mod_eq_dvd_iff_nat [OF this] have "?n dvd (cm_idx m + Suc j) - (cm_idx m + Suc i)"
      using that(3) by metis
    then have "?n \<le> j - i" using \<open>i \<noteq> j\<close> that by (intro dvd_imp_le) simp_all
    then show False using that(2) n by linarith
  qed
  have inj: "inj_on (\<lambda>j. (cm_idx m + Suc j) mod ?n) {0..<?n}"
  proof (rule inj_onI)
    fix i j
    assume "i \<in> {0..<?n}" "j \<in> {0..<?n}" "(cm_idx m + Suc i) mod ?n = (cm_idx m + Suc j) mod ?n"
    then show "i = j" using eq [of i j] eq [of j i] by (cases "i \<le> j") auto
  qed
  have "(\<lambda>j. (cm_idx m + Suc j) mod ?n) ` {0..<?n} = {0..<?n}"
  proof (rule card_subset_eq)
    show "(\<lambda>j. (cm_idx m + Suc j) mod ?n) ` {0..<?n} \<subseteq> {0..<?n}" using n by auto
    show "card ((\<lambda>j. (cm_idx m + Suc j) mod ?n) ` {0..<?n}) = card {0..<?n}" using inj by (rule card_image)
  qed simp
  then have "(\<lambda>i. Start_Connect (cm_connections m ! i)) ` (\<lambda>j. (cm_idx m + Suc j) mod ?n) ` {0..<?n} =
      (\<lambda>i. Start_Connect (cm_connections m ! i)) ` {0..<?n}" by simp
  moreover have "(\<lambda>i. Start_Connect (cm_connections m ! i)) ` {0..<?n} = Start_Connect ` set (cm_connections m)"
  proof -
    have "(\<lambda>i. cm_connections m ! i) ` {0..<?n} = set (cm_connections m)" by (auto simp: set_conv_nth)
    then show ?thesis by (metis image_image)
  qed
  ultimately show ?thesis
    using assms by (simp add: reconnects_nth image_image)
qed

lemma reconnects_visit_all_witness:
  "set (reconnects [3, 5] (idle_manager\<lparr>cm_connections := [obfs4_connection, zero_connection], cm_idx := 7\<rparr>)) =
   {Start_Connect obfs4_connection, Start_Connect zero_connection}"
  using reconnects_visit_all [of "idle_manager\<lparr>cm_connections := [obfs4_connection, zero_connection], cm_idx := 7\<rparr>" "[3, 5]"]
  by simp

text \<open>
  Updating the connections keeps the enabled ones, each as often as it was there, in some
  order, whatever the random numbers are.
\<close>

lemma update_connections_enabled:
  assumes "\<forall>i n. 0 < n \<longrightarrow> rnd i n < n"
  shows "mset (update_connections rnd cs) = filter_mset (\<lambda>c. \<not> c_disabled c) (mset cs)"
  using shuffle_steps [of rnd "length (filter (\<lambda>c. \<not> c_disabled c) cs)" "filter (\<lambda>c. \<not> c_disabled c) cs"] assms
  by (simp add: update_connections_def shuffle_def mset_filter)

lemma update_connections_enabled_witness:
  "mset (update_connections (\<lambda>i n. n - 1) [obfs4_connection, zero_connection\<lparr>c_disabled := True\<rparr>]) = {#obfs4_connection#}"
  using update_connections_enabled [of "\<lambda>i n. n - 1"]
  by (simp add: obfs4_connection_def zero_connection_def)

text \<open>
  Connecting through a transport for which no command is configured crashes the client
  instead of reporting a failure, provided the old transport can be removed; and when nothing
  is enabled at the start, there is no connection manager at all.
\<close>

lemma connect_unknown_transport_crashes:
  assumes "remove_default dt w = Returned w0" "transport_command (x_arg0 x) conn w0 = None"
  shows "connect x conn dt w = Crashed \<and> start_manager (update_connections rnd []) = None"
  using assms
  by (auto simp: connect_def new_transport_service_def Let_def start_manager_def update_connections_def shuffle_def
      split: option.splits)

lemma connect_unknown_transport_crashes_witness:
  "connect (example_env silent_launch) (obfs4_connection\<lparr>c_transport := ''meek''\<rparr>) None obfs4_world = Crashed"
proof -
  have "transport_command ''alkasir'' (obfs4_connection\<lparr>c_transport := ''meek''\<rparr>) obfs4_world = None"
    by code_simp
  then show ?thesis
    using connect_unknown_transport_crashes [of None obfs4_world obfs4_world "example_env silent_launch"]
    by (simp add: remove_default_def example_env_def)
qed

lemma state_strings:
  "map (state_string \<circ> state_code) [Init, ServiceInit, ServiceStart, Test, Up, Backoff, WrongProtocol, ConnFailed, NotConfigured, TestFailed, Ended] =
   [''Init'', ''ServiceInit'', ''ServiceStart'', ''Test'', ''Up'', ''Backoff'', ''WrongProtocol'', ''Failed'', ''NotConfigured'', ''TestFailed'', ''Ended'']"
  by code_simp

end
