(* ===== verification/ApiErrors.thy ===== *)
theory ApiErrors
  imports GoPrelude
begin

text \<open>
  The error values of the programs: \<open>pkg/shared/errors\<close> (aggregates), \<open>pkg/shared/fielderrors\<close>
  (validation errors), \<open>pkg/shared/statustypes.go\<close> and \<open>pkg/shared/apierrors\<close> (errors that
  carry an HTTP status) and \<open>pkg/shared/apiutils\<close> (what is sent for an error). An error
  value is a datatype; \<open>nil\<close> in a list of errors is \<open>None\<close>. A bad value of a validation
  error is kept as the text the third-party printer \<open>spew\<close> gives it.
\<close>

section \<open>Data\<close>

datatype validation_type =
  VT_NotFound | VT_Required | VT_Duplicate | VT_Invalid | VT_NotSupported | VT_Forbidden | VT_TooLong | VT_Other string

fun validation_type_value :: "validation_type \<Rightarrow> string" where
  "validation_type_value VT_NotFound = ''FieldValueNotFound''"
| "validation_type_value VT_Required = ''FieldValueRequired''"
| "validation_type_value VT_Duplicate = ''FieldValueDuplicate''"
| "validation_type_value VT_Invalid = ''FieldValueInvalid''"
| "validation_type_value VT_NotSupported = ''FieldValueNotSupported''"
| "validation_type_value VT_Forbidden = ''FieldValueForbidden''"
| "validation_type_value VT_TooLong = ''FieldValueTooLong''"
| "validation_type_value (VT_Other s) = s"

fun validation_type_text :: "validation_type \<Rightarrow> string" where
  "validation_type_text VT_NotFound = ''not found''"
| "validation_type_text VT_Required = ''required value''"
| "validation_type_text VT_Duplicate = ''duplicate value''"
| "validation_type_text VT_Invalid = ''invalid value''"
| "validation_type_text VT_NotSupported = ''unsupported value''"
| "validation_type_text VT_Forbidden = ''forbidden''"
| "validation_type_text VT_TooLong = ''too long''"
| "validation_type_text (VT_Other s) = []"

record validation_error =
  ve_type :: validation_type
  ve_field :: string
  ve_bad_value :: string
  ve_detail :: string

record status_cause =
  ca_type :: string
  ca_message :: string
  ca_field :: string

record status_details =
  de_name :: string
  de_kind :: string
  de_causes :: "status_cause list"
  de_retry_after :: int

record status =
  st_kind :: string
  st_api_version :: string
  st_status :: string
  st_message :: string
  st_reason :: string
  st_details :: "status_details option"
  st_code :: int

text \<open>The errors of \<open>net\<close> and \<open>net/url\<close> appear with what is asked of them: whether one is a
  time-out, and the error inside.\<close>

datatype err =
    Plain string
  | Agg "err option list"
  | Field_Err validation_error
  | Status_Err status
  | Unexpected_Object string
  | Net_Err bool string
  | Url_Err err string

section \<open>Aggregates\<close>

definition new_aggregate :: "err option list \<Rightarrow> err option" where
  "new_aggregate es = (if es = [] then None else Some (Agg es))"

definition validation_error_text :: "validation_error \<Rightarrow> string" where
  "validation_error_text v =
     (let s = (case ve_type v of
                 VT_Required \<Rightarrow> ve_field v @ '': '' @ validation_type_text (ve_type v)
               | VT_TooLong \<Rightarrow> ve_field v @ '': '' @ validation_type_text (ve_type v)
               | _ \<Rightarrow> ve_field v @ '': '' @ validation_type_text (ve_type v) @ '' '' @ [CHR 0x27] @ ve_bad_value v @ [CHR 0x27])
      in if ve_detail v \<noteq> [] then s @ '': '' @ ve_detail v else s)"

text \<open>\<open>Error()\<close>; on an aggregate that holds \<open>nil\<close> it crashes.\<close>

primrec err_text :: "err \<Rightarrow> string option" where
  "err_text (Plain s) = Some s"
| "err_text (Agg es) =
     (let ts = map (\<lambda>t. case t of Some (Some s) \<Rightarrow> Some s | _ \<Rightarrow> None) (map (map_option err_text) es) in
      if None \<in> set ts then None
      else (case map the ts of
              [] \<Rightarrow> Some []
            | [t] \<Rightarrow> Some t
            | ss \<Rightarrow> Some (''['' @ join '', '' ss @ '']'')))"
| "err_text (Field_Err v) = Some (validation_error_text v)"
| "err_text (Status_Err s) = Some (st_message s)"
| "err_text (Unexpected_Object s) = Some (''unexpected object: '' @ s)"
| "err_text (Net_Err b s) = Some s"
| "err_text (Url_Err e s) = Some s"

type_synonym matcher = "err \<Rightarrow> bool"

definition matches_error :: "matcher list \<Rightarrow> err \<Rightarrow> bool" where
  "matches_error fns e = list_ex (\<lambda>fn. fn e) fns"

definition list_measure :: "err option list \<Rightarrow> nat" where
  "list_measure es = size_list (size_option size) es"

lemma list_measure_nested: "Some (Agg es') \<in> set es \<Longrightarrow> list_measure es' < list_measure es"
  by (induction es) (auto simp: list_measure_def)

function filter_errors :: "matcher list \<Rightarrow> err option list \<Rightarrow> err option list" where
  "filter_errors fns es =
     concat (map (\<lambda>x. case x of
         None \<Rightarrow> []
       | Some (Agg es') \<Rightarrow> (case new_aggregate (filter_errors fns es') of None \<Rightarrow> [] | Some r \<Rightarrow> [Some r])
       | Some e \<Rightarrow> if matches_error fns e then [] else [Some e]) es)"
  by pat_completeness auto
termination
  by (relation "measure (list_measure \<circ> snd)") (auto dest: list_measure_nested)

declare filter_errors.simps [simp del]

definition filter_out :: "matcher list \<Rightarrow> err option \<Rightarrow> err option" where
  "filter_out fns x =
     (case x of
        None \<Rightarrow> None
      | Some (Agg es) \<Rightarrow> new_aggregate (filter_errors fns es)
      | Some e \<Rightarrow> if matches_error fns e then None else Some e)"

function flatten :: "err option list \<Rightarrow> err option list" where
  "flatten es =
     concat (map (\<lambda>x. case x of
         Some (Agg es') \<Rightarrow> flatten es'
       | Some e \<Rightarrow> [Some e]
       | None \<Rightarrow> []) es)"
  by pat_completeness auto
termination
  by (relation "measure list_measure") (auto dest: list_measure_nested)

declare flatten.simps [simp del]

text \<open>\<open>Flatten\<close> on an aggregate or \<open>nil\<close>; the empty aggregate the recursion may give counts
  as no errors, just as \<open>nil\<close> does.\<close>

definition flatten_aggregate :: "err option list option \<Rightarrow> err option" where
  "flatten_aggregate agg = (case agg of None \<Rightarrow> None | Some es \<Rightarrow> new_aggregate (flatten es))"

section \<open>Validation errors\<close>

definition new_field_required :: "string \<Rightarrow> validation_error" where
  "new_field_required f = \<lparr>ve_type = VT_Required, ve_field = f, ve_bad_value = [], ve_detail = []\<rparr>"

definition new_field_invalid :: "string \<Rightarrow> string \<Rightarrow> string \<Rightarrow> validation_error" where
  "new_field_invalid f v d = \<lparr>ve_type = VT_Invalid, ve_field = f, ve_bad_value = v, ve_detail = d\<rparr>"

definition new_field_not_supported :: "string \<Rightarrow> string \<Rightarrow> string list \<Rightarrow> validation_error" where
  "new_field_not_supported f v valid =
     \<lparr>ve_type = VT_NotSupported, ve_field = f, ve_bad_value = v,
      ve_detail = (if valid \<noteq> [] then ''supported values: '' @ join '', '' valid else [])\<rparr>"

definition new_field_forbidden :: "string \<Rightarrow> string \<Rightarrow> validation_error" where
  "new_field_forbidden f v = \<lparr>ve_type = VT_Forbidden, ve_field = f, ve_bad_value = v, ve_detail = []\<rparr>"

definition new_field_duplicate :: "string \<Rightarrow> string \<Rightarrow> validation_error" where
  "new_field_duplicate f v = \<lparr>ve_type = VT_Duplicate, ve_field = f, ve_bad_value = v, ve_detail = []\<rparr>"

definition new_field_not_found :: "string \<Rightarrow> string \<Rightarrow> validation_error" where
  "new_field_not_found f v = \<lparr>ve_type = VT_NotFound, ve_field = f, ve_bad_value = v, ve_detail = []\<rparr>"

definition new_field_too_long :: "string \<Rightarrow> string \<Rightarrow> int \<Rightarrow> validation_error" where
  "new_field_too_long f v n =
     \<lparr>ve_type = VT_TooLong, ve_field = f, ve_bad_value = v, ve_detail = ''must have at most '' @ itoa n @ '' characters''\<rparr>"

definition prefix_field :: "string \<Rightarrow> string \<Rightarrow> string" where
  "prefix_field p f = (if has_prefix f ''['' then p @ f else if f \<noteq> [] then p @ ''.'' @ f else p)"

fun prefix_err :: "string \<Rightarrow> err option \<Rightarrow> err option" where
  "prefix_err p (Some (Field_Err v)) = Some (Field_Err (v\<lparr>ve_field := prefix_field p (ve_field v)\<rparr>))"
| "prefix_err p x = x"

definition prefix_list :: "string \<Rightarrow> err option list \<Rightarrow> err option list" where
  "prefix_list p es = map (prefix_err p) es"

definition prefix_index :: "int \<Rightarrow> err option list \<Rightarrow> err option list" where
  "prefix_index i es = prefix_list (''['' @ itoa i @ '']'') es"

fun type_matcher :: "validation_type \<Rightarrow> matcher" where
  "type_matcher t (Field_Err v) = (validation_type_value (ve_type v) = validation_type_value t)"
| "type_matcher t _ = False"

fun field_prefix_matcher :: "string \<Rightarrow> matcher" where
  "field_prefix_matcher p (Field_Err v) = has_prefix (ve_field v) p"
| "field_prefix_matcher p _ = False"

definition filter_list :: "matcher list \<Rightarrow> err option list \<Rightarrow> err option list" where
  "filter_list fns es =
     (case filter_out fns (new_aggregate es) of Some (Agg r) \<Rightarrow> r | _ \<Rightarrow> [])"

section \<open>Errors with a status\<close>

definition status_success :: string where "status_success = ''Success''"
definition status_failure :: string where "status_failure = ''Failure''"

definition reason_unknown :: string where "reason_unknown = []"
definition reason_unauthorized :: string where "reason_unauthorized = ''Unauthorized''"
definition reason_forbidden :: string where "reason_forbidden = ''Forbidden''"
definition reason_not_found :: string where "reason_not_found = ''NotFound''"
definition reason_already_exists :: string where "reason_already_exists = ''AlreadyExists''"
definition reason_conflict :: string where "reason_conflict = ''Conflict''"
definition reason_invalid :: string where "reason_invalid = ''Invalid''"
definition reason_server_timeout :: string where "reason_server_timeout = ''ServerTimeout''"
definition reason_timeout :: string where "reason_timeout = ''Timeout''"
definition reason_bad_request :: string where "reason_bad_request = ''BadRequest''"
definition reason_method_not_allowed :: string where "reason_method_not_allowed = ''MethodNotAllowed''"
definition reason_internal_error :: string where "reason_internal_error = ''InternalError''"

definition cause_unexpected_server_response :: string where
  "cause_unexpected_server_response = ''UnexpectedServerResponse''"

definition failure :: "int \<Rightarrow> string \<Rightarrow> string \<Rightarrow> status_details option \<Rightarrow> err" where
  "failure code reason message details =
     Status_Err \<lparr>st_kind = [], st_api_version = [], st_status = status_failure, st_message = message,
       st_reason = reason, st_details = details, st_code = code\<rparr>"

definition resource_details :: "string \<Rightarrow> string \<Rightarrow> status_details option" where
  "resource_details kind name = Some \<lparr>de_name = name, de_kind = kind, de_causes = [], de_retry_after = 0\<rparr>"

text \<open>Errors that are only printed are given as what \<open>%v\<close> prints.\<close>

definition new_not_found :: "string \<Rightarrow> string \<Rightarrow> err" where
  "new_not_found kind name =
     failure 404 reason_not_found (kind @ '' '' @ go_quote name @ '' not found'') (resource_details kind name)"

definition new_already_exists :: "string \<Rightarrow> string \<Rightarrow> err" where
  "new_already_exists kind name =
     failure 409 reason_already_exists (kind @ '' '' @ go_quote name @ '' already exists'') (resource_details kind name)"

definition new_unauthorized :: "string \<Rightarrow> err" where
  "new_unauthorized reason =
     failure 401 reason_unauthorized (if reason = [] then ''not authorized'' else reason) None"

definition new_forbidden :: "string \<Rightarrow> string \<Rightarrow> string \<Rightarrow> err" where
  "new_forbidden kind name shown =
     failure 403 reason_forbidden (kind @ '' '' @ go_quote name @ '' is forbidden: '' @ shown) (resource_details kind name)"

definition new_conflict :: "string \<Rightarrow> string \<Rightarrow> string \<Rightarrow> err" where
  "new_conflict kind name shown =
     failure 409 reason_conflict (kind @ '' '' @ go_quote name @ '' cannot be updated: '' @ shown) (resource_details kind name)"

definition validation_cause :: "validation_error \<Rightarrow> status_cause" where
  "validation_cause v =
     \<lparr>ca_type = validation_type_value (ve_type v), ca_message = validation_error_text v, ca_field = ve_field v\<rparr>"

fun validation_causes :: "err option list \<Rightarrow> status_cause list" where
  "validation_causes [] = []"
| "validation_causes (Some (Field_Err v) # es) = validation_cause v # validation_causes es"
| "validation_causes (x # es) = validation_causes es"

definition shown_err :: "err option \<Rightarrow> string" where
  "shown_err x =
     (case x of
        None \<Rightarrow> ''<nil>''
      | Some e \<Rightarrow>
          (case err_text e of
             Some t \<Rightarrow> t
           | None \<Rightarrow> ''%!v(PANIC=runtime error: invalid memory address or nil pointer dereference)''))"

definition new_invalid :: "string \<Rightarrow> string \<Rightarrow> err option list \<Rightarrow> err" where
  "new_invalid kind name errs =
     failure 422 reason_invalid (kind @ '' '' @ go_quote name @ '' is invalid: '' @ shown_err (new_aggregate errs))
       (Some \<lparr>de_name = name, de_kind = kind, de_causes = validation_causes errs, de_retry_after = 0\<rparr>)"

definition new_bad_request :: "string \<Rightarrow> err" where
  "new_bad_request reason = failure 400 reason_bad_request reason None"

definition new_method_not_supported :: "string \<Rightarrow> string \<Rightarrow> err" where
  "new_method_not_supported kind act =
     failure 405 reason_method_not_allowed (act @ '' is not supported on resources of kind '' @ go_quote kind)
       (resource_details kind [])"

definition new_server_timeout :: "string \<Rightarrow> string \<Rightarrow> int \<Rightarrow> err" where
  "new_server_timeout kind operation retry =
     failure 500 reason_server_timeout
       (''The '' @ operation @ '' operation against '' @ kind @ '' could not be completed at this time, please try again.'')
       (Some \<lparr>de_name = operation, de_kind = kind, de_causes = [], de_retry_after = retry\<rparr>)"

text \<open>\<open>NewInternalError\<close> on the text of an error.\<close>

definition new_internal_error :: "string \<Rightarrow> err" where
  "new_internal_error t =
     failure 500 reason_internal_error (''Internal error occurred: '' @ t)
       (Some \<lparr>de_name = [], de_kind = [], de_causes = [\<lparr>ca_type = [], ca_message = t, ca_field = []\<rparr>], de_retry_after = 0\<rparr>)"

definition new_timeout_error :: "string \<Rightarrow> int \<Rightarrow> err" where
  "new_timeout_error message retry =
     failure 504 reason_timeout (''Timeout: '' @ message)
       (Some \<lparr>de_name = [], de_kind = [], de_causes = [], de_retry_after = retry\<rparr>)"

definition generic_reason :: "int \<Rightarrow> string \<Rightarrow> string \<times> string" where
  "generic_reason code verb =
     (if code = 409 then (if verb = ''POST'' then reason_already_exists else reason_conflict, ''the server reported a conflict'')
      else if code = 404 then (reason_not_found, ''the server could not find the requested resource'')
      else if code = 400 then (reason_bad_request, ''the server rejected our request for an unknown reason'')
      else if code = 401 then (reason_unauthorized, ''the server has asked for the client to provide credentials'')
      else if code = 403 then (reason_forbidden, ''the server does not allow access to the requested resource'')
      else if code = 405 then (reason_method_not_allowed, ''the server does not allow this method on the requested resource'')
      else if code = 422 then (reason_invalid, ''the server rejected our request due to an error in our request'')
      else if code = 504
        then (reason_server_timeout, ''the server cannot complete the requested operation at this time, try again later'')
      else if code = 429
        then (reason_timeout, ''the server has received too many requests and has asked us to try again later'')
      else if 500 \<le> code
        then (reason_internal_error, ''an error on the server has prevented the request from succeeding'')
      else (reason_unknown,
        ''the server responded with the status code '' @ itoa code @ '' but did not return more information''))"

definition new_generic_server_response ::
  "int \<Rightarrow> string \<Rightarrow> string \<Rightarrow> string \<Rightarrow> string \<Rightarrow> int \<Rightarrow> bool \<Rightarrow> err" where
  "new_generic_server_response code verb kind name server_message retry unexpected =
     (let (reason, message) = generic_reason code verb;
          message = (if kind \<noteq> [] \<and> name \<noteq> []
                     then message @ '' ('' @ to_lower verb @ '' '' @ kind @ '' '' @ name @ '')''
                     else if kind \<noteq> [] then message @ '' ('' @ to_lower verb @ '' '' @ kind @ '')''
                     else message);
          causes = (if unexpected
                    then [\<lparr>ca_type = cause_unexpected_server_response, ca_message = server_message, ca_field = []\<rparr>]
                    else [])
      in failure code reason message
           (Some \<lparr>de_name = name, de_kind = kind, de_causes = causes, de_retry_after = retry\<rparr>))"

fun reason_for_error :: "err \<Rightarrow> string" where
  "reason_for_error (Status_Err s) = st_reason s"
| "reason_for_error _ = reason_unknown"

definition is_not_found :: "err \<Rightarrow> bool" where "is_not_found e \<longleftrightarrow> reason_for_error e = reason_not_found"
definition is_already_exists :: "err \<Rightarrow> bool" where "is_already_exists e \<longleftrightarrow> reason_for_error e = reason_already_exists"
definition is_conflict :: "err \<Rightarrow> bool" where "is_conflict e \<longleftrightarrow> reason_for_error e = reason_conflict"
definition is_invalid :: "err \<Rightarrow> bool" where "is_invalid e \<longleftrightarrow> reason_for_error e = reason_invalid"
definition is_method_not_supported :: "err \<Rightarrow> bool" where
  "is_method_not_supported e \<longleftrightarrow> reason_for_error e = reason_method_not_allowed"
definition is_bad_request :: "err \<Rightarrow> bool" where "is_bad_request e \<longleftrightarrow> reason_for_error e = reason_bad_request"
definition is_unauthorized :: "err \<Rightarrow> bool" where "is_unauthorized e \<longleftrightarrow> reason_for_error e = reason_unauthorized"
definition is_forbidden :: "err \<Rightarrow> bool" where "is_forbidden e \<longleftrightarrow> reason_for_error e = reason_forbidden"
definition is_server_timeout :: "err \<Rightarrow> bool" where "is_server_timeout e \<longleftrightarrow> reason_for_error e = reason_server_timeout"

fun is_unexpected_server_error :: "err \<Rightarrow> bool" where
  "is_unexpected_server_error (Status_Err s) =
     (case st_details s of
        None \<Rightarrow> False
      | Some d \<Rightarrow> list_ex (\<lambda>c. ca_type c = cause_unexpected_server_response) (de_causes d))"
| "is_unexpected_server_error _ = False"

fun is_unexpected_object_error :: "err option \<Rightarrow> bool" where
  "is_unexpected_object_error (Some (Unexpected_Object _)) = True"
| "is_unexpected_object_error _ = False"

fun suggests_client_delay :: "err \<Rightarrow> int \<times> bool" where
  "suggests_client_delay (Status_Err s) =
     (case st_details s of
        None \<Rightarrow> (0, False)
      | Some d \<Rightarrow>
          if st_reason s = reason_server_timeout \<or> st_reason s = reason_timeout then (de_retry_after d, True) else (0, False))"
| "suggests_client_delay _ = (0, False)"

text \<open>\<open>FromObject\<close> on a status or on something else, which is printed.\<close>

definition from_object :: "status + string \<Rightarrow> err" where
  "from_object x = (case x of Inl s \<Rightarrow> Status_Err s | Inr shown \<Rightarrow> Unexpected_Object shown)"

section \<open>What is sent for an error\<close>

definition complete_status :: "status \<Rightarrow> status" where
  "complete_status s =
     (let s1 = (if st_status s = [] then s\<lparr>st_status := status_failure\<rparr> else s) in
      if st_code s1 = 0 then
        (if st_status s1 = status_success then s1\<lparr>st_code := 200\<rparr>
         else if st_status s1 = status_failure then s1\<lparr>st_code := 500\<rparr> else s1)
      else s1)"

fun err_to_api_status :: "err \<Rightarrow> status option" where
  "err_to_api_status (Status_Err s) = Some (complete_status s)"
| "err_to_api_status e =
     map_option (\<lambda>t. \<lparr>st_kind = [], st_api_version = [], st_status = status_failure, st_message = t,
       st_reason = reason_unknown, st_details = None, st_code = 500\<rparr>) (err_text e)"

text \<open>\<open>WriteRestError\<close>: the code of the header and the status of the body.\<close>

definition write_rest_error :: "err \<Rightarrow> (int \<times> status) option" where
  "write_rest_error e =
     (case e of
        Status_Err s \<Rightarrow> Some (st_code s, s)
      | _ \<Rightarrow>
          (case err_text e of
             None \<Rightarrow> None
           | Some t \<Rightarrow> (case new_internal_error t of Status_Err s \<Rightarrow> Some (st_code s, s) | _ \<Rightarrow> None)))"

definition closed_connection_text :: "err \<Rightarrow> bool" where
  "closed_connection_text e =
     (case err_text e of None \<Rightarrow> False | Some t \<Rightarrow> contains t ''use of closed network connection'')"

definition is_timeout_error :: "err option \<Rightarrow> bool" where
  "is_timeout_error x =
     (case x of
        None \<Rightarrow> False
      | Some (Url_Err (Net_Err b _) _) \<Rightarrow> b
      | Some (Net_Err b _) \<Rightarrow> b
      | Some e \<Rightarrow> closed_connection_text e)"

definition is_net_error :: "err option \<Rightarrow> bool" where
  "is_net_error x =
     (case x of
        None \<Rightarrow> False
      | Some (Url_Err (Net_Err _ _) _) \<Rightarrow> True
      | Some (Net_Err _ _) \<Rightarrow> True
      | Some e \<Rightarrow> closed_connection_text e)"

section \<open>Facts about aggregates\<close>

text \<open>The errors at the leaves of an aggregate, in order.\<close>

primrec leaves :: "err \<Rightarrow> err list" where
  "leaves (Plain s) = [Plain s]"
| "leaves (Agg es) = concat (map (case_option [] (\<lambda>l. l)) (map (map_option leaves) es))"
| "leaves (Field_Err v) = [Field_Err v]"
| "leaves (Status_Err s) = [Status_Err s]"
| "leaves (Unexpected_Object s) = [Unexpected_Object s]"
| "leaves (Net_Err b s) = [Net_Err b s]"
| "leaves (Url_Err e s) = [Url_Err e s]"

definition option_leaves :: "err option \<Rightarrow> err list" where
  "option_leaves x = (case x of None \<Rightarrow> [] | Some e \<Rightarrow> leaves e)"

definition is_agg :: "err \<Rightarrow> bool" where
  "is_agg e = (case e of Agg _ \<Rightarrow> True | _ \<Rightarrow> False)"

lemma leaves_Agg: "leaves (Agg es) = concat (map option_leaves es)"
  by (auto simp: option_leaves_def comp_def option.case_eq_if intro!: arg_cong [where f = concat] map_cong)

declare leaves.simps(2) [simp del]

lemma leaf_leaves: "\<not> is_agg e \<Longrightarrow> leaves e = [e]"
  by (cases e) (simp_all add: is_agg_def)

lemma leaves_no_agg: "f \<in> set (leaves e) \<Longrightarrow> \<not> is_agg f"
proof (induction e)
  case (Agg es)
  then obtain g where "Some g \<in> set es" "f \<in> set (leaves g)"
    unfolding leaves_Agg by (auto simp: option_leaves_def split: option.splits)
  with Agg.IH [of "Some g"] show ?case by auto
qed (auto simp: is_agg_def)

lemma concat_map_cong: "(\<And>x. x \<in> set xs \<Longrightarrow> f x = g x) \<Longrightarrow> concat (map f xs) = concat (map g xs)"
  by (induction xs) auto

lemma flatten_leaves: "flatten es = map Some (leaves (Agg es))"
proof (induction es rule: flatten.induct)
  case (1 es)
  have "(case x of Some (Agg es') \<Rightarrow> flatten es' | Some e \<Rightarrow> [Some e] | None \<Rightarrow> []) = map Some (option_leaves x)"
    if "x \<in> set es" for x
  proof (cases x)
    case (Some e)
    then show ?thesis using 1 [OF that, of e] by (cases e) (auto simp: option_leaves_def)
  qed (simp add: option_leaves_def)
  then show ?case
    unfolding leaves_Agg map_concat map_map comp_def by (subst flatten.simps) (rule concat_map_cong)
qed

lemma filter_errors_leaves:
  "leaves (Agg (filter_errors fns es)) = filter (\<lambda>e. \<not> matches_error fns e) (leaves (Agg es)) \<and>
   (filter_errors fns es = [] \<longleftrightarrow> filter (\<lambda>e. \<not> matches_error fns e) (leaves (Agg es)) = [])"
proof (induction fns es rule: filter_errors.induct)
  case (1 fns es)
  let ?f = "\<lambda>x. case x of None \<Rightarrow> [] | Some (Agg es') \<Rightarrow> (case new_aggregate (filter_errors fns es') of None \<Rightarrow> [] | Some r \<Rightarrow> [Some r])
       | Some e \<Rightarrow> if matches_error fns e then [] else [Some e]"
  have one: "concat (map option_leaves (?f x)) = filter (\<lambda>e. \<not> matches_error fns e) (option_leaves x) \<and>
      (?f x = [] \<longleftrightarrow> filter (\<lambda>e. \<not> matches_error fns e) (option_leaves x) = [])" if "x \<in> set es" for x
  proof (cases x)
    case (Some e)
    then show ?thesis
      using 1 [OF that, of e]
      by (cases e) (auto simp: option_leaves_def new_aggregate_def)
  qed (simp add: option_leaves_def)
  have e: "filter_errors fns es = concat (map ?f es)" by (rule filter_errors.simps)
  have "concat (map option_leaves (concat (map ?f xs))) = filter (\<lambda>e. \<not> matches_error fns e) (concat (map option_leaves xs)) \<and>
      (concat (map ?f xs) = [] \<longleftrightarrow> filter (\<lambda>e. \<not> matches_error fns e) (concat (map option_leaves xs)) = [])"
    if "set xs \<subseteq> set es" for xs
    using that
  proof (induction xs)
    case (Cons x xs)
    then show ?case using one [of x] by auto
  qed simp
  then show ?case unfolding e leaves_Agg by blast
qed

section \<open>Properties\<close>

text \<open>
  Flattening an aggregate, however deep it nests, gives the errors at its leaves in their
  order, none of them an aggregate; it gives \<open>nil\<close> exactly when there is none. Flattening
  the result again changes nothing.
\<close>

lemma flatten_aggregate_leaves:
  "flatten_aggregate (Some es) = new_aggregate (map Some (leaves (Agg es))) \<and>
   list_all (\<lambda>x. case x of None \<Rightarrow> False | Some r \<Rightarrow> \<not> is_agg r) (flatten es) \<and> flatten (flatten es) = flatten es"
proof -
  have "map option_leaves (map Some (leaves (Agg es))) = map (\<lambda>e. [e]) (leaves (Agg es))"
    using leaves_no_agg [of _ "Agg es"]
    by (simp add: option_leaves_def leaf_leaves)
  then have "flatten (map Some (leaves (Agg es))) = map Some (leaves (Agg es))"
    by (simp add: flatten_leaves leaves_Agg [of "map Some _"] concat_map_singleton del: map_map)
  then show ?thesis
    using leaves_no_agg [of _ "Agg es"]
    by (auto simp: flatten_aggregate_def flatten_leaves list_all_iff)
qed

text \<open>
  Filtering an error with matchers keeps exactly the errors at its leaves that no matcher
  accepts, in their order; nothing is left exactly when every leaf is matched. But an
  aggregate inside an aggregate stays one: the result need not be flat.
\<close>

lemma filter_out_leaves:
  "option_leaves (filter_out fns x) = filter (\<lambda>e. \<not> matches_error fns e) (option_leaves x) \<and>
   (filter_out fns x = None \<longleftrightarrow> filter (\<lambda>e. \<not> matches_error fns e) (option_leaves x) = []) \<and>
   (\<exists>y z. filter_out [] (Some y) = Some z \<and> flatten_aggregate (Some [Some z]) \<noteq> Some z \<and> is_agg z)"
proof -
  have inner: "filter_errors [] [Some (Plain ''a'')] = [Some (Plain ''a'')]"
    by (subst filter_errors.simps) (simp add: matches_error_def)
  have "filter_errors [] [Some (Agg [Some (Plain ''a'')])] = [Some (Agg [Some (Plain ''a'')])]"
    by (subst filter_errors.simps) (simp add: inner new_aggregate_def)
  then have "filter_out [] (Some (Agg [Some (Agg [Some (Plain ''a'')])])) = Some (Agg [Some (Agg [Some (Plain ''a'')])])"
    by (simp add: filter_out_def new_aggregate_def)
  moreover have "flatten_aggregate (Some [Some (Agg [Some (Agg [Some (Plain ''a'')])])]) = Some (Agg [Some (Plain ''a'')])"
    by (simp add: flatten_aggregate_def flatten_leaves new_aggregate_def leaves_Agg option_leaves_def)
  ultimately have "\<exists>y z. filter_out [] (Some y) = Some z \<and> flatten_aggregate (Some [Some z]) \<noteq> Some z \<and> is_agg z"
    by (intro exI [of _ "Agg [Some (Agg [Some (Plain ''a'')])]"]) (simp add: is_agg_def)
  moreover have "option_leaves (filter_out fns x) = filter (\<lambda>e. \<not> matches_error fns e) (option_leaves x) \<and>
      (filter_out fns x = None \<longleftrightarrow> filter (\<lambda>e. \<not> matches_error fns e) (option_leaves x) = [])"
  proof (cases x)
    case (Some e)
    show ?thesis
    proof (cases "is_agg e")
      case True
      then obtain es where "e = Agg es" by (cases e) (auto simp: is_agg_def)
      then show ?thesis
        using filter_errors_leaves [of fns es] Some
        by (auto simp: filter_out_def option_leaves_def new_aggregate_def leaves_Agg)
    next
      case False
      have "filter_out fns x = (if matches_error fns e then None else Some e)"
        using False Some by (cases e) (simp_all add: filter_out_def is_agg_def)
      then show ?thesis using False Some by (simp add: option_leaves_def leaf_leaves)
    qed
  qed (simp add: filter_out_def option_leaves_def)
  ultimately show ?thesis by blast
qed

lemmas reason_defs = reason_unknown_def reason_unauthorized_def reason_forbidden_def reason_not_found_def
  reason_already_exists_def reason_conflict_def reason_invalid_def reason_server_timeout_def reason_timeout_def
  reason_bad_request_def reason_method_not_allowed_def reason_internal_error_def

lemmas is_defs = is_not_found_def is_already_exists_def is_conflict_def is_invalid_def is_method_not_supported_def
  is_bad_request_def is_unauthorized_def is_forbidden_def is_server_timeout_def

text \<open>The answers of the nine predicates, and the code of the status.\<close>

definition verdict :: "err \<Rightarrow> bool list" where
  "verdict e =
     [is_not_found e, is_already_exists e, is_conflict e, is_invalid e, is_method_not_supported e, is_bad_request e,
      is_unauthorized e, is_forbidden e, is_server_timeout e]"

definition only :: "nat \<Rightarrow> bool list" where
  "only k = map (\<lambda>i. i = k) [0..<9]"

fun code_of :: "err \<Rightarrow> int" where
  "code_of (Status_Err s) = st_code s"
| "code_of _ = 0"

text \<open>
  Every constructor of a status error makes an error that its own predicate recognises and
  no other, with the code its reason documents; and a response of a server whose code is not
  understood further is recognised as unexpected exactly when it is marked so.
\<close>

lemma constructors_recognised:
  "(verdict (new_not_found k n), code_of (new_not_found k n)) = (only 0, 404) \<and>
   (verdict (new_already_exists k n), code_of (new_already_exists k n)) = (only 1, 409) \<and>
   (verdict (new_conflict k n t), code_of (new_conflict k n t)) = (only 2, 409) \<and>
   (verdict (new_invalid k n es), code_of (new_invalid k n es)) = (only 3, 422) \<and>
   (verdict (new_method_not_supported k n), code_of (new_method_not_supported k n)) = (only 4, 405) \<and>
   (verdict (new_bad_request t), code_of (new_bad_request t)) = (only 5, 400) \<and>
   (verdict (new_unauthorized t), code_of (new_unauthorized t)) = (only 6, 401) \<and>
   (verdict (new_forbidden k n t), code_of (new_forbidden k n t)) = (only 7, 403) \<and>
   (verdict (new_server_timeout k n i), code_of (new_server_timeout k n i)) = (only 8, 500) \<and>
   (verdict (new_internal_error t), code_of (new_internal_error t)) = (only 9, 500) \<and>
   (verdict (new_timeout_error t i), code_of (new_timeout_error t i)) = (only 9, 504) \<and>
   is_unexpected_server_error (new_generic_server_response c v k n t i u) = u"
  by (simp add: verdict_def only_def upt_rec is_defs reason_defs failure_def new_not_found_def new_already_exists_def
      new_conflict_def new_invalid_def new_method_not_supported_def new_bad_request_def new_unauthorized_def
      new_forbidden_def new_server_timeout_def new_internal_error_def new_timeout_error_def
      new_generic_server_response_def split: prod.splits)

text \<open>
  A reason does not determine the code, although the type of reasons promises it: the code
  504 of a server becomes the reason of a server time-out, whose own constructor has the code
  500, and the code 429 the reason whose own constructor has the code 504. Of all codes
  exactly these two suggest to the client to wait, with the delay that was given.
\<close>

lemma generic_response_reasons:
  "reason_for_error (new_generic_server_response 504 v k n t i u) = reason_for_error (new_server_timeout k' o' i') \<and>
   code_of (new_server_timeout k' o' i') = 500 \<and>
   reason_for_error (new_generic_server_response 429 v k n t i u) = reason_for_error (new_timeout_error t' i') \<and>
   code_of (new_timeout_error t' i') = 504 \<and>
   code_of (new_generic_server_response c v k n t i u) = c \<and>
   suggests_client_delay (new_generic_server_response c v k n t i u) = (if c = 504 \<or> c = 429 then (i, True) else (0, False))"
  by (simp add: new_generic_server_response_def generic_reason_def failure_def reason_defs new_server_timeout_def
      new_timeout_error_def split: prod.splits)

text \<open>
  What is sent for an error: an error without a status becomes an internal error with the
  code 500 whose message and cause hold its text; an error with a status is sent with its own
  code. The status of an error is completed so that a success or a failure never has the
  code 0, and completing it again changes nothing.
\<close>

lemma sent_errors:
  "(write_rest_error (Status_Err s) = Some (st_code s, s)) \<and>
   (write_rest_error (Field_Err v) = map_option (\<lambda>st. (500, st)) (err_to_api_status (new_internal_error (validation_error_text v)))) \<and>
   (st_status (complete_status s) = status_success \<or> st_status (complete_status s) = status_failure \<longrightarrow>
      st_code (complete_status s) \<noteq> 0) \<and>
   complete_status (complete_status s) = complete_status s"
  by (auto simp: write_rest_error_def new_internal_error_def failure_def complete_status_def Let_def status_success_def
      status_failure_def)

lemma sent_errors_witness:
  "st_code (complete_status \<lparr>st_kind = [], st_api_version = [], st_status = [], st_message = [], st_reason = [],
     st_details = None, st_code = 0\<rparr>) \<noteq> 0"
  by (rule sent_errors [THEN conjunct2, THEN conjunct2, THEN conjunct1, rule_format])
    (simp add: complete_status_def status_failure_def status_success_def)

end
