(* ===== verification/CentralStore.thy ===== *)
theory CentralStore
  imports SharedUtils Contracts
begin

text \<open>
  What the central server keeps: \<open>pkg/central/db/sessionstoken.go\<close> (the sessions of URL
  suggestions, in memory, with a lifetime) and \<open>pkg/central/db/apicredentials.go\<close> (the
  password of an export user). Random bytes, the clock and the key derivation are arguments.
\<close>

section \<open>Session tokens\<close>

record token_data =
  td_id :: string
  td_created :: time
  td_url :: string

text \<open>The store, with the two gauges that are reported.\<close>

record token_store =
  tk_sessions :: "(string, token_data) gomap"
  tk_active :: int
  tk_total :: int

definition empty_tokens :: token_store where
  "empty_tokens = \<lparr>tk_sessions = [], tk_active = 0, tk_total = 0\<rparr>"

definition token_timeout :: time where
  "token_timeout = 30 * 60 * 1000000000"

definition token_get :: "string \<Rightarrow> token_store \<Rightarrow> token_data option" where
  "token_get i s = map_of (tk_sessions s) i"

definition expired_tokens :: "time \<Rightarrow> token_store \<Rightarrow> string list" where
  "expired_tokens th s = map td_id (filter (\<lambda>td. td_created td < th) (map snd (tk_sessions s)))"

definition drop_before :: "time \<Rightarrow> token_store \<Rightarrow> token_store" where
  "drop_before th s =
     (let expired = expired_tokens th s in
      if expired = [] then s
      else (let m = fold AList.delete expired (tk_sessions s)
            in s\<lparr>tk_sessions := m, tk_active := int (length m), tk_total := int (length m)\<rparr>))"

definition token_expire :: "time \<Rightarrow> token_store \<Rightarrow> token_store" where
  "token_expire now s = drop_before (now - token_timeout) s"

definition token_reset :: "time \<Rightarrow> token_data list \<Rightarrow> token_store \<Rightarrow> token_store" where
  "token_reset now tds s =
     token_expire now (s\<lparr>tk_sessions := fold (\<lambda>td. AList.update (td_id td) td) tds []\<rparr>)"

definition token_put :: "string \<Rightarrow> time \<Rightarrow> string \<Rightarrow> token_store \<Rightarrow> token_store" where
  "token_put i now url s =
     s\<lparr>tk_sessions := AList.update i \<lparr>td_id = i, td_created = now, td_url = url\<rparr> (tk_sessions s)\<rparr>"

text \<open>\<open>New\<close> panics without random bytes.\<close>

definition token_new :: "string option \<Rightarrow> time \<Rightarrow> string \<Rightarrow> token_store \<Rightarrow> (string \<times> token_store) option" where
  "token_new random now url s =
     (case random of
        None \<Rightarrow> None
      | Some bytes \<Rightarrow>
          (let i = hex_encode bytes; s' = token_put i now url s
           in Some (i, s'\<lparr>tk_active := tk_active s + 1, tk_total := tk_total s + 1\<rparr>)))"

section \<open>The token store as an expiring store\<close>

definition tokens_ok :: "token_store \<Rightarrow> bool" where
  "tokens_ok s \<longleftrightarrow> wf_map (tk_sessions s) \<and> (\<forall>i td. map_of (tk_sessions s) i = Some td \<longrightarrow> td_id td = i)"

definition token_lookup :: "token_store \<Rightarrow> string \<Rightarrow> (time \<times> string) option" where
  "token_lookup s i = map_option (\<lambda>td. (td_created td, td_url td)) (token_get i s)"

definition token_delete :: "string \<Rightarrow> token_store \<Rightarrow> token_store" where
  "token_delete i s = s\<lparr>tk_sessions := AList.delete i (tk_sessions s)\<rparr>"

lemma expired_tokens_set:
  "tokens_ok s \<Longrightarrow> i \<in> set (expired_tokens th s) \<longleftrightarrow> (\<exists>td. token_get i s = Some td \<and> td_created td < th)"
  by (force simp: expired_tokens_def token_get_def tokens_ok_def map_of_wf)

lemma map_of_fold_delete:
  "map_of (fold AList.delete is m) i = (if i \<in> set is then None else map_of m i)"
  by (induction "is" arbitrary: m) auto

lemma wf_fold_delete: "wf_map m \<Longrightarrow> wf_map (fold AList.delete is m)"
  by (induction "is" arbitrary: m) auto

lemma drop_before_sessions:
  "tk_sessions (drop_before th s) = fold AList.delete (expired_tokens th s) (tk_sessions s)"
  by (simp add: drop_before_def Let_def)

interpretation session_tokens: expiring_store token_lookup "\<lambda>i (t, u). token_put i t u" token_delete tokens_ok fst drop_before
proof
  fix s :: token_store and th k k'
  assume ok: "tokens_ok s"
  show "token_lookup ((case v of (t, u) \<Rightarrow> token_put k t u) s) k' = (if k' = k then Some v else token_lookup s k')"
    for v :: "time \<times> string"
    by (cases v) (simp add: token_lookup_def token_put_def token_get_def)
  show "token_lookup (token_delete k s) k' = (if k' = k then None else token_lookup s k')"
    by (simp add: token_lookup_def token_delete_def token_get_def)
  show "tokens_ok ((case v of (t, u) \<Rightarrow> token_put k t u) s)" for v :: "time \<times> string"
    using ok by (cases v) (simp add: tokens_ok_def token_put_def)
  show "tokens_ok (token_delete k s)"
    using ok by (simp add: tokens_ok_def token_delete_def)
  show "token_lookup (drop_before th s) k =
      (case token_lookup s k of None \<Rightarrow> None | Some v \<Rightarrow> if fst v < th then None else Some v)"
    using expired_tokens_set [OF ok, of k th]
    by (auto simp: token_lookup_def token_get_def drop_before_sessions map_of_fold_delete split: option.splits)
  show "tokens_ok (drop_before th s)"
    using ok by (simp add: tokens_ok_def drop_before_sessions map_of_fold_delete wf_fold_delete)
qed

lemma token_get_drop: "token_get t (drop_before th s) = Some td \<Longrightarrow> token_get t s = Some td"
  by (simp add: token_get_def drop_before_sessions map_of_fold_delete split: if_splits)

lemma fold_sessions:
  "map_of (fold (\<lambda>td. AList.update (td_id td) td) tds m) t = Some td \<Longrightarrow> td \<in> set tds \<or> map_of m t = Some td"
  by (induction tds arbitrary: m) (fastforce simp: update_conv' split: if_splits)+

lemma token_get_reset: "token_get t (token_reset now tds s) = Some td \<Longrightarrow> td \<in> set tds"
  using fold_sessions [of tds "[]" t td]
  by (auto simp: token_reset_def token_expire_def token_get_def dest!: token_get_drop [unfolded token_get_def])

text \<open>What happens to the store: new sessions with their random bytes, and expiry runs.\<close>

datatype token_event = New_Token string time string | Expire_At time

fun token_step :: "token_store \<Rightarrow> token_event \<Rightarrow> token_store" where
  "token_step s (New_Token bytes now url) =
     (case token_new (Some bytes) now url s of Some (_, s') \<Rightarrow> s' | None \<Rightarrow> s)"
| "token_step s (Expire_At now) = token_expire now s"

lemma token_lookup_gauges [simp]:
  "token_lookup (s\<lparr>tk_active := a, tk_total := b\<rparr>) = token_lookup s"
  "tokens_ok (s\<lparr>tk_active := a, tk_total := b\<rparr>) = tokens_ok s"
  by (auto simp: token_lookup_def token_get_def tokens_ok_def)

lemma token_step_lookup:
  assumes "tokens_ok s"
  shows "token_lookup (token_step s e) i =
    (case e of
       New_Token bytes now url \<Rightarrow> if i = hex_encode bytes then Some (now, url) else token_lookup s i
     | Expire_At now \<Rightarrow>
         (case token_lookup s i of
            None \<Rightarrow> None
          | Some v \<Rightarrow> if fst v < now - token_timeout then None else Some v))"
  using session_tokens.lookup_insert [OF assms] session_tokens.lookup_expire [OF assms]
  by (cases e) (auto simp: token_new_def token_expire_def Let_def)

interpretation token_run: guarded_machine token_step tokens_ok
proof
  fix s e
  assume "tokens_ok s"
  then show "tokens_ok (token_step s e)"
    using session_tokens.inv_insert [of s] session_tokens.inv_expire [of s]
    by (cases e) (auto simp: token_new_def token_expire_def Let_def split: option.splits)
qed

lemma tokens_ok_empty [simp]: "tokens_ok empty_tokens"
  by (simp add: tokens_ok_def empty_tokens_def)

section \<open>API credentials\<close>

record api_credentials =
  ac_username :: string
  ac_password_hash :: "string option"
  ac_salt :: "string option"
  ac_enabled :: bool

definition password_salt_len :: nat where "password_salt_len = 16"

text \<open>\<open>kdf password salt\<close> is \<open>pbkdf2.Key\<close> with 4096 rounds of SHA-1 and 32 bytes.\<close>

definition is_valid_password :: "(string \<Rightarrow> string \<Rightarrow> string) \<Rightarrow> string \<Rightarrow> api_credentials \<Rightarrow> bool \<times> string option" where
  "is_valid_password kdf password a =
     (if \<not> ac_enabled a then (False, None)
      else (case ac_password_hash a of
              None \<Rightarrow> (False, Some ''APICrendentials.PasswordHash is nil'')
            | Some h \<Rightarrow>
                (case ac_salt a of
                   None \<Rightarrow> (False, Some ''APICrendentials.Salt is nil'')
                 | Some salt \<Rightarrow>
                     if length salt \<noteq> password_salt_len then (False, Some ''APICrendentials.Salt has wrong length'')
                     else (h = kdf password salt, None))))"

definition set_password ::
  "(string \<Rightarrow> string \<Rightarrow> string) \<Rightarrow> string + string \<Rightarrow> string \<Rightarrow> api_credentials \<Rightarrow> api_credentials \<times> string option" where
  "set_password kdf random password a =
     (case random of
        Inl e \<Rightarrow> (a, Some e)
      | Inr salt \<Rightarrow> (a\<lparr>ac_salt := Some salt, ac_password_hash := Some (kdf password salt)\<rparr>, None))"

lemma password_set_is_valid:
  "ac_enabled a \<Longrightarrow> length salt = password_salt_len \<Longrightarrow>
   is_valid_password kdf q (fst (set_password kdf (Inr salt) p a)) = (kdf p salt = kdf q salt, None)"
  by (simp add: is_valid_password_def set_password_def)

section \<open>Properties\<close>

lemma token_survives:
  assumes "tokens_ok s" "token_lookup s i = Some (t, url)" "\<forall>b u' t'. New_Token b t' u' \<in> set es \<longrightarrow> hex_encode b \<noteq> i"
  shows "token_lookup (foldl token_step s es) i =
    (if \<exists>now. Expire_At now \<in> set es \<and> t + token_timeout < now then None else Some (t, url))"
  using assms(3)
proof (induction es rule: rev_induct)
  case (snoc e es)
  have "tokens_ok (foldl token_step s es)" by (rule token_run.run_good) (rule assms(1))
  from token_step_lookup [OF this, of e i] snoc show ?case
    by (cases e) (auto split: if_splits)
qed (simp add: assms(2))

text \<open>
  A session of a suggestion lives exactly as long as it should. Whatever sessions were
  opened and whatever expiry runs happened before and after it, its token finds the URL it was
  opened for until an expiry run later than 30 minutes after the opening, and nothing after
  that; only a new session that draws the same random bytes could replace it.
\<close>

lemma token_lifetime:
  assumes "token_new (Some bytes) t url (foldl token_step empty_tokens before) = Some (i, s)"
    and "\<forall>b u' t'. New_Token b t' u' \<in> set after \<longrightarrow> b \<noteq> bytes"
  shows "token_lookup (foldl token_step s after) i =
    (if \<exists>now. Expire_At now \<in> set after \<and> t + token_timeout < now then None else Some (t, url))"
proof -
  let ?s = "foldl token_step empty_tokens before"
  have ok: "tokens_ok ?s" by (rule token_run.run_good) simp
  have s: "s = token_step ?s (New_Token bytes t url)" and i: "i = hex_encode bytes"
    using assms(1) by (auto simp: token_new_def Let_def)
  have "tokens_ok s" unfolding s using ok by (rule token_run.step_good)
  moreover have "token_lookup s i = Some (t, url)"
    unfolding s token_step_lookup [OF ok] by (simp add: i)
  ultimately show ?thesis
    using assms(2) by (intro token_survives) (auto simp: i hex_encode_inject)
qed

lemma token_lifetime_witness:
  "let s = token_step empty_tokens (New_Token ''ab'' 0 ''http://example.com'') in
   token_lookup (foldl token_step s [Expire_At token_timeout, New_Token ''cd'' 5 ''x'']) (hex_encode ''ab'') = Some (0, ''http://example.com'') \<and>
   token_lookup (foldl token_step s [Expire_At (token_timeout + 1)]) (hex_encode ''ab'') = None"
proof -
  let ?s = "token_step empty_tokens (New_Token ''ab'' 0 ''http://example.com'')"
  have n: "token_new (Some ''ab'') 0 ''http://example.com'' (foldl token_step empty_tokens []) = Some (hex_encode ''ab'', ?s)"
    by (simp add: token_new_def Let_def)
  show ?thesis
    using token_lifetime [OF n, of "[Expire_At token_timeout, New_Token ''cd'' 5 ''x'']"]
      token_lifetime [OF n, of "[Expire_At (token_timeout + 1)]"]
    by (simp add: Let_def)
qed

end
