(* ===== verification/GoUrl.thy ===== *)
theory GoUrl
  imports UrlValidator
begin

text \<open>
  \<open>net/url\<close> of Go 1.5 as far as the code uses it: whether a text parses as an absolute or
  relative URL, and its scheme and host. User, path, query and fragment are checked for
  the escapes whose errors make the parse fail.
\<close>

definition is_hex :: "char \<Rightarrow> bool" where
  "is_hex c \<longleftrightarrow> hex_val c \<noteq> None"

text \<open>\<open>unescape\<close>: every percent sign starts an escape of two hexadecimal digits.\<close>

fun unescape :: "string \<Rightarrow> string option" where
  "unescape [] = Some []"
| "unescape (c # s) =
     (if c = CHR ''%'' then
        (case s of
           a # b # t \<Rightarrow>
             (case (hex_val a, hex_val b) of
                (Some x, Some y) \<Rightarrow> map_option ((#) (char_of (16 * x + y))) (unescape t)
              | _ \<Rightarrow> None)
         | _ \<Rightarrow> None)
      else map_option ((#) c) (unescape s))"

text \<open>In a host an escape below \<open>%80\<close> is an error, except \<open>%25\<close>.\<close>

fun host_escapes_ok :: "string \<Rightarrow> bool" where
  "host_escapes_ok [] = True"
| "host_escapes_ok (c # s) =
     (if c = CHR ''%'' then
        (case s of
           a # b # t \<Rightarrow>
             (case hex_val a of
                Some x \<Rightarrow> (8 \<le> x \<or> (a = CHR ''2'' \<and> b = CHR ''5'')) \<and> host_escapes_ok t
              | None \<Rightarrow> False)
         | _ \<Rightarrow> False)
      else host_escapes_ok s)"

text \<open>\<open>split\<close>: the text before the first separator, and after it, with or without it.\<close>

definition split_at :: "char \<Rightarrow> string \<Rightarrow> string \<times> string" where
  "split_at c s = (takeWhile (\<lambda>x. x \<noteq> c) s, dropWhile (\<lambda>x. x \<noteq> c) s)"

definition letter :: "char \<Rightarrow> bool" where
  "letter c \<longleftrightarrow> c \<in> set ''abcdefghijklmnopqrstuvwxyzABCDEFGHIJKLMNOPQRSTUVWXYZ''"

text \<open>\<open>getscheme\<close>: \<open>None\<close> is the missing scheme before a colon.\<close>

fun scheme_from :: "nat \<Rightarrow> string \<Rightarrow> string \<Rightarrow> string \<Rightarrow> (string \<times> string) option" where
  "scheme_from i seen [] raw = Some ([], raw)"
| "scheme_from i seen (c # s) raw =
     (if letter c then scheme_from (Suc i) (seen @ [c]) s raw
      else if is_digit c \<or> c \<in> {CHR ''+'', CHR ''-'', CHR ''.''}
        then (if i = 0 then Some ([], raw) else scheme_from (Suc i) (seen @ [c]) s raw)
      else if c = CHR '':'' then (if i = 0 then None else Some (seen, s))
      else Some ([], raw))"

definition valid_optional_port :: "string \<Rightarrow> bool" where
  "valid_optional_port p \<longleftrightarrow> p = [] \<or> (hd p = CHR '':'' \<and> list_all is_digit (tl p))"

definition parse_host :: "string \<Rightarrow> string option" where
  "parse_host host =
     (let literal =
        (if has_prefix host ''['' then
           (case last_index (CHR '']'') (tl host) of
              None \<Rightarrow> None
            | Some i \<Rightarrow>
                if \<not> valid_optional_port (drop (i + 2) host) then None
                else (let inner = take i (tl host) in
                      if contains inner ''%25''
                      then Some (takeWhile (\<lambda>c. c \<noteq> CHR ''%'') inner) else Some inner))
         else Some host)
      in case literal of
           None \<Rightarrow> None
         | Some l \<Rightarrow>
             if CHR ''%'' \<in> set l then None
             else if host_escapes_ok host then unescape host else None)"

definition parse_authority :: "string \<Rightarrow> string option" where
  "parse_authority a =
     (case last_index (CHR ''@'') a of
        None \<Rightarrow> parse_host a
      | Some i \<Rightarrow>
          (case parse_host (drop (Suc i) a) of
             None \<Rightarrow> None
           | Some h \<Rightarrow> (case unescape (take i a) of None \<Rightarrow> None | Some _ \<Rightarrow> Some h)))"

definition url_parse :: "string \<Rightarrow> url option" where
  "url_parse raw0 =
     (let (raw, frag) = split_at (CHR ''#'') raw0 in
      if raw = ''*'' then (if unescape (tl frag) = None then None else Some \<lparr>u_scheme = [], u_host = []\<rparr>)
      else
        (case scheme_from 0 [] raw raw of
           None \<Rightarrow> None
         | Some (sch0, rest0) \<Rightarrow>
             (let sch = to_lower sch0; (rest, _) = split_at (CHR ''?'') rest0 in
              if \<not> has_prefix rest ''/'' \<and> sch \<noteq> [] then
                (if unescape (tl frag) = None then None else Some \<lparr>u_scheme = sch, u_host = []\<rparr>)
              else
                (let auth = ((sch \<noteq> [] \<or> \<not> has_prefix rest ''///'') \<and> has_prefix rest ''//'');
                     (a, path) = (if auth then split_at (CHR ''/'') (drop 2 rest) else ([], rest))
                 in (case (if auth then parse_authority a else Some []) of
                       None \<Rightarrow> None
                     | Some h \<Rightarrow>
                         if unescape path = None \<or> unescape (tl frag) = None then None
                         else Some \<lparr>u_scheme = sch, u_host = h\<rparr>))))
     )"

end
