(* ===== verification/Measure.thy ===== *)
theory Measure
  imports GoUrl
begin

text \<open>
  \<open>pkg/measure\<close>: the measurements made of a suggested URL. What the network answers is an
  argument: of a name lookup its addresses, an error or nothing before the time-out; of an
  HTTP request the responses it went through and how it ended. \<open>lg.Fatal\<close> is \<open>Crashed\<close>. No
  measurement sets a time-out of its own, so the default of 45 seconds applies.
\<close>

section \<open>Data\<close>

datatype sample_type = ST_None | ST_HTTPHeader | ST_BrowserExtension | ST_NewClientToken | ST_DNSQuery

fun sample_type_text :: "sample_type \<Rightarrow> string" where
  "sample_type_text ST_None = ''None''"
| "sample_type_text ST_HTTPHeader = ''HTTPHeader''"
| "sample_type_text ST_BrowserExtension = ''BrowserExtension''"
| "sample_type_text ST_NewClientToken = ''NewClientToken''"
| "sample_type_text ST_DNSQuery = ''DNSQuery''"

datatype sample_origin = SO_None | SO_Client | SO_Central

fun sample_origin_text :: "sample_origin \<Rightarrow> string" where
  "sample_origin_text SO_None = ''None''"
| "sample_origin_text SO_Client = ''Client''"
| "sample_origin_text SO_Central = ''Central''"

datatype measurer =
    DNS_Query string string
  | HTTP_Header string

record redirect =
  rd_status :: int
  rd_header :: "(string, string) gomap"
  rd_url :: string

record http_result =
  hr_url :: string
  hr_header :: "(string, string) gomap"
  hr_redirects :: "redirect list"
  hr_error :: string
  hr_status :: int

record dns_result =
  dr_addrs :: "string list"
  dr_error :: string
  dr_hostname :: string
  dr_resolver :: string

datatype measurement = DNS_Measured dns_result | HTTP_Measured http_result

datatype measure_error = Empty_Url | Bad_Url | Host_Not_Allowed string

section \<open>Choosing the measurements\<close>

text \<open>A host with a port that does not split is measured under an empty name.\<close>

definition dns_host :: "string \<Rightarrow> string" where
  "dns_host h =
     (if contains h '':'' then (case split_host_port h of Inr (a, _) \<Rightarrow> a | Inl _ \<Rightarrow> []) else h)"

definition default_measurements :: "string \<Rightarrow> measure_error + measurer list" where
  "default_measurements url0 =
     (let url = trim_space url0 in
      if url = [] then Inl Empty_Url
      else (case url_parse url of
              None \<Rightarrow> Inl Bad_Url
            | Some u \<Rightarrow>
                if \<not> accepted_url u then Inl (Host_Not_Allowed url)
                else Inr [DNS_Query (dns_host (u_host u)) [], DNS_Query (dns_host (u_host u)) ''8.8.8.8:53'', HTTP_Header url]))"

section \<open>Measuring\<close>

text \<open>A question to a resolver of its own is asked with a final dot.\<close>

definition lookup_name :: "string \<Rightarrow> string \<Rightarrow> string" where
  "lookup_name addr nameserver =
     (if nameserver = [] then addr
      else if addr \<noteq> [] \<and> last addr = CHR ''.'' then addr else addr @ ''.'')"

definition default_timeout_text :: string where "default_timeout_text = ''timeout: 45s''"

definition dns_measure :: "(string \<Rightarrow> string \<Rightarrow> (string + string list) option) \<Rightarrow> string \<Rightarrow> string \<Rightarrow> dns_result" where
  "dns_measure answer hostname resolver =
     (let qr = \<lparr>dr_addrs = [], dr_error = [], dr_hostname = hostname, dr_resolver = resolver\<rparr>
      in case answer (lookup_name hostname resolver) resolver of
           None \<Rightarrow> qr\<lparr>dr_error := default_timeout_text\<rparr>
         | Some (Inl e) \<Rightarrow> qr\<lparr>dr_error := e\<rparr>
         | Some (Inr addrs) \<Rightarrow> qr\<lparr>dr_addrs := addrs\<rparr>)"

text \<open>One response with its request URL; a header is given with the first value of each name.\<close>

type_synonym exchange = "int \<times> string \<times> (string, string) gomap"

definition record_redirect :: "exchange \<Rightarrow> redirect list \<Rightarrow> redirect list" where
  "record_redirect x rs =
     (let (st, url, hdr) = x in
      if st \<in> {301, 302, 303, 307} then rs @ [\<lparr>rd_status = st, rd_header = hdr, rd_url = url\<rparr>] else rs)"

text \<open>\<open>answer url\<close> is \<open>None\<close> for the time-out, an error, or the responses, the last one final.\<close>

definition http_measure :: "(string \<Rightarrow> (string + exchange list) option) \<Rightarrow> string \<Rightarrow> http_result" where
  "http_measure answer url =
     (let hr = \<lparr>hr_url = url, hr_header = [], hr_redirects = [], hr_error = [], hr_status = 0\<rparr>
      in case answer url of
           None \<Rightarrow> hr\<lparr>hr_error := default_timeout_text\<rparr>
         | Some (Inl e) \<Rightarrow> hr\<lparr>hr_error := e\<rparr>
         | Some (Inr xs) \<Rightarrow>
             (let (st, _, hdr) = last xs
              in hr\<lparr>hr_header := hdr, hr_status := st, hr_redirects := fold record_redirect xs []\<rparr>))"

definition http_result_host :: "http_result \<Rightarrow> string outcome" where
  "http_result_host h =
     (case url_parse (hr_url h) of
        None \<Rightarrow> Crashed
      | Some u \<Rightarrow>
          if contains (u_host u) '':''
          then (case split_host_port (u_host u) of Inr (a, _) \<Rightarrow> Returned a | Inl _ \<Rightarrow> Crashed)
          else Returned (u_host u))"

fun measurement_host :: "measurement \<Rightarrow> string outcome" where
  "measurement_host (DNS_Measured d) = Returned (dr_hostname d)"
| "measurement_host (HTTP_Measured h) = http_result_host h"

fun measurement_type :: "measurement \<Rightarrow> sample_type" where
  "measurement_type (DNS_Measured _) = ST_DNSQuery"
| "measurement_type (HTTP_Measured _) = ST_HTTPHeader"

record network =
  nw_lookup :: "string \<Rightarrow> string \<Rightarrow> (string + string list) option"
  nw_get :: "string \<Rightarrow> (string + exchange list) option"

fun measure :: "network \<Rightarrow> measurer \<Rightarrow> measurement" where
  "measure nw (DNS_Query h r) = DNS_Measured (dns_measure (nw_lookup nw) h r)"
| "measure nw (HTTP_Header u) = HTTP_Measured (http_measure (nw_get nw) u)"

section \<open>Properties\<close>

lemma dns_measure_hostname [simp]: "dr_hostname (dns_measure answer h r) = h"
  by (simp add: dns_measure_def Let_def split: option.splits sum.splits)

lemma http_measure_url [simp]: "hr_url (http_measure answer url) = url"
  by (simp add: http_measure_def Let_def split: option.splits sum.splits prod.splits)

text \<open>
  The measurements of a URL are made on the URL itself and on its host; but a URL whose
  host is a bracketed address without a port is accepted for measuring and makes the server
  that stores the result end: the host of the HTTP measurement cannot be computed, whatever
  the network answered. For every accepted URL whose host has no colon all measurements have
  the host of the URL.
\<close>

lemma measured_hosts:
  "(url_parse (trim_space url) = Some u \<longrightarrow> accepted_url u \<longrightarrow> \<not> contains (u_host u) '':'' \<longrightarrow>
      (\<exists>ms. default_measurements url = Inr ms \<and>
         list_all (\<lambda>m. measurement_host (measure nw m) = Returned (u_host u)) ms)) \<and>
   (\<exists>ms. default_measurements ''http://[2001:db8::1]/'' = Inr ms \<and>
      list_ex (\<lambda>m. measurement_host (measure nw m) = Crashed) ms)"
proof
  show "url_parse (trim_space url) = Some u \<longrightarrow> accepted_url u \<longrightarrow> \<not> contains (u_host u) '':'' \<longrightarrow>
      (\<exists>ms. default_measurements url = Inr ms \<and>
         list_all (\<lambda>m. measurement_host (measure nw m) = Returned (u_host u)) ms)"
  proof (intro impI)
    assume u: "url_parse (trim_space url) = Some u" "accepted_url u" "\<not> contains (u_host u) '':''"
    have "trim_space url \<noteq> []"
    proof
      assume "trim_space url = []"
      moreover have "url_parse [] = Some \<lparr>u_scheme = [], u_host = []\<rparr>" "\<not> accepted_url \<lparr>u_scheme = [], u_host = []\<rparr>"
        by code_simp+
      ultimately show False using u(1,2) by simp
    qed
    with u show "\<exists>ms. default_measurements url = Inr ms \<and>
         list_all (\<lambda>m. measurement_host (measure nw m) = Returned (u_host u)) ms"
      by (simp add: default_measurements_def dns_host_def http_result_host_def)
  qed
  have p: "url_parse ''http://[2001:db8::1]/'' = Some \<lparr>u_scheme = ''http'', u_host = ''[2001:db8::1]''\<rparr>"
    by code_simp
  have t: "trim_space ''http://[2001:db8::1]/'' = ''http://[2001:db8::1]/''" by code_simp
  have a: "accepted_url \<lparr>u_scheme = ''http'', u_host = ''[2001:db8::1]''\<rparr>" by code_simp
  have c: "contains ''[2001:db8::1]'' '':''" by code_simp
  have s: "split_host_port ''[2001:db8::1]'' = Inl MissingPort" by code_simp
  show "\<exists>ms. default_measurements ''http://[2001:db8::1]/'' = Inr ms \<and>
      list_ex (\<lambda>m. measurement_host (measure nw m) = Crashed) ms"
    by (simp add: default_measurements_def t p a Let_def http_result_host_def c s)
qed

definition quiet_network :: network where
  "quiet_network = \<lparr>nw_lookup = (\<lambda>_ _. None), nw_get = (\<lambda>_. None)\<rparr>"

lemma measured_hosts_witness:
  "\<exists>ms. default_measurements ''https://example.com/a?b#c'' = Inr ms \<and>
     list_all (\<lambda>m. measurement_host (measure quiet_network m) = Returned ''example.com'') ms"
proof -
  have "url_parse (trim_space ''https://example.com/a?b#c'') = Some \<lparr>u_scheme = ''https'', u_host = ''example.com''\<rparr>"
    "accepted_url \<lparr>u_scheme = ''https'', u_host = ''example.com''\<rparr>" "\<not> contains ''example.com'' '':''"
    by code_simp+
  then show ?thesis
    using measured_hosts [THEN conjunct1, rule_format,
        of "''https://example.com/a?b#c''" "\<lparr>u_scheme = ''https'', u_host = ''example.com''\<rparr>" quiet_network] by simp
qed

end
