(* ===== verification/CentralApi.thy ===== *)
theory CentralApi
  imports CentralStore Measure GoJson ApiErrors
begin

text \<open>
  \<open>pkg/central/api.go\<close> and \<open>api-common.go\<close>: the handlers of the central server. The databases
  and lookups behind the interfaces of \<open>pkg/central/db\<close> are a record of functions, as the
  handlers see them: results or error texts. A request is what the REST package decoded, or
  the text of its error. A handler takes the state (session tokens, the samples that were
  stored, the measurements queued) to the next state and the response; \<open>Panicked\<close> is a panic,
  which the REST package answers with a code of 500. The queue of measurements holds 5000
  entries and then delays the reply that adds one; the delay is not modelled.
\<close>

section \<open>State and environment\<close>

record sample =
  sa_host :: string
  sa_country :: string
  sa_asn :: int
  sa_type :: string
  sa_origin :: string
  sa_token :: string
  sa_data :: string
  sa_extra :: string

record simple_sample =
  ss_country :: string
  ss_asn :: int
  ss_type :: string
  ss_origin_id :: string
  ss_data :: string

record central_state =
  cs_tokens :: token_store
  cs_samples :: "sample list"
  cs_simple :: "simple_sample list"
  cs_queue :: "(string \<times> measurer list) list"

record upgrade_meta =
  um_artifact :: string
  um_version :: string
  um_created :: time
  um_sha256 :: string
  um_signature :: string

record central_env =
  en_asn :: "ip \<Rightarrow> string + int option"
  en_country :: "ip \<Rightarrow> string"
  en_city :: "ip \<Rightarrow> int"
  en_valid_countries :: "string list"
  en_blocked :: "string \<Rightarrow> int \<Rightarrow> string + string list"
  en_url_allowed :: "url \<Rightarrow> string \<Rightarrow> string + bool"
  en_insert :: "sample \<Rightarrow> string option"
  en_insert_simple :: "simple_sample \<Rightarrow> string option"
  en_related :: "(string, string list) gomap"
  en_upgrade :: "string \<Rightarrow> string + upgrade_meta option"
  en_now :: time
  en_random :: "string option"

datatype response =
    Api_Error string int
  | Hosts_Reply "string list"
  | Token_Reply bool string string
  | Sample_Reply bool
  | Upgrade_Reply upgrade_meta
  | Rest_Error err
  | Panicked

definition valid_country_code :: "string list \<Rightarrow> string \<Rightarrow> bool" where
  "valid_country_code codes cc = (if cc = ''__'' then False else cc \<in> set codes)"

section \<open>Related hosts\<close>

definition www :: string where "www = ''www.''"

text \<open>\<open>update\<close>: the table is keyed by the host without \<open>www.\<close>; \<open>related\<close> is in the order visited.\<close>

definition related_update :: "(string, string list) gomap \<Rightarrow> (string, string list) gomap" where
  "related_update related = fold (\<lambda>(k, v). AList.update (trim_prefix k www) v) related []"

definition add_item :: "string \<Rightarrow> (string, bool) gomap \<Rightarrow> (string, bool) gomap" where
  "add_item h items = AList.update h True items"

definition fill_host :: "(string, string list) gomap \<Rightarrow> string \<Rightarrow> (string, bool) gomap \<Rightarrow> (string, bool) gomap" where
  "fill_host related h items =
     (let tr = trim_prefix h www;
          items1 = add_item tr items
      in case map_of related tr of
           None \<Rightarrow> items1
         | Some add \<Rightarrow>
             fold (\<lambda>v its. let t = trim_prefix v www in if t \<noteq> [] then add_item t its else its) add items1)"

definition related_fill ::
  "((string, bool) gomap \<Rightarrow> (string, bool) gomap) \<Rightarrow> (string, string list) gomap \<Rightarrow> string list \<Rightarrow> string list" where
  "related_fill ord related hosts = map fst (ord (fold (fill_host related) hosts []))"

section \<open>Blocked hosts\<close>

record hosts_request =
  hq_client_addr :: "ip option"
  hq_update_id :: string
  hq_client_version :: string

definition client_version_json :: "string \<Rightarrow> string" where
  "client_version_json v = CHR ''{'' # json_string ''version'' @ '':'' @ json_string v @ ''}''"

definition asn_of :: "int option \<Rightarrow> int" where
  "asn_of r = (case r of None \<Rightarrow> 0 | Some a \<Rightarrow> a)"

definition store_simple :: "central_env \<Rightarrow> simple_sample \<Rightarrow> central_state \<Rightarrow> central_state" where
  "store_simple en ss st = (if en_insert_simple en ss = None then st\<lparr>cs_simple := cs_simple st @ [ss]\<rparr> else st)"

definition get_hosts ::
  "((string, bool) gomap \<Rightarrow> (string, bool) gomap) \<Rightarrow> central_env \<Rightarrow> string + hosts_request \<Rightarrow> central_state \<Rightarrow>
   response \<times> central_state" where
  "get_hosts ord en rq st =
     (case rq of
        Inl e \<Rightarrow> (Api_Error (safe_clean e) 500, st)
      | Inr q \<Rightarrow>
          (case hq_client_addr q of
             None \<Rightarrow> (Api_Error ''bad ClientAddr'' 400, st)
           | Some a \<Rightarrow>
               (case en_asn en a of
                  Inl e \<Rightarrow> (Api_Error (safe_clean e) 500, st)
                | Inr r \<Rightarrow>
                    (let asn = asn_of r; country = en_country en a in
                     case en_blocked en country asn of
                       Inl e \<Rightarrow> (Api_Error e 500, st)
                     | Inr hosts \<Rightarrow>
                         (Hosts_Reply (related_fill ord (en_related en) hosts),
                          store_simple en
                            \<lparr>ss_country = country, ss_asn = asn, ss_type = ''ClientBlocklistUpdate'',
                             ss_origin_id = hq_update_id q, ss_data = client_version_json (hq_client_version q)\<rparr> st)))))"

section \<open>Suggestions\<close>

record token_request =
  tq_url :: string
  tq_client_addr :: "ip option"
  tq_country :: string

definition new_token_json :: "string \<Rightarrow> string \<Rightarrow> string" where
  "new_token_json url cc =
     CHR ''{'' # json_string ''URL'' @ '':'' @ json_string url @ '','' @ json_string ''CountryCode'' @ '':'' @ json_string cc @ ''}''"

definition extra_json :: "int \<Rightarrow> string" where
  "extra_json city = CHR ''{'' # json_string ''CityGeoNameID'' @ '':'' @ itoa city @ ''}''"

definition not_valid_url :: "string \<Rightarrow> string" where
  "not_valid_url url = url @ '' is not a valid URL''"

text \<open>From the token on: the new session, its sample, the measurements, the reply.\<close>

definition open_session ::
  "central_env \<Rightarrow> token_request \<Rightarrow> string \<Rightarrow> url \<Rightarrow> ip \<Rightarrow> int \<Rightarrow> central_state \<Rightarrow> response \<times> central_state" where
  "open_session en q url u a asn st =
     (case token_new (en_random en) (en_now en) url (cs_tokens st) of
        None \<Rightarrow> (Panicked, st)
      | Some (token, tokens) \<Rightarrow>
          (let st1 = st\<lparr>cs_tokens := tokens\<rparr>;
               sa = \<lparr>sa_host = u_host u, sa_country = en_country en a, sa_asn = asn, sa_type = ''NewClientToken'',
                     sa_origin = ''Central'', sa_token = token, sa_data = new_token_json url (tq_country q),
                     sa_extra = extra_json (en_city en a)\<rparr>
           in case en_insert en sa of
                Some e \<Rightarrow> (Api_Error e 500, st1)
              | None \<Rightarrow>
                  (let st2 = st1\<lparr>cs_samples := cs_samples st1 @ [sa]\<rparr>;
                       st3 = (case default_measurements (tq_url q) of
                                Inl _ \<Rightarrow> st2
                              | Inr ms \<Rightarrow> st2\<lparr>cs_queue := cs_queue st2 @ [(token, ms)]\<rparr>)
                   in (Token_Reply True url token, st3))))"

definition suggestion_token ::
  "central_env \<Rightarrow> string + token_request \<Rightarrow> central_state \<Rightarrow> response \<times> central_state" where
  "suggestion_token en rq st =
     (case rq of
        Inl e \<Rightarrow> (Api_Error (safe_clean e) 500, st)
      | Inr q \<Rightarrow>
          if \<not> valid_country_code (en_valid_countries en) (tq_country q)
          then (Api_Error (''invalid country code: '' @ tq_country q) 400, st)
          else (case tq_client_addr q of
             None \<Rightarrow> (Api_Error ''bad ClientAddr'' 400, st)
           | Some a \<Rightarrow>
               (let url = trim_space (tq_url q) in
                if url = [] then (Api_Error ''no or empty URL'' 400, st)
                else (case url_parse url of
                   None \<Rightarrow> (Api_Error (not_valid_url url) 400, st)
                 | Some u \<Rightarrow>
                     if \<not> accepted_url u then (Api_Error (not_valid_url url) 400, st)
                     else (case en_asn en a of
                        Inl e \<Rightarrow> (Api_Error (safe_clean e) 500, st)
                      | Inr r \<Rightarrow>
                          (case en_url_allowed en u (en_country en a) of
                             Inl e \<Rightarrow> (Api_Error e 403, st)
                           | Inr False \<Rightarrow> (Token_Reply False (tq_url q) [], st)
                           | Inr True \<Rightarrow> open_session en q url u a (asn_of r) st))))))"

section \<open>Samples\<close>

text \<open>The body of a sample is an embedded pointer: a request without any of its fields leaves it \<open>nil\<close>.\<close>

record sample_body =
  sb_token :: string
  sb_url :: string
  sb_type :: string
  sb_data :: string

record sample_request =
  sq_sample :: "sample_body option"
  sq_client_addr :: string

definition client_sample_types :: "string list" where
  "client_sample_types = [''HTTPHeader'', ''DNSQuery'']"

definition store_client_sample ::
  "central_env \<Rightarrow> sample_body \<Rightarrow> url \<Rightarrow> ip \<Rightarrow> int \<Rightarrow> central_state \<Rightarrow> response \<times> central_state" where
  "store_client_sample en b u a asn st =
     (let sa = \<lparr>sa_host = u_host u, sa_country = en_country en a, sa_asn = asn, sa_type = sb_type b,
                sa_origin = ''Client'', sa_token = sb_token b, sa_data = sb_data b, sa_extra = []\<rparr>
      in if en_insert en sa \<noteq> None then (Api_Error ''error 20150424-011948-CEST'' 500, st)
         else (Sample_Reply True, st\<lparr>cs_samples := cs_samples st @ [sa]\<rparr>))"

definition store_sample ::
  "central_env \<Rightarrow> string + sample_request \<Rightarrow> central_state \<Rightarrow> response \<times> central_state" where
  "store_sample en rq st =
     (case rq of
        Inl e \<Rightarrow> (Api_Error (safe_clean e) 500, st)
      | Inr q \<Rightarrow>
          (case sq_sample q of
             None \<Rightarrow> (Panicked, st)
           | Some b \<Rightarrow>
               if sb_type b \<notin> set client_sample_types then (Api_Error (''invalid sample type: '' @ sb_type b) 400, st)
               else (case token_get (sb_token b) (cs_tokens st) of
                  None \<Rightarrow> (Api_Error ''invalid token'' 400, st)
                | Some td \<Rightarrow>
                    (let url = trim_space (sb_url b) in
                     if td_url td \<noteq> url then (Api_Error ''invalid URL for token session'' 400, st)
                     else (case url_parse url of
                        None \<Rightarrow> (Api_Error (not_valid_url url) 400, st)
                      | Some u \<Rightarrow>
                          (case parse_ip (sq_client_addr q) of
                             None \<Rightarrow> (Api_Error ''bad ClientAddr'' 400, st)
                           | Some a \<Rightarrow>
                               (case en_asn en a of
                                  Inl e \<Rightarrow> (Api_Error (safe_clean e) 500, st)
                                | Inr r \<Rightarrow> store_client_sample en b u a (asn_of r) st)))))))"

section \<open>Upgrades\<close>

record upgrade_request =
  uq_artifact :: string
  uq_from_version :: string

text \<open>\<open>parse_version\<close> and \<open>older\<close> are \<open>NewVersion\<close> and \<open>LessThan\<close> of the version package, and
  \<open>same\<close> its \<open>Equal\<close>; \<open>version_error\<close> is the text of its parse error.\<close>

definition get_upgrade ::
  "(string \<Rightarrow> 'v option) \<Rightarrow> ('v \<Rightarrow> 'v \<Rightarrow> bool) \<Rightarrow> ('v \<Rightarrow> 'v \<Rightarrow> bool) \<Rightarrow> (string \<Rightarrow> string) \<Rightarrow>
   central_env \<Rightarrow> string + upgrade_request \<Rightarrow> response" where
  "get_upgrade parse_version older same version_error en rq =
     (case rq of
        Inl e \<Rightarrow> Api_Error e 500
      | Inr q \<Rightarrow>
          if uq_from_version q = [] then Api_Error ''fromversion required'' 500
          else (case parse_version (uq_from_version q) of
             None \<Rightarrow> Api_Error (''invalid fromVersion '' @ uq_from_version q) 500
           | Some v \<Rightarrow>
               if uq_artifact q = [] then Api_Error ''artifact required'' 500
               else (case en_upgrade en (uq_artifact q) of
                  Inl e \<Rightarrow> Api_Error e 500
                | Inr None \<Rightarrow> Rest_Error (new_not_found ''upgrade'' (uq_artifact q @ ''-'' @ uq_from_version q))
                | Inr (Some m) \<Rightarrow>
                    (case parse_version (um_version m) of
                       None \<Rightarrow> Api_Error (version_error (um_version m)) 500
                     | Some sv \<Rightarrow>
                         if older sv v \<or> same sv v
                         then Rest_Error (new_not_found ''upgrade'' (uq_artifact q @ ''-'' @ uq_from_version q))
                         else Upgrade_Reply m))))"

section \<open>Lemmas on the handlers\<close>

text \<open>What the handlers can tell apart of two client addresses.\<close>

definition same_place :: "central_env \<Rightarrow> ip \<Rightarrow> ip \<Rightarrow> bool" where
  "same_place en a b \<longleftrightarrow>
     (case (en_asn en a, en_asn en b) of
        (Inl e, Inl f) \<Rightarrow> safe_clean e = safe_clean f
      | (Inr x, Inr y) \<Rightarrow> asn_of x = asn_of y
      | _ \<Rightarrow> False) \<and>
     en_country en a = en_country en b \<and> en_city en a = en_city en b"

lemma open_session_place:
  "same_place en a b \<Longrightarrow> open_session en q url u a asn st = open_session en q url u b asn st"
  by (auto simp: open_session_def same_place_def Let_def split: option.split)

lemma open_session_addr:
  "open_session en (q\<lparr>tq_client_addr := x\<rparr>) url u a asn st = open_session en q url u a asn st"
  by (auto simp: open_session_def Let_def split: option.split)

text \<open>The hosts a blocked host stands for.\<close>

definition hosts_of :: "(string, string list) gomap \<Rightarrow> string \<Rightarrow> string set" where
  "hosts_of related h =
     insert (trim_prefix h www)
       (case map_of related (trim_prefix h www) of
          None \<Rightarrow> {}
        | Some vs \<Rightarrow> {t. t \<noteq> [] \<and> t \<in> (\<lambda>v. trim_prefix v www) ` set vs})"

lemma add_item_dom: "fst ` set (add_item h items) = insert h (fst ` set items)"
  by (simp add: add_item_def dom_update)

lemma fill_host_dom: "fst ` set (fill_host related h items) = hosts_of related h \<union> fst ` set items"
proof -
  have "fst ` set (fold (\<lambda>v its. let t = trim_prefix v www in if t \<noteq> [] then add_item t its else its) vs its) =
      {t. t \<noteq> [] \<and> t \<in> (\<lambda>v. trim_prefix v www) ` set vs} \<union> fst ` set its" for vs its
    by (induction vs arbitrary: its) (auto simp: Let_def add_item_dom)
  then show ?thesis
    by (auto simp: fill_host_def hosts_of_def Let_def add_item_dom split: option.split)
qed

lemma fill_host_wf: "wf_map items \<Longrightarrow> wf_map (fill_host related h items)"
proof -
  have "wf_map its \<Longrightarrow>
      wf_map (fold (\<lambda>v its. let t = trim_prefix v www in if t \<noteq> [] then add_item t its else its) vs its)" for vs its
    by (induction vs arbitrary: its) (auto simp: Let_def add_item_def)
  then show "wf_map items \<Longrightarrow> wf_map (fill_host related h items)"
    by (auto simp: fill_host_def Let_def add_item_def split: option.split)
qed

lemma fill_hosts:
  "wf_map items \<Longrightarrow> wf_map (fold (fill_host related) hs items)"
  "fst ` set (fold (fill_host related) hs items) = (\<Union>h \<in> set hs. hosts_of related h) \<union> fst ` set items"
  by (induction hs arbitrary: items) (auto simp: fill_host_wf fill_host_dom)

lemma related_fill_spec:
  assumes "\<And>m. range_order m (ord m)"
  shows "distinct (related_fill ord related hs)" "set (related_fill ord related hs) = (\<Union>h \<in> set hs. hosts_of related h)"
proof -
  let ?m = "fold (fill_host related) hs []"
  have "wf_map ?m" by (rule fill_hosts) simp
  from range_order_wf [OF assms this] show "distinct (related_fill ord related hs)"
    by (simp add: related_fill_def wf_map_def)
  show "set (related_fill ord related hs) = (\<Union>h \<in> set hs. hosts_of related h)"
    using range_order_set [OF assms, of ?m] fill_hosts(2) [of related hs "[]"] by (simp add: related_fill_def)
qed

section \<open>Properties\<close>

text \<open>
  C25. The address of a client leaves no trace. The reply of every handler that gets one, and all
  that is stored or queued, is the same for any two addresses that the lookups place in the
  same network, country and city (with the same scrubbed error text, when the lookup fails).
\<close>

theorem client_address_leaves_no_trace:
  assumes "same_place en a b"
  shows "get_hosts ord en (Inr (hq\<lparr>hq_client_addr := Some a\<rparr>)) st = get_hosts ord en (Inr (hq\<lparr>hq_client_addr := Some b\<rparr>)) st \<and>
    suggestion_token en (Inr (tq\<lparr>tq_client_addr := Some a\<rparr>)) st = suggestion_token en (Inr (tq\<lparr>tq_client_addr := Some b\<rparr>)) st \<and>
    (parse_ip s = Some a \<longrightarrow> parse_ip t = Some b \<longrightarrow>
      store_sample en (Inr (sq\<lparr>sq_client_addr := s\<rparr>)) st = store_sample en (Inr (sq\<lparr>sq_client_addr := t\<rparr>)) st)"
proof (intro conjI impI)
  have eq: "en_country en a = en_country en b" "en_city en a = en_city en b"
    using assms by (auto simp: same_place_def)
  show "get_hosts ord en (Inr (hq\<lparr>hq_client_addr := Some a\<rparr>)) st = get_hosts ord en (Inr (hq\<lparr>hq_client_addr := Some b\<rparr>)) st"
    using assms by (auto simp: get_hosts_def same_place_def Let_def split: sum.splits)
  show "suggestion_token en (Inr (tq\<lparr>tq_client_addr := Some a\<rparr>)) st = suggestion_token en (Inr (tq\<lparr>tq_client_addr := Some b\<rparr>)) st"
    using assms
    by (simp add: suggestion_token_def open_session_addr open_session_place [OF assms] eq Let_def split: option.split)
      (auto simp: same_place_def open_session_addr open_session_place [OF assms] split: sum.splits bool.splits)
  show "store_sample en (Inr (sq\<lparr>sq_client_addr := s\<rparr>)) st = store_sample en (Inr (sq\<lparr>sq_client_addr := t\<rparr>)) st"
    if "parse_ip s = Some a" "parse_ip t = Some b"
    using assms that
    by (auto simp: store_sample_def store_client_sample_def same_place_def Let_def split: option.split sum.splits)
qed

text \<open>
  A client is told of every blocked host of its network and country, of every host related
  to one and of nothing else, each once and without a leading \<open>www.\<close>; and the server notes the request.
\<close>

lemma get_hosts_reply:
  assumes "\<And>m. range_order m (ord m)" "hq_client_addr q = Some a" "en_asn en a = Inr r"
    and "en_blocked en (en_country en a) (asn_of r) = Inr hosts"
  shows "\<exists>hs st'. get_hosts ord en (Inr q) st = (Hosts_Reply hs, st') \<and> distinct hs \<and>
    set hs = (\<Union>h \<in> set hosts. hosts_of (en_related en) h) \<and>
    cs_simple st' = cs_simple st @
      (let ss = \<lparr>ss_country = en_country en a, ss_asn = asn_of r, ss_type = ''ClientBlocklistUpdate'',
                 ss_origin_id = hq_update_id q, ss_data = client_version_json (hq_client_version q)\<rparr>
       in if en_insert_simple en ss = None then [ss] else [])"
  using assms(2-) related_fill_spec [OF assms(1)]
  by (simp add: get_hosts_def store_simple_def Let_def)

text \<open>
  An upgrade that is offered is newer. When \<open>older\<close> and \<open>same\<close> compare any two versions, the
  handler answers with an upgrade only when its version parses and the version asked from is older.
\<close>

lemma get_upgrade_newer:
  assumes "\<And>v w. older v w \<or> same v w \<or> older w v"
    and "get_upgrade parse_version older same version_error en (Inr q) = Upgrade_Reply m"
  shows "\<exists>v w. parse_version (uq_from_version q) = Some v \<and> parse_version (um_version m) = Some w \<and> older v w \<and>
    en_upgrade en (uq_artifact q) = Inr (Some m)"
proof -
  obtain v w where "parse_version (uq_from_version q) = Some v" "parse_version (um_version m) = Some w"
    "\<not> older w v" "\<not> same w v" "en_upgrade en (uq_artifact q) = Inr (Some m)"
    using assms(2) by (auto simp: get_upgrade_def split: if_splits option.splits sum.splits)
  with assms(1) [of v w] assms(1) [of w v] show ?thesis by blast
qed

section \<open>Examples\<close>

definition one_network :: central_env where
  "one_network = \<lparr>en_asn = (\<lambda>_. Inr (Some 64500)), en_country = (\<lambda>_. ''SE''), en_city = (\<lambda>_. 0),
     en_valid_countries = [''SE''], en_blocked = (\<lambda>_ _. Inr [''www.a.org'']), en_url_allowed = (\<lambda>_ _. Inr True),
     en_insert = (\<lambda>_. None), en_insert_simple = (\<lambda>_. None), en_related = [(''a.org'', [''b.org'', ''www.'', ''a.org''])],
     en_upgrade = (\<lambda>_. Inr (Some \<lparr>um_artifact = ''alkasir'', um_version = ''111'', um_created = 0, um_sha256 = [], um_signature = []\<rparr>)),
     en_now = 0, en_random = Some ''ab''\<rparr>"

abbreviation no_state :: central_state where
  "no_state \<equiv> \<lparr>cs_tokens = empty_tokens, cs_samples = [], cs_simple = [], cs_queue = []\<rparr>"

lemma client_address_leaves_no_trace_witness:
  "suggestion_token one_network (Inr \<lparr>tq_url = ''http://a.org'', tq_client_addr = Some [192, 0, 2, 1], tq_country = ''SE''\<rparr>) no_state =
   suggestion_token one_network (Inr \<lparr>tq_url = ''http://a.org'', tq_client_addr = Some [10, 9, 8, 77], tq_country = ''SE''\<rparr>) no_state"
proof -
  have "same_place one_network [192, 0, 2, 1] [10, 9, 8, 77]"
    by (simp add: same_place_def one_network_def)
  from client_address_leaves_no_trace [OF this, of _ _ no_state
      "\<lparr>tq_url = ''http://a.org'', tq_client_addr = None, tq_country = ''SE''\<rparr>"]
  show ?thesis by simp
qed

lemma get_hosts_reply_witness:
  "\<exists>hs st'. get_hosts id one_network (Inr \<lparr>hq_client_addr = Some [192, 0, 2, 1], hq_update_id = ''x'', hq_client_version = ''1''\<rparr>) no_state =
     (Hosts_Reply hs, st') \<and> set hs = {''a.org'', ''b.org''} \<and> distinct hs \<and> map ss_country (cs_simple st') = [''SE'']"
proof -
  have "(\<Union>h \<in> set [''www.a.org'']. hosts_of (en_related one_network) h) = {''a.org'', ''b.org''}"
    by (auto simp: hosts_of_def one_network_def www_def trim_prefix_def has_prefix_def)
  moreover have "en_blocked one_network ''SE'' (asn_of (Some 64500)) = Inr [''www.a.org'']"
    "en_asn one_network [192, 0, 2, 1] = Inr (Some 64500)" "en_country one_network [192, 0, 2, 1] = ''SE''"
    "en_insert_simple one_network ss = None" for ss
    by (simp_all add: one_network_def)
  ultimately show ?thesis
    using get_hosts_reply [of id "\<lparr>hq_client_addr = Some [192, 0, 2, 1], hq_update_id = ''x'', hq_client_version = ''1''\<rparr>"
        "[192, 0, 2, 1]" one_network "Some 64500" "[''www.a.org'']" no_state]
    by (auto simp: Let_def)
qed

text \<open>Versions here are strings ordered by their lengths.\<close>

lemma get_upgrade_newer_witness:
  "\<exists>v w. Some (length ''11'') = Some v \<and> Some (length ''111'') = Some w \<and> v < w \<and>
     get_upgrade (Some \<circ> length) (<) (=) id one_network (Inr \<lparr>uq_artifact = ''alkasir'', uq_from_version = ''11''\<rparr>) =
     Upgrade_Reply \<lparr>um_artifact = ''alkasir'', um_version = ''111'', um_created = 0, um_sha256 = [], um_signature = []\<rparr>"
proof -
  have g: "get_upgrade (Some \<circ> length) (<) (=) id one_network (Inr \<lparr>uq_artifact = ''alkasir'', uq_from_version = ''11''\<rparr>) =
     Upgrade_Reply \<lparr>um_artifact = ''alkasir'', um_version = ''111'', um_created = 0, um_sha256 = [], um_signature = []\<rparr>"
    by (simp add: get_upgrade_def one_network_def)
  from get_upgrade_newer [OF _ g] show ?thesis using g by (auto simp: not_less)
qed

end
