(* ===== verification/CentralRun.thy ===== *)
theory CentralRun
  imports CentralApi
begin

text \<open>
  The central server as a whole: \<open>pkg/central/measurements.go\<close> (the ten workers that measure
  the suggested URLs) and the run of the server, a sequence of requests, expiry runs and
  steps of workers in any order. A worker takes one entry off the queue and then makes one
  measurement at a step, so that its samples and those of the requests interleave freely.
  \<open>None\<close> is the end of the process by \<open>lg.Fatal\<close>.
\<close>

section \<open>Workers\<close>

record prepared_sample =
  ps_updated :: "time option"
  ps_country :: string
  ps_asn :: int

record worker =
  wk_prepared :: prepared_sample
  wk_task :: "(string \<times> measurer list) option"

text \<open>The own address, the network and \<open>json.Marshal\<close> of a measurement.\<close>

record measure_env = central_env +
  me_public_ip :: "ip option"
  me_network :: network
  me_marshal :: "measurement \<Rightarrow> string + string"

definition fresh_prepared :: prepared_sample where
  "fresh_prepared = \<lparr>ps_updated = None, ps_country = [], ps_asn = 0\<rparr>"

definition prepared_update :: "measure_env \<Rightarrow> prepared_sample \<Rightarrow> prepared_sample" where
  "prepared_update me p =
     (case me_public_ip me of
        None \<Rightarrow> p
      | Some a \<Rightarrow>
          (case en_asn (central_env.truncate me) a of
             Inl e \<Rightarrow> p
           | Inr None \<Rightarrow> p
           | Inr (Some asn) \<Rightarrow>
               \<lparr>ps_updated = Some (en_now me), ps_country = en_country me a, ps_asn = asn\<rparr>))"

definition start_worker :: "measure_env \<Rightarrow> worker" where
  "start_worker me = \<lparr>wk_prepared = prepared_update me fresh_prepared, wk_task = None\<rparr>"

definition prepared_max_age :: time where "prepared_max_age = 5 * 60 * 60 * 1000000000"

definition prepared_stale :: "time \<Rightarrow> prepared_sample \<Rightarrow> bool" where
  "prepared_stale now p \<longleftrightarrow>
     (case ps_updated p of None \<Rightarrow> True | Some t \<Rightarrow> t < now - prepared_max_age)"

definition worker_take :: "measure_env \<Rightarrow> string \<times> measurer list \<Rightarrow> worker \<Rightarrow> worker" where
  "worker_take me r w =
     w\<lparr>wk_prepared := (if prepared_stale (en_now me) (wk_prepared w)
                       then prepared_update me (wk_prepared w) else wk_prepared w),
       wk_task := Some r\<rparr>"

definition central_sample :: "prepared_sample \<Rightarrow> string \<Rightarrow> string \<Rightarrow> measurement \<Rightarrow> string \<Rightarrow> sample" where
  "central_sample p token host x d =
     \<lparr>sa_host = host, sa_country = ps_country p, sa_asn = ps_asn p,
      sa_type = sample_type_text (measurement_type x), sa_origin = sample_origin_text SO_Central,
      sa_token = token, sa_data = d, sa_extra = []\<rparr>"

definition worker_measure ::
  "measure_env \<Rightarrow> prepared_sample \<Rightarrow> string \<Rightarrow> measurer \<Rightarrow> central_state \<Rightarrow> central_state option" where
  "worker_measure me p token m st =
     (let x = measure (me_network me) m in
      if measurement_type x \<in> {ST_DNSQuery, ST_HTTPHeader} then
        (case me_marshal me x of
           Inl e \<Rightarrow> Some st
         | Inr d \<Rightarrow>
             (case measurement_host x of
                Returned h \<Rightarrow>
                  (let sa = central_sample p token h x d in
                   if en_insert me sa \<noteq> None then Some st
                   else Some (st\<lparr>cs_samples := cs_samples st @ [sa]\<rparr>))
              | _ \<Rightarrow> None))
      else Some st)"

section \<open>The server\<close>

record central =
  cn_state :: central_state
  cn_workers :: "worker list"

datatype central_event =
    Get_Hosts "(string, bool) gomap \<Rightarrow> (string, bool) gomap" central_env "string + hosts_request"
  | Suggest central_env "string + token_request"
  | Store central_env "string + sample_request"
  | Expire_Tokens time
  | Take_Task nat measure_env
  | Measure_Next nat measure_env

definition idle :: "worker \<Rightarrow> bool" where
  "idle w \<longleftrightarrow> (case wk_task w of None \<Rightarrow> True | Some (_, ms) \<Rightarrow> ms = [])"

fun central_step :: "central \<Rightarrow> central_event \<Rightarrow> central option" where
  "central_step c (Get_Hosts ord en rq) = Some (c\<lparr>cn_state := snd (get_hosts ord en rq (cn_state c))\<rparr>)"
| "central_step c (Suggest en rq) = Some (c\<lparr>cn_state := snd (suggestion_token en rq (cn_state c))\<rparr>)"
| "central_step c (Store en rq) = Some (c\<lparr>cn_state := snd (store_sample en rq (cn_state c))\<rparr>)"
| "central_step c (Expire_Tokens now) =
     Some (c\<lparr>cn_state := (cn_state c)\<lparr>cs_tokens := token_expire now (cs_tokens (cn_state c))\<rparr>\<rparr>)"
| "central_step c (Take_Task i me) =
     (if i < length (cn_workers c) \<and> idle (cn_workers c ! i) then
        (case cs_queue (cn_state c) of
           [] \<Rightarrow> Some c
         | r # rs \<Rightarrow>
             Some (c\<lparr>cn_state := (cn_state c)\<lparr>cs_queue := rs\<rparr>,
                     cn_workers := (cn_workers c)[i := worker_take me r (cn_workers c ! i)]\<rparr>))
      else Some c)"
| "central_step c (Measure_Next i me) =
     (if i < length (cn_workers c) then
        (let w = cn_workers c ! i in
         case wk_task w of
           Some (token, m # ms) \<Rightarrow>
             (case worker_measure me (wk_prepared w) token m (cn_state c) of
                None \<Rightarrow> None
              | Some st \<Rightarrow>
                  Some (c\<lparr>cn_state := st, cn_workers := (cn_workers c)[i := w\<lparr>wk_task := Some (token, ms)\<rparr>]\<rparr>))
         | _ \<Rightarrow> Some c)
      else Some c)"

definition central_run :: "central \<Rightarrow> central_event list \<Rightarrow> central option" where
  "central_run c es = foldl (\<lambda>r e. Option.bind r (\<lambda>c. central_step c e)) (Some c) es"

definition start_central :: "token_data list \<Rightarrow> measure_env \<Rightarrow> central" where
  "start_central recents me =
     \<lparr>cn_state = \<lparr>cs_tokens = token_reset (en_now me) recents empty_tokens, cs_samples = [], cs_simple = [], cs_queue = []\<rparr>,
      cn_workers = replicate 10 (start_worker me)\<rparr>"

lemma central_run_simps [simp]:
  "central_run c [] = Some c"
  "central_run c (es @ [e]) = Option.bind (central_run c es) (\<lambda>c. central_step c e)"
  by (simp_all add: central_run_def)

section \<open>What a request does to the sessions and the samples\<close>

text \<open>The three things a handler can do to the state; every other path leaves it as it is.\<close>

lemma suggestion_token_cases:
  "(\<exists>r. suggestion_token en rq st = (r, st) \<and> (\<forall>url t. r \<noteq> Token_Reply True url t)) \<or>
   (\<exists>q u a asn. rq = Inr q \<and> trim_space (tq_url q) \<noteq> [] \<and> url_parse (trim_space (tq_url q)) = Some u \<and>
      accepted_url u \<and> suggestion_token en rq st = open_session en q (trim_space (tq_url q)) u a asn st)"
  unfolding suggestion_token_def
  by (simp add: Let_def split: option.split sum.split bool.split) blast

lemma store_sample_cases:
  "(\<exists>r. store_sample en rq st = (r, st) \<and> r \<noteq> Sample_Reply True) \<or>
   (\<exists>q b td u a r. rq = Inr q \<and> sq_sample q = Some b \<and> sb_type b \<in> set client_sample_types \<and>
      token_get (sb_token b) (cs_tokens st) = Some td \<and> td_url td = trim_space (sb_url b) \<and>
      url_parse (td_url td) = Some u \<and> parse_ip (sq_client_addr q) = Some a \<and> en_asn en a = Inr r \<and>
      store_sample en rq st = store_client_sample en b u a (asn_of r) st)"
  unfolding store_sample_def
  by (simp add: Let_def split: option.split sum.split)

lemma get_hosts_keeps:
  "cs_tokens (snd (get_hosts ord en rq st)) = cs_tokens st"
  "cs_samples (snd (get_hosts ord en rq st)) = cs_samples st"
  "cs_queue (snd (get_hosts ord en rq st)) = cs_queue st"
  by (auto simp: get_hosts_def store_simple_def Let_def split: option.split sum.split)


section \<open>The invariant of a run\<close>

definition has_session :: "sample list \<Rightarrow> string \<Rightarrow> string \<Rightarrow> bool" where
  "has_session ss t h \<longleftrightarrow>
     list_ex (\<lambda>n. sa_type n = ''NewClientToken'' \<and> sa_origin n = ''Central'' \<and> sa_token n = t \<and> sa_host n = h) ss"

text \<open>A measurer is for the session \<open>t\<close>: its host is the host of the accepted URL of the session.\<close>

fun measurer_for :: "sample list \<Rightarrow> string \<Rightarrow> measurer \<Rightarrow> bool" where
  "measurer_for ss t (DNS_Query h r) \<longleftrightarrow>
     (\<exists>u. accepted_url u \<and> has_session ss t (u_host u) \<and> h = dns_host (u_host u))"
| "measurer_for ss t (HTTP_Header url) \<longleftrightarrow>
     (\<exists>u. url_parse url = Some u \<and> accepted_url u \<and> has_session ss t (u_host u))"

definition sample_types_ok :: "sample \<Rightarrow> bool" where
  "sample_types_ok s \<longleftrightarrow>
     (sa_type s, sa_origin s) \<in> {(''NewClientToken'', ''Central''), (''HTTPHeader'', ''Client''), (''DNSQuery'', ''Client''),
        (''HTTPHeader'', ''Central''), (''DNSQuery'', ''Central'')}"

definition sample_host_ok :: "sample \<Rightarrow> bool" where
  "sample_host_ok s \<longleftrightarrow>
     (\<exists>u. accepted_url u \<and> (sa_host s = u_host u \<or> sa_origin s = ''Central'' \<and> sa_host s = dns_host (u_host u)))"

text \<open>\<open>strict\<close> adds what holds when no insertion of a session's own sample fails.\<close>

definition session_known :: "bool \<Rightarrow> sample list \<Rightarrow> string \<Rightarrow> token_data \<Rightarrow> bool" where
  "session_known strict ss t td \<longleftrightarrow>
     (\<exists>u. url_parse (td_url td) = Some u \<and> accepted_url u \<and> (strict \<longrightarrow> has_session ss t (u_host u)))"

definition sample_follows :: "bool \<Rightarrow> sample list \<Rightarrow> sample \<Rightarrow> bool" where
  "sample_follows strict pre s \<longleftrightarrow>
     sa_type s = ''NewClientToken'' \<or> (sa_origin s = ''Client'' \<and> \<not> strict) \<or>
     (\<exists>h. has_session pre (sa_token s) h \<and>
        (sa_host s = h \<or> sa_origin s = ''Central'' \<and> sa_host s = dns_host h))"

definition samples_good :: "bool \<Rightarrow> sample list \<Rightarrow> bool" where
  "samples_good strict ss \<longleftrightarrow>
     (\<forall>i < length ss. sample_types_ok (ss ! i) \<and> sample_host_ok (ss ! i) \<and> sample_follows strict (take i ss) (ss ! i))"

definition queue_good :: "sample list \<Rightarrow> (string \<times> measurer list) list \<Rightarrow> bool" where
  "queue_good ss q \<longleftrightarrow> (\<forall>r \<in> set q. \<forall>m \<in> set (snd r). measurer_for ss (fst r) m)"

definition state_good :: "bool \<Rightarrow> central_state \<Rightarrow> bool" where
  "state_good strict st \<longleftrightarrow>
     (\<forall>t td. token_get t (cs_tokens st) = Some td \<longrightarrow> session_known strict (cs_samples st) t td) \<and>
     samples_good strict (cs_samples st) \<and>
     queue_good (cs_samples st) (cs_queue st)"

definition tasks_good :: "sample list \<Rightarrow> worker list \<Rightarrow> bool" where
  "tasks_good ss ws \<longleftrightarrow>
     (\<forall>w \<in> set ws. case wk_task w of None \<Rightarrow> True | Some (t, ms) \<Rightarrow> \<forall>m \<in> set ms. measurer_for ss t m)"

definition central_good :: "bool \<Rightarrow> central \<Rightarrow> bool" where
  "central_good strict c \<longleftrightarrow> state_good strict (cn_state c) \<and> tasks_good (cs_samples (cn_state c)) (cn_workers c)"

lemma has_session_append [simp]:
  "has_session (ss @ ts) t h \<longleftrightarrow> has_session ss t h \<or> has_session ts t h"
  by (simp add: has_session_def)

lemma measurer_for_append: "measurer_for ss t m \<Longrightarrow> measurer_for (ss @ ts) t m"
  by (cases m) auto

lemma session_known_append: "session_known b ss t td \<Longrightarrow> session_known b (ss @ ts) t td"
  by (auto simp: session_known_def)

lemma queue_good_append: "queue_good ss q \<Longrightarrow> queue_good (ss @ ts) q"
  by (auto simp: queue_good_def measurer_for_append)

lemma samples_good_snoc:
  "samples_good b (ss @ [s]) \<longleftrightarrow>
     samples_good b ss \<and> sample_types_ok s \<and> sample_host_ok s \<and> sample_follows b ss s"
  by (auto simp: samples_good_def nth_append less_Suc_eq)

lemma tasks_good_append: "tasks_good ss ws \<Longrightarrow> tasks_good (ss @ ts) ws"
  unfolding tasks_good_def by (auto simp: measurer_for_append split: option.split)

lemma state_good_snoc:
  assumes "state_good b st" "sample_types_ok s" "sample_host_ok s" "sample_follows b (cs_samples st) s"
  shows "state_good b (st\<lparr>cs_samples := cs_samples st @ [s]\<rparr>)"
  using assms
  by (simp add: state_good_def samples_good_snoc session_known_append queue_good_append)

lemma default_measurements_for:
  assumes "default_measurements url0 = Inr ms" "url_parse (trim_space url0) = Some u" "accepted_url u"
    "has_session ss t (u_host u)" "m \<in> set ms"
  shows "measurer_for ss t m"
  using assms by (auto simp: default_measurements_def Let_def intro!: exI [of _ u] split: if_splits)

lemma measured_host_cases:
  assumes "measurer_for ss t m" "measurement_host (measure nw m) = Returned h"
  shows "\<exists>u. accepted_url u \<and> has_session ss t (u_host u) \<and> (h = u_host u \<or> h = dns_host (u_host u))"
  using assms
  by (cases m) (auto simp: http_result_host_def dns_host_def split: option.splits if_splits sum.splits)

lemma measured_type: "sample_type_text (measurement_type x) \<in> {''HTTPHeader'', ''DNSQuery''}"
  by (cases x) simp_all

lemma token_get_put:
  "token_get t (token_put i now url s) = (if t = i then Some \<lparr>td_id = i, td_created = now, td_url = url\<rparr> else token_get t s)"
  by (simp add: token_get_def token_put_def)

lemma token_new_get:
  assumes "token_new r now url s = Some (i, s')"
  shows "token_get t s' = (if t = i then Some \<lparr>td_id = i, td_created = now, td_url = url\<rparr> else token_get t s)"
  using assms token_get_put [of t i now url s]
  by (auto simp: token_new_def token_get_def Let_def split: option.splits)

text \<open>Each operation keeps the invariant; the workers' tasks only see more samples.\<close>

definition grows :: "central_state \<Rightarrow> central_state \<Rightarrow> bool" where
  "grows st st' \<longleftrightarrow> (\<exists>ss. cs_samples st' = cs_samples st @ ss)"

lemma grows_refl [simp]: "grows st st"
  by (simp add: grows_def)

lemma tasks_good_grows: "tasks_good (cs_samples st) ws \<Longrightarrow> grows st st' \<Longrightarrow> tasks_good (cs_samples st') ws"
  by (auto simp: grows_def tasks_good_append)

lemma state_good_tokens:
  "state_good b st \<Longrightarrow> (\<And>t td. token_get t tks = Some td \<Longrightarrow> session_known b (cs_samples st) t td) \<Longrightarrow>
   state_good b (st\<lparr>cs_tokens := tks\<rparr>)"
  by (simp add: state_good_def)

lemma open_session_good:
  fixes a :: ip and asn :: int
  assumes st: "state_good b st" and u: "url_parse (trim_space (tq_url q)) = Some u" "accepted_url u"
    and strict: "b \<longrightarrow> (\<forall>sa. sa_type sa = ''NewClientToken'' \<longrightarrow> en_insert en sa = None)"
  defines "r \<equiv> open_session en q (trim_space (tq_url q)) u a asn st"
  shows "state_good b (snd r) \<and> grows st (snd r)"
proof (cases "token_new (en_random en) (en_now en) (trim_space (tq_url q)) (cs_tokens st)")
  case None
  then show ?thesis by (simp add: r_def open_session_def st)
next
  case (Some p)
  obtain token tokens where p: "p = (token, tokens)" by (cases p)
  note new = Some [unfolded p]
  define st1 where "st1 = st\<lparr>cs_tokens := tokens\<rparr>"
  define sa where "sa = \<lparr>sa_host = u_host u, sa_country = en_country en a, sa_asn = asn, sa_type = ''NewClientToken'',
    sa_origin = ''Central'', sa_token = token, sa_data = new_token_json (trim_space (tq_url q)) (tq_country q),
    sa_extra = extra_json (en_city en a)\<rparr>"
  define st2 where "st2 = st1\<lparr>cs_samples := cs_samples st1 @ [sa]\<rparr>"
  have known: "has_session (cs_samples st @ [sa]) token (u_host u)" by (simp add: sa_def has_session_def)
  have st2: "state_good b st2"
  proof -
    have "state_good b (st\<lparr>cs_samples := cs_samples st @ [sa]\<rparr>)"
      using st u by (intro state_good_snoc) (auto simp: sa_def sample_types_ok_def sample_host_ok_def sample_follows_def)
    then have "state_good b (st\<lparr>cs_samples := cs_samples st @ [sa]\<rparr>\<lparr>cs_tokens := tokens\<rparr>)"
      using known u
      by (intro state_good_tokens)
        (auto simp: token_new_get [OF new] state_good_def session_known_def split: if_splits)
    also have "st\<lparr>cs_samples := cs_samples st @ [sa]\<rparr>\<lparr>cs_tokens := tokens\<rparr> = st2"
      by (rule central_state.equality) (simp_all add: st2_def st1_def)
    finally show ?thesis .
  qed
  show ?thesis
  proof (cases "en_insert en sa")
    case (Some e)
    then have "\<not> b" using strict by (auto simp: sa_def)
    then have "state_good b st1"
      unfolding st1_def using u
      by (intro state_good_tokens [OF st])
        (use st in \<open>auto simp: token_new_get [OF new] state_good_def session_known_def split: if_splits\<close>)
    with Some show ?thesis
      by (simp add: r_def open_session_def new st1_def sa_def Let_def grows_def)
  next
    case None
    have "state_good b (st2\<lparr>cs_queue := cs_queue st2 @ [(token, ms)]\<rparr>)" if "default_measurements (tq_url q) = Inr ms" for ms
      using st2 default_measurements_for [OF that u, of _ token] known
      by (auto simp: state_good_def queue_good_def st2_def st1_def)
    with None st2 show ?thesis
      by (auto simp: r_def open_session_def new st1_def st2_def sa_def Let_def grows_def split: sum.split)
  qed
qed


lemma suggestion_token_good:
  assumes st: "state_good b st"
    and strict: "b \<longrightarrow> (\<forall>sa. sa_type sa = ''NewClientToken'' \<longrightarrow> en_insert en sa = None)"
  shows "state_good b (snd (suggestion_token en rq st)) \<and> grows st (snd (suggestion_token en rq st))"
  using suggestion_token_cases [of en rq st] st open_session_good [OF st _ _ strict] by auto

lemma store_sample_good:
  assumes st: "state_good b st"
  shows "state_good b (snd (store_sample en rq st)) \<and> grows st (snd (store_sample en rq st))"
  using store_sample_cases [of en rq st]
proof (elim disjE exE conjE)
  fix q s td u a r
  assume s: "sb_type s \<in> set client_sample_types" and td: "token_get (sb_token s) (cs_tokens st) = Some td"
    and u: "url_parse (td_url td) = Some u"
    and eq: "store_sample en rq st = store_client_sample en s u a (asn_of r) st"
  have "session_known b (cs_samples st) (sb_token s) td" using st td by (simp add: state_good_def)
  then have known: "accepted_url u" "b \<longrightarrow> has_session (cs_samples st) (sb_token s) (u_host u)"
    using u by (auto simp: session_known_def)
  define sa where "sa = \<lparr>sa_host = u_host u, sa_country = en_country en a, sa_asn = asn_of r, sa_type = sb_type s,
    sa_origin = ''Client'', sa_token = sb_token s, sa_data = sb_data s, sa_extra = []\<rparr>"
  have "state_good b (st\<lparr>cs_samples := cs_samples st @ [sa]\<rparr>)"
    using st known s
    by (intro state_good_snoc)
      (auto simp: sa_def sample_types_ok_def sample_host_ok_def sample_follows_def client_sample_types_def)
  with st show ?thesis
    by (auto simp: eq store_client_sample_def sa_def [symmetric] Let_def grows_def)
qed (use st in auto)

lemma worker_measure_good:
  assumes st: "state_good b st" and m: "measurer_for (cs_samples st) t m"
    and step: "worker_measure me p t m st = Some st'"
  shows "state_good b st' \<and> grows st st'"
proof -
  let ?x = "measure (me_network me) m"
  show ?thesis
  proof (cases "st' = st")
    case True
    with st show ?thesis by simp
  next
    case False
    then obtain h d where h: "measurement_host ?x = Returned h"
      and st': "st' = st\<lparr>cs_samples := cs_samples st @ [central_sample p t h ?x d]\<rparr>"
      using step by (auto simp: worker_measure_def Let_def split: sum.splits outcome.splits if_splits)
    from measured_host_cases [OF m h] obtain u where u: "accepted_url u" "has_session (cs_samples st) t (u_host u)"
      "h = u_host u \<or> h = dns_host (u_host u)" by blast
    have "state_good b st'"
      unfolding st' using st u measured_type [of ?x]
      by (intro state_good_snoc)
        (auto simp: central_sample_def sample_types_ok_def sample_host_ok_def sample_follows_def)
    then show ?thesis by (simp add: st' grows_def)
  qed
qed

definition insert_ok :: "central_event \<Rightarrow> bool" where
  "insert_ok e \<longleftrightarrow>
     (case e of Suggest en _ \<Rightarrow> (\<forall>sa. sa_type sa = ''NewClientToken'' \<longrightarrow> en_insert en sa = None) | _ \<Rightarrow> True)"

lemma state_good_expire: "state_good b st \<Longrightarrow> state_good b (st\<lparr>cs_tokens := token_expire now (cs_tokens st)\<rparr>)"
  by (rule state_good_tokens) (auto simp: token_expire_def state_good_def dest: token_get_drop)

lemma state_good_pop: "state_good b st \<Longrightarrow> cs_queue st = r # rs \<Longrightarrow> state_good b (st\<lparr>cs_queue := rs\<rparr>)"
  by (simp add: state_good_def queue_good_def)

lemma tasks_good_update:
  "tasks_good ss ws \<Longrightarrow> (case wk_task w of None \<Rightarrow> True | Some (t, ms) \<Rightarrow> \<forall>m \<in> set ms. measurer_for ss t m) \<Longrightarrow>
   tasks_good ss (ws[i := w])"
  unfolding tasks_good_def by (auto dest!: set_update_subset_insert [THEN subsetD])

lemma central_step_good:
  assumes c: "central_good b c" and e: "b \<longrightarrow> insert_ok e" and step: "central_step c e = Some c'"
  shows "central_good b c'"
proof -
  have st: "state_good b (cn_state c)" and ws: "tasks_good (cs_samples (cn_state c)) (cn_workers c)"
    using c by (auto simp: central_good_def)
  show ?thesis
  proof (cases e)
    case (Get_Hosts ord en rq)
    then show ?thesis
      using step st ws by (auto simp: central_good_def state_good_def get_hosts_keeps)
  next
    case (Suggest en rq)
    with e have "b \<longrightarrow> (\<forall>sa. sa_type sa = ''NewClientToken'' \<longrightarrow> en_insert en sa = None)"
      by (simp add: insert_ok_def)
    from suggestion_token_good [OF st this, of rq] show ?thesis
      using step Suggest tasks_good_grows [OF ws] by (auto simp: central_good_def)
  next
    case (Store en rq)
    then show ?thesis
      using step store_sample_good [OF st, of en rq] tasks_good_grows [OF ws] by (auto simp: central_good_def)
  next
    case (Expire_Tokens now)
    then show ?thesis
      using step ws state_good_expire [OF st, of now] by (auto simp: central_good_def)
  next
    case (Take_Task i me)
    show ?thesis
    proof (cases "cs_queue (cn_state c)")
      case Nil
      with c step Take_Task show ?thesis by (simp split: if_splits)
    next
      case (Cons r rs)
      obtain t ms where r: "r = (t, ms)" by (cases r)
      have "\<forall>m \<in> set ms. measurer_for (cs_samples (cn_state c)) t m"
        using st Cons by (simp add: state_good_def queue_good_def r)
      then have "tasks_good (cs_samples (cn_state c)) ((cn_workers c)[i := worker_take me r (cn_workers c ! i)])"
        by (intro tasks_good_update [OF ws]) (simp add: worker_take_def r)
      with c step Take_Task Cons state_good_pop [OF st Cons] show ?thesis
        by (auto simp: central_good_def split: if_splits)
    qed
  next
    case (Measure_Next i me)
    show ?thesis
    proof (cases "c' = c")
      case False
      then obtain t m ms st' where i: "i < length (cn_workers c)" "wk_task (cn_workers c ! i) = Some (t, m # ms)"
        and st': "worker_measure me (wk_prepared (cn_workers c ! i)) t m (cn_state c) = Some st'"
        and c': "c' = c\<lparr>cn_state := st', cn_workers := (cn_workers c)[i := (cn_workers c ! i)\<lparr>wk_task := Some (t, ms)\<rparr>]\<rparr>"
        using step Measure_Next by (auto simp: Let_def split: if_splits option.splits list.splits)
      have ms: "measurer_for (cs_samples (cn_state c)) t m'" if "m' \<in> set (m # ms)" for m'
        using bspec [OF ws [unfolded tasks_good_def] nth_mem [OF i(1)]] i(2) that by auto
      from worker_measure_good [OF st _ st'] ms have good: "state_good b st'" "grows (cn_state c) st'" by auto
      have "tasks_good (cs_samples (cn_state c)) ((cn_workers c)[i := (cn_workers c ! i)\<lparr>wk_task := Some (t, ms)\<rparr>])"
        using ms by (intro tasks_good_update [OF ws]) simp
      with good show ?thesis by (auto simp: central_good_def c' intro: tasks_good_grows)
    qed (use c in simp)
  qed
qed

lemma central_run_good:
  "central_good b c \<Longrightarrow> b \<longrightarrow> list_all insert_ok es \<Longrightarrow> central_run c es = Some c' \<Longrightarrow> central_good b c'"
  by (induction es arbitrary: c' rule: rev_induct) (auto simp: bind_eq_Some_conv intro: central_step_good)


lemma start_central_good:
  assumes "list_all (\<lambda>td. \<exists>u. url_parse (td_url td) = Some u \<and> accepted_url u) recents" "b \<longrightarrow> recents = []"
  shows "central_good b (start_central recents me)"
proof -
  have "td \<in> set recents" if "token_get t (token_reset (en_now me) recents empty_tokens) = Some td" for t td
    using that by (rule token_get_reset)
  with assms have "session_known b [] t td" if "token_get t (token_reset (en_now me) recents empty_tokens) = Some td" for t td
    using that by (cases b) (fastforce simp: session_known_def list_all_iff)+
  then show ?thesis
    by (simp add: central_good_def state_good_def start_central_def samples_good_def queue_good_def tasks_good_def start_worker_def)
qed


section \<open>The sessions of a run\<close>

text \<open>A run of the server is, for its sessions, a run of the token store.\<close>

fun token_effect :: "central_event \<Rightarrow> token_event set" where
  "token_effect (Suggest en rq) = {e. \<exists>bytes url. en_random en = Some bytes \<and> e = New_Token bytes (en_now en) url}"
| "token_effect (Expire_Tokens now) = {Expire_At now}"
| "token_effect _ = {}"

lemma token_effect_new: "New_Token bytes t url \<in> token_effect e \<Longrightarrow> \<exists>en rq. e = Suggest en rq \<and> en_random en = Some bytes"
  by (cases e) auto

lemma token_effect_expire: "Expire_At now \<in> token_effect e \<Longrightarrow> e = Expire_Tokens now"
  by (cases e) auto

lemma open_session_tokens:
  "cs_tokens (snd (open_session en q url u a asn st)) =
     (case token_new (en_random en) (en_now en) url (cs_tokens st) of
        None \<Rightarrow> cs_tokens st | Some (_, tokens) \<Rightarrow> tokens)"
  by (auto simp: open_session_def Let_def split: option.split sum.split)

lemma token_new_step:
  "token_new (Some bytes) now url s = Some (i, s') \<Longrightarrow> token_step s (New_Token bytes now url) = s'"
  by simp

lemma open_session_effect:
  "\<exists>ts. cs_tokens (snd (open_session en q url u a asn st)) = foldl token_step (cs_tokens st) ts \<and>
     set ts \<subseteq> token_effect (Suggest en rq)"
proof (cases "en_random en")
  case None
  then show ?thesis by (auto simp: open_session_tokens token_new_def intro: exI [of _ "[]"])
next
  case (Some bytes)
  then show ?thesis
    by (intro exI [of _ "[New_Token bytes (en_now en) url]"])
      (auto simp: open_session_tokens split: option.split prod.split)
qed

lemma central_step_tokens:
  assumes "central_step c e = Some c'"
  shows "\<exists>ts. cs_tokens (cn_state c') = foldl token_step (cs_tokens (cn_state c)) ts \<and> set ts \<subseteq> token_effect e"
proof (cases e)
  case (Suggest en rq)
  from assms Suggest have c': "c' = c\<lparr>cn_state := snd (suggestion_token en rq (cn_state c))\<rparr>" by simp
  from suggestion_token_cases [of en rq "cn_state c"] show ?thesis
  proof (elim disjE exE conjE)
    fix r
    assume "suggestion_token en rq (cn_state c) = (r, cn_state c)"
    then show ?thesis by (auto simp: c' intro: exI [of _ "[]"])
  next
    fix q u a asn
    assume "suggestion_token en rq (cn_state c) = open_session en q (trim_space (tq_url q)) u a asn (cn_state c)"
    with open_session_effect [of en q "trim_space (tq_url q)" u a asn "cn_state c" rq] show ?thesis
      by (simp add: c' Suggest)
  qed
next
  case (Expire_Tokens now)
  with assms show ?thesis by (auto intro: exI [of _ "[Expire_At now]"])
next
  case (Store en rq)
  have "cs_tokens (snd (store_sample en rq (cn_state c))) = cs_tokens (cn_state c)"
    using store_sample_cases [of en rq "cn_state c"] by (auto simp: store_client_sample_def Let_def)
  with assms Store show ?thesis by (auto intro: exI [of _ "[]"])
next
  case (Take_Task i me)
  with assms have "cs_tokens (cn_state c') = cs_tokens (cn_state c)" by (auto split: if_splits list.splits)
  then show ?thesis by (auto intro: exI [of _ "[]"])
next
  case (Measure_Next i me)
  have "cs_tokens st' = cs_tokens st" if "worker_measure me p t m st = Some st'" for p t m st st'
    using that by (auto simp: worker_measure_def Let_def split: sum.splits outcome.splits if_splits)
  with assms Measure_Next have "cs_tokens (cn_state c') = cs_tokens (cn_state c)"
    by (auto simp: Let_def split: if_splits option.splits list.splits)
  then show ?thesis by (auto intro: exI [of _ "[]"])
qed (use assms in \<open>auto simp: get_hosts_keeps intro: exI [of _ "[]"]\<close>)

lemma central_run_tokens:
  "central_run c es = Some c' \<Longrightarrow>
   \<exists>ts. cs_tokens (cn_state c') = foldl token_step (cs_tokens (cn_state c)) ts \<and> set ts \<subseteq> (\<Union>e \<in> set es. token_effect e)"
proof (induction es arbitrary: c' rule: rev_induct)
  case (snoc e es)
  then obtain c1 where c1: "central_run c es = Some c1" "central_step c1 e = Some c'"
    by (auto simp: bind_eq_Some_conv)
  obtain ts where "cs_tokens (cn_state c1) = foldl token_step (cs_tokens (cn_state c)) ts" "set ts \<subseteq> (\<Union>e \<in> set es. token_effect e)"
    using snoc.IH [OF c1(1)] by blast
  moreover obtain us where "cs_tokens (cn_state c') = foldl token_step (cs_tokens (cn_state c1)) us" "set us \<subseteq> token_effect e"
    using central_step_tokens [OF c1(2)] by blast
  ultimately show ?case by (intro exI [of _ "ts @ us"]) auto
qed (auto intro: exI [of _ "[]"])

text \<open>A session opened by a suggestion is found after any run that neither expires nor redraws it.\<close>

lemma suggested_session:
  assumes "suggestion_token en (Inr q) st = (Token_Reply True url token, st1)"
  shows "\<exists>u bytes. url_parse url = Some u \<and> en_random en = Some bytes \<and> token = hex_encode bytes \<and>
    cs_tokens st1 = token_step (cs_tokens st) (New_Token bytes (en_now en) url)"
  using suggestion_token_cases [of en "Inr q" st]
proof (elim disjE exE conjE)
  fix q' u a asn
  assume q': "Inr q = Inr q'" and u: "url_parse (trim_space (tq_url q')) = Some u"
    and o: "suggestion_token en (Inr q) st = open_session en q' (trim_space (tq_url q')) u a asn st"
  with assms obtain tokens where new: "token_new (en_random en) (en_now en) url (cs_tokens st) = Some (token, tokens)"
    and url: "url = trim_space (tq_url q')" and "st1 = snd (open_session en q' url u a asn st)"
    by (auto simp: open_session_def Let_def split: option.splits sum.splits)
  then have "cs_tokens st1 = tokens" by (simp add: open_session_tokens)
  with new u url show ?thesis by (auto simp: token_new_def Let_def split: option.splits)
qed (use assms in auto)

lemma session_found:
  assumes ok: "tokens_ok (cs_tokens (cn_state c))"
    and reply: "suggestion_token en (Inr q) (cn_state c) = (Token_Reply True url token, st)"
    and run: "central_run (c\<lparr>cn_state := st\<rparr>) es = Some c'"
    and time: "\<And>now. Expire_Tokens now \<in> set es \<Longrightarrow> now \<le> en_now en + token_timeout"
    and fresh: "\<And>en' rq. Suggest en' rq \<in> set es \<Longrightarrow> en_random en' \<noteq> en_random en"
  shows "token_lookup (cs_tokens (cn_state c')) token = Some (en_now en, url)"
proof -
  obtain bytes where b: "en_random en = Some bytes" "token = hex_encode bytes"
    and st: "cs_tokens st = token_step (cs_tokens (cn_state c)) (New_Token bytes (en_now en) url)"
    using suggested_session [OF reply] by blast
  have ok1: "tokens_ok (cs_tokens st)" unfolding st using ok by (rule token_run.step_good)
  have look: "token_lookup (cs_tokens st) token = Some (en_now en, url)"
    unfolding st token_step_lookup [OF ok] by (simp add: b)
  obtain ts where ts: "cs_tokens (cn_state c') = foldl token_step (cs_tokens st) ts"
    and eff: "set ts \<subseteq> (\<Union>e \<in> set es. token_effect e)"
    using central_run_tokens [OF run] by auto
  have "\<forall>b' u' t'. New_Token b' t' u' \<in> set ts \<longrightarrow> hex_encode b' \<noteq> token"
    using eff fresh token_effect_new by (force simp: b hex_encode_inject)
  moreover have "\<not> (\<exists>now. Expire_At now \<in> set ts \<and> en_now en + token_timeout < now)"
    using eff time token_effect_expire by (force simp: not_less)
  ultimately show ?thesis using token_survives [OF ok1 look, of ts] by (auto simp: ts)
qed

section \<open>A run for the examples\<close>

definition demo_env :: measure_env where
  "demo_env = \<lparr>en_asn = (\<lambda>_. Inr (Some 64500)), en_country = (\<lambda>_. ''SE''), en_city = (\<lambda>_. 0),
     en_valid_countries = [''SE''], en_blocked = (\<lambda>_ _. Inr []), en_url_allowed = (\<lambda>_ _. Inr True),
     en_insert = (\<lambda>_. None), en_insert_simple = (\<lambda>_. None), en_related = [], en_upgrade = (\<lambda>_. Inr None),
     en_now = 0, en_random = Some ''ab'', me_public_ip = None, me_network = quiet_network, me_marshal = (\<lambda>_. Inr [])\<rparr>"

abbreviation demo_central_env :: central_env where
  "demo_central_env \<equiv> central_env.truncate demo_env"

definition demo_suggest :: "string \<Rightarrow> token_request" where
  "demo_suggest url = \<lparr>tq_url = url, tq_client_addr = Some [192, 0, 2, 1], tq_country = ''SE''\<rparr>"

definition demo_sample :: "string \<Rightarrow> sample_request" where
  "demo_sample url =
     \<lparr>sq_sample = Some \<lparr>sb_token = ''6162'', sb_url = url, sb_type = ''HTTPHeader'', sb_data = []\<rparr>,
      sq_client_addr = ''::1''\<rparr>"

lemma demo_facts:
  "trim_space ''http://a.org/'' = ''http://a.org/''"
  "url_parse ''http://a.org/'' = Some \<lparr>u_scheme = ''http'', u_host = ''a.org''\<rparr>"
  "accepted_url \<lparr>u_scheme = ''http'', u_host = ''a.org''\<rparr>"
  "dns_host ''a.org'' = ''a.org''"
  "contains ''a.org'' '':'' = False"
  "hex_encode ''ab'' = ''6162''"
  by code_simp+

lemma demo_address: "parse_ip ''::1'' = Some [0,0,0,0,0,0,0,0,0,0,0,0,0,0,0,1]"
  by (simp add: net_eval has_prefix_def replicate_eval)

lemma bracket_facts:
  "trim_space ''http://[2001:db8::1]/'' = ''http://[2001:db8::1]/''"
  "url_parse ''http://[2001:db8::1]/'' = Some \<lparr>u_scheme = ''http'', u_host = ''[2001:db8::1]''\<rparr>"
  "accepted_url \<lparr>u_scheme = ''http'', u_host = ''[2001:db8::1]''\<rparr>"
  "contains ''[2001:db8::1]'' '':''"
  "split_host_port ''[2001:db8::1]'' = Inl MissingPort"
  by code_simp+

definition demo_first :: central where
  "demo_first = (start_central [] demo_env)\<lparr>cn_state :=
     \<lparr>cs_tokens = \<lparr>tk_sessions = [(''6162'', \<lparr>td_id = ''6162'', td_created = 0, td_url = ''http://a.org/''\<rparr>)],
        tk_active = 1, tk_total = 1\<rparr>,
      cs_samples = [\<lparr>sa_host = ''a.org'', sa_country = ''SE'', sa_asn = 64500, sa_type = ''NewClientToken'',
        sa_origin = ''Central'', sa_token = ''6162'', sa_data = new_token_json ''http://a.org/'' ''SE'',
        sa_extra = extra_json 0\<rparr>],
      cs_simple = [],
      cs_queue = [(''6162'', [DNS_Query ''a.org'' [], DNS_Query ''a.org'' ''8.8.8.8:53'', HTTP_Header ''http://a.org/''])]\<rparr>\<rparr>"

lemma demo_token:
  "token_new (Some ''ab'') 0 url (token_reset 0 [] empty_tokens) =
     Some (''6162'', \<lparr>tk_sessions = [(''6162'', \<lparr>td_id = ''6162'', td_created = 0, td_url = url\<rparr>)], tk_active = 1, tk_total = 1\<rparr>)"
  by (simp add: token_new_def token_put_def token_reset_def token_expire_def drop_before_def expired_tokens_def
      empty_tokens_def demo_facts Let_def)

lemma demo_suggested:
  "central_step (start_central [] demo_env) (Suggest demo_central_env (Inr (demo_suggest ''http://a.org/''))) = Some demo_first"
  by (simp add: suggestion_token_def demo_suggest_def demo_facts demo_env_def central_env.truncate_def
      valid_country_code_def open_session_def start_central_def default_measurements_def demo_first_def demo_token
      Let_def asn_of_def start_worker_def prepared_update_def)


definition demo_last :: central where
  "demo_last = demo_first\<lparr>cn_state := (cn_state demo_first)\<lparr>cs_samples := cs_samples (cn_state demo_first) @
       [\<lparr>sa_host = ''a.org'', sa_country = ''SE'', sa_asn = 64500, sa_type = ''HTTPHeader'', sa_origin = ''Client'',
         sa_token = ''6162'', sa_data = [], sa_extra = []\<rparr>,
        \<lparr>sa_host = ''a.org'', sa_country = [], sa_asn = 0, sa_type = ''DNSQuery'', sa_origin = ''Central'',
         sa_token = ''6162'', sa_data = [], sa_extra = []\<rparr>],
       cs_queue := []\<rparr>,
     cn_workers := (cn_workers demo_first)[0 := \<lparr>wk_prepared = fresh_prepared,
       wk_task = Some (''6162'', [DNS_Query ''a.org'' ''8.8.8.8:53'', HTTP_Header ''http://a.org/''])\<rparr>]\<rparr>"

definition demo_events :: "central_event list" where
  "demo_events =
    [Suggest demo_central_env (Inr (demo_suggest ''http://a.org/'')), Store demo_central_env (Inr (demo_sample ''http://a.org/'')),
     Take_Task 0 demo_env, Measure_Next 0 demo_env]"

lemma central_run_Cons: "central_run c (e # es) = (case central_step c e of None \<Rightarrow> None | Some c' \<Rightarrow> central_run c' es)"
proof -
  have "foldl (\<lambda>r e. Option.bind r (\<lambda>c. central_step c e)) None es = None" by (induction es) auto
  then show ?thesis by (auto simp: central_run_def split: option.split)
qed

lemma demo_run: "central_run (start_central [] demo_env) demo_events = Some demo_last"
  by (simp add: demo_events_def central_run_Cons demo_suggested del: central_step.simps(2))
    (simp add: central_run_Cons demo_first_def demo_last_def demo_sample_def store_sample_def client_sample_types_def token_get_def
      demo_facts demo_address demo_env_def central_env.truncate_def store_client_sample_def Let_def asn_of_def
      start_central_def start_worker_def prepared_update_def idle_def worker_take_def prepared_stale_def fresh_prepared_def
      worker_measure_def central_sample_def)

definition has_task :: "central \<Rightarrow> nat \<Rightarrow> string \<Rightarrow> measurer list \<Rightarrow> bool" where
  "has_task c i t ms \<longleftrightarrow> i < length (cn_workers c) \<and> wk_task (cn_workers c ! i) = Some (t, ms)"

lemma measure_next_moves:
  assumes "has_task c i t (m # ms)" "\<And>p. \<exists>st'. worker_measure me p t m (cn_state c) = Some st'"
  shows "\<exists>c'. central_step c (Measure_Next i me) = Some c' \<and> has_task c' i t ms"
proof -
  obtain st' where "worker_measure me (wk_prepared (cn_workers c ! i)) t m (cn_state c) = Some st'"
    using assms(2) by blast
  with assms(1) show ?thesis by (simp add: has_task_def)
qed

section \<open>Properties\<close>





text \<open>
  One suggestion ends the server. For every environment in which the URL
  \<open>http://[2001:db8::1]/\<close> is allowed for the client's country and the database works, a suggestion
  of it is accepted, a worker takes its measurements, and the third of them ends the process.
\<close>

lemma suggestion_ends_server:
  assumes "valid_country_code (en_valid_countries en) (tq_country q)" "tq_url q = ''http://[2001:db8::1]/''"
    and "tq_client_addr q = Some a" "en_asn en a = Inr r" "\<And>u. en_url_allowed en u (en_country en a) = Inr True"
    and "en_random en = Some bytes" "\<And>sa. en_insert en sa = None" "\<And>x. me_marshal me x = Inr d"
  shows "central_run (start_central [] me0)
     [Suggest en (Inr q), Take_Task 0 me, Measure_Next 0 me, Measure_Next 0 me, Measure_Next 0 me] = None"
proof -
  let ?ms = "[DNS_Query [] [], DNS_Query [] ''8.8.8.8:53'', HTTP_Header ''http://[2001:db8::1]/'']"
  have d: "default_measurements ''http://[2001:db8::1]/'' = Inr ?ms"
    by (simp add: default_measurements_def bracket_facts dns_host_def)
  have crash: "worker_measure me p t (HTTP_Header ''http://[2001:db8::1]/'') st = None" for p t st
    using assms(8) by (simp add: worker_measure_def Let_def http_result_host_def bracket_facts)
  have go: "\<exists>st'. worker_measure me p t (DNS_Query h n) st = Some st'" for p t h n st
    using assms(8) by (simp add: worker_measure_def Let_def)
  obtain c t where c: "central_step (start_central [] me0) (Suggest en (Inr q)) = Some c"
    and q: "cs_queue (cn_state c) = [(t, ?ms)]" and w: "cn_workers c = replicate 10 (start_worker me0)"
    using assms(1-7)
    by (simp add: suggestion_token_def open_session_def token_new_def start_central_def bracket_facts d Let_def)
  obtain c1 where c1: "central_step c (Take_Task 0 me) = Some c1" "has_task c1 0 t ?ms"
    using q w by (simp add: idle_def start_worker_def worker_take_def has_task_def)
  obtain c2 where c2: "central_step c1 (Measure_Next 0 me) = Some c2" "has_task c2 0 t (tl ?ms)"
    using measure_next_moves [OF c1(2) go] by auto
  obtain c3 where c3: "central_step c2 (Measure_Next 0 me) = Some c3" "has_task c3 0 t (tl (tl ?ms))"
    using measure_next_moves [OF c2(2) [simplified] go] by auto
  have "central_step c3 (Measure_Next 0 me) = None"
    using c3(2) by (simp add: has_task_def crash)
  with c c1 c2 c3 show ?thesis
    by (simp add: central_run_Cons del: central_step.simps)
qed

lemma suggestion_ends_server_witness:
  "central_run (start_central [] demo_env)
     [Suggest demo_central_env (Inr (demo_suggest ''http://[2001:db8::1]/'')), Take_Task 0 demo_env,
      Measure_Next 0 demo_env, Measure_Next 0 demo_env, Measure_Next 0 demo_env] = None"
  by (rule suggestion_ends_server [where a = "[192, 0, 2, 1]" and bytes = "''ab''" and d = "[]" and r = "Some 64500"])
    (simp_all add: demo_env_def central_env.truncate_def demo_suggest_def valid_country_code_def)


text \<open>
  C16. A suggestion can be sampled. When a suggestion was answered with a token, then after any
  other requests, measurements and expiry runs in the next half hour a sample of an allowed
  type that names the token and the URL, with any white space around it, is stored for the
  host of the URL and acknowledged, from whatever address the client then has.
\<close>

theorem suggestion_can_be_sampled:
  assumes "tokens_ok (cs_tokens (cn_state c))"
    and "suggestion_token en (Inr q) (cn_state c) = (Token_Reply True url token, st)"
    and "central_run (c\<lparr>cn_state := st\<rparr>) es = Some c'"
    and "\<And>now. Expire_Tokens now \<in> set es \<Longrightarrow> now \<le> en_now en + token_timeout"
    and "\<And>en' rq. Suggest en' rq \<in> set es \<Longrightarrow> en_random en' \<noteq> en_random en"
    and "sq_sample sq = Some b" "sb_token b = token" "trim_space (sb_url b) = url" "sb_type b \<in> {''HTTPHeader'', ''DNSQuery''}"
    and "parse_ip (sq_client_addr sq) = Some a" "en_asn en2 a = Inr r" "\<And>sa. en_insert en2 sa = None"
  shows "\<exists>u sa. url_parse url = Some u \<and> sa_host sa = u_host u \<and> sa_token sa = token \<and> sa_data sa = sb_data b \<and>
    store_sample en2 (Inr sq) (cn_state c') =
      (Sample_Reply True, (cn_state c')\<lparr>cs_samples := cs_samples (cn_state c') @ [sa]\<rparr>)"
proof -
  obtain u where u: "url_parse url = Some u" using suggested_session [OF assms(2)] by blast
  have "token_lookup (cs_tokens (cn_state c')) token = Some (en_now en, url)"
    by (rule session_found [OF assms(1-3)]) (use assms(4,5) in auto)
  then obtain td where td: "token_get token (cs_tokens (cn_state c')) = Some td" "td_url td = url"
    by (auto simp: token_lookup_def)
  define sa where "sa = \<lparr>sa_host = u_host u, sa_country = en_country en2 a, sa_asn = asn_of r, sa_type = sb_type b,
    sa_origin = ''Client'', sa_token = sb_token b, sa_data = sb_data b, sa_extra = []\<rparr>"
  have "store_sample en2 (Inr sq) (cn_state c') =
      (Sample_Reply True, (cn_state c')\<lparr>cs_samples := cs_samples (cn_state c') @ [sa]\<rparr>)"
    using assms(6-) u td
    by (auto simp: store_sample_def client_sample_types_def store_client_sample_def sa_def Let_def)
  then show ?thesis using u assms(7) by (intro exI [of _ u] exI [of _ sa]) (simp add: sa_def)
qed

lemma suggestion_can_be_sampled_witness:
  "\<exists>u sa. url_parse ''http://a.org/'' = Some u \<and> sa_host sa = u_host u \<and> sa_token sa = ''6162'' \<and> sa_data sa = [] \<and>
    store_sample demo_central_env (Inr (demo_sample ''http://a.org/'')) (cn_state demo_first) =
      (Sample_Reply True, (cn_state demo_first)\<lparr>cs_samples := cs_samples (cn_state demo_first) @ [sa]\<rparr>)"
proof -
  let ?c = "start_central [] demo_env"
  have s: "suggestion_token demo_central_env (Inr (demo_suggest ''http://a.org/'')) (cn_state ?c) =
      (Token_Reply True ''http://a.org/'' ''6162'', cn_state demo_first)"
    by (simp add: suggestion_token_def demo_suggest_def demo_facts demo_env_def central_env.truncate_def
      valid_country_code_def open_session_def start_central_def default_measurements_def demo_first_def demo_token
      Let_def asn_of_def start_worker_def prepared_update_def)
  have ok: "tokens_ok (cs_tokens (cn_state ?c))"
    by (simp add: start_central_def token_reset_def token_expire_def drop_before_def expired_tokens_def empty_tokens_def
        tokens_ok_def)
  let ?b = "\<lparr>sb_token = ''6162'', sb_url = ''http://a.org/'', sb_type = ''HTTPHeader'', sb_data = []\<rparr>"
  have "\<exists>u sa. url_parse ''http://a.org/'' = Some u \<and> sa_host sa = u_host u \<and> sa_token sa = ''6162'' \<and> sa_data sa = sb_data ?b \<and>
    store_sample demo_central_env (Inr (demo_sample ''http://a.org/'')) (cn_state (?c\<lparr>cn_state := cn_state demo_first\<rparr>)) =
      (Sample_Reply True, (cn_state (?c\<lparr>cn_state := cn_state demo_first\<rparr>))
         \<lparr>cs_samples := cs_samples (cn_state (?c\<lparr>cn_state := cn_state demo_first\<rparr>)) @ [sa]\<rparr>)"
    by (rule suggestion_can_be_sampled [OF ok s, where es = "[]" and a = "[0,0,0,0,0,0,0,0,0,0,0,0,0,0,0,1]" and r = "Some 64500"])
      (simp_all add: demo_sample_def demo_facts demo_address demo_env_def central_env.truncate_def)
  then show ?thesis by simp
qed

end
