(* ===== verification/CentralDb.thy ===== *)
theory CentralDb
  imports CentralRun
begin

text \<open>
  The database of the central server: the operations of \<open>pkg/central/db/postgres.go\<close> on the
  tables of \<open>central-db/changelogs/version-0000.xml\<close>, as lists of rows in the order they were
  inserted. A query without an order is given in that order. \<open>fault\<close> is an error of the
  connection; \<open>jsonb\<close> is what the column type makes of a text (\<open>None\<close>: it is refused), \<open>render\<close>
  how the database prints a JSON value, and \<open>pick\<close> which of several rows \<open>LIMIT 1\<close> takes.
\<close>

section \<open>Tables\<close>

record 'a row =
  rw_id :: int
  rw_created :: time
  rw_value :: 'a

record publish_row =
  pb_host :: string
  pb_country :: "string option"
  pb_asn :: "int option"
  pb_sticky :: bool

record auth_row =
  au_enabled :: bool
  au_username :: string
  au_hash :: string
  au_salt :: string

record database =
  db_publish :: "publish_row row list"
  db_publish_log :: "(publish_row \<times> string) row list"
  db_unsupported :: "(string \<times> string option) list"
  db_samples :: "sample row list"
  db_simple :: "simple_sample row list"
  db_related :: "(string \<times> string) list"
  db_upgrades :: "(upgrade_meta \<times> bool) list"
  db_auth :: "auth_row list"
  db_state :: "(string, string) gomap"

definition country_codes :: "string list" where
  "country_codes =
    [''AF'', ''AL'', ''DZ'', ''AS'', ''AD'', ''AO'', ''AI'', ''AQ'', ''AG'', ''AR'', ''AM'', ''AW'',
     ''AU'', ''AT'', ''AZ'', ''BS'', ''BH'', ''BD'', ''BB'', ''BY'', ''BE'', ''BZ'', ''BJ'', ''BM'',
     ''BT'', ''BO'', ''BA'', ''BW'', ''BV'', ''BR'', ''IO'', ''BN'', ''BG'', ''BF'', ''BI'', ''KH'',
     ''CM'', ''CA'', ''CV'', ''KY'', ''CF'', ''TD'', ''CL'', ''CN'', ''CX'', ''CC'', ''CO'', ''KM'',
     ''CG'', ''CK'', ''CR'', ''HR'', ''CU'', ''CY'', ''CZ'', ''DK'', ''DJ'', ''DM'', ''DO'', ''TP'',
     ''EC'', ''EG'', ''SV'', ''GQ'', ''ER'', ''EE'', ''ET'', ''FK'', ''FO'', ''FJ'', ''FI'', ''CS'',
     ''FR'', ''GF'', ''TF'', ''GA'', ''GM'', ''GE'', ''DE'', ''GH'', ''GI'', ''GB'', ''GR'', ''GL'',
     ''GD'', ''GP'', ''GU'', ''GT'', ''GN'', ''GW'', ''GY'', ''HT'', ''HM'', ''HN'', ''HK'', ''HU'',
     ''IS'', ''IN'', ''ID'', ''IR'', ''IQ'', ''IE'', ''IL'', ''IT'', ''CI'', ''JM'', ''JP'', ''JO'',
     ''KZ'', ''KE'', ''KI'', ''KW'', ''KG'', ''LA'', ''LV'', ''LB'', ''LS'', ''LR'', ''LY'', ''LI'',
     ''LT'', ''LU'', ''MO'', ''MK'', ''MG'', ''MW'', ''MY'', ''MV'', ''ML'', ''MT'', ''MH'', ''MQ'',
     ''MR'', ''MU'', ''YT'', ''MX'', ''FM'', ''MD'', ''MC'', ''MN'', ''MS'', ''MA'', ''MZ'', ''MM'',
     ''NA'', ''NR'', ''NP'', ''NL'', ''AN'', ''NC'', ''NZ'', ''NI'', ''NE'', ''NG'', ''NU'', ''NF'',
     ''KP'', ''MP'', ''NO'', ''OM'', ''PK'', ''PW'', ''PA'', ''PG'', ''PY'', ''PE'', ''PH'', ''PN'',
     ''PL'', ''PF'', ''PT'', ''PR'', ''QA'', ''RE'', ''RO'', ''RU'', ''RW'', ''GS'', ''SH'', ''KN'',
     ''LC'', ''PM'', ''ST'', ''VC'', ''WS'', ''SM'', ''SA'', ''SN'', ''SC'', ''SL'', ''SG'', ''SK'',
     ''SI'', ''SB'', ''SO'', ''ZA'', ''KR'', ''ES'', ''LK'', ''SD'', ''SR'', ''SJ'', ''SZ'', ''SE'',
     ''CH'', ''SY'', ''TJ'', ''TW'', ''TZ'', ''TH'', ''TG'', ''TK'', ''TO'', ''TT'', ''TN'', ''TR'',
     ''TM'', ''TC'', ''TV'', ''UG'', ''UA'', ''AE'', ''US'', ''UY'', ''UM'', ''UZ'', ''VU'', ''VA'',
     ''VE'', ''VN'', ''VG'', ''VI'', ''WF'', ''EH'', ''YE'', ''ZM'', ''ZW'', ''A1'', ''A2'', ''AP'',
     ''AX'', ''BL'', ''BQ'', ''CD'', ''CW'', ''EU'', ''GG'', ''IM'', ''JE'', ''ME'', ''MF'', ''O1'',
     ''PS'', ''RS'', ''SS'', ''SX'', ''TL'']"

definition sample_types :: "string list" where
  "sample_types = [''NewClientToken'', ''HTTPHeader'', ''BrowserExtension'', ''DNSQuery'']"

definition sample_origins :: "string list" where
  "sample_origins = [''Central'', ''Client'']"

definition simple_sample_types :: "string list" where
  "simple_sample_types = [''ClientBlocklistUpdate'']"

definition enum_error :: "string \<Rightarrow> string \<Rightarrow> string" where
  "enum_error ty v = ''pq: invalid input value for enum '' @ ty @ '': '' @ go_quote v"

definition range_error :: string where "range_error = ''pq: integer out of range''"

definition json_error :: string where "json_error = ''pq: invalid input syntax for type json''"

text \<open>The first value of a row that its column refuses.\<close>

definition check_enum :: "string \<Rightarrow> string list \<Rightarrow> string \<Rightarrow> string option" where
  "check_enum ty vs v = (if v \<in> set vs then None else Some (enum_error ty v))"

definition check_int :: "int \<Rightarrow> string option" where
  "check_int i = (if - (2 ^ 31) \<le> i \<and> i < 2 ^ 31 then None else Some range_error)"

fun first_error :: "string option list \<Rightarrow> string option" where
  "first_error [] = None"
| "first_error (None # es) = first_error es"
| "first_error (Some e # es) = Some e"

lemma first_error_None: "first_error es = None \<longleftrightarrow> (\<forall>e \<in> set es. e = None)"
  by (induction es rule: first_error.induct) auto

definition next_id :: "'a row list \<Rightarrow> int" where
  "next_id t = Max (insert 0 (rw_id ` set t)) + 1"

definition add_row :: "time \<Rightarrow> 'a \<Rightarrow> 'a row list \<Rightarrow> 'a row list" where
  "add_row now v t = t @ [\<lparr>rw_id = next_id t, rw_created = now, rw_value = v\<rparr>]"

section \<open>Samples\<close>

definition insert_sample ::
  "string option \<Rightarrow> (string \<Rightarrow> string option) \<Rightarrow> time \<Rightarrow> sample \<Rightarrow> database \<Rightarrow> string option \<times> database" where
  "insert_sample fault jsonb now s db =
     (let extra = (if sa_extra s = [] then Some ''{}'' else jsonb (sa_extra s)) in
      case first_error [fault, check_enum ''country_code'' country_codes (sa_country s), check_int (sa_asn s),
             check_enum ''sample_type'' sample_types (sa_type s), check_enum ''sample_origin'' sample_origins (sa_origin s)] of
        Some e \<Rightarrow> (Some e, db)
      | None \<Rightarrow>
          (case (jsonb (sa_data s), extra) of
             (Some d, Some x) \<Rightarrow>
               (None, db\<lparr>db_samples := add_row now (s\<lparr>sa_data := d, sa_extra := x\<rparr>) (db_samples db)\<rparr>)
           | _ \<Rightarrow> (Some json_error, db)))"

definition insert_simple_sample ::
  "string option \<Rightarrow> (string \<Rightarrow> string option) \<Rightarrow> time \<Rightarrow> simple_sample \<Rightarrow> database \<Rightarrow> string option \<times> database" where
  "insert_simple_sample fault jsonb now s db =
     (case first_error [fault, check_enum ''country_code'' country_codes (ss_country s), check_int (ss_asn s),
             check_enum ''simple_sample_type'' simple_sample_types (ss_type s)] of
        Some e \<Rightarrow> (Some e, db)
      | None \<Rightarrow>
          (case (if ss_data s = [] then Some ''{}'' else jsonb (ss_data s)) of
             Some d \<Rightarrow> (None, db\<lparr>db_simple := add_row now (s\<lparr>ss_data := d\<rparr>) (db_simple db)\<rparr>)
           | None \<Rightarrow> (Some json_error, db)))"

definition get_samples :: "string option \<Rightarrow> int \<Rightarrow> database \<Rightarrow> string + (int \<times> sample) list" where
  "get_samples fault from db =
     (case fault of
        Some e \<Rightarrow> Inl e
      | None \<Rightarrow> Inr (map (\<lambda>r. (rw_id r, rw_value r)) (filter (\<lambda>r. from < rw_id r) (db_samples db))))"

definition get_session_samples :: "string option \<Rightarrow> string \<Rightarrow> database \<Rightarrow> string + sample list" where
  "get_session_samples fault token db =
     (case fault of
        Some e \<Rightarrow> Inl e
      | None \<Rightarrow> Inr (filter (\<lambda>s. sa_token s = token) (map rw_value (db_samples db))))"

text \<open>
  \<open>data::json->'URL'\<close> is the JSON text of the member; without it the row does not scan and the
  server ends (\<open>None\<close>), as it does when the query fails.
\<close>

definition json_member :: "(json \<Rightarrow> string) \<Rightarrow> string \<Rightarrow> string \<Rightarrow> string option" where
  "json_member render k data =
     (case parse_json data of
        Some (JObj ms) \<Rightarrow> map_option render (map_of (rev ms) k)
      | _ \<Rightarrow> None)"

definition session_of_row :: "(json \<Rightarrow> string) \<Rightarrow> sample row \<Rightarrow> token_data option" where
  "session_of_row render r =
     map_option (\<lambda>url. \<lparr>td_id = sa_token (rw_value r), td_created = rw_created r, td_url = url\<rparr>)
       (json_member render ''URL'' (sa_data (rw_value r)))"

definition recent_suggestion_sessions ::
  "string option \<Rightarrow> (json \<Rightarrow> string) \<Rightarrow> nat \<Rightarrow> database \<Rightarrow> token_data list option" where
  "recent_suggestion_sessions fault render n db =
     (if fault \<noteq> None then None
      else those (map (session_of_row render)
             (take n (rev (sort_key rw_id (filter (\<lambda>r. sa_type (rw_value r) = ''NewClientToken'') (db_samples db)))))))"

section \<open>Hosts\<close>

definition get_blocked_hosts :: "string option \<Rightarrow> string \<Rightarrow> int \<Rightarrow> database \<Rightarrow> string + string list" where
  "get_blocked_hosts fault cc asn db =
     (case first_error [fault, check_enum ''country_code'' country_codes cc] of
        Some e \<Rightarrow> Inl e
      | None \<Rightarrow> Inr (map pb_host (filter (\<lambda>p. pb_country p = Some cc \<and> pb_asn p = Some asn) (map rw_value (db_publish db)))))"

text \<open>The first entry of a host starts from a slice with one empty element.\<close>

definition add_related :: "string \<times> string \<Rightarrow> (string, string list) gomap \<Rightarrow> (string, string list) gomap" where
  "add_related r m =
     (let (host, related) = r in
      case map_of m host of
        Some relateds \<Rightarrow> AList.update host (relateds @ [related]) m
      | None \<Rightarrow> AList.update host ([[]] @ [related]) m)"

definition get_related_hosts :: "string option \<Rightarrow> database \<Rightarrow> string + (string, string list) gomap" where
  "get_related_hosts fault db = (case fault of Some e \<Rightarrow> Inl e | None \<Rightarrow> Inr (fold add_related (db_related db) []))"

definition is_published :: "string \<Rightarrow> string \<Rightarrow> int \<Rightarrow> database \<Rightarrow> bool" where
  "is_published host cc asn db \<longleftrightarrow>
     list_ex (\<lambda>r. pb_host (rw_value r) = host \<and> pb_country (rw_value r) = Some cc \<and> pb_asn (rw_value r) = Some asn) (db_publish db)"

text \<open>The trigger of the table logs every insertion.\<close>

definition insert_publish :: "time \<Rightarrow> publish_row \<Rightarrow> database \<Rightarrow> database" where
  "insert_publish now p db =
     db\<lparr>db_publish := add_row now p (db_publish db), db_publish_log := add_row now (p, ''Add'') (db_publish_log db)\<rparr>"

definition publish_host :: "string option \<Rightarrow> string option \<Rightarrow> time \<Rightarrow> sample \<Rightarrow> database \<Rightarrow> string option \<times> database" where
  "publish_host fault fault' now s db =
     (case first_error [fault, check_enum ''country_code'' country_codes (sa_country s), check_int (sa_asn s)] of
        Some e \<Rightarrow> (Some e, db)
      | None \<Rightarrow>
          if is_published (sa_host s) (sa_country s) (sa_asn s) db then (None, db)
          else (case fault' of
                  Some e \<Rightarrow> (Some e, db)
                | None \<Rightarrow>
                    (None, insert_publish now
                       \<lparr>pb_host = sa_host s, pb_country = Some (sa_country s), pb_asn = Some (sa_asn s), pb_sticky = False\<rparr> db)))"

definition is_url_allowed :: "string option \<Rightarrow> url \<Rightarrow> string \<Rightarrow> database \<Rightarrow> string + bool" where
  "is_url_allowed fault u cc db =
     (case first_error [fault, check_enum ''country_code'' country_codes cc] of
        Some e \<Rightarrow> Inl e
      | None \<Rightarrow> Inr (\<not> list_ex (\<lambda>r. r = (u_host u, Some cc)) (db_unsupported db)))"

section \<open>Upgrades\<close>

text \<open>
  The insertions do not go through the transaction that is begun, so the ones before a failure
  stay. A pair of artifact and version is unique. \<open>faults\<close> are the errors of the insertions.
\<close>

definition unique_error :: string where "unique_error = ''pq: duplicate key value violates unique constraint''"

definition insert_upgrade :: "time \<Rightarrow> upgrade_meta \<Rightarrow> database \<Rightarrow> string option \<times> database" where
  "insert_upgrade now u db =
     (if list_ex (\<lambda>r. um_artifact (fst r) = um_artifact u \<and> um_version (fst r) = um_version u) (db_upgrades db)
      then (Some unique_error, db)
      else (None, db\<lparr>db_upgrades := db_upgrades db @ [(u\<lparr>um_created := now\<rparr>, False)]\<rparr>))"

fun insert_upgrades :: "time \<Rightarrow> (string option \<times> upgrade_meta) list \<Rightarrow> database \<Rightarrow> string option \<times> database" where
  "insert_upgrades now [] db = (None, db)"
| "insert_upgrades now ((Some e, u) # us) db = (Some e, db)"
| "insert_upgrades now ((None, u) # us) db =
     (case insert_upgrade now u db of
        (Some e, db') \<Rightarrow> (Some e, db')
      | (None, db') \<Rightarrow> insert_upgrades now us db')"

record upgrade_query =
  gq_artifact :: string
  gq_version :: string
  gq_also_unpublished :: bool

definition get_upgrade_row ::
  "string option \<Rightarrow> (upgrade_meta list \<Rightarrow> upgrade_meta) \<Rightarrow> upgrade_query \<Rightarrow> database \<Rightarrow> string + upgrade_meta option" where
  "get_upgrade_row fault pick q db =
     (case fault of
        Some e \<Rightarrow> Inl e
      | None \<Rightarrow>
          (let rs = map fst (filter (\<lambda>(u, published). um_artifact u = gq_artifact q \<and>
                      (gq_also_unpublished q \<or> published) \<and> (gq_version q = [] \<or> um_version u = gq_version q))
                    (db_upgrades db))
           in if rs = [] then Inr None else Inr (Some (pick rs))))"

section \<open>Export users\<close>

definition get_export_credentials :: "string option \<Rightarrow> string \<Rightarrow> database \<Rightarrow> string + api_credentials option" where
  "get_export_credentials fault username db =
     (case fault of
        Some e \<Rightarrow> Inl e
      | None \<Rightarrow>
          (case find (\<lambda>r. au_username r = username) (db_auth db) of
             None \<Rightarrow> Inr None
           | Some r \<Rightarrow>
               (case (b64_decode (au_hash r), b64_decode (au_salt r)) of
                  (Some h, Some s) \<Rightarrow>
                    Inr (Some \<lparr>ac_username = au_username r, ac_password_hash = Some h, ac_salt = Some s, ac_enabled = au_enabled r\<rparr>)
                | _ \<Rightarrow> Inl ''illegal base64 data'')))"

definition insert_export_credentials :: "string option \<Rightarrow> api_credentials \<Rightarrow> database \<Rightarrow> string option \<times> database" where
  "insert_export_credentials fault c db =
     (case (ac_salt c, ac_password_hash c) of
        (None, _) \<Rightarrow> (Some ''Salt not set'', db)
      | (Some salt, None) \<Rightarrow> (Some ''Passwordhash not set'', db)
      | (Some salt, Some h) \<Rightarrow>
          if ac_username c = [] then (Some ''Username not set'', db)
          else (case fault of
             Some e \<Rightarrow> (Some e, db)
           | None \<Rightarrow>
               if list_ex (\<lambda>r. au_username r = ac_username c) (db_auth db) then (Some unique_error, db)
               else (None, db\<lparr>db_auth := db_auth db @
                       [\<lparr>au_enabled = True, au_username = ac_username c, au_hash = b64_encode True h, au_salt = b64_encode True salt\<rparr>]\<rparr>)))"

section \<open>The state of the analysis\<close>

definition last_id_key :: string where "last_id_key = ''last_processed_sample_id''"

definition parse_uint :: "string \<Rightarrow> nat option" where
  "parse_uint s = (if s \<noteq> [] \<and> list_all is_digit s \<and> nat_of_digits s < 2 ^ 64 then Some (nat_of_digits s) else None)"

definition get_last_processed_id :: "string option \<Rightarrow> database \<Rightarrow> string + nat" where
  "get_last_processed_id fault db =
     (case fault of
        Some e \<Rightarrow> Inl e
      | None \<Rightarrow>
          (case map_of (db_state db) last_id_key of
             None \<Rightarrow> Inr 0
           | Some v \<Rightarrow> (case parse_uint v of None \<Rightarrow> Inl (''strconv.ParseUint: parsing '' @ go_quote v) | Some n \<Rightarrow> Inr n)))"

text \<open>An update, or an insertion when it changed no row; a failure of either ends the server.\<close>

definition set_last_processed_id :: "string option \<Rightarrow> nat \<Rightarrow> database \<Rightarrow> database option" where
  "set_last_processed_id fault i db =
     (if fault \<noteq> None then None
      else Some (db\<lparr>db_state := AList.update last_id_key (show_nat i) (db_state db)\<rparr>))"

section \<open>The database behind the handlers\<close>

record lookups =
  lk_asn :: "ip \<Rightarrow> string + int option"
  lk_country :: "ip \<Rightarrow> string"
  lk_city :: "ip \<Rightarrow> int"

text \<open>
  The environment the handlers run in, read off the database. \<open>related\<close> is the table as the
  last refresh left it.
\<close>

definition db_env ::
  "string option \<Rightarrow> (string \<Rightarrow> string option) \<Rightarrow> (upgrade_meta list \<Rightarrow> upgrade_meta) \<Rightarrow> lookups \<Rightarrow> string list \<Rightarrow>
   (string, string list) gomap \<Rightarrow> time \<Rightarrow> string option \<Rightarrow> database \<Rightarrow> central_env" where
  "db_env fault jsonb pick lk codes related now random db =
     \<lparr>en_asn = lk_asn lk, en_country = lk_country lk, en_city = lk_city lk, en_valid_countries = codes,
      en_blocked = (\<lambda>cc asn. get_blocked_hosts fault cc asn db),
      en_url_allowed = (\<lambda>u cc. is_url_allowed fault u cc db),
      en_insert = (\<lambda>s. fst (insert_sample fault jsonb now s db)),
      en_insert_simple = (\<lambda>s. fst (insert_simple_sample fault jsonb now s db)),
      en_related = related,
      en_upgrade = (\<lambda>a. get_upgrade_row fault pick \<lparr>gq_artifact = a, gq_version = [], gq_also_unpublished = False\<rparr> db),
      en_now = now, en_random = random\<rparr>"

section \<open>Lemmas\<close>

lemma next_id_fresh: "r \<in> set t \<Longrightarrow> rw_id r < next_id t"
proof -
  assume "r \<in> set t"
  then have "rw_id r \<le> Max (insert 0 (rw_id ` set t))" by (intro Max_ge) auto
  then show ?thesis by (simp add: next_id_def)
qed

lemma next_id_positive: "0 < next_id t"
  by (simp add: next_id_def add_pos_nonneg less_add_one zle_add1_eq_le)

text \<open>The identifiers of a table are positive and grow.\<close>

definition ids_ok :: "'a row list \<Rightarrow> bool" where
  "ids_ok t \<longleftrightarrow> sorted_wrt (<) (map rw_id t) \<and> (\<forall>r \<in> set t. 0 < rw_id r)"

lemma ids_ok_Nil [simp]: "ids_ok []"
  by (simp add: ids_ok_def)

lemma ids_ok_add: "ids_ok t \<Longrightarrow> ids_ok (add_row now v t)"
  by (auto simp: ids_ok_def add_row_def sorted_wrt_append next_id_positive intro: next_id_fresh)

lemma insert_sample_result:
  "insert_sample fault jsonb now s db = (None, db') \<Longrightarrow>
   \<exists>d x. jsonb (sa_data s) = Some d \<and> db' = db\<lparr>db_samples := add_row now (s\<lparr>sa_data := d, sa_extra := x\<rparr>) (db_samples db)\<rparr>"
  by (auto simp: insert_sample_def Let_def split: option.splits)

lemma insert_sample_error: "insert_sample fault jsonb now s db = (Some e, db') \<Longrightarrow> db' = db"
  by (auto simp: insert_sample_def Let_def split: option.splits)

lemma publish_host_result:
  "publish_host fault fault' now s db = (None, db') \<Longrightarrow>
   is_published (sa_host s) (sa_country s) (sa_asn s) db' \<and>
   (if is_published (sa_host s) (sa_country s) (sa_asn s) db then db' = db
    else db' = insert_publish now \<lparr>pb_host = sa_host s, pb_country = Some (sa_country s), pb_asn = Some (sa_asn s), pb_sticky = False\<rparr> db)"
  by (auto simp: publish_host_def is_published_def insert_publish_def add_row_def split: option.splits if_splits)

lemma get_blocked_published:
  "get_blocked_hosts fault cc asn db = Inr hs \<Longrightarrow> h \<in> set hs \<longleftrightarrow> is_published h cc asn db"
  by (force simp: get_blocked_hosts_def is_published_def list_ex_iff split: option.splits)

lemma parse_uint_show_nat: "n < 2 ^ 64 \<Longrightarrow> parse_uint (show_nat n) = Some n"
  using show_nat_digits [of n] by (simp add: parse_uint_def list_all_iff)

lemma last_processed_roundtrip:
  "n < 2 ^ 64 \<Longrightarrow> set_last_processed_id None n db = Some db' \<Longrightarrow> get_last_processed_id None db' = Inr n"
  by (auto simp: set_last_processed_id_def get_last_processed_id_def parse_uint_show_nat)

lemma insert_upgrades_partial:
  "list_all (\<lambda>p. fst p = None) us \<Longrightarrow> distinct (map (\<lambda>p. (um_artifact (snd p), um_version (snd p))) us) \<Longrightarrow>
   \<forall>p \<in> set us. \<not> list_ex (\<lambda>r. um_artifact (fst r) = um_artifact (snd p) \<and> um_version (fst r) = um_version (snd p)) (db_upgrades db) \<Longrightarrow>
   insert_upgrades now (us @ (Some e, u) # rest) db =
     (Some e, db\<lparr>db_upgrades := db_upgrades db @ map (\<lambda>p. ((snd p)\<lparr>um_created := now\<rparr>, False)) us\<rparr>)"
proof (induction us arbitrary: db)
  case (Cons p us)
  obtain u' where p: "p = (None, u')" using Cons.prems(1) by (cases p) auto
  have "insert_upgrade now u' db = (None, db\<lparr>db_upgrades := db_upgrades db @ [(u'\<lparr>um_created := now\<rparr>, False)]\<rparr>)"
    using Cons.prems(3) by (simp add: insert_upgrade_def p)
  moreover have "\<forall>p \<in> set us. \<not> list_ex (\<lambda>r. um_artifact (fst r) = um_artifact (snd p) \<and> um_version (fst r) = um_version (snd p))
      (db_upgrades db @ [(u'\<lparr>um_created := now\<rparr>, False)])"
    using Cons.prems(2,3) by (force simp: p)
  ultimately show ?case
    using Cons.IH [of "db\<lparr>db_upgrades := db_upgrades db @ [(u'\<lparr>um_created := now\<rparr>, False)]\<rparr>"] Cons.prems(1,2)
    by (simp add: p)
qed simp

section \<open>Sessions after a restart\<close>

lemma url_parse_quote:
  assumes "url_parse (dquote # s) = Some u"
  shows "u_scheme u = []"
proof -
  let ?r = "dquote # takeWhile (\<lambda>x. x \<noteq> CHR ''#'') s"
  have "split_at (CHR ''#'') (dquote # s) = (?r, dropWhile (\<lambda>x. x \<noteq> CHR ''#'') s)"
    by (simp add: split_at_def)
  moreover have "scheme_from 0 [] ?r ?r = Some ([], ?r)"
    by (simp add: letter_def is_digit_def)
  ultimately show ?thesis
    using assms by (auto simp: url_parse_def to_lower_def Let_def split: if_splits prod.splits option.splits)
qed

lemma session_of_row_url:
  assumes "\<And>s. has_prefix (render (JStr s)) [dquote]"
    and "parse_json (sa_data (rw_value r)) = Some (JObj ms)" "map_of (rev ms) ''URL'' = Some (JStr v)"
    and "session_of_row render r = Some td"
  shows "\<exists>t. td_url td = dquote # t"
proof -
  have "td_url td = render (JStr v)" using assms(2-4) by (auto simp: session_of_row_def json_member_def)
  then show ?thesis using assms(1) [of v] by (cases "render (JStr v)") (auto simp: has_prefix_def)
qed

lemma those_mem: "those xs = Some ys \<Longrightarrow> y \<in> set ys \<Longrightarrow> Some y \<in> set xs"
  by (induction xs arbitrary: ys) (auto split: option.splits)

lemma recent_sessions_rows:
  assumes "recent_suggestion_sessions fault render n db = Some tds" "td \<in> set tds"
  shows "\<exists>r \<in> set (db_samples db). sa_type (rw_value r) = ''NewClientToken'' \<and> session_of_row render r = Some td"
  using assms those_mem [of _ tds td]
  by (force simp: recent_suggestion_sessions_def split: if_splits dest: in_set_takeD)

lemma credentials_stored:
  assumes "set_password kdf (Inr salt) pw c = (c1, None)" "length salt = password_salt_len"
    and "insert_export_credentials None c1 db = (None, db')"
  shows "\<exists>c2. get_export_credentials None (ac_username c) db' = Inr (Some c2) \<and> ac_enabled c2 \<and>
    is_valid_password kdf q c2 = (kdf pw salt = kdf q salt, None) \<and>
    insert_export_credentials None
      (c3\<lparr>ac_username := ac_username c, ac_salt := Some s3, ac_password_hash := Some h3\<rparr>) db' = (Some unique_error, db')"
proof -
  have c1: "c1 = c\<lparr>ac_salt := Some salt, ac_password_hash := Some (kdf pw salt)\<rparr>"
    using assms(1) by (simp add: set_password_def)
  have name: "ac_username c \<noteq> []" and fresh: "\<not> list_ex (\<lambda>r. au_username r = ac_username c) (db_auth db)"
    and db': "db' = db\<lparr>db_auth := db_auth db @ [\<lparr>au_enabled = True, au_username = ac_username c,
      au_hash = b64_encode True (kdf pw salt), au_salt = b64_encode True salt\<rparr>]\<rparr>"
    using assms(3) by (auto simp: insert_export_credentials_def c1 split: if_splits)
  have "find (\<lambda>r. au_username r = ac_username c) (db_auth db) = None"
    using fresh by (simp add: find_None_iff list_ex_iff)
  then have "find (\<lambda>r. au_username r = ac_username c) (db_auth db') =
      Some \<lparr>au_enabled = True, au_username = ac_username c, au_hash = b64_encode True (kdf pw salt), au_salt = b64_encode True salt\<rparr>"
    by (simp add: db' find_append)
  then show ?thesis
    using assms(2) name
    by (auto simp: get_export_credentials_def is_valid_password_def b64_decode_encode insert_export_credentials_def db'
        split: option.splits)
qed

section \<open>Publishing as a set\<close>

text \<open>What is published: hosts with a country and a network.\<close>

definition published :: "database \<Rightarrow> (string \<times> string \<times> int) set" where
  "published db = {(h, cc, asn). is_published h cc asn db}"

lemma published_insert:
  "published (insert_publish now \<lparr>pb_host = h, pb_country = Some cc, pb_asn = Some asn, pb_sticky = b\<rparr> db) =
   insert (h, cc, asn) (published db)"
  by (auto simp: published_def is_published_def insert_publish_def add_row_def)

section \<open>Properties\<close>

text \<open>
  A restart ends every open suggestion. The sessions restored from the database carry the URL
  as a JSON text, in quotation marks, and no acceptable URL starts with one: every sample sent
  for a restored session with the URL it was opened for is refused.
\<close>

lemma restored_sessions_refuse_samples:
  assumes "\<And>v. has_prefix (render (JStr v)) [dquote]"
    and "recent_suggestion_sessions fault render n db = Some recents"
    and "\<And>r. r \<in> set (db_samples db) \<Longrightarrow> sa_type (rw_value r) = ''NewClientToken'' \<Longrightarrow>
      \<exists>ms v. parse_json (sa_data (rw_value r)) = Some (JObj ms) \<and> map_of (rev ms) ''URL'' = Some (JStr v)"
    and "cs_tokens st = token_reset now recents empty_tokens" "token_get (sb_token b) (cs_tokens st) = Some td"
    and "sq_sample q = Some b" "sb_type b \<in> {''HTTPHeader'', ''DNSQuery''}"
    and "url_parse (trim_space (sb_url b)) = Some u" "accepted_url u"
  shows "store_sample en (Inr q) st = (Api_Error ''invalid URL for token session'' 400, st)"
proof -
  have "td \<in> set recents"
    using assms(4,5) token_get_reset [where tds = recents and s = empty_tokens] by simp
  then obtain r where r: "r \<in> set (db_samples db)" "sa_type (rw_value r) = ''NewClientToken''" "session_of_row render r = Some td"
    using recent_sessions_rows [OF assms(2)] by blast
  then obtain t where t: "td_url td = dquote # t"
    using assms(3) [OF r(1,2)] session_of_row_url [of render r, OF assms(1)] by blast
  have "td_url td \<noteq> trim_space (sb_url b)"
  proof
    assume "td_url td = trim_space (sb_url b)"
    then have "u_scheme u = []" using assms(8) url_parse_quote [of t u] by (simp add: t)
    then show False using assms(9) by (simp add: accepted_url_def allowed_protocols_def)
  qed
  then show ?thesis
    using assms(5-7) by (auto simp: store_sample_def client_sample_types_def Let_def)
qed

text \<open>
  The credentials of an export user survive the database, whatever their bytes, and the login
  then accepts the password that was set. They come back enabled even if they were
  disabled, and a second insertion for the name is refused, so that a password cannot be changed.
\<close>

lemma export_credentials_survive:
  assumes "set_password kdf (Inr salt) pw c = (c1, None)" "length salt = password_salt_len"
    and "insert_export_credentials None c1 db = (None, db')"
  shows "\<exists>c2. get_export_credentials None (ac_username c) db' = Inr (Some c2) \<and> ac_enabled c2 \<and>
    is_valid_password kdf q c2 = (kdf pw salt = kdf q salt, None) \<and>
    insert_export_credentials None
      (c3\<lparr>ac_username := ac_username c, ac_salt := Some s3, ac_password_hash := Some h3\<rparr>) db' = (Some unique_error, db')"
  using credentials_stored [OF assms] .

text \<open>
  C34. Publishing a host adds it to the set of published hosts, once: on success the set has the
  host of the sample for its country and network besides what it had, the table and its log grow
  exactly when it was not there, and a client of that country and network is then told of it.
\<close>

theorem publish_host_refines_set:
  assumes "publish_host fault fault' now s db = (None, db')"
  shows "published db' = insert (sa_host s, sa_country s, sa_asn s) (published db) \<and>
    length (db_publish db') = length (db_publish db) + (if (sa_host s, sa_country s, sa_asn s) \<in> published db then 0 else 1) \<and>
    length (db_publish_log db') - length (db_publish_log db) = length (db_publish db') - length (db_publish db) \<and>
    (\<exists>hs. get_blocked_hosts None (sa_country s) (sa_asn s) db' = Inr hs \<and>
       set hs = {h. (h, sa_country s, sa_asn s) \<in> published db'})"
proof -
  note r = publish_host_result [OF assms]
  have "check_enum ''country_code'' country_codes (sa_country s) = None"
    using assms
    by (cases "first_error [fault, check_enum ''country_code'' country_codes (sa_country s), check_int (sa_asn s)]")
      (auto simp: publish_host_def first_error_None)
  then obtain hs where hs: "get_blocked_hosts None (sa_country s) (sa_asn s) db' = Inr hs"
    by (simp add: get_blocked_hosts_def)
  have "set hs = {h. (h, sa_country s, sa_asn s) \<in> published db'}"
    using get_blocked_published [OF hs] by (auto simp: published_def)
  moreover have "published db' = insert (sa_host s, sa_country s, sa_asn s) (published db)"
    using r published_insert by (auto simp: published_def split: if_splits)
  moreover have "length (db_publish db') = length (db_publish db) + (if (sa_host s, sa_country s, sa_asn s) \<in> published db then 0 else 1) \<and>
    length (db_publish_log db') - length (db_publish_log db) = length (db_publish db') - length (db_publish db)"
    using r by (auto simp: published_def insert_publish_def add_row_def split: if_splits)
  ultimately show ?thesis using hs by blast
qed

section \<open>Examples\<close>

definition empty_db :: database where
  "empty_db = \<lparr>db_publish = [], db_publish_log = [], db_unsupported = [], db_samples = [], db_simple = [], db_related = [],
     db_upgrades = [], db_auth = [], db_state = []\<rparr>"

definition demo_row :: "sample row" where
  "demo_row = \<lparr>rw_id = 1, rw_created = 0, rw_value =
     \<lparr>sa_host = ''a.org'', sa_country = ''SE'', sa_asn = 64500, sa_type = ''NewClientToken'', sa_origin = ''Central'',
      sa_token = ''6162'', sa_data = new_token_json ''http://a.org/'' ''SE'', sa_extra = ''{}''\<rparr>\<rparr>"

fun demo_render :: "json \<Rightarrow> string" where
  "demo_render (JStr s) = [dquote] @ s @ [dquote]"
| "demo_render _ = ''null''"

lemma demo_row_json: "parse_json (sa_data (rw_value demo_row)) =
    Some (JObj [(''URL'', JStr ''http://a.org/''), (''CountryCode'', JStr ''SE'')])"
  by code_simp

lemma restored_sessions_refuse_samples_witness:
  "\<exists>st. store_sample demo_central_env (Inr (demo_sample ''http://a.org/'')) st =
     (Api_Error ''invalid URL for token session'' 400, st) \<and> token_get ''6162'' (cs_tokens st) \<noteq> None"
proof -
  let ?td = "\<lparr>td_id = ''6162'', td_created = 0, td_url = [dquote] @ ''http://a.org/'' @ [dquote]\<rparr>"
  let ?db = "empty_db\<lparr>db_samples := [demo_row]\<rparr>"
  let ?st = "no_state\<lparr>cs_tokens := token_reset 0 [?td] empty_tokens\<rparr>"
  have recents: "recent_suggestion_sessions None demo_render 1 ?db = Some [?td]"
    using demo_row_json
    by (simp add: recent_suggestion_sessions_def empty_db_def session_of_row_def json_member_def)
      (simp add: demo_row_def)
  have found: "token_get ''6162'' (cs_tokens ?st) = Some ?td"
    by (simp add: token_get_def token_reset_def token_expire_def drop_before_def expired_tokens_def empty_tokens_def token_timeout_def)
  have "store_sample demo_central_env (Inr (demo_sample ''http://a.org/'')) ?st =
     (Api_Error ''invalid URL for token session'' 400, ?st)"
    by (rule restored_sessions_refuse_samples [OF _ recents, where now = 0 and td = ?td
          and u = "\<lparr>u_scheme = ''http'', u_host = ''a.org''\<rparr>"
          and b = "\<lparr>sb_token = ''6162'', sb_url = ''http://a.org/'', sb_type = ''HTTPHeader'', sb_data = []\<rparr>"])
      (use found demo_row_json in \<open>auto simp: demo_sample_def demo_facts empty_db_def\<close>)
  then show ?thesis using found by (intro exI [of _ ?st]) simp
qed

lemma export_credentials_survive_witness:
  "let c = \<lparr>ac_username = ''u'', ac_password_hash = None, ac_salt = None, ac_enabled = False\<rparr>;
       kdf = (\<lambda>pw salt. pw @ salt);
       c1 = fst (set_password kdf (Inr (replicate 16 (CHR ''s''))) ''pw'' c);
       db' = snd (insert_export_credentials None c1 empty_db)
   in \<exists>c2. get_export_credentials None ''u'' db' = Inr (Some c2) \<and> is_valid_password kdf ''pw'' c2 = (True, None) \<and>
     is_valid_password kdf ''px'' c2 = (False, None)"
proof -
  let ?c = "\<lparr>ac_username = ''u'', ac_password_hash = None, ac_salt = None, ac_enabled = False\<rparr>"
  let ?kdf = "\<lambda>pw salt. pw @ salt"
  let ?c1 = "fst (set_password ?kdf (Inr (replicate 16 (CHR ''s''))) ''pw'' ?c)"
  let ?db = "snd (insert_export_credentials None ?c1 empty_db)"
  have s: "set_password ?kdf (Inr (replicate 16 (CHR ''s''))) ''pw'' ?c = (?c1, None)" by (simp add: set_password_def)
  have i: "insert_export_credentials None ?c1 empty_db = (None, ?db)"
    by (simp add: set_password_def insert_export_credentials_def empty_db_def)
  have l: "length (replicate 16 (CHR ''s'')) = password_salt_len" by (simp add: password_salt_len_def)
  obtain c2 where "get_export_credentials None ''u'' ?db = Inr (Some c2)" "is_valid_password ?kdf ''pw'' c2 = (True, None)"
    using export_credentials_survive [OF s l i, where q = "''pw''" and ?c3.0 = ?c and ?s3.0 = "[]" and ?h3.0 = "[]"] by auto
  moreover have "is_valid_password ?kdf ''px'' c2 = (False, None)"
    using export_credentials_survive [OF s l i, where q = "''px''" and ?c3.0 = ?c and ?s3.0 = "[]" and ?h3.0 = "[]"] calculation(1) by auto
  ultimately show ?thesis by (simp add: Let_def)
qed

lemma publish_host_refines_set_witness:
  "published (snd (publish_host None None 0 (rw_value demo_row) empty_db)) = {(''a.org'', ''SE'', 64500)}"
proof -
  have "publish_host None None 0 (rw_value demo_row) empty_db = (None, snd (publish_host None None 0 (rw_value demo_row) empty_db))"
    by (simp add: publish_host_def demo_row_def check_enum_def check_int_def country_codes_def is_published_def empty_db_def)
  from publish_host_refines_set [OF this] show ?thesis
    by (auto simp: published_def is_published_def empty_db_def demo_row_def)
qed

end
