(* ===== verification/LinkHeader.thy ===== *)
theory LinkHeader
  imports GoText Contracts "HOL-Library.List_Lexorder" "HOL-Library.Char_ord"
begin

text \<open>
  \<open>pkg/shared/linkheader\<close>: the \<open>Link\<close> header of a paged answer, written and parsed. Texts are
  bytes. A byte slice that is \<open>nil\<close> is \<open>None\<close>; the contents of a buffer nothing was written to are
  \<open>nil\<close> too, which makes an empty quoted value malformed.
\<close>

section \<open>Writing\<close>

record link =
  ln_uri :: string
  ln_rel :: string
  ln_params :: "(string, string) gomap"

definition link_param :: "string \<Rightarrow> string \<Rightarrow> string" where
  "link_param k v = ''; '' @ k @ ''='' @ [CHR 0x22] @ v @ [CHR 0x22]"

text \<open>The parameters are written in the order of their keys.\<close>

definition format_link :: "link \<Rightarrow> string" where
  "format_link l =
     ''<'' @ ln_uri l @ ''>'' @ link_param ''rel'' (ln_rel l) @
     concat (map (\<lambda>k. link_param k (the (map_of (ln_params l) k))) (sort (map fst (ln_params l))))"

fun format_links :: "link list \<Rightarrow> string" where
  "format_links [] = []"
| "format_links [l] = format_link l"
| "format_links (l # ls) = format_link l @ '', '' @ format_links ls"

section \<open>Parsing\<close>

definition token_char :: "char \<Rightarrow> bool" where
  "token_char c \<longleftrightarrow> (32::nat) < of_char c \<and> of_char c < (127::nat) \<and> c \<notin> {CHR 0x22, CHR '','', CHR ''='', CHR '';''}"

definition consume_token :: "string \<Rightarrow> string option \<times> string" where
  "consume_token v =
     (let t = takeWhile token_char v in
      if t = v then (Some v, []) else if t = [] then (None, v) else (Some t, drop (length t) v))"

lemma rune_shorter: "(r, w) = decode_rune s \<Longrightarrow> s \<noteq> [] \<Longrightarrow> length s - w < length s"
  using decode_rune_width [of s] by (cases "decode_rune s") auto

text \<open>The loop over the runes of a quoted value; \<open>lit\<close> is \<open>nextIsLiteral\<close>.\<close>

function quoted :: "bool \<Rightarrow> string \<Rightarrow> (string \<times> string) option" where
  "quoted lit s =
     (if s = [] then None
      else (let (r, w) = decode_rune s; t = drop w s in
        if lit then map_option (apfst ((@) (encode_rune r))) (quoted False t)
        else if r = 0x22 then Some ([], t)
        else if r = 0x5C then quoted True t
        else if r \<noteq> 0x0D \<and> r \<noteq> 0x0A then map_option (apfst ((@) (encode_rune r))) (quoted False t)
        else None))"
  by pat_completeness auto

termination
  by (relation "measure (\<lambda>(_, s). length s)") (auto dest: rune_shorter)

declare quoted.simps [simp del]

definition consume_value :: "string \<Rightarrow> (string \<times> string) option" where
  "consume_value v =
     (if v = [] \<or> hd v \<noteq> CHR 0x22 then None
      else (case quoted False (tl v) of
              None \<Rightarrow> None
            | Some (val, rest) \<Rightarrow> if val = [] then None else Some (val, rest)))"

definition consume_param :: "string \<Rightarrow> (string \<times> string \<times> string) option" where
  "consume_param v =
     (let (tok, rest) = consume_token v;
          param = to_lower (case tok of None \<Rightarrow> [] | Some t \<Rightarrow> t);
          r0 = trim_left_space rest
      in if r0 = [] \<or> hd r0 \<noteq> CHR ''='' then None
         else (let r1 = trim_left_space (tl r0) in
               if r1 = [] then None
               else (case (if hd r1 \<noteq> CHR 0x22
                           then (case consume_token r1 of (None, _) \<Rightarrow> None | (Some t, r) \<Rightarrow> Some (t, r))
                           else consume_value r1) of
                       None \<Rightarrow> None
                     | Some (val, r) \<Rightarrow> Some (param, val, r))))"

definition add_param :: "string \<Rightarrow> string \<Rightarrow> link \<Rightarrow> link" where
  "add_param k v l =
     (if k = ''rel'' then (if ln_rel l = [] then l\<lparr>ln_rel := v\<rparr> else l)
      else l\<lparr>ln_params := AList.update k v (ln_params l)\<rparr>)"

lemma trim_left_shorter: "length (trim_left_space s) \<le> length s"
  using trim_with_suffix [of s space_encodings "length s"] by (auto simp: trim_left_space_def dest: arg_cong [where f = length])

lemma consume_token_shorter: "snd (consume_token v) = r \<Longrightarrow> length r \<le> length v"
  by (auto simp: consume_token_def Let_def)

lemma quoted_shorter: "quoted lit s = Some (v, r) \<Longrightarrow> length r < length s"
proof (induction "length s" arbitrary: lit s v rule: less_induct)
  case less
  obtain c w where d: "decode_rune s = (c, w)" by (cases "decode_rune s")
  have ne: "s \<noteq> []" using less.prems by (auto simp: quoted.simps [of lit s])
  have sh: "length (drop w s) < length s" using rune_shorter [OF d [symmetric] ne] by simp
  have "r = drop w s \<or> (\<exists>b v'. quoted b (drop w s) = Some (v', r))"
    using less.prems by (auto simp: quoted.simps [of lit s] d Let_def split: if_splits)
  then show ?case using less.hyps [OF sh] sh by fastforce
qed

lemma consume_value_shorter: "consume_value v = Some (x, r) \<Longrightarrow> length r < length v"
  by (cases v) (auto simp: consume_value_def split: if_splits option.splits dest!: quoted_shorter)

lemma consume_param_shorter:
  assumes "consume_param v = Some (k, x, r)"
  shows "length r < length v"
proof -
  obtain tok rest where t: "consume_token v = (tok, rest)" by (cases "consume_token v")
  define r0 where "r0 = trim_left_space rest"
  define r1 where "r1 = trim_left_space (tl r0)"
  have ne: "r0 \<noteq> []" "r1 \<noteq> []" and v: "(if hd r1 \<noteq> CHR 0x22
      then (case consume_token r1 of (None, _) \<Rightarrow> None | (Some t, r) \<Rightarrow> Some (t, r)) else consume_value r1) = Some (x, r)"
    using assms t by (auto simp: consume_param_def r0_def [symmetric] r1_def [symmetric] Let_def split: if_splits option.splits)
  have "length r \<le> length r1"
    using v consume_value_shorter [of r1 x r] consume_token_shorter [of r1 r] by (auto split: if_splits prod.splits option.splits)
  also have "\<dots> < length r0" using trim_left_shorter [of "tl r0"] ne by (cases r0) (auto simp: r1_def)
  also have "\<dots> \<le> length rest" by (simp add: r0_def trim_left_shorter)
  also have "\<dots> \<le> length v" using consume_token_shorter [of v rest] t by simp
  finally show ?thesis .
qed

function parse_params :: "string \<Rightarrow> link \<Rightarrow> (link \<times> string) option" where
  "parse_params v l =
     (if v = [] then Some (l, [])
      else if hd v \<noteq> CHR '';'' \<and> hd v \<noteq> CHR '','' then None
      else (let v1 = trim_left_space (tl v) in
            if hd v = CHR '','' \<or> v1 = [] then Some (l, v1)
            else (case consume_param v1 of
                    None \<Rightarrow> None
                  | Some (k, x, rest) \<Rightarrow> parse_params (trim_left_space rest) (add_param k x l))))"
  by pat_completeness auto

termination
proof (relation "measure (\<lambda>(v, _). length v)")
  fix v :: string and l :: link and v1 a k y x rest
  assume v: "v \<noteq> []" "v1 = trim_left_space (tl v)" "consume_param v1 = Some a" "(k, y) = a" "(x, rest) = y"
  have "length (trim_left_space rest) \<le> length rest" by (rule trim_left_shorter)
  also have "\<dots> < length v1" using v consume_param_shorter by blast
  also have "\<dots> \<le> length (tl v)" unfolding v(2) by (rule trim_left_shorter)
  also have "\<dots> < length v" using v(1) by (cases v) auto
  finally show "((trim_left_space rest, add_param k x l), (v, l)) \<in> measure (\<lambda>(v, _). length v)" by simp
qed simp

declare parse_params.simps [simp del]

lemma tail_shorter: "v \<noteq> [] \<Longrightarrow> length (trim_left_space (tl v)) < length v"
  using trim_left_shorter [of "tl v"] by (cases v) auto

lemma parse_params_shorter: "parse_params v l = Some (l', r) \<Longrightarrow> length r \<le> length v"
proof (induction "length v" arbitrary: v l rule: less_induct)
  case less
  show ?case
  proof (cases "v = []")
    case False
    let ?t = "trim_left_space (tl v)"
    have "r = ?t \<or> (\<exists>k x rest. consume_param ?t = Some (k, x, rest) \<and>
        parse_params (trim_left_space rest) (add_param k x l) = Some (l', r))"
      using less.prems False
      by (auto simp: parse_params.simps [of v l] Let_def split: if_splits option.splits)
    then show ?thesis
    proof (elim disjE exE conjE)
      fix k x rest
      assume c: "consume_param ?t = Some (k, x, rest)" "parse_params (trim_left_space rest) (add_param k x l) = Some (l', r)"
      have "length (trim_left_space rest) < length v"
        using trim_left_shorter [of rest] consume_param_shorter [OF c(1)] tail_shorter [OF False] by linarith
      with less.hyps [OF this c(2)] show ?thesis by simp
    qed (use tail_shorter [OF False] in simp)
  qed (use less.prems in \<open>simp add: parse_params.simps [of "[]" l]\<close>)
qed

function parse_links :: "string \<Rightarrow> link list option" where
  "parse_links v =
     (if v = [] then Some []
      else if hd v \<noteq> CHR ''<'' \<or> CHR ''>'' \<notin> set v then None
      else (let link = \<lparr>ln_uri = takeWhile (\<lambda>c. c \<noteq> CHR ''>'') (tl v), ln_rel = [], ln_params = []\<rparr>;
                rest = tl (dropWhile (\<lambda>c. c \<noteq> CHR ''>'') v)
            in if rest = [] then Some [link]
               else (case parse_params (trim_left_space rest) link of
                       None \<Rightarrow> None
                     | Some (l, r) \<Rightarrow> map_option ((#) l) (parse_links r))))"
  by pat_completeness auto

termination
proof (relation "measure length")
  fix v :: string and link rest a l r
  assume v: "v \<noteq> []" "rest = tl (dropWhile (\<lambda>c. c \<noteq> CHR ''>'') v)" "parse_params (trim_left_space rest) link = Some a" "(l, r) = a"
  have "length r \<le> length (trim_left_space rest)" using v parse_params_shorter by blast
  also have "\<dots> \<le> length rest" by (rule trim_left_shorter)
  also have "\<dots> < length v"
  proof -
    have "length (dropWhile (\<lambda>c. c \<noteq> CHR ''>'') v) \<le> length v" by (rule length_dropWhile_le)
    moreover have "0 < length v" using v(1) by simp
    ultimately show ?thesis unfolding v(2) length_tl by linarith
  qed
  finally show "(r, v) \<in> measure length" by simp
qed simp

declare parse_links.simps [simp del]

definition parse_link_header :: "string \<Rightarrow> link list option" where
  "parse_link_header l = parse_links (trim_space l)"

section \<open>Building a header\<close>

text \<open>\<open>page_uri\<close> is the URL of the request with the page parameter set to a value.\<close>

record link_header =
  lh_page_uri :: "string \<Rightarrow> string"
  lh_links :: "link list"

definition new_link_header :: "(string \<Rightarrow> string) \<Rightarrow> link_header" where
  "new_link_header page_uri = \<lparr>lh_page_uri = page_uri, lh_links = []\<rparr>"

definition lh_add :: "string \<Rightarrow> string \<Rightarrow> link_header \<Rightarrow> link_header" where
  "lh_add rel value lh = lh\<lparr>lh_links := lh_links lh @ [\<lparr>ln_uri = lh_page_uri lh value, ln_rel = rel, ln_params = []\<rparr>]\<rparr>"

definition lh_first where "lh_first = lh_add ''first''"
definition lh_next where "lh_next = lh_add ''next''"
definition lh_current where "lh_current = lh_add ''current''"
definition lh_previous where "lh_previous = lh_add ''previous''"
definition lh_last where "lh_last = lh_add ''last''"

definition lh_header :: "link_header \<Rightarrow> string" where
  "lh_header lh = format_links (lh_links lh)"

section \<open>Reading what was written\<close>

text \<open>The values that survive: visible or blank ASCII characters, no quotation mark or backslash.\<close>

definition value_char :: "char \<Rightarrow> bool" where
  "value_char c \<longleftrightarrow> (32::nat) \<le> of_char c \<and> of_char c < (127::nat) \<and> c \<notin> {CHR 0x22, CHR 0x5C}"

definition value_ok :: "string \<Rightarrow> bool" where
  "value_ok v \<longleftrightarrow> v \<noteq> [] \<and> list_all value_char v"

definition key_ok :: "string \<Rightarrow> bool" where
  "key_ok k \<longleftrightarrow> k \<noteq> [] \<and> list_all token_char k \<and> to_lower k = k"

definition link_ok :: "link \<Rightarrow> bool" where
  "link_ok l \<longleftrightarrow> CHR ''>'' \<notin> set (ln_uri l) \<and> value_ok (ln_rel l) \<and> wf_map (ln_params l) \<and>
     list_all (\<lambda>(k, v). key_ok k \<and> k \<noteq> ''rel'' \<and> value_ok v) (ln_params l)"

lemma decode_rune_ascii: "of_char c < (128::nat) \<Longrightarrow> decode_rune (c # s) = (of_char c, 1)"
  by (simp add: decode_rune_def Let_def)

lemma quoted_value:
  assumes "list_all value_char v"
  shows "quoted False (v @ CHR 0x22 # rest) = Some (v, rest)"
  using assms
proof (induction v)
  case Nil
  show ?case by (simp add: quoted.simps [of False "CHR 0x22 # rest"] decode_rune_ascii)
next
  case (Cons c v)
  let ?n = "of_char c :: nat"
  have n: "32 \<le> ?n" "?n < 127" "c \<noteq> CHR 0x22" "c \<noteq> CHR 0x5C" using Cons.prems by (auto simp: value_char_def)
  then have "?n \<noteq> 0x22" "?n \<noteq> 0x5C" by (auto simp: char_code_eq)
  moreover have "encode_rune ?n = [c]" using n by (simp add: encode_rune_def)
  ultimately show ?case
    using n Cons by (simp add: quoted.simps [of False "c # v @ CHR 0x22 # rest"] decode_rune_ascii)
qed

lemma consume_value_quoted:
  "value_ok v \<Longrightarrow> consume_value (CHR 0x22 # v @ CHR 0x22 # rest) = Some (v, rest)"
  by (simp add: consume_value_def value_ok_def quoted_value)

lemma consume_token_key:
  assumes "k \<noteq> []" "list_all token_char k"
  shows "consume_token (k @ CHR ''='' # rest) = (Some k, CHR ''='' # rest)"
proof -
  have "takeWhile token_char (k @ CHR ''='' # rest) = k"
    using assms(2) by (subst takeWhile_append2) (auto simp: list_all_iff token_char_def)
  with assms(1) show ?thesis by (simp add: consume_token_def Let_def)
qed

lemma trim_left_id:
  assumes "graphic c"
  shows "trim_left_space (c # s) = c # s"
proof -
  have "\<not> has_prefix (c # s) e" if "e \<in> set space_encodings" for e
  proof -
    have "e \<noteq> []" using that Nil_notin_space_encodings(1) by metis
    then show ?thesis using graphic_not_space [OF assms that] by (cases e) auto
  qed
  then show ?thesis unfolding trim_left_space_def by (intro trim_with_id) auto
qed

lemma trim_left_blank: "graphic c \<Longrightarrow> trim_left_space (CHR '' '' # c # s) = c # s"
proof -
  assume g: "graphic c"
  have "find (has_prefix (CHR '' '' # c # s)) space_encodings = Some '' ''"
    by (simp add: space_encodings_def has_prefix_def)
  moreover have "trim_with space_encodings (Suc (length s)) (c # s) = c # s"
    using trim_left_id [OF g, of s] by (simp add: trim_left_space_def)
  ultimately show ?thesis by (simp add: trim_left_space_def)
qed

lemma graphic_marks [simp]: "graphic (CHR ''='')" "graphic (CHR 0x22)" "graphic (CHR ''<'')" "graphic (CHR '','')" "graphic (CHR '';'')"
  by (simp_all add: graphic_def)

lemma consume_param_written:
  assumes "key_ok k" "value_ok v"
  shows "consume_param (k @ ''='' @ [CHR 0x22] @ v @ [CHR 0x22] @ rest) = Some (k, v, rest)"
  using assms consume_token_key [of k "CHR 0x22 # v @ CHR 0x22 # rest"] consume_value_quoted [of v rest]
  by (simp add: consume_param_def key_ok_def trim_left_id)

lemma key_graphic: "key_ok k \<Longrightarrow> graphic (hd k) \<and> k \<noteq> []"
  by (cases k) (auto simp: key_ok_def token_char_def graphic_def)

lemma parse_params_semicolon:
  assumes "trim_left_space v = v1" "v1 \<noteq> []" "consume_param v1 = Some (k, x, rest)"
  shows "parse_params (CHR '';'' # v) l = parse_params (trim_left_space rest) (add_param k x l)"
  using assms by (simp add: parse_params.simps [of "CHR '';'' # v"])

lemma parse_params_malformed:
  assumes "trim_left_space v = v1" "v1 \<noteq> []" "consume_param v1 = None"
  shows "parse_params (CHR '';'' # v) l = None"
  using assms by (simp add: parse_params.simps [of "CHR '';'' # v"])

lemma parse_params_comma: "parse_params (CHR '','' # v) l = Some (l, trim_left_space v)"
  by (simp add: parse_params.simps [of "CHR '','' # v"])

lemma parse_params_param:
  assumes "key_ok k" "value_ok v"
  shows "parse_params (link_param k v @ rest) l = parse_params (trim_left_space rest) (add_param k v l)"
proof -
  let ?p = "k @ ''='' @ [CHR 0x22] @ v @ [CHR 0x22] @ rest"
  obtain c k' where k: "k = c # k'" "graphic c" using key_graphic [OF assms(1)] by (cases k) auto
  have "trim_left_space (CHR '' '' # ?p) = ?p"
    using trim_left_blank [OF k(2)] by (simp add: k(1))
  from parse_params_semicolon [OF this _ consume_param_written [OF assms]]
  have "parse_params (CHR '';'' # CHR '' '' # ?p) l = parse_params (trim_left_space rest) (add_param k v l)"
    using k(1) by blast
  then show ?thesis by (simp add: link_param_def)
qed

lemma trim_left_param [simp]: "trim_left_space (link_param k v @ rest) = link_param k v @ rest"
  by (simp add: link_param_def trim_left_id)

definition link_end :: "string \<Rightarrow> bool" where
  "link_end r \<longleftrightarrow> r = [] \<or> hd r = CHR '',''"

lemma trim_left_end: "link_end r \<Longrightarrow> trim_left_space r = r"
  by (cases r) (auto simp: link_end_def trim_left_id, simp add: trim_left_space_def)

text \<open>The parameters that were written, in the order of the keys, are added to the link.\<close>

lemma parse_params_written:
  assumes "list_all (\<lambda>k. key_ok k \<and> value_ok (f k)) ks" "link_end rest"
  shows "parse_params (concat (map (\<lambda>k. link_param k (f k)) ks) @ rest) l =
    parse_params rest (fold (\<lambda>k. add_param k (f k)) ks l)"
  using assms(1)
proof (induction ks arbitrary: l)
  case (Cons k ks)
  then show ?case
  proof (cases ks)
    case Nil
    with Cons.prems assms(2) show ?thesis by (simp add: parse_params_param trim_left_end)
  next
    case (Cons k' ks')
    with Cons.prems Cons.IH [of "add_param k (f k) l"] show ?thesis by (simp add: parse_params_param)
  qed
qed simp

lemma fold_add_params:
  assumes "''rel'' \<notin> set ks"
  shows "fold (\<lambda>k. add_param k (f k)) ks l = l\<lparr>ln_params := fold (\<lambda>k. AList.update k (f k)) ks (ln_params l)\<rparr>"
  using assms by (induction ks arbitrary: l) (auto simp: add_param_def)

lemma fold_update_map_of:
  "map_of (fold (\<lambda>k. AList.update k (f k)) ks m) k = (if k \<in> set ks then Some (f k) else map_of m k)"
  by (induction ks arbitrary: m) auto

definition params_sorted :: "link \<Rightarrow> link" where
  "params_sorted l =
     l\<lparr>ln_params := fold (\<lambda>k. AList.update k (the (map_of (ln_params l) k))) (sort (map fst (ln_params l))) []\<rparr>"

lemma params_sorted_same: "map_of (ln_params (params_sorted l)) = map_of (ln_params l)"
proof
  fix k
  show "map_of (ln_params (params_sorted l)) k = map_of (ln_params l) k"
    by (auto simp: params_sorted_def fold_update_map_of map_of_eq_None_iff split: option.split)
      (metis map_of_eq_None_iff option.collapse)
qed

lemma key_ok_rel [simp]: "key_ok ''rel''"
  by (simp add: key_ok_def token_char_def to_lower_def lower_char_def)

lemma up_to_mark:
  assumes "c \<notin> set u"
  shows "takeWhile (\<lambda>x. x \<noteq> c) (u @ c # s) = u" "dropWhile (\<lambda>x. x \<noteq> c) (u @ c # s) = c # s"
  using assms by (induction u) auto

lemma parse_links_bracketed:
  assumes "CHR ''>'' \<notin> set u" "p \<noteq> []"
  shows "parse_links (CHR ''<'' # u @ CHR ''>'' # p) =
    (case parse_params (trim_left_space p) \<lparr>ln_uri = u, ln_rel = [], ln_params = []\<rparr> of
       None \<Rightarrow> None | Some (l, r) \<Rightarrow> map_option ((#) l) (parse_links r))"
  using assms by (simp add: parse_links.simps [of "CHR ''<'' # u @ CHR ''>'' # p"] up_to_mark Let_def)

lemma link_ok_param:
  assumes "link_ok l" "(k, v) \<in> set (ln_params l)"
  shows "key_ok k" "k \<noteq> ''rel''" "value_ok (the (map_of (ln_params l) k))"
proof -
  have ok: "\<forall>(k, v) \<in> set (ln_params l). key_ok k \<and> k \<noteq> ''rel'' \<and> value_ok v"
    using assms(1) unfolding link_ok_def list_all_iff by blast
  then show "key_ok k" "k \<noteq> ''rel''" using assms(2) by blast+
  obtain x where "map_of (ln_params l) k = Some x"
    using assms(2) by (metis weak_map_of_SomeI)
  with ok show "value_ok (the (map_of (ln_params l) k))" using map_of_SomeD by fastforce
qed

lemma parse_links_written:
  assumes "link_ok l" "link_end rest"
  shows "parse_links (format_link l @ rest) =
    (case parse_params rest (params_sorted l) of None \<Rightarrow> None | Some (l', r) \<Rightarrow> map_option ((#) l') (parse_links r))"
proof -
  let ?f = "\<lambda>k. the (map_of (ln_params l) k)"
  let ?ks = "sort (map fst (ln_params l))"
  let ?ps = "link_param ''rel'' (ln_rel l) @ concat (map (\<lambda>k. link_param k (?f k)) ?ks) @ rest"
  have uri: "CHR ''>'' \<notin> set (ln_uri l)" using assms(1) by (simp add: link_ok_def)
  have ok: "list_all (\<lambda>k. key_ok k \<and> value_ok (?f k)) ?ks" "''rel'' \<notin> set ?ks"
    using link_ok_param [OF assms(1)] by (auto simp: list_all_iff) blast
  let ?l = "\<lparr>ln_uri = ln_uri l, ln_rel = [], ln_params = []\<rparr>"
  have "parse_params ?ps ?l = parse_params (concat (map (\<lambda>k. link_param k (?f k)) ?ks) @ rest) (?l\<lparr>ln_rel := ln_rel l\<rparr>)"
  proof -
    have "trim_left_space (concat (map (\<lambda>k. link_param k (?f k)) ?ks) @ rest) = concat (map (\<lambda>k. link_param k (?f k)) ?ks) @ rest"
      using assms(2) by (cases ?ks) (simp_all add: trim_left_end)
    with assms(1) show ?thesis by (simp add: parse_params_param link_ok_def add_param_def)
  qed
  also have "\<dots> = parse_params rest (params_sorted l)"
    unfolding parse_params_written [OF ok(1) assms(2)] fold_add_params [OF ok(2)]
    by (cases l) (simp add: params_sorted_def)
  finally have "parse_params ?ps ?l = parse_params rest (params_sorted l)" .
  moreover have "trim_left_space ?ps = ?ps" "?ps \<noteq> []" by (simp, simp add: link_param_def)
  ultimately have "parse_links (CHR ''<'' # ln_uri l @ CHR ''>'' # ?ps) =
      (case parse_params rest (params_sorted l) of None \<Rightarrow> None | Some (l', r) \<Rightarrow> map_option ((#) l') (parse_links r))"
    using parse_links_bracketed [OF uri] by simp
  then show ?thesis by (simp add: format_link_def)
qed

lemma parse_format_links:
  "list_all link_ok ls \<Longrightarrow> parse_links (format_links ls) = Some (map params_sorted ls)"
proof (induction ls rule: format_links.induct)
  case 1
  show ?case by (simp add: parse_links.simps [of "[]"])
next
  case (2 l)
  then show ?case
    using parse_links_written [of l "[]"]
    by (simp add: link_end_def parse_params.simps [of "[]"] parse_links.simps [of "[]"])
next
  case (3 l l' ls)
  let ?r = "format_links (l' # ls)"
  obtain s where s: "?r = CHR ''<'' # s" by (cases ls) (auto simp: format_link_def)
  have "parse_params (CHR '','' # CHR '' '' # ?r) k = Some (k, ?r)" for k
    using trim_left_blank [of "CHR ''<''" s] by (simp add: parse_params_comma s del: format_links.simps)
  moreover have "parse_links (format_link l @ CHR '','' # CHR '' '' # ?r) =
      (case parse_params (CHR '','' # CHR '' '' # ?r) (params_sorted l) of None \<Rightarrow> None
       | Some (l', r) \<Rightarrow> map_option ((#) l') (parse_links r))"
    using 3 by (intro parse_links_written) (simp_all add: link_end_def)
  ultimately show ?case using 3 by simp
qed

lemma format_link_ends: "\<exists>s. format_link l = CHR ''<'' # s @ [CHR 0x22]"
proof (cases "sort (map fst (ln_params l))" rule: rev_cases)
  case Nil
  then show ?thesis by (simp add: format_link_def link_param_def)
next
  case (snoc ks k)
  then show ?thesis by (simp add: format_link_def link_param_def)
qed

lemma format_links_ends: "ls \<noteq> [] \<Longrightarrow> \<exists>s. format_links ls = CHR ''<'' # s @ [CHR 0x22]"
proof (induction ls rule: format_links.induct)
  case (3 l l' ls)
  then obtain s t where "format_links (l' # ls) = CHR ''<'' # s @ [CHR 0x22]" "format_link l = CHR ''<'' # t @ [CHR 0x22]"
    using format_link_ends by blast
  then have "format_links (l # l' # ls) = CHR ''<'' # (t @ [CHR 0x22] @ '', '' @ CHR ''<'' # s) @ [CHR 0x22]"
    by (simp del: format_links.simps(2))
  then show ?case by blast
qed (auto simp: format_link_ends)

interpretation link_headers: text_codec format_links parse_link_header "map params_sorted" "list_all link_ok"
proof
  fix ls
  assume ok: "list_all link_ok ls"
  have "trim_space (format_links ls) = format_links ls"
  proof (cases "ls = []")
    case False
    then obtain s where "format_links ls = CHR ''<'' # s @ [CHR 0x22]" using format_links_ends by blast
    then show ?thesis by (intro trim_space_id space_free_graphic) auto
  qed simp
  with parse_format_links [OF ok] show "parse_link_header (format_links ls) = Some (map params_sorted ls)"
    by (simp add: parse_link_header_def)
qed

lemma empty_value_malformed:
  "parse_link_header (format_links [\<lparr>ln_uri = ''u'', ln_rel = [], ln_params = []\<rparr>]) = None"
proof -
  let ?p = "''rel'' @ CHR ''='' # [CHR 0x22, CHR 0x22]"
  have h: "format_links [\<lparr>ln_uri = ''u'', ln_rel = [], ln_params = []\<rparr>] = CHR ''<'' # ''u'' @ CHR ''>'' # CHR '';'' # CHR '' '' # ?p"
    by (simp add: format_link_def link_param_def)
  have t: "trim_space (CHR ''<'' # ''u'' @ CHR ''>'' # CHR '';'' # CHR '' '' # ?p) = CHR ''<'' # ''u'' @ CHR ''>'' # CHR '';'' # CHR '' '' # ?p"
    by (intro trim_space_id space_free_graphic) simp_all
  have "consume_value [CHR 0x22, CHR 0x22] = None"
    by (simp add: consume_value_def quoted.simps [of False "[CHR 0x22]"] decode_rune_ascii)
  then have "consume_param ?p = None"
    using consume_token_key [of "''rel''" "[CHR 0x22, CHR 0x22]"]
    by (simp add: consume_param_def token_char_def trim_left_id)
  moreover have "trim_left_space (CHR '' '' # ?p) = ?p"
    using trim_left_blank [of "CHR ''r''" "''el'' @ CHR ''='' # [CHR 0x22, CHR 0x22]"] by (simp add: graphic_def)
  ultimately have p: "parse_params (CHR '';'' # CHR '' '' # ?p) l = None" for l
    by (intro parse_params_malformed) auto
  have "trim_left_space (CHR '';'' # CHR '' '' # ?p) = CHR '';'' # CHR '' '' # ?p" by (simp add: trim_left_id)
  then have "parse_links (CHR ''<'' # ''u'' @ CHR ''>'' # CHR '';'' # CHR '' '' # ?p) = None"
    by (subst parse_links_bracketed) (simp_all only: p list.simps option.case not_False_eq_True, simp)
  with h t show ?thesis by (simp only: parse_link_header_def)
qed

section \<open>Properties\<close>

text \<open>
  A \<open>Link\<close> header that is written is read back: as many links in the same order, with their
  URIs, relations and parameters, whatever commas, semicolons, equal signs and blanks the values
  have. An empty value is the exception: the header it is written to is malformed.
\<close>

lemma link_header_roundtrip:
  assumes "list_all link_ok ls"
  shows "(\<exists>ms. parse_link_header (format_links ls) = Some ms \<and>
      list_all2 (\<lambda>l m. ln_uri m = ln_uri l \<and> ln_rel m = ln_rel l \<and> map_of (ln_params m) = map_of (ln_params l)) ls ms) \<and>
    parse_link_header (format_links [\<lparr>ln_uri = ''u'', ln_rel = [], ln_params = []\<rparr>]) = None"
proof
  have "list_all2 (\<lambda>l m. ln_uri m = ln_uri l \<and> ln_rel m = ln_rel l \<and> map_of (ln_params m) = map_of (ln_params l))
      ls (map params_sorted ls)"
    using params_sorted_same by (simp add: list_all2_conv_all_nth params_sorted_def)
  then show "\<exists>ms. parse_link_header (format_links ls) = Some ms \<and>
      list_all2 (\<lambda>l m. ln_uri m = ln_uri l \<and> ln_rel m = ln_rel l \<and> map_of (ln_params m) = map_of (ln_params l)) ls ms"
    using link_headers.parse_print [OF assms] by blast
qed (rule empty_value_malformed)

lemma link_header_roundtrip_witness:
  "\<exists>m. parse_link_header (format_links [\<lparr>ln_uri = ''/a'', ln_rel = ''next'', ln_params = [(''title'', ''b, c; d'')]\<rparr>]) = Some [m] \<and>
     map_of (ln_params m) ''title'' = Some ''b, c; d''"
proof -
  let ?l = "\<lparr>ln_uri = ''/a'', ln_rel = ''next'', ln_params = [(''title'', ''b, c; d'')]\<rparr>"
  have "list_all link_ok [?l]" by code_simp
  from link_header_roundtrip [OF this] show ?thesis by (auto simp: list_all2_Cons1)
qed

end
