(* ===== verification/ExportApi.thy ===== *)
theory ExportApi
  imports CentralDb LinkHeader
begin

text \<open>
  The pages of the export interface: the three paged queries of \<open>pkg/central/db/postgres.go\<close>
  and their handlers in \<open>pkg/central/export-api.go\<close>, and a client that follows the links to
  the next page. The handlers ignore an error of the query; a panic is \<open>None\<close>.
\<close>

section \<open>Numbers in a query\<close>

definition atoi :: "string \<Rightarrow> int option" where
  "atoi s =
     (let neg = has_prefix s ''-''; d = (if neg \<or> has_prefix s ''+'' then drop 1 s else s);
          v = (if neg then - int (nat_of_digits d) else int (nat_of_digits d))
      in if d \<noteq> [] \<and> list_all is_digit d \<and> - (2 ^ 63) \<le> v \<and> v < 2 ^ 63 then Some v else None)"

lemma digit_no_sign: "is_digit c \<Longrightarrow> c \<noteq> CHR ''-'' \<and> c \<noteq> CHR ''+''"
  by (auto simp: is_digit_def)

lemma atoi_itoa:
  assumes "0 \<le> i" "i < 2 ^ 63"
  shows "atoi (itoa i) = Some i"
proof -
  obtain c s where c: "show_nat (nat i) = c # s" by (cases "show_nat (nat i)") auto
  with show_nat_digits [of "nat i"] digit_no_sign have "\<not> has_prefix (show_nat (nat i)) ''-''" "\<not> has_prefix (show_nat (nat i)) ''+''"
    by auto
  then show ?thesis
    using assms show_nat_digits [of "nat i"] by (simp add: atoi_def itoa_def list_all_iff)
qed

section \<open>The paged queries\<close>

definition page_length :: nat where "page_length = 1000"

record export_host =
  eh_host :: string
  eh_country :: string
  eh_asn :: string
  eh_sticky :: bool
  eh_action :: string

text \<open>A row with a \<open>NULL\<close> does not scan into the strings of a \<open>HostsPublishLog\<close>.\<close>

definition scan_host :: "(publish_row \<times> string) row \<Rightarrow> export_host option" where
  "scan_host r =
     (let (p, action) = rw_value r in
      case (pb_country p, pb_asn p) of
        (Some cc, Some asn) \<Rightarrow>
          Some \<lparr>eh_host = pb_host p, eh_country = cc, eh_asn = itoa asn, eh_sticky = pb_sticky p, eh_action = action\<rparr>
      | _ \<Rightarrow> None)"

definition scan_sample :: "sample row \<Rightarrow> sample option" where
  "scan_sample r = Some (rw_value r)"

definition scan_simple_sample :: "simple_sample row \<Rightarrow> simple_sample option" where
  "scan_simple_sample r = Some (rw_value r)"

text \<open>\<open>order by id desc limit n + 1\<close>, below \<open>id_max\<close> unless that is 0.\<close>

definition newest_first :: "'a row list \<Rightarrow> 'a row list" where
  "newest_first t = rev (sort_key rw_id t)"

definition page_rows :: "nat \<Rightarrow> int \<Rightarrow> 'a row list \<Rightarrow> 'a row list" where
  "page_rows n id_max t = take (Suc n) (newest_first (filter (\<lambda>r. id_max = 0 \<or> rw_id r < id_max) t))"

text \<open>The loop over the rows: the results, the id of the row past the page, and the row count.\<close>

definition page_step ::
  "nat \<Rightarrow> ('a row \<Rightarrow> 'b option) \<Rightarrow> (int \<times> 'b) list \<times> int option \<times> nat \<Rightarrow> 'a row \<Rightarrow> (int \<times> 'b) list \<times> int option \<times> nat" where
  "page_step n scan acc r =
     (let (results, next, count) = acc in
      case scan r of
        None \<Rightarrow> (results, next, Suc count)
      | Some b \<Rightarrow>
          if n < Suc count then (results, Some (rw_id r), Suc count)
          else (results @ [(rw_id r, b)], next, Suc count))"

definition get_export ::
  "nat \<Rightarrow> ('a row \<Rightarrow> 'b option) \<Rightarrow> string option \<Rightarrow> int \<Rightarrow> 'a row list \<Rightarrow> string + (int \<times> 'b) list \<times> int option" where
  "get_export n scan fault id_max t =
     (case fault of
        Some e \<Rightarrow> Inl e
      | None \<Rightarrow> (let (results, next, _) = foldl (page_step n scan) ([], None, 0) (page_rows n id_max t) in Inr (results, next)))"

definition get_export_blocked_hosts where
  "get_export_blocked_hosts fault id_max db = get_export page_length scan_host fault id_max (db_publish_log db)"

definition get_export_samples where
  "get_export_samples fault id_max db = get_export page_length scan_sample fault id_max (db_samples db)"

definition get_export_simple_samples where
  "get_export_simple_samples fault id_max db = get_export page_length scan_simple_sample fault id_max (db_simple db)"

section \<open>The handlers\<close>

record 'b page =
  pg_items :: "(int \<times> 'b) list"
  pg_current :: "int option"
  pg_next :: "int option"

definition export_page :: "string + (int \<times> 'b) list \<times> int option \<Rightarrow> 'b page option" where
  "export_page result =
     (let (items, next) = (case result of Inl e \<Rightarrow> ([], None) | Inr r \<Rightarrow> r) in
      if next \<noteq> None \<and> items = [] then None
      else Some \<lparr>pg_items = items, pg_current = (if items = [] then None else Some (fst (hd items))),
                 pg_next = (if next = None then None else Some (fst (last items)))\<rparr>)"

definition id_max_param :: "string \<Rightarrow> int option" where
  "id_max_param p = (if p = [] then Some 0 else atoi p)"

definition export_handler :: "(int \<Rightarrow> string + (int \<times> 'b) list \<times> int option) \<Rightarrow> string \<Rightarrow> 'b page option" where
  "export_handler query p = (case id_max_param p of None \<Rightarrow> None | Some m \<Rightarrow> export_page (query m))"

definition blocked_hosts_export where
  "blocked_hosts_export fault db = export_handler (\<lambda>m. get_export_blocked_hosts fault m db)"

definition samples_export where
  "samples_export fault db = export_handler (\<lambda>m. get_export_samples fault m db)"

definition simple_samples_export where
  "simple_samples_export fault db = export_handler (\<lambda>m. get_export_simple_samples fault m db)"

text \<open>The \<open>Link\<close> header of a page; \<open>page_uri\<close> is the URL of the request with another \<open>id_max\<close>.\<close>

definition page_header :: "(string \<Rightarrow> string) \<Rightarrow> 'b page \<Rightarrow> string" where
  "page_header page_uri pg =
     (let lh0 = new_link_header page_uri;
          lh1 = (case pg_current pg of None \<Rightarrow> lh0 | Some i \<Rightarrow> lh_current (itoa i) lh0);
          lh2 = (case pg_next pg of None \<Rightarrow> lh1 | Some i \<Rightarrow> lh_next (itoa i) lh1)
      in lh_header lh2)"

text \<open>The login of an export user: any error is a refusal.\<close>

definition export_login ::
  "(string \<Rightarrow> string \<Rightarrow> string) \<Rightarrow> string option \<Rightarrow> string \<Rightarrow> string \<Rightarrow> database \<Rightarrow> bool" where
  "export_login kdf fault user password db =
     (case get_export_credentials fault user db of
        Inl e \<Rightarrow> False
      | Inr None \<Rightarrow> False
      | Inr (Some c) \<Rightarrow> (case is_valid_password kdf password c of (ok, None) \<Rightarrow> ok | (ok, Some e) \<Rightarrow> False))"

section \<open>Following the links\<close>

text \<open>A client that asks for the page of each next link; \<open>None\<close> also when that never ends.\<close>

partial_function (option) crawl :: "(string \<Rightarrow> 'b page option) \<Rightarrow> string \<Rightarrow> (int \<times> 'b) list option" where
  "crawl handler p =
     (case handler p of
        None \<Rightarrow> None
      | Some pg \<Rightarrow>
          (case pg_next pg of
             None \<Rightarrow> Some (pg_items pg)
           | Some i \<Rightarrow> Option.bind (crawl handler (itoa i)) (\<lambda>rest. Some (pg_items pg @ rest))))"

section \<open>Lemmas\<close>

lemma page_step_plain:
  assumes "\<And>r. r \<in> set rs \<Longrightarrow> scan r = Some (f r)" "length xs + length rs \<le> n"
  shows "foldl (page_step n scan) (xs, None, length xs) rs =
    (xs @ map (\<lambda>r. (rw_id r, f r)) rs, None, length xs + length rs)"
  using assms
proof (induction rs arbitrary: xs)
  case (Cons r rs)
  then show ?case
    using Cons.IH [of "xs @ [(rw_id r, f r)]"] by (simp add: page_step_def)
qed simp

lemma get_export_page:
  fixes m :: int
  assumes "\<And>r. r \<in> set t \<Longrightarrow> scan r = Some (f r)"
  defines "rs \<equiv> newest_first (filter (\<lambda>r. m = 0 \<or> rw_id r < m) t)"
  shows "get_export n scan None m t =
    Inr (map (\<lambda>r. (rw_id r, f r)) (take n rs), if n < length rs then Some (rw_id (rs ! n)) else None)"
proof -
  have ok: "scan r = Some (f r)" if "r \<in> set rs" for r
    using that assms(1) by (auto simp: rs_def newest_first_def)
  then have takes: "scan r = Some (f r)" if "r \<in> set (take n rs)" for r
    using that by (auto dest: in_set_takeD)
  have p: "page_rows n m t = take (Suc n) rs" by (simp add: page_rows_def rs_def)
  show ?thesis
  proof (cases "n < length rs")
    case True
    then have "take (Suc n) rs = take n rs @ [rs ! n]" by (rule take_Suc_conv_app_nth)
    with True show ?thesis
      using page_step_plain [of "take n rs" scan f "[]" n, OF takes] ok [of "rs ! n"]
      by (simp add: get_export_def p page_step_def)
  next
    case False
    then show ?thesis
      using page_step_plain [of rs scan f "[]" n, OF ok] by (simp add: get_export_def p)
  qed
qed

lemma newest_first_filter: "newest_first (filter P t) = filter P (newest_first t)"
  by (simp add: newest_first_def filter_sort [symmetric] rev_filter)

lemma newest_first_desc:
  assumes "ids_ok t"
  shows "sorted_wrt (\<lambda>a b. rw_id b < rw_id a) (newest_first t)"
proof -
  have "sorted_wrt (<) (map rw_id t)" using assms by (simp add: ids_ok_def)
  then have "sort_key rw_id t = t"
    by (intro sort_key_id_if_sorted strict_sorted_imp_sorted)
  with assms show ?thesis by (simp add: newest_first_def ids_ok_def sorted_wrt_rev sorted_wrt_map)
qed

lemma newest_first_sorted: "ids_ok t \<Longrightarrow> newest_first t = rev t"
  using sort_key_id_if_sorted [of rw_id t] by (simp add: newest_first_def ids_ok_def strict_sorted_imp_sorted)

text \<open>Below the last row of a page are exactly the rows after it.\<close>

lemma filter_below:
  assumes "sorted_wrt (\<lambda>a b. rw_id b < rw_id a) rs" "k < length rs"
  shows "filter (\<lambda>r. rw_id r < rw_id (rs ! k)) rs = drop (Suc k) rs"
  using assms
proof (induction rs arbitrary: k)
  case (Cons r rs)
  show ?case
  proof (cases k)
    case 0
    with Cons.prems show ?thesis by (auto intro: filter_True)
  next
    case (Suc j)
    with Cons.prems have "\<not> rw_id r < rw_id (rs ! j)" by (simp add: not_less less_imp_le)
    moreover have "filter (\<lambda>r. rw_id r < rw_id (rs ! j)) rs = drop (Suc j) rs"
      using Cons.IH [of j] Cons.prems Suc by simp
    ultimately show ?thesis by (simp add: Suc)
  qed
qed simp

text \<open>A crawl below \<open>m\<close> gets the rows below \<open>m\<close>, by induction on their number.\<close>

lemma crawl_rows:
  fixes t :: "'a row list" and f :: "'a row \<Rightarrow> 'b"
  assumes ids: "ids_ok t" "\<And>r. r \<in> set t \<Longrightarrow> rw_id r < 2 ^ 63"
    and scan: "\<And>r. r \<in> set t \<Longrightarrow> scan r = Some (f r)" and n: "0 < n"
  defines "query \<equiv> (\<lambda>m. get_export n scan None m t)"
  assumes p: "id_max_param p = Some m"
  shows "crawl (export_handler query) p =
    Some (map (\<lambda>r. (rw_id r, f r)) (filter (\<lambda>r. m = 0 \<or> rw_id r < m) (newest_first t)))"
  using p
proof (induction "length (filter (\<lambda>r. m = 0 \<or> rw_id r < m) (newest_first t))" arbitrary: m p rule: less_induct)
  case less
  define rs where "rs = filter (\<lambda>r. m = 0 \<or> rw_id r < m) (newest_first t)"
  have q: "query m = Inr (map (\<lambda>r. (rw_id r, f r)) (take n rs), if n < length rs then Some (rw_id (rs ! n)) else None)"
    unfolding query_def rs_def newest_first_filter [symmetric] by (rule get_export_page) (rule scan)
  have mem: "r \<in> set t" if "r \<in> set rs" for r
    using that by (auto simp: rs_def newest_first_def)
  have desc: "sorted_wrt (\<lambda>a b. rw_id b < rw_id a) rs"
    unfolding rs_def using newest_first_desc [OF ids(1)] by (rule sorted_wrt_filter)
  show ?case
  proof (cases "n < length rs")
    case False
    then have "crawl (export_handler query) p = Some (map (\<lambda>r. (rw_id r, f r)) rs)"
      using less.prems by (subst crawl.simps) (simp add: export_handler_def q export_page_def)
    then show ?thesis by (simp add: rs_def)
  next
    case True
    define x where "x = rs ! (n - 1)"
    have ne: "take n rs \<noteq> []" using True n by auto
    have x: "x \<in> set rs" "last (take n rs) = x"
      using True n by (auto simp: x_def last_conv_nth [OF ne])
    have pos: "0 < rw_id x" "rw_id x < 2 ^ 63" using ids mem [OF x(1)] by (auto simp: ids_ok_def)
    have link: "id_max_param (itoa (rw_id x)) = Some (rw_id x)"
      using pos atoi_itoa [of "rw_id x"] by (auto simp: id_max_param_def itoa_def)
    have "filter (\<lambda>r. rw_id x = 0 \<or> rw_id r < rw_id x) (newest_first t) = filter (\<lambda>r. rw_id r < rw_id x) rs"
      using pos x(1) by (auto simp: rs_def intro!: filter_cong)
    also have "\<dots> = drop n rs"
      using filter_below [OF desc, of "n - 1"] True n by (simp add: x_def)
    finally have below: "filter (\<lambda>r. rw_id x = 0 \<or> rw_id r < rw_id x) (newest_first t) = drop n rs" .
    have "crawl (export_handler query) (itoa (rw_id x)) = Some (map (\<lambda>r. (rw_id r, f r)) (drop n rs))"
      using less.hyps [OF _ link] below True n by (simp add: rs_def [symmetric])
    then have "crawl (export_handler query) p = Some (map (\<lambda>r. (rw_id r, f r)) (take n rs @ drop n rs))"
      using less.prems True x ne
      by (subst crawl.simps) (simp add: export_handler_def q export_page_def last_map del: append_take_drop_id)
    then show ?thesis by (simp add: rs_def)
  qed
qed

text \<open>
  What a handler answers, with the rows and the links, for every query: a parameter that is no
  number is a panic, and so is a next page after a page none of whose rows could be read; an
  error of the database is answered with an empty page.
\<close>

lemma export_pages:
  "(p \<noteq> [] \<longrightarrow> atoi p = None \<longrightarrow> export_handler query p = None) \<and>
   (id_max_param p = Some m \<longrightarrow> query m = Inr ([], Some i) \<longrightarrow> export_handler query p = None) \<and>
   (id_max_param p = Some m \<longrightarrow> query m = Inl e \<longrightarrow>
     export_handler query p = Some \<lparr>pg_items = [], pg_current = None, pg_next = None\<rparr>)"
  by (auto simp: export_handler_def id_max_param_def export_page_def)

text \<open>A client that parses the header finds the page it is on and the next one.\<close>

lemma page_header_links:
  assumes "\<And>i. CHR ''>'' \<notin> set (page_uri i)"
  shows "parse_link_header (page_header page_uri pg) =
    Some ((case pg_current pg of None \<Rightarrow> [] | Some i \<Rightarrow> [\<lparr>ln_uri = page_uri (itoa i), ln_rel = ''current'', ln_params = []\<rparr>]) @
          (case pg_next pg of None \<Rightarrow> [] | Some i \<Rightarrow> [\<lparr>ln_uri = page_uri (itoa i), ln_rel = ''next'', ln_params = []\<rparr>]))"
proof -
  define ls where "ls = (case pg_current pg of None \<Rightarrow> [] | Some i \<Rightarrow> [\<lparr>ln_uri = page_uri (itoa i), ln_rel = ''current'', ln_params = []\<rparr>]) @
          (case pg_next pg of None \<Rightarrow> [] | Some i \<Rightarrow> [\<lparr>ln_uri = page_uri (itoa i), ln_rel = ''next'', ln_params = []\<rparr>])"
  have "page_header page_uri pg = format_links ls"
    by (simp add: page_header_def lh_header_def new_link_header_def lh_current_def lh_next_def lh_add_def ls_def split: option.split)
  moreover have "list_all link_ok ls"
    using assms by (simp add: ls_def link_ok_def value_ok_def value_char_def split: option.split)
  moreover have "map params_sorted ls = ls"
    by (simp add: ls_def params_sorted_def split: option.split)
  ultimately show ?thesis using link_headers.parse_print [of ls] by (simp add: ls_def)
qed

lemma export_login_set:
  assumes "set_password kdf (Inr salt) pw c = (c1, None)" "length salt = password_salt_len"
    and "insert_export_credentials None c1 db = (None, db')"
  shows "export_login kdf None (ac_username c) q db' = (kdf pw salt = kdf q salt)"
proof -
  obtain c2 where "get_export_credentials None (ac_username c) db' = Inr (Some c2)"
    "is_valid_password kdf q c2 = (kdf pw salt = kdf q salt, None)"
    using credentials_stored [OF assms] by blast
  then show ?thesis by (simp add: export_login_def)
qed

section \<open>Properties\<close>

text \<open>
  C35. Following the links of the export interface ends and gives every sample once. From the
  first page on, a client that asks for each next page receives all rows of the table, the
  newest first, none twice and none left out at a page boundary, however many pages there are.
\<close>

theorem export_crawl_complete:
  assumes "ids_ok (db_samples db)" "\<And>r. r \<in> set (db_samples db) \<Longrightarrow> rw_id r < 2 ^ 31"
  shows "crawl (samples_export None db) [] = Some (map (\<lambda>r. (rw_id r, rw_value r)) (rev (db_samples db)))"
proof -
  have "rw_id r < 2 ^ 63" if "r \<in> set (db_samples db)" for r
    using assms(2) [OF that] by simp
  from crawl_rows [OF assms(1) this, of scan_sample rw_value page_length "[]" 0]
  have "crawl (samples_export None db) [] = Some (map (\<lambda>r. (rw_id r, rw_value r)) (newest_first (db_samples db)))"
    by (simp add: samples_export_def get_export_samples_def [abs_def] scan_sample_def page_length_def id_max_param_def)
  then show ?thesis by (simp add: newest_first_sorted [OF assms(1)])
qed

lemma export_crawl_complete_witness:
  "crawl (samples_export None (empty_db\<lparr>db_samples := [demo_row, demo_row\<lparr>rw_id := 2\<rparr>]\<rparr>)) [] =
     Some [(2, rw_value demo_row), (1, rw_value demo_row)]"
  by (subst export_crawl_complete) (auto simp: empty_db_def demo_row_def ids_ok_def)

end
