(* ===== verification/ClientAuth.thy ===== *)
theory ClientAuth
  imports NetAddr Contracts
begin

text \<open>
  How a browser gets into the client: \<open>pkg/browsercode\<close> (the code with the key and the address
  of the client that the user copies into the browser extension) and \<open>pkg/client/http.go\<close> (the
  single use keys of the links the client opens, and the check of every request). Random bytes
  and the clock are arguments; a request is what the check reads of it.
\<close>

section \<open>Browser codes\<close>

record browser_code =
  bc_key :: string
  bc_host :: string
  bc_port :: string

definition bc_addr :: "browser_code \<Rightarrow> string" where
  "bc_addr b = bc_host b @ '':'' @ bc_port b"

definition bc_encode :: "browser_code \<Rightarrow> string option" where
  "bc_encode b =
     (let host = (if bc_host b = ''localhost'' then [] else bc_host b);
          host = (if bc_host b = ''127.0.0.1'' then [] else host)
      in if bc_key b = [] then None
         else Some (bc_key b @ '':'' @ host @ '':'' @ bc_port b))"

definition bc_decode :: "string \<Rightarrow> browser_code option" where
  "bc_decode encoded =
     (let parts = split_char (CHR '':'') encoded in
      if length parts \<noteq> 3 then None
      else (let host = (if parts ! 1 = [] then ''localhost'' else parts ! 1)
            in Some \<lparr>bc_key = parts ! 0, bc_host = host, bc_port = parts ! 2\<rparr>))"

text \<open>\<open>None\<close>: the address does not split, or it has no port; the code is then left as it was.\<close>

definition set_hostport :: "string \<Rightarrow> browser_code \<Rightarrow> browser_code option" where
  "set_hostport hostport b =
     (case split_host_port hostport of
        Inl e \<Rightarrow> None
      | Inr (host, port) \<Rightarrow>
          if port = [] then None
          else Some (b\<lparr>bc_port := port, bc_host := (if host = [] then ''localhost'' else host)\<rparr>))"

definition browser_key :: "string \<Rightarrow> string" where
  "browser_key bytes = hex_encode bytes"

definition new_browser_code :: "string \<Rightarrow> string \<Rightarrow> browser_code option" where
  "new_browser_code bytes hostport =
     (case set_hostport hostport \<lparr>bc_key = [], bc_host = [], bc_port = []\<rparr> of
        None \<Rightarrow> None
      | Some bc \<Rightarrow> Some (bc\<lparr>bc_key := browser_key bytes\<rparr>))"

lemma hex_encode_no_colon: "CHR '':'' \<notin> set (hex_encode bytes)"
proof -
  have "hex_digit d \<noteq> CHR '':''" if "d < 16" for d
  proof
    assume "hex_digit d = CHR '':''"
    then have "(of_char (hex_digit d) :: nat) = 58" by simp
    with of_char_hex_digit [OF that] show False by (auto split: if_splits)
  qed
  moreover have "of_char (b::char) div 16 < (16::nat)" for b
  proof -
    have "(of_char b :: nat) < 256" by simp
    then show ?thesis by (simp add: less_mult_imp_div_less)
  qed
  ultimately show ?thesis
    by (auto simp: hex_encode_def) (metis mod_less_divisor zero_less_numeral)+
qed

text \<open>What a code means: the names of the own machine become \<open>localhost\<close>.\<close>

definition bc_view :: "browser_code \<Rightarrow> browser_code" where
  "bc_view b = b\<lparr>bc_host := (if bc_host b \<in> {[], ''localhost'', ''127.0.0.1''} then ''localhost'' else bc_host b)\<rparr>"

definition bc_plain :: "browser_code \<Rightarrow> bool" where
  "bc_plain b \<longleftrightarrow> bc_key b \<noteq> [] \<and> CHR '':'' \<notin> set (bc_key b) \<and> CHR '':'' \<notin> set (bc_host b) \<and> CHR '':'' \<notin> set (bc_port b)"

definition bc_text :: "browser_code \<Rightarrow> string" where
  "bc_text b = (case bc_encode b of None \<Rightarrow> [] | Some t \<Rightarrow> t)"

lemma split_three:
  "CHR '':'' \<notin> set a \<Longrightarrow> CHR '':'' \<notin> set b \<Longrightarrow> CHR '':'' \<notin> set c \<Longrightarrow>
   split_char (CHR '':'') (a @ CHR '':'' # b @ CHR '':'' # c) = [a, b, c]"
  using split_join_char [of "[a, b, c]" "CHR '':''"] by simp

interpretation browser_codes: text_codec bc_text bc_decode bc_view bc_plain
proof
  fix b
  assume "bc_plain b"
  then show "bc_decode (bc_text b) = Some (bc_view b)"
    by (auto simp: bc_plain_def bc_text_def bc_encode_def bc_decode_def bc_view_def Let_def split_three)
qed

section \<open>Single use keys\<close>

record key_store =
  ks_entries :: "(string, time) gomap"
  ks_ttl :: time

definition single_use_keys :: key_store where
  "single_use_keys = \<lparr>ks_entries = [], ks_ttl = 5 * 60 * 1000000000\<rparr>"

definition key_delete :: "string \<Rightarrow> key_store \<Rightarrow> key_store" where
  "key_delete k s = s\<lparr>ks_entries := AList.delete k (ks_entries s)\<rparr>"

definition key_insert :: "string \<Rightarrow> time \<Rightarrow> key_store \<Rightarrow> key_store" where
  "key_insert k t s = s\<lparr>ks_entries := AList.update k t (ks_entries s)\<rparr>"

definition key_authenticate :: "time \<Rightarrow> string \<Rightarrow> key_store \<Rightarrow> bool \<times> key_store" where
  "key_authenticate now k s =
     (case map_of (ks_entries s) k of
        Some v \<Rightarrow> (now < v + ks_ttl s, key_delete k s)
      | None \<Rightarrow> (False, s))"

definition key_new :: "string \<Rightarrow> time \<Rightarrow> key_store \<Rightarrow> string \<times> key_store" where
  "key_new bytes now s = (let k = hex_encode bytes in (k, key_insert k now s))"

definition keys_before :: "time \<Rightarrow> key_store \<Rightarrow> key_store" where
  "keys_before th s = fold key_delete (map fst (filter (\<lambda>(k, v). v < th) (ks_entries s))) s"

definition key_cleanup :: "time \<Rightarrow> key_store \<Rightarrow> key_store" where
  "key_cleanup now s = keys_before (now - ks_ttl s) s"

definition key_lookup :: "key_store \<Rightarrow> string \<Rightarrow> time option" where
  "key_lookup s k = map_of (ks_entries s) k"

definition keys_ok :: "key_store \<Rightarrow> bool" where
  "keys_ok s \<longleftrightarrow> wf_map (ks_entries s)"

lemma fold_key_delete:
  "key_lookup (fold key_delete ks s) k = (if k \<in> set ks then None else key_lookup s k)"
  "keys_ok s \<Longrightarrow> keys_ok (fold key_delete ks s)" "ks_ttl (fold key_delete ks s) = ks_ttl s"
  by (induction ks arbitrary: s) (auto simp: key_delete_def key_lookup_def keys_ok_def)

interpretation use_keys: expiring_store key_lookup key_insert key_delete keys_ok "\<lambda>t. t" keys_before
proof
  fix s :: key_store and th k
  assume ok: "keys_ok s"
  have "k \<in> set (map fst (filter (\<lambda>(k, v). v < th) (ks_entries s))) \<longleftrightarrow> (\<exists>v. key_lookup s k = Some v \<and> v < th)"
    using ok by (force simp: key_lookup_def map_of_wf keys_ok_def)
  then show "key_lookup (keys_before th s) k = (case key_lookup s k of None \<Rightarrow> None | Some v \<Rightarrow> if v < th then None else Some v)"
    unfolding keys_before_def fold_key_delete(1) by (auto split: option.split)
qed (auto simp: key_lookup_def key_insert_def key_delete_def keys_ok_def keys_before_def fold_key_delete
    intro: fold_key_delete(2) [unfolded keys_ok_def])

section \<open>The check of a request\<close>

record auth_request =
  aq_suk :: string
  aq_auth_key :: string
  aq_authorization :: string
  aq_cookie :: "string option"

record auth_reply =
  ar_served :: bool
  ar_cookies :: "string list"

definition bearer :: string where "bearer = ''Bearer ''"

definition bearer_key :: "auth_request \<Rightarrow> string option" where
  "bearer_key r = (if has_prefix (aq_authorization r) bearer then Some (trim_prefix (aq_authorization r) bearer) else None)"

text \<open>Each way is only tried while the request is not authenticated, the single use key first.\<close>

definition auth_serve :: "string \<Rightarrow> time \<Rightarrow> auth_request \<Rightarrow> key_store \<Rightarrow> auth_reply \<times> key_store" where
  "auth_serve key now r s =
     (let (ok1, s1) = key_authenticate now (aq_suk r) s;
          cookies1 = (if ok1 then [key] else []);
          ok2 = (ok1 \<or> aq_auth_key r = key);
          cookies2 = (if \<not> ok1 \<and> aq_auth_key r = key then cookies1 @ [aq_auth_key r] else cookies1);
          ok3 = (ok2 \<or> bearer_key r = Some key);
          ok4 = (ok3 \<or> aq_cookie r = Some key)
      in (\<lparr>ar_served = ok4, ar_cookies = cookies2\<rparr>, s1))"

datatype auth_event =
    New_Key string time
  | Auth_Request time auth_request
  | Clean_Up time

fun auth_step :: "string \<Rightarrow> key_store \<Rightarrow> auth_event \<Rightarrow> key_store" where
  "auth_step key s (New_Key bytes now) = snd (key_new bytes now s)"
| "auth_step key s (Auth_Request now r) = snd (auth_serve key now r s)"
| "auth_step key s (Clean_Up now) = key_cleanup now s"

lemma auth_serve_store: "snd (auth_serve key now r s) = snd (key_authenticate now (aq_suk r) s)"
  by (simp add: auth_serve_def Let_def split: prod.split)

lemma key_authenticate_lookup:
  "key_lookup (snd (key_authenticate now k s)) k' = (if k' = k then None else key_lookup s k')"
  by (auto simp: key_authenticate_def key_lookup_def key_delete_def split: option.split)

lemma auth_step_ttl [simp]: "ks_ttl (auth_step key s e) = ks_ttl s"
  by (cases e) (auto simp: auth_serve_store key_authenticate_def key_new_def key_insert_def key_delete_def key_cleanup_def
      keys_before_def fold_key_delete Let_def split: option.split)

interpretation auth_run: guarded_machine "auth_step key" keys_ok for key
proof
  fix s e
  assume ok: "keys_ok s"
  then show "keys_ok (auth_step key s e)"
    using use_keys.inv_insert use_keys.inv_remove use_keys.inv_expire
    by (cases e) (auto simp: auth_serve_store key_authenticate_def key_new_def key_cleanup_def Let_def split: option.split)
qed

lemma auth_step_lookup:
  assumes "keys_ok s"
  shows "key_lookup (auth_step key s e) k =
    (case e of
       New_Key bytes now \<Rightarrow> if k = hex_encode bytes then Some now else key_lookup s k
     | Auth_Request now r \<Rightarrow> if k = aq_suk r then None else key_lookup s k
     | Clean_Up now \<Rightarrow>
         (case key_lookup s k of None \<Rightarrow> None | Some v \<Rightarrow> if v < now - ks_ttl s then None else Some v))"
  using use_keys.lookup_insert [OF assms] use_keys.lookup_expire [OF assms]
  by (cases e) (auto simp: auth_serve_store key_authenticate_lookup key_new_def key_cleanup_def Let_def split: option.split)

definition touches :: "string \<Rightarrow> auth_event \<Rightarrow> bool" where
  "touches k e \<longleftrightarrow> (case e of New_Key bytes _ \<Rightarrow> hex_encode bytes = k | Auth_Request _ r \<Rightarrow> aq_suk r = k | Clean_Up _ \<Rightarrow> False)"

lemma auth_run_ttl [simp]: "ks_ttl (foldl (auth_step key) s es) = ks_ttl s"
  by (induction es arbitrary: s) auto

lemma untouched_key:
  assumes "keys_ok s" "key_lookup s k = Some t" "list_all (\<lambda>e. \<not> touches k e) es"
  shows "key_lookup (foldl (auth_step key) s es) k =
    (if list_ex (\<lambda>e. \<exists>c. e = Clean_Up c \<and> t < c - ks_ttl s) es then None else Some t)"
  using assms(3)
proof (induction es rule: rev_induct)
  case (snoc e es)
  have "keys_ok (foldl (auth_step key) s es)" by (rule auth_run.run_good) (rule assms(1))
  from auth_step_lookup [OF this, of key e k] snoc show ?case
    by (cases e) (auto simp: touches_def)
qed (simp add: assms(2))

section \<open>Properties\<close>

text \<open>
  A single use key admits one request, for less than five minutes. Whatever keys were made,
  requests checked and clean-ups run, a key that was not presented since it was made is good
  exactly until five minutes after that, and it is gone once it has been presented, good or not.
\<close>

lemma single_use_key_admits_once:
  assumes "key_new bytes t (foldl (auth_step key) single_use_keys before) = (k, s)"
    and "list_all (\<lambda>e. \<not> touches k e) after" "list_all (\<lambda>e. \<forall>c. e = Clean_Up c \<longrightarrow> c \<le> now) after"
  shows "let (good, s') = key_authenticate now k (foldl (auth_step key) s after)
    in good = (now < t + 5 * 60 * 1000000000) \<and> key_lookup s' k = None"
proof -
  let ?s = "foldl (auth_step key) single_use_keys before"
  have ok: "keys_ok ?s" by (rule auth_run.run_good) (simp add: keys_ok_def single_use_keys_def)
  have k: "k = hex_encode bytes" and s: "s = auth_step key ?s (New_Key bytes t)"
    using assms(1) by (auto simp: key_new_def Let_def)
  have ok1: "keys_ok s" unfolding s using ok by (rule auth_run.step_good)
  have ttl: "ks_ttl s = 5 * 60 * 1000000000" unfolding s auth_step_ttl auth_run_ttl by (simp add: single_use_keys_def)
  have look: "key_lookup s k = Some t" unfolding s auth_step_lookup [OF ok] by (simp add: k)
  have now: "now < t + ks_ttl s \<longrightarrow> \<not> list_ex (\<lambda>e. \<exists>c. e = Clean_Up c \<and> t < c - ks_ttl s) after"
    using assms(3) by (fastforce simp: list_ex_iff list_all_iff)
  let ?e = "foldl (auth_step key) s after"
  have "fst (key_authenticate now k ?e) = (now < t + ks_ttl s)"
    using untouched_key [OF ok1 look assms(2), of key] now
    by (auto simp: key_authenticate_def key_lookup_def split: if_splits)
  then show ?thesis
    using key_authenticate_lookup [of now k ?e k] ttl by (simp add: split_beta)
qed

lemma hex_ab: "hex_encode ''ab'' = ''6162''" by code_simp

lemma single_use_key_admits_once_witness:
  "key_authenticate 299999999999 ''6162'' (foldl (auth_step ''x'') (snd (key_new ''ab'' 0 single_use_keys)) [Clean_Up 299999999999]) =
     (True, single_use_keys)"
proof -
  have n: "key_new ''ab'' 0 (foldl (auth_step ''x'') single_use_keys []) = (''6162'', snd (key_new ''ab'' 0 single_use_keys))"
    by (simp add: key_new_def hex_ab Let_def)
  let ?r = "key_authenticate 299999999999 ''6162'' (foldl (auth_step ''x'') (snd (key_new ''ab'' 0 single_use_keys)) [Clean_Up 299999999999])"
  have "fst ?r"
    using single_use_key_admits_once [OF n, of "[Clean_Up 299999999999]" 299999999999]
    by (simp add: touches_def split_beta Let_def)
  moreover have "snd ?r = single_use_keys"
    by (simp add: key_new_def key_insert_def single_use_keys_def key_cleanup_def keys_before_def hex_ab
        key_authenticate_def key_delete_def Let_def)
  ultimately show ?thesis by (simp add: prod_eq_iff)
qed

text \<open>
  A request is let in exactly with a single use key that is still good or with the
  authentication key itself, as a parameter, a bearer token or a cookie. Since a missing
  parameter reads as the empty text, an empty authentication key lets every request in.
\<close>

lemma requests_let_in:
  "(ar_served (fst (auth_serve key now r s)) \<longleftrightarrow>
     (\<exists>v. key_lookup s (aq_suk r) = Some v \<and> now < v + ks_ttl s) \<or> aq_auth_key r = key \<or>
     aq_authorization r = ''Bearer '' @ key \<or> aq_cookie r = Some key) \<and>
   ar_served (fst (auth_serve [] now \<lparr>aq_suk = [], aq_auth_key = [], aq_authorization = [], aq_cookie = None\<rparr> s))"
proof
  have "bearer_key r = Some key \<longleftrightarrow> aq_authorization r = ''Bearer '' @ key"
    unfolding bearer_key_def bearer_def [symmetric] by (auto simp: has_prefix_iff)
  then show "ar_served (fst (auth_serve key now r s)) \<longleftrightarrow>
     (\<exists>v. key_lookup s (aq_suk r) = Some v \<and> now < v + ks_ttl s) \<or> aq_auth_key r = key \<or>
     aq_authorization r = ''Bearer '' @ key \<or> aq_cookie r = Some key"
    by (auto simp: auth_serve_def key_authenticate_def key_lookup_def Let_def split: option.split)
qed (simp add: auth_serve_def Let_def split: prod.split)

text \<open>
  The code a client shows is understood by the browser extension's decoder: it gives the key
  and the port the client listens on, and its host, the own machine as \<open>localhost\<close>. An IPv6
  address is the exception: its code cannot be decoded.
\<close>

lemma browser_code_roundtrip:
  assumes "split_host_port hp = Inr (host, port)" "port \<noteq> []" "CHR '':'' \<notin> set port" "bytes \<noteq> []"
  shows "\<exists>b t. new_browser_code bytes hp = Some b \<and> bc_encode b = Some t \<and>
    bc_decode t = (if CHR '':'' \<in> set host then None
      else Some \<lparr>bc_key = hex_encode bytes,
                 bc_host = (if host \<in> {[], ''localhost'', ''127.0.0.1''} then ''localhost'' else host), bc_port = port\<rparr>)"
proof -
  let ?h = "if host = [] then ''localhost'' else host"
  let ?b = "\<lparr>bc_key = hex_encode bytes, bc_host = ?h, bc_port = port\<rparr>"
  have b: "new_browser_code bytes hp = Some ?b"
    using assms by (simp add: new_browser_code_def set_hostport_def browser_key_def)
  have key: "hex_encode bytes \<noteq> []" "CHR '':'' \<notin> set (hex_encode bytes)"
    using assms(4) length_hex_encode [of bytes] hex_encode_no_colon by (auto simp flip: length_greater_0_conv)
  obtain t where t: "bc_encode ?b = Some t" using key by (simp add: bc_encode_def Let_def)
  show ?thesis
  proof (cases "CHR '':'' \<in> set host")
    case False
    then have "bc_plain ?b" using key assms(3) by (simp add: bc_plain_def)
    from browser_codes.parse_print [OF this] t have "bc_decode t = Some (bc_view ?b)" by (simp add: bc_text_def)
    with False b t show ?thesis by (auto simp: bc_view_def)
  next
    case True
    then have "length (split_char (CHR '':'') t) \<noteq> 3"
      using t key count_list_0_iff [of host "CHR '':''"]
      by (auto simp: bc_encode_def length_split_char Let_def split: if_splits)
    with True b t show ?thesis by (simp add: bc_decode_def Let_def)
  qed
qed

lemma browser_code_roundtrip_witness:
  "\<exists>b t. new_browser_code ''ab'' ''127.0.0.1:8899'' = Some b \<and> bc_encode b = Some t \<and>
     bc_decode t = Some \<lparr>bc_key = ''6162'', bc_host = ''localhost'', bc_port = ''8899''\<rparr>"
proof -
  have h: "split_host_port ''127.0.0.1:8899'' = Inr (''127.0.0.1'', ''8899'')"
    by (simp add: split_host_port_def last_index_def)
  from browser_code_roundtrip [OF h, of "''ab''"] hex_ab show ?thesis by simp
qed

end
