(* ===== verification/Analysis.thy ===== *)
theory Analysis
  imports CentralDb Complex_Main
begin

text \<open>
  \<open>pkg/central/analysis\<close>: the samples of a session are organised, scored and its host is
  published. The workers and their channels are a machine whose steps take any waiting element,
  interleaved with samples the rest of the server stores. Scores are exact rationals: the code
  computes them in double precision, where none of them comes near the limit.
\<close>

section \<open>Scores (score.go)\<close>

record header_score =
  sc_status :: rat
  sc_redirects :: rat
  sc_error :: rat

definition score :: "header_score \<Rightarrow> rat" where
  "score h = (((1 + sc_status h) / 2 + sc_error h) / 2 + sc_redirects h) / 2"

definition score_status_code :: "int \<Rightarrow> int \<Rightarrow> rat" where
  "score_status_code client central =
     (if central < 400 \<and> 400 < client then 1
      else if client \<noteq> central then 7 / 10
      else if client \<noteq> central then 0
      else 1 / 2)"

definition score_error :: "string \<Rightarrow> string \<Rightarrow> rat" where
  "score_error client central =
     (if central = client then 1 / 2
      else if central = [] \<and> client \<noteq> [] then 1
      else if central \<noteq> [] \<and> client = [] then 1 / 2
      else 1 / 2)"

definition score_redirects :: "redirect list \<Rightarrow> redirect list \<Rightarrow> rat" where
  "score_redirects client central = (if length client = length central then 1 / 2 else 6 / 10)"

definition score_http_headers :: "http_result \<Rightarrow> http_result \<Rightarrow> header_score" where
  "score_http_headers client central =
     \<lparr>sc_status = score_status_code (hr_status client) (hr_status central),
      sc_redirects = score_redirects (hr_redirects client) (hr_redirects central),
      sc_error = score_error (hr_error client) (hr_error central)\<rparr>"

section \<open>Reading a measurement\<close>

definition zero_redirect :: redirect where
  "zero_redirect = \<lparr>rd_status = 0, rd_header = [], rd_url = []\<rparr>"

definition zero_http_result :: http_result where
  "zero_http_result = \<lparr>hr_url = [], hr_header = [], hr_redirects = [], hr_error = [], hr_status = 0\<rparr>"

fun set_text_entries :: "(string \<times> json) list \<Rightarrow> (string, string) gomap \<Rightarrow> (string, string) gomap option" where
  "set_text_entries [] m = Some m"
| "set_text_entries ((k, JStr v) # ms) m = set_text_entries ms (AList.update k v m)"
| "set_text_entries ((k, JNull) # ms) m = set_text_entries ms (AList.update k [] m)"
| "set_text_entries (_ # ms) m = None"

fun set_text_map :: "json \<Rightarrow> (string, string) gomap \<Rightarrow> (string, string) gomap option" where
  "set_text_map (JObj ms) m = set_text_entries ms m"
| "set_text_map JNull m = Some []"
| "set_text_map _ m = None"

definition set_redirect_member :: "string \<times> json \<Rightarrow> redirect \<Rightarrow> redirect option" where
  "set_redirect_member kv r =
     (let (k, v) = kv in
      if key_matches ''status_code'' k then set_int_field (\<lambda>i. rd_status_update (\<lambda>_. i)) v r
      else if key_matches ''header'' k then map_option (\<lambda>m. r\<lparr>rd_header := m\<rparr>) (set_text_map v (rd_header r))
      else if key_matches ''url'' k then set_string_field (\<lambda>s. rd_url_update (\<lambda>_. s)) v r
      else Some r)"

text \<open>A second array is read over the elements of the first.\<close>

fun set_redirect_elems :: "json list \<Rightarrow> redirect list \<Rightarrow> redirect list option" where
  "set_redirect_elems [] old = Some []"
| "set_redirect_elems (j # js) old =
     (case set_struct set_redirect_member j (case old of [] \<Rightarrow> zero_redirect | r # _ \<Rightarrow> r) of
        None \<Rightarrow> None
      | Some r \<Rightarrow> map_option ((#) r) (set_redirect_elems js (tl old)))"

fun set_redirects_field :: "json \<Rightarrow> redirect list \<Rightarrow> redirect list option" where
  "set_redirects_field (JArr js) old = set_redirect_elems js old"
| "set_redirects_field JNull old = Some []"
| "set_redirects_field _ old = None"

definition set_http_member :: "string \<times> json \<Rightarrow> http_result \<Rightarrow> http_result option" where
  "set_http_member kv r =
     (let (k, v) = kv in
      if key_matches ''url'' k then set_string_field (\<lambda>s. hr_url_update (\<lambda>_. s)) v r
      else if key_matches ''response_header'' k then map_option (\<lambda>m. r\<lparr>hr_header := m\<rparr>) (set_text_map v (hr_header r))
      else if key_matches ''redirects'' k then map_option (\<lambda>rs. r\<lparr>hr_redirects := rs\<rparr>) (set_redirects_field v (hr_redirects r))
      else if key_matches ''error'' k then set_string_field (\<lambda>s. hr_error_update (\<lambda>_. s)) v r
      else if key_matches ''status_code'' k then set_int_field (\<lambda>i. hr_status_update (\<lambda>_. i)) v r
      else Some r)"

definition unmarshal_http_result :: "string \<Rightarrow> http_result option" where
  "unmarshal_http_result data =
     (case parse_json data of None \<Rightarrow> None | Some j \<Rightarrow> set_struct set_http_member j zero_http_result)"

section \<open>The samples of a session (analysis.go)\<close>

definition zero_sample :: sample where
  "zero_sample = \<lparr>sa_host = [], sa_country = [], sa_asn = 0, sa_type = [], sa_origin = [], sa_token = [], sa_data = [], sa_extra = []\<rparr>"

record organized =
  og_new :: sample
  og_client :: "(string, sample) gomap"
  og_central :: "(string, sample) gomap"

text \<open>\<open>None\<close> is the second sample of a new token, which ends the analysis of the session.\<close>

fun organize :: "sample list \<Rightarrow> organized \<Rightarrow> organized option" where
  "organize [] og = Some og"
| "organize (s # ss) og =
     (if sa_type s = ''NewClientToken'' then
        (if sa_token (og_new og) \<noteq> [] then None else organize ss (og\<lparr>og_new := s\<rparr>))
      else if sa_type s = ''HTTPHeader'' \<or> sa_type s = ''DNSQuery'' then
        (if sa_origin s = ''Central'' then organize ss (og\<lparr>og_central := AList.update (sa_type s) s (og_central og)\<rparr>)
         else if sa_origin s = ''Client'' then organize ss (og\<lparr>og_client := AList.update (sa_type s) s (og_client og)\<rparr>)
         else organize ss og)
      else organize ss og)"

datatype analysis_result =
    Many_New_Tokens
  | No_New_Token
  | Host_Refused string
  | Missing_Header
  | Bad_Data
  | Publish sample
  | Not_Published

definition analyse :: "sample list \<Rightarrow> analysis_result" where
  "analyse samples =
     (case organize samples \<lparr>og_new = zero_sample, og_client = [], og_central = []\<rparr> of
        None \<Rightarrow> Many_New_Tokens
      | Some og \<Rightarrow>
          if sa_token (og_new og) = [] then No_New_Token
          else if \<not> accepted_host (sa_host (og_new og)) then Host_Refused (sa_host (og_new og))
          else (case map_of (og_client og) ''HTTPHeader'' of
                  None \<Rightarrow> Missing_Header
                | Some client \<Rightarrow>
          (case map_of (og_central og) ''HTTPHeader'' of
                  None \<Rightarrow> Missing_Header
                | Some central \<Rightarrow>
          (case unmarshal_http_result (sa_data client) of
                  None \<Rightarrow> Bad_Data
                | Some client_header \<Rightarrow>
          (case unmarshal_http_result (sa_data central) of
                  None \<Rightarrow> Bad_Data
                | Some central_header \<Rightarrow>
                    if 1 / 2 \<le> score (score_http_headers client_header central_header)
                    then Publish (og_new og) else Not_Published)))))"

definition session_fetch :: "string option \<Rightarrow> string \<Rightarrow> database \<Rightarrow> sample list option" where
  "session_fetch fault token db =
     (if token = [] then None
      else (case get_session_samples fault token db of Inl e \<Rightarrow> None | Inr samples \<Rightarrow> Some samples))"

section \<open>The run of the analysis\<close>

text \<open>
  What waits at the channels of the workers: tokens for \<open>sessionFetcher\<close>, samples of sessions for
  \<open>samplesAnalyzer\<close>, samples for \<open>hostPublisher\<close>. \<open>as_last\<close> and \<open>as_persisted\<close> are the variables
  of \<open>StartAnalysis\<close>.
\<close>

record analysis =
  as_db :: database
  as_last :: nat
  as_persisted :: nat
  as_tokens :: "string list"
  as_batches :: "sample list list"
  as_publish :: "sample list"

definition start_analysis :: "string option \<Rightarrow> database \<Rightarrow> analysis" where
  "start_analysis fault db =
     (let n = (case get_last_processed_id fault db of Inl e \<Rightarrow> 0 | Inr n \<Rightarrow> n) in
      \<lparr>as_db = db, as_last = n, as_persisted = n, as_tokens = [], as_batches = [], as_publish = []\<rparr>)"

definition central_header :: "sample \<Rightarrow> bool" where
  "central_header s \<longleftrightarrow> sa_origin s = ''Central'' \<and> sa_type s = ''HTTPHeader''"

text \<open>The loop over the new samples: the greatest identifier and the tokens that are sent.\<close>

definition scan_results :: "(int \<times> sample) list \<Rightarrow> nat \<Rightarrow> nat \<times> string list" where
  "scan_results results last_id =
     foldl (\<lambda>(l, toks) (i, s). (if l < nat i then nat i else l, if central_header s then toks @ [sa_token s] else toks))
       (last_id, []) results"

text \<open>One tick: \<open>None\<close> when the identifier cannot be saved, which ends the server.\<close>

definition analysis_tick :: "string option \<Rightarrow> string option \<Rightarrow> analysis \<Rightarrow> (string list \<times> analysis) option" where
  "analysis_tick fault fault' a =
     (case get_samples fault (int (as_last a)) (as_db a) of
        Inl e \<Rightarrow> Some ([], a)
      | Inr results \<Rightarrow>
          (let (last_id, toks) = scan_results results (as_last a);
               a' = a\<lparr>as_last := last_id, as_tokens := as_tokens a @ toks\<rparr>
           in if last_id = as_persisted a then Some (toks, a')
              else (case set_last_processed_id fault' last_id (as_db a) of
                      None \<Rightarrow> None
                    | Some db \<Rightarrow> Some (toks, a'\<lparr>as_db := db, as_persisted := last_id\<rparr>))))"

definition pop :: "nat \<Rightarrow> 'a list \<Rightarrow> 'a list" where
  "pop i xs = take i xs @ drop (Suc i) xs"

definition fetch_session :: "nat \<Rightarrow> string option \<Rightarrow> analysis \<Rightarrow> analysis" where
  "fetch_session i fault a =
     (if i < length (as_tokens a) then
        (let a' = a\<lparr>as_tokens := pop i (as_tokens a)\<rparr> in
         case session_fetch fault (as_tokens a ! i) (as_db a) of
           None \<Rightarrow> a'
         | Some samples \<Rightarrow> a'\<lparr>as_batches := as_batches a @ [samples]\<rparr>)
      else a)"

definition analyse_samples :: "nat \<Rightarrow> analysis \<Rightarrow> analysis" where
  "analyse_samples i a =
     (if i < length (as_batches a) then
        (let a' = a\<lparr>as_batches := pop i (as_batches a)\<rparr> in
         case analyse (as_batches a ! i) of
           Publish s \<Rightarrow> a'\<lparr>as_publish := as_publish a @ [s]\<rparr>
         | _ \<Rightarrow> a')
      else a)"

definition host_publish :: "nat \<Rightarrow> string option \<Rightarrow> string option \<Rightarrow> time \<Rightarrow> analysis \<Rightarrow> analysis" where
  "host_publish i fault fault' now a =
     (if i < length (as_publish a) then
        a\<lparr>as_publish := pop i (as_publish a), as_db := snd (publish_host fault fault' now (as_publish a ! i) (as_db a))\<rparr>
      else a)"

datatype analysis_event =
    Sample_Stored "string \<Rightarrow> string option" time sample
  | Tick "string option" "string option"
  | Fetch nat "string option"
  | Analyse nat
  | Publish_Host nat "string option" "string option" time

text \<open>A step with the tokens it sends.\<close>

fun analysis_step :: "analysis_event \<Rightarrow> analysis \<Rightarrow> (string list \<times> analysis) option" where
  "analysis_step (Sample_Stored jsonb now s) a = Some ([], a\<lparr>as_db := snd (insert_sample None jsonb now s (as_db a))\<rparr>)"
| "analysis_step (Tick fault fault') a = analysis_tick fault fault' a"
| "analysis_step (Fetch i fault) a = Some ([], fetch_session i fault a)"
| "analysis_step (Analyse i) a = Some ([], analyse_samples i a)"
| "analysis_step (Publish_Host i fault fault' now) a = Some ([], host_publish i fault fault' now a)"

fun analysis_run :: "analysis_event list \<Rightarrow> analysis \<Rightarrow> (string list \<times> analysis) option" where
  "analysis_run [] a = Some ([], a)"
| "analysis_run (e # es) a =
     (case analysis_step e a of
        None \<Rightarrow> None
      | Some (toks, a') \<Rightarrow> map_option (apfst ((@) toks)) (analysis_run es a'))"

section \<open>Lemmas: scores\<close>

lemma score_bounds:
  "9 / 16 \<le> score (score_http_headers client central)" "score (score_http_headers client central) \<le> 4 / 5"
  by (simp_all add: score_def score_http_headers_def score_status_code_def score_error_def score_redirects_def)

lemma publishes_any_score: "1 / 2 \<le> score (score_http_headers client central)"
  using score_bounds(1) [of client central] by simp

section \<open>Lemmas: organising\<close>

definition header_from :: "string \<Rightarrow> sample \<Rightarrow> bool" where
  "header_from origin s \<longleftrightarrow> sa_type s = ''HTTPHeader'' \<and> sa_origin s = origin"

definition newest_header :: "string \<Rightarrow> sample list \<Rightarrow> sample option" where
  "newest_header origin samples = find (header_from origin) (rev samples)"

lemma newest_header_Cons:
  "newest_header origin (s # ss) =
     (case newest_header origin ss of
        Some h \<Rightarrow> Some h
      | None \<Rightarrow> if header_from origin s then Some s else None)"
  by (simp add: newest_header_def find_append split: option.split)

definition new_token :: "sample \<Rightarrow> bool" where
  "new_token s \<longleftrightarrow> sa_type s = ''NewClientToken''"

text \<open>What a measured sample does to the maps.\<close>

definition og_after :: "sample \<Rightarrow> organized \<Rightarrow> organized" where
  "og_after s og =
     (if sa_type s \<noteq> ''HTTPHeader'' \<and> sa_type s \<noteq> ''DNSQuery'' then og
      else if sa_origin s = ''Central'' then og\<lparr>og_central := AList.update (sa_type s) s (og_central og)\<rparr>
      else if sa_origin s = ''Client'' then og\<lparr>og_client := AList.update (sa_type s) s (og_client og)\<rparr>
      else og)"

lemma organize_measured: "\<not> new_token s \<Longrightarrow> organize (s # ss) og = organize ss (og_after s og)"
  by (simp add: og_after_def new_token_def)

lemma og_after_new [simp]: "og_new (og_after s og) = og_new og"
  by (simp add: og_after_def)

lemma og_after_client:
  "map_of (og_client (og_after s og)) ''HTTPHeader'' =
     (if header_from ''Client'' s then Some s else map_of (og_client og) ''HTTPHeader'')"
  by (cases "sa_type s = ''HTTPHeader''") (simp_all add: og_after_def header_from_def update_conv')

lemma og_after_central:
  "map_of (og_central (og_after s og)) ''HTTPHeader'' =
     (if header_from ''Central'' s then Some s else map_of (og_central og) ''HTTPHeader'')"
  by (cases "sa_type s = ''HTTPHeader''") (simp_all add: og_after_def header_from_def update_conv')

lemma organize_token:
  assumes "new_token s"
  shows "organize (s # ss) og = (if sa_token (og_new og) \<noteq> [] then None else organize ss (og\<lparr>og_new := s\<rparr>))"
    "\<not> header_from x s"
  using assms by (simp_all add: header_from_def new_token_def)

declare organize.simps(2) [simp del]

lemma organize_headers:
  "organize ss og = Some og' \<Longrightarrow>
   map_of (og_client og') ''HTTPHeader'' = (case newest_header ''Client'' ss of None \<Rightarrow> map_of (og_client og) ''HTTPHeader'' | Some s \<Rightarrow> Some s) \<and>
   map_of (og_central og') ''HTTPHeader'' = (case newest_header ''Central'' ss of None \<Rightarrow> map_of (og_central og) ''HTTPHeader'' | Some s \<Rightarrow> Some s)"
proof (induction ss arbitrary: og)
  case (Cons s ss)
  show ?case
  proof (cases "new_token s")
    case True
    with Cons.prems have "organize ss (og\<lparr>og_new := s\<rparr>) = Some og'"
      by (simp only: organize_token(1) split: if_splits) auto
    from Cons.IH [OF this] show ?thesis
      by (simp add: newest_header_Cons organize_token(2) [OF True] split: option.split)
  next
    case False
    with Cons.prems have "organize ss (og_after s og) = Some og'" by (simp add: organize_measured)
    from Cons.IH [OF this] show ?thesis
      by (auto simp: newest_header_Cons og_after_client og_after_central split: option.split)
  qed
qed (simp add: newest_header_def)

lemma organize_new_set:
  "sa_token (og_new og) \<noteq> [] \<Longrightarrow>
   map_option og_new (organize ss og) = (if list_ex new_token ss then None else Some (og_new og))"
proof (induction ss arbitrary: og)
  case (Cons s ss)
  then show ?case by (cases "new_token s") (simp_all add: organize_token(1) organize_measured)
qed simp

lemma organize_new:
  "sa_token (og_new og) = [] \<Longrightarrow> \<forall>s \<in> set ss. sa_token s \<noteq> [] \<Longrightarrow>
   map_option og_new (organize ss og) =
     (case filter new_token ss of [] \<Rightarrow> Some (og_new og) | [n] \<Rightarrow> Some n | _ \<Rightarrow> None)"
proof (induction ss arbitrary: og)
  case (Cons s ss)
  show ?case
  proof (cases "new_token s")
    case True
    have "list_ex new_token ss \<longleftrightarrow> filter new_token ss \<noteq> []"
      by (simp add: list_ex_iff filter_empty_conv)
    with True Cons.prems show ?thesis
      by (simp add: organize_token(1) organize_new_set split: list.split)
  next
    case False
    with Cons.prems Cons.IH [of "og_after s og"] show ?thesis
      by (simp add: organize_measured split: list.split)
  qed
qed simp

lemma analyse_organized:
  assumes "organize samples \<lparr>og_new = zero_sample, og_client = [], og_central = []\<rparr> = Some og"
  shows "analyse samples =
    (if sa_token (og_new og) = [] then No_New_Token
     else if \<not> accepted_host (sa_host (og_new og)) then Host_Refused (sa_host (og_new og))
     else (case (newest_header ''Client'' samples, newest_header ''Central'' samples) of
             (Some c, Some k) \<Rightarrow>
               if unmarshal_http_result (sa_data c) = None \<or> unmarshal_http_result (sa_data k) = None then Bad_Data
               else Publish (og_new og)
           | _ \<Rightarrow> Missing_Header))"
  using organize_headers [OF assms] publishes_any_score
  by (simp add: analyse_def assms split: option.split)

lemma filter_singleton_mem:
  assumes "filter P xs = [x]"
  shows "x \<in> set xs \<and> P x"
proof -
  have "x \<in> set (filter P xs)" by (simp add: assms)
  then show ?thesis by simp
qed

lemma analyse_cases:
  assumes "\<forall>s \<in> set samples. sa_token s \<noteq> []"
  shows "analyse samples =
    (case filter new_token samples of
       [] \<Rightarrow> No_New_Token
     | [n] \<Rightarrow>
         if \<not> accepted_host (sa_host n) then Host_Refused (sa_host n)
         else (case (newest_header ''Client'' samples, newest_header ''Central'' samples) of
                 (Some c, Some k) \<Rightarrow>
                   if unmarshal_http_result (sa_data c) = None \<or> unmarshal_http_result (sa_data k) = None then Bad_Data
                   else Publish n
               | _ \<Rightarrow> Missing_Header)
     | _ \<Rightarrow> Many_New_Tokens)"
proof -
  let ?og = "\<lparr>og_new = zero_sample, og_client = [], og_central = []\<rparr>"
  have n: "map_option og_new (organize samples ?og) =
      (case filter new_token samples of [] \<Rightarrow> Some zero_sample | [n] \<Rightarrow> Some n | _ \<Rightarrow> None)"
    using organize_new [of ?og samples] assms by (simp add: zero_sample_def split: list.split)
  show ?thesis
  proof (cases "organize samples ?og")
    case None
    with n show ?thesis by (auto simp: analyse_def split: list.splits)
  next
    case (Some og)
    have "sa_token m \<noteq> []" if "filter new_token samples = [m]" for m
      using assms filter_singleton_mem [OF that] by blast
    with n Some analyse_organized [OF Some] show ?thesis
      by (auto simp: zero_sample_def split: list.splits)
  qed
qed

section \<open>Lemmas: the machine\<close>

lemma pop_subset: "set (pop i xs) \<subseteq> set xs"
  by (auto simp: pop_def dest: in_set_takeD in_set_dropD)

definition sample_rows :: "database \<Rightarrow> sample set" where
  "sample_rows db = rw_value ` set (db_samples db)"

text \<open>What the analysis wants of a session before its host is published.\<close>

definition complete_session :: "database \<Rightarrow> sample \<Rightarrow> bool" where
  "complete_session db n \<longleftrightarrow>
     n \<in> sample_rows db \<and> new_token n \<and> sa_token n \<noteq> [] \<and> accepted_host (sa_host n) \<and>
     (\<exists>c \<in> sample_rows db. header_from ''Client'' c \<and> sa_token c = sa_token n) \<and>
     (\<exists>k \<in> sample_rows db. header_from ''Central'' k \<and> sa_token k = sa_token n)"

definition batch_ok :: "database \<Rightarrow> sample list \<Rightarrow> bool" where
  "batch_ok db b \<longleftrightarrow> (\<exists>t. t \<noteq> [] \<and> (\<forall>s \<in> set b. s \<in> sample_rows db \<and> sa_token s = t))"

definition justified :: "database \<Rightarrow> string \<times> string \<times> int \<Rightarrow> bool" where
  "justified db p \<longleftrightarrow> (\<exists>n. complete_session db n \<and> p = (sa_host n, sa_country n, sa_asn n))"

definition analysis_good :: "(string \<times> string \<times> int) set \<Rightarrow> analysis \<Rightarrow> bool" where
  "analysis_good old a \<longleftrightarrow>
     (\<forall>b \<in> set (as_batches a). batch_ok (as_db a) b) \<and>
     (\<forall>s \<in> set (as_publish a). complete_session (as_db a) s) \<and>
     (\<forall>p \<in> published (as_db a) - old. justified (as_db a) p)"

lemma newest_header_mem: "newest_header x samples = Some s \<Longrightarrow> s \<in> set samples \<and> header_from x s"
  by (auto simp: newest_header_def find_Some_iff dest: nth_mem) (metis length_rev nth_mem set_rev)

lemma analyse_complete:
  assumes "batch_ok db b" "analyse b = Publish n"
  shows "complete_session db n"
proof -
  obtain t where t: "t \<noteq> []" "\<forall>s \<in> set b. s \<in> sample_rows db \<and> sa_token s = t"
    using assms(1) by (auto simp: batch_ok_def)
  then have ne: "\<forall>s \<in> set b. sa_token s \<noteq> []" by auto
  obtain c k where f: "filter new_token b = [n]" "accepted_host (sa_host n)"
    "newest_header ''Client'' b = Some c" "newest_header ''Central'' b = Some k"
    using assms(2) unfolding analyse_cases [OF ne]
    by (auto split: list.splits if_splits option.splits)
  have "n \<in> set b" "new_token n" using filter_singleton_mem [OF f(1)] by auto
  moreover have "c \<in> set b" "header_from ''Client'' c" using newest_header_mem [OF f(3)] by auto
  moreover have "k \<in> set b" "header_from ''Central'' k" using newest_header_mem [OF f(4)] by auto
  ultimately show ?thesis using t f(2) by (auto simp: complete_session_def)
qed

text \<open>What a step does to the tables.\<close>

lemma sample_rows_add [simp]: "sample_rows (db\<lparr>db_samples := add_row now s (db_samples db)\<rparr>) = insert s (sample_rows db)"
  by (auto simp: sample_rows_def add_row_def)

lemma sample_rows_others [simp]: "sample_rows (db\<lparr>db_state := m\<rparr>) = sample_rows db" "sample_rows (insert_publish now p db) = sample_rows db"
  by (simp_all add: sample_rows_def insert_publish_def)

lemma published_others [simp]: "published (db\<lparr>db_state := m\<rparr>) = published db" "published (db\<lparr>db_samples := ss\<rparr>) = published db"
  by (simp_all add: published_def is_published_def)

lemma complete_mono: "complete_session db n \<Longrightarrow> sample_rows db \<subseteq> sample_rows db' \<Longrightarrow> complete_session db' n"
  unfolding complete_session_def by blast

lemma justified_mono: "justified db p \<Longrightarrow> sample_rows db \<subseteq> sample_rows db' \<Longrightarrow> justified db' p"
  unfolding justified_def using complete_mono by blast

lemma batch_mono: "batch_ok db b \<Longrightarrow> sample_rows db \<subseteq> sample_rows db' \<Longrightarrow> batch_ok db' b"
  unfolding batch_ok_def by blast

lemma analysis_good_mono:
  assumes "analysis_good old a" "sample_rows (as_db a) \<subseteq> sample_rows db" "published db = published (as_db a)"
  shows "analysis_good old (a\<lparr>as_db := db\<rparr>)"
  using assms(1) complete_mono [OF _ assms(2)] batch_mono [OF _ assms(2)] justified_mono [OF _ assms(2)]
  by (simp add: analysis_good_def assms(3))

lemma insert_sample_db:
  "snd (insert_sample fault jsonb now s db) = db \<or>
   (\<exists>s'. sa_token s' = sa_token s \<and> sa_type s' = sa_type s \<and> sa_origin s' = sa_origin s \<and>
      snd (insert_sample fault jsonb now s db) = db\<lparr>db_samples := add_row now s' (db_samples db)\<rparr>)"
proof -
  have "\<exists>s'. sa_token s' = sa_token s \<and> sa_type s' = sa_type s \<and> sa_origin s' = sa_origin s \<and>
      db\<lparr>db_samples := add_row now (s\<lparr>sa_data := d, sa_extra := x\<rparr>) (db_samples db)\<rparr> = db\<lparr>db_samples := add_row now s' (db_samples db)\<rparr>" for d x
    by (rule exI [of _ "s\<lparr>sa_data := d, sa_extra := x\<rparr>"]) simp
  then show ?thesis by (auto simp: insert_sample_def Let_def split: option.split)
qed

lemma publish_host_db:
  "snd (publish_host fault fault' now s db) = db \<or>
   snd (publish_host fault fault' now s db) =
     insert_publish now \<lparr>pb_host = sa_host s, pb_country = Some (sa_country s), pb_asn = Some (sa_asn s), pb_sticky = False\<rparr> db"
  by (simp add: publish_host_def split: option.split)

lemma tick_failed:
  "get_samples fault (int (as_last a)) (as_db a) = Inl e \<Longrightarrow> analysis_tick fault fault' a = Some ([], a)"
  by (simp add: analysis_tick_def)

lemma tick_done:
  assumes "get_samples fault (int (as_last a)) (as_db a) = Inr results" "analysis_tick fault fault' a = Some (toks, a')"
  shows "toks = snd (scan_results results (as_last a))" "as_last a' = fst (scan_results results (as_last a))"
    "as_persisted a' = as_last a'" "db_samples (as_db a') = db_samples (as_db a)" "db_publish (as_db a') = db_publish (as_db a)"
    "as_batches a' = as_batches a" "as_publish a' = as_publish a"
  using assms by (auto simp: analysis_tick_def set_last_processed_id_def Let_def split: prod.splits if_splits)

lemma tick_frame:
  assumes "analysis_tick fault fault' a = Some (toks, a')"
  shows "db_samples (as_db a') = db_samples (as_db a)" "db_publish (as_db a') = db_publish (as_db a)"
    "as_batches a' = as_batches a" "as_publish a' = as_publish a"
  using assms tick_failed [of fault a _ fault'] tick_done [of fault a _ fault' toks a']
  by (cases "get_samples fault (int (as_last a)) (as_db a)"; simp)+

section \<open>Lemmas: only complete sessions are published\<close>

lemma good_fetch:
  assumes "analysis_good old a"
  shows "analysis_good old (fetch_session i fault a)"
proof -
  have "batch_ok (as_db a) samples" if "session_fetch fault (as_tokens a ! i) (as_db a) = Some samples" for samples
    using that by (auto simp: session_fetch_def get_session_samples_def batch_ok_def sample_rows_def split: if_splits option.splits)
  with assms show ?thesis
    by (auto simp: fetch_session_def analysis_good_def Let_def split: option.split)
qed

lemma good_analyse:
  assumes "analysis_good old a"
  shows "analysis_good old (analyse_samples i a)"
proof (cases "i < length (as_batches a)")
  case True
  then have ok: "batch_ok (as_db a) (as_batches a ! i)" using assms by (simp add: analysis_good_def)
  let ?a = "a\<lparr>as_batches := pop i (as_batches a)\<rparr>"
  have pop: "analysis_good old ?a"
    using assms pop_subset [of i "as_batches a"] by (simp add: analysis_good_def) blast
  have "analysis_good old (?a\<lparr>as_publish := as_publish a @ [s]\<rparr>)" if "analyse (as_batches a ! i) = Publish s" for s
    using pop analyse_complete [OF ok that] by (auto simp: analysis_good_def)
  with pop True show ?thesis by (simp add: analyse_samples_def Let_def split: analysis_result.split)
qed (use assms in \<open>simp add: analyse_samples_def\<close>)

lemma good_publish:
  assumes "analysis_good old a"
  shows "analysis_good old (host_publish i fault fault' now a)"
proof (cases "i < length (as_publish a)")
  case True
  let ?s = "as_publish a ! i"
  let ?p = "\<lparr>pb_host = sa_host ?s, pb_country = Some (sa_country ?s), pb_asn = Some (sa_asn ?s), pb_sticky = False\<rparr>"
  have c: "complete_session (as_db a) ?s" using assms True by (simp add: analysis_good_def)
  have pop: "analysis_good old (a\<lparr>as_publish := pop i (as_publish a)\<rparr>)"
    using assms pop_subset [of i "as_publish a"] by (simp add: analysis_good_def) blast
  have rows: "complete_session (insert_publish now ?p (as_db a)) n \<longleftrightarrow> complete_session (as_db a) n"
    "batch_ok (insert_publish now ?p (as_db a)) b \<longleftrightarrow> batch_ok (as_db a) b"
    "justified (insert_publish now ?p (as_db a)) q \<longleftrightarrow> justified (as_db a) q" for n b q
    by (simp_all add: complete_session_def batch_ok_def justified_def)
  have "justified (as_db a) (sa_host ?s, sa_country ?s, sa_asn ?s)" using c by (auto simp: justified_def)
  with pop have "analysis_good old (a\<lparr>as_publish := pop i (as_publish a), as_db := insert_publish now ?p (as_db a)\<rparr>)"
    by (auto simp: analysis_good_def rows published_insert)
  with pop True publish_host_db [of fault fault' now ?s "as_db a"] show ?thesis
    by (auto simp: host_publish_def)
qed (use assms in \<open>simp add: host_publish_def\<close>)

lemma good_step:
  assumes "analysis_good old a" "analysis_step e a = Some (toks, a')"
  shows "analysis_good old a'"
proof (cases e)
  case (Sample_Stored jsonb now s)
  let ?db = "snd (insert_sample None jsonb now s (as_db a))"
  have "sample_rows (as_db a) \<subseteq> sample_rows ?db" "published ?db = published (as_db a)"
    using insert_sample_db [of None jsonb now s "as_db a"] by auto
  then have "analysis_good old (a\<lparr>as_db := ?db\<rparr>)" by (rule analysis_good_mono [OF assms(1)])
  with Sample_Stored assms(2) show ?thesis by simp
next
  case (Tick fault fault')
  with assms(2) have "analysis_tick fault fault' a = Some (toks, a')" by simp
  note frame = tick_frame [OF this]
  then have "sample_rows (as_db a') = sample_rows (as_db a)" "published (as_db a') = published (as_db a)"
    by (simp_all add: sample_rows_def published_def is_published_def)
  with assms(1) frame show ?thesis by (simp add: analysis_good_def complete_session_def batch_ok_def justified_def)
qed (use assms good_fetch good_analyse good_publish in auto)

fun lifted_step :: "analysis option \<Rightarrow> analysis_event \<Rightarrow> analysis option" where
  "lifted_step None e = None"
| "lifted_step (Some a) e = map_option snd (analysis_step e a)"

interpretation analysis_machine: guarded_machine lifted_step "\<lambda>r. \<forall>a. r = Some a \<longrightarrow> analysis_good old a" for old
proof
  fix r e
  assume "\<forall>a. r = Some a \<longrightarrow> analysis_good old a"
  then show "\<forall>a. lifted_step r e = Some a \<longrightarrow> analysis_good old a"
    using good_step by (cases r) auto
qed

lemma lifted_None [simp]: "foldl lifted_step None es = None"
  by (induction es) auto

lemma analysis_run_lifted: "map_option snd (analysis_run es a) = foldl lifted_step (Some a) es"
proof (induction es arbitrary: a)
  case (Cons e es)
  have "snd \<circ> apfst ((@) x) = snd" for x :: "string list" by auto
  with Cons show ?case by (auto split: option.split simp: option.map_comp)
qed simp

section \<open>Lemmas: the tokens that are sent\<close>

text \<open>The tokens of the central header samples with an identifier above \<open>lo\<close> and up to \<open>hi\<close>.\<close>

definition header_tokens :: "sample row list \<Rightarrow> string list" where
  "header_tokens rs = map sa_token (filter central_header (map rw_value rs))"

definition span :: "nat \<Rightarrow> nat \<Rightarrow> sample row list \<Rightarrow> sample row list" where
  "span lo hi t = filter (\<lambda>r. int lo < rw_id r \<and> rw_id r \<le> int hi) t"

lemma header_tokens_Nil [simp]: "header_tokens [] = []"
  by (simp add: header_tokens_def)

lemma header_tokens_append [simp]: "header_tokens (xs @ ys) = header_tokens xs @ header_tokens ys"
  by (simp add: header_tokens_def)

lemma scan_results_fold:
  "foldl (\<lambda>(l, toks) (i, s). (if l < nat i then nat i else l, if central_header s then toks @ [sa_token s] else toks))
     (l, toks) (map (\<lambda>r. (rw_id r, rw_value r)) rs) =
   (fold max (map (nat \<circ> rw_id) rs) l, toks @ header_tokens rs)"
  by (induction rs arbitrary: l toks) (auto simp: header_tokens_def max_def)

lemma scan_results_rows:
  "scan_results (map (\<lambda>r. (rw_id r, rw_value r)) rs) l = (fold max (map (nat \<circ> rw_id) rs) l, header_tokens rs)"
  by (simp add: scan_results_def scan_results_fold)

lemma fold_max_ge: "(l::nat) \<le> fold max xs l" "x \<in> set xs \<Longrightarrow> x \<le> fold max xs l"
proof (induction xs arbitrary: l)
  case (Cons y ys)
  { case 1 show ?case using Cons.IH(1) [of "max y l"] by simp }
  { case 2 then show ?case using Cons.IH(1) [of "max y l"] Cons.IH(2) [of "max y l"] by auto }
qed simp_all

lemma fold_max_mem: "fold max xs (l::nat) = l \<or> fold max xs l \<in> set xs"
proof (induction xs arbitrary: l)
  case (Cons y ys)
  from Cons [of "max y l"] show ?case by (auto simp: max_def)
qed simp

lemma tick_tokens:
  assumes "analysis_tick None fault' a = Some (toks, a')"
  defines "new \<equiv> filter (\<lambda>r. int (as_last a) < rw_id r) (db_samples (as_db a))"
  shows "toks = header_tokens new" "as_last a' = fold max (map (nat \<circ> rw_id) new) (as_last a)"
proof -
  have "get_samples None (int (as_last a)) (as_db a) = Inr (map (\<lambda>r. (rw_id r, rw_value r)) new)"
    by (simp add: get_samples_def new_def)
  from tick_done [OF this assms(1)] show "toks = header_tokens new" "as_last a' = fold max (map (nat \<circ> rw_id) new) (as_last a)"
    by (simp_all add: scan_results_rows)
qed

lemma tick_covers:
  assumes "analysis_tick None fault' a = Some (toks, a')" "r \<in> set (db_samples (as_db a))"
  shows "rw_id r \<le> int (as_last a')"
proof (cases "int (as_last a) < rw_id r")
  case True
  then have "nat (rw_id r) \<le> as_last a'"
    unfolding tick_tokens(2) [OF assms(1)] using assms(2) by (intro fold_max_ge) auto
  then show ?thesis by simp
next
  case False
  have "as_last a \<le> as_last a'" unfolding tick_tokens(2) [OF assms(1)] by (rule fold_max_ge)
  with False show ?thesis by simp
qed

text \<open>
  The invariant of a run that began after the identifier \<open>lo\<close>: the last identifier is that one
  or one of the table, so that a sample that comes later is above it.
\<close>

definition last_ok :: "nat \<Rightarrow> analysis \<Rightarrow> bool" where
  "last_ok lo a \<longleftrightarrow> ids_ok (db_samples (as_db a)) \<and> lo \<le> as_last a \<and>
     (as_last a = lo \<or> (\<exists>r \<in> set (db_samples (as_db a)). int (as_last a) = rw_id r))"

definition sent_ok :: "nat \<Rightarrow> analysis \<Rightarrow> string list" where
  "sent_ok lo a = header_tokens (span lo (as_last a) (db_samples (as_db a)))"

lemma span_split:
  assumes "sorted_wrt (<) (map rw_id t)" "lo \<le> mid" "mid \<le> hi"
  shows "span lo hi t = span lo mid t @ span mid hi t"
  using assms(1)
proof (induction t)
  case (Cons r t)
  show ?case
  proof (cases "rw_id r \<le> int mid")
    case True
    with Cons assms(2,3) show ?thesis by (simp add: span_def)
  next
    case False
    then have "span lo mid t = []" using Cons.prems by (auto simp: span_def filter_empty_conv)
    with False Cons assms(2,3) show ?thesis by (simp add: span_def)
  qed
qed (simp add: span_def)

lemma sent_tick:
  assumes "last_ok lo a" "analysis_tick fault fault' a = Some (toks, a')"
  shows "last_ok lo a' \<and> sent_ok lo a' = sent_ok lo a @ toks"
proof (cases fault)
  case (Some e)
  with assms tick_failed [of fault a e fault'] show ?thesis by (simp add: get_samples_def)
next
  case None
  let ?t = "db_samples (as_db a)" and ?l = "as_last a"
  define new where "new = filter (\<lambda>r. int ?l < rw_id r) ?t"
  have toks: "toks = header_tokens new" and last: "as_last a' = fold max (map (nat \<circ> rw_id) new) ?l"
    using tick_tokens [OF assms(2) [unfolded None]] by (simp_all add: new_def)
  have t: "db_samples (as_db a') = ?t" using tick_frame [OF assms(2)] by simp
  have ge: "?l \<le> as_last a'" unfolding last by (rule fold_max_ge)
  have "nat (rw_id r) \<le> as_last a'" if "r \<in> set new" for r
    unfolding last using that by (intro fold_max_ge) auto
  then have "span ?l (as_last a') ?t = new"
    by (force simp: span_def new_def intro: filter_cong)
  moreover have "sorted_wrt (<) (map rw_id ?t)" "lo \<le> ?l" using assms(1) by (auto simp: last_ok_def ids_ok_def)
  ultimately have sent: "sent_ok lo a' = sent_ok lo a @ toks"
    using span_split [of ?t lo ?l "as_last a'"] ge by (simp add: sent_ok_def t toks)
  have "as_last a' = ?l \<or> (\<exists>r \<in> set ?t. int (as_last a') = rw_id r)"
    using fold_max_mem [of "map (nat \<circ> rw_id) new" ?l] unfolding last by (auto simp: new_def)
  then have "last_ok lo a'" using assms(1) ge by (auto simp: last_ok_def t)
  with sent show ?thesis by simp
qed

lemma sent_stored:
  assumes "last_ok lo a"
  shows "last_ok lo (a\<lparr>as_db := (as_db a)\<lparr>db_samples := add_row now s (db_samples (as_db a))\<rparr>\<rparr>) \<and>
    sent_ok lo (a\<lparr>as_db := (as_db a)\<lparr>db_samples := add_row now s (db_samples (as_db a))\<rparr>\<rparr>) = sent_ok lo a"
proof -
  let ?t = "db_samples (as_db a)"
  have "\<not> (int lo < next_id ?t \<and> next_id ?t \<le> int (as_last a))"
    using assms by (auto simp: last_ok_def dest: next_id_fresh)
  moreover have "ids_ok (add_row now s ?t)" using assms by (simp add: last_ok_def ids_ok_add)
  ultimately show ?thesis using assms by (auto simp: last_ok_def sent_ok_def span_def add_row_def)
qed

lemma worker_frame:
  "db_samples (as_db (fetch_session i fault a)) = db_samples (as_db a)" "as_last (fetch_session i fault a) = as_last a"
  "db_samples (as_db (analyse_samples i a)) = db_samples (as_db a)" "as_last (analyse_samples i a) = as_last a"
  "db_samples (as_db (host_publish i fault fault' now a)) = db_samples (as_db a)" "as_last (host_publish i fault fault' now a) = as_last a"
  using publish_host_db [of fault fault' now "as_publish a ! i" "as_db a"]
  by (auto simp: fetch_session_def analyse_samples_def host_publish_def insert_publish_def Let_def split: option.split analysis_result.split)

lemma sent_step:
  assumes "last_ok lo a" "analysis_step e a = Some (toks, a')"
  shows "last_ok lo a' \<and> sent_ok lo a' = sent_ok lo a @ toks"
proof (cases e)
  case (Sample_Stored jsonb now s)
  with assms insert_sample_db [of None jsonb now s "as_db a"] sent_stored [OF assms(1)] show ?thesis by auto
next
  case (Tick fault fault')
  with assms sent_tick show ?thesis by simp
qed (use assms in \<open>auto simp: last_ok_def sent_ok_def worker_frame\<close>)

lemma sent_run:
  assumes "last_ok lo a" "analysis_run es a = Some (toks, a')"
  shows "last_ok lo a' \<and> sent_ok lo a' = sent_ok lo a @ toks"
  using assms
proof (induction es arbitrary: a toks)
  case (Cons e es)
  obtain ts a1 ts' where e: "analysis_step e a = Some (ts, a1)" "analysis_run es a1 = Some (ts', a')" "toks = ts @ ts'"
    using Cons.prems(2) by (auto split: option.splits)
  from sent_step [OF Cons.prems(1) e(1)] Cons.IH [OF _ e(2)] e(3) show ?case by simp
qed simp

lemma tokens_step: "analysis_step e a = Some (toks, a') \<Longrightarrow> set (as_tokens a') \<subseteq> set (as_tokens a) \<union> set toks"
proof (cases e)
  case (Tick fault fault')
  assume "analysis_step e a = Some (toks, a')"
  with Tick show ?thesis
    by (cases "get_samples fault (int (as_last a)) (as_db a)")
      (auto simp: analysis_tick_def Let_def split: prod.splits if_splits option.splits)
next
  case (Fetch i fault)
  assume "analysis_step e a = Some (toks, a')"
  with Fetch pop_subset [of i "as_tokens a"] show ?thesis
    by (auto simp: fetch_session_def Let_def split: if_splits option.splits)
qed (auto simp: analyse_samples_def host_publish_def Let_def split: if_splits analysis_result.splits)

lemma tokens_run: "analysis_run es a = Some (toks, a') \<Longrightarrow> set (as_tokens a') \<subseteq> set (as_tokens a) \<union> set toks"
proof (induction es arbitrary: a toks)
  case (Cons e es)
  obtain ts a1 ts' where e: "analysis_step e a = Some (ts, a1)" "analysis_run es a1 = Some (ts', a')" "toks = ts @ ts'"
    using Cons.prems by (auto split: option.splits)
  from tokens_step [OF e(1)] Cons.IH [OF e(2)] e(3) show ?case by auto
qed simp

section \<open>Lemmas: a restart\<close>

lemma samples_step: "analysis_step e a = Some (toks, a') \<Longrightarrow> set (db_samples (as_db a)) \<subseteq> set (db_samples (as_db a'))"
proof (cases e)
  case (Sample_Stored jsonb now s)
  assume "analysis_step e a = Some (toks, a')"
  with Sample_Stored insert_sample_db [of None jsonb now s "as_db a"] show ?thesis by (auto simp: add_row_def)
qed (auto simp: worker_frame dest: tick_frame(1))

lemma samples_run: "analysis_run es a = Some (toks, a') \<Longrightarrow> set (db_samples (as_db a)) \<subseteq> set (db_samples (as_db a'))"
proof (induction es arbitrary: a toks)
  case (Cons e es)
  obtain ts a1 ts' where e: "analysis_step e a = Some (ts, a1)" "analysis_run es a1 = Some (ts', a')"
    using Cons.prems by (auto split: option.splits)
  from samples_step [OF e(1)] Cons.IH [OF e(2)] show ?case by blast
qed simp

definition persisted_ok :: "analysis \<Rightarrow> bool" where
  "persisted_ok a \<longleftrightarrow> as_last (start_analysis None (as_db a)) = as_last a \<and> as_persisted a = as_last a"

lemma last_start: "db_state db = db_state db' \<Longrightarrow> as_last (start_analysis None db) = as_last (start_analysis None db')"
  by (simp add: start_analysis_def get_last_processed_id_def Let_def)

lemma persisted_tick:
  assumes "persisted_ok a" "analysis_tick fault fault' a = Some (toks, a')" "as_last a' < 2 ^ 64"
  shows "persisted_ok a'"
proof (cases "get_samples fault (int (as_last a)) (as_db a)")
  case (Inl e)
  with assms(1,2) show ?thesis by (simp add: tick_failed)
next
  case (Inr results)
  obtain l ts where r: "scan_results results (as_last a) = (l, ts)" by (cases "scan_results results (as_last a)")
  show ?thesis
  proof (cases "l = as_persisted a")
    case True
    with assms Inr r have "as_db a' = as_db a" "as_last a' = as_last a" "as_persisted a' = as_persisted a"
      by (auto simp: analysis_tick_def persisted_ok_def)
    with assms(1) show ?thesis by (simp add: persisted_ok_def)
  next
    case False
    then obtain db where db: "set_last_processed_id fault' l (as_db a) = Some db" "as_db a' = db" "as_last a' = l" "as_persisted a' = l"
      using assms(2) Inr r by (auto simp: analysis_tick_def Let_def split: option.splits)
    then have "set_last_processed_id None l (as_db a) = Some db" by (auto simp: set_last_processed_id_def split: if_splits)
    from last_processed_roundtrip [OF _ this] db assms(3) show ?thesis by (simp add: persisted_ok_def start_analysis_def)
  qed
qed

lemma worker_state:
  "db_state (as_db (fetch_session i fault a)) = db_state (as_db a)" "as_persisted (fetch_session i fault a) = as_persisted a"
  "db_state (as_db (analyse_samples i a)) = db_state (as_db a)" "as_persisted (analyse_samples i a) = as_persisted a"
  "db_state (as_db (host_publish i fault fault' now a)) = db_state (as_db a)" "as_persisted (host_publish i fault fault' now a) = as_persisted a"
  using publish_host_db [of fault fault' now "as_publish a ! i" "as_db a"]
  by (auto simp: fetch_session_def analyse_samples_def host_publish_def insert_publish_def Let_def split: option.split analysis_result.split)

lemma persisted_step:
  assumes "persisted_ok a" "analysis_step e a = Some (toks, a')" "as_last a' < 2 ^ 64"
  shows "persisted_ok a'"
proof (cases e)
  case (Sample_Stored jsonb now s)
  let ?db = "snd (insert_sample None jsonb now s (as_db a))"
  have "db_state ?db = db_state (as_db a)" using insert_sample_db [of None jsonb now s "as_db a"] by auto
  with assms Sample_Stored last_start [of ?db "as_db a"] show ?thesis by (auto simp: persisted_ok_def)
next
  case (Tick fault fault')
  with assms persisted_tick show ?thesis by simp
next
  case (Fetch i fault)
  with assms last_start [OF worker_state(1)] show ?thesis by (auto simp: persisted_ok_def worker_state worker_frame)
next
  case (Analyse i)
  with assms last_start [OF worker_state(3)] show ?thesis by (auto simp: persisted_ok_def worker_state worker_frame)
next
  case (Publish_Host i fault fault' now)
  with assms last_start [OF worker_state(5)] show ?thesis by (auto simp: persisted_ok_def worker_state worker_frame)
qed

text \<open>The identifiers stay in range, so that what is saved is what a restart reads.\<close>

lemma persisted_run:
  assumes "persisted_ok a" "last_ok lo a" "analysis_run es a = Some (toks, a')" "lo < 2 ^ 64"
    and "\<forall>r \<in> set (db_samples (as_db a')). rw_id r < 2 ^ 63"
  shows "persisted_ok a' \<and> set (db_samples (as_db a)) \<subseteq> set (db_samples (as_db a'))"
  using assms(1-3)
proof (induction es arbitrary: a toks)
  case (Cons e es)
  obtain ts a1 ts' where e: "analysis_step e a = Some (ts, a1)" "analysis_run es a1 = Some (ts', a')"
    using Cons.prems(3) by (auto split: option.splits)
  have l: "last_ok lo a1" using sent_step [OF Cons.prems(2) e(1)] by simp
  have "set (db_samples (as_db a1)) \<subseteq> set (db_samples (as_db a')) \<and> (persisted_ok a1 \<longrightarrow> persisted_ok a')"
    using Cons.IH [OF _ l e(2)] e(2) l samples_run [OF e(2)] by blast
  moreover from this l assms(4,5) have "as_last a1 < 2 ^ 64" by (force simp: last_ok_def)
  ultimately show ?case using persisted_step [OF Cons.prems(1) e(1)] samples_step [OF e(1)] by blast
qed simp

section \<open>Properties\<close>


text \<open>
  C13. A host is published only for a complete session. Whatever the workers' order, a published
  host that was not published before is the accepted host of a new token of the server, with the
  country and network of that sample, and the session has header samples of the client and of
  the server.
\<close>

theorem only_complete_sessions_published:
  assumes "analysis_run es (start_analysis fault db) = Some (toks, a)"
    and "(h, cc, asn) \<in> published (as_db a) - published db"
  shows "\<exists>n \<in> sample_rows (as_db a). sa_type n = ''NewClientToken'' \<and> sa_host n = h \<and> sa_country n = cc \<and> sa_asn n = asn \<and>
    accepted_host h \<and> (\<forall>origin \<in> {''Client'', ''Central''}. \<exists>s \<in> sample_rows (as_db a).
      sa_type s = ''HTTPHeader'' \<and> sa_origin s = origin \<and> sa_token s = sa_token n)"
proof -
  have "analysis_good (published db) (start_analysis fault db)"
    by (simp add: analysis_good_def start_analysis_def Let_def)
  then have "\<forall>a. foldl lifted_step (Some (start_analysis fault db)) es = Some a \<longrightarrow> analysis_good (published db) a"
    by (intro analysis_machine.run_good) simp
  then have "analysis_good (published db) a"
    using assms(1) analysis_run_lifted [of es "start_analysis fault db"] by simp
  with assms(2) have "justified (as_db a) (h, cc, asn)" by (simp add: analysis_good_def)
  then obtain n where "complete_session (as_db a) n" "h = sa_host n" "cc = sa_country n" "asn = sa_asn n"
    by (auto simp: justified_def)
  then show ?thesis by (auto simp: complete_session_def new_token_def header_from_def)
qed

text \<open>
  The scores decide nothing. A session with one new token, an accepted host and readable
  header samples of the client and of the server is published whatever was measured, and a
  session is never rejected for its score: every score lies between 9/16 and 4/5, above the limit.
\<close>

lemma complete_sessions_always_published:
  assumes "session_fetch None token db = Some samples"
  shows "(analyse samples = Publish n \<longleftrightarrow>
      filter (\<lambda>s. sa_type s = ''NewClientToken'') samples = [n] \<and> accepted_host (sa_host n) \<and>
      (\<exists>c k. newest_header ''Client'' samples = Some c \<and> newest_header ''Central'' samples = Some k \<and>
         unmarshal_http_result (sa_data c) \<noteq> None \<and> unmarshal_http_result (sa_data k) \<noteq> None)) \<and>
    analyse samples \<noteq> Not_Published"
proof -
  have ne: "\<forall>s \<in> set samples. sa_token s \<noteq> []"
    using assms by (auto simp: session_fetch_def get_session_samples_def split: if_splits)
  have new: "(\<lambda>s. sa_type s = ''NewClientToken'') = new_token" by (simp add: new_token_def fun_eq_iff)
  show ?thesis unfolding analyse_cases [OF ne] new
    by (auto split: list.splits if_splits option.splits)
qed

text \<open>
  What comes too late is never looked at. Once the samples up to some identifier are
  processed, a session whose central header sample is among them is not analysed again, whatever
  is stored for it afterwards: the header sample of a client that arrives after the tick which
  saw the server's own is lost, and its session is not published.
\<close>

lemma late_samples_not_analysed:
  assumes "ids_ok (db_samples db)" "analysis_run before (start_analysis fault db) = Some (toks0, a)"
    and "analysis_run es a = Some (toks, a')" "token \<notin> set (as_tokens a)"
    and "\<forall>r \<in> set (db_samples (as_db a')). central_header (rw_value r) \<longrightarrow> sa_token (rw_value r) = token \<longrightarrow>
      rw_id r \<le> int (as_last a)"
  shows "token \<notin> set toks \<and> token \<notin> set (as_tokens a')"
proof -
  let ?a0 = "start_analysis fault db"
  have "last_ok (as_last ?a0) ?a0" using assms(1) by (simp add: last_ok_def start_analysis_def Let_def)
  from sent_run [OF this assms(2)] have ok: "last_ok (as_last a) a" by (simp add: last_ok_def)
  from sent_run [OF ok assms(3)] have "toks = sent_ok (as_last a) a'" by (simp add: sent_ok_def span_def)
  with assms(5) have "token \<notin> set toks" by (force simp: sent_ok_def header_tokens_def span_def)
  with tokens_run [OF assms(3)] assms(4) show ?thesis by blast
qed

section \<open>Examples\<close>

text \<open>A session whose new token, client and central header samples are stored.\<close>

definition session_sample :: "string \<Rightarrow> string \<Rightarrow> sample" where
  "session_sample type origin =
     \<lparr>sa_host = ''a.org'', sa_country = ''SE'', sa_asn = 64500, sa_type = type, sa_origin = origin,
      sa_token = ''t'', sa_data = ''{}'', sa_extra = ''{}''\<rparr>"

definition session_row :: "int \<Rightarrow> string \<Rightarrow> string \<Rightarrow> sample row" where
  "session_row i type origin = \<lparr>rw_id = i, rw_created = 0, rw_value = session_sample type origin\<rparr>"

definition session_db :: database where
  "session_db = empty_db\<lparr>db_samples := [session_row 1 ''NewClientToken'' ''Central'',
     session_row 2 ''HTTPHeader'' ''Client'', session_row 3 ''HTTPHeader'' ''Central'']\<rparr>"

definition early_db :: database where
  "early_db = empty_db\<lparr>db_samples := [session_row 1 ''NewClientToken'' ''Central'', session_row 2 ''HTTPHeader'' ''Central'']\<rparr>"

lemma host_a_org: "accepted_host ''a.org''"
  by code_simp

lemma empty_result: "unmarshal_http_result ''{}'' = Some zero_http_result"
  by code_simp

lemma session_sample_fields [simp]:
  "sa_type (session_sample type origin) = type" "sa_origin (session_sample type origin) = origin"
  "sa_token (session_sample type origin) = ''t''" "sa_data (session_sample type origin) = ''{}''"
  "sa_host (session_sample type origin) = ''a.org''" "sa_country (session_sample type origin) = ''SE''"
  "sa_asn (session_sample type origin) = 64500"
  by (simp_all add: session_sample_def)

lemma session_start: "start_analysis None session_db = 
    \<lparr>as_db = session_db, as_last = 0, as_persisted = 0, as_tokens = [], as_batches = [], as_publish = []\<rparr>"
  by (simp add: start_analysis_def get_last_processed_id_def session_db_def empty_db_def)

lemma session_fetched: "session_fetch None ''t'' session_db =
    Some [session_sample ''NewClientToken'' ''Central'', session_sample ''HTTPHeader'' ''Client'', session_sample ''HTTPHeader'' ''Central'']"
  by (simp add: session_fetch_def get_session_samples_def session_db_def session_row_def)

lemma complete_sessions_always_published_witness:
  "analyse [session_sample ''NewClientToken'' ''Central'', session_sample ''HTTPHeader'' ''Client'', session_sample ''HTTPHeader'' ''Central''] =
     Publish (session_sample ''NewClientToken'' ''Central'')"
  using complete_sessions_always_published [OF session_fetched, of "session_sample ''NewClientToken'' ''Central''"]
  by (simp add: host_a_org empty_result newest_header_def header_from_def)

lemma session_analysed:
  "analyse [session_sample ''NewClientToken'' ''Central'', session_sample ''HTTPHeader'' ''Client'', session_sample ''HTTPHeader'' ''Central''] =
     Publish (session_sample ''NewClientToken'' ''Central'')"
  by (subst analyse_cases) (simp_all add: host_a_org empty_result newest_header_def header_from_def new_token_def)

text \<open>What a tick over new rows makes of the state.\<close>

lemma tick_rows:
  assumes "filter (\<lambda>r. int (as_last a) < rw_id r) (db_samples (as_db a)) = rs"
    and "fold max (map (nat \<circ> rw_id) rs) (as_last a) = l" "l \<noteq> as_persisted a"
  shows "analysis_tick None None a = Some (header_tokens rs,
    a\<lparr>as_db := (as_db a)\<lparr>db_state := AList.update last_id_key (show_nat l) (db_state (as_db a))\<rparr>,
      as_last := l, as_persisted := l, as_tokens := as_tokens a @ header_tokens rs\<rparr>)"
  using assms
  by (simp add: analysis_tick_def get_samples_def scan_results_rows set_last_processed_id_def)

definition session_ticked :: analysis where
  "session_ticked = \<lparr>as_db = session_db\<lparr>db_state := [(last_id_key, show_nat 3)]\<rparr>, as_last = 3, as_persisted = 3,
     as_tokens = [''t''], as_batches = [], as_publish = []\<rparr>"

lemma session_tick: "analysis_tick None None (start_analysis None session_db) = Some ([''t''], session_ticked)"
  unfolding session_start
  by (subst tick_rows [of _ "db_samples session_db" 3])
    (simp_all add: session_db_def empty_db_def session_row_def header_tokens_def central_header_def
      session_ticked_def)

lemma only_complete_sessions_published_witness:
  "\<exists>toks a. analysis_run [Tick None None, Fetch 0 None, Analyse 0, Publish_Host 0 None None 0] (start_analysis None session_db) = Some (toks, a) \<and>
     (''a.org'', ''SE'', 64500) \<in> published (as_db a) \<and>
     (\<exists>n \<in> sample_rows (as_db a). sa_type n = ''NewClientToken'' \<and> sa_host n = ''a.org'')"
proof -
  let ?n = "session_sample ''NewClientToken'' ''Central''"
  let ?db = "session_db\<lparr>db_state := [(last_id_key, show_nat 3)]\<rparr>"
  have f: "session_fetch None ''t'' ?db = Some [?n, session_sample ''HTTPHeader'' ''Client'', session_sample ''HTTPHeader'' ''Central'']"
    using session_fetched by (simp add: session_fetch_def get_session_samples_def)
  have r: "analysis_run [Tick None None, Fetch 0 None, Analyse 0, Publish_Host 0 None None 0] (start_analysis None session_db) =
      Some ([''t''], session_ticked\<lparr>as_db := snd (publish_host None None 0 ?n ?db), as_tokens := []\<rparr>)" (is "?run = Some (_, ?a)")
    by (simp add: session_tick) (simp add: session_ticked_def fetch_session_def f pop_def analyse_samples_def
        session_analysed host_publish_def)
  have p: "(''a.org'', ''SE'', 64500) \<in> published (as_db ?a) - published session_db"
    by (simp add: publish_host_def check_enum_def check_int_def country_codes_def is_published_def session_db_def empty_db_def
        published_def insert_publish_def add_row_def)
  from only_complete_sessions_published [OF r p] r p show ?thesis by blast
qed


text \<open>The analysis of a session whose client sample comes too late.\<close>

definition early_done :: analysis where
  "early_done = \<lparr>as_db = early_db\<lparr>db_state := [(last_id_key, show_nat 2)]\<rparr>, as_last = 2, as_persisted = 2,
     as_tokens = [], as_batches = [], as_publish = []\<rparr>"

lemma early_run: "analysis_run [Tick None None, Fetch 0 None, Analyse 0] (start_analysis None early_db) = Some ([''t''], early_done)"
proof -
  let ?n = "session_sample ''NewClientToken'' ''Central''" and ?h = "session_sample ''HTTPHeader'' ''Central''"
  have start: "start_analysis None early_db = \<lparr>as_db = early_db, as_last = 0, as_persisted = 0, as_tokens = [], as_batches = [], as_publish = []\<rparr>"
    by (simp add: start_analysis_def get_last_processed_id_def early_db_def empty_db_def)
  have tick: "analysis_tick None None (start_analysis None early_db) = Some ([''t''], early_done\<lparr>as_tokens := [''t'']\<rparr>)"
    unfolding start
    by (subst tick_rows [of _ "db_samples early_db" 2])
      (simp_all add: early_db_def empty_db_def session_row_def header_tokens_def central_header_def early_done_def)
  have "analyse [?n, ?h] = Missing_Header"
    by (subst analyse_cases) (simp_all add: host_a_org newest_header_def header_from_def new_token_def)
  moreover have "session_fetch None ''t'' (as_db early_done) = Some [?n, ?h]"
    by (simp add: session_fetch_def get_session_samples_def early_done_def early_db_def session_row_def)
  ultimately show ?thesis
    by (simp add: tick) (simp add: early_done_def fetch_session_def analyse_samples_def pop_def)
qed

lemma late_samples_not_analysed_witness:
  "\<exists>a. analysis_run [Sample_Stored Some 0 (session_sample ''HTTPHeader'' ''Client''), Tick None None] early_done = Some ([], a) \<and>
     ''t'' \<notin> set (as_tokens a)"
proof -
  let ?e = "[Sample_Stored Some 0 (session_sample ''HTTPHeader'' ''Client''), Tick None None]"
  let ?rows = "db_samples early_db @ [session_row 3 ''HTTPHeader'' ''Client'']"
  let ?b = "early_done\<lparr>as_db := (as_db early_done)\<lparr>db_samples := ?rows\<rparr>\<rparr>"
  have "insert_sample None Some 0 (session_sample ''HTTPHeader'' ''Client'') (as_db early_done) = (None, as_db ?b)"
    by (simp add: insert_sample_def early_done_def early_db_def empty_db_def check_enum_def check_int_def country_codes_def
        sample_types_def sample_origins_def add_row_def next_id_def session_row_def session_sample_def)
  moreover have f: "filter (\<lambda>r. int (as_last ?b) < rw_id r) (db_samples (as_db ?b)) = [session_row 3 ''HTTPHeader'' ''Client'']"
    by (simp add: early_done_def early_db_def empty_db_def session_row_def)
  moreover have "header_tokens [session_row 3 ''HTTPHeader'' ''Client''] = []"
    by (simp add: header_tokens_def session_row_def central_header_def)
  moreover obtain a where tick: "analysis_tick None None ?b = Some (header_tokens [session_row 3 ''HTTPHeader'' ''Client''], a)"
    using tick_rows [OF f, of 3] by (simp add: session_row_def early_done_def)
  ultimately have run: "analysis_run ?e early_done = Some ([], a)" by simp
  have "db_samples (as_db a) = ?rows" using tick_frame(1) [OF tick] by simp
  then have old: "\<forall>r \<in> set (db_samples (as_db a)). central_header (rw_value r) \<longrightarrow> sa_token (rw_value r) = ''t'' \<longrightarrow>
      rw_id r \<le> int (as_last early_done)"
    by (simp add: early_done_def early_db_def session_row_def central_header_def)
  have ids: "ids_ok (db_samples early_db)" by (simp add: ids_ok_def early_db_def session_row_def)
  have none: "''t'' \<notin> set (as_tokens early_done)" by (simp add: early_done_def)
  from late_samples_not_analysed [OF ids early_run run none old] run show ?thesis by blast
qed

end
