(* ===== verification/Suggestions.thy ===== *)
theory Suggestions
  imports CentralRun
begin

text \<open>
  \<open>pkg/central/client/client.go\<close>: the client of the central server's interface and the
  suggestions a client keeps until their samples have been sent. \<open>'w\<close> is the state of the world
  behind an HTTP request. A request gives an error or the status and the decoded body (\<open>None\<close>: it
  does not decode). A panic is \<open>None\<close>.
\<close>

section \<open>The HTTP client\<close>

type_synonym ('q, 'r, 'w) endpoint = "'q \<Rightarrow> 'w \<Rightarrow> (err + int \<times> 'r option) \<times> 'w"

record rest_client =
  rc_base :: string

definition trim_right_slash :: "string \<Rightarrow> string" where
  "trim_right_slash s = rev (dropWhile (\<lambda>c. c = CHR ''/'') (rev s))"

definition new_client :: "string \<Rightarrow> rest_client" where
  "new_client base = \<lparr>rc_base = trim_right_slash base\<rparr>"

definition client_url :: "rest_client \<Rightarrow> string \<Rightarrow> string" where
  "client_url c resource = rc_base c @ ''/v1/'' @ resource"

record token_response =
  tr_ok :: bool
  tr_url :: string
  tr_token :: string
  tr_error :: string

record sample_response =
  sr_ok :: bool
  sr_error :: string

record hosts_response =
  hp_ok :: bool
  hp_error :: string
  hp_hosts :: "string list"

record upgrade_response =
  ur_artifact :: string
  ur_version :: string
  ur_created :: time
  ur_sha256 :: string
  ur_signature :: string

definition body_error :: err where "body_error = Plain ''invalid JSON in the body''"

text \<open>What the four requests share: the error of the request, a status other than 200, the body.\<close>

definition read_reply :: "string \<Rightarrow> err + int \<times> 'r option \<Rightarrow> err + 'r" where
  "read_reply what reply =
     (case reply of
        Inl e \<Rightarrow> Inl e
      | Inr (status, body) \<Rightarrow>
          if status \<noteq> 200 then Inl (Plain (what @ itoa status))
          else (case body of None \<Rightarrow> Inl body_error | Some r \<Rightarrow> Inr r))"

definition no_token_response :: token_response where
  "no_token_response = \<lparr>tr_ok = False, tr_url = [], tr_token = [], tr_error = []\<rparr>"

definition create_suggestion_token ::
  "(token_request, token_response, 'w) endpoint \<Rightarrow> token_request \<Rightarrow> 'w \<Rightarrow> (err + token_response) \<times> 'w" where
  "create_suggestion_token post q w =
     (let (reply, w') = post q w in
      (case read_reply ''createSuggestionToken status: '' reply of
         Inl e \<Rightarrow> Inl e
       | Inr r \<Rightarrow> Inr (if tr_error r \<noteq> [] then r\<lparr>tr_ok := False\<rparr> else r), w'))"

definition create_sample ::
  "(sample_request, sample_response, 'w) endpoint \<Rightarrow> sample_request \<Rightarrow> 'w \<Rightarrow> (err + sample_response) \<times> 'w" where
  "create_sample post q w =
     (let (reply, w') = post q w in (read_reply ''CreateSample http status response: '' reply, w'))"

definition update_hostlist ::
  "(hosts_request, hosts_response, 'w) endpoint \<Rightarrow> hosts_request \<Rightarrow> 'w \<Rightarrow> (err + hosts_response) \<times> 'w" where
  "update_hostlist post q w =
     (let (reply, w') = post q w in (read_reply ''Updatehostlist http status response: '' reply, w'))"

text \<open>\<open>parse_version\<close>, \<open>newer\<close> and \<open>show_version\<close> are \<open>NewVersion\<close>, \<open>GreaterThan\<close> and \<open>String\<close> of the
  version package; \<open>Inr None\<close> is the reply that there is no upgrade.\<close>

definition check_binary_upgrade ::
  "(string \<Rightarrow> 'v option) \<Rightarrow> ('v \<Rightarrow> 'v \<Rightarrow> bool) \<Rightarrow> ('v \<Rightarrow> string) \<Rightarrow> (upgrade_request, upgrade_response, 'w) endpoint \<Rightarrow>
   upgrade_request \<Rightarrow> 'w \<Rightarrow> (err + upgrade_response option) \<times> 'w" where
  "check_binary_upgrade parse_version newer show_version post q w =
     (let (reply, w') = post q w in
      (case reply of
         Inl e \<Rightarrow> Inl e
       | Inr (status, body) \<Rightarrow>
           if status = 404 then Inr None
           else (case read_reply ''Upgradeversion http status response: '' reply of
              Inl e \<Rightarrow> Inl e
            | Inr r \<Rightarrow>
                (case parse_version (uq_from_version q) of
                   None \<Rightarrow> Inl (Plain (''Cannot parse current version from '' @ uq_from_version q))
                 | Some current \<Rightarrow>
                     (case parse_version (ur_version r) of
                        None \<Rightarrow> Inl (Plain (''Cannot parse new version from '' @ ur_version r))
                      | Some new \<Rightarrow>
                          if newer current new
                          then Inl (Plain (''Received version '' @ show_version new @ '' is older than current version '' @
                                 show_version current))
                          else Inr (Some r)))), w'))"

section \<open>Suggestions\<close>

record suggestion_sample =
  gs_id :: string
  gs_type :: string
  gs_data :: string
  gs_created :: time

record suggestion =
  sg_id :: string
  sg_token :: string
  sg_url :: string
  sg_created :: time
  sg_samples :: "suggestion_sample list"
  sg_prepared :: bool

type_synonym suggestions = "(string, suggestion) gomap"

definition zero_suggestion :: suggestion where
  "zero_suggestion = \<lparr>sg_id = [], sg_token = [], sg_url = [], sg_created = 0, sg_samples = [], sg_prepared = False\<rparr>"

text \<open>The messages of the loop that owns the suggestions; a change of an unknown one panics.\<close>

definition all_suggestions :: "(suggestions \<Rightarrow> suggestions) \<Rightarrow> suggestions \<Rightarrow> suggestion list" where
  "all_suggestions ord ss = map snd (ord ss)"

definition add_suggestion :: "suggestion \<Rightarrow> suggestions \<Rightarrow> suggestions" where
  "add_suggestion s ss = AList.update (sg_id s) s ss"

definition one_suggestion :: "string \<Rightarrow> suggestions \<Rightarrow> suggestion" where
  "one_suggestion i ss = (case map_of ss i of None \<Rightarrow> zero_suggestion | Some s \<Rightarrow> s)"

definition modify_suggestion :: "string \<Rightarrow> (suggestion \<Rightarrow> suggestion) \<Rightarrow> suggestions \<Rightarrow> suggestions option" where
  "modify_suggestion i f ss = (case map_of ss i of None \<Rightarrow> None | Some s \<Rightarrow> Some (AList.update i (f s) ss))"

definition get_suggestion :: "string \<Rightarrow> suggestions \<Rightarrow> suggestion option" where
  "get_suggestion i ss = (let v = one_suggestion i ss in if sg_id v = [] then None else Some v)"

definition prepared_mod :: "suggestion \<Rightarrow> suggestion" where
  "prepared_mod s = s\<lparr>sg_prepared := True\<rparr>"

definition add_sample_mod :: "suggestion_sample \<Rightarrow> suggestion \<Rightarrow> suggestion" where
  "add_sample_mod v s = s\<lparr>sg_samples := sg_samples s @ [v]\<rparr>"

definition remove_sample_mod :: "suggestion_sample \<Rightarrow> suggestion \<Rightarrow> suggestion" where
  "remove_sample_mod v s = s\<lparr>sg_samples := filter (\<lambda>x. gs_id x \<noteq> gs_id v) (sg_samples s)\<rparr>"

definition set_token_mod :: "string \<Rightarrow> suggestion \<Rightarrow> suggestion" where
  "set_token_mod t s = s\<lparr>sg_token := t\<rparr>"

text \<open>\<open>random\<close> is the text of \<open>SecureRandomString(32)\<close>, \<open>None\<close> its error.\<close>

definition new_suggestion :: "string option \<Rightarrow> time \<Rightarrow> string \<Rightarrow> suggestions \<Rightarrow> (suggestion \<times> suggestions) option" where
  "new_suggestion random now url ss =
     (case random of
        None \<Rightarrow> None
      | Some i \<Rightarrow>
          (let s = \<lparr>sg_id = i, sg_token = [], sg_url = url, sg_created = now, sg_samples = [], sg_prepared = False\<rparr>
           in Some (s, add_suggestion s ss)))"

definition add_sample :: "string option \<Rightarrow> time \<Rightarrow> string \<Rightarrow> string \<Rightarrow> string \<Rightarrow> suggestions \<Rightarrow> suggestions option" where
  "add_sample random now i type data ss =
     (case random of
        None \<Rightarrow> None
      | Some k \<Rightarrow> modify_suggestion i (add_sample_mod \<lparr>gs_id = k, gs_type = type, gs_data = data, gs_created = now\<rparr>) ss)"

definition supported_types :: "sample_type list" where
  "supported_types = [ST_DNSQuery, ST_HTTPHeader]"

text \<open>The error and the suggestions after it.\<close>

definition add_measurement ::
  "(measurement \<Rightarrow> string + string) \<Rightarrow> string option \<Rightarrow> time \<Rightarrow> string \<Rightarrow> measurement \<Rightarrow> suggestions \<Rightarrow>
   (string option \<times> suggestions) option" where
  "add_measurement marshal random now i m ss =
     (case marshal m of
        Inl e \<Rightarrow> Some (Some e, ss)
      | Inr b \<Rightarrow>
          if measurement_type m \<notin> set supported_types
          then Some (Some (''unsupported sampletype: '' @ sample_type_text (measurement_type m)), ss)
          else map_option (Pair None) (add_sample random now i (sample_type_text (measurement_type m)) b ss))"

definition done_adding_samples :: "string \<Rightarrow> suggestions \<Rightarrow> suggestions option" where
  "done_adding_samples i ss = modify_suggestion i prepared_mod ss"

definition no_session :: err where
  "no_session = new_conflict ''suggestion'' [] ''No session token associated with suggestion''"

definition is_prepared :: "string \<Rightarrow> suggestions \<Rightarrow> err + bool" where
  "is_prepared i ss =
     (case get_suggestion i ss of
        None \<Rightarrow> Inl (new_not_found ''suggestion'' i)
      | Some s \<Rightarrow> if sg_token s = [] then Inl no_session else Inr (sg_prepared s))"

text \<open>The token is stored with the suggestion, and set in the caller's copy of it.\<close>

definition request_token ::
  "(token_request, token_response, 'w) endpoint \<Rightarrow> ip option \<Rightarrow> string \<Rightarrow> suggestion \<Rightarrow> suggestions \<times> 'w \<Rightarrow>
   ((err + token_response) \<times> suggestion \<times> suggestions \<times> 'w) option" where
  "request_token post addr country s sw =
     (let (ss, w) = sw;
          (r, w') = create_suggestion_token post \<lparr>tq_url = sg_url s, tq_client_addr = addr, tq_country = country\<rparr> w
      in case r of
           Inl e \<Rightarrow> Some (Inl e, s, ss, w')
         | Inr t \<Rightarrow>
             if tr_ok t
             then map_option (\<lambda>ss'. (Inr t, s\<lparr>sg_token := tr_token t\<rparr>, ss', w')) (modify_suggestion (sg_id s) (set_token_mod (tr_token t)) ss)
             else Some (Inr t, s, ss, w'))"

definition sample_request_of :: "string \<Rightarrow> suggestion \<Rightarrow> suggestion_sample \<Rightarrow> sample_request" where
  "sample_request_of addr s v =
     \<lparr>sq_sample = Some \<lparr>sb_token = sg_token s, sb_url = sg_url s, sb_type = gs_type v, sb_data = gs_data v\<rparr>,
      sq_client_addr = addr\<rparr>"

text \<open>The loop over the samples; \<open>addr\<close> is the text of the public address.\<close>

fun send_loop ::
  "(sample_request, sample_response, 'w) endpoint \<Rightarrow> string \<Rightarrow> suggestion \<Rightarrow> suggestion_sample list \<Rightarrow>
   nat \<times> err option \<times> suggestions \<times> 'w \<Rightarrow> (nat \<times> err option \<times> suggestions \<times> 'w) option" where
  "send_loop post addr s [] acc = Some acc"
| "send_loop post addr s (v # vs) (n, rerr, ss, w) =
     (let (r, w') = create_sample post (sample_request_of addr s v) w in
      case r of
        Inl e \<Rightarrow> send_loop post addr s vs (n, Some (Plain (''error sending sample: '' @ shown_err (Some e))), ss, w')
      | Inr a \<Rightarrow>
          if \<not> sr_ok a then send_loop post addr s vs (n, Some (Plain ''error sending sample, not accepted''), ss, w')
          else (case modify_suggestion (sg_id s) (remove_sample_mod v) ss of
                  None \<Rightarrow> None
                | Some ss' \<Rightarrow> send_loop post addr s vs (Suc n, rerr, ss', w')))"

definition send_samples ::
  "(sample_request, sample_response, 'w) endpoint \<Rightarrow> string \<Rightarrow> string \<Rightarrow> suggestions \<times> 'w \<Rightarrow>
   (nat \<times> err option \<times> suggestions \<times> 'w) option" where
  "send_samples post addr i sw =
     (let (ss, w) = sw in
      case get_suggestion i ss of
        None \<Rightarrow> Some (0, Some (new_not_found ''suggestion'' i), ss, w)
      | Some s \<Rightarrow>
          if sg_token s = [] then Some (0, Some no_session, ss, w)
          else send_loop post addr s (sg_samples s) (0, None, ss, w))"

section \<open>The central server as the other end\<close>

text \<open>The handlers of the central server behind the requests: a status and, with 200, a body.\<close>

definition reply_status :: "response \<Rightarrow> int" where
  "reply_status r =
     (case r of
        Api_Error _ code \<Rightarrow> code
      | Rest_Error e \<Rightarrow> (case write_rest_error e of None \<Rightarrow> 500 | Some (code, _) \<Rightarrow> code)
      | Panicked \<Rightarrow> 500
      | _ \<Rightarrow> 200)"

definition central_tokens :: "central_env \<Rightarrow> (token_request, token_response, central_state) endpoint" where
  "central_tokens en q st =
     (let (r, st') = suggestion_token en (Inr q) st in
      (Inr (reply_status r,
            case r of
              Token_Reply ok url token \<Rightarrow> Some \<lparr>tr_ok = ok, tr_url = url, tr_token = token, tr_error = []\<rparr>
            | _ \<Rightarrow> None), st'))"

definition central_samples :: "central_env \<Rightarrow> (sample_request, sample_response, central_state) endpoint" where
  "central_samples en q st =
     (let (r, st') = store_sample en (Inr q) st in
      (Inr (reply_status r, case r of Sample_Reply ok \<Rightarrow> Some \<lparr>sr_ok = ok, sr_error = []\<rparr> | _ \<Rightarrow> None), st'))"

section \<open>Lemmas: sending\<close>

text \<open>Which of some samples the other end accepts, and the world after all of them were sent.\<close>

fun accepts ::
  "(sample_request, sample_response, 'w) endpoint \<Rightarrow> string \<Rightarrow> suggestion \<Rightarrow> suggestion_sample list \<Rightarrow> 'w \<Rightarrow> bool list \<times> 'w" where
  "accepts post addr s [] w = ([], w)"
| "accepts post addr s (v # vs) w =
     (let (r, w') = create_sample post (sample_request_of addr s v) w; (bs, w'') = accepts post addr s vs w'
      in ((case r of Inl e \<Rightarrow> False | Inr a \<Rightarrow> sr_ok a) # bs, w''))"

lemma accepts_length: "length (fst (accepts post addr s vs w)) = length vs"
  by (induction vs arbitrary: w) (auto simp: split_beta Let_def)

definition keep_refused :: "suggestion_sample list \<Rightarrow> bool list \<Rightarrow> suggestion_sample list" where
  "keep_refused vs bs = map fst (filter (\<lambda>p. \<not> snd p) (zip vs bs))"

lemma keep_refused_simps [simp]:
  "keep_refused [] bs = []" "keep_refused (v # vs) (b # bs) = (if b then keep_refused vs bs else v # keep_refused vs bs)"
  by (simp_all add: keep_refused_def)

lemma modify_some:
  "map_of ss i = Some s \<Longrightarrow> \<exists>ss'. modify_suggestion i f ss = Some ss' \<and> map_of ss' = (map_of ss)(i \<mapsto> f s)"
  by (simp add: modify_suggestion_def update_conv')

lemma filter_one_out:
  assumes "distinct (map gs_id (xs @ v # ys))"
  shows "filter (\<lambda>x. gs_id x \<noteq> gs_id v) (xs @ v # ys) = xs @ ys"
proof -
  have "\<forall>x \<in> set xs \<union> set ys. gs_id x \<noteq> gs_id v" using assms by (auto simp: image_iff)
  then show ?thesis by (simp add: filter_id_conv)
qed

text \<open>The loop, in the middle of the samples: \<open>done\<close> are the ones before that were kept.\<close>

lemma send_loop_result:
  assumes "map_of ss (sg_id s) = Some (s\<lparr>sg_samples := xs @ vs\<rparr>)" "distinct (map gs_id (xs @ vs))"
    and "accepts post addr s vs w = (bs, w')"
  shows "\<exists>e ss'. send_loop post addr s vs (n, rerr, ss, w) = Some (n + count_list bs True, e, ss', w') \<and>
    map_of ss' = (map_of ss)(sg_id s \<mapsto> s\<lparr>sg_samples := xs @ keep_refused vs bs\<rparr>) \<and>
    (e = None \<longleftrightarrow> rerr = None \<and> False \<notin> set bs)"
  using assms
proof (induction vs arbitrary: xs ss bs w w' n rerr)
  case Nil
  then show ?case by (auto simp: fun_eq_iff)
next
  case (Cons v vs)
  obtain r w1 where r: "create_sample post (sample_request_of addr s v) w = (r, w1)" by fastforce
  obtain cs w2 where cs: "accepts post addr s vs w1 = (cs, w2)" by fastforce
  have w: "w' = w2" and bs: "bs = (case r of Inl e \<Rightarrow> False | Inr a \<Rightarrow> sr_ok a) # cs"
    using Cons.prems(3) r cs by auto
  show ?case
  proof (cases "\<exists>a. r = Inr a \<and> sr_ok a")
    case True
    then obtain a where a: "r = Inr a" "sr_ok a" by blast
    obtain ss1 where m: "modify_suggestion (sg_id s) (remove_sample_mod v) ss = Some ss1"
      "map_of ss1 = (map_of ss)(sg_id s \<mapsto> remove_sample_mod v (s\<lparr>sg_samples := xs @ v # vs\<rparr>))"
      using modify_some [OF Cons.prems(1)] by blast
    have rm: "remove_sample_mod v (s\<lparr>sg_samples := xs @ v # vs\<rparr>) = s\<lparr>sg_samples := xs @ vs\<rparr>"
      using filter_one_out [OF Cons.prems(2)] by (simp add: remove_sample_mod_def)
    have h: "map_of ss1 (sg_id s) = Some (s\<lparr>sg_samples := xs @ vs\<rparr>)" by (simp add: m rm)
    have d: "distinct (map gs_id (xs @ vs))" using Cons.prems(2) by simp
    from Cons.IH [OF h d cs, of "Suc n" rerr] obtain e ss' where
      "send_loop post addr s vs (Suc n, rerr, ss1, w1) = Some (Suc n + count_list cs True, e, ss', w2)"
      "map_of ss' = (map_of ss1)(sg_id s \<mapsto> s\<lparr>sg_samples := xs @ keep_refused vs cs\<rparr>)" "e = None \<longleftrightarrow> rerr = None \<and> False \<notin> set cs"
      by blast
    moreover have "(map_of ss1)(sg_id s \<mapsto> y) = (map_of ss)(sg_id s \<mapsto> y)" for y by (simp add: m(2))
    ultimately have "send_loop post addr s (v # vs) (n, rerr, ss, w) = Some (n + count_list bs True, e, ss', w')"
      "map_of ss' = (map_of ss)(sg_id s \<mapsto> s\<lparr>sg_samples := xs @ keep_refused (v # vs) bs\<rparr>)" "e = None \<longleftrightarrow> rerr = None \<and> False \<notin> set bs"
      using r a m(1) w bs by simp_all
    then show ?thesis by blast
  next
    case False
    then have bs': "bs = False # cs" using bs by (auto split: sum.splits)
    define e1 where "e1 = (case r of Inl e \<Rightarrow> Plain (''error sending sample: '' @ shown_err (Some e)) | Inr a \<Rightarrow> Plain ''error sending sample, not accepted'')"
    have step: "send_loop post addr s (v # vs) (n, rerr, ss, w) = send_loop post addr s vs (n, Some e1, ss, w1)"
      using False r by (auto simp: e1_def split: sum.split)
    have h: "map_of ss (sg_id s) = Some (s\<lparr>sg_samples := (xs @ [v]) @ vs\<rparr>)" using Cons.prems(1) by simp
    have d: "distinct (map gs_id ((xs @ [v]) @ vs))" using Cons.prems(2) by simp
    from Cons.IH [OF h d cs, of n "Some e1"] obtain e ss' where
      "send_loop post addr s vs (n, Some e1, ss, w1) = Some (n + count_list cs True, e, ss', w2)"
      "map_of ss' = (map_of ss)(sg_id s \<mapsto> s\<lparr>sg_samples := (xs @ [v]) @ keep_refused vs cs\<rparr>)" "e \<noteq> None"
      by blast
    then have "send_loop post addr s (v # vs) (n, rerr, ss, w) = Some (n + count_list bs True, e, ss', w')"
      "map_of ss' = (map_of ss)(sg_id s \<mapsto> s\<lparr>sg_samples := xs @ keep_refused (v # vs) bs\<rparr>)" "e = None \<longleftrightarrow> rerr = None \<and> False \<notin> set bs"
      unfolding step bs' w by simp_all
    then show ?thesis by blast
  qed
qed

section \<open>Lemmas: the suggestions\<close>

text \<open>Suggestions are kept under their own, non-empty identifier; every operation keeps that.\<close>

definition suggestions_ok :: "suggestions \<Rightarrow> bool" where
  "suggestions_ok ss \<longleftrightarrow> wf_map ss \<and> (\<forall>i s. map_of ss i = Some s \<longrightarrow> sg_id s = i \<and> i \<noteq> [] \<and> distinct (map gs_id (sg_samples s)))"

lemma get_suggestion_map: "suggestions_ok ss \<Longrightarrow> get_suggestion i ss = map_of ss i"
  by (auto simp: get_suggestion_def one_suggestion_def suggestions_ok_def zero_suggestion_def Let_def split: option.split)

lemma suggestions_ok_modify:
  assumes "suggestions_ok ss" "modify_suggestion i f ss = Some ss'"
    and "\<And>s. map_of ss i = Some s \<Longrightarrow> sg_id (f s) = sg_id s \<and> (distinct (map gs_id (sg_samples s)) \<longrightarrow> distinct (map gs_id (sg_samples (f s))))"
  shows "suggestions_ok ss'"
proof -
  obtain s where s: "map_of ss i = Some s" "ss' = AList.update i (f s) ss"
    using assms(2) by (auto simp: modify_suggestion_def split: option.splits)
  with assms(1,3) show ?thesis by (auto simp: suggestions_ok_def update_conv')
qed

section \<open>Lemmas: the handlers as endpoints\<close>

lemma central_tokens_accepted:
  assumes "url_parse (trim_space (tq_url q)) = Some u" "accepted_url u" "valid_country_code (en_valid_countries en) (tq_country q)"
    and "tq_client_addr q = Some a" "en_asn en a = Inr r" "en_url_allowed en u (en_country en a) = Inr True"
    and "en_random en = Some bytes" "\<And>sa. en_insert en sa = None"
  shows "\<exists>n st'. create_suggestion_token (central_tokens en) q st =
      (Inr \<lparr>tr_ok = True, tr_url = trim_space (tq_url q), tr_token = hex_encode bytes, tr_error = []\<rparr>, st') \<and>
    cs_samples st' = cs_samples st @ [n] \<and> sa_type n = ''NewClientToken'' \<and> sa_token n = hex_encode bytes \<and> sa_host n = u_host u \<and>
    token_get (hex_encode bytes) (cs_tokens st') =
      Some \<lparr>td_id = hex_encode bytes, td_created = en_now en, td_url = trim_space (tq_url q)\<rparr>"
proof -
  let ?url = "trim_space (tq_url q)"
  have ne: "?url \<noteq> []"
  proof
    assume "?url = []"
    then have "u_scheme u = []" using assms(1) by (auto simp: url_parse_def split_at_def Let_def to_lower_def split: if_splits option.splits prod.splits)
    with assms(2) show False by (simp add: accepted_url_def allowed_protocols_def)
  qed
  obtain tokens where new: "token_new (Some bytes) (en_now en) ?url (cs_tokens st) = Some (hex_encode bytes, tokens)"
    by (simp add: token_new_def Let_def)
  have eq: "suggestion_token en (Inr q) st = open_session en q ?url u a (asn_of r) st"
    using assms(1-6) ne by (simp add: suggestion_token_def Let_def)
  have "\<exists>n st'. open_session en q ?url u a (asn_of r) st = (Token_Reply True ?url (hex_encode bytes), st') \<and>
      cs_samples st' = cs_samples st @ [n] \<and> sa_type n = ''NewClientToken'' \<and> sa_token n = hex_encode bytes \<and> sa_host n = u_host u \<and>
      cs_tokens st' = tokens"
    using new assms(7,8) by (simp add: open_session_def Let_def split: sum.split)
  then obtain n st' where st': "suggestion_token en (Inr q) st = (Token_Reply True ?url (hex_encode bytes), st')"
    "cs_samples st' = cs_samples st @ [n]" "sa_type n = ''NewClientToken''" "sa_token n = hex_encode bytes" "sa_host n = u_host u"
    "cs_tokens st' = tokens"
    unfolding eq by blast
  then show ?thesis
    using token_new_get [OF new, of "hex_encode bytes"]
    by (simp add: create_suggestion_token_def central_tokens_def read_reply_def reply_status_def)
qed

text \<open>The sample of a client for an open session, as the server keeps it.\<close>

definition stored_sample :: "central_env \<Rightarrow> url \<Rightarrow> ip \<Rightarrow> int \<Rightarrow> string \<Rightarrow> suggestion_sample \<Rightarrow> sample" where
  "stored_sample en u a asn token v =
     \<lparr>sa_host = u_host u, sa_country = en_country en a, sa_asn = asn, sa_type = gs_type v,
      sa_origin = ''Client'', sa_token = token, sa_data = gs_data v, sa_extra = []\<rparr>"

lemma central_sample_accepted:
  assumes "gs_type v \<in> set client_sample_types" "token_get (sg_token s) (cs_tokens st) = Some td"
    and "td_url td = trim_space (sg_url s)" "url_parse (trim_space (sg_url s)) = Some u" "parse_ip addr = Some a"
    and "en_asn en a = Inr r" "\<And>sa. en_insert en sa = None"
  shows "create_sample (central_samples en) (sample_request_of addr s v) st =
    (Inr \<lparr>sr_ok = True, sr_error = []\<rparr>, st\<lparr>cs_samples := cs_samples st @ [stored_sample en u a (asn_of r) (sg_token s) v]\<rparr>)"
  using assms
  by (simp add: create_sample_def central_samples_def sample_request_of_def store_sample_def store_client_sample_def
      read_reply_def reply_status_def stored_sample_def Let_def)

lemma central_samples_accepted:
  assumes "list_all (\<lambda>v. gs_type v \<in> set client_sample_types) vs" "token_get (sg_token s) (cs_tokens st) = Some td"
    and "td_url td = trim_space (sg_url s)" "url_parse (trim_space (sg_url s)) = Some u" "parse_ip addr = Some a"
    and "en_asn en a = Inr r" "\<And>sa. en_insert en sa = None"
  shows "accepts (central_samples en) addr s vs st =
    (replicate (length vs) True, st\<lparr>cs_samples := cs_samples st @ map (stored_sample en u a (asn_of r) (sg_token s)) vs\<rparr>)"
  using assms(1,2)
proof (induction vs arbitrary: st)
  case (Cons v vs)
  have "create_sample (central_samples en) (sample_request_of addr s v) st =
    (Inr \<lparr>sr_ok = True, sr_error = []\<rparr>, st\<lparr>cs_samples := cs_samples st @ [stored_sample en u a (asn_of r) (sg_token s) v]\<rparr>)"
    using Cons.prems assms(3-7) by (intro central_sample_accepted [where td = td]) auto
  then show ?case using Cons.prems Cons.IH by simp
qed simp

lemma keep_none: "keep_refused vs (replicate (length vs) True) = []"
  by (induction vs) auto

lemma hex_encode_not_Nil: "bytes \<noteq> [] \<Longrightarrow> hex_encode bytes \<noteq> []"
  using length_hex_encode [of bytes] by (cases "hex_encode bytes") auto

lemma keep_refused_empty: "length bs = length vs \<Longrightarrow> keep_refused vs bs = [] \<longleftrightarrow> False \<notin> set bs"
  by (induction bs vs rule: list_induct2) auto

lemma count_replicate [simp]: "count_list (replicate n x) x = n"
  by (induction n) auto

text \<open>When every sample is accepted, all are sent and none is left.\<close>

lemma send_loop_all:
  assumes "suggestions_ok ss" "map_of ss i = Some s" "sg_token s \<noteq> []"
    and "accepts post addr s (sg_samples s) w = (replicate (length (sg_samples s)) True, w')"
  shows "\<exists>ss'. send_samples post addr i (ss, w) = Some (length (sg_samples s), None, ss', w') \<and>
    map_of ss' i = Some (s\<lparr>sg_samples := []\<rparr>)"
proof -
  have ok: "sg_id s = i" "distinct (map gs_id (sg_samples s))" using assms(1,2) by (auto simp: suggestions_ok_def)
  have g: "get_suggestion i ss = Some s" using assms(1,2) by (simp add: get_suggestion_map)
  have "map_of ss (sg_id s) = Some (s\<lparr>sg_samples := [] @ sg_samples s\<rparr>)" using assms(2) ok(1) by simp
  from send_loop_result [OF this _ assms(4), of 0 None] ok obtain ss' where
    "send_loop post addr s (sg_samples s) (0, None, ss, w) = Some (length (sg_samples s), None, ss', w')"
    "map_of ss' = (map_of ss)(i \<mapsto> s\<lparr>sg_samples := []\<rparr>)"
    by (auto simp: keep_none)
  then show ?thesis using g assms(3) by (simp add: send_samples_def)
qed

section \<open>Properties\<close>

text \<open>
  Sending the samples of a suggestion, whatever the other end answers: each is sent once, in
  order; exactly those that were not accepted stay, so that none that was accepted is ever sent
  again; the count is that of the accepted ones, and there is an error exactly if one stays.
\<close>

lemma send_samples_keeps_refused:
  assumes "suggestions_ok ss" "map_of ss i = Some s" "sg_token s \<noteq> []" "accepts post addr s (sg_samples s) w = (bs, w')"
  shows "\<exists>e ss'. send_samples post addr i (ss, w) = Some (count_list bs True, e, ss', w') \<and>
    map_of ss' = (map_of ss)(i \<mapsto> s\<lparr>sg_samples := keep_refused (sg_samples s) bs\<rparr>) \<and>
    (e = None \<longleftrightarrow> keep_refused (sg_samples s) bs = [])"
proof -
  have ok: "sg_id s = i" "distinct (map gs_id (sg_samples s))" using assms(1,2) by (auto simp: suggestions_ok_def)
  have g: "get_suggestion i ss = Some s" using assms(1,2) by (simp add: get_suggestion_map)
  have "map_of ss (sg_id s) = Some (s\<lparr>sg_samples := [] @ sg_samples s\<rparr>)" using assms(2) ok(1) by simp
  from send_loop_result [OF this _ assms(4), of 0 None] ok obtain e ss' where
    "send_loop post addr s (sg_samples s) (0, None, ss, w) = Some (count_list bs True, e, ss', w')"
    "map_of ss' = (map_of ss)(i \<mapsto> s\<lparr>sg_samples := keep_refused (sg_samples s) bs\<rparr>)" "e = None \<longleftrightarrow> False \<notin> set bs"
    by auto
  moreover have "keep_refused (sg_samples s) bs = [] \<longleftrightarrow> False \<notin> set bs"
    using keep_refused_empty [of bs "sg_samples s"] accepts_length [of post addr s "sg_samples s" w] assms(4) by simp
  ultimately show ?thesis using g assms(3) by (simp add: send_samples_def)
qed

text \<open>
  C11. A suggestion arrives. When a client requests a token for a suggestion whose URL the server
  accepts and then sends its samples, the server stores a new token sample of the host and each
  of the samples, in order, for the client's country and network and under one new token; nothing
  is left to send.
\<close>

theorem suggestion_reaches_central:
  assumes "suggestions_ok ss" "map_of ss i = Some s" "list_all (\<lambda>v. gs_type v \<in> set client_sample_types) (sg_samples s)"
    and "url_parse (trim_space (sg_url s)) = Some u" "accepted_url u" "valid_country_code (en_valid_countries en) country"
    and "parse_ip addr = Some a" "en_asn en a = Inr r" "en_url_allowed en u (en_country en a) = Inr True"
    and "en_random en = Some bytes" "bytes \<noteq> []" "\<And>sa. en_insert en sa = None"
  shows "\<exists>t s1 ss1 st1 ss2 st2 n. request_token (central_tokens en) (Some a) country s (ss, st) = Some (Inr t, s1, ss1, st1) \<and> tr_ok t \<and>
    send_samples (central_samples en) addr i (ss1, st1) = Some (length (sg_samples s), None, ss2, st2) \<and>
    map_of ss2 i = Some (s\<lparr>sg_token := tr_token t, sg_samples := []\<rparr>) \<and>
    cs_samples st2 = cs_samples st @ n # map (stored_sample en u a (asn_of r) (tr_token t)) (sg_samples s) \<and>
    sa_type n = ''NewClientToken'' \<and> sa_token n = tr_token t \<and> sa_host n = u_host u"
proof -
  let ?q = "\<lparr>tq_url = sg_url s, tq_client_addr = Some a, tq_country = country\<rparr>"
  let ?t = "\<lparr>tr_ok = True, tr_url = trim_space (sg_url s), tr_token = hex_encode bytes, tr_error = []\<rparr>"
  let ?td = "\<lparr>td_id = hex_encode bytes, td_created = en_now en, td_url = trim_space (sg_url s)\<rparr>"
  let ?s = "s\<lparr>sg_token := hex_encode bytes\<rparr>"
  obtain n st1 where t: "create_suggestion_token (central_tokens en) ?q st = (Inr ?t, st1)"
    "cs_samples st1 = cs_samples st @ [n]" "sa_type n = ''NewClientToken''" "sa_token n = hex_encode bytes" "sa_host n = u_host u"
    "token_get (hex_encode bytes) (cs_tokens st1) = Some ?td"
    using central_tokens_accepted [of ?q u en a r bytes st] assms(4-12) by auto
  have i: "sg_id s = i" using assms(1,2) by (auto simp: suggestions_ok_def)
  obtain ss1 where ss1: "modify_suggestion i (set_token_mod (hex_encode bytes)) ss = Some ss1" "map_of ss1 = (map_of ss)(i \<mapsto> ?s)"
    using modify_some [OF assms(2), of "set_token_mod (hex_encode bytes)"] by (auto simp: set_token_mod_def)
  have r: "request_token (central_tokens en) (Some a) country s (ss, st) = Some (Inr ?t, ?s, ss1, st1)"
    using t(1) ss1(1) i by (simp add: request_token_def)
  have ok1: "suggestions_ok ss1" by (rule suggestions_ok_modify [OF assms(1) ss1(1)]) (simp add: set_token_mod_def)
  have acc: "accepts (central_samples en) addr ?s (sg_samples s) st1 = (replicate (length (sg_samples s)) True,
      st1\<lparr>cs_samples := cs_samples st1 @ map (stored_sample en u a (asn_of r) (hex_encode bytes)) (sg_samples s)\<rparr>)" (is "_ = (_, ?st2)")
    using central_samples_accepted [of "sg_samples s" ?s st1 ?td u addr a en r] assms(3-12) t(6) by simp
  have tok: "sg_token ?s \<noteq> []" using assms(11) by (simp add: hex_encode_not_Nil)
  have "map_of ss1 i = Some ?s" by (simp add: ss1(2))
  from send_loop_all [OF ok1 this tok, of "central_samples en" addr st1 ?st2] acc obtain ss2 where
    "send_samples (central_samples en) addr i (ss1, st1) = Some (length (sg_samples s), None, ss2, ?st2)"
    "map_of ss2 i = Some (?s\<lparr>sg_samples := []\<rparr>)"
    by auto
  moreover have "cs_samples ?st2 = cs_samples st @ n # map (stored_sample en u a (asn_of r) (tr_token ?t)) (sg_samples s)"
    by (simp add: t(2))
  moreover have "?s\<lparr>sg_samples := []\<rparr> = s\<lparr>sg_token := tr_token ?t, sg_samples := []\<rparr>" "tr_ok ?t" "tr_token ?t = hex_encode bytes" by simp_all
  ultimately show ?thesis using r t(3-5) by metis
qed

section \<open>Examples\<close>

definition demo_suggestion :: suggestion where
  "demo_suggestion = \<lparr>sg_id = ''i'', sg_token = [], sg_url = ''http://a.org/'', sg_created = 0,
     sg_samples = [\<lparr>gs_id = ''1'', gs_type = ''DNSQuery'', gs_data = ''{}'', gs_created = 0\<rparr>,
                   \<lparr>gs_id = ''2'', gs_type = ''HTTPHeader'', gs_data = ''{}'', gs_created = 0\<rparr>], sg_prepared = True\<rparr>"

lemma demo_suggestions_ok: "suggestions_ok [(''i'', demo_suggestion)]" "suggestions_ok [(''i'', demo_suggestion\<lparr>sg_token := ''t''\<rparr>)]"
  by (auto simp: suggestions_ok_def demo_suggestion_def wf_map_def)

text \<open>A server that counts what it is sent and accepts every second sample.\<close>

definition picky_server :: "(sample_request, sample_response, nat) endpoint" where
  "picky_server q n = (Inr (200, Some \<lparr>sr_ok = odd n, sr_error = []\<rparr>), Suc n)"

lemma send_samples_keeps_refused_witness:
  "\<exists>e ss'. send_samples picky_server ''1.2.3.4'' ''i'' ([(''i'', demo_suggestion\<lparr>sg_token := ''t''\<rparr>)], 0) = Some (1, e, ss', 2) \<and>
     e \<noteq> None \<and> map_option (map gs_id \<circ> sg_samples) (map_of ss' ''i'') = Some [''1'']"
proof -
  let ?s = "demo_suggestion\<lparr>sg_token := ''t''\<rparr>"
  have "accepts picky_server ''1.2.3.4'' ?s (sg_samples ?s) 0 = ([False, True], 2)"
    by (simp add: demo_suggestion_def create_sample_def picky_server_def read_reply_def)
  from send_samples_keeps_refused [OF demo_suggestions_ok(2) _ _ this, of "''i''"] show ?thesis
    by (auto simp: demo_suggestion_def)
qed

lemma suggestion_reaches_central_witness:
  "\<exists>t s1 ss1 st1 ss2 st2. request_token (central_tokens demo_central_env) (Some [0,0,0,0,0,0,0,0,0,0,0,0,0,0,0,1]) ''SE'' demo_suggestion
       ([(''i'', demo_suggestion)], no_state) = Some (Inr t, s1, ss1, st1) \<and>
     send_samples (central_samples demo_central_env) ''::1'' ''i'' (ss1, st1) = Some (2, None, ss2, st2) \<and>
     length (cs_samples st2) = 3"
proof -
  have u: "url_parse (trim_space (sg_url demo_suggestion)) = Some \<lparr>u_scheme = ''http'', u_host = ''a.org''\<rparr>"
    by (simp add: demo_suggestion_def demo_facts)
  have types: "list_all (\<lambda>v. gs_type v \<in> set client_sample_types) (sg_samples demo_suggestion)"
    by (simp add: demo_suggestion_def client_sample_types_def)
  have codes: "valid_country_code (en_valid_countries demo_central_env) ''SE''"
    by (simp add: valid_country_code_def demo_env_def central_env.truncate_def)
  have look: "en_asn demo_central_env [0,0,0,0,0,0,0,0,0,0,0,0,0,0,0,1] = Inr (Some 64500)"
    "en_url_allowed demo_central_env \<lparr>u_scheme = ''http'', u_host = ''a.org''\<rparr>
       (en_country demo_central_env [0,0,0,0,0,0,0,0,0,0,0,0,0,0,0,1]) = Inr True"
    "en_random demo_central_env = Some ''ab''" "en_insert demo_central_env sa = None" for sa
    by (simp_all add: demo_env_def central_env.truncate_def)
  have m: "map_of [(''i'', demo_suggestion)] ''i'' = Some demo_suggestion" by simp
  have n: "length (sg_samples demo_suggestion) = 2" by (simp add: demo_suggestion_def)
  obtain t s1 ss1 st1 ss2 st2 x where
    "request_token (central_tokens demo_central_env) (Some [0,0,0,0,0,0,0,0,0,0,0,0,0,0,0,1]) ''SE'' demo_suggestion
       ([(''i'', demo_suggestion)], no_state) = Some (Inr t, s1, ss1, st1)"
    "send_samples (central_samples demo_central_env) ''::1'' ''i'' (ss1, st1) = Some (2, None, ss2, st2)"
    and rows: "cs_samples st2 = x # map (stored_sample demo_central_env \<lparr>u_scheme = ''http'', u_host = ''a.org''\<rparr>
       [0,0,0,0,0,0,0,0,0,0,0,0,0,0,0,1] (asn_of (Some 64500)) (tr_token t)) (sg_samples demo_suggestion)"
    using suggestion_reaches_central [OF demo_suggestions_ok(1) m types u demo_facts(3) codes demo_address look(1-3) _ look(4), where st = no_state]
    unfolding n by auto
  moreover have "length (cs_samples st2) = 3" by (simp add: rows n)
  ultimately show ?thesis by blast
qed

end
