(* ===== verification/ClientApi.thy ===== *)
theory ClientApi
  imports Suggestions ConfigUpgrade ConnManager ClientAuth
begin

text \<open>
  The handlers of \<open>pkg/client/api.go\<close>, the interface of the client for the browser. A handler
  gives what it writes, in order (an error is followed by more when the code goes on), and
  the state after it; a panic is \<open>None\<close>. A request whose body does not decode is \<open>Inl\<close> its error.
\<close>

section \<open>State\<close>

record traffic =
  tt_opened :: "string list"
  tt_read :: "64 word"
  tt_write :: "64 word"
  tt_throughput :: string

text \<open>
  \<open>ca_active\<close> are the connections the connection manager uses, \<open>ca_saved\<close> what
  \<open>settings.json\<close> holds, \<open>ca_proxied\<close> the hosts of the proxy configuration.
\<close>

record client_api =
  ca_config :: config
  ca_active :: "connection list"
  ca_saved :: settings
  ca_language :: string
  ca_proxied :: "string list"
  ca_list_change :: time
  ca_suggestions :: suggestions
  ca_ids :: id_gen
  ca_traffic :: traffic

datatype 'b written = Error_Written "(int \<times> status) option" | Json_Written 'b

definition rest_error :: "err \<Rightarrow> 'b written" where
  "rest_error e = Error_Written (write_rest_error e)"

definition connections :: "client_api \<Rightarrow> connection list" where
  "connections a = s_connections (cfg_settings (ca_config a))"

definition local_of :: "client_api \<Rightarrow> local_settings" where
  "local_of a = s_local (cfg_settings (ca_config a))"

definition with_connections :: "connection list \<Rightarrow> client_api \<Rightarrow> client_api" where
  "with_connections cs a =
     a\<lparr>ca_config := (ca_config a)\<lparr>cfg_settings := (cfg_settings (ca_config a))\<lparr>s_connections := cs\<rparr>\<rparr>\<rparr>"

definition write_config :: "client_api \<Rightarrow> client_api" where
  "write_config a = a\<lparr>ca_saved := cfg_settings (ca_config a)\<rparr>"

section \<open>Notifications\<close>

record notification =
  nf_id :: string
  nf_level :: string
  nf_title :: string
  nf_message :: string
  nf_actions :: "(string \<times> string) list"

fun prepare_notifications :: "notification list \<Rightarrow> id_gen \<Rightarrow> notification list \<times> id_gen" where
  "prepare_notifications [] g = ([], g)"
| "prepare_notifications (n # ns) g =
     (if nf_id n = [] then
        (let (i, g1) = id_new g; (ns', g2) = prepare_notifications ns g1 in (n\<lparr>nf_id := i\<rparr> # ns', g2))
      else (let (ns', g2) = prepare_notifications ns g in (n # ns', g2)))"

definition notify :: "string \<Rightarrow> string \<Rightarrow> string \<Rightarrow> (string \<times> string) list \<Rightarrow> notification" where
  "notify level title message actions =
     \<lparr>nf_id = [], nf_level = level, nf_title = title, nf_message = message, nf_actions = actions\<rparr>"

definition get_notifications :: "bool \<Rightarrow> client_api \<Rightarrow> notification list \<times> client_api" where
  "get_notifications up a =
     (let ns =
        (if \<not> user_setup (local_of a) then
           [notify ''info'' ''setup_required_title'' ''setup_required_firstrun_message'' [(''action_continue'', ''/setup-guide/'')]]
         else if up then
           [notify ''success'' ''status_title'' ''status_ok_message'' [],
            notify ''info'' ''suggest_this_title'' ''suggest_this_message''
              [(''action_continue'', ''/suggestions/''), (''action_help'', ''/docs/__/report-url'')]]
         else
           [notify ''danger'' ''status_title'' ''transport_error_message'' [(''action_help'', ''/docs/__/index'')]]);
          (ns', g) = prepare_notifications ns (ca_ids a)
      in (ns', a\<lparr>ca_ids := g\<rparr>))"

section \<open>Connections\<close>

record connection_setting =
  co_id :: string
  co_name :: string
  co_encoded :: string
  co_disabled :: bool
  co_protected :: bool

definition get_connections :: "(string \<Rightarrow> string) \<Rightarrow> client_api \<Rightarrow> connection_setting list" where
  "get_connections from_string a =
     map (\<lambda>c. \<lparr>co_id = c_id c, co_name = display_name from_string c, co_encoded = [], co_disabled = c_disabled c,
               co_protected = c_protected c\<rparr>) (connections a)"

definition one_enabled :: string where "one_enabled = ''one connection must be enabled''"

definition enabled :: "connection list \<Rightarrow> connection list" where
  "enabled cs = filter (\<lambda>c. \<not> c_disabled c) cs"

text \<open>The last index with the identifier, as the loops over the connections leave it.\<close>

definition last_with_id :: "string \<Rightarrow> connection list \<Rightarrow> nat option" where
  "last_with_id i cs =
     (case filter (\<lambda>k. c_id (cs ! k) = i) [0..<length cs] of [] \<Rightarrow> None | ks \<Rightarrow> Some (last ks))"

definition toggle_update :: "(nat \<Rightarrow> nat \<Rightarrow> nat) \<Rightarrow> string \<Rightarrow> client_api \<Rightarrow> bool written list \<times> client_api" where
  "toggle_update rnd i a =
     (let cs = connections a in
      case last_with_id i cs of
        None \<Rightarrow> ([rest_error (new_not_found ''connection'' i)], a)
      | Some k \<Rightarrow>
          if length (enabled cs) < 2 \<and> \<not> c_disabled (cs ! k)
          then ([rest_error (new_forbidden ''connection'' i one_enabled)], a)
          else (let cs' = cs[k := (cs ! k)\<lparr>c_disabled := \<not> c_disabled (cs ! k)\<rparr>]
                in ([], (with_connections cs' a)\<lparr>ca_active := update_connections rnd cs'\<rparr>)))"

text \<open>After the update the settings are written and \<open>true\<close> is sent, also after an error.\<close>

definition finish_update :: "bool written list \<times> client_api \<Rightarrow> bool written list \<times> client_api" where
  "finish_update r = (fst r @ [Json_Written True], write_config (snd r))"

definition toggle_connection :: "(nat \<Rightarrow> nat \<Rightarrow> nat) \<Rightarrow> string \<Rightarrow> client_api \<Rightarrow> bool written list \<times> client_api" where
  "toggle_connection rnd i a = finish_update (toggle_update rnd i a)"

text \<open>The loop of \<open>DeleteConnection\<close>: \<open>None\<close> at a protected connection with the identifier.\<close>

fun delete_loop :: "string \<Rightarrow> connection list \<Rightarrow> bool \<times> nat \<times> connection list \<Rightarrow> (bool \<times> nat \<times> connection list) option" where
  "delete_loop i [] acc = Some acc"
| "delete_loop i (v # vs) (found, n, result) =
     (if c_id v = i then (if c_protected v then None else delete_loop i vs (True, n, result))
      else delete_loop i vs (found, if c_disabled v then n else Suc n, result @ [v]))"

definition delete_update :: "(nat \<Rightarrow> nat \<Rightarrow> nat) \<Rightarrow> string \<Rightarrow> client_api \<Rightarrow> bool written list \<times> client_api" where
  "delete_update rnd i a =
     (case delete_loop i (connections a) (False, 0, []) of
        None \<Rightarrow> ([rest_error (new_forbidden ''connection'' i ''<nil>'')], a)
      | Some (found, n, result) \<Rightarrow>
          if \<not> found then ([rest_error (new_not_found ''connection'' i)], a)
          else if n < 1 then ([rest_error (new_forbidden ''connection'' i one_enabled)], a)
          else ([], (with_connections result a)\<lparr>ca_active := update_connections rnd result\<rparr>))"

definition delete_connection :: "(nat \<Rightarrow> nat \<Rightarrow> nat) \<Rightarrow> string \<Rightarrow> client_api \<Rightarrow> bool written list \<times> client_api" where
  "delete_connection rnd i a = finish_update (delete_update rnd i a)"

definition post_invalids :: "(string \<Rightarrow> string) \<Rightarrow> connection_setting \<Rightarrow> connection list \<Rightarrow> validation_error list" where
  "post_invalids sha256 form cs =
     (let (c, e) = decode_connection sha256 (co_encoded form) in
      (if co_encoded form = [] then [new_field_required ''encoded''] else []) @
      (if e \<noteq> None then [new_field_invalid ''encoded'' (co_encoded form) ''invalid formatting''] else []) @
      (if co_id form \<noteq> [] \<and> last_with_id (co_id form) cs = None then [new_field_not_found ''id'' (co_id form)] else []) @
      (if list_ex (\<lambda>v. conn_encode v = conn_encode c) cs then [new_field_duplicate ''encoded'' (co_encoded form)] else []))"

definition post_update ::
  "(nat \<Rightarrow> nat \<Rightarrow> nat) \<Rightarrow> (string \<Rightarrow> string) \<Rightarrow> connection_setting \<Rightarrow> client_api \<Rightarrow> bool written list \<times> client_api" where
  "post_update rnd sha256 form a =
     (let cs = connections a;
          c = fst (decode_connection sha256 (co_encoded form));
          invalids = post_invalids sha256 form cs
      in if invalids \<noteq> []
         then ([rest_error (new_invalid ''post-connection'' [] (map (Some \<circ> Field_Err) invalids))], a)
         else (let cs' = (if co_id form = [] then cs @ [ensure_id sha256 c]
                          else cs[(case last_with_id (co_id form) cs of None \<Rightarrow> 0 | Some k \<Rightarrow> k) := c])
               in ([], (with_connections cs' a)\<lparr>ca_active := update_connections rnd cs'\<rparr>)))"

definition post_connection ::
  "(nat \<Rightarrow> nat \<Rightarrow> nat) \<Rightarrow> (string \<Rightarrow> string) \<Rightarrow> string + connection_setting \<Rightarrow> client_api \<Rightarrow> bool written list \<times> client_api" where
  "post_connection rnd sha256 body a =
     (case body of
        Inl e \<Rightarrow> ([rest_error (new_bad_request e)], a)
      | Inr form \<Rightarrow> finish_update (post_update rnd sha256 form a))"

definition validate_connection_string ::
  "(string \<Rightarrow> string) \<Rightarrow> (string \<Rightarrow> string) \<Rightarrow> string + string \<Rightarrow> (bool \<times> string) written list" where
  "validate_connection_string sha256 from_string body =
     (case body of
        Inl e \<Rightarrow> [rest_error (new_bad_request (''can'' @ [CHR 0x27] @ ''t decode json''))]
      | Inr text \<Rightarrow>
          (case decode_connection sha256 text of
             (c, Some e) \<Rightarrow> [Json_Written (False, [])]
           | (c, None) \<Rightarrow> [Json_Written (True, display_name from_string c)]))"

section \<open>Settings\<close>

record user_settings =
  us_language :: string
  us_language_options :: "string list"
  us_country_code :: string
  us_client_auto_update :: bool
  us_blocklist_auto_update :: bool

definition language_options :: "string list" where
  "language_options = [''en'', ''ar'', ''fa'']"

definition valid_language :: "string \<Rightarrow> bool" where
  "valid_language l \<longleftrightarrow> l \<in> set language_options"

definition get_user_settings :: "client_api \<Rightarrow> user_settings" where
  "get_user_settings a =
     \<lparr>us_language = l_language (local_of a), us_language_options = language_options,
      us_country_code = l_country_code (local_of a), us_client_auto_update = l_client_auto_update (local_of a),
      us_blocklist_auto_update = l_blocklist_auto_update (local_of a)\<rparr>"

definition post_user_settings :: "string + user_settings \<Rightarrow> client_api \<Rightarrow> unit written list \<times> client_api" where
  "post_user_settings body a =
     (case body of
        Inl e \<Rightarrow> ([rest_error (new_bad_request e)], a)
      | Inr form \<Rightarrow>
          (let s = local_of a;
               lang = (if valid_language (us_language form) then us_language form else ''en'');
               s' = s\<lparr>l_language := lang, l_country_code := us_country_code form,
                      l_client_auto_update := us_client_auto_update form,
                      l_blocklist_auto_update := us_blocklist_auto_update form\<rparr>;
               changed = (s' \<noteq> s);
               a' = a\<lparr>ca_config := (ca_config a)\<lparr>cfg_settings := (cfg_settings (ca_config a))\<lparr>s_local := s'\<rparr>\<rparr>,
                      ca_language := (if l_language s \<noteq> lang then lang else ca_language a)\<rparr>
           in ([], if changed then write_config a' else a')))"

section \<open>Status\<close>

record status_summary =
  su_transport_ok :: bool
  su_browser_ok :: bool
  su_central_ok :: bool
  su_country_code :: string
  su_list_change :: time
  su_version :: string

definition shown_version :: "string \<Rightarrow> string" where
  "shown_version v = (if v = [] then ''development version'' else v)"

definition get_status_summary :: "string \<Rightarrow> bool \<Rightarrow> client_api \<Rightarrow> status_summary" where
  "get_status_summary version up a =
     \<lparr>su_transport_ok = up, su_browser_ok = True, su_central_ok = True, su_country_code = l_country_code (local_of a),
      su_list_change = ca_list_change a, su_version = shown_version version\<rparr>"

definition client_api_version :: int where "client_api_version = 2"

definition get_version :: "string \<Rightarrow> string \<times> int" where
  "get_version version = (shown_version version, client_api_version)"

section \<open>The hosts that are proxied\<close>

text \<open>\<open>pac.UpdateBlockedList\<close>.\<close>

definition pac_hosts :: "string list list \<Rightarrow> string list" where
  "pac_hosts hosts = ''alkasir.com'' # concat hosts"

definition update_blocked_list :: "client_api \<Rightarrow> client_api" where
  "update_blocked_list a =
     a\<lparr>ca_proxied := pac_hosts [h_hosts (cfg_blocked_central (ca_config a)), h_hosts (cfg_blocked (ca_config a))]\<rparr>"

section \<open>The client of the central server (util.go)\<close>

text \<open>\<open>through\<close> is the error of opening a client through the transport; the second component
  tells whether the requests go through it.\<close>

definition new_rest_client :: "err option \<Rightarrow> client_api \<Rightarrow> err + rest_client \<times> bool" where
  "new_rest_client through a =
     (let apiurl = l_central_addr (local_of a) in
      case url_parse apiurl of
        None \<Rightarrow> Inl (Plain ''parse error'')
      | Some u \<Rightarrow>
          (case (if CHR '':'' \<in> set (u_host u)
                 then (case split_host_port (u_host u) of Inl e \<Rightarrow> None | Inr (host, port) \<Rightarrow> Some host)
                 else Some (u_host u)) of
             None \<Rightarrow> Inl (Plain ''address error'')
           | Some host \<Rightarrow>
               if host = ''localhost'' \<or> host = ''127.0.0.1'' then Inr (new_client apiurl, False)
               else (case through of Some e \<Rightarrow> Inl e | None \<Rightarrow> Inr (new_client apiurl, True))))"

section \<open>Suggestions\<close>

text \<open>
  \<open>CreateSuggestion\<close>. The identifiers drawn are \<open>random 0\<close> for the suggestion and \<open>random k\<close> for
  its samples; \<open>url_string\<close> is \<open>URL.String\<close> of the parsed text, \<open>split_text\<close> the text of the
  error of \<open>SplitHostPort\<close>. A text that does not parse leaves a \<open>nil\<close> URL whose host is read.
\<close>

definition create_invalids :: "string \<Rightarrow> string \<Rightarrow> url \<Rightarrow> validation_error list" where
  "create_invalids split_text url u =
     (if url = [] then [new_field_required ''URL''] else []) @
     (if CHR '':'' \<in> set (u_host u) \<and> (case split_host_port (u_host u) of Inl e \<Rightarrow> True | Inr r \<Rightarrow> False)
      then [new_field_invalid ''URL'' url split_text] else []) @
     (if \<not> accepted_url u then [new_field_not_supported ''URL'' url []] else [])"

fun measure_all ::
  "network \<Rightarrow> (measurement \<Rightarrow> string + string) \<Rightarrow> (nat \<Rightarrow> string option) \<Rightarrow> time \<Rightarrow> nat \<Rightarrow> string \<Rightarrow> measurer list \<Rightarrow>
   suggestions \<Rightarrow> suggestions option" where
  "measure_all nw marshal random now k i [] ss = Some ss"
| "measure_all nw marshal random now k i (m # ms) ss =
     (let r = measure nw m in
      if measurement_type r \<in> set supported_types
      then (case add_measurement marshal (random k) now i r ss of
              None \<Rightarrow> None
            | Some (Some e, ss') \<Rightarrow> Some ss'
            | Some (None, ss') \<Rightarrow> measure_all nw marshal random now (Suc k) i ms ss')
      else measure_all nw marshal random now k i ms ss)"

definition measure_error_text :: "measure_error \<Rightarrow> string" where
  "measure_error_text e = (case e of Empty_Url \<Rightarrow> ''empty url'' | Bad_Url \<Rightarrow> ''bad url'' | Host_Not_Allowed h \<Rightarrow> ''not allowed: '' @ h)"

definition create_suggestion ::
  "network \<Rightarrow> (measurement \<Rightarrow> string + string) \<Rightarrow> (nat \<Rightarrow> string option) \<Rightarrow> (string \<Rightarrow> string) \<Rightarrow> string \<Rightarrow> time \<Rightarrow>
   err + string \<Rightarrow> client_api \<Rightarrow> (unit written list \<times> client_api) option" where
  "create_suggestion nw marshal random url_string split_text now body a =
     (case body of
        Inl e \<Rightarrow> Some ([rest_error e], a)
      | Inr form_url \<Rightarrow>
          (let url = trim_space form_url in
           case url_parse url of
             None \<Rightarrow> None
           | Some u \<Rightarrow>
               (let invalids = create_invalids split_text url u in
                if invalids \<noteq> []
                then Some ([rest_error (new_invalid ''create-suggestion'' ''URL'' (map (Some \<circ> Field_Err) invalids))], a)
                else (case new_suggestion (random 0) now (url_string url) (ca_suggestions a) of
                        None \<Rightarrow> None
                      | Some (s, ss) \<Rightarrow>
                          (let (out, measured) =
                             (case default_measurements form_url of
                                Inl e \<Rightarrow> ([rest_error (new_internal_error (measure_error_text e))], Some ss)
                              | Inr ms \<Rightarrow> ([], measure_all nw marshal random now 1 (sg_id s) ms ss))
                           in case Option.bind measured (done_adding_samples (sg_id s)) of
                                None \<Rightarrow> None
                              | Some ss' \<Rightarrow> Some (out, a\<lparr>ca_suggestions := ss'\<rparr>))))))"

definition get_suggestion_handler :: "string \<Rightarrow> client_api \<Rightarrow> suggestion written list" where
  "get_suggestion_handler i a =
     (case get_suggestion i (ca_suggestions a) of
        None \<Rightarrow> [rest_error (new_not_found ''suggestion'' i)]
      | Some s \<Rightarrow> [Json_Written s])"

definition get_suggestions ::
  "(suggestions \<Rightarrow> suggestions) \<Rightarrow> (string \<Rightarrow> time option) \<Rightarrow> string \<Rightarrow> client_api \<Rightarrow> suggestion list written list" where
  "get_suggestions ord parse_time after a =
     (let all = all_suggestions ord (ca_suggestions a) in
      if after = [] then [Json_Written all]
      else (case parse_time after of
              None \<Rightarrow> []
            | Some t \<Rightarrow> [Json_Written (filter (\<lambda>s. t < sg_created s) all)]))"

text \<open>The end of \<open>SubmitSuggestion\<close>: the host of the suggestion is proxied from now on.\<close>

definition block_suggested :: "time \<Rightarrow> string \<Rightarrow> client_api \<Rightarrow> client_api" where
  "block_suggested now url a =
     (case url_parse url of
        None \<Rightarrow> a
      | Some u \<Rightarrow>
          update_blocked_list
            (a\<lparr>ca_config := (ca_config a)\<lparr>cfg_blocked := hosts_add (u_host u) (cfg_blocked (ca_config a))\<rparr>, ca_list_change := now\<rparr>))"

text \<open>\<open>post_tokens\<close> and \<open>post_samples\<close> are the central server behind the client; the flag of the
  result tells whether the loop that sends the rest later is started.\<close>

definition submit_suggestion ::
  "(token_request, token_response, 'w) endpoint \<Rightarrow> (sample_request, sample_response, 'w) endpoint \<Rightarrow> err option \<Rightarrow>
   ip option \<Rightarrow> string \<Rightarrow> time \<Rightarrow> string \<Rightarrow> client_api \<times> 'w \<Rightarrow>
   (token_response written list \<times> bool \<times> client_api \<times> 'w) option" where
  "submit_suggestion post_tokens post_samples through wanip wanip_text now i aw =
     (let (a, w) = aw in
      case get_suggestion i (ca_suggestions a) of
        None \<Rightarrow> Some ([rest_error (new_not_found ''suggestion'' i)], False, a, w)
      | Some s \<Rightarrow>
          (case new_rest_client through a of
             Inl e \<Rightarrow> Some ([rest_error (new_internal_error (shown_err (Some e)))], False, a, w)
           | Inr c \<Rightarrow>
               (case request_token post_tokens wanip (l_country_code (local_of a)) s (ca_suggestions a, w) of
                  None \<Rightarrow> None
                | Some (Inl e, s', ss, w') \<Rightarrow>
                    Some ([rest_error (if is_net_error (Some e)
                             then new_server_timeout ''alkasir-central'' ''request-submission-token'' 0
                             else new_internal_error (shown_err (Some e)))], False, a\<lparr>ca_suggestions := ss\<rparr>, w')
                | Some (Inr t, s', ss, w') \<Rightarrow>
                    (case send_samples post_samples wanip_text (sg_id s') (ss, w') of
                       None \<Rightarrow> None
                     | Some (n, e, ss', w'') \<Rightarrow>
                         Some ([Json_Written t], is_prepared (sg_id s') ss' = Inr False,
                           block_suggested now (sg_url s') (a\<lparr>ca_suggestions := ss'\<rparr>), w'')))))"

text \<open>The loop that sends the rest: every 30 seconds, for 15 minutes.\<close>

definition resend_limit :: time where "resend_limit = 15 * 60 * 1000000000"

definition resend_tick ::
  "(sample_request, sample_response, 'w) endpoint \<Rightarrow> err option \<Rightarrow> string \<Rightarrow> time \<Rightarrow> time \<Rightarrow> string \<Rightarrow> client_api \<times> 'w \<Rightarrow>
   (bool \<times> client_api \<times> 'w) option" where
  "resend_tick post_samples through wanip_text start now i aw =
     (let (a, w) = aw in
      if start + resend_limit < now then Some (False, a, w)
      else (case is_prepared i (ca_suggestions a) of
              Inl e \<Rightarrow> Some (False, a, w)
            | Inr False \<Rightarrow> Some (True, a, w)
            | Inr True \<Rightarrow>
                (case new_rest_client through a of
                   Inl e \<Rightarrow> Some (True, a, w)
                 | Inr c \<Rightarrow>
                     (case send_samples post_samples wanip_text i (ca_suggestions a, w) of
                        None \<Rightarrow> None
                      | Some (n, e, ss, w') \<Rightarrow> Some (e \<noteq> None, a\<lparr>ca_suggestions := ss\<rparr>, w')))))"

section \<open>Traffic\<close>

definition post_transport_traffic :: "string + traffic \<Rightarrow> client_api \<Rightarrow> bool written list \<times> client_api" where
  "post_transport_traffic body a =
     (case body of
        Inl e \<Rightarrow> ([rest_error (new_internal_error e)], a)
      | Inr form \<Rightarrow> ([Json_Written True], a\<lparr>ca_traffic := form\<rparr>))"

definition get_transport_traffic :: "client_api \<Rightarrow> traffic" where
  "get_transport_traffic a = ca_traffic a"

section \<open>Lists\<close>

record method_item =
  mi_id :: string
  mi_service :: "string \<times> string"
  mi_name :: string
  mi_protocol :: string
  mi_bind_addr :: string
  mi_running :: bool

definition method_item_of :: "world \<Rightarrow> meth \<Rightarrow> method_item" where
  "method_item_of w m =
     (let sv = sv_at w (me_service m) in
      \<lparr>mi_id = me_id m, mi_service = (sv_id sv, sv_name sv), mi_name = me_name m, mi_protocol = me_protocol m,
       mi_bind_addr = me_bind_addr m, mi_running = sv_running sv\<rparr>)"

definition get_all_methods :: "((string, nat) gomap \<Rightarrow> (string, nat) gomap) \<Rightarrow> world \<Rightarrow> method_item list" where
  "get_all_methods ord w = map (method_item_of w) (all_methods ord w)"

record service_item =
  si_id :: string
  si_name :: string
  si_running :: bool
  si_methods :: "(string \<times> string) list"

definition service_item_of :: "service \<Rightarrow> service_item" where
  "service_item_of s =
     \<lparr>si_id = sv_id s, si_name = sv_name s, si_running = sv_running s, si_methods = map (\<lambda>m. (me_id m, me_name m)) (sv_methods s)\<rparr>"

definition get_all_services :: "((string, nat) gomap \<Rightarrow> (string, nat) gomap) \<Rightarrow> world \<Rightarrow> service_item list" where
  "get_all_services ord w = map service_item_of (all_services ord w)"

definition get_all_host_patterns :: "client_api \<Rightarrow> (string \<times> string list) list" where
  "get_all_host_patterns a =
     map (\<lambda>h. (h, [''blocked''])) (h_hosts (cfg_blocked (ca_config a))) @
     map (\<lambda>h. (h, [''direct''])) (h_hosts (cfg_direct (ca_config a))) @
     map (\<lambda>h. (h, [''blocked-central''])) (h_hosts (cfg_blocked_central (ca_config a)))"

definition host_pattern_lists :: "client_api \<Rightarrow> (string, hosts_file) gomap" where
  "host_pattern_lists a =
     [(''blocked'', cfg_blocked (ca_config a)), (''direct'', cfg_direct (ca_config a)),
      (''blocked-central'', cfg_blocked_central (ca_config a))]"

text \<open>\<open>TestMethod\<close>: \<open>reach\<close> is the error of the request through the proxy; \<open>None\<close> is the reply 404.\<close>

definition test_method ::
  "((string, nat) gomap \<Rightarrow> (string, nat) gomap) \<Rightarrow> (string \<Rightarrow> string option) \<Rightarrow> string \<Rightarrow> world \<Rightarrow> (string \<times> bool \<times> string) option" where
  "test_method ord reach i w =
     (case services_method ord i w of
        None \<Rightarrow> None
      | Some m \<Rightarrow>
          (let ok = (reach (me_bind_addr m) = None) in
           Some (i, ok, (if ok then ''Test successful conneting via '' else ''Test FAILED conneting via '') @
             me_protocol m @ '' / '' @ me_bind_addr m @ ''.'')))"

section \<open>The browser code\<close>

text \<open>\<open>clip\<close> is the error of the clipboard; the code that is copied is the second component.\<close>

definition post_browsercode :: "(string \<Rightarrow> string option) \<Rightarrow> client_api \<Rightarrow> bool written list \<times> string option" where
  "post_browsercode clip a =
     (let b = \<lparr>bc_key = l_client_auth_key (local_of a), bc_host = [], bc_port = []\<rparr> in
      case set_hostport (l_client_bind_addr (local_of a)) b of
        None \<Rightarrow> ([rest_error (new_internal_error ''address error'')], None)
      | Some b' \<Rightarrow>
          (case bc_encode b' of
             None \<Rightarrow> ([rest_error (new_internal_error ''encode error'')], None)
           | Some t \<Rightarrow>
               (case clip t of
                  Some e \<Rightarrow> ([rest_error (new_internal_error e)], None)
                | None \<Rightarrow> ([Json_Written True], Some t))))"

section \<open>Changing the settings, as a machine\<close>

text \<open>A random number below \<open>n\<close>, from any number.\<close>

definition fit :: "(nat \<Rightarrow> nat \<Rightarrow> nat) \<Rightarrow> nat \<Rightarrow> nat \<Rightarrow> nat" where
  "fit rnd i n = rnd i n mod n"

datatype settings_event =
    Toggle "nat \<Rightarrow> nat \<Rightarrow> nat" string
  | Delete "nat \<Rightarrow> nat \<Rightarrow> nat" string
  | Post "nat \<Rightarrow> nat \<Rightarrow> nat" "string \<Rightarrow> string" "string + connection_setting"
  | Post_Settings "string + user_settings"

fun api_step :: "client_api \<Rightarrow> settings_event \<Rightarrow> client_api" where
  "api_step a (Toggle rnd i) = snd (toggle_connection (fit rnd) i a)"
| "api_step a (Delete rnd i) = snd (delete_connection (fit rnd) i a)"
| "api_step a (Post rnd sha256 body) = snd (post_connection (fit rnd) sha256 body a)"
| "api_step a (Post_Settings body) = snd (post_user_settings body a)"

text \<open>The manager uses exactly the enabled connections, and the settings are on the disk.\<close>

definition api_good :: "client_api \<Rightarrow> bool" where
  "api_good a \<longleftrightarrow> mset (ca_active a) = mset (enabled (connections a)) \<and> ca_saved a = cfg_settings (ca_config a)"

lemma connections_with [simp]: "connections (with_connections cs a) = cs"
  by (simp add: connections_def with_connections_def)

lemma connections_other [simp]:
  "connections (a\<lparr>ca_active := x\<rparr>) = connections a" "connections (write_config a) = connections a"
  by (simp_all add: connections_def write_config_def)

lemma update_connections_fit: "mset (update_connections (fit rnd) cs) = mset (enabled cs)"
  using update_connections_enabled [of "fit rnd" cs] by (simp add: fit_def enabled_def mset_filter)

lemma finish_good:
  "mset (ca_active (snd r)) = mset (enabled (connections (snd r))) \<Longrightarrow> api_good (snd (finish_update r))"
  by (simp add: api_good_def finish_update_def write_config_def connections_def)

lemma refused_same: "api_good a \<Longrightarrow> snd (finish_update (out, a)) = a"
  by (simp add: finish_update_def write_config_def api_good_def)

lemma new_connections_good:
  "api_good (snd (finish_update (out, (with_connections cs a)\<lparr>ca_active := update_connections (fit rnd) cs\<rparr>)))"
  by (rule finish_good) (simp add: update_connections_fit)

lemma post_settings_good:
  assumes "api_good a"
  shows "api_good (snd (post_user_settings body a))" "connections (snd (post_user_settings body a)) = connections a"
proof -
  have "a\<lparr>ca_config := (ca_config a)\<lparr>cfg_settings := (cfg_settings (ca_config a))\<lparr>s_local := local_of a\<rparr>\<rparr>\<rparr> = a"
    by (simp add: local_of_def)
  with assms show "api_good (snd (post_user_settings body a))"
    by (auto simp: post_user_settings_def Let_def api_good_def write_config_def connections_def split: sum.split)
  show "connections (snd (post_user_settings body a)) = connections a"
    by (auto simp: post_user_settings_def Let_def write_config_def connections_def split: sum.split)
qed

interpretation settings_machine: guarded_machine api_step api_good
proof
  fix a e
  assume ok: "api_good a"
  then show "api_good (api_step a e)"
    using refused_same [OF ok] new_connections_good post_settings_good [OF ok]
    by (cases e) (auto simp: toggle_connection_def toggle_update_def delete_connection_def delete_update_def post_connection_def
        post_update_def Let_def split: option.split sum.split)
qed

section \<open>Lemmas on the connections\<close>

lemma last_with_id_Some: "last_with_id i cs = Some k \<Longrightarrow> k < length cs \<and> c_id (cs ! k) = i"
proof -
  assume "last_with_id i cs = Some k"
  then have ks: "filter (\<lambda>k. c_id (cs ! k) = i) [0..<length cs] \<noteq> []" "k = last (filter (\<lambda>k. c_id (cs ! k) = i) [0..<length cs])"
    by (auto simp: last_with_id_def split: list.splits)
  from last_in_set [OF ks(1)] show ?thesis by (simp add: ks(2))
qed

lemma last_with_id_None: "last_with_id i cs = None \<longleftrightarrow> (\<forall>c \<in> set cs. c_id c \<noteq> i)"
proof -
  have "last_with_id i cs = None \<longleftrightarrow> filter (\<lambda>k. c_id (cs ! k) = i) [0..<length cs] = []"
    by (simp add: last_with_id_def split: list.split)
  also have "\<dots> \<longleftrightarrow> (\<forall>k < length cs. c_id (cs ! k) \<noteq> i)"
    by (simp only: filter_empty_conv set_upt atLeastLessThan_iff) auto
  finally show ?thesis by (simp only: all_set_conv_all_nth)
qed

lemma delete_loop_result:
  "delete_loop i vs (f, n, r) =
     (if list_ex (\<lambda>v. c_id v = i \<and> c_protected v) vs then None
      else Some (f \<or> list_ex (\<lambda>v. c_id v = i) vs, n + length (enabled (filter (\<lambda>v. c_id v \<noteq> i) vs)),
             r @ filter (\<lambda>v. c_id v \<noteq> i) vs))"
  by (induction vs arbitrary: f n r) (auto simp: enabled_def)

lemma enabled_split: "k < length cs \<Longrightarrow> enabled (cs[k := c]) = enabled (take k cs) @ enabled [c] @ enabled (drop (Suc k) cs)"
  by (simp add: upd_conv_take_nth_drop enabled_def)

lemma enabled_nth: "k < length cs \<Longrightarrow> enabled cs = enabled (take k cs) @ enabled [cs ! k] @ enabled (drop (Suc k) cs)"
  using enabled_split [of k cs "cs ! k"] by simp

text \<open>The identifiers of the protected connections.\<close>

definition protected_ids :: "client_api \<Rightarrow> string set" where
  "protected_ids a = {c_id c | c. c \<in> set (connections a) \<and> c_protected c}"

definition keeps_usable :: "client_api \<Rightarrow> client_api \<Rightarrow> bool" where
  "keeps_usable a a' \<longleftrightarrow> (enabled (connections a) \<noteq> [] \<longrightarrow> enabled (connections a') \<noteq> []) \<and> protected_ids a \<subseteq> protected_ids a'"

lemma keeps_usable_refl [simp]: "keeps_usable a a"
  by (simp add: keeps_usable_def)

lemma toggle_usable:
  assumes "api_good a"
  shows "keeps_usable a (snd (toggle_connection (fit rnd) i a))"
proof (cases "last_with_id i (connections a)")
  case None
  then show ?thesis by (simp add: toggle_connection_def toggle_update_def refused_same [OF assms])
next
  case (Some k)
  let ?cs = "connections a"
  let ?c = "(?cs ! k)\<lparr>c_disabled := \<not> c_disabled (?cs ! k)\<rparr>"
  have k: "k < length ?cs" using last_with_id_Some [OF Some] by simp
  show ?thesis
  proof (cases "length (enabled ?cs) < 2 \<and> \<not> c_disabled (?cs ! k)")
    case True
    with Some show ?thesis by (simp add: toggle_connection_def toggle_update_def refused_same [OF assms])
  next
    case False
    then have "snd (toggle_connection (fit rnd) i a) =
        write_config ((with_connections (?cs[k := ?c]) a)\<lparr>ca_active := update_connections (fit rnd) (?cs[k := ?c])\<rparr>)"
      using Some by (simp add: toggle_connection_def toggle_update_def finish_update_def Let_def del: not_less) auto
    then have cs': "connections (snd (toggle_connection (fit rnd) i a)) = ?cs[k := ?c]" by simp
    have "enabled (?cs[k := ?c]) \<noteq> []"
      using False enabled_nth [OF k] unfolding enabled_split [OF k]
      by (cases "c_disabled (?cs ! k)") (auto simp: enabled_def)
    moreover have "\<exists>d. c_id c = c_id d \<and> d \<in> set (?cs[k := ?c]) \<and> c_protected d" if c: "c \<in> set ?cs" "c_protected c" for c
    proof -
      obtain j where j: "j < length ?cs" "?cs ! j = c" using c(1) by (auto simp: in_set_conv_nth)
      then have "c_protected (?cs[k := ?c] ! j) \<and> c_id (?cs[k := ?c] ! j) = c_id c"
        using c(2) by (cases "j = k") auto
      then show ?thesis using j(1) by (intro exI [of _ "?cs[k := ?c] ! j"]) simp
    qed
    ultimately show ?thesis unfolding keeps_usable_def protected_ids_def cs' by blast
  qed
qed

lemma delete_usable:
  assumes "api_good a"
  shows "keeps_usable a (snd (delete_connection (fit rnd) i a))"
proof -
  let ?cs = "connections a"
  let ?rest = "filter (\<lambda>v. c_id v \<noteq> i) ?cs"
  show ?thesis
  proof (cases "list_ex (\<lambda>v. c_id v = i \<and> c_protected v) ?cs \<or> \<not> list_ex (\<lambda>v. c_id v = i) ?cs \<or> enabled ?rest = []")
    case True
    then show ?thesis
      by (auto simp: delete_connection_def delete_update_def delete_loop_result refused_same [OF assms])
  next
    case False
    then have "snd (delete_connection (fit rnd) i a) =
        write_config ((with_connections ?rest a)\<lparr>ca_active := update_connections (fit rnd) ?rest\<rparr>)"
      by (auto simp: delete_connection_def delete_update_def delete_loop_result finish_update_def)
    then have "connections (snd (delete_connection (fit rnd) i a)) = ?rest" by simp
    moreover have "protected_ids a \<subseteq> {c_id c | c. c \<in> set ?rest \<and> c_protected c}"
      using False by (auto simp: protected_ids_def list_ex_iff)
    ultimately show ?thesis using False by (auto simp: keeps_usable_def protected_ids_def)
  qed
qed

lemma post_usable:
  assumes "api_good a" "\<And>form. body = Inr form \<Longrightarrow> co_id form = []"
  shows "keeps_usable a (snd (post_connection (fit rnd) sha256 body a))"
proof (cases body)
  case (Inl e)
  then show ?thesis by (simp add: post_connection_def)
next
  case (Inr form)
  then have i: "co_id form = []" using assms(2) by simp
  let ?cs = "connections a @ [ensure_id sha256 (fst (decode_connection sha256 (co_encoded form)))]"
  show ?thesis
  proof (cases "post_invalids sha256 form (connections a) = []")
    case True
    then have "snd (post_connection (fit rnd) sha256 body a) =
        write_config ((with_connections ?cs a)\<lparr>ca_active := update_connections (fit rnd) ?cs\<rparr>)"
      using Inr i by (simp add: post_connection_def post_update_def finish_update_def Let_def)
    then have "connections (snd (post_connection (fit rnd) sha256 body a)) = ?cs" by simp
    then show ?thesis by (auto simp: keeps_usable_def protected_ids_def enabled_def)
  qed (use Inr in \<open>simp add: post_connection_def post_update_def Let_def refused_same [OF assms(1)]\<close>)
qed

text \<open>No connection is replaced.\<close>

definition no_replacement :: "settings_event \<Rightarrow> bool" where
  "no_replacement e \<longleftrightarrow> (case e of Post rnd sha256 (Inr form) \<Rightarrow> co_id form = [] | _ \<Rightarrow> True)"

lemma step_usable:
  assumes "api_good a" "no_replacement e"
  shows "keeps_usable a (api_step a e)"
proof (cases e)
  case (Post rnd sha256 body)
  then show ?thesis
    using assms(2) post_usable [OF assms(1), of body rnd sha256] by (cases body) (auto simp: no_replacement_def)
next
  case (Post_Settings body)
  then show ?thesis
    using post_settings_good(2) [OF assms(1), of body] by (simp add: keeps_usable_def protected_ids_def)
qed (use toggle_usable delete_usable assms in auto)

lemma run_usable:
  assumes "api_good a" "list_all no_replacement es"
  shows "keeps_usable a (foldl api_step a es)"
  using assms(2)
proof (induction es rule: rev_induct)
  case (snoc e es)
  have "api_good (foldl api_step a es)" by (rule settings_machine.run_good) (rule assms(1))
  then have "keeps_usable (foldl api_step a es) (api_step (foldl api_step a es) e)" using snoc.prems by (intro step_usable) auto
  moreover have "keeps_usable a (foldl api_step a es)" using snoc by simp
  ultimately show ?case by (auto simp: keeps_usable_def)
qed simp

section \<open>Properties\<close>


text \<open>
  Replacing a connection is not guarded. A posted code that is decoded to a disabled connection
  and names the only enabled connection, protected or not, takes its place: nothing is enabled
  any more, and the connection manager has nothing to connect to.
\<close>

lemma replacement_can_disable_all:
  assumes "decode_connection sha256 (co_encoded form) = (c, None)" "c_disabled c" "co_encoded form \<noteq> []" "co_id form \<noteq> []"
    and "last_with_id (co_id form) (connections a) = Some k" "enabled (connections a) = [connections a ! k]"
    and "\<not> c_disabled (connections a ! k)" "\<forall>v \<in> set (connections a). conn_encode v \<noteq> conn_encode c"
  shows "let (out, a') = post_connection rnd sha256 (Inr form) a in
    out = [Json_Written True] \<and> enabled (connections a') = [] \<and> ca_active a' = []"
proof -
  let ?cs = "(connections a)[k := c]"
  have k: "k < length (connections a)" using last_with_id_Some [OF assms(5)] by simp
  have "post_invalids sha256 form (connections a) = []"
    using assms(1,3,5,8) by (auto simp: post_invalids_def list_ex_iff)
  then have post: "post_connection rnd sha256 (Inr form) a =
      ([Json_Written True], write_config ((with_connections ?cs a)\<lparr>ca_active := update_connections rnd ?cs\<rparr>))"
    using assms(1,4,5) by (simp add: post_connection_def post_update_def finish_update_def Let_def)
  have "enabled ?cs = []"
  proof -
    have "length (enabled (take k (connections a))) + length (enabled [connections a ! k]) + length (enabled (drop (Suc k) (connections a))) = 1"
      using arg_cong [OF enabled_nth [OF k], of length] assms(6) by simp
    moreover have "length (enabled [connections a ! k]) = 1" using assms(7) by (simp add: enabled_def)
    ultimately show ?thesis unfolding enabled_split [OF k] using assms(2) by (simp add: enabled_def)
  qed
  then have "update_connections rnd ?cs = []" by (simp add: update_connections_def shuffle_def enabled_def)
  with \<open>enabled ?cs = []\<close> show ?thesis unfolding post by (simp add: Let_def) (simp add: write_config_def)
qed

text \<open>
  A submitted suggestion is proxied at once. When the token was requested without an error,
  whatever the server answered, also if it denied the suggestion, the host of its URL is in
  the list of blocked hosts and in the proxy configuration afterwards.
\<close>

lemma submitted_host_is_proxied:
  assumes "submit_suggestion post_tokens post_samples through wanip wanip_text now i (a, w) = Some ([Json_Written t], resend, a', w')"
    and "get_suggestion i (ca_suggestions a) = Some s" "url_parse (sg_url s) = Some u"
  shows "trim_space (u_host u) \<in> set (h_hosts (cfg_blocked (ca_config a'))) \<and> trim_space (u_host u) \<in> set (ca_proxied a') \<and>
    set (h_hosts (cfg_blocked (ca_config a))) \<subseteq> set (h_hosts (cfg_blocked (ca_config a')))"
proof -
  have "\<exists>ss. a' = block_suggested now (sg_url s) (a\<lparr>ca_suggestions := ss\<rparr>)"
  proof (cases "new_rest_client through a")
    case (Inl e)
    with assms(1,2) show ?thesis by (simp add: submit_suggestion_def rest_error_def)
  next
    case (Inr c)
    with assms(1,2) show ?thesis
      by (auto simp: submit_suggestion_def rest_error_def request_token_def Let_def
          split: option.splits sum.splits prod.splits if_splits)
  qed
  with assms(3) show ?thesis
    by (auto simp: block_suggested_def update_blocked_list_def pac_hosts_def hosts_add_def Let_def)
qed

section \<open>Examples\<close>

definition demo_api :: "connection list \<Rightarrow> client_api" where
  "demo_api cs =
     (let s = zero_settings\<lparr>s_connections := cs\<rparr> in
      \<lparr>ca_config = blank_config\<lparr>cfg_settings := s\<rparr>, ca_active = enabled cs, ca_saved = s, ca_language = ''en'', ca_proxied = [],
       ca_list_change = 0, ca_suggestions = [(''i'', demo_suggestion)], ca_ids = \<lparr>ig_count = 0, ig_prefix = ''n''\<rparr>,
       ca_traffic = \<lparr>tt_opened = [], tt_read = 0, tt_write = 0, tt_throughput = []\<rparr>\<rparr>)"

lemma demo_api_facts:
  "connections (demo_api cs) = cs" "api_good (demo_api cs)" "ca_suggestions (demo_api cs) = [(''i'', demo_suggestion)]"
  "local_of (demo_api cs) = zero_local" "cfg_blocked (ca_config (demo_api cs)) = blank_hosts"
  by (simp_all add: demo_api_def connections_def api_good_def local_of_def blank_config_def zero_settings_def Let_def)

definition demo_connections :: "connection list" where
  "demo_connections = [obfs4_connection\<lparr>c_id := ''a'', c_protected := True\<rparr>, obfs4_connection\<lparr>c_id := ''b'', c_disabled := True\<rparr>]"


lemma demo_disabled_code:
  "decode_connection id ''aieyJkaXNhYmxlZCI6dHJ1ZX0='' =
     (zero_connection\<lparr>c_disabled := True, c_id := ''QUREUlRSQU5TUE9SVFNFQ1JFVA''\<rparr>, None)"
  by code_simp

lemma replacement_can_disable_all_witness:
  "let (out, a') = post_connection (\<lambda>i n. 0) id (Inr \<lparr>co_id = ''a'', co_name = [], co_encoded = ''aieyJkaXNhYmxlZCI6dHJ1ZX0='',
         co_disabled = False, co_protected = False\<rparr>) (demo_api demo_connections) in
   out = [Json_Written True] \<and> enabled (connections a') = [] \<and> ca_active a' = []"
proof (rule replacement_can_disable_all)
  show "decode_connection id (co_encoded \<lparr>co_id = ''a'', co_name = [], co_encoded = ''aieyJkaXNhYmxlZCI6dHJ1ZX0='',
         co_disabled = False, co_protected = False\<rparr>) = (zero_connection\<lparr>c_disabled := True, c_id := ''QUREUlRSQU5TUE9SVFNFQ1JFVA''\<rparr>, None)"
    using demo_disabled_code by simp
  show "last_with_id (co_id \<lparr>co_id = ''a'', co_name = [], co_encoded = ''aieyJkaXNhYmxlZCI6dHJ1ZX0='',
         co_disabled = False, co_protected = False\<rparr>) (connections (demo_api demo_connections)) = Some 0"
    by (simp add: demo_api_facts demo_connections_def last_with_id_def)
  have "shareable (obfs4_connection\<lparr>c_id := i, c_disabled := d, c_protected := p\<rparr>)" for i d p
    by (simp add: shareable_def obfs4_connection_def zero_connection_def)
  have "conn_encode obfs4_connection \<noteq> conn_encode zero_connection"
    using share_code.print_view [of obfs4_connection zero_connection]
    by (auto simp: shareable_def shared_view_def obfs4_connection_def zero_connection_def)
  then show "\<forall>v \<in> set (connections (demo_api demo_connections)).
     conn_encode v \<noteq> conn_encode (zero_connection\<lparr>c_disabled := True, c_id := ''QUREUlRSQU5TUE9SVFNFQ1JFVA''\<rparr>)"
    by (simp add: demo_api_facts demo_connections_def conn_encode_def conn_json_def)
qed (simp_all add: demo_api_facts demo_connections_def enabled_def obfs4_connection_def zero_connection_def)

text \<open>A central server that denies every suggestion.\<close>

definition denying :: "(token_request, token_response, unit) endpoint" where
  "denying q w = (Inr (200, Some \<lparr>tr_ok = False, tr_url = [], tr_token = [], tr_error = ''denied''\<rparr>), w)"

lemma submitted_host_is_proxied_witness:
  "\<exists>t a'. submit_suggestion denying (\<lambda>q w. (Inr (200, None), w)) None None ''1.2.3.4'' 7 ''i'' (demo_api [], ()) =
       Some ([Json_Written t], False, a', ()) \<and> \<not> tr_ok t \<and> ''a.org'' \<in> set (ca_proxied a')"
proof -
  have u: "url_parse [] = Some \<lparr>u_scheme = [], u_host = []\<rparr>" by code_simp
  have g: "get_suggestion ''i'' (ca_suggestions (demo_api [])) = Some demo_suggestion"
    by (simp add: demo_api_facts get_suggestion_def one_suggestion_def demo_suggestion_def)
  obtain t a' where s: "submit_suggestion denying (\<lambda>q w. (Inr (200, None), w)) None None ''1.2.3.4'' 7 ''i'' (demo_api [], ()) =
       Some ([Json_Written t], False, a', ())" "\<not> tr_ok t"
    using g by (auto simp: submit_suggestion_def new_rest_client_def u demo_api_facts zero_local_def request_token_def
        create_suggestion_token_def denying_def read_reply_def send_samples_def get_suggestion_def one_suggestion_def demo_suggestion_def
        is_prepared_def no_session_def Let_def)
  have "url_parse (sg_url demo_suggestion) = Some \<lparr>u_scheme = ''http'', u_host = ''a.org''\<rparr>"
    by (simp add: demo_suggestion_def demo_facts)
  moreover have "trim_space ''a.org'' = ''a.org''" by code_simp
  ultimately show ?thesis using submitted_host_is_proxied [OF s(1) g] s by auto
qed

end
