(* ===== verification/UpdateCheck.thy ===== *)
theory UpdateCheck
  imports ClientApi CentralDb "HOL-Library.List_Lexorder" "HOL-Library.Char_ord"
begin

text \<open>
  The update checker of \<open>pkg/client/updatechecker.go\<close> with the loops that use it, as a relation of
  steps: the goroutine of the checker, the loop of an upgrader and the loop of the connection
  manager that hands its events over, all over unbuffered channels. Then the update of the list of
  blocked hosts (\<open>upgradeblocklist.go\<close>) as a function of the state of the client.
\<close>

section \<open>The checker and its upgrader\<close>

datatype update_result = UpdateError | UpdateSuccess

text \<open>\<open>NewUpdateChecker\<close> draws an interval of one to three hours.\<close>

definition update_interval :: "nat \<Rightarrow> time" where
  "update_interval n = hour + 60000000000 * int (n mod 120)"

text \<open>
  Where the goroutine of the checker stands: at its \<open>select\<close>, blocked in sending a request, or
  asleep after a failure. Where the loop of the upgrader stands: at its \<open>select\<close>, blocked in
  \<open>UpdateNow\<close>, working on a request, or blocked in sending the result of it.
\<close>

datatype checker_at = Selecting | Sending | Sleeping

datatype upgrader_at = Waiting | Forcing | Working | Replying update_result

text \<open>
  \<open>uc_tick\<close> is the tick that the buffer of the ticker holds, \<open>uc_forced\<close> counts the goroutines
  that wait to force a request after a failure, \<open>uc_event\<close> is the event that the connection
  manager is blocked with, as whether it is an \<open>Up\<close>. \<open>uc_country\<close> is \<open>currentCountry\<close> of the
  upgrader, \<open>uc_setting\<close> the country of the settings.
\<close>

record update_checker =
  uc_checker :: checker_at
  uc_upgrader :: upgrader_at
  uc_active :: bool
  uc_tick :: bool
  uc_forced :: nat
  uc_event :: "bool option"
  uc_country :: string
  uc_setting :: string
  uc_last_check :: time
  uc_last_failed :: time
  uc_last_update :: time

definition new_update_checker :: "string \<Rightarrow> update_checker" where
  "new_update_checker country =
     \<lparr>uc_checker = Selecting, uc_upgrader = Waiting, uc_active = False, uc_tick = False, uc_forced = 0, uc_event = None,
      uc_country = country, uc_setting = country, uc_last_check = 0, uc_last_failed = 0, uc_last_update = 0\<rparr>"

definition activate :: "update_checker \<Rightarrow> update_checker" where
  "activate s = s\<lparr>uc_active := True\<rparr>"

definition deactivate :: "update_checker \<Rightarrow> update_checker" where
  "deactivate s = s\<lparr>uc_active := False\<rparr>"

text \<open>\<open>UpdateNow\<close>: with an active checker the caller is blocked until the request is forced.\<close>

definition update_now :: "update_checker \<Rightarrow> string option \<times> update_checker" where
  "update_now s =
     (if uc_active s then (None, s\<lparr>uc_upgrader := Forcing\<rparr>) else (Some ''Updatechecker is not active'', s))"

text \<open>What the checker does at its \<open>select\<close>: with a tick or a forced request, and with a result.\<close>

definition trigger :: "update_checker \<Rightarrow> update_checker" where
  "trigger s = (if uc_active s then s\<lparr>uc_checker := Sending\<rparr> else s)"

definition take_result :: "time \<Rightarrow> update_result \<Rightarrow> update_checker \<Rightarrow> update_checker" where
  "take_result now r s =
     (case r of
        UpdateSuccess \<Rightarrow> s\<lparr>uc_last_check := now, uc_last_update := now, uc_last_failed := 0\<rparr>
      | UpdateError \<Rightarrow> s\<lparr>uc_last_check := now, uc_last_failed := now, uc_checker := Sleeping\<rparr>)"

text \<open>What the upgrader does at its \<open>select\<close>.\<close>

definition take_event :: "bool \<Rightarrow> update_checker \<Rightarrow> update_checker" where
  "take_event up s = (if up then snd (update_now (activate s)) else s)"

definition check_country :: "update_checker \<Rightarrow> update_checker" where
  "check_country s =
     (if uc_country s \<noteq> uc_setting s then snd (update_now (s\<lparr>uc_country := uc_setting s\<rparr>)) else s)"

definition take_request :: "update_checker \<Rightarrow> update_checker" where
  "take_request s =
     (if uc_setting s = ''__'' then s else s\<lparr>uc_country := uc_setting s, uc_upgrader := Working\<rparr>)"

datatype update_event =
    Ticker_Fires
  | Manager_Emits bool
  | Setting_Changes string
  | Tick_Taken
  | Retry_Taken
  | Force_Taken
  | Request_Taken
  | Work_Ends update_result
  | Result_Taken time
  | Wakes
  | Event_Taken
  | Country_Checked

inductive update_step :: "update_checker \<Rightarrow> update_event \<Rightarrow> update_checker \<Rightarrow> bool" where
  "update_step s Ticker_Fires (s\<lparr>uc_tick := True\<rparr>)"
| "uc_event s = None \<Longrightarrow> update_step s (Manager_Emits up) (s\<lparr>uc_event := Some up\<rparr>)"
| "update_step s (Setting_Changes c) (s\<lparr>uc_setting := c\<rparr>)"
| "uc_checker s = Selecting \<Longrightarrow> uc_tick s \<Longrightarrow> update_step s Tick_Taken (trigger (s\<lparr>uc_tick := False\<rparr>))"
| "uc_checker s = Selecting \<Longrightarrow> uc_forced s = Suc n \<Longrightarrow> update_step s Retry_Taken (trigger (s\<lparr>uc_forced := n\<rparr>))"
| "uc_checker s = Selecting \<Longrightarrow> uc_upgrader s = Forcing \<Longrightarrow> update_step s Force_Taken (trigger (s\<lparr>uc_upgrader := Waiting\<rparr>))"
| "uc_checker s = Sending \<Longrightarrow> uc_upgrader s = Waiting \<Longrightarrow>
     update_step s Request_Taken (take_request (s\<lparr>uc_checker := Selecting\<rparr>))"
| "uc_upgrader s = Working \<Longrightarrow> update_step s (Work_Ends r) (s\<lparr>uc_upgrader := Replying r\<rparr>)"
| "uc_checker s = Selecting \<Longrightarrow> uc_upgrader s = Replying r \<Longrightarrow>
     update_step s (Result_Taken now) (take_result now r (s\<lparr>uc_upgrader := Waiting\<rparr>))"
| "uc_checker s = Sleeping \<Longrightarrow> update_step s Wakes (s\<lparr>uc_checker := Selecting, uc_forced := Suc (uc_forced s)\<rparr>)"
| "uc_event s = Some up \<Longrightarrow> uc_upgrader s = Waiting \<Longrightarrow> update_step s Event_Taken (take_event up (s\<lparr>uc_event := None\<rparr>))"
| "uc_upgrader s = Waiting \<Longrightarrow> update_step s Country_Checked (check_country s)"

inductive_simps update_step_simps [simp]:
  "update_step s Ticker_Fires s'" "update_step s (Manager_Emits up) s'" "update_step s (Setting_Changes c) s'"
  "update_step s Tick_Taken s'" "update_step s Retry_Taken s'" "update_step s Force_Taken s'"
  "update_step s Request_Taken s'" "update_step s (Work_Ends r) s'" "update_step s (Result_Taken now) s'"
  "update_step s Wakes s'" "update_step s Event_Taken s'" "update_step s Country_Checked s'"

inductive update_run :: "update_checker \<Rightarrow> update_event list \<Rightarrow> update_checker \<Rightarrow> bool" where
  done_run: "update_run s [] s"
| step_run: "update_step s e s' \<Longrightarrow> update_run s' es s'' \<Longrightarrow> update_run s (e # es) s''"

inductive_cases update_step_cases: "update_step s e s'"
inductive_simps update_run_simps [simp]: "update_run s [] s'" "update_run s (e # es) s'"

text \<open>An event has one outcome: the relation, as a function.\<close>

fun update_next :: "update_checker \<Rightarrow> update_event \<Rightarrow> update_checker option" where
  "update_next s Ticker_Fires = Some (s\<lparr>uc_tick := True\<rparr>)"
| "update_next s (Manager_Emits up) = (if uc_event s = None then Some (s\<lparr>uc_event := Some up\<rparr>) else None)"
| "update_next s (Setting_Changes c) = Some (s\<lparr>uc_setting := c\<rparr>)"
| "update_next s Tick_Taken = (if uc_checker s = Selecting \<and> uc_tick s then Some (trigger (s\<lparr>uc_tick := False\<rparr>)) else None)"
| "update_next s Retry_Taken =
     (if uc_checker s = Selecting \<and> 0 < uc_forced s then Some (trigger (s\<lparr>uc_forced := uc_forced s - 1\<rparr>)) else None)"
| "update_next s Force_Taken =
     (if uc_checker s = Selecting \<and> uc_upgrader s = Forcing then Some (trigger (s\<lparr>uc_upgrader := Waiting\<rparr>)) else None)"
| "update_next s Request_Taken =
     (if uc_checker s = Sending \<and> uc_upgrader s = Waiting then Some (take_request (s\<lparr>uc_checker := Selecting\<rparr>)) else None)"
| "update_next s (Work_Ends r) = (if uc_upgrader s = Working then Some (s\<lparr>uc_upgrader := Replying r\<rparr>) else None)"
| "update_next s (Result_Taken now) =
     (case uc_upgrader s of
        Replying r \<Rightarrow> if uc_checker s = Selecting then Some (take_result now r (s\<lparr>uc_upgrader := Waiting\<rparr>)) else None
      | _ \<Rightarrow> None)"
| "update_next s Wakes =
     (if uc_checker s = Sleeping then Some (s\<lparr>uc_checker := Selecting, uc_forced := Suc (uc_forced s)\<rparr>) else None)"
| "update_next s Event_Taken =
     (case uc_event s of
        None \<Rightarrow> None
      | Some up \<Rightarrow> if uc_upgrader s = Waiting then Some (take_event up (s\<lparr>uc_event := None\<rparr>)) else None)"
| "update_next s Country_Checked = (if uc_upgrader s = Waiting then Some (check_country s) else None)"

fun update_exec :: "update_checker \<Rightarrow> update_event list \<Rightarrow> update_checker option" where
  "update_exec s [] = Some s"
| "update_exec s (e # es) = Option.bind (update_next s e) (\<lambda>s'. update_exec s' es)"

lemma update_step_next: "update_step s e s' \<longleftrightarrow> update_next s e = Some s'"
proof (cases e)
  case Retry_Taken
  then show ?thesis by (cases "uc_forced s") auto
qed (auto split: upgrader_at.splits option.splits)

lemma update_run_exec: "update_run s es s' \<longleftrightarrow> update_exec s es = Some s'"
  by (induction es arbitrary: s) (auto simp: update_step_next simp del: update_step_simps split: bind_split)

section \<open>The list of blocked hosts\<close>

text \<open>
  What \<open>upgradeBlockList\<close> reads beside the configuration: the error of opening the transport, the
  public address, the version of the client, the ISO week, a new UUID, the error of writing the
  settings, whether just one of two empty lists is \<open>nil\<close> (which \<open>DeepEqual\<close> tells apart), the time.
\<close>

record block_env =
  be_through :: "err option"
  be_wanip :: "ip option"
  be_version :: string
  be_week :: int
  be_uuid :: "string option"
  be_write :: "err option"
  be_one_nil :: bool
  be_now :: time

definition week_id :: "int \<Rightarrow> int" where
  "week_id week = week mod 3 + 1"

definition update_id :: "block_env \<Rightarrow> int \<Rightarrow> string" where
  "update_id e saved =
     (if week_id (be_week e) \<noteq> saved
      then (case be_uuid e of
              None \<Rightarrow> []
            | Some u \<Rightarrow> if saved = 0 then itoa saved @ '':'' @ u else u)
      else [])"

definition save_id :: "int \<Rightarrow> client_api \<Rightarrow> client_api" where
  "save_id i a = a\<lparr>ca_config := (ca_config a)\<lparr>cfg_settings := (cfg_settings (ca_config a))\<lparr>s_last_id := i\<rparr>\<rparr>\<rparr>"

definition set_central_hosts :: "string list \<Rightarrow> client_api \<Rightarrow> client_api" where
  "set_central_hosts hs a =
     a\<lparr>ca_config := (ca_config a)\<lparr>cfg_blocked_central := (cfg_blocked_central (ca_config a))\<lparr>h_hosts := hs\<rparr>\<rparr>\<rparr>"

text \<open>The hosts of the configuration are sorted in place, as they share their array.\<close>

definition replace_hosts :: "block_env \<Rightarrow> string list \<Rightarrow> client_api \<Rightarrow> client_api" where
  "replace_hosts e hosts a =
     (let new = sort hosts; prev = sort (h_hosts (cfg_blocked_central (ca_config a)));
          a1 = set_central_hosts prev a
      in if new \<noteq> prev \<or> (new = [] \<and> be_one_nil e)
         then (update_blocked_list (set_central_hosts new a1))\<lparr>ca_list_change := be_now e\<rparr>
         else a1)"

definition upgrade_block_list ::
  "(hosts_request, hosts_response, 'w) endpoint \<Rightarrow> block_env \<Rightarrow> client_api \<times> 'w \<Rightarrow> (nat \<times> err option) \<times> client_api \<times> 'w" where
  "upgrade_block_list post e aw =
     (let (a, w) = aw in
      case new_rest_client (be_through e) a of
        Inl x \<Rightarrow> ((0, Some x), a, w)
      | Inr c \<Rightarrow>
          (let saved = s_last_id (cfg_settings (ca_config a));
               now_id = week_id (be_week e);
               (r, w') = update_hostlist post
                 \<lparr>hq_client_addr = be_wanip e, hq_update_id = update_id e saved, hq_client_version = be_version e\<rparr> w
           in case r of
                Inl x \<Rightarrow> ((0, Some x), a, w')
              | Inr resp \<Rightarrow>
                  (let n = length (hp_hosts resp) in
                   if now_id \<noteq> saved
                   then (let a1 = save_id now_id a in
                         if be_write e \<noteq> None then ((n, be_write e), a1, w')
                         else ((n, None), replace_hosts e (hp_hosts resp) (write_config a1), w'))
                   else ((n, None), replace_hosts e (hp_hosts resp) a, w'))))"

definition block_result :: "nat \<times> err option \<Rightarrow> update_result" where
  "block_result r = (if snd r = None then UpdateSuccess else UpdateError)"

text \<open>The handler of the central server behind the request.\<close>

definition central_hosts ::
  "((string, bool) gomap \<Rightarrow> (string, bool) gomap) \<Rightarrow> central_env \<Rightarrow> (hosts_request, hosts_response, central_state) endpoint" where
  "central_hosts ord en q st =
     (let (r, st') = get_hosts ord en (Inr q) st in
      (Inr (reply_status r,
            case r of Hosts_Reply hs \<Rightarrow> Some \<lparr>hp_ok = True, hp_error = [], hp_hosts = hs\<rparr> | _ \<Rightarrow> None), st'))"

section \<open>Lemmas: the steps\<close>

text \<open>The checker sends a request and the upgrader does not listen.\<close>

definition stuck :: "update_checker \<Rightarrow> bool" where
  "stuck s \<longleftrightarrow> uc_checker s = Sending \<and> uc_upgrader s \<noteq> Waiting"

lemma update_run_append:
  "update_run s (es @ fs) t \<longleftrightarrow> (\<exists>u. update_run s es u \<and> update_run u fs t)"
  by (induction es arbitrary: s) auto

lemma stuck_step:
  assumes "update_step s e s'" "stuck s"
  shows "stuck s' \<and> (uc_event s \<noteq> None \<longrightarrow> uc_event s' = uc_event s) \<and>
    uc_last_check s' = uc_last_check s \<and> uc_last_update s' = uc_last_update s"
  using assms by (cases rule: update_step_cases) (auto simp: stuck_def)

lemma stuck_run:
  assumes "update_run s es s'" "stuck s"
  shows "stuck s' \<and> (uc_event s \<noteq> None \<longrightarrow> uc_event s' = uc_event s) \<and>
    uc_last_check s' = uc_last_check s \<and> uc_last_update s' = uc_last_update s"
  using assms
proof (induction rule: update_run.induct)
  case (step_run s e s' es s'')
  then show ?case using stuck_step [OF step_run.hyps(1)] by metis
qed simp

lemma upgrader_waiting [simp]:
  "uc_upgrader (trigger s) = uc_upgrader s" "uc_upgrader (take_result now r s) = uc_upgrader s"
  by (simp_all add: trigger_def take_result_def split: update_result.split)

lemma awake_goes_on:
  assumes "uc_checker s = Selecting"
  shows "\<exists>es s'. update_run s es s' \<and> uc_upgrader s' = Waiting"
proof (cases "uc_upgrader s")
  case Waiting
  then show ?thesis using done_run by blast
next
  case Forcing
  then have "\<exists>s'. update_run s [Force_Taken] s' \<and> uc_upgrader s' = Waiting" using assms by simp
  then show ?thesis by blast
next
  case Working
  then have "\<exists>s'. update_run s [Work_Ends UpdateSuccess, Result_Taken 0] s' \<and> uc_upgrader s' = Waiting" using assms by simp
  then show ?thesis by blast
next
  case (Replying r)
  then have "\<exists>s'. update_run s [Result_Taken 0] s' \<and> uc_upgrader s' = Waiting" using assms by simp
  then show ?thesis by blast
qed

lemma not_stuck_goes_on:
  assumes "\<not> stuck s"
  shows "\<exists>es s'. update_run s es s' \<and> uc_upgrader s' = Waiting"
proof (cases "uc_checker s")
  case Sleeping
  then have w: "update_step s Wakes (s\<lparr>uc_checker := Selecting, uc_forced := Suc (uc_forced s)\<rparr>)" (is "update_step s _ ?s") by simp
  obtain es s' where "update_run ?s es s'" "uc_upgrader s' = Waiting" using awake_goes_on [of ?s] by auto
  then show ?thesis using step_run [OF w] by blast
qed (use assms awake_goes_on done_run stuck_def in blast)+

text \<open>A failure, and a connection that comes up before the checker has slept.\<close>

definition unlucky_run :: "time \<Rightarrow> update_event list" where
  "unlucky_run now =
     [Manager_Emits True, Event_Taken, Force_Taken, Request_Taken, Work_Ends UpdateError, Result_Taken now,
      Manager_Emits True, Event_Taken, Wakes, Retry_Taken, Manager_Emits False]"

lemma unlucky_run_stuck:
  assumes "c \<noteq> ''__''"
  shows "\<exists>s. update_run (new_update_checker c) (unlucky_run now) s \<and> stuck s \<and> uc_event s = Some False \<and> uc_last_failed s = now"
  using assms
  by (simp add: update_run_exec unlucky_run_def new_update_checker_def take_event_def update_now_def activate_def trigger_def
      take_request_def take_result_def stuck_def)

text \<open>What holds after every step.\<close>

definition checker_ok :: "update_checker \<Rightarrow> bool" where
  "checker_ok s \<longleftrightarrow>
     (\<not> uc_active s \<longrightarrow> uc_checker s = Selecting \<and> uc_upgrader s = Waiting \<and> uc_forced s = 0 \<and> uc_last_check s = 0) \<and>
     (uc_upgrader s = Working \<longrightarrow> uc_country s \<noteq> ''__'') \<and>
     (uc_last_failed s = 0 \<longrightarrow> uc_last_check s = uc_last_update s) \<and>
     (uc_last_failed s \<noteq> 0 \<longrightarrow> uc_last_check s = uc_last_failed s)"

lemma checker_ok_trigger: "uc_active s \<or> uc_checker s = Selecting \<Longrightarrow> checker_ok s \<Longrightarrow> checker_ok (trigger s)"
  by (auto simp: checker_ok_def trigger_def)

lemma checker_ok_step:
  assumes "update_step s e s'" "checker_ok s" "e \<noteq> Result_Taken 0"
  shows "checker_ok s'"
proof (cases e)
  case (Result_Taken now)
  then show ?thesis
    using assms unfolding update_step_next
    by (auto simp: checker_ok_def take_result_def split: upgrader_at.splits update_result.splits if_splits)
qed (use assms in \<open>auto simp: update_step_next checker_ok_def trigger_def take_event_def update_now_def activate_def
      check_country_def take_request_def simp del: update_step_simps split: if_splits option.splits\<close>)

lemma checker_ok_run: "update_run s es s' \<Longrightarrow> checker_ok s \<Longrightarrow> Result_Taken 0 \<notin> set es \<Longrightarrow> checker_ok s'"
  by (induction rule: update_run.induct) (auto dest: checker_ok_step)

lemma checker_ok_new: "checker_ok (new_update_checker c)"
  by (simp add: checker_ok_def new_update_checker_def)

section \<open>Lemmas: the list\<close>

lemma published_host_listed:
  assumes "publish_host fault fault' t s db = (None, db')"
  shows "\<exists>hosts. get_blocked_hosts None (sa_country s) (sa_asn s) db' = Inr hosts"
proof -
  have "check_enum ''country_code'' country_codes (sa_country s) = None"
    using assms
    by (cases "first_error [fault, check_enum ''country_code'' country_codes (sa_country s), check_int (sa_asn s)]")
      (auto simp: publish_host_def first_error_None)
  then show ?thesis by (simp add: get_blocked_hosts_def)
qed

lemma central_hosts_simps [simp]:
  "h_hosts (cfg_blocked_central (ca_config (set_central_hosts hs a))) = hs"
  "cfg_blocked (ca_config (set_central_hosts hs a)) = cfg_blocked (ca_config a)"
  "ca_proxied (set_central_hosts hs a) = ca_proxied a"
  "cfg_blocked_central (ca_config (save_id i a)) = cfg_blocked_central (ca_config a)"
  "cfg_blocked (ca_config (save_id i a)) = cfg_blocked (ca_config a)" "ca_proxied (save_id i a) = ca_proxied a"
  "ca_config (write_config a) = ca_config a" "ca_proxied (write_config a) = ca_proxied a"
  by (simp_all add: set_central_hosts_def save_id_def write_config_def)

text \<open>The proxy configuration holds the hosts of both lists.\<close>

definition proxy_current :: "client_api \<Rightarrow> bool" where
  "proxy_current a \<longleftrightarrow>
     mset (ca_proxied a) = mset (pac_hosts [h_hosts (cfg_blocked_central (ca_config a)), h_hosts (cfg_blocked (ca_config a))])"

lemma replace_hosts_result:
  "h_hosts (cfg_blocked_central (ca_config (replace_hosts e hosts a))) = sort hosts"
  "cfg_blocked (ca_config (replace_hosts e hosts a)) = cfg_blocked (ca_config a)"
  "proxy_current a \<Longrightarrow> proxy_current (replace_hosts e hosts a)"
  by (auto simp: replace_hosts_def update_blocked_list_def proxy_current_def pac_hosts_def Let_def)

lemma proxy_current_keeps [simp]:
  "proxy_current (save_id i a) = proxy_current a" "proxy_current (write_config a) = proxy_current a"
  by (simp_all add: proxy_current_def)

lemma upgrade_block_list_reply:
  assumes "new_rest_client (be_through e) a = Inr c" "be_write e = None"
    and "update_hostlist post \<lparr>hq_client_addr = be_wanip e, hq_update_id = update_id e (s_last_id (cfg_settings (ca_config a))),
           hq_client_version = be_version e\<rparr> w = (Inr resp, w')"
  obtains a' where "upgrade_block_list post e (a, w) = ((length (hp_hosts resp), None), a', w')"
    "h_hosts (cfg_blocked_central (ca_config a')) = sort (hp_hosts resp)" "cfg_blocked (ca_config a') = cfg_blocked (ca_config a)"
    "proxy_current a \<Longrightarrow> proxy_current a'"
  using assms by (cases "week_id (be_week e) = s_last_id (cfg_settings (ca_config a))")
    (auto simp: upgrade_block_list_def replace_hosts_result Let_def)

lemma central_hosts_reply:
  assumes "\<And>m. range_order m (ord m)" "hq_client_addr q = Some ip" "en_asn en ip = Inr r"
    and "en_blocked en (en_country en ip) (asn_of r) = Inr hosts"
  shows "\<exists>hs st'. update_hostlist (central_hosts ord en) q st = (Inr \<lparr>hp_ok = True, hp_error = [], hp_hosts = hs\<rparr>, st') \<and>
    distinct hs \<and> set hs = (\<Union>h \<in> set hosts. hosts_of (en_related en) h)"
  using assms(2-) related_fill_spec [OF assms(1)]
  by (simp add: update_hostlist_def central_hosts_def get_hosts_def store_simple_def read_reply_def reply_status_def Let_def)

section \<open>Properties\<close>

text \<open>
  C4. The checker and its upgrader can deadlock. When the connection fails an update and comes
  up again before the checker has slept, the checker is blocked in a request for the retry and the upgrader
  in \<open>UpdateNow\<close>: whatever happens then, the upgrader never listens again, no check ends, and
  the connection manager stays blocked with the event that it hands over.
\<close>

theorem upgrader_deadlock:
  assumes "c \<noteq> ''__''"
  shows "\<exists>s. update_run (new_update_checker c) (unlucky_run now) s \<and>
    (\<forall>es s'. update_run s es s' \<longrightarrow> uc_upgrader s' \<noteq> Waiting \<and> uc_event s' = Some False \<and> uc_last_check s' = uc_last_check s)"
  using unlucky_run_stuck [OF assms, of now] stuck_run by (metis option.distinct(1) stuck_def)

text \<open>
  C3. And these are all the deadlocks: from any state whatever, some steps lead to one in which
  the upgrader listens, unless the checker is sending a request that the upgrader does not wait for.
\<close>

theorem upgrader_goes_on:
  "(\<exists>es s'. update_run s es s' \<and> uc_upgrader s' = Waiting) \<longleftrightarrow> \<not> (uc_checker s = Sending \<and> uc_upgrader s \<noteq> Waiting)"
  using not_stuck_goes_on [of s] stuck_run [of s] unfolding stuck_def by blast

text \<open>
  What the checker records. After any run nothing was requested before the connection came up once,
  no update runs for the country \<open>__\<close>, and the time of the last failure is cleared exactly when the last check
  was a success, whose time it then is.
\<close>

lemma checker_records:
  assumes "update_run (new_update_checker c) es s" "Result_Taken 0 \<notin> set es"
  shows "(\<not> uc_active s \<longrightarrow> uc_checker s \<noteq> Sending \<and> uc_upgrader s = Waiting \<and> uc_last_check s = 0) \<and>
    (uc_upgrader s = Working \<longrightarrow> uc_country s \<noteq> ''__'') \<and>
    uc_last_check s = (if uc_last_failed s = 0 then uc_last_update s else uc_last_failed s)"
  using checker_ok_run [OF assms(1) checker_ok_new assms(2)] by (auto simp: checker_ok_def)

text \<open>
  From the central database to the proxy of the client. When a host was published for a country
  and network, a client there that updates its list without an error keeps exactly the published hosts
  and those related to them, sorted and each once, its own blocked hosts beside them, and its proxy
  configuration holds the published host.
\<close>

lemma published_host_is_proxied:
  assumes "publish_host fault fault' t s db = (None, db')" "\<And>m. range_order m (ord m)"
    and "en = db_env None jsonb pick lk codes related now random db'" "lk_asn lk ip = Inr (Some (sa_asn s))"
    and "lk_country lk ip = sa_country s" "be_wanip e = Some ip" "new_rest_client (be_through e) a = Inr c"
    and "be_write e = None" "proxy_current a"
  shows "\<exists>n a' st'. upgrade_block_list (central_hosts ord en) e (a, st) = ((n, None), a', st') \<and>
    (let hosts = h_hosts (cfg_blocked_central (ca_config a')) in
       sorted hosts \<and> distinct hosts \<and>
       set hosts = (\<Union>h \<in> {h. is_published h (sa_country s) (sa_asn s) db'}. hosts_of related h)) \<and>
    cfg_blocked (ca_config a') = cfg_blocked (ca_config a) \<and> proxy_current a' \<and> trim_prefix (sa_host s) www \<in> set (ca_proxied a')"
proof -
  have pub: "is_published (sa_host s) (sa_country s) (sa_asn s) db'" using publish_host_result [OF assms(1)] by simp
  obtain hosts where hosts: "get_blocked_hosts None (sa_country s) (sa_asn s) db' = Inr hosts"
    using published_host_listed [OF assms(1)] by blast
  then have set: "set hosts = {h. is_published h (sa_country s) (sa_asn s) db'}" using get_blocked_published [OF hosts] by auto
  define q where "q = \<lparr>hq_client_addr = be_wanip e, hq_update_id = update_id e (s_last_id (cfg_settings (ca_config a))),
    hq_client_version = be_version e\<rparr>"
  obtain hs st' where reply: "update_hostlist (central_hosts ord en) q st = (Inr \<lparr>hp_ok = True, hp_error = [], hp_hosts = hs\<rparr>, st')"
    and hs: "distinct hs" "set hs = (\<Union>h \<in> set hosts. hosts_of related h)"
    using central_hosts_reply [of ord q ip en "Some (sa_asn s)" hosts st] assms(2-6) hosts
    by (auto simp: q_def asn_of_def db_env_def)
  obtain a' where a': "upgrade_block_list (central_hosts ord en) e (a, st) = ((length hs, None), a', st')"
    "h_hosts (cfg_blocked_central (ca_config a')) = sort hs" "cfg_blocked (ca_config a') = cfg_blocked (ca_config a)" "proxy_current a'"
    using upgrade_block_list_reply [OF assms(7,8) reply [unfolded q_def]] assms(9) by auto
  have "trim_prefix (sa_host s) www \<in> set hs" using pub unfolding hs(2) set by (auto simp: hosts_of_def)
  moreover have "set (ca_proxied a') = set (pac_hosts [sort hs, h_hosts (cfg_blocked (ca_config a'))])"
    using a'(4) unfolding proxy_current_def a'(2) by (rule mset_eq_setD)
  ultimately show ?thesis using a' hs by (auto simp: set pac_hosts_def Let_def)
qed

text \<open>
  An update that fails keeps the list: when \<open>upgradeBlockList\<close> returns an error, the hosts of the
  configuration and of the proxy are what they were, and the settings file is unchanged, though the week may be recorded in memory.
\<close>

lemma failed_update_keeps_hosts:
  assumes "upgrade_block_list post e (a, w) = ((n, Some x), a', w')"
  shows "cfg_blocked_central (ca_config a') = cfg_blocked_central (ca_config a) \<and> cfg_blocked (ca_config a') = cfg_blocked (ca_config a) \<and>
    ca_proxied a' = ca_proxied a \<and> ca_saved a' = ca_saved a \<and>
    s_last_id (cfg_settings (ca_config a')) \<in> {s_last_id (cfg_settings (ca_config a)), week_id (be_week e)}"
  using assms by (auto simp: upgrade_block_list_def save_id_def Let_def split: sum.splits prod.splits if_splits)

section \<open>Examples\<close>

lemma upgrader_deadlock_witness:
  "\<exists>s. update_run (new_update_checker ''SE'') (unlucky_run 5) s \<and> uc_upgrader s \<noteq> Waiting"
  using upgrader_deadlock [of "''SE''" 5] done_run by fastforce

lemma checker_records_witness:
  "\<exists>s. update_run (new_update_checker ''SE'') (unlucky_run 5) s \<and> uc_last_check s = (if uc_last_failed s = 0 then uc_last_update s else uc_last_failed s)"
proof -
  obtain s where "update_run (new_update_checker ''SE'') (unlucky_run 5) s" using unlucky_run_stuck [of "''SE''" 5] by auto
  moreover have "Result_Taken 0 \<notin> set (unlucky_run 5)" by (simp add: unlucky_run_def)
  ultimately show ?thesis using checker_records by blast
qed

definition demo_block_env :: block_env where
  "demo_block_env = \<lparr>be_through = None, be_wanip = Some [192, 0, 2, 1], be_version = ''1'', be_week = 52, be_uuid = Some ''u'',
     be_write = None, be_one_nil = False, be_now = 9\<rparr>"

lemma new_rest_client_demo:
  "new_rest_client None (demo_api cs) = Inr (new_client [], True)"
  "new_rest_client None (update_blocked_list (demo_api cs)) = Inr (new_client [], True)"
proof -
  have "url_parse [] = Some \<lparr>u_scheme = [], u_host = []\<rparr>" by code_simp
  moreover have "local_of (update_blocked_list (demo_api cs)) = zero_local"
    using demo_api_facts(4) [of cs] by (simp add: local_of_def update_blocked_list_def)
  ultimately show "new_rest_client None (demo_api cs) = Inr (new_client [], True)"
    "new_rest_client None (update_blocked_list (demo_api cs)) = Inr (new_client [], True)"
    by (simp_all add: new_rest_client_def demo_api_facts zero_local_def)
qed

lemma failed_update_keeps_hosts_witness:
  "\<exists>n a'. upgrade_block_list (\<lambda>q w. (Inl (Plain ''x''), w)) demo_block_env (demo_api [], ()) = ((n, Some (Plain ''x'')), a', ()) \<and>
     ca_proxied a' = []"
proof -
  obtain a' where r: "upgrade_block_list (\<lambda>q w. (Inl (Plain ''x''), w)) demo_block_env (demo_api [], ()) = ((0, Some (Plain ''x'')), a', ())"
    using new_rest_client_demo(1) [of "[]"]
    by (auto simp: upgrade_block_list_def demo_block_env_def update_hostlist_def read_reply_def Let_def)
  moreover have "ca_proxied (demo_api []) = []" by (simp add: demo_api_def Let_def)
  ultimately show ?thesis using failed_update_keeps_hosts [OF r] by auto
qed

lemma published_host_is_proxied_witness:
  "let db = snd (publish_host None None 0 (rw_value demo_row) empty_db);
       lk = \<lparr>lk_asn = (\<lambda>_. Inr (Some 64500)), lk_country = (\<lambda>_. ''SE''), lk_city = (\<lambda>_. 0)\<rparr>;
       en = db_env None (\<lambda>s. Some s) hd lk [''SE''] [] 0 None db
   in \<exists>n a' st'. upgrade_block_list (central_hosts (\<lambda>m. m) en) demo_block_env (update_blocked_list (demo_api []), no_state) = ((n, None), a', st') \<and>
        ''a.org'' \<in> set (ca_proxied a')"
proof -
  let ?db = "snd (publish_host None None 0 (rw_value demo_row) empty_db)"
  let ?lk = "\<lparr>lk_asn = (\<lambda>_. Inr (Some 64500)), lk_country = (\<lambda>_. ''SE''), lk_city = (\<lambda>_. 0)\<rparr>"
  let ?en = "db_env None (\<lambda>s. Some s) hd ?lk [''SE''] [] 0 None ?db"
  have p: "publish_host None None 0 (rw_value demo_row) empty_db = (None, ?db)"
    by (simp add: publish_host_def demo_row_def check_enum_def check_int_def country_codes_def is_published_def empty_db_def)
  have o: "range_order m ((\<lambda>m. m) m)" for m :: "(string, bool) gomap" by simp
  have l: "lk_asn ?lk [192, 0, 2, 1] = Inr (Some (sa_asn (rw_value demo_row)))" "lk_country ?lk [192, 0, 2, 1] = sa_country (rw_value demo_row)"
    by (simp_all add: demo_row_def)
  have e: "be_wanip demo_block_env = Some [192, 0, 2, 1]" "be_through demo_block_env = None" "be_write demo_block_env = None"
    by (simp_all add: demo_block_env_def)
  have cur: "proxy_current (update_blocked_list (demo_api []))" by (simp add: proxy_current_def update_blocked_list_def)
  have "trim_prefix (sa_host (rw_value demo_row)) www = ''a.org''"
    by (simp add: demo_row_def www_def trim_prefix_def has_prefix_def)
  then show ?thesis
    using published_host_is_proxied [OF p o refl l e(1) _ e(3) cur, where c = "(new_client [], True)" and codes = "[''SE'']"
        and related = "[]" and now = 0 and random = None and jsonb = "\<lambda>s. Some s" and pick = hd and st = no_state]
      new_rest_client_demo(2) [of "[]"] e(2)
    unfolding Let_def by fastforce
qed

end
