(* ===== verification/Pac.thy ===== *)
theory Pac
  imports UpdateCheck
begin

text \<open>
  The proxy configuration of \<open>pkg/pac\<close>: the lists of hosts with their escaping
  (\<open>pac.go\<close>), the listener that sets the method for blocked hosts, and the functions of the
  generated file that decide the proxy of a request (\<open>jstemplate.go\<close>), with the JavaScript
  operations they use.
\<close>

section \<open>Escaping\<close>

text \<open>\<open>template.JSEscapeString\<close>; \<open>printable\<close> is the table of \<open>unicode.IsPrint\<close>.\<close>

definition js_special :: "char \<Rightarrow> bool" where
  "js_special c \<longleftrightarrow>
     c \<in> {CHR 0x5C, CHR 0x27, CHR 0x22, CHR ''<'', CHR ''>''} \<or> of_char c < (32::nat) \<or> (128::nat) \<le> of_char c"

definition upper_hex :: "nat \<Rightarrow> char" where
  "upper_hex d = (if d < 10 then char_of (48 + d) else char_of (55 + d))"

text \<open>The verb \<open>%04X\<close>.\<close>

fun hex_text :: "nat \<Rightarrow> string" where
  "hex_text n = (if n < 16 then [upper_hex n] else hex_text (n div 16) @ [upper_hex (n mod 16)])"

declare hex_text.simps [simp del]

definition hex04 :: "nat \<Rightarrow> string" where
  "hex04 n = replicate (4 - length (hex_text n)) (CHR ''0'') @ hex_text n"

definition js_low :: "char \<Rightarrow> string" where
  "js_low c =
     (if c = CHR 0x5C then [CHR 0x5C, CHR 0x5C]
      else if c = CHR 0x27 then [CHR 0x5C, CHR 0x27]
      else if c = CHR 0x22 then [CHR 0x5C, CHR 0x22]
      else if c = CHR ''<'' then CHR 0x5C # ''x3C''
      else if c = CHR ''>'' then CHR 0x5C # ''x3E''
      else CHR 0x5C # ''u00'' @ [upper_hex (of_char c div 16), upper_hex (of_char c mod 16)])"

function js_escape :: "(nat \<Rightarrow> bool) \<Rightarrow> string \<Rightarrow> string" where
  "js_escape printable [] = []"
| "js_escape printable (c # s) =
     (if \<not> js_special c then c # js_escape printable s
      else if of_char c < (128::nat) then js_low c @ js_escape printable s
      else (let (r, n) = decode_rune (c # s) in
            (if printable r then take n (c # s) else CHR 0x5C # ''u'' @ hex04 r) @ js_escape printable (drop n (c # s))))"
  by pat_completeness auto

lemma decode_rune_moves: "(r, n) = decode_rune (c # s) \<Longrightarrow> 0 < n"
  using decode_rune_width [of "c # s"] by (metis list.distinct(1) snd_conv)

termination js_escape
  by (relation "Wellfounded.measure (\<lambda>(p, s). length s)") (auto dest!: decode_rune_moves)

section \<open>The state\<close>

text \<open>\<open>pc_direct\<close> and \<open>pc_blocked\<close> are the texts that the template puts between quotes.\<close>

record pac =
  pc_top_level :: string
  pc_direct :: string
  pc_blocked :: string
  pc_default_method :: string
  pc_blocked_method :: string

definition top_level_domain :: "(string, bool) gomap" where
  "top_level_domain =
     [(''ac'', True), (''co'', True), (''com'', True), (''edu'', True), (''gov'', True), (''net'', True), (''org'', True), (''se'', True)]"

definition top_level_text :: "((string, bool) gomap \<Rightarrow> (string, bool) gomap) \<Rightarrow> string" where
  "top_level_text ord =
     (let buf = concat (map (\<lambda>p. [CHR 0x09, CHR 0x22] @ fst p @ [CHR 0x22] @ '': true,'' @ [CHR 0x0A]) (ord top_level_domain))
      in take (length buf - 2) buf)"

definition start_pac :: "((string, bool) gomap \<Rightarrow> (string, bool) gomap) \<Rightarrow> pac" where
  "start_pac ord =
     \<lparr>pc_top_level = top_level_text ord, pc_direct = [], pc_blocked = [], pc_default_method = ''DIRECT'', pc_blocked_method = []\<rparr>"

definition list_text :: "(nat \<Rightarrow> bool) \<Rightarrow> string list \<Rightarrow> string" where
  "list_text printable hosts = join [CHR 0x22, CHR '','', CHR 0x0A, CHR 0x22] (map (js_escape printable) hosts)"

definition pac_direct_list :: "(nat \<Rightarrow> bool) \<Rightarrow> string list \<Rightarrow> pac \<Rightarrow> pac" where
  "pac_direct_list printable hosts p = p\<lparr>pc_direct := list_text printable hosts\<rparr>"

definition pac_blocked_list :: "(nat \<Rightarrow> bool) \<Rightarrow> string list list \<Rightarrow> pac \<Rightarrow> pac" where
  "pac_blocked_list printable hosts p = p\<lparr>pc_blocked := list_text printable (pac_hosts hosts)\<rparr>"

text \<open>\<open>SetBlockedMethod\<close>; \<open>None\<close> is the panic at another protocol.\<close>

definition set_blocked_method :: "string \<Rightarrow> string \<Rightarrow> pac \<Rightarrow> pac option" where
  "set_blocked_method protocol connectstr p =
     (if protocol = ''socks5'' then Some (p\<lparr>pc_blocked_method := ''SOCKS5 '' @ connectstr\<rparr>)
      else if protocol = ''DIRECT'' then Some (p\<lparr>pc_blocked_method := ''DIRECT''\<rparr>)
      else None)"

text \<open>
  An event that the connection manager hands to the listener; \<open>find_service\<close> is the response of the
  running service with an identifier, whose missing keys read as the empty text.
\<close>

definition response_value :: "string \<Rightarrow> (string, string) gomap \<Rightarrow> string" where
  "response_value k r = (case map_of r k of None \<Rightarrow> [] | Some v \<Rightarrow> v)"

definition pac_event :: "(string \<Rightarrow> (string, string) gomap option) \<Rightarrow> connection_event list \<Rightarrow> pac \<Rightarrow> pac option" where
  "pac_event find_service history p =
     (let current = last history in
      if ce_state current = Up
      then (case find_service (ce_service_id current) of
              Some r \<Rightarrow> set_blocked_method (response_value ''protocol'' r) (response_value ''bindaddr'' r) p
            | None \<Rightarrow> set_blocked_method ''DIRECT'' [] p)
      else if ce_state current = Ended then set_blocked_method ''DIRECT'' [] p
      else Some p)"

section \<open>The generated file\<close>

text \<open>The part of the template that holds the fields: the methods, the lists and the top level.\<close>

definition pac_lines :: "string list \<Rightarrow> string" where
  "pac_lines ls = concat (map (\<lambda>l. l @ [CHR 0x0A]) ls)"

definition js_quoted :: "string \<Rightarrow> string" where
  "js_quoted s = [CHR 0x22] @ s @ [CHR 0x22]"

definition gen_pac_head :: "pac \<Rightarrow> string" where
  "gen_pac_head p =
     pac_lines
       [[], [], ''var methods = {'', ''    direct: '' @ js_quoted ''DIRECT'' @ '','',
        ''    blocked: '' @ js_quoted (pc_blocked_method p) @ '','', ''    default: '' @ js_quoted (pc_default_method p) @ '','', ''}'', [],
        ''var hosts = {'', ''    direct: ['', ''        '' @ js_quoted [] @ '','', ''        '' @ js_quoted (pc_direct p), ''    ],'',
        ''    blocked: ['', ''        '' @ js_quoted (pc_blocked p), ''    ]'', ''}'', [],
        ''var topLevel = {'', ''    '' @ pc_top_level p, ''};'']"

text \<open>
  What the file holds once it is read: the elements of the two lists and the keys of the
  top level. \<open>js_strings\<close> reads the elements of a list of string literals as JavaScript does.
\<close>

definition js_byte :: "string \<Rightarrow> (char \<times> string) option" where
  "js_byte s =
     (case s of
        a # b # t \<Rightarrow>
          (case (hex_val a, hex_val b) of (Some x, Some y) \<Rightarrow> Some (char_of (16 * x + y), t) | _ \<Rightarrow> None)
      | _ \<Rightarrow> None)"

definition js_escaped :: "string \<Rightarrow> (char \<times> string) option" where
  "js_escaped s =
     (case s of
        [] \<Rightarrow> None
      | d # t \<Rightarrow>
          if d = CHR ''x'' then js_byte t
          else if d = CHR ''u'' then (if take 2 t = ''00'' then js_byte (drop 2 t) else None)
          else if d \<in> {CHR 0x5C, CHR 0x27, CHR 0x22} then Some (d, t)
          else None)"

lemma js_byte_shorter: "js_byte s = Some (c, t) \<Longrightarrow> length t < length s"
  by (auto simp: js_byte_def split: list.splits option.splits)

lemma js_escaped_shorter: "js_escaped s = Some (c, t) \<Longrightarrow> length t < length s"
  by (auto simp: js_escaped_def dest!: js_byte_shorter split: list.splits if_splits)

function js_literal :: "string \<Rightarrow> (string \<times> string) option" where
  "js_literal [] = None"
| "js_literal (c # s) =
     (if c = CHR 0x22 then Some ([], s)
      else if c = CHR 0x0A then None
      else if c \<noteq> CHR 0x5C then map_option (apfst ((#) c)) (js_literal s)
      else (case js_escaped s of
              None \<Rightarrow> None
            | Some (d, t) \<Rightarrow> map_option (apfst ((#) d)) (js_literal t)))"
  by pat_completeness auto

termination js_literal
  by (relation "Wellfounded.measure length") (auto dest: js_escaped_shorter intro: less_SucI)

lemma js_literal_shorter: "js_literal s = Some (x, t) \<Longrightarrow> length t < length s"
proof (induction s arbitrary: x rule: length_induct)
  case (1 s)
  note IH = 1(1) and run = 1(2)
  show ?case
  proof (cases s)
    case (Cons c r)
    show ?thesis
    proof (cases "c = CHR 0x5C")
      case True
      obtain d u y where u: "js_escaped r = Some (d, u)" "js_literal u = Some (y, t)"
        using run Cons True by (auto split: option.splits)
      then have "length u < length s" using js_escaped_shorter [OF u(1)] Cons by simp
      then show ?thesis using IH u(2) by fastforce
    next
      case False
      then show ?thesis using run IH Cons by (fastforce split: if_splits)
    qed
  qed (use run in simp)
qed

function js_strings :: "string \<Rightarrow> string list option" where
  "js_strings s =
     (case s of
        [] \<Rightarrow> None
      | c # s' \<Rightarrow>
          if c \<noteq> CHR 0x22 then None
          else (case js_literal s' of
                  None \<Rightarrow> None
                | Some (x, []) \<Rightarrow> Some [x]
                | Some (x, d # t) \<Rightarrow>
                    if d = CHR '','' then map_option ((#) x) (js_strings (dropWhile (\<lambda>c. c = CHR 0x0A) t)) else None))"
  by pat_completeness auto

lemma js_strings_smaller:
  "js_literal s = Some (x, d # t) \<Longrightarrow> length (dropWhile (\<lambda>c. c = CHR 0x0A) t) < Suc (length s)"
  using length_dropWhile_le [of "\<lambda>c. c = CHR 0x0A" t] by (fastforce dest: js_literal_shorter)

termination js_strings
  by (relation "Wellfounded.measure length") (auto dest: js_strings_smaller)

declare js_strings.simps [simp del]

section \<open>The decision in the browser\<close>

text \<open>
  A lookup in an object literal also finds what every object inherits. The positions of
  \<open>lastIndexOf\<close> and \<open>substring\<close> are brought into range, and swapped when they cross.
\<close>

definition inherited :: "string list" where
  "inherited =
     [''constructor'', ''hasOwnProperty'', ''isPrototypeOf'', ''propertyIsEnumerable'', ''toLocaleString'', ''toString'', ''valueOf'',
      ''__proto__'', ''__defineGetter__'', ''__defineSetter__'', ''__lookupGetter__'', ''__lookupSetter__'']"

definition js_has :: "string list \<Rightarrow> string \<Rightarrow> bool" where
  "js_has keys k \<longleftrightarrow> k \<in> set keys \<or> k \<in> set inherited"

definition last_dot :: "string \<Rightarrow> int \<Rightarrow> int" where
  "last_dot s from =
     (case filter (\<lambda>i. s ! i = CHR ''.'') [0..<min (length s) (Suc (nat from))] of [] \<Rightarrow> -1 | is \<Rightarrow> int (last is))"

definition substring :: "string \<Rightarrow> int \<Rightarrow> int \<Rightarrow> string" where
  "substring s a b =
     (let x = min (nat a) (length s); y = min (nat b) (length s) in drop (min x y) (take (max x y) s))"

text \<open>\<open>Number\<close> of a text of one to three characters; \<open>None\<close> is \<open>NaN\<close>.\<close>

definition js_digits :: "string \<Rightarrow> int option" where
  "js_digits s = (if s \<noteq> [] \<and> list_all is_digit s then Some (int (nat_of_digits s)) else None)"

definition js_blank :: "char \<Rightarrow> bool" where
  "js_blank c \<longleftrightarrow> of_char c \<in> {9, 10, 11, 12, 13, 32 :: nat}"

definition js_number :: "string \<Rightarrow> int option" where
  "js_number s0 =
     (let s = rev (dropWhile js_blank (rev (dropWhile js_blank s0))) in
      case s of
        [] \<Rightarrow> Some 0
      | c # r \<Rightarrow>
          if c = CHR ''-'' then map_option uminus (js_digits r)
          else if c = CHR ''+'' then js_digits r
          else (case s of
                  [a, e, b] \<Rightarrow>
                    if is_digit a \<and> e \<in> set ''eE'' \<and> is_digit b then Some (int (nat_of_digits [a]) * 10 ^ nat_of_digits [b])
                    else if a = CHR ''0'' \<and> e \<in> set ''xX'' then map_option int (hex_val b)
                    else if a = CHR ''0'' \<and> e \<in> set ''oO'' \<and> is_digit b \<and> nat_of_digits [b] < 8 then Some (int (nat_of_digits [b]))
                    else if a = CHR ''0'' \<and> e \<in> set ''bB'' \<and> is_digit b \<and> nat_of_digits [b] < 2 then Some (int (nat_of_digits [b]))
                    else js_digits s
                | _ \<Rightarrow> js_digits s))"

definition byte_part :: "string \<Rightarrow> bool" where
  "byte_part p \<longleftrightarrow>
     p \<noteq> [] \<and> length p \<le> 3 \<and> (case js_number p of None \<Rightarrow> False | Some n \<Rightarrow> 0 \<le> n \<and> n \<le> 255)"

text \<open>\<open>hostIsIP\<close>: whether the host is an address and whether it is private.\<close>

definition host_is_ip :: "string \<Rightarrow> bool \<times> bool" where
  "host_is_ip host =
     (let part = split_char (CHR ''.'') host in
      if length part \<noteq> 4 then (False, False)
      else if \<not> list_all byte_part part then (False, False)
      else if part ! 0 = ''127'' \<or> part ! 0 = ''10'' \<or> (part ! 0 = ''192'' \<and> part ! 1 = ''168'') then (True, True)
      else if part ! 0 = ''172'' \<and> (case js_number (part ! 1) of None \<Rightarrow> False | Some n \<Rightarrow> 16 \<le> n \<and> n \<le> 31) then (True, True)
      else (True, False))"

definition host2domain :: "string list \<Rightarrow> string \<Rightarrow> string" where
  "host2domain tops host =
     (let (is_ip, is_private) = host_is_ip host in
      if is_private then []
      else if is_ip then host
      else (let dot1 = last_dot host (int (length host)) in
            if dot1 = -1 then []
            else (let dot2 = last_dot host (dot1 - 1) in
                  if dot2 = -1 then host
                  else if js_has tops (substring host (dot2 + 1) dot1)
                  then (let dot3 = last_dot host (dot2 - 1) in
                        if dot3 = -1 then host else substring host (dot3 + 1) (int (length host)))
                  else substring host (dot2 + 1) (int (length host)))))"

record pac_file =
  pf_direct :: "string list"
  pf_blocked :: "string list"
  pf_top :: "string list"
  pf_blocked_method :: string
  pf_default_method :: string

definition find_proxy_for_url :: "pac_file \<Rightarrow> string \<Rightarrow> string \<Rightarrow> string" where
  "find_proxy_for_url f url host =
     (if take 4 url = ''ftp:'' then ''DIRECT''
      else (let domain = host2domain (pf_top f) host in
            if js_has (pf_direct f) host \<or> js_has (pf_direct f) domain then ''DIRECT''
            else if js_has (pf_blocked f) host \<or> js_has (pf_blocked f) domain then pf_blocked_method f
            else pf_default_method f))"

text \<open>The file that a state gives, when its lists and methods are read as string literals.\<close>

definition read_pac :: "pac \<Rightarrow> pac_file option" where
  "read_pac p =
     (case (js_strings (js_quoted (pc_direct p)), js_strings (js_quoted (pc_blocked p)), js_strings (js_quoted (pc_blocked_method p)),
            js_strings (js_quoted (pc_default_method p))) of
        (Some direct, Some blocked, Some [m], Some [d]) \<Rightarrow>
          Some \<lparr>pf_direct = [] # direct, pf_blocked = blocked, pf_top = map fst top_level_domain, pf_blocked_method = m,
                pf_default_method = d\<rparr>
      | _ \<Rightarrow> None)"

section \<open>Lemmas: escaping\<close>

lemma hex_val_upper_hex [simp]: "d < 16 \<Longrightarrow> hex_val (upper_hex d) = Some d"
  by (auto simp: hex_val_def upper_hex_def Let_def)

lemma js_byte_hex: "js_byte (upper_hex (of_char c div 16) # upper_hex (of_char c mod 16) # t) = Some (c, t)"
proof -
  have "(of_char c :: nat) div 16 < 16" using of_char_lt [of c] by (simp add: less_mult_imp_div_less)
  then show ?thesis by (simp add: js_byte_def)
qed

lemma angle_chars: "char_of (60::nat) = CHR ''<''" "char_of (62::nat) = CHR ''>''"
  by code_simp+

lemma js_escaped_low:
  assumes "js_special c" "of_char c < (128::nat)"
  obtains e where "js_low c = CHR 0x5C # e" "\<And>t. js_escaped (e @ t) = Some (c, t)"
proof -
  have angle: "js_byte (CHR ''3'' # CHR ''C'' # t) = Some (CHR ''<'', t)" "js_byte (CHR ''3'' # CHR ''E'' # t) = Some (CHR ''>'', t)" for t
    by (simp_all add: js_byte_def hex_val_def angle_chars)
  show thesis
    by (rule that [of "tl (js_low c)"])
      (use angle js_byte_hex [of c] in \<open>auto simp: js_low_def js_escaped_def numeral_2_eq_2\<close>)
qed

lemma js_literal_escape:
  "ascii h \<Longrightarrow> js_literal (js_escape printable h @ CHR 0x22 # rest) = Some (h, rest)"
proof (induction h)
  case (Cons c h)
  show ?case
  proof (cases "js_special c")
    case True
    moreover have low: "of_char c < (128::nat)" using Cons.prems by simp
    ultimately obtain e where e: "js_low c = CHR 0x5C # e" "\<And>t. js_escaped (e @ t) = Some (c, t)" using js_escaped_low by blast
    with True low Cons show ?thesis by simp
  next
    case False
    then show ?thesis using Cons by (auto simp: js_special_def)
  qed
qed simp

lemma js_literal_plain: "list_all (\<lambda>c. c \<notin> {CHR 0x22, CHR 0x0A, CHR 0x5C}) s \<Longrightarrow> js_literal (s @ CHR 0x22 # rest) = Some (s, rest)"
  by (induction s) auto

lemma js_strings_list:
  "list_all ascii hs \<Longrightarrow> js_strings (js_quoted (list_text printable hs)) = Some (if hs = [] then [[]] else hs)"
proof (induction hs rule: induct_list012)
  case 1
  then show ?case by (simp add: js_strings.simps js_quoted_def list_text_def)
next
  case (2 h)
  then show ?case by (simp add: js_strings.simps js_quoted_def list_text_def js_literal_escape)
next
  case (3 h g hs)
  then have IH: "js_strings (js_quoted (list_text printable (g # hs))) = Some (g # hs)" by simp
  have "js_strings (js_quoted (list_text printable (h # g # hs))) = map_option ((#) h) (js_strings (js_quoted (list_text printable (g # hs))))"
    using 3(3) by (subst js_strings.simps) (simp add: js_quoted_def list_text_def js_literal_escape)
  with IH show ?case by simp
qed

lemma js_strings_plain:
  "list_all (\<lambda>c. c \<notin> {CHR 0x22, CHR 0x0A, CHR 0x5C}) s \<Longrightarrow> js_strings (js_quoted s) = Some [s]"
  by (simp add: js_strings.simps js_quoted_def js_literal_plain)

section \<open>Lemmas: domains\<close>

lemma last_dot_at:
  assumes "k < length s" "int k \<le> from" "s ! k = CHR ''.''" "\<And>j. k < j \<Longrightarrow> int j \<le> from \<Longrightarrow> j < length s \<Longrightarrow> s ! j \<noteq> CHR ''.''"
  shows "last_dot s from = int k"
proof -
  let ?m = "min (length s) (Suc (nat from))"
  have "k < ?m" using assms(1,2) by auto
  then have "[0..<?m] = [0..<k] @ k # [Suc k..<?m]"
    by (metis less_imp_add_positive upt_add_eq_append upt_conv_Cons le0 less_or_eq_imp_le)
  moreover have "filter (\<lambda>i. s ! i = CHR ''.'') [Suc k..<?m] = []"
    using assms(2,4) by (auto simp: filter_empty_conv)
  ultimately have "filter (\<lambda>i. s ! i = CHR ''.'') [0..<?m] = filter (\<lambda>i. s ! i = CHR ''.'') [0..<k] @ [k]"
    using assms(3) by simp
  then show ?thesis unfolding last_dot_def
    by (cases "filter (\<lambda>i. s ! i = CHR ''.'') [0..<k]") (simp_all add: last_append)
qed

lemma last_dot_none:
  assumes "\<And>j. int j \<le> max from 0 \<Longrightarrow> j < length s \<Longrightarrow> s ! j \<noteq> CHR ''.''"
  shows "last_dot s from = -1"
proof -
  have "filter (\<lambda>i. s ! i = CHR ''.'') [0..<min (length s) (Suc (nat from))] = []"
    using assms by (auto simp: filter_empty_conv)
  then show ?thesis by (simp add: last_dot_def)
qed

text \<open>The last dot before a text without one.\<close>

lemma last_dot_append:
  assumes "CHR ''.'' \<notin> set v" "int (length u) \<le> from" "from \<le> int (length u + length v) \<or> w = []"
  shows "last_dot (u @ CHR ''.'' # v @ w) from = int (length u)"
proof (rule last_dot_at)
  fix j
  assume j: "length u < j" "int j \<le> from" "j < length (u @ CHR ''.'' # v @ w)"
  then have "j - Suc (length u) < length v" using assms(3) by auto
  moreover have "(u @ CHR ''.'' # v @ w) ! j = (v @ w) ! (j - Suc (length u))" using j(1) by (simp add: nth_append nth_Cons')
  ultimately have "(u @ CHR ''.'' # v @ w) ! j \<in> set v" by (simp add: nth_append)
  then show "(u @ CHR ''.'' # v @ w) ! j \<noteq> CHR ''.''" using assms(1) by metis
qed (use assms in auto)

lemma join_snoc: "xs \<noteq> [] \<Longrightarrow> join sep (xs @ ys) = (if ys = [] then join sep xs else join sep xs @ sep @ join sep ys)"
proof (induction sep xs rule: join.induct)
  case (2 sep x)
  then show ?case by (cases ys) auto
qed auto

lemma substring_range:
  "substring (u @ v @ w) (int (length u)) (int (length u + length v)) = v"
  "substring (u @ v) (int (length u)) (int (length (u @ v))) = v"
  by (simp_all add: substring_def Let_def)

text \<open>A label of a host name.\<close>

definition label :: "string \<Rightarrow> bool" where
  "label l \<longleftrightarrow> l \<noteq> [] \<and> CHR ''.'' \<notin> set l"

lemma no_dot_before:
  assumes "label a"
  shows "last_dot (a @ w) (int (length a) - 1) = -1"
proof (rule last_dot_none)
  fix j
  assume j: "int j \<le> max (int (length a) - 1) 0" "j < length (a @ w)"
  have "a \<noteq> []" using assms by (simp add: label_def)
  then have "j < length a" using j(1) by (cases a) auto
  then show "(a @ w) ! j \<noteq> CHR ''.''" using assms by (metis label_def nth_append nth_mem)
qed

lemma host2domain_two:
  assumes "label a" "label b" "host_is_ip (a @ ''.'' @ b) = (False, False)"
  shows "host2domain tops (a @ ''.'' @ b) = a @ ''.'' @ b"
proof -
  have "last_dot (a @ ''.'' @ b) (int (length (a @ ''.'' @ b))) = int (length a)"
    using last_dot_append [of b a _ "[]"] assms(2) by (simp add: label_def)
  moreover have "last_dot (a @ ''.'' @ b) (int (length a) - 1) = -1" by (rule no_dot_before) (rule assms(1))
  ultimately show ?thesis using assms(3) by (simp add: host2domain_def)
qed

lemma host2domain_more:
  assumes "label b" "label c" "host_is_ip (u @ ''.'' @ b @ ''.'' @ c) = (False, False)"
  shows "host2domain tops (u @ ''.'' @ b @ ''.'' @ c) =
    (if js_has tops b
     then (let d = last_dot (u @ ''.'' @ b @ ''.'' @ c) (int (length u) - 1) in
           if d = -1 then u @ ''.'' @ b @ ''.'' @ c
           else substring (u @ ''.'' @ b @ ''.'' @ c) (d + 1) (int (length (u @ ''.'' @ b @ ''.'' @ c))))
     else b @ ''.'' @ c)"
proof -
  let ?h = "u @ ''.'' @ b @ ''.'' @ c"
  have d1: "last_dot ?h (int (length ?h)) = int (length u + 1 + length b)"
    using last_dot_append [of c "u @ ''.'' @ b" "int (length ?h)" "[]"] assms(2) by (simp add: label_def)
  have d2: "last_dot ?h (int (length u + 1 + length b) - 1) = int (length u)"
    using last_dot_append [of b u "int (length u + length b)" "''.'' @ c"] assms(1) by (simp add: label_def algebra_simps)
  have s1: "substring ?h (int (length u) + 1) (int (length u + 1 + length b)) = b"
    using substring_range(1) [of "u @ ''.''" b "''.'' @ c"] by (simp add: algebra_simps)
  have s2: "substring ?h (int (length u) + 1) (int (length ?h)) = b @ ''.'' @ c"
    using substring_range(2) [of "u @ ''.''" "b @ ''.'' @ c"] by (simp add: algebra_simps)
  have "int (length u + 1 + length b) \<noteq> -1" "int (length u) \<noteq> -1" by linarith+
  then show ?thesis
    unfolding host2domain_def Let_def assms(3) prod.case d1 d2 s1 s2 by simp
qed

text \<open>The reference: the last two labels, or three after a label of the top level.\<close>

definition known_domain :: "string list \<Rightarrow> string list \<Rightarrow> string" where
  "known_domain tops ls =
     join ''.'' (drop (length ls - (if 3 \<le> length ls \<and> js_has tops (ls ! (length ls - 2)) then 3 else 2)) ls)"

lemma host2domain_known:
  assumes "2 \<le> length ls" "list_all label ls" "host_is_ip (join ''.'' ls) = (False, False)"
  shows "host2domain tops (join ''.'' ls) = known_domain tops ls"
proof (cases "length ls = 2")
  case True
  then obtain a b where "ls = [a, b]" by (auto simp: numeral_2_eq_2 length_Suc_conv)
  then show ?thesis using assms host2domain_two [of a b tops] by (simp add: known_domain_def)
next
  case False
  then obtain xs a b c where ls: "ls = xs @ [a, b, c]"
  proof -
    have "ls = take (length ls - 3) ls @ drop (length ls - 3) ls" by simp
    moreover obtain zs where zs: "drop (length ls - 3) ls = zs" "length zs = 3" using False assms(1) by simp
    moreover from zs(2) obtain a b c where "zs = [a, b, c]" by (auto simp: numeral_3_eq_3 length_Suc_conv)
    ultimately show thesis using that by metis
  qed
  let ?u = "join ''.'' (xs @ [a])"
  have h: "join ''.'' ls = ?u @ ''.'' @ b @ ''.'' @ c" using join_snoc [of "xs @ [a]" "''.''" "[b, c]"] by (simp add: ls)
  have l: "label a" "label b" "label c" using assms(2) by (simp_all add: ls)
  have r: "length ls - 2 = Suc (length xs)" "length ls - 3 = length xs" by (simp_all add: ls)
  have known: "known_domain tops ls = (if js_has tops b then a @ ''.'' @ b @ ''.'' @ c else b @ ''.'' @ c)"
    unfolding known_domain_def r by (simp add: ls nth_append)
  note two = host2domain_more [OF l(2,3), of ?u tops, folded h, OF assms(3), unfolded h]
  show ?thesis
  proof (cases "xs = []")
    case True
    have "last_dot (a @ ''.'' @ b @ ''.'' @ c) (int (length a) - 1) = -1" by (rule no_dot_before) (rule l(1))
    then show ?thesis using two True unfolding known h by (simp add: Let_def)
  next
    case False
    let ?v = "join ''.'' xs"
    have u: "?u = ?v @ ''.'' @ a" using join_snoc [OF False, of "''.''" "[a]"] by simp
    have "last_dot (?u @ ''.'' @ b @ ''.'' @ c) (int (length ?u) - 1) = int (length ?v)"
      unfolding u using last_dot_append [of a ?v "int (length ?v + length a)" "''.'' @ b @ ''.'' @ c"] l(1)
      by (simp add: label_def algebra_simps)
    moreover have "substring (?u @ ''.'' @ b @ ''.'' @ c) (int (length ?v) + 1) (int (length (?u @ ''.'' @ b @ ''.'' @ c))) = a @ ''.'' @ b @ ''.'' @ c"
      unfolding u using substring_range(2) [of "?v @ ''.''" "a @ ''.'' @ b @ ''.'' @ c"] by (simp add: algebra_simps)
    moreover have "int (length ?v) \<noteq> -1" by linarith
    ultimately show ?thesis using two unfolding known h by (simp add: Let_def)
  qed
qed

section \<open>Lemmas: the file\<close>

definition js_plain :: "string \<Rightarrow> bool" where
  "js_plain s \<longleftrightarrow> list_all (\<lambda>c. c \<notin> {CHR 0x22, CHR 0x0A, CHR 0x5C}) s"

lemma read_pac_texts:
  assumes "pc_direct p = list_text printable direct" "pc_blocked p = list_text printable blocked" "list_all ascii direct"
    and "list_all ascii blocked" "blocked \<noteq> []" "js_plain (pc_blocked_method p)" "js_plain (pc_default_method p)"
  shows "read_pac p =
    Some \<lparr>pf_direct = [] # (if direct = [] then [[]] else direct), pf_blocked = blocked, pf_top = map fst top_level_domain,
          pf_blocked_method = pc_blocked_method p, pf_default_method = pc_default_method p\<rparr>"
  using assms by (simp add: read_pac_def js_strings_list js_plain_def js_strings_plain)

lemma read_pac_lists:
  assumes "list_all ascii direct" "list_all (list_all ascii) hls" "js_plain (pc_blocked_method p)" "js_plain (pc_default_method p)"
  shows "read_pac (pac_blocked_list printable hls (pac_direct_list printable direct p)) =
    Some \<lparr>pf_direct = [] # (if direct = [] then [[]] else direct), pf_blocked = pac_hosts hls, pf_top = map fst top_level_domain,
          pf_blocked_method = pc_blocked_method p, pf_default_method = pc_default_method p\<rparr>"
proof -
  let ?p = "pac_blocked_list printable hls (pac_direct_list printable direct p)"
  have "list_all ascii (pac_hosts hls)" using assms(2) by (auto simp: pac_hosts_def list_all_iff ascii_def)
  moreover have "pac_hosts hls \<noteq> []" by (simp add: pac_hosts_def)
  moreover have "pc_direct ?p = list_text printable direct" "pc_blocked ?p = list_text printable (pac_hosts hls)"
    "pc_blocked_method ?p = pc_blocked_method p" "pc_default_method ?p = pc_default_method p"
    by (simp_all add: pac_blocked_list_def pac_direct_list_def)
  ultimately show ?thesis using read_pac_texts [of ?p] assms(1,3,4) by metis
qed

lemma js_has_Nil [simp]: "js_has ks [] \<longleftrightarrow> [] \<in> set ks"
  by (auto simp: js_has_def inherited_def)

lemma substring_set: "set (substring s a b) \<subseteq> set s"
  unfolding substring_def Let_def by (meson order_trans set_drop_subset set_take_subset)

lemma host2domain_set: "set (host2domain tops host) \<subseteq> set host"
  using substring_set [of host] by (auto simp: host2domain_def Let_def split: prod.split)

lemma js_has_filter:
  "CHR '':'' \<notin> set k \<Longrightarrow> js_has (filter (\<lambda>h. CHR '':'' \<notin> set h) ks) k = js_has ks k"
  by (auto simp: js_has_def)

lemma find_proxy_filter:
  assumes "CHR '':'' \<notin> set host"
  shows "find_proxy_for_url (f\<lparr>pf_blocked := filter (\<lambda>h. CHR '':'' \<notin> set h) (pf_blocked f)\<rparr>) url host = find_proxy_for_url f url host"
proof -
  have "CHR '':'' \<notin> set (host2domain (pf_top f) host)" using assms host2domain_set by blast
  with assms show ?thesis by (simp add: find_proxy_for_url_def js_has_filter Let_def)
qed

text \<open>A request for a blocked host, or for a host in a blocked domain, when neither is direct.\<close>

lemma find_proxy_blocked:
  assumes "h \<in> set (pf_blocked f)" "x = h \<or> host2domain (pf_top f) x = h" "take 4 url \<noteq> ''ftp:''"
    and "\<not> js_has (pf_direct f) x" "\<not> js_has (pf_direct f) (host2domain (pf_top f) x)"
  shows "find_proxy_for_url f url x = pf_blocked_method f"
  using assms by (auto simp: find_proxy_for_url_def js_has_def Let_def)

section \<open>Properties\<close>

text \<open>
  C14. No host breaks out of the file. Whatever ASCII hosts the lists hold, quotes, backslashes and
  control characters included, the file that is generated from them is read as exactly these hosts.
\<close>

theorem pac_lists_survive:
  assumes "list_all ascii direct" "list_all (list_all ascii) hls" "set_blocked_method ''socks5'' addr (start_pac ord) = Some p" "js_plain addr"
  shows "\<exists>f. read_pac (pac_blocked_list printable hls (pac_direct_list printable direct p)) = Some f \<and>
    set (pf_direct f) = insert [] (set direct) \<and> pf_blocked f = ''alkasir.com'' # concat hls \<and> pf_blocked_method f = ''SOCKS5 '' @ addr"
proof -
  have p: "pc_blocked_method p = ''SOCKS5 '' @ addr" "pc_default_method p = ''DIRECT''"
    using assms(3) by (auto simp: set_blocked_method_def start_pac_def)
  then have "js_plain (pc_blocked_method p)" "js_plain (pc_default_method p)" using assms(4) by (simp_all add: js_plain_def)
  from read_pac_lists [OF assms(1,2) this] p show ?thesis by (simp add: pac_hosts_def)
qed

text \<open>
  C22. The domain of a host. For a host name of at least two labels that is not an address, the arithmetic on the
  positions of the dots gives the last two labels, or the last three when the second last one
  is a label of the top level.
\<close>

theorem host2domain_labels:
  assumes "2 \<le> length ls" "list_all label ls" "host_is_ip (join ''.'' ls) = (False, False)"
  shows "host2domain tops (join ''.'' ls) = known_domain tops ls"
  by (rule host2domain_known [OF assms])

text \<open>
  Simple names and private addresses are never proxied. When a host has no domain in this
  sense, among them every host without a dot, as an IPv6 address, and the private IPv4 addresses, the
  browser connects directly, whether the host is blocked or not.
\<close>

lemma no_domain_is_direct:
  assumes "[] \<in> set (pf_direct f)" "CHR ''.'' \<notin> set host \<or> snd (host_is_ip host)"
  shows "find_proxy_for_url f url host = ''DIRECT''"
proof -
  have "host2domain (pf_top f) host = []"
  proof (cases "snd (host_is_ip host)")
    case False
    then have dots: "CHR ''.'' \<notin> set host" using assms(2) by simp
    then have "last_dot host (int (length host)) = -1" by (intro last_dot_none) (metis nth_mem)
    moreover have "\<not> fst (host_is_ip host)" using dots by (simp add: host_is_ip_def)
    ultimately show ?thesis using False by (cases "host_is_ip host") (simp add: host2domain_def)
  qed (cases "host_is_ip host", simp add: host2domain_def)
  then show ?thesis using assms(1) by (simp add: find_proxy_for_url_def)
qed

text \<open>
  A suggestion with a port is not proxied. When the URL of a submitted suggestion names a port, the
  host is added to the blocked hosts with it, and the file decides about every host of a
  request, which has no port, as it did before.
\<close>

lemma suggested_port_not_proxied:
  assumes "url_parse url = Some u" "CHR '':'' \<in> set (u_host u)" "CHR '':'' \<notin> set host"
    and "pf_blocked f = pac_hosts [h_hosts (cfg_blocked_central (ca_config a)), h_hosts (cfg_blocked (ca_config a))]"
  shows "find_proxy_for_url (f\<lparr>pf_blocked := ca_proxied (block_suggested now url a)\<rparr>) req host = find_proxy_for_url f req host"
proof -
  let ?P = "\<lambda>h. CHR '':'' \<notin> set h"
  have "CHR '':'' \<in> set (trim_space (u_host u))" using assms(2) by (rule trim_space_keeps) (simp add: graphic_def)
  then have "filter ?P (ca_proxied (block_suggested now url a)) = filter ?P (pf_blocked f)"
    unfolding assms(4)
    by (simp add: block_suggested_def assms(1) update_blocked_list_def pac_hosts_def hosts_add_def Let_def)
  then show ?thesis
    using find_proxy_filter [OF assms(3), of "f\<lparr>pf_blocked := ca_proxied (block_suggested now url a)\<rparr>" req]
      find_proxy_filter [OF assms(3), of f req] by simp
qed

section \<open>Examples\<close>

lemma pac_lists_survive_witness:
  "\<exists>p f. set_blocked_method ''socks5'' ''127.0.0.1:1'' (start_pac id) = Some p \<and>
     read_pac (pac_blocked_list (\<lambda>_. True) [[''a\"]};<b'']] (pac_direct_list (\<lambda>_. True) [] p)) = Some f \<and>
     pf_blocked f = [''alkasir.com'', ''a\"]};<b'']"
proof -
  let ?p = "(start_pac id)\<lparr>pc_blocked_method := ''SOCKS5 127.0.0.1:1''\<rparr>"
  have "set_blocked_method ''socks5'' ''127.0.0.1:1'' (start_pac id) = Some ?p" by (simp add: set_blocked_method_def)
  moreover have "list_all (list_all ascii) [[''a\"]};<b'']]" "js_plain ''127.0.0.1:1''" by (simp_all add: js_plain_def)
  ultimately show ?thesis
    using pac_lists_survive [of "[]" "[[''a\"]};<b'']]" "''127.0.0.1:1''" id ?p "\<lambda>_. True"] by auto
qed

lemma host2domain_labels_witness:
  "host2domain (map fst top_level_domain) ''a.b.co.uk'' = ''b.co.uk'' \<and> host2domain (map fst top_level_domain) ''www.a.b.org'' = ''b.org''"
proof -
  have "list_all label [''a'', ''b'', ''co'', ''uk'']" "host_is_ip (join ''.'' [''a'', ''b'', ''co'', ''uk'']) = (False, False)"
    "list_all label [''www'', ''a'', ''b'', ''org'']" "host_is_ip (join ''.'' [''www'', ''a'', ''b'', ''org'']) = (False, False)"
    by code_simp+
  moreover have "known_domain (map fst top_level_domain) [''a'', ''b'', ''co'', ''uk''] = ''b.co.uk''"
    "known_domain (map fst top_level_domain) [''www'', ''a'', ''b'', ''org''] = ''b.org''"
    by code_simp+
  ultimately show ?thesis
    using host2domain_labels [of "[''a'', ''b'', ''co'', ''uk'']" "map fst top_level_domain"]
      host2domain_labels [of "[''www'', ''a'', ''b'', ''org'']" "map fst top_level_domain"] by simp
qed

definition demo_pac_file :: "string list \<Rightarrow> pac_file" where
  "demo_pac_file blocked =
     \<lparr>pf_direct = [[], []], pf_blocked = blocked, pf_top = map fst top_level_domain, pf_blocked_method = ''SOCKS5 127.0.0.1:1'',
      pf_default_method = ''DIRECT''\<rparr>"

lemma no_domain_is_direct_witness:
  "find_proxy_for_url (demo_pac_file [''[2001:db8::1]'']) ''http://[2001:db8::1]/'' ''[2001:db8::1]'' = ''DIRECT''"
  by (rule no_domain_is_direct) (simp_all add: demo_pac_file_def)

lemma suggested_port_not_proxied_witness:
  "find_proxy_for_url ((demo_pac_file [''alkasir.com''])\<lparr>pf_blocked := ca_proxied (block_suggested 0 ''http://a.org:81/'' (demo_api []))\<rparr>)
     ''http://a.org:81/'' ''a.org'' = ''DIRECT''"
proof -
  have u: "url_parse ''http://a.org:81/'' = Some \<lparr>u_scheme = ''http'', u_host = ''a.org:81''\<rparr>" by code_simp
  have "find_proxy_for_url (demo_pac_file [''alkasir.com'']) ''http://a.org:81/'' ''a.org'' = ''DIRECT''" by code_simp
  moreover have "pf_blocked (demo_pac_file [''alkasir.com'']) =
      pac_hosts [h_hosts (cfg_blocked_central (ca_config (demo_api []))), h_hosts (cfg_blocked (ca_config (demo_api [])))]"
    by (simp add: demo_pac_file_def pac_hosts_def demo_api_def blank_config_def blank_hosts_def Let_def)
  ultimately show ?thesis using suggested_port_not_proxied [OF u, of "''a.org''"] by simp
qed

end
