(* ===== verification/Pem.thy ===== *)
theory Pem
  imports ConnectionCode
begin

text \<open>
  The encodings of keys and signatures: \<open>base64.StdEncoding\<close> and \<open>base64.RawURLEncoding\<close>, and the
  blocks of \<open>encoding/pem\<close>, whose headers are skipped. Byte strings are strings.
\<close>

section \<open>Base64\<close>

definition to_std :: "char \<Rightarrow> char" where
  "to_std c = (if c = CHR ''-'' then CHR ''+'' else if c = CHR ''_'' then CHR ''/'' else c)"

definition from_std :: "char \<Rightarrow> char" where
  "from_std c = (if c = CHR ''+'' then CHR ''-'' else if c = CHR ''/'' then CHR ''_'' else c)"

definition b64_std_encode :: "string \<Rightarrow> string" where
  "b64_std_encode s = map to_std (b64_encode True s)"

definition b64_std_decode :: "string \<Rightarrow> string option" where
  "b64_std_decode s = (if CHR ''-'' \<in> set s \<or> CHR ''_'' \<in> set s then None else b64_decode (map from_std s))"

text \<open>Without padding: the missing padding is added, and its characters are not accepted.\<close>

definition b64_raw_decode :: "string \<Rightarrow> string option" where
  "b64_raw_decode s0 =
     (let s = filter (\<lambda>c. c \<noteq> CHR 0x0A \<and> c \<noteq> CHR 0x0D) s0 in
      if CHR ''='' \<in> set s \<or> length s mod 4 = 1 then None
      else b64_quanta (s @ replicate ((4 - length s mod 4) mod 4) (CHR ''='')))"

section \<open>Blocks\<close>

definition pem_start :: string where "pem_start = ''-----BEGIN ''"
definition pem_end :: string where "pem_end = ''-----END ''"
definition pem_eol :: string where "pem_eol = ''-----''"
definition newline :: char where "newline = CHR 0x0A"

text \<open>\<open>getLine\<close>: the line without the blanks at its end, and what follows it.\<close>

definition trim_blanks :: "string \<Rightarrow> string" where
  "trim_blanks s = rev (dropWhile (\<lambda>c. c = CHR '' '' \<or> c = CHR 0x09) (rev s))"

definition get_line :: "string \<Rightarrow> string \<times> string" where
  "get_line s =
     (let l = takeWhile (\<lambda>c. c \<noteq> newline) s; rest = drop (length l) s in
      if rest = [] then (trim_blanks l, [])
      else (trim_blanks (if l \<noteq> [] \<and> last l = CHR 0x0D then butlast l else l), tl rest))"

text \<open>\<open>bytes.Index\<close>, as the texts before and after the first occurrence.\<close>

fun cut_at :: "string \<Rightarrow> string \<Rightarrow> (string \<times> string) option" where
  "cut_at sep [] = None"
| "cut_at sep (c # s) =
     (if has_prefix (c # s) sep then Some ([], drop (length sep) (c # s))
      else map_option (apfst ((#) c)) (cut_at sep s))"

definition find_block :: "string \<Rightarrow> string option" where
  "find_block s =
     (if has_prefix s pem_start then Some (drop (length pem_start) s)
      else map_option snd (cut_at (newline # pem_start) s))"

lemma get_line_shorter: "s \<noteq> [] \<Longrightarrow> length (snd (get_line s)) < length s"
  by (auto simp: get_line_def Let_def intro: diff_less)

lemma cut_shorter: "cut_at sep s = Some (u, t) \<Longrightarrow> sep \<noteq> [] \<Longrightarrow> length t < length s"
proof (induction s arbitrary: u)
  case (Cons c s)
  show ?case
  proof (cases "has_prefix (c # s) sep")
    case True
    then show ?thesis using Cons.prems by (cases sep) auto
  next
    case False
    then obtain v where "cut_at sep s = Some (v, t)" using Cons.prems(1) by auto
    then show ?thesis using Cons.IH Cons.prems(2) by fastforce
  qed
qed simp

lemma find_block_shorter: "find_block s = Some t \<Longrightarrow> length t < length s"
  by (auto simp: find_block_def has_prefix_iff pem_start_def split: if_splits dest: cut_shorter)

text \<open>The header lines before the data: whether there are any, and what follows them.\<close>

function skip_headers :: "bool \<Rightarrow> string \<Rightarrow> (bool \<times> string) option" where
  "skip_headers seen s =
     (if s = [] then None
      else (let (line, next) = get_line s in
            if CHR '':'' \<in> set line then skip_headers True next else Some (seen, s)))"
  by pat_completeness auto

lemma get_line_smaller: "(l, t) = get_line s \<Longrightarrow> s \<noteq> [] \<Longrightarrow> length t < length s"
  using get_line_shorter [of s] by (cases "get_line s") auto

termination skip_headers
  by (relation "measure (\<lambda>(b, s). length s)") (auto dest: get_line_smaller)

declare skip_headers.simps [simp del]

lemma skip_headers_shorter: "skip_headers seen s = Some (b, t) \<Longrightarrow> length t \<le> length s"
proof (induction seen s rule: skip_headers.induct)
  case (1 seen s)
  show ?case
  proof (cases "s = [] \<or> CHR '':'' \<notin> set (fst (get_line s))")
    case True
    then show ?thesis using "1.prems" by (auto simp: skip_headers.simps [of seen s] split: prod.splits if_splits)
  next
    case False
    then have "skip_headers True (snd (get_line s)) = Some (b, t)"
      using "1.prems" by (simp add: skip_headers.simps [of seen s] split: prod.splits)
    then have "length t \<le> length (snd (get_line s))" using "1.IH" [of "get_line s" "fst (get_line s)" "snd (get_line s)"] False by simp
    then show ?thesis using get_line_shorter [of s] False by simp
  qed
qed

text \<open>The text of the data, and the bytes of a block; a block that is not well formed is skipped.\<close>

definition pem_body :: "bool \<Rightarrow> string \<Rightarrow> (string \<times> string) option" where
  "pem_body headers s =
     (if \<not> headers \<and> has_prefix s pem_end then Some ([], drop (length pem_end) s) else cut_at (newline # pem_end) s)"

definition pem_white :: "char \<Rightarrow> bool" where
  "pem_white c \<longleftrightarrow> c \<in> {CHR '' '', CHR 0x09, CHR 0x0D, CHR 0x0A}"

definition pem_block :: "string \<Rightarrow> bool \<times> string \<Rightarrow> (string \<times> string) option" where
  "pem_block line hs =
     (let type = take (length line - length pem_eol) line in
      case pem_body (fst hs) (snd hs) of
        None \<Rightarrow> None
      | Some (body, trailer) \<Rightarrow>
          if \<not> has_prefix trailer (type @ pem_eol) \<or> fst (get_line (drop (length (type @ pem_eol)) trailer)) \<noteq> [] then None
          else map_option (Pair type) (b64_std_decode (filter (\<lambda>c. \<not> pem_white c) body)))"

definition has_suffix :: "string \<Rightarrow> string \<Rightarrow> bool" where
  "has_suffix s p \<longleftrightarrow> has_prefix (rev s) (rev p)"

function pem_decode :: "string \<Rightarrow> (string \<times> string) option" where
  "pem_decode s =
     (case find_block s of
        None \<Rightarrow> None
      | Some r \<Rightarrow>
          (let (line, rest) = get_line r in
           if \<not> has_suffix line pem_eol then pem_decode rest
           else (case skip_headers False rest of
                   None \<Rightarrow> None
                 | Some hs \<Rightarrow> (case pem_block line hs of None \<Rightarrow> pem_decode (snd hs) | Some b \<Rightarrow> Some b))))"
  by pat_completeness auto

lemma get_line_le: "(l, t) = get_line s \<Longrightarrow> length t \<le> length s"
  using get_line_smaller [of l t s] by (cases "s = []") (auto simp: get_line_def Let_def)

termination pem_decode
proof (relation "measure length")
  fix s r p line rest
  assume "find_block s = Some r" "p = get_line r" "(line, rest) = p"
  then show "(rest, s) \<in> measure length"
    using find_block_shorter [of s r] get_line_le [of line rest r] by simp
next
  fix s r p line rest hs
  assume "find_block s = Some r" "p = get_line r" "(line, rest) = p" "skip_headers False rest = Some hs"
  then show "(snd hs, s) \<in> measure length"
    using find_block_shorter [of s r] get_line_le [of line rest r] skip_headers_shorter [of False rest "fst hs" "snd hs"] by simp
qed simp

declare pem_decode.simps [simp del]

text \<open>\<open>pem.EncodeToMemory\<close> of a block without headers: lines of 64 characters.\<close>

function chunks :: "nat \<Rightarrow> string \<Rightarrow> string list" where
  "chunks n s = (if s = [] then [] else take (Suc n) s # chunks n (drop (Suc n) s))"
  by pat_completeness auto

termination chunks
  by (relation "measure (\<lambda>(n, s). length s)") auto

declare chunks.simps [simp del]

definition pem_encode :: "string \<Rightarrow> string \<Rightarrow> string" where
  "pem_encode type bytes =
     pem_start @ type @ pem_eol @ [newline] @
     concat (map (\<lambda>l. l @ [newline]) (chunks 63 (b64_std_encode bytes))) @
     pem_end @ type @ pem_eol @ [newline]"

section \<open>Decoding what was encoded\<close>

lemma b64_std_char:
  assumes "c \<in> set (b64_encode p s)"
  shows "c \<noteq> CHR ''+'' \<and> c \<noteq> CHR ''/'' \<and> c \<noteq> CHR '':'' \<and> (c = CHR ''='' \<longrightarrow> p)"
proof -
  have g: "b64_char x \<noteq> CHR ''+''" "b64_char x \<noteq> CHR ''/''" "b64_char x \<noteq> CHR '':''" "b64_char x \<noteq> CHR ''=''" if "x < 64" for x
    using b64_val_char [OF that] by (auto simp: b64_val_def)
  from assms show ?thesis
  proof (induction p s rule: b64_encode.induct)
    case (2 p a)
    have "(of_char a :: nat) < 256" by simp
    from 2 g sextets [OF this this this] show ?case by (auto simp: Let_def split: if_splits)
  next
    case (3 p a b)
    have "(of_char a :: nat) < 256" "(of_char b :: nat) < 256" by simp_all
    from 3 g sextets [OF this this(2)] show ?case by (auto simp: Let_def split: if_splits)
  next
    case (4 p a b d s)
    have "(of_char a :: nat) < 256" "(of_char b :: nat) < 256" "(of_char d :: nat) < 256" by simp_all
    from 4 g sextets [OF this] show ?case by (auto simp: Let_def)
  qed simp
qed

lemma b64_std_set: "c \<in> set (b64_std_encode s) \<Longrightarrow> c \<noteq> CHR ''-'' \<and> c \<noteq> CHR ''_'' \<and> c \<noteq> CHR '':'' \<and> \<not> pem_white c"
proof -
  assume "c \<in> set (b64_std_encode s)"
  then obtain d where d: "d \<in> set (b64_encode True s)" "c = to_std d" by (auto simp: b64_std_encode_def)
  have "graphic d" using d(1) by (rule b64_chars_graphic)
  then have "\<not> pem_white d" by (auto simp: pem_white_def graphic_def)
  moreover have "\<not> pem_white (CHR ''+'')" "\<not> pem_white (CHR ''/'')" by (simp_all add: pem_white_def)
  ultimately show ?thesis
    using b64_std_char [OF d(1)] unfolding d(2) by (cases "d = CHR ''-''"; cases "d = CHR ''_''") (simp_all add: to_std_def)
qed

lemma b64_std_decode_encode: "b64_std_decode (b64_std_encode s) = Some s"
proof -
  have "CHR ''-'' \<notin> set (b64_std_encode s)" "CHR ''_'' \<notin> set (b64_std_encode s)" using b64_std_set by blast+
  moreover have "map from_std (b64_std_encode s) = b64_encode True s"
    unfolding b64_std_encode_def map_map
    by (rule map_idI) (auto simp: to_std_def from_std_def dest: b64_std_char)
  ultimately show ?thesis by (simp add: b64_std_decode_def b64_decode_encode)
qed

lemma concat_chunks: "concat (chunks n s) = s"
  by (induction n s rule: chunks.induct) (subst chunks.simps, auto)

lemma chunks_Nil [simp]: "chunks n s = [] \<longleftrightarrow> s = []"
  by (subst chunks.simps) simp

lemma cut_at_end:
  assumes "CHR ''-'' \<notin> set u"
  shows "cut_at (newline # pem_end) (u @ newline # pem_end @ t) = Some (u, t)"
  using assms
proof (induction u)
  case Nil
  then show ?case by (simp add: pem_end_def)
next
  case (Cons c u)
  have "\<not> has_prefix ((c # u) @ newline # pem_end @ t) (newline # pem_end)"
    using Cons.prems by (cases u) (auto simp: pem_end_def newline_def)
  with Cons show ?case by (simp del: has_prefix_Cons)
qed

lemma get_line_plain:
  assumes "newline \<notin> set l" "l \<noteq> []" "last l \<notin> {CHR '' '', CHR 0x09, CHR 0x0D}"
  shows "get_line (l @ newline # r) = (l, r)"
proof -
  have "takeWhile (\<lambda>c. c \<noteq> newline) (l @ newline # r) = l" using assms(1) by (subst takeWhile_append2) auto
  moreover have "trim_blanks l = l" using assms(2,3) by (cases l rule: rev_cases) (auto simp: trim_blanks_def)
  ultimately show ?thesis using assms(3) by (simp add: get_line_def)
qed

lemma trim_blanks_set: "set (trim_blanks l) \<subseteq> set l"
  unfolding trim_blanks_def using set_dropWhileD by fastforce

lemma get_line_set: "set (fst (get_line s)) \<subseteq> set (takeWhile (\<lambda>c. c \<noteq> newline) s)"
proof -
  have "set (trim_blanks (butlast l)) \<subseteq> set l" for l
    using trim_blanks_set [of "butlast l"] by (meson in_set_butlastD subset_eq)
  then show ?thesis using trim_blanks_set by (auto simp: get_line_def Let_def)
qed

text \<open>A name for a block: one line, no colon.\<close>

definition pem_name :: "string \<Rightarrow> bool" where
  "pem_name t \<longleftrightarrow> CHR '':'' \<notin> set t \<and> newline \<notin> set t"

lemma chunk_lines:
  "s \<noteq> [] \<Longrightarrow> \<exists>u. concat (map (\<lambda>l. l @ [newline]) (chunks n s)) = u @ [newline] \<and> set u \<subseteq> insert newline (set s) \<and>
     filter (\<lambda>c. \<not> pem_white c) u = filter (\<lambda>c. \<not> pem_white c) s"
proof (induction n s rule: chunks.induct)
  case (1 n s)
  let ?r = "drop (Suc n) s"
  have white: "pem_white newline" by (simp add: pem_white_def newline_def)
  have c: "chunks n s = take (Suc n) s # chunks n ?r" using "1.prems" by (simp add: chunks.simps [of n s])
  show ?case
  proof (cases "?r = []")
    case True
    then have "take (Suc n) s = s" by simp
    with c True show ?thesis by (auto simp: chunks.simps)
  next
    case False
    then obtain u where u: "concat (map (\<lambda>l. l @ [newline]) (chunks n ?r)) = u @ [newline]" "set u \<subseteq> insert newline (set ?r)"
      "filter (\<lambda>c. \<not> pem_white c) u = filter (\<lambda>c. \<not> pem_white c) ?r"
      using 1 by blast
    have "filter (\<lambda>c. \<not> pem_white c) (take (Suc n) s @ newline # u) = filter (\<lambda>c. \<not> pem_white c) (take (Suc n) s @ ?r)"
      using white by (simp add: u(3) del: append_take_drop_id)
    then show ?thesis
      using u(1,2) c set_take_subset [of "Suc n" s] set_drop_subset [of "Suc n" s]
      by (intro exI [of _ "take (Suc n) s @ newline # u"]) auto
  qed
qed

lemma pem_decode_encode:
  assumes "pem_name t" "bytes \<noteq> []"
  shows "pem_decode (pem_encode t bytes) = Some (t, bytes)"
proof -
  let ?b = "b64_std_encode bytes" and ?tail = "pem_end @ t @ pem_eol @ [newline]"
  have "?b \<noteq> []" using b64_std_decode_encode [of bytes] assms(2) by (auto simp: b64_std_decode_def b64_decode_def)
  then obtain u where u: "concat (map (\<lambda>l. l @ [newline]) (chunks 63 ?b)) = u @ [newline]" "set u \<subseteq> insert newline (set ?b)"
    "filter (\<lambda>c. \<not> pem_white c) u = filter (\<lambda>c. \<not> pem_white c) ?b"
    using chunk_lines by blast
  have b: "filter (\<lambda>c. \<not> pem_white c) ?b = ?b" using b64_std_set by (metis filter_True)
  have dash: "CHR ''-'' \<notin> set u" using u(2) b64_std_set [of "CHR ''-''" bytes] by (auto simp: newline_def)
  have colon: "CHR '':'' \<notin> set u" using u(2) b64_std_set [of "CHR '':''" bytes] by (auto simp: newline_def)
  let ?rest = "u @ newline # ?tail"
  have enc: "pem_encode t bytes = pem_start @ (t @ pem_eol) @ newline # ?rest"
    by (simp add: pem_encode_def u(1))
  have block: "find_block (pem_encode t bytes) = Some ((t @ pem_eol) @ newline # ?rest)"
    unfolding enc find_block_def by simp
  have line: "get_line ((t @ pem_eol) @ newline # ?rest) = (t @ pem_eol, ?rest)"
    by (rule get_line_plain) (use assms(1) in \<open>auto simp: pem_name_def pem_eol_def newline_def\<close>)
  have "set (takeWhile (\<lambda>c. c \<noteq> newline) ?rest) \<subseteq> set u" by (induction u) auto
  then have "set (fst (get_line ?rest)) \<subseteq> set u" using get_line_set [of ?rest] by blast
  then have headers: "skip_headers False ?rest = Some (False, ?rest)"
    using colon by (subst skip_headers.simps) (auto split: prod.split)
  have "pem_body False ?rest = Some (u, t @ pem_eol @ [newline])"
  proof (cases u)
    case Nil
    then show ?thesis using cut_at_end [of "[]"] by (simp add: pem_body_def has_prefix_iff pem_end_def newline_def)
  next
    case (Cons c v)
    then have "\<not> has_prefix ?rest pem_end" using dash by (auto simp: pem_end_def)
    then show ?thesis using cut_at_end [OF dash] by (simp add: pem_body_def)
  qed
  moreover have "has_prefix (t @ pem_eol @ [newline]) (t @ pem_eol)" by (simp add: has_prefix_iff)
  ultimately have "pem_block (t @ pem_eol) (False, ?rest) = Some (t, bytes)"
    by (simp add: pem_block_def u(3) b b64_std_decode_encode get_line_def trim_blanks_def)
  then show ?thesis
    using block line headers by (subst pem_decode.simps) (simp add: has_suffix_def)
qed

section \<open>Base64 without padding\<close>

lemma b64_pad: "b64_encode True s = b64_encode False s @ replicate ((4 - length (b64_encode False s) mod 4) mod 4) (CHR ''='')"
  by (induction False s rule: b64_encode.induct) (auto simp: Let_def numeral_2_eq_2)

lemma b64_unpadded_set: "CHR ''='' \<notin> set (b64_encode False s)"
  using b64_std_char [of "CHR ''=''" False s] by auto

lemma b64_unpadded_length: "length (b64_encode False s) mod 4 \<noteq> 1"
  by (induction False s rule: b64_encode.induct) (auto simp: Let_def)

lemma b64_raw_decode_encode: "b64_raw_decode (b64_encode False s) = Some s"
proof -
  show ?thesis
    using b64_unpadded_set [of s] b64_unpadded_length [of s] b64_quanta_encode [of s]
    by (simp add: b64_raw_decode_def b64_encode_no_breaks Let_def b64_pad [symmetric])
qed

end
