(* ===== verification/BinaryUpgrade.thy ===== *)
theory BinaryUpgrade
  imports Pem UpdateCheck
begin

text \<open>
  Upgrades of the client's program: the keys, signatures and options of \<open>pkg/upgradebin\<close>, the making of
  the signed patches (\<open>makepatch.go\<close>), their way into the database (\<open>alkasir-admin.go\<close>), and the check
  of the client (\<open>client/upgradebin.go\<close>). The signature scheme, the binary diff, the replacement of the
  program, the version numbers and the archive server are other packages, and parameters here.
\<close>

section \<open>Keys and signatures\<close>

definition private_type :: string where "private_type = ''ALKASIR UPGRADES PRIVATE KEY''"
definition public_type :: string where "public_type = ''ALKASIR UPGRADES PUBLIC KEY''"

definition decode_private_key :: "string \<Rightarrow> err + string" where
  "decode_private_key pem =
     (case pem_decode pem of
        None \<Rightarrow> Inl (Plain ''could not decode private key'')
      | Some (type, bytes) \<Rightarrow>
          if type \<noteq> private_type then Inl (Plain ''invalid key type'')
          else if length bytes \<noteq> 64 then Inl (Plain ''invalid length'')
          else Inr bytes)"

definition decode_public_key :: "string \<Rightarrow> err + string" where
  "decode_public_key pem =
     (case pem_decode pem of
        None \<Rightarrow> Inl (Plain ''could not decode public key'')
      | Some (type, bytes) \<Rightarrow>
          if type \<noteq> public_type then Inl (Plain ''invalid key type'')
          else if length bytes \<noteq> 32 then Inl (Plain (''invalid key length: '' @ show_nat (length bytes)))
          else Inr bytes)"

definition decode_keys :: "string \<Rightarrow> string \<Rightarrow> err + string \<times> string" where
  "decode_keys priv pub =
     (case decode_public_key pub of
        Inl e \<Rightarrow> Inl e
      | Inr p \<Rightarrow> (case decode_private_key priv of Inl e \<Rightarrow> Inl e | Inr s \<Rightarrow> Inr (s, p)))"

definition encode_keys :: "string \<Rightarrow> string \<Rightarrow> string \<times> string" where
  "encode_keys priv pub = (pem_encode private_type priv, pem_encode public_type pub)"

definition bad_base64 :: err where "bad_base64 = Plain ''illegal base64 data''"

definition decode_signature :: "string \<Rightarrow> err + string" where
  "decode_signature sig =
     (case b64_raw_decode sig of
        None \<Rightarrow> Inl bad_base64
      | Some data \<Rightarrow> if length data \<noteq> 64 then Inl (Plain ''invalid length'') else Inr data)"

section \<open>The verifier and the options\<close>

text \<open>
  A key of another type than an array of 32 bytes fails the type assertion. \<open>ed_verify\<close> is
  \<open>ed25519.Verify\<close>. The text that joins the version and the checksum is built and not used.
\<close>

datatype public_key = Key32 string | Other_Key

definition new_verifier ::
  "(string \<Rightarrow> string \<Rightarrow> string \<Rightarrow> bool) \<Rightarrow> string \<Rightarrow> string \<Rightarrow> string \<Rightarrow> public_key \<Rightarrow> err option" where
  "new_verifier ed_verify target_version checksum signature key =
     (case key of
        Other_Key \<Rightarrow> Some (Plain ''not a valid public key length'')
      | Key32 k \<Rightarrow>
          if length signature \<noteq> 64 then Some (Plain ''invalid signature length'')
          else (let b = target_version @ [CHR 0x00] @ checksum in
                if \<not> ed_verify k checksum signature then Some (Plain ''failed to verify signature'') else None))"

record update_options =
  uo_verify :: "string \<Rightarrow> string \<Rightarrow> public_key \<Rightarrow> err option"
  uo_checksum :: string
  uo_signature :: string
  uo_public_key :: public_key

definition new_updater_options ::
  "(string \<Rightarrow> string \<Rightarrow> string \<Rightarrow> bool) \<Rightarrow> upgrade_response \<Rightarrow> string \<Rightarrow> err + update_options" where
  "new_updater_options ed_verify m public_pem =
     (case b64_raw_decode (ur_sha256 m) of
        None \<Rightarrow> Inl bad_base64
      | Some digest \<Rightarrow>
          (case decode_signature (ur_signature m) of
             Inl e \<Rightarrow> Inl e
           | Inr sig \<Rightarrow>
               (case decode_public_key public_pem of
                  Inl e \<Rightarrow> Inl e
                | Inr pub \<Rightarrow>
                    Inr \<lparr>uo_verify = new_verifier ed_verify (ur_version m), uo_checksum = digest, uo_signature = sig,
                         uo_public_key = Key32 pub\<rparr>)))"

section \<open>Making patches\<close>

text \<open>\<open>path.Join\<close> and \<open>path.Clean\<close>.\<close>

fun clean_step :: "bool \<Rightarrow> string list \<Rightarrow> string \<Rightarrow> string list" where
  "clean_step rooted out e =
     (if e = [] \<or> e = ''.'' then out
      else if e = ''..'' then
        (if out \<noteq> [] \<and> last out \<noteq> ''..'' then butlast out else if rooted then out else out @ [e])
      else out @ [e])"

definition path_clean :: "string \<Rightarrow> string" where
  "path_clean p =
     (let rooted = has_prefix p ''/''; out = foldl (clean_step rooted) [] (split_char (CHR ''/'') p)
      in if p = [] then ''.'' else if rooted then CHR ''/'' # join ''/'' out else if out = [] then ''.'' else join ''/'' out)"

definition path_join :: "string list \<Rightarrow> string" where
  "path_join es = (let fs = filter (\<lambda>e. e \<noteq> []) es in if fs = [] then [] else path_clean (join ''/'' fs))"

record patch_job =
  pj_artifact :: string
  pj_old_binary :: string
  pj_new_binary :: string
  pj_old_version :: string
  pj_new_version :: string
  pj_private_key :: string
  pj_public_key :: string

definition empty_job :: patch_job where
  "empty_job = \<lparr>pj_artifact = [], pj_old_binary = [], pj_new_binary = [], pj_old_version = [], pj_new_version = [],
     pj_private_key = [], pj_public_key = []\<rparr>"

record patch_result =
  pr_job :: patch_job
  pr_artifact :: string
  pr_old_version :: string
  pr_new_version :: string
  pr_sha256 :: string
  pr_signature :: string
  pr_diff_file :: string

definition empty_patch :: patch_result where
  "empty_patch = \<lparr>pr_job = empty_job, pr_artifact = [], pr_old_version = [], pr_new_version = [], pr_sha256 = [], pr_signature = [], pr_diff_file = []\<rparr>"

text \<open>The files by their names; the tools are the hash, the signature, the diff, and the errors of writing.\<close>

type_synonym files = "string \<rightharpoonup> string"

record patch_tools =
  pt_sha256 :: "string \<Rightarrow> string"
  pt_sign :: "string \<Rightarrow> string \<Rightarrow> string"
  pt_diff :: "string \<Rightarrow> string \<Rightarrow> string option"
  pt_mkdir :: "err option"
  pt_write :: "string \<Rightarrow> err option"

definition json_lines :: "(string \<times> string) list \<Rightarrow> string" where
  "json_lines kvs =
     ''{'' @ [newline] @ join ('','' @ [newline]) (map (\<lambda>(k, v). ''  '' @ json_string k @ '': '' @ json_string v) kvs) @ [newline] @ ''}''"

definition patch_json :: "patch_result \<Rightarrow> string" where
  "patch_json r =
     json_lines [(''artifact'', pr_artifact r), (''oldVersion'', pr_old_version r), (''newVersion'', pr_new_version r),
                 (''sha256sum'', pr_sha256 r), (''ed25519sig'', pr_signature r)]"

definition diffs_file :: "patch_job \<Rightarrow> string" where
  "diffs_file j = path_join [''diffs'', pj_artifact j, pj_old_version j, pj_new_version j]"

text \<open>A file that cannot be read, or not compared, gives the empty result without an error.\<close>

definition create_patch :: "patch_tools \<Rightarrow> patch_job \<Rightarrow> files \<Rightarrow> (err + patch_result) \<times> files" where
  "create_patch t j fs =
     (case fs (pj_new_binary j) of
        None \<Rightarrow> (Inr empty_patch, fs)
      | Some new_data \<Rightarrow>
          (let digest = pt_sha256 t new_data in
           case decode_private_key (pj_private_key j) of
             Inl e \<Rightarrow> (Inl e, fs)
           | Inr key \<Rightarrow>
               (let sig = b64_encode False (pt_sign t key digest) in
                case fs (pj_old_binary j) of
                  None \<Rightarrow> (Inr empty_patch, fs)
                | Some old_data \<Rightarrow>
                    (case pt_diff t old_data new_data of
                       None \<Rightarrow> (Inr empty_patch, fs)
                     | Some diff \<Rightarrow>
                         (case pt_mkdir t of
                            Some e \<Rightarrow> (Inl e, fs)
                          | None \<Rightarrow>
                              (case pt_write t (diffs_file j) of
                                 Some e \<Rightarrow> (Inl e, fs)
                               | None \<Rightarrow>
                                   (let fs1 = fs(diffs_file j \<mapsto> diff);
                                        r = \<lparr>pr_job = j, pr_artifact = pj_artifact j, pr_old_version = pj_old_version j,
                                             pr_new_version = pj_new_version j, pr_sha256 = b64_encode False digest,
                                             pr_signature = sig, pr_diff_file = diffs_file j\<rparr>;
                                        name = diffs_file j @ ''.json''
                                    in case pt_write t name of
                                         Some e \<Rightarrow> (Inl e, fs1)
                                       | None \<Rightarrow> (Inr r, fs1(name \<mapsto> patch_json r)))))))))"

section \<open>The jobs\<close>

text \<open>
  The archive: the versions that \<open>GetVersions\<close> finds, sorted in place, and the program of one. \<open>sort_up\<close>
  and \<open>sort_down\<close> are the results of \<open>sort.Sort\<close>, by the version and in reverse.
\<close>

record artifact =
  ar_artifact_id :: string
  ar_classifier :: string
  ar_version :: string

definition latest :: "(string \<Rightarrow> string \<Rightarrow> bool) \<Rightarrow> artifact list \<Rightarrow> artifact option" where
  "latest newer as =
     fold (\<lambda>a l. case l of None \<Rightarrow> Some a | Some b \<Rightarrow> if newer (ar_version a) (ar_version b) then Some a else Some b) as None"

definition patch_history_max :: nat where "patch_history_max = 50"

fun patch_jobs :: "(artifact \<Rightarrow> err + string) \<Rightarrow> string \<Rightarrow> string \<Rightarrow> artifact \<Rightarrow> string \<Rightarrow> artifact list \<Rightarrow> err option \<times> patch_job list" where
  "patch_jobs get_binary priv pub new new_binary [] = (None, [])"
| "patch_jobs get_binary priv pub new new_binary (v # vs) =
     (case get_binary v of
        Inl e \<Rightarrow> (Some e, [])
      | Inr old \<Rightarrow>
          (let (r, js) = patch_jobs get_binary priv pub new new_binary vs
           in (r, \<lparr>pj_artifact = ar_artifact_id new @ ''-'' @ ar_classifier new, pj_old_binary = old, pj_new_binary = new_binary,
                   pj_old_version = ar_version v, pj_new_version = ar_version new, pj_private_key = priv, pj_public_key = pub\<rparr> # js)))"

definition create_jobs ::
  "(artifact list \<Rightarrow> artifact list) \<Rightarrow> (artifact list \<Rightarrow> artifact list) \<Rightarrow> (artifact \<Rightarrow> err + string) \<Rightarrow> artifact list \<Rightarrow> string \<Rightarrow> string \<Rightarrow>
   err option \<times> patch_job list" where
  "create_jobs sort_up sort_down get_binary found priv pub =
     (let versions = sort_down (sort_up found) in
      if length versions < 2 then (Some (Plain ''too few versions''), [])
      else (let new = hd versions;
                olds = (if patch_history_max + 1 < length versions then take patch_history_max (tl versions) else tl versions)
            in case get_binary new of
                 Inl e \<Rightarrow> (Some e, [])
               | Inr bin \<Rightarrow> patch_jobs get_binary priv pub new bin olds))"

text \<open>
  \<open>RunPatchesCreate\<close>: an error of a query or of a job ends the program. \<open>ord\<close> is the order in which the workers
  take the jobs, and \<open>k\<close> the number they have done when a query fails. The programs of the jobs are removed at the end.
\<close>

fun run_jobs :: "patch_tools \<Rightarrow> patch_job list \<Rightarrow> files \<Rightarrow> patch_result list option \<times> files" where
  "run_jobs t [] fs = (Some [], fs)"
| "run_jobs t (j # js) fs =
     (case create_patch t j fs of
        (Inl e, fs1) \<Rightarrow> (None, fs1)
      | (Inr r, fs1) \<Rightarrow> (let (rs, fs2) = run_jobs t js fs1 in (map_option ((#) r) rs, fs2)))"

definition remove_programs :: "patch_result list \<Rightarrow> files \<Rightarrow> files" where
  "remove_programs rs fs = foldl (\<lambda>fs r. fs(pj_new_binary (pr_job r) := None, pj_old_binary (pr_job r) := None)) fs rs"

definition run_patches_create ::
  "patch_tools \<Rightarrow> (patch_job list \<Rightarrow> patch_job list) \<Rightarrow> nat \<Rightarrow> (err option \<times> patch_job list) list \<Rightarrow> files \<Rightarrow> patch_result list option \<times> files" where
  "run_patches_create t ord k queries fs =
     (let jobs = ord (concat (map snd queries)) in
      if list_ex (\<lambda>q. fst q \<noteq> None) queries then (None, snd (run_jobs t (take k jobs) fs))
      else (case run_jobs t jobs fs of
              (None, fs') \<Rightarrow> (None, fs')
            | (Some rs, fs') \<Rightarrow> (Some rs, remove_programs rs fs')))"

section \<open>Into the database\<close>

text \<open>\<open>insertUpgrades\<close> of the admin tool, from the results in the files; \<open>ord\<close> is the range over the map.\<close>

definition upgrade_of :: "patch_result \<Rightarrow> upgrade_meta" where
  "upgrade_of r = \<lparr>um_artifact = pr_artifact r, um_version = pr_new_version r, um_created = 0, um_sha256 = pr_sha256 r,
     um_signature = pr_signature r\<rparr>"

fun new_upgrades ::
  "string option \<Rightarrow> (upgrade_meta list \<Rightarrow> upgrade_meta) \<Rightarrow> database \<Rightarrow> patch_result list \<Rightarrow> string + upgrade_meta list" where
  "new_upgrades fault pick db [] = Inr []"
| "new_upgrades fault pick db (r # rs) =
     (case get_upgrade_row fault pick \<lparr>gq_artifact = pr_artifact r, gq_version = pr_new_version r, gq_also_unpublished = True\<rparr> db of
        Inl e \<Rightarrow> Inl e
      | Inr um \<Rightarrow>
          (case new_upgrades fault pick db rs of
             Inl e \<Rightarrow> Inl e
           | Inr us \<Rightarrow>
               (case um of
                  Some u \<Rightarrow> if um_artifact u = pr_artifact r \<and> um_version u = pr_new_version r then Inr us else Inr (upgrade_of r # us)
                | None \<Rightarrow> Inr (upgrade_of r # us))))"

definition unique_upgrades :: "((string, upgrade_meta) gomap \<Rightarrow> (string, upgrade_meta) gomap) \<Rightarrow> upgrade_meta list \<Rightarrow> upgrade_meta list" where
  "unique_upgrades ord us =
     map snd (ord (fold (\<lambda>u m. AList.update (um_artifact u @ ''---'' @ um_version u) u m) us []))"

definition admin_insert_upgrades ::
  "string option \<Rightarrow> (upgrade_meta list \<Rightarrow> upgrade_meta) \<Rightarrow> ((string, upgrade_meta) gomap \<Rightarrow> (string, upgrade_meta) gomap) \<Rightarrow> time \<Rightarrow>
   patch_result list \<Rightarrow> database \<Rightarrow> string option \<times> database" where
  "admin_insert_upgrades fault pick ord now rs db =
     (case new_upgrades fault pick db rs of
        Inl e \<Rightarrow> (Some e, db)
      | Inr us \<Rightarrow> insert_upgrades now (map (Pair fault) (unique_upgrades ord us)) db)"

section \<open>The check of the client\<close>

definition set_upgrade_artifact :: "string \<Rightarrow> string \<Rightarrow> string \<Rightarrow> string" where
  "set_upgrade_artifact goos goarch name = name @ ''-'' @ goos @ ''-'' @ goarch"

definition binary_upgrades_enabled :: "(string \<Rightarrow> 'v option) \<Rightarrow> bool \<Rightarrow> string \<Rightarrow> bool" where
  "binary_upgrades_enabled parse_version flag version \<longleftrightarrow> flag \<and> version \<noteq> [] \<and> parse_version version \<noteq> None"

text \<open>
  \<open>bu_url\<close> is the base of the patches when it parses, as what comes before the path and the path;
  \<open>bu_get\<close> is the data at a URL, and \<open>bu_apply\<close> the replacement of the program.
\<close>

record binary_env =
  bu_artifact :: string
  bu_version :: string
  bu_public_key :: string
  bu_through :: "err option"
  bu_long_through :: "err option"
  bu_url :: "(string \<times> string) option"
  bu_get :: "string \<Rightarrow> err + string"
  bu_apply :: "string \<Rightarrow> update_options \<Rightarrow> err option"

definition patch_url :: "string \<times> string \<Rightarrow> string list \<Rightarrow> string" where
  "patch_url base es = fst base @ path_join (snd base # es)"

text \<open>The error, and the options and data that were applied.\<close>

definition upgrade_binary_check ::
  "(string \<Rightarrow> 'v option) \<Rightarrow> ('v \<Rightarrow> 'v \<Rightarrow> bool) \<Rightarrow> ('v \<Rightarrow> string) \<Rightarrow> (string \<Rightarrow> string \<Rightarrow> string \<Rightarrow> bool) \<Rightarrow>
   (upgrade_request, upgrade_response, 'w) endpoint \<Rightarrow> binary_env \<Rightarrow> client_api \<times> 'w \<Rightarrow>
   (err option \<times> (update_options \<times> string) option) \<times> 'w" where
  "upgrade_binary_check parse_version newer show_version ed_verify post e aw =
     (let (a, w) = aw in
      case new_rest_client (bu_through e) a of
        Inl x \<Rightarrow> ((Some x, None), w)
      | Inr c \<Rightarrow>
          (let (r, w') = check_binary_upgrade parse_version newer show_version post
                           \<lparr>uq_artifact = bu_artifact e, uq_from_version = bu_version e\<rparr> w
           in (case r of
                 Inl x \<Rightarrow> (Some x, None)
               | Inr None \<Rightarrow> (None, None)
               | Inr (Some res) \<Rightarrow>
                   (case bu_long_through e of
                      Some x \<Rightarrow> (Some x, None)
                    | None \<Rightarrow>
                        (case new_updater_options ed_verify res (bu_public_key e) of
                           Inl x \<Rightarrow> (Some x, None)
                         | Inr opts \<Rightarrow>
                             (case bu_url e of
                                None \<Rightarrow> (Some (Plain ''parse error''), None)
                              | Some base \<Rightarrow>
                                  (case bu_get e (patch_url base [bu_artifact e, bu_version e, ur_version res]) of
                                     Inl x \<Rightarrow> (Some x, None)
                                   | Inr data \<Rightarrow>
                                       (case bu_apply e data opts of
                                          Some x \<Rightarrow> (None, None)
                                        | None \<Rightarrow> (None, Some (opts, data))))))), w')))"

section \<open>Lemmas\<close>

lemma pem_names: "pem_name private_type" "pem_name public_type"
  by (simp_all add: pem_name_def private_type_def public_type_def newline_def)

lemma decode_encoded_keys:
  assumes "length priv = 64" "length pub = 32"
  shows "decode_private_key (pem_encode private_type priv) = Inr priv" "decode_public_key (pem_encode public_type pub) = Inr pub"
proof -
  have "priv \<noteq> []" "pub \<noteq> []" using assms by auto
  then show "decode_private_key (pem_encode private_type priv) = Inr priv" "decode_public_key (pem_encode public_type pub) = Inr pub"
    using assms pem_names by (simp_all add: decode_private_key_def decode_public_key_def pem_decode_encode)
qed

text \<open>A patch that is not the empty one.\<close>

lemma create_patch_result:
  assumes "create_patch t j fs = (Inr r, fs')" "r \<noteq> empty_patch"
  obtains new_data key where "fs (pj_new_binary j) = Some new_data" "decode_private_key (pj_private_key j) = Inr key"
    "pr_sha256 r = b64_encode False (pt_sha256 t new_data)" "pr_signature r = b64_encode False (pt_sign t key (pt_sha256 t new_data))"
    "pr_artifact r = pj_artifact j" "pr_old_version r = pj_old_version j" "pr_new_version r = pj_new_version j"
  using assms by (auto simp: create_patch_def Let_def split: option.splits sum.splits)

text \<open>The options made from a result, whatever version the reply names.\<close>

lemma options_of_patch:
  assumes "decode_public_key pub_pem = Inr pub" "length (pt_sign t key digest) = 64"
    and "ur_sha256 m = b64_encode False digest" "ur_signature m = b64_encode False (pt_sign t key digest)"
  shows "new_updater_options ed_verify m pub_pem =
    Inr \<lparr>uo_verify = new_verifier ed_verify (ur_version m), uo_checksum = digest, uo_signature = pt_sign t key digest,
         uo_public_key = Key32 pub\<rparr>"
  using assms by (simp add: new_updater_options_def decode_signature_def b64_raw_decode_encode)

lemma patch_jobs_made:
  "patch_jobs get_binary priv pub new bin vs = (None, js) \<Longrightarrow>
   map pj_old_version js = map ar_version vs \<and> (\<forall>j \<in> set js. pj_new_version j = ar_version new \<and> pj_new_binary j = bin)"
  by (induction vs arbitrary: js) (auto split: sum.splits prod.splits)

lemma missing_binary_is_silent:
  "fs (pj_new_binary j) = None \<Longrightarrow> run_jobs t [j] fs = (Some [empty_patch], fs)"
  by (simp add: create_patch_def)

section \<open>Properties\<close>

text \<open>
  The keys survive. Encoding a private and a public key to the text of the files and decoding it gives
  the pair back, and neither text is accepted as the other.
\<close>

lemma keys_survive:
  assumes "length priv = 64" "length pub = 32"
  shows "case encode_keys priv pub of (priv_pem, pub_pem) \<Rightarrow>
    decode_keys priv_pem pub_pem = Inr (priv, pub) \<and>
    decode_private_key pub_pem = Inl (Plain ''invalid key type'') \<and> decode_public_key priv_pem = Inl (Plain ''invalid key type'')"
proof -
  have "priv \<noteq> []" "pub \<noteq> []" using assms by auto
  then have "pem_decode (pem_encode private_type priv) = Some (private_type, priv)" "pem_decode (pem_encode public_type pub) = Some (public_type, pub)"
    by (simp_all add: pem_decode_encode pem_names)
  moreover have "private_type \<noteq> public_type" by (simp add: private_type_def public_type_def)
  ultimately show ?thesis
    using decode_encoded_keys [OF assms]
    by (simp add: encode_keys_def decode_keys_def) (simp add: decode_private_key_def decode_public_key_def)
qed


text \<open>
  The signature does not bind the version. The options made from a reply do not depend on the version
  that the reply names: a program that was signed for one version verifies in the same way under any other, so that
  an old release can be offered as a newer one.
\<close>

lemma version_not_signed:
  assumes "new_updater_options ed_verify m pub_pem = Inr opts"
  shows "\<exists>opts'. new_updater_options ed_verify (m\<lparr>ur_version := v\<rparr>) pub_pem = Inr opts' \<and>
    uo_checksum opts' = uo_checksum opts \<and> uo_signature opts' = uo_signature opts \<and> uo_public_key opts' = uo_public_key opts \<and>
    uo_verify opts' checksum signature key = uo_verify opts checksum signature key"
  using assms by (auto simp: new_updater_options_def new_verifier_def Let_def split: option.splits sum.splits public_key.split)

text \<open>
  A query gives at most fifty jobs: each patches an older version, in the order of the versions after the first, to the
  first one, whose program is fetched once.
\<close>

lemma jobs_to_latest:
  assumes "create_jobs sort_up sort_down get_binary found priv pub = (None, js)"
  shows "length js \<le> patch_history_max \<and> map pj_old_version js = map ar_version (take patch_history_max (tl (sort_down (sort_up found)))) \<and>
    (\<forall>j \<in> set js. pj_new_version j = ar_version (hd (sort_down (sort_up found))) \<and> get_binary (hd (sort_down (sort_up found))) = Inr (pj_new_binary j))"
proof -
  let ?vs = "sort_down (sort_up found)"
  let ?olds = "if patch_history_max + 1 < length ?vs then take patch_history_max (tl ?vs) else tl ?vs"
  have olds: "?olds = take patch_history_max (tl ?vs)" by simp
  obtain bin where bin: "get_binary (hd ?vs) = Inr bin" "patch_jobs get_binary priv pub (hd ?vs) bin ?olds = (None, js)"
    using assms by (auto simp: create_jobs_def Let_def split: if_splits sum.splits)
  have made: "map pj_old_version js = map ar_version (take patch_history_max (tl ?vs))"
    "\<forall>j \<in> set js. pj_new_version j = ar_version (hd ?vs) \<and> pj_new_binary j = bin"
    using patch_jobs_made [OF bin(2)] unfolding olds by blast+
  then have "length js \<le> patch_history_max" by (metis length_map length_take min.cobounded2)
  with made bin(1) show ?thesis by simp
qed

section \<open>Examples\<close>

definition demo_priv :: string where "demo_priv = replicate 64 (CHR ''k'')"
definition demo_pub :: string where "demo_pub = replicate 32 (CHR ''p'')"
definition demo_sig :: string where "demo_sig = replicate 64 (CHR ''s'')"

lemma demo_lengths: "length demo_priv = 64" "length demo_pub = 32" "length demo_sig = 64"
  by (simp_all add: demo_priv_def demo_pub_def demo_sig_def)

lemma keys_survive_witness:
  "decode_keys (fst (encode_keys demo_priv demo_pub)) (snd (encode_keys demo_priv demo_pub)) = Inr (demo_priv, demo_pub)"
  using keys_survive [OF demo_lengths(1,2)] by (simp split: prod.splits)

definition demo_tools :: patch_tools where
  "demo_tools = \<lparr>pt_sha256 = (\<lambda>s. s), pt_sign = (\<lambda>k m. demo_sig), pt_diff = (\<lambda>a b. Some b), pt_mkdir = None, pt_write = (\<lambda>_. None)\<rparr>"

definition demo_job :: patch_job where
  "demo_job = \<lparr>pj_artifact = ''a'', pj_old_binary = ''old'', pj_new_binary = ''new'', pj_old_version = ''1'', pj_new_version = ''2'',
     pj_private_key = pem_encode private_type demo_priv, pj_public_key = pem_encode public_type demo_pub\<rparr>"

definition demo_binary_env :: binary_env where
  "demo_binary_env = \<lparr>bu_artifact = ''a'', bu_version = ''1'', bu_public_key = pem_encode public_type demo_pub, bu_through = None,
     bu_long_through = None, bu_url = Some ([], []), bu_get = (\<lambda>_. Inr ''N''), bu_apply = (\<lambda>_ _. None)\<rparr>"

lemma demo_patch:
  "\<exists>r fs'. create_patch demo_tools demo_job [''new'' \<mapsto> ''N'', ''old'' \<mapsto> ''O''] = (Inr r, fs') \<and> r \<noteq> empty_patch"
  using decode_encoded_keys(1) [OF demo_lengths(1,2)]
  by (simp add: create_patch_def demo_tools_def demo_job_def empty_patch_def Let_def)


lemma version_not_signed_witness:
  "\<exists>m opts opts'. new_updater_options (\<lambda>k m s. s = demo_sig) m (pem_encode public_type demo_pub) = Inr opts \<and>
     new_updater_options (\<lambda>k m s. s = demo_sig) (m\<lparr>ur_version := ''9''\<rparr>) (pem_encode public_type demo_pub) = Inr opts' \<and>
     uo_verify opts' [] demo_sig (Key32 demo_pub) = uo_verify opts [] demo_sig (Key32 demo_pub)"
proof -
  let ?m = "\<lparr>ur_artifact = ''a'', ur_version = ''1'', ur_created = 0, ur_sha256 = b64_encode False [], ur_signature = b64_encode False demo_sig\<rparr>"
  obtain opts where "new_updater_options (\<lambda>k m s. s = demo_sig) ?m (pem_encode public_type demo_pub) = Inr opts"
    using options_of_patch [OF decode_encoded_keys(2) [OF demo_lengths(1,2)], of demo_tools "[]" "[]" ?m] demo_lengths(3)
    by (simp add: demo_tools_def)
  with version_not_signed [OF this, of "''9''" "[]" demo_sig "Key32 demo_pub"] show ?thesis by blast
qed

lemma jobs_to_latest_witness:
  "map pj_old_version (snd (create_jobs id id (\<lambda>a. Inr (ar_version a))
     [\<lparr>ar_artifact_id = ''a'', ar_classifier = ''c'', ar_version = ''2''\<rparr>, \<lparr>ar_artifact_id = ''a'', ar_classifier = ''c'', ar_version = ''1''\<rparr>] [] [])) = [''1'']"
proof -
  let ?f = "[\<lparr>ar_artifact_id = ''a'', ar_classifier = ''c'', ar_version = ''2''\<rparr>, \<lparr>ar_artifact_id = ''a'', ar_classifier = ''c'', ar_version = ''1''\<rparr>]"
  obtain js where "create_jobs id id (\<lambda>a. Inr (ar_version a)) ?f [] [] = (None, js)" by (simp add: create_jobs_def patch_history_max_def)
  with jobs_to_latest [OF this] show ?thesis by (simp add: patch_history_max_def)
qed

end
