(* ===== verification/Jwt.thy ===== *)
theory Jwt
  imports ExportApi ApiErrors
begin

text \<open>
  The tokens of the export interface: the middleware of \<open>pkg/shared/jwtmw/auth_jwt.go\<close>, with the checks of
  \<open>jwt.Parse\<close>, and the routes of \<open>pkg/central/export-api.go\<close> behind it. The encoding and the signature
  of a token are a parameter. A request reads the clock once. A number among the claims is the integer that
  the code converts it to.
\<close>

section \<open>Tokens\<close>

datatype claim = Text_Claim string | Num_Claim int | Other_Claim

type_synonym claims = "string \<rightharpoonup> claim"

text \<open>
  The registered methods, \<open>SignedString\<close> for a method and a key, the method and claims that a text decodes to, and
  the check of its signature.
\<close>

record jwt_package =
  jw_methods :: "string \<Rightarrow> bool"
  jw_sign :: "string \<Rightarrow> string \<Rightarrow> claims \<Rightarrow> string option"
  jw_read :: "string \<Rightarrow> (string \<times> claims) option"
  jw_verify :: "string \<Rightarrow> string \<Rightarrow> string \<Rightarrow> bool"

text \<open>Numbers pass through a \<open>float64\<close>.\<close>

definition exact_claims :: "claims \<Rightarrow> bool" where
  "exact_claims c \<longleftrightarrow> (\<forall>k n. c k = Some (Num_Claim n) \<longrightarrow> \<bar>n\<bar> \<le> 2 ^ 53)"

definition jwt_laws :: "jwt_package \<Rightarrow> bool" where
  "jwt_laws pkg \<longleftrightarrow>
     (\<forall>alg key c tok. exact_claims c \<longrightarrow> jw_sign pkg alg key c = Some tok \<longrightarrow>
        jw_methods pkg alg \<and> jw_read pkg tok = Some (alg, c) \<and> jw_verify pkg alg key tok)"

definition second :: time where "second = 10 ^ 9"

lemma second_pos [simp]: "0 < second" "second \<noteq> 0"
  by (simp_all add: second_def)

definition unix :: "time \<Rightarrow> int" where
  "unix t = t div second"

definition num_claim :: "claims \<Rightarrow> string \<Rightarrow> int option" where
  "num_claim c k = (case c k of Some (Num_Claim n) \<Rightarrow> Some n | _ \<Rightarrow> None)"

text \<open>\<open>jwt.Parse\<close> with the function that gives the key for the expected method only.\<close>

definition jwt_parse :: "jwt_package \<Rightarrow> time \<Rightarrow> string \<Rightarrow> string \<Rightarrow> string \<Rightarrow> claims option" where
  "jwt_parse pkg now expected key tok =
     (case jw_read pkg tok of
        None \<Rightarrow> None
      | Some (alg, c) \<Rightarrow>
          if \<not> jw_methods pkg alg \<or> alg \<noteq> expected then None
          else (let live = (case num_claim c ''exp'' of Some e \<Rightarrow> unix now \<le> e | None \<Rightarrow> True);
                    begun = (case num_claim c ''nbf'' of Some n \<Rightarrow> n \<le> unix now | None \<Rightarrow> True)
                in if live \<and> begun \<and> jw_verify pkg alg key tok then Some c else None))"

section \<open>The middleware\<close>

record 'q jwt_middleware =
  mw_realm :: string
  mw_algorithm :: string
  mw_key :: "string option"
  mw_timeout :: time
  mw_max_refresh :: time
  mw_authenticator :: "(string \<Rightarrow> string \<Rightarrow> bool) option"
  mw_authorizator :: "(string \<Rightarrow> 'q \<Rightarrow> bool) option"
  mw_payload :: "(string \<Rightarrow> claims) option"

definition default_timeout :: time where "default_timeout = 3600 * second"

text \<open>\<open>MiddlewareFunc\<close> fills in what is optional; \<open>None\<close> ends the program.\<close>

definition middleware_setup :: "'q jwt_middleware \<Rightarrow> 'q jwt_middleware option" where
  "middleware_setup mw =
     (if mw_realm mw = [] then None
      else (let mw1 = (if mw_algorithm mw = [] then mw\<lparr>mw_algorithm := ''HS256''\<rparr> else mw) in
            if mw_key mw1 = None then None
            else (let mw2 = (if mw_timeout mw1 = 0 then mw1\<lparr>mw_timeout := default_timeout\<rparr> else mw1) in
                  if mw_authenticator mw2 = None then None
                  else Some (if mw_authorizator mw2 = None then mw2\<lparr>mw_authorizator := Some (\<lambda>_ _. True)\<rparr> else mw2))))"

text \<open>A refusal has the header \<open>WWW-Authenticate\<close> or not; \<open>Not_Routed\<close> is the router's answer.\<close>

datatype 'a jwt_reply =
    Served 'a
  | Token_Reply string
  | Refused "string option" err
  | Not_Routed int
  | Panics

definition unauthorized :: "'q jwt_middleware \<Rightarrow> 'a jwt_reply" where
  "unauthorized mw = Refused (Some (''JWT realm='' @ mw_realm mw)) (new_unauthorized [])"

definition parse_token :: "jwt_package \<Rightarrow> 'q jwt_middleware \<Rightarrow> time \<Rightarrow> string \<Rightarrow> claims option" where
  "parse_token pkg mw now header =
     (let (scheme, rest) = split_at (CHR '' '') header in
      if header = [] then None
      else if rest = [] \<or> scheme \<noteq> ''Bearer'' then None
      else (case mw_key mw of None \<Rightarrow> None | Some key \<Rightarrow> jwt_parse pkg now (mw_algorithm mw) key (tl rest)))"

text \<open>The handler gets the user and the claims.\<close>

definition middleware_impl ::
  "jwt_package \<Rightarrow> 'q jwt_middleware \<Rightarrow> time \<Rightarrow> string \<Rightarrow> 'q \<Rightarrow> (string \<Rightarrow> claims \<Rightarrow> 'a jwt_reply) \<Rightarrow> 'a jwt_reply" where
  "middleware_impl pkg mw now header q handler =
     (case parse_token pkg mw now header of
        None \<Rightarrow> unauthorized mw
      | Some c \<Rightarrow>
          (case c ''id'' of
             Some (Text_Claim user) \<Rightarrow>
               (case mw_authorizator mw of
                  None \<Rightarrow> Panics
                | Some allowed \<Rightarrow> if \<not> allowed user q then unauthorized mw else handler user c)
           | _ \<Rightarrow> Panics))"

definition new_token_reply :: "jwt_package \<Rightarrow> 'q jwt_middleware \<Rightarrow> claims \<Rightarrow> 'a jwt_reply" where
  "new_token_reply pkg mw c =
     (if \<not> jw_methods pkg (mw_algorithm mw) then Panics
      else (case mw_key mw of
              None \<Rightarrow> unauthorized mw
            | Some key \<Rightarrow> (case jw_sign pkg (mw_algorithm mw) key c of None \<Rightarrow> unauthorized mw | Some tok \<Rightarrow> Token_Reply tok)))"

definition required_login :: "string \<Rightarrow> err" where
  "required_login field = new_invalid ''login'' [] [Some (Field_Err (new_field_required field))]"

text \<open>The body is what \<open>DecodeJsonPayload\<close> gives, the text of its error or the user and the password.\<close>

definition login_handler ::
  "jwt_package \<Rightarrow> 'q jwt_middleware \<Rightarrow> time \<Rightarrow> string + string \<times> string \<Rightarrow> 'a jwt_reply" where
  "login_handler pkg mw now body =
     (case body of
        Inl e \<Rightarrow> Refused None (new_bad_request e)
      | Inr (user, password) \<Rightarrow>
          if user = [] then Refused None (required_login ''username'')
          else if password = [] then Refused None (required_login ''password'')
          else (case mw_authenticator mw of
                  None \<Rightarrow> Panics
                | Some authenticate \<Rightarrow>
                    if \<not> authenticate user password then unauthorized mw
                    else (let c = (case mw_payload mw of None \<Rightarrow> Map.empty | Some payload \<Rightarrow> payload user);
                              c1 = c(''id'' \<mapsto> Text_Claim user, ''exp'' \<mapsto> Num_Claim (unix (now + mw_timeout mw)));
                              c2 = (if mw_max_refresh mw \<noteq> 0 then c1(''orig_iat'' \<mapsto> Num_Claim (unix now)) else c1)
                          in new_token_reply pkg mw c2)))"

definition refresh_handler :: "jwt_package \<Rightarrow> 'q jwt_middleware \<Rightarrow> time \<Rightarrow> string \<Rightarrow> 'a jwt_reply" where
  "refresh_handler pkg mw now header =
     (case parse_token pkg mw now header of
        None \<Rightarrow> unauthorized mw
      | Some c \<Rightarrow>
          (case num_claim c ''orig_iat'' of
             None \<Rightarrow> Panics
           | Some issued \<Rightarrow>
               if issued < unix (now - mw_max_refresh mw) then unauthorized mw
               else new_token_reply pkg mw
                      (c(''id'' \<mapsto> (case c ''id'' of Some v \<Rightarrow> v | None \<Rightarrow> Other_Claim),
                         ''exp'' \<mapsto> Num_Claim (unix (now + mw_timeout mw)), ''orig_iat'' \<mapsto> Num_Claim issued))))"

section \<open>The export interface\<close>

record export_request =
  er_method :: string
  er_path :: string
  er_authorization :: string
  er_body :: "string + string \<times> string"
  er_id_max :: string

text \<open>The pages; \<open>None\<close> is a panic of the handler.\<close>

datatype export_body =
    Hosts_Page "export_host page option"
  | Samples_Page "sample page option"
  | Simple_Page "simple_sample page option"

definition export_middleware ::
  "(string \<Rightarrow> string \<Rightarrow> string) \<Rightarrow> string option \<Rightarrow> string \<Rightarrow> database \<Rightarrow> unit jwt_middleware" where
  "export_middleware kdf fault key db =
     \<lparr>mw_realm = ''jwt auth'', mw_algorithm = [], mw_key = Some key, mw_timeout = default_timeout, mw_max_refresh = default_timeout * 24,
      mw_authenticator = Some (\<lambda>user password. export_login kdf fault user password db),
      mw_authorizator = None, mw_payload = None\<rparr>"

definition export_routes ::
  "jwt_package \<Rightarrow> unit jwt_middleware \<Rightarrow> string option \<Rightarrow> time \<Rightarrow> export_request \<Rightarrow> database \<Rightarrow> export_body jwt_reply" where
  "export_routes pkg mw fault now r db =
     (if er_path r = ''/login'' then (if er_method r = ''POST'' then login_handler pkg mw now (er_body r) else Not_Routed 405)
      else if er_path r \<notin> {''/v1/blocked/'', ''/v1/samples/'', ''/v1/simple_samples/''} then Not_Routed 404
      else if er_method r \<noteq> ''GET'' then Not_Routed 405
      else if er_path r = ''/v1/blocked/'' then Served (Hosts_Page (blocked_hosts_export fault db (er_id_max r)))
      else if er_path r = ''/v1/samples/'' then Served (Samples_Page (samples_export fault db (er_id_max r)))
      else Served (Simple_Page (simple_samples_export fault db (er_id_max r))))"

definition export_api ::
  "jwt_package \<Rightarrow> (string \<Rightarrow> string \<Rightarrow> string) \<Rightarrow> string option \<Rightarrow> string \<Rightarrow> time \<Rightarrow> export_request \<Rightarrow> database \<Rightarrow> export_body jwt_reply option"
  where
  "export_api pkg kdf fault key now r db =
     map_option (\<lambda>mw.
         if er_path r \<noteq> ''/login''
         then middleware_impl pkg mw now (er_authorization r) () (\<lambda>_ _. export_routes pkg mw fault now r db)
         else export_routes pkg mw fault now r db)
       (middleware_setup (export_middleware kdf fault key db))"

definition bearer_header :: "string \<Rightarrow> string" where
  "bearer_header tok = ''Bearer '' @ tok"

definition login_request :: "string \<Rightarrow> string \<Rightarrow> export_request" where
  "login_request user password =
     \<lparr>er_method = ''POST'', er_path = ''/login'', er_authorization = [], er_body = Inr (user, password), er_id_max = []\<rparr>"

definition samples_request :: "string \<Rightarrow> string \<Rightarrow> export_request" where
  "samples_request tok p =
     \<lparr>er_method = ''GET'', er_path = ''/v1/samples/'', er_authorization = bearer_header tok, er_body = Inl [], er_id_max = p\<rparr>"

text \<open>The claims of a login without a payload, for a validity of \<open>s\<close> seconds.\<close>

definition login_claims :: "string \<Rightarrow> time \<Rightarrow> int \<Rightarrow> claims" where
  "login_claims user start s =
     [''id'' \<mapsto> Text_Claim user, ''exp'' \<mapsto> Num_Claim (unix start + s), ''orig_iat'' \<mapsto> Num_Claim (unix start)]"

definition export_refusal :: "export_body jwt_reply" where
  "export_refusal = Refused (Some ''JWT realm=jwt auth'') (new_unauthorized [])"

section \<open>Lemmas\<close>

lemma parse_token_bearer:
  "parse_token pkg mw now (bearer_header tok) =
     (case mw_key mw of None \<Rightarrow> None | Some key \<Rightarrow> jwt_parse pkg now (mw_algorithm mw) key tok)"
  by (cases "mw_key mw") (simp_all add: parse_token_def split_at_def bearer_header_def)

lemma jwt_parse_read:
  assumes "jw_read pkg tok = Some (alg, c)"
  shows "jwt_parse pkg now expected key tok = Some c' \<longleftrightarrow>
    c' = c \<and> jw_methods pkg alg \<and> alg = expected \<and> jw_verify pkg alg key tok \<and>
    (case num_claim c ''exp'' of Some e \<Rightarrow> unix now \<le> e | None \<Rightarrow> True) \<and>
    (case num_claim c ''nbf'' of Some n \<Rightarrow> n \<le> unix now | None \<Rightarrow> True)"
  using assms by (auto simp: jwt_parse_def Let_def)

lemma new_token_read:
  assumes "jwt_laws pkg" "exact_claims c" "new_token_reply pkg mw c = Token_Reply tok"
  obtains key where "mw_key mw = Some key" "jw_methods pkg (mw_algorithm mw)" "jw_read pkg tok = Some (mw_algorithm mw, c)"
    "jw_verify pkg (mw_algorithm mw) key tok"
  using assms by (auto simp: new_token_reply_def jwt_laws_def unauthorized_def split: if_splits option.splits)

lemma unix_seconds: "unix (t + s * second) = unix t + s" "unix (t - s * second) = unix t - s"
proof -
  show "unix (t + s * second) = unix t + s" by (simp add: unix_def second_def)
  show "unix (t - s * second) = unix t - s" using div_mult_self1 [of second t "- s"] by (simp add: unix_def second_def)
qed

lemma unix_nonneg: "0 \<le> t \<Longrightarrow> 0 \<le> unix t"
  by (simp add: unix_def second_def pos_imp_zdiv_nonneg_iff)

lemma exact_upd: "exact_claims c \<Longrightarrow> (\<And>n. v = Num_Claim n \<Longrightarrow> \<bar>n\<bar> \<le> 2 ^ 53) \<Longrightarrow> exact_claims (c(k \<mapsto> v))"
  by (auto simp: exact_claims_def)

lemma exact_empty [simp]: "exact_claims Map.empty"
  by (simp add: exact_claims_def)

text \<open>The tokens that come from a login, directly or by refreshing.\<close>

inductive issued :: "jwt_package \<Rightarrow> 'q jwt_middleware \<Rightarrow> string \<Rightarrow> string \<Rightarrow> time \<Rightarrow> string \<Rightarrow> bool"
  for pkg mw user password start where
  at_login: "(login_handler pkg mw start (Inr (user, password)) :: unit jwt_reply) = Token_Reply tok \<Longrightarrow>
    issued pkg mw user password start tok"
| at_refresh: "issued pkg mw user password start tok \<Longrightarrow> start \<le> now \<Longrightarrow>
    (refresh_handler pkg mw now (bearer_header tok) :: unit jwt_reply) = Token_Reply tok' \<Longrightarrow>
    issued pkg mw user password start tok'"

lemma issued_authenticated:
  assumes "issued pkg mw user password start tok"
  shows "\<exists>f. mw_authenticator mw = Some f \<and> f user password"
  using assms
  by induction (auto simp: login_handler_def unauthorized_def split: if_splits option.splits)

definition issued_claims :: "string \<Rightarrow> time \<Rightarrow> int \<Rightarrow> claims \<Rightarrow> bool" where
  "issued_claims user start limit c \<longleftrightarrow>
     exact_claims c \<and> c ''id'' = Some (Text_Claim user) \<and> c ''orig_iat'' = Some (Num_Claim (unix start)) \<and>
     (\<exists>e. c ''exp'' = Some (Num_Claim e) \<and> e \<le> limit)"

lemma issued_read:
  assumes "issued pkg mw user password start tok" "jwt_laws pkg"
    and "mw_max_refresh mw = m * second" "mw_timeout mw = s * second" "0 < m" "0 \<le> s" "0 \<le> start" "unix start + m + s \<le> 2 ^ 53"
    and "pred_option (\<lambda>f. exact_claims (f user)) (mw_payload mw)"
  shows "\<exists>c. jw_read pkg tok = Some (mw_algorithm mw, c) \<and> issued_claims user start (unix start + m + s) c"
  using assms(1)
proof induction
  case (at_login tok)
  let ?c = "((case mw_payload mw of None \<Rightarrow> Map.empty | Some payload \<Rightarrow> payload user)
     (''id'' \<mapsto> Text_Claim user, ''exp'' \<mapsto> Num_Claim (unix start + s), ''orig_iat'' \<mapsto> Num_Claim (unix start)))"
  have "(new_token_reply pkg mw ?c :: unit jwt_reply) = Token_Reply tok"
    using at_login assms(3-5)
    by (auto simp: login_handler_def unauthorized_def unix_seconds Let_def split: if_splits option.splits)
  moreover have "exact_claims ?c"
    using assms(5-9) unix_nonneg [of start] by (intro exact_upd) (auto split: option.split)
  ultimately show ?case
    using new_token_read [OF assms(2)] assms(5) by (fastforce simp: issued_claims_def)
next
  case (at_refresh tok now tok')
  then obtain c where c: "jw_read pkg tok = Some (mw_algorithm mw, c)" "issued_claims user start (unix start + m + s) c" by blast
  let ?c = "c(''id'' \<mapsto> Text_Claim user, ''exp'' \<mapsto> Num_Claim (unix now + s), ''orig_iat'' \<mapsto> Num_Claim (unix start))"
  have parsed: "parse_token pkg mw now (bearer_header tok) = None \<or> parse_token pkg mw now (bearer_header tok) = Some c"
    using jwt_parse_read [OF c(1)] by (cases "parse_token pkg mw now (bearer_header tok)") (auto simp: parse_token_bearer split: option.splits)
  then have r: "(new_token_reply pkg mw ?c :: unit jwt_reply) = Token_Reply tok'" "unix now - m \<le> unix start"
    using at_refresh.hyps(3) c(2) assms(3,4)
    by (auto simp: refresh_handler_def unauthorized_def issued_claims_def num_claim_def unix_seconds split: if_splits)
  moreover have "0 \<le> unix now" using at_refresh.hyps(2) assms(7) by (intro unix_nonneg) simp
  ultimately have "exact_claims ?c"
    using c(2) assms(5-8) unix_nonneg [of start] by (intro exact_upd) (auto simp: issued_claims_def)
  then show ?case
    using new_token_read [OF assms(2) _ r(1)] r(2) by (fastforce simp: issued_claims_def)
qed

section \<open>Properties\<close>



text \<open>A token without the time of the login, which the middleware writes when no refresh span is set, ends in a panic.\<close>

lemma refresh_without_span_panics:
  assumes "parse_token pkg mw now header = Some c" "num_claim c ''orig_iat'' = None"
  shows "refresh_handler pkg mw now header = Panics"
  using assms by (simp add: refresh_handler_def)

section \<open>Examples\<close>

text \<open>A library that signs the claims of a user who logs in at 0 and refreshes after half an hour.\<close>

definition demo_claims :: "int \<Rightarrow> claims" where
  "demo_claims n = [''id'' \<mapsto> Text_Claim ''u'', ''exp'' \<mapsto> Num_Claim (n + 3600), ''orig_iat'' \<mapsto> Num_Claim 0]"

definition demo_jwt :: jwt_package where
  "demo_jwt =
     \<lparr>jw_methods = (\<lambda>a. a = ''HS256''),
      jw_sign = (\<lambda>alg key c.
        if alg \<noteq> ''HS256'' then None
        else if c = demo_claims 0 then Some ''a'' else if c = demo_claims 1800 then Some ''b'' else None),
      jw_read = (\<lambda>tok. if tok = ''a'' then Some (''HS256'', demo_claims 0)
                       else if tok = ''b'' then Some (''HS256'', demo_claims 1800) else None),
      jw_verify = (\<lambda>alg key tok. tok = ''a'' \<or> tok = ''b'')\<rparr>"

definition demo_mw :: "unit jwt_middleware" where
  "demo_mw =
     \<lparr>mw_realm = ''r'', mw_algorithm = ''HS256'', mw_key = Some ''k'', mw_timeout = 3600 * second, mw_max_refresh = 86400 * second,
      mw_authenticator = Some (\<lambda>u p. u = ''u'' \<and> p = ''pw''), mw_authorizator = Some (\<lambda>_ _. True), mw_payload = None\<rparr>"

lemma demo_laws: "jwt_laws demo_jwt"
  by (auto simp: jwt_laws_def demo_jwt_def split: if_splits)

lemma unix_of_seconds [simp]: "unix (n * second) = n" "unix 0 = 0"
  by (simp_all add: unix_def)

lemma demo_login: "(login_handler demo_jwt demo_mw 0 (Inr (''u'', ''pw'')) :: unit jwt_reply) = Token_Reply ''a''"
  using unix_of_seconds(1) [of 3600]
  by (simp add: login_handler_def demo_mw_def new_token_reply_def demo_jwt_def demo_claims_def)

lemma demo_parse:
  "parse_token demo_jwt demo_mw (t * second) (bearer_header ''a'') = (if t \<le> 3600 then Some (demo_claims 0) else None)"
  "parse_token demo_jwt demo_mw (t * second) (bearer_header ''b'') = (if t \<le> 5400 then Some (demo_claims 1800) else None)"
  by (simp_all add: parse_token_bearer jwt_parse_def demo_mw_def demo_jwt_def num_claim_def demo_claims_def)

lemma demo_refresh: "(refresh_handler demo_jwt demo_mw (1800 * second) (bearer_header ''a'') :: unit jwt_reply) = Token_Reply ''b''"
proof -
  have u: "unix (1800 * second - 86400 * second) = - 84600" "unix (1800 * second + 3600 * second) = 5400"
    using unix_seconds(2) [of "1800 * second" 86400] unix_seconds(1) [of "1800 * second" 3600] by simp_all
  have c: "(demo_claims 0)(''id'' \<mapsto> Text_Claim ''u'', ''exp'' \<mapsto> Num_Claim 5400, ''orig_iat'' \<mapsto> Num_Claim 0) = demo_claims 1800"
    by (simp add: demo_claims_def fun_upd_twist)
  have n: "demo_claims 1800 \<noteq> demo_claims 0" by (simp add: demo_claims_def fun_eq_iff)
  show ?thesis
    using c u n demo_parse(1) [of 1800]
    by (simp add: refresh_handler_def num_claim_def demo_claims_def [of 0] demo_mw_def new_token_reply_def demo_jwt_def)
qed



end
