(* ===== verification/GeoCodes.thy ===== *)
theory GeoCodes
  imports CentralDb CentralApi "HOL-Library.List_Lexorder" "HOL-Library.Char_ord"
begin

text \<open>
  The country codes of \<open>pkg/shared/geo_codes.go\<close> with their names and continents, the list that the
  program makes of them when it starts, and the codes that the central server accepts (\<open>central.go\<close>).
\<close>

section \<open>The tables\<close>

definition special_names :: "(string \<times> string) list" where
  "special_names =
    [(''A1'', ''Anonymous Proxy''), (''A2'', ''Satellite Provider''), (''AP'', ''Asia/Pacific Region''),
     (''EU'', ''Europe''), (''O1'', ''Other Country'')]"

definition legacy_names :: "(string \<times> string) list" where
  "legacy_names =
    [(''AN'', ''Netherlands Antilles (legacy)''), (''CS'', ''Serbia and Montenegro (legacy)''),
     (''TP'', ''Timor-Leste (legacy)'')]"

definition names_a_l :: "(string \<times> string) list" where
  "names_a_l =
    [(''AD'', ''Andorra''), (''AE'', ''United Arab Emirates''), (''AF'', ''Afghanistan''),
     (''AG'', ''Antigua and Barbuda''), (''AI'', ''Anguilla''), (''AL'', ''Albania''), (''AM'', ''Armenia''),
     (''AO'', ''Angola''), (''AQ'', ''Antarctica''), (''AR'', ''Argentina''), (''AS'', ''American Samoa''),
     (''AT'', ''Austria''), (''AU'', ''Australia''), (''AW'', ''Aruba''), (''AX'', ''Aland Islands''),
     (''AZ'', ''Azerbaijan''), (''BA'', ''Bosnia and Herzegovina''), (''BB'', ''Barbados''), (''BD'', ''Bangladesh''),
     (''BE'', ''Belgium''), (''BF'', ''Burkina Faso''), (''BG'', ''Bulgaria''), (''BH'', ''Bahrain''),
     (''BI'', ''Burundi''), (''BJ'', ''Benin''), (''BL'', ''Saint Bartelemey''), (''BM'', ''Bermuda''),
     (''BN'', ''Brunei Darussalam''), (''BO'', ''Bolivia''), (''BQ'', ''Bonaire, Saint Eustatius and Saba''),
     (''BR'', ''Brazil''), (''BS'', ''Bahamas''), (''BT'', ''Bhutan''), (''BV'', ''Bouvet Island''),
     (''BW'', ''Botswana''), (''BY'', ''Belarus''), (''BZ'', ''Belize''), (''CA'', ''Canada''),
     (''CC'', ''Cocos (Keeling) Islands''), (''CD'', ''Congo, The Democratic Republic of the''),
     (''CF'', ''Central African Republic''), (''CG'', ''Congo''), (''CH'', ''Switzerland''), (''CI'', ''Cote d'Ivoire''),
     (''CK'', ''Cook Islands''), (''CL'', ''Chile''), (''CM'', ''Cameroon''), (''CN'', ''China''), (''CO'', ''Colombia''),
     (''CR'', ''Costa Rica''), (''CU'', ''Cuba''), (''CV'', ''Cape Verde''), (''CW'', ''Curacao''),
     (''CX'', ''Christmas Island''), (''CY'', ''Cyprus''), (''CZ'', ''Czech Republic''), (''DE'', ''Germany''),
     (''DJ'', ''Djibouti''), (''DK'', ''Denmark''), (''DM'', ''Dominica''), (''DO'', ''Dominican Republic''),
     (''DZ'', ''Algeria''), (''EC'', ''Ecuador''), (''EE'', ''Estonia''), (''EG'', ''Egypt''),
     (''EH'', ''Western Sahara''), (''ER'', ''Eritrea''), (''ES'', ''Spain''), (''ET'', ''Ethiopia''),
     (''FI'', ''Finland''), (''FJ'', ''Fiji''), (''FK'', ''Falkland Islands (Malvinas)''),
     (''FM'', ''Micronesia, Federated States of''), (''FO'', ''Faroe Islands''), (''FR'', ''France''),
     (''GA'', ''Gabon''), (''GB'', ''United Kingdom''), (''GD'', ''Grenada''), (''GE'', ''Georgia''),
     (''GF'', ''French Guiana''), (''GG'', ''Guernsey''), (''GH'', ''Ghana''), (''GI'', ''Gibraltar''),
     (''GL'', ''Greenland''), (''GM'', ''Gambia''), (''GN'', ''Guinea''), (''GP'', ''Guadeloupe''),
     (''GQ'', ''Equatorial Guinea''), (''GR'', ''Greece''), (''GS'', ''South Georgia and the South Sandwich Islands''),
     (''GT'', ''Guatemala''), (''GU'', ''Guam''), (''GW'', ''Guinea-Bissau''), (''GY'', ''Guyana''),
     (''HK'', ''Hong Kong''), (''HM'', ''Heard Island and McDonald Islands''), (''HN'', ''Honduras''),
     (''HR'', ''Croatia''), (''HT'', ''Haiti''), (''HU'', ''Hungary''), (''ID'', ''Indonesia''), (''IE'', ''Ireland''),
     (''IL'', ''Israel''), (''IM'', ''Isle of Man''), (''IN'', ''India''), (''IO'', ''British Indian Ocean Territory''),
     (''IQ'', ''Iraq''), (''IR'', ''Iran, Islamic Republic of''), (''IS'', ''Iceland''), (''IT'', ''Italy''),
     (''JE'', ''Jersey''), (''JM'', ''Jamaica''), (''JO'', ''Jordan''), (''JP'', ''Japan''), (''KE'', ''Kenya''),
     (''KG'', ''Kyrgyzstan''), (''KH'', ''Cambodia''), (''KI'', ''Kiribati''), (''KM'', ''Comoros''),
     (''KN'', ''Saint Kitts and Nevis''), (''KP'', ''Korea, Democratic People's Republic of''),
     (''KR'', ''Korea, Republic of''), (''KW'', ''Kuwait''), (''KY'', ''Cayman Islands''), (''KZ'', ''Kazakhstan'')]"

definition names_m_z :: "(string \<times> string) list" where
  "names_m_z =
    [(''LA'', ''Lao People's Democratic Republic''), (''LB'', ''Lebanon''), (''LC'', ''Saint Lucia''),
     (''LI'', ''Liechtenstein''), (''LK'', ''Sri Lanka''), (''LR'', ''Liberia''), (''LS'', ''Lesotho''),
     (''LT'', ''Lithuania''), (''LU'', ''Luxembourg''), (''LV'', ''Latvia''), (''LY'', ''Libyan Arab Jamahiriya''),
     (''MA'', ''Morocco''), (''MC'', ''Monaco''), (''MD'', ''Moldova, Republic of''), (''ME'', ''Montenegro''),
     (''MF'', ''Saint Martin''), (''MG'', ''Madagascar''), (''MH'', ''Marshall Islands''), (''MK'', ''Macedonia''),
     (''ML'', ''Mali''), (''MM'', ''Myanmar''), (''MN'', ''Mongolia''), (''MO'', ''Macao''),
     (''MP'', ''Northern Mariana Islands''), (''MQ'', ''Martinique''), (''MR'', ''Mauritania''), (''MS'', ''Montserrat''),
     (''MT'', ''Malta''), (''MU'', ''Mauritius''), (''MV'', ''Maldives''), (''MW'', ''Malawi''), (''MX'', ''Mexico''),
     (''MY'', ''Malaysia''), (''MZ'', ''Mozambique''), (''NA'', ''Namibia''), (''NC'', ''New Caledonia''),
     (''NE'', ''Niger''), (''NF'', ''Norfolk Island''), (''NG'', ''Nigeria''), (''NI'', ''Nicaragua''),
     (''NL'', ''Netherlands''), (''NO'', ''Norway''), (''NP'', ''Nepal''), (''NR'', ''Nauru''), (''NU'', ''Niue''),
     (''NZ'', ''New Zealand''), (''OM'', ''Oman''), (''PA'', ''Panama''), (''PE'', ''Peru''),
     (''PF'', ''French Polynesia''), (''PG'', ''Papua New Guinea''), (''PH'', ''Philippines''), (''PK'', ''Pakistan''),
     (''PL'', ''Poland''), (''PM'', ''Saint Pierre and Miquelon''), (''PN'', ''Pitcairn''), (''PR'', ''Puerto Rico''),
     (''PS'', ''Palestinian Territory''), (''PT'', ''Portugal''), (''PW'', ''Palau''), (''PY'', ''Paraguay''),
     (''QA'', ''Qatar''), (''RE'', ''Reunion''), (''RO'', ''Romania''), (''RS'', ''Serbia''),
     (''RU'', ''Russian Federation''), (''RW'', ''Rwanda''), (''SA'', ''Saudi Arabia''), (''SB'', ''Solomon Islands''),
     (''SC'', ''Seychelles''), (''SD'', ''Sudan''), (''SE'', ''Sweden''), (''SG'', ''Singapore''),
     (''SH'', ''Saint Helena''), (''SI'', ''Slovenia''), (''SJ'', ''Svalbard and Jan Mayen''), (''SK'', ''Slovakia''),
     (''SL'', ''Sierra Leone''), (''SM'', ''San Marino''), (''SN'', ''Senegal''), (''SO'', ''Somalia''),
     (''SR'', ''Suriname''), (''SS'', ''South Sudan''), (''ST'', ''Sao Tome and Principe''), (''SV'', ''El Salvador''),
     (''SX'', ''Sint Maarten''), (''SY'', ''Syrian Arab Republic''), (''SZ'', ''Swaziland''),
     (''TC'', ''Turks and Caicos Islands''), (''TD'', ''Chad''), (''TF'', ''French Southern Territories''),
     (''TG'', ''Togo''), (''TH'', ''Thailand''), (''TJ'', ''Tajikistan''), (''TK'', ''Tokelau''),
     (''TL'', ''Timor-Leste''), (''TM'', ''Turkmenistan''), (''TN'', ''Tunisia''), (''TO'', ''Tonga''),
     (''TR'', ''Turkey''), (''TT'', ''Trinidad and Tobago''), (''TV'', ''Tuvalu''), (''TW'', ''Taiwan''),
     (''TZ'', ''Tanzania, United Republic of''), (''UA'', ''Ukraine''), (''UG'', ''Uganda''),
     (''UM'', ''United States Minor Outlying Islands''), (''US'', ''United States''), (''UY'', ''Uruguay''),
     (''UZ'', ''Uzbekistan''), (''VA'', ''Holy See (Vatican City State)''),
     (''VC'', ''Saint Vincent and the Grenadines''), (''VE'', ''Venezuela''), (''VG'', ''Virgin Islands, British''),
     (''VI'', ''Virgin Islands, U.S.''), (''VN'', ''Vietnam''), (''VU'', ''Vanuatu''), (''WF'', ''Wallis and Futuna''),
     (''WS'', ''Samoa''), (''YE'', ''Yemen''), (''YT'', ''Mayotte''), (''ZA'', ''South Africa''), (''ZM'', ''Zambia''),
     (''ZW'', ''Zimbabwe'')]"

definition continents_a_k :: "(string \<times> string) list" where
  "continents_a_k =
    [(''A1'', ''--''), (''A2'', ''--''), (''AD'', ''EU''), (''AE'', ''AS''), (''AF'', ''AS''), (''AG'', ''NA''),
     (''AI'', ''NA''), (''AL'', ''EU''), (''AM'', ''AS''), (''AN'', ''NA''), (''AO'', ''AF''), (''AP'', ''AS''),
     (''AQ'', ''AN''), (''AR'', ''SA''), (''AS'', ''OC''), (''AT'', ''EU''), (''AU'', ''OC''), (''AW'', ''NA''),
     (''AX'', ''EU''), (''AZ'', ''AS''), (''BA'', ''EU''), (''BB'', ''NA''), (''BD'', ''AS''), (''BE'', ''EU''),
     (''BF'', ''AF''), (''BG'', ''EU''), (''BH'', ''AS''), (''BI'', ''AF''), (''BJ'', ''AF''), (''BL'', ''NA''),
     (''BM'', ''NA''), (''BN'', ''AS''), (''BO'', ''SA''), (''BQ'', ''AS''), (''BR'', ''SA''), (''BS'', ''NA''),
     (''BT'', ''AS''), (''BV'', ''AN''), (''BW'', ''AF''), (''BY'', ''EU''), (''BZ'', ''NA''), (''CA'', ''NA''),
     (''CC'', ''AS''), (''CD'', ''AF''), (''CF'', ''AF''), (''CG'', ''AF''), (''CH'', ''EU''), (''CI'', ''AF''),
     (''CK'', ''OC''), (''CL'', ''SA''), (''CM'', ''AF''), (''CN'', ''AS''), (''CO'', ''SA''), (''CR'', ''NA''),
     (''CU'', ''NA''), (''CV'', ''AF''), (''CW'', ''SA''), (''CX'', ''AS''), (''CY'', ''AS''), (''CZ'', ''EU''),
     (''DE'', ''EU''), (''DJ'', ''AF''), (''DK'', ''EU''), (''DM'', ''NA''), (''DO'', ''NA''), (''DZ'', ''AF''),
     (''EC'', ''SA''), (''EE'', ''EU''), (''EG'', ''AF''), (''EH'', ''AF''), (''ER'', ''AF''), (''ES'', ''EU''),
     (''ET'', ''AF''), (''EU'', ''EU''), (''FI'', ''EU''), (''FJ'', ''OC''), (''FK'', ''SA''), (''FM'', ''OC''),
     (''FO'', ''EU''), (''FR'', ''EU''), (''FX'', ''EU''), (''GA'', ''AF''), (''GB'', ''EU''), (''GD'', ''NA''),
     (''GE'', ''AS''), (''GF'', ''SA''), (''GG'', ''EU''), (''GH'', ''AF''), (''GI'', ''EU''), (''GL'', ''NA''),
     (''GM'', ''AF''), (''GN'', ''AF''), (''GP'', ''NA''), (''GQ'', ''AF''), (''GR'', ''EU''), (''GS'', ''AN''),
     (''GT'', ''NA''), (''GU'', ''OC''), (''GW'', ''AF''), (''GY'', ''SA''), (''HK'', ''AS''), (''HM'', ''AN''),
     (''HN'', ''NA''), (''HR'', ''EU''), (''HT'', ''NA''), (''HU'', ''EU''), (''ID'', ''AS''), (''IE'', ''EU''),
     (''IL'', ''AS''), (''IM'', ''EU''), (''IN'', ''AS''), (''IO'', ''AS''), (''IQ'', ''AS''), (''IR'', ''AS''),
     (''IS'', ''EU''), (''IT'', ''EU''), (''JE'', ''EU''), (''JM'', ''NA''), (''JO'', ''AS''), (''JP'', ''AS''),
     (''KE'', ''AF''), (''KG'', ''AS''), (''KH'', ''AS''), (''KI'', ''OC''), (''KM'', ''AF''), (''KN'', ''NA''),
     (''KP'', ''AS''), (''KR'', ''AS'')]"

definition continents_k_z :: "(string \<times> string) list" where
  "continents_k_z =
    [(''KW'', ''AS''), (''KY'', ''NA''), (''KZ'', ''AS''), (''LA'', ''AS''), (''LB'', ''AS''), (''LC'', ''NA''),
     (''LI'', ''EU''), (''LK'', ''AS''), (''LR'', ''AF''), (''LS'', ''AF''), (''LT'', ''EU''), (''LU'', ''EU''),
     (''LV'', ''EU''), (''LY'', ''AF''), (''MA'', ''AF''), (''MC'', ''EU''), (''MD'', ''EU''), (''ME'', ''EU''),
     (''MF'', ''NA''), (''MG'', ''AF''), (''MH'', ''OC''), (''MK'', ''EU''), (''ML'', ''AF''), (''MM'', ''AS''),
     (''MN'', ''AS''), (''MO'', ''AS''), (''MP'', ''OC''), (''MQ'', ''NA''), (''MR'', ''AF''), (''MS'', ''NA''),
     (''MT'', ''EU''), (''MU'', ''AF''), (''MV'', ''AS''), (''MW'', ''AF''), (''MX'', ''NA''), (''MY'', ''AS''),
     (''MZ'', ''AF''), (''NA'', ''AF''), (''NC'', ''OC''), (''NE'', ''AF''), (''NF'', ''OC''), (''NG'', ''AF''),
     (''NI'', ''NA''), (''NL'', ''EU''), (''NO'', ''EU''), (''NP'', ''AS''), (''NR'', ''OC''), (''NU'', ''OC''),
     (''NZ'', ''OC''), (''O1'', ''--''), (''OM'', ''AS''), (''PA'', ''NA''), (''PE'', ''SA''), (''PF'', ''OC''),
     (''PG'', ''OC''), (''PH'', ''AS''), (''PK'', ''AS''), (''PL'', ''EU''), (''PM'', ''NA''), (''PN'', ''OC''),
     (''PR'', ''NA''), (''PS'', ''AS''), (''PT'', ''EU''), (''PW'', ''OC''), (''PY'', ''SA''), (''QA'', ''AS''),
     (''RE'', ''AF''), (''RO'', ''EU''), (''RS'', ''EU''), (''RU'', ''EU''), (''RW'', ''AF''), (''SA'', ''AS''),
     (''SB'', ''OC''), (''SC'', ''AF''), (''SD'', ''AF''), (''SE'', ''EU''), (''SG'', ''AS''), (''SH'', ''AF''),
     (''SI'', ''EU''), (''SJ'', ''EU''), (''SK'', ''EU''), (''SL'', ''AF''), (''SM'', ''EU''), (''SN'', ''AF''),
     (''SO'', ''AF''), (''SR'', ''SA''), (''SS'', ''AF''), (''ST'', ''AF''), (''SV'', ''NA''), (''SX'', ''NA''),
     (''SY'', ''AS''), (''SZ'', ''AF''), (''TC'', ''NA''), (''TD'', ''AF''), (''TF'', ''AN''), (''TG'', ''AF''),
     (''TH'', ''AS''), (''TJ'', ''AS''), (''TK'', ''OC''), (''TL'', ''AS''), (''TM'', ''AS''), (''TN'', ''AF''),
     (''TO'', ''OC''), (''TR'', ''EU''), (''TT'', ''NA''), (''TV'', ''OC''), (''TW'', ''AS''), (''TZ'', ''AF''),
     (''UA'', ''EU''), (''UG'', ''AF''), (''UM'', ''OC''), (''US'', ''NA''), (''UY'', ''SA''), (''UZ'', ''AS''),
     (''VA'', ''EU''), (''VC'', ''NA''), (''VE'', ''SA''), (''VG'', ''NA''), (''VI'', ''NA''), (''VN'', ''AS''),
     (''VU'', ''OC''), (''WF'', ''OC''), (''WS'', ''OC''), (''YE'', ''AS''), (''YT'', ''AF''), (''ZA'', ''AF''),
     (''ZM'', ''AF''), (''ZW'', ''AF'')]"

definition country_code_names :: "(string, string) gomap" where
  "country_code_names = special_names @ legacy_names @ names_a_l @ names_m_z"

definition continents :: "(string, string) gomap" where
  "continents = continents_a_k @ continents_k_z"

text \<open>The keys of the map in any order, sorted.\<close>

definition shared_country_codes :: "(string list \<Rightarrow> string list) \<Rightarrow> string list" where
  "shared_country_codes ord = sort (ord (map fst country_code_names))"

definition code_shape :: "string \<Rightarrow> bool" where
  "code_shape cc \<longleftrightarrow> length cc = 2 \<and> list_all (\<lambda>c. is_digit c \<or> CHR ''A'' \<le> c \<and> c \<le> CHR ''Z'') cc"

text \<open>\<open>Init\<close> of the central server: the map of the codes it accepts.\<close>

definition valid_countries :: "(string list \<Rightarrow> string list) \<Rightarrow> (string, bool) gomap" where
  "valid_countries ord = fold (\<lambda>cc m. AList.update cc True m) (shared_country_codes ord) []"

section \<open>Lemmas\<close>

text \<open>Both the table and the type of the database sort to the same list.\<close>

definition sorted_codes :: "string list" where
  "sorted_codes =
    [''A1'', ''A2'', ''AD'', ''AE'', ''AF'', ''AG'', ''AI'', ''AL'', ''AM'', ''AN'', ''AO'', ''AP'', ''AQ'', ''AR'',
     ''AS'', ''AT'', ''AU'', ''AW'', ''AX'', ''AZ'', ''BA'', ''BB'', ''BD'', ''BE'', ''BF'', ''BG'', ''BH'', ''BI'',
     ''BJ'', ''BL'', ''BM'', ''BN'', ''BO'', ''BQ'', ''BR'', ''BS'', ''BT'', ''BV'', ''BW'', ''BY'', ''BZ'', ''CA'',
     ''CC'', ''CD'', ''CF'', ''CG'', ''CH'', ''CI'', ''CK'', ''CL'', ''CM'', ''CN'', ''CO'', ''CR'', ''CS'', ''CU'',
     ''CV'', ''CW'', ''CX'', ''CY'', ''CZ'', ''DE'', ''DJ'', ''DK'', ''DM'', ''DO'', ''DZ'', ''EC'', ''EE'', ''EG'',
     ''EH'', ''ER'', ''ES'', ''ET'', ''EU'', ''FI'', ''FJ'', ''FK'', ''FM'', ''FO'', ''FR'', ''GA'', ''GB'', ''GD'',
     ''GE'', ''GF'', ''GG'', ''GH'', ''GI'', ''GL'', ''GM'', ''GN'', ''GP'', ''GQ'', ''GR'', ''GS'', ''GT'', ''GU'',
     ''GW'', ''GY'', ''HK'', ''HM'', ''HN'', ''HR'', ''HT'', ''HU'', ''ID'', ''IE'', ''IL'', ''IM'', ''IN'', ''IO'',
     ''IQ'', ''IR'', ''IS'', ''IT'', ''JE'', ''JM'', ''JO'', ''JP'', ''KE'', ''KG'', ''KH'', ''KI'', ''KM'', ''KN'',
     ''KP'', ''KR'', ''KW'', ''KY'', ''KZ'', ''LA'', ''LB'', ''LC'', ''LI'', ''LK'', ''LR'', ''LS'', ''LT'', ''LU'',
     ''LV'', ''LY'', ''MA'', ''MC'', ''MD'', ''ME'', ''MF'', ''MG'', ''MH'', ''MK'', ''ML'', ''MM'', ''MN'', ''MO'',
     ''MP'', ''MQ'', ''MR'', ''MS'', ''MT'', ''MU'', ''MV'', ''MW'', ''MX'', ''MY'', ''MZ'', ''NA'', ''NC'', ''NE'',
     ''NF'', ''NG'', ''NI'', ''NL'', ''NO'', ''NP'', ''NR'', ''NU'', ''NZ'', ''O1'', ''OM'', ''PA'', ''PE'', ''PF'',
     ''PG'', ''PH'', ''PK'', ''PL'', ''PM'', ''PN'', ''PR'', ''PS'', ''PT'', ''PW'', ''PY'', ''QA'', ''RE'', ''RO'',
     ''RS'', ''RU'', ''RW'', ''SA'', ''SB'', ''SC'', ''SD'', ''SE'', ''SG'', ''SH'', ''SI'', ''SJ'', ''SK'', ''SL'',
     ''SM'', ''SN'', ''SO'', ''SR'', ''SS'', ''ST'', ''SV'', ''SX'', ''SY'', ''SZ'', ''TC'', ''TD'', ''TF'', ''TG'',
     ''TH'', ''TJ'', ''TK'', ''TL'', ''TM'', ''TN'', ''TO'', ''TP'', ''TR'', ''TT'', ''TV'', ''TW'', ''TZ'', ''UA'',
     ''UG'', ''UM'', ''US'', ''UY'', ''UZ'', ''VA'', ''VC'', ''VE'', ''VG'', ''VI'', ''VN'', ''VU'', ''WF'', ''WS'',
     ''YE'', ''YT'', ''ZA'', ''ZM'', ''ZW'']"

lemma codes_of_table: "sort (map fst country_code_names) = sorted_codes"
  by code_simp

lemma codes_of_database: "sort country_codes = sorted_codes"
  by code_simp

lemma sorted_codes_strict: "sorted_wrt (<) sorted_codes"
proof -
  have "successively (<) sorted_codes" by code_simp
  then show ?thesis by (simp add: successively_conv_sorted_wrt)
qed

lemma sorted_codes_shape: "list_all code_shape sorted_codes"
  by code_simp

lemma not_codes: "''__'' \<notin> set sorted_codes" "''FX'' \<notin> set sorted_codes"
  by code_simp+

lemma continent_codes: "filter (\<lambda>cc. cc \<noteq> ''CS'' \<and> cc \<noteq> ''TP'') sorted_codes = filter (\<lambda>cc. cc \<noteq> ''FX'') (map fst continents)"
  by code_simp

lemma continents_cover:
  assumes "cc \<in> set sorted_codes"
  shows "map_of continents cc = None \<longleftrightarrow> cc = ''CS'' \<or> cc = ''TP''"
proof -
  have "''FX'' \<notin> set sorted_codes" by (rule not_codes)
  then have "cc \<in> set (map fst continents) \<longleftrightarrow> cc \<noteq> ''CS'' \<and> cc \<noteq> ''TP''"
    using arg_cong [OF continent_codes, of "\<lambda>xs. cc \<in> set xs"] assms by auto
  then show ?thesis unfolding map_of_eq_None_iff by auto
qed

lemma shared_codes_sorted:
  assumes "mset (ord (map fst country_code_names)) = mset (map fst country_code_names)"
  shows "shared_country_codes ord = sorted_codes"
  unfolding shared_country_codes_def codes_of_table [symmetric]
  using assms by (intro properties_for_sort) simp_all

lemma valid_countries_keys: "set (map fst (valid_countries ord)) = set (shared_country_codes ord)"
proof -
  have "fst ` set (fold (\<lambda>cc m. AList.update cc True m) ccs m) = set ccs \<union> fst ` set m" for ccs and m :: "(string, bool) gomap"
    by (induction ccs arbitrary: m) (auto simp: dom_update)
  then show ?thesis by (simp add: valid_countries_def)
qed

section \<open>Properties\<close>

text \<open>
  C32. The country codes have the type of the database. The list is sorted without duplicates and every code is
  two capital letters or digits; the central server accepts a country exactly when the database can store it, so
  that no accepted suggestion fails on its country.
\<close>

theorem country_codes_typed:
  assumes "mset (ord (map fst country_code_names)) = mset (map fst country_code_names)"
  shows "sorted_wrt (<) (shared_country_codes ord) \<and> list_all code_shape (shared_country_codes ord) \<and>
    (\<forall>cc. valid_country_code (map fst (valid_countries ord)) cc \<longleftrightarrow> check_enum ''country_code'' country_codes cc = None)"
proof -
  have codes: "shared_country_codes ord = sorted_codes" using assms by (rule shared_codes_sorted)
  have "set (map fst (valid_countries ord)) = set country_codes"
    using valid_countries_keys [of ord] codes codes_of_database set_sort [of "\<lambda>x. x" country_codes] by simp
  moreover have "''__'' \<notin> set country_codes"
    using not_codes(1) set_sort [of "\<lambda>x. x" country_codes] by (simp add: codes_of_database)
  ultimately have "valid_country_code (map fst (valid_countries ord)) cc \<longleftrightarrow> check_enum ''country_code'' country_codes cc = None" for cc
    by (auto simp: valid_country_code_def check_enum_def)
  then show ?thesis
    using codes sorted_codes_strict sorted_codes_shape by simp
qed

lemma country_codes_typed_witness:
  "valid_country_code (map fst (valid_countries rev)) ''ZW'' \<longleftrightarrow> check_enum ''country_code'' country_codes ''ZW'' = None"
  using country_codes_typed [of rev] by simp

end
