(* ===== verification/Socks.thy ===== *)
theory Socks
  imports NetAddr ApiErrors ServiceServer ExportApi
begin

text \<open>
  The SOCKS side of the shadowsocks transport: the greeting and the request (\<open>shadowsocks.go\<close>), the
  servers with their fail counts, and the service that runs in its own process (\<open>service.go\<close>). A connection is the
  pieces that its reads return, in whatever sizes they arrive, and the error after them. Ciphers are those of another
  package; a panic and \<open>log.Fatal\<close> are \<open>Crashed\<close>.
\<close>

section \<open>Addresses as text\<close>

text \<open>\<open>net.JoinHostPort\<close> and \<open>IP.String\<close>.\<close>

definition join_host_port :: "string \<Rightarrow> string \<Rightarrow> string" where
  "join_host_port host port =
     (if CHR '':'' \<in> set host \<or> CHR ''%'' \<in> set host then ''['' @ host @ '']:'' @ port else host @ '':'' @ port)"

fun hex_number :: "nat \<Rightarrow> string" where
  "hex_number n = (if n < 16 then [hex_digit n] else hex_number (n div 16) @ [hex_digit (n mod 16)])"

declare hex_number.simps [simp del]

fun ip_groups :: "byte list \<Rightarrow> nat list" where
  "ip_groups (a # b # bs) = (unat a * 256 + unat b) # ip_groups bs"
| "ip_groups _ = []"

text \<open>The start and the length of the first longest run of zeros.\<close>

definition zero_run :: "nat list \<Rightarrow> nat \<times> nat" where
  "zero_run gs =
     foldl (\<lambda>(s, n) i. let m = length (takeWhile (\<lambda>g. g = 0) (drop i gs)) in if n < m then (i, m) else (s, n)) (0, 0) [0..<length gs]"

definition ip_string :: "ip \<Rightarrow> string" where
  "ip_string ip =
     (if ip = [] then ''<nil>''
      else (case to4 ip of
              Some p \<Rightarrow> dotted (unat (p ! 0)) (unat (p ! 1)) (unat (p ! 2)) (unat (p ! 3))
            | None \<Rightarrow>
                if length ip \<noteq> 16 then ''?''
                else (let gs = ip_groups ip; (s, n) = zero_run gs; shown = (\<lambda>gs. join '':'' (map hex_number gs))
                      in if n < 2 then shown gs else shown (take s gs) @ ''::'' @ shown (drop (s + n) gs))))"

definition byte_text :: "byte list \<Rightarrow> string" where
  "byte_text bs = map (\<lambda>b. char_of (unat b)) bs"

section \<open>Connections\<close>

record conn =
  cn_chunks :: "byte list list"
  cn_error :: err
  cn_write :: "err option"

definition eof :: err where "eof = Plain ''EOF''"
definition unexpected_eof :: err where "unexpected_eof = Plain ''unexpected EOF''"

text \<open>The loop of \<open>io.ReadAtLeast\<close> into a buffer of \<open>cap\<close> bytes: what was read and what is left.\<close>

fun read_chunks :: "nat \<Rightarrow> nat \<Rightarrow> byte list \<Rightarrow> byte list list \<Rightarrow> byte list \<times> byte list list" where
  "read_chunks cap lo got [] = (got, [])"
| "read_chunks cap lo got (c # cs) =
     (if lo \<le> length got then (got, c # cs)
      else (let room = cap - length got in
            if length c \<le> room then read_chunks cap lo (got @ c) cs else (got @ take room c, drop room c # cs)))"

definition read_at_least :: "nat \<Rightarrow> nat \<Rightarrow> conn \<Rightarrow> err option \<times> byte list \<times> conn" where
  "read_at_least cap lo c =
     (let (got, cs) = read_chunks cap lo [] (cn_chunks c)
      in (if lo \<le> length got then None
          else if got \<noteq> [] \<and> cn_error c = eof then Some unexpected_eof else Some (cn_error c), got, c\<lparr>cn_chunks := cs\<rparr>))"

definition read_full :: "nat \<Rightarrow> conn \<Rightarrow> err option \<times> byte list \<times> conn" where
  "read_full n c = read_at_least n n c"

section \<open>The greeting and the request\<close>

definition socks_ver5 :: byte where "socks_ver5 = 5"
definition socks_connect :: byte where "socks_connect = 1"

definition err_addr_type :: err where "err_addr_type = Plain ''socks addr type not supported''"
definition err_ver :: err where "err_ver = Plain ''socks version not supported''"
definition err_auth_extra :: err where "err_auth_extra = Plain ''socks authentication get extra data''"
definition err_req_extra :: err where "err_req_extra = Plain ''socks request get extra data''"
definition err_cmd :: err where "err_cmd = Plain ''socks command not supported''"

text \<open>The error, what was written, and the connection after it.\<close>

definition hand_shake :: "conn \<Rightarrow> err option \<times> byte list \<times> conn" where
  "hand_shake c =
     (case read_at_least 258 2 c of
        (Some e, buf, c1) \<Rightarrow> (Some e, [], c1)
      | (None, buf, c1) \<Rightarrow>
          if buf ! 0 \<noteq> socks_ver5 then (Some err_ver, [], c1)
          else (let msg_len = unat (buf ! 1) + 2;
                    (e, c2) = (if length buf = msg_len then (None, c1)
                               else if length buf < msg_len then (let (e, _, c2) = read_full (msg_len - length buf) c1 in (e, c2))
                               else (Some err_auth_extra, c1))
                in case e of Some x \<Rightarrow> (Some x, [], c2) | None \<Rightarrow> (cn_write c2, [socks_ver5, 0], c2)))"

text \<open>
  The length of a request and the address in it; \<open>off\<close> is where the type is, 3 in a SOCKS request and 0 in what a
  server gets. The end of a name is a sum of bytes, and a slice that ends before its start panics.
\<close>

definition request_length :: "nat \<Rightarrow> byte list \<Rightarrow> nat option" where
  "request_length off buf =
     (if buf ! off = 1 then Some (off + 1 + 4 + 2)
      else if buf ! off = 4 then Some (off + 1 + 16 + 2)
      else if buf ! off = 3 then Some (unat (buf ! (off + 1)) + (off + 1 + 1 + 2))
      else None)"

definition request_host :: "nat \<Rightarrow> byte list \<Rightarrow> string outcome" where
  "request_host off buf =
     (if buf ! off = 1 then Returned (ip_string (take 4 (drop (off + 1) buf)))
      else if buf ! off = 4 then Returned (ip_string (take 16 (drop (off + 1) buf)))
      else (let hi = of_nat (off + 2) + buf ! (off + 1) in
            if unat hi < off + 2 then Crashed
            else Returned (byte_text (take (unat hi - (off + 2)) (drop (off + 2) buf)))))"

definition request_port :: "byte list \<Rightarrow> nat" where
  "request_port buf = unat (buf ! (length buf - 2)) * 256 + unat (buf ! (length buf - 1))"

definition request_addr :: "nat \<Rightarrow> byte list \<Rightarrow> string outcome" where
  "request_addr off buf =
     (case request_host off buf of
        Returned h \<Rightarrow> Returned (join_host_port h (show_nat (request_port buf)))
      | Crashed \<Rightarrow> Crashed
      | Failed \<Rightarrow> Failed)"

text \<open>\<open>addr\<close> makes the text of the address of a whole request.\<close>

definition get_request_with :: "(byte list \<Rightarrow> string outcome) \<Rightarrow> conn \<Rightarrow> (err + byte list \<times> string) outcome \<times> conn" where
  "get_request_with addr c =
     (case read_at_least 263 5 c of
        (Some e, buf, c1) \<Rightarrow> (Returned (Inl e), c1)
      | (None, buf, c1) \<Rightarrow>
          if buf ! 0 \<noteq> socks_ver5 then (Returned (Inl err_ver), c1)
          else if buf ! 1 \<noteq> socks_connect then (Returned (Inl err_cmd), c1)
          else (case request_length 3 buf of
                  None \<Rightarrow> (Returned (Inl err_addr_type), c1)
                | Some len \<Rightarrow>
                    (let (e, rest, c2) = (if length buf = len then (None, [], c1)
                                          else if length buf < len then read_full (len - length buf) c1
                                          else (Some err_req_extra, [], c1));
                         req = buf @ rest
                     in case e of
                          Some x \<Rightarrow> (Returned (Inl x), c2)
                        | None \<Rightarrow>
                            (case addr req of
                               Returned host \<Rightarrow> (Returned (Inr (drop 3 req, host)), c2)
                             | Crashed \<Rightarrow> (Crashed, c2)
                             | Failed \<Rightarrow> (Failed, c2)))))"

definition get_request :: "conn \<Rightarrow> (err + byte list \<times> string) outcome \<times> conn" where
  "get_request c = get_request_with (request_addr 3) c"

section \<open>The servers\<close>

record ss_config =
  sc_server :: "string list option"
  sc_port :: int
  sc_local_port :: int
  sc_password :: string
  sc_method :: string
  sc_server_password :: "string list list"

text \<open>\<open>GetServerArray\<close>; a single server is a list of one.\<close>

definition server_array :: "ss_config \<Rightarrow> string list" where
  "server_array cfg = (case sc_server cfg of None \<Rightarrow> [] | Some ss \<Rightarrow> ss)"

definition has_port :: "string \<Rightarrow> bool" where
  "has_port s = (case split_host_port s of Inl _ \<Rightarrow> False | Inr (host, port) \<Rightarrow> port \<noteq> [])"

record 'c servers =
  srv_ciphers :: "(string \<times> 'c) list"
  srv_fails :: "nat list"

text \<open>The ciphers are kept by their password.\<close>

fun server_ciphers ::
  "(string \<Rightarrow> string \<Rightarrow> string + 'c) \<Rightarrow> (string, 'c) gomap \<Rightarrow> string list list \<Rightarrow> (string \<times> 'c) list option" where
  "server_ciphers new_cipher cache [] = Some []"
| "server_ciphers new_cipher cache (info # infos) =
     (if length info < 2 \<or> 3 < length info then None
      else (let server = info ! 0; passwd = info ! 1; encmethod = (if length info = 3 then info ! 2 else []) in
            if \<not> has_port server then None
            else (case map_of cache passwd of
                    Some cipher \<Rightarrow> map_option ((#) (server, cipher)) (server_ciphers new_cipher cache infos)
                  | None \<Rightarrow>
                      (case new_cipher encmethod passwd of
                         Inl e \<Rightarrow> None
                       | Inr cipher \<Rightarrow>
                           map_option ((#) (server, cipher)) (server_ciphers new_cipher (AList.update passwd cipher cache) infos)))))"

definition parse_server_config :: "(string \<Rightarrow> string \<Rightarrow> string + 'c) \<Rightarrow> ss_config \<Rightarrow> 'c servers option" where
  "parse_server_config new_cipher cfg =
     map_option (\<lambda>cs. \<lparr>srv_ciphers = cs, srv_fails = replicate (length cs) 0\<rparr>)
       (if sc_server_password cfg = [] then
          (case new_cipher (sc_method cfg) (sc_password cfg) of
             Inl e \<Rightarrow> None
           | Inr cipher \<Rightarrow>
               Some (map (\<lambda>s. (if has_port s then s else join_host_port s (itoa (sc_port cfg)), cipher)) (server_array cfg)))
        else server_ciphers new_cipher [] (sc_server_password cfg))"

definition enough_options :: "ss_config \<Rightarrow> bool" where
  "enough_options cfg \<longleftrightarrow> sc_server cfg \<noteq> None \<and> sc_port cfg \<noteq> 0 \<and> sc_local_port cfg \<noteq> 0 \<and> sc_password cfg \<noteq> []"

definition max_fail_cnt :: nat where "max_fail_cnt = 30"
definition base_fail_cnt :: nat where "base_fail_cnt = 20"

text \<open>A call dials each server at most once; \<open>dial i\<close> is the error of the dial. The result has the server or the last error.\<close>

definition connect_to_server :: "(nat \<Rightarrow> err option) \<Rightarrow> nat \<Rightarrow> nat list \<Rightarrow> err option \<times> nat list" where
  "connect_to_server dial i fails =
     (case dial i of
        Some e \<Rightarrow> (Some e, if fails ! i < max_fail_cnt then fails[i := Suc (fails ! i)] else fails)
      | None \<Rightarrow> (None, fails[i := 0]))"

fun try_servers ::
  "(nat \<Rightarrow> err option) \<Rightarrow> (nat \<Rightarrow> nat list \<Rightarrow> bool) \<Rightarrow> nat list \<Rightarrow> err option \<Rightarrow> nat list \<Rightarrow> (err option + nat) \<times> nat list \<times> nat list" where
  "try_servers dial skip [] e fails = (Inl e, [], fails)"
| "try_servers dial skip (i # is) e fails =
     (if skip i fails then (let (r, skipped, fails') = try_servers dial skip is e fails in (r, i # skipped, fails'))
      else (case connect_to_server dial i fails of
              (None, fails') \<Rightarrow> (Inr i, [], fails')
            | (Some x, fails') \<Rightarrow> try_servers dial skip is (Some x) fails'))"

text \<open>\<open>roll i n\<close> is \<open>rand.Intn(n)\<close> for the server \<open>i\<close>.\<close>

definition create_server_conn :: "(nat \<Rightarrow> err option) \<Rightarrow> (nat \<Rightarrow> nat \<Rightarrow> nat) \<Rightarrow> nat \<Rightarrow> nat list \<Rightarrow> (err option + nat) \<times> nat list" where
  "create_server_conn dial roll n fails =
     (let (r, skipped, fails1) =
            try_servers dial (\<lambda>i fs. 0 < fs ! i \<and> roll i (fs ! i + base_fail_cnt) \<noteq> 0) [0..<n] None fails
      in case r of
           Inr i \<Rightarrow> (Inr i, fails1)
         | Inl e \<Rightarrow> (let (r2, _, fails2) = try_servers dial (\<lambda>_ _. False) skipped e fails1 in (r2, fails2)))"

section \<open>The service\<close>

record session =
  sn_written :: "byte list"
  sn_remote :: "(nat \<times> byte list \<times> string) option"
  sn_rest :: conn

definition socks_confirm :: "byte list" where
  "socks_confirm = [5, 0, 0, 1, 0, 0, 0, 0, 8, 0x43]"

text \<open>
  One connection: what is written to it, and the server, the address that is sent to it and its text, when a
  connection is made. Without servers there is no error and no connection to copy to.
\<close>

definition serve_socks_with ::
  "(conn \<Rightarrow> (err + byte list \<times> string) outcome \<times> conn) \<Rightarrow> (nat \<Rightarrow> err option) \<Rightarrow> (nat \<Rightarrow> nat \<Rightarrow> nat) \<Rightarrow> nat \<Rightarrow> conn \<Rightarrow> nat list \<Rightarrow> session outcome \<times> nat list" where
  "serve_socks_with request dial roll n c fails =
     (case hand_shake c of
        (Some e, w, c1) \<Rightarrow> (Returned \<lparr>sn_written = w, sn_remote = None, sn_rest = c1\<rparr>, fails)
      | (None, w, c1) \<Rightarrow>
          (case request c1 of
             (Crashed, c2) \<Rightarrow> (Crashed, fails)
           | (Failed, c2) \<Rightarrow> (Failed, fails)
           | (Returned (Inl e), c2) \<Rightarrow> (Returned \<lparr>sn_written = w, sn_remote = None, sn_rest = c2\<rparr>, fails)
           | (Returned (Inr (raw, addr)), c2) \<Rightarrow>
               (let w2 = w @ socks_confirm in
                case cn_write c2 of
                  Some e \<Rightarrow> (Returned \<lparr>sn_written = w2, sn_remote = None, sn_rest = c2\<rparr>, fails)
                | None \<Rightarrow>
                    (case create_server_conn dial roll n fails of
                       (Inl None, fails') \<Rightarrow> (Crashed, fails')
                     | (Inl (Some e), fails') \<Rightarrow> (Returned \<lparr>sn_written = w2, sn_remote = None, sn_rest = c2\<rparr>, fails')
                     | (Inr i, fails') \<Rightarrow> (Returned \<lparr>sn_written = w2, sn_remote = Some (i, raw, addr), sn_rest = c2\<rparr>, fails')))))"

definition serve_socks ::
  "(nat \<Rightarrow> err option) \<Rightarrow> (nat \<Rightarrow> nat \<Rightarrow> nat) \<Rightarrow> nat \<Rightarrow> conn \<Rightarrow> nat list \<Rightarrow> session outcome \<times> nat list" where
  "serve_socks dial roll n c fails = serve_socks_with get_request dial roll n c fails"

record ss_transport =
  tp_name :: string
  tp_transport :: string
  tp_bind_port :: int
  tp_bind_addr :: string
  tp_remote_addr :: string
  tp_remote_host :: string
  tp_remote_port :: int
  tp_secret :: string
  tp_verbose :: bool

definition ss_check :: "environment \<Rightarrow> opt \<Rightarrow> server_error + ss_transport" where
  "ss_check env service_name =
     (if \<not> opt_is env service_name ''transport'' then Inl (service_not_found env)
      else if \<not> opt_is env (new_option ''transport'') ''shadowsocks-client'' then Inl (transport_not_found env)
      else Inr \<lparr>tp_name = opt_get env service_name, tp_transport = opt_get env (new_option ''transport''), tp_bind_port = 0,
                tp_bind_addr = [], tp_remote_addr = [], tp_remote_host = [], tp_remote_port = 0, tp_secret = [], tp_verbose = False\<rparr>)"

text \<open>An error is printed and returned; printing a text that is not safe panics.\<close>

definition parse_fails :: "method_handler \<Rightarrow> string \<Rightarrow> string \<Rightarrow> (string \<times> (string + ss_transport)) outcome" where
  "parse_fails h msg out = (case print_error h msg out of None \<Rightarrow> Crashed | Some (out', _) \<Rightarrow> Returned (out', Inl msg))"

text \<open>
  The texts of the errors of \<open>net\<close> and \<open>strconv\<close> are arguments. \<open>parse_port\<close> is the pair of a split and a
  conversion that the code has twice.
\<close>

definition parse_port :: "(addr_error \<Rightarrow> string \<Rightarrow> string) \<Rightarrow> (string \<Rightarrow> string) \<Rightarrow> string \<Rightarrow> string + string \<times> int" where
  "parse_port addr_text num_text a =
     (case split_host_port a of
        Inl e \<Rightarrow> Inl (addr_text e a)
      | Inr (host, p) \<Rightarrow> (case atoi p of None \<Rightarrow> Inl (num_text p) | Some i \<Rightarrow> Inr (host, i)))"

definition ss_parse ::
  "(addr_error \<Rightarrow> string \<Rightarrow> string) \<Rightarrow> (string \<Rightarrow> string) \<Rightarrow> environment \<Rightarrow> ss_transport \<Rightarrow> string \<Rightarrow>
   (string \<times> (string + ss_transport)) outcome" where
  "ss_parse addr_text num_text env s out =
     (let h = new_handler (tp_name s) in
      case print_version env h out of
        None \<Rightarrow> Crashed
      | Some (out1, _) \<Rightarrow>
          (let bind_addr = opt_set_default ''127.0.0.1:0'' (new_option ''bindaddr'') in
           case parse_port addr_text num_text (opt_bind_addr env bind_addr) of
             Inl e \<Rightarrow> parse_fails h e out1
           | Inr (_, bind_port) \<Rightarrow>
               (let remote = new_option ''remoteaddr'' in
                case opt_required env remote of
                  Some e \<Rightarrow> parse_fails h e out1
                | None \<Rightarrow>
                    (case parse_port addr_text num_text (opt_get env remote) of
                       Inl e \<Rightarrow> parse_fails h e out1
                     | Inr (host, remote_port) \<Rightarrow>
                         (case opt_required env (new_option ''secret'') of
                            Some e \<Rightarrow> parse_fails h e out1
                          | None \<Rightarrow>
                              Returned (out1, Inr (s\<lparr>tp_bind_addr := opt_get env bind_addr, tp_bind_port := bind_port,
                                tp_remote_addr := opt_get env remote, tp_remote_host := host, tp_remote_port := remote_port,
                                tp_secret := opt_get env (new_option ''secret'')\<rparr>)))))))"

text \<open>\<open>listen\<close> gives the address that is bound; the result is the output and the servers that are used.\<close>

definition ss_config_of :: "ss_transport \<Rightarrow> ss_config" where
  "ss_config_of s = \<lparr>sc_server = Some [tp_remote_host s], sc_port = tp_remote_port s, sc_local_port = tp_bind_port s,
     sc_password = tp_secret s, sc_method = ''aes-256-cfb'', sc_server_password = []\<rparr>"

definition ss_start ::
  "(string \<Rightarrow> string option) \<Rightarrow> (string \<Rightarrow> string \<Rightarrow> string + 'c) \<Rightarrow> ss_transport \<Rightarrow> string \<Rightarrow> (string \<times> (string + 'c servers)) outcome" where
  "ss_start listen new_cipher s out =
     (let h = new_handler (tp_name s);
          bound = (case listen (tp_bind_addr s) of None \<Rightarrow> listen ''127.0.0.1:0'' | Some a \<Rightarrow> Some a)
      in case bound of
           None \<Rightarrow>
             (case print_error h ''CANNOT BIND TO ANY PORT'' out of
                None \<Rightarrow> Crashed | Some (out', _) \<Rightarrow> Returned (out', Inl ''Cannot bind to any port''))
         | Some a \<Rightarrow>
             (case print_expose h ''socks5'' a out of
                None \<Rightarrow> Crashed
              | Some out1 \<Rightarrow>
                  (case parse_server_config new_cipher (ss_config_of s) of
                     None \<Rightarrow> Crashed
                   | Some srv \<Rightarrow> (case print_done out1 of None \<Rightarrow> Crashed | Some out2 \<Rightarrow> Returned (out2, Inr srv)))))"

section \<open>Lemmas: reading\<close>

lemma read_chunks_run:
  assumes "length got \<le> cap" "lo \<le> cap"
  shows "fst (read_chunks cap lo got cs) @ concat (snd (read_chunks cap lo got cs)) = got @ concat cs \<and>
    length (fst (read_chunks cap lo got cs)) \<le> cap \<and>
    (lo \<le> length (got @ concat cs) \<longrightarrow> lo \<le> length (fst (read_chunks cap lo got cs)))"
  using assms
proof (induction cap lo got cs rule: read_chunks.induct)
  case (1 cap lo got)
  then show ?case by simp
next
  case (2 cap lo got c cs)
  show ?case
  proof (cases "lo \<le> length got")
    case True
    then show ?thesis using "2.prems" by simp
  next
    case False
    show ?thesis
    proof (cases "length c \<le> cap - length got")
      case True
      have "length (got @ c) \<le> cap" using True "2.prems"(1) by simp
      from "2.IH" [OF False refl True this "2.prems"(2)] show ?thesis using False True by (simp add: Let_def)
    next
      case long: False
      then show ?thesis using False "2.prems" by (simp add: Let_def)
    qed
  qed
qed

lemma read_chunks_spec:
  assumes "read_chunks cap lo got cs = (got', cs')" "length got \<le> cap" "lo \<le> cap"
  shows "got' @ concat cs' = got @ concat cs" "length got' \<le> cap"
    "lo \<le> length (got @ concat cs) \<Longrightarrow> lo \<le> length got'"
  using read_chunks_run [OF assms(2,3), of cs] assms(1) by simp_all

text \<open>With enough bytes to come a read gives some of them, and an exact read all that it asks for.\<close>

lemma read_at_least_ok:
  assumes "lo \<le> length (concat (cn_chunks c))" "lo \<le> cap"
  obtains k c' where "read_at_least cap lo c = (None, take k (concat (cn_chunks c)), c')" "lo \<le> k" "k \<le> cap"
    "k \<le> length (concat (cn_chunks c))" "concat (cn_chunks c') = drop k (concat (cn_chunks c))" "cn_write c' = cn_write c"
proof -
  obtain got cs where r: "read_chunks cap lo [] (cn_chunks c) = (got, cs)" by fastforce
  note spec = read_chunks_spec [OF r]
  have all: "got @ concat cs = concat (cn_chunks c)" using spec(1) assms(2) by simp
  have len: "lo \<le> length got" "length got \<le> cap" using spec(2,3) assms by auto
  have got: "got = take (length got) (concat (cn_chunks c))" "concat cs = drop (length got) (concat (cn_chunks c))"
    by (simp_all flip: all)
  show ?thesis
  proof (rule that [of "length got" "c\<lparr>cn_chunks := cs\<rparr>"])
    show "read_at_least cap lo c = (None, take (length got) (concat (cn_chunks c)), c\<lparr>cn_chunks := cs\<rparr>)"
      using r len(1) got(1) by (simp add: read_at_least_def)
    show "length got \<le> length (concat (cn_chunks c))" by (simp flip: all)
  qed (use len got(2) in simp_all)
qed

lemma read_full_ok:
  assumes "n \<le> length (concat (cn_chunks c))"
  obtains c' where "read_full n c = (None, take n (concat (cn_chunks c)), c')"
    "concat (cn_chunks c') = drop n (concat (cn_chunks c))" "cn_write c' = cn_write c"
proof -
  obtain k c' where r: "read_at_least n n c = (None, take k (concat (cn_chunks c)), c')" "n \<le> k" "k \<le> n"
    "concat (cn_chunks c') = drop k (concat (cn_chunks c))" "cn_write c' = cn_write c"
    by (rule read_at_least_ok [OF assms order_refl])
  then have "k = n" by simp
  with r that show ?thesis by (simp add: read_full_def)
qed

text \<open>A read does not go past the pieces that already hold enough.\<close>

lemma read_chunks_append:
  assumes "lo \<le> length (got @ concat cs)"
  shows "read_chunks cap lo got (cs @ ds) = map_prod id (\<lambda>r. r @ ds) (read_chunks cap lo got cs)"
  using assms
proof (induction cap lo got cs rule: read_chunks.induct)
  case (1 cap lo got)
  then show ?case by (cases ds) simp_all
next
  case (2 cap lo got c cs)
  show ?case
  proof (cases "lo \<le> length got \<or> \<not> length c \<le> cap - length got")
    case True
    then show ?thesis by (auto simp: Let_def)
  next
    case False
    then show ?thesis using "2.IH" [of "cap - length got"] "2.prems" by (simp add: Let_def)
  qed
qed

definition behind :: "conn \<Rightarrow> byte list list \<Rightarrow> conn" where
  "behind c ds = c\<lparr>cn_chunks := cn_chunks c @ ds\<rparr>"

lemma behind_simps [simp]: "cn_write (behind c ds) = cn_write c" "cn_chunks (behind c ds) = cn_chunks c @ ds"
  by (simp_all add: behind_def)

lemma read_at_least_behind:
  assumes "lo \<le> length (concat (cn_chunks c))"
  shows "read_at_least cap lo (behind c ds) = (case read_at_least cap lo c of (e, got, c') \<Rightarrow> (e, got, behind c' ds))"
  using read_chunks_append [of lo "[]" "cn_chunks c" cap ds] assms
  by (cases "read_chunks cap lo [] (cn_chunks c)") (simp add: read_at_least_def behind_def)

text \<open>A greeting: the version, the number of methods and the methods.\<close>

definition greeting :: "byte list \<Rightarrow> byte list" where
  "greeting methods = socks_ver5 # of_nat (length methods) # methods"

lemma hand_shake_greeting:
  assumes "concat (cn_chunks c) = greeting methods" "length methods < 256"
  obtains c' where "hand_shake (behind c ds) = (cn_write c, [socks_ver5, 0], behind c' ds)" "concat (cn_chunks c') = []"
    "cn_write c' = cn_write c"
proof -
  let ?g = "greeting methods"
  have len: "length ?g = length methods + 2" by (simp add: greeting_def)
  obtain k c1 where r: "read_at_least 258 2 c = (None, take k ?g, c1)" "2 \<le> k" "k \<le> 258" "k \<le> length ?g"
    "concat (cn_chunks c1) = drop k ?g" "cn_write c1 = cn_write c"
    by (rule read_at_least_ok [of 2 c 258, unfolded assms(1)]) (use len in auto)
  have r': "read_at_least 258 2 (behind c ds) = (None, take k ?g, behind c1 ds)"
    using read_at_least_behind [of 2 c 258 ds] r(1) assms(1) len by simp
  have "take k ?g ! 0 = socks_ver5" "take k ?g ! 1 = of_nat (length methods)"
    using r(2) by (simp_all add: greeting_def)
  moreover have "unat (of_nat (length methods) :: byte) = length methods" using assms(2) by (simp add: unat_of_nat)
  ultimately have buf: "take k ?g ! 0 = socks_ver5" "unat (take k ?g ! 1) + 2 = length ?g" using len by simp_all
  have lk: "length (take k ?g) = k" using r(4) by simp
  show ?thesis
  proof (cases "k = length ?g")
    case True
    then show ?thesis
      using that [of c1] r' r(5,6) buf lk by (simp add: hand_shake_def)
  next
    case False
    obtain c2 where f: "read_full (length ?g - k) c1 = (None, drop k ?g, c2)" "concat (cn_chunks c2) = []" "cn_write c2 = cn_write c1"
      using read_full_ok [of "length ?g - k" c1] r(4,5) by auto
    then have "read_full (length ?g - k) (behind c1 ds) = (None, drop k ?g, behind c2 ds)"
      using read_at_least_behind [of "length ?g - k" c1 _ ds] r(5) by (simp add: read_full_def)
    then show ?thesis
      using that [of c2] r' f(2,3) r(4,6) buf lk False by (simp add: hand_shake_def Let_def)
  qed
qed

text \<open>What is made of a whole request, in whatever pieces it comes.\<close>

definition whole_request :: "byte list \<Rightarrow> bool" where
  "whole_request req \<longleftrightarrow> 5 \<le> length req \<and> req ! 0 = socks_ver5 \<and> req ! 1 = socks_connect \<and> request_length 3 req = Some (length req)"

definition request_result :: "byte list \<Rightarrow> (err + byte list \<times> string) outcome" where
  "request_result req =
     (case request_addr 3 req of Returned host \<Rightarrow> Returned (Inr (drop 3 req, host)) | Crashed \<Rightarrow> Crashed | Failed \<Rightarrow> Failed)"

lemma get_request_whole:
  assumes "concat (cn_chunks c) = req" "whole_request req"
  obtains c' where "get_request c = (request_result req, c')" "concat (cn_chunks c') = []" "cn_write c' = cn_write c"
proof -
  have req: "5 \<le> length req" "req ! 0 = socks_ver5" "req ! 1 = socks_connect" "request_length 3 req = Some (length req)"
    using assms(2) by (auto simp: whole_request_def)
  obtain k c1 where r: "read_at_least 263 5 c = (None, take k req, c1)" "5 \<le> k" "k \<le> 263" "k \<le> length req"
    "concat (cn_chunks c1) = drop k req" "cn_write c1 = cn_write c"
    by (rule read_at_least_ok [of 5 c 263, unfolded assms(1)]) (use req(1) in auto)
  have "request_length 3 (take k req) = request_length 3 req" using r(2) by (simp add: request_length_def)
  then have buf: "take k req ! 0 = socks_ver5" "take k req ! 1 = socks_connect" "request_length 3 (take k req) = Some (length req)"
    "length (take k req) = k"
    using r(2,4) req by simp_all
  have out: "(case request_addr 3 req of
        Returned host \<Rightarrow> (Returned (Inr (drop 3 req, host)), c2) | Crashed \<Rightarrow> (Crashed, c2) | Failed \<Rightarrow> (Failed, c2)) =
      (request_result req, c2)" for c2 :: conn
    by (simp add: request_result_def split: outcome.split)
  show ?thesis
  proof (cases "k = length req")
    case True
    then show ?thesis using that [of c1] r(1,5,6) buf out [of c1] by (simp add: get_request_def get_request_with_def)
  next
    case False
    obtain c2 where f: "read_full (length req - k) c1 = (None, drop k req, c2)" "concat (cn_chunks c2) = []" "cn_write c2 = cn_write c1"
      using read_full_ok [of "length req - k" c1] r(4,5) by auto
    then show ?thesis using that [of c2] r(1,4,6) buf out [of c2] False by (simp add: get_request_def get_request_with_def)
  qed
qed

text \<open>The request for a name.\<close>

definition name_request :: "byte list \<Rightarrow> nat \<Rightarrow> byte list" where
  "name_request name port =
     [socks_ver5, socks_connect, 0, 3, of_nat (length name)] @ name @ [of_nat (port div 256), of_nat port]"

lemma name_request_parts:
  assumes "length name < 256" "port < 65536"
  shows "whole_request (name_request name port)"
    "request_addr 3 (name_request name port) =
       (if 251 \<le> length name then Crashed else Returned (join_host_port (byte_text name) (show_nat port)))"
proof -
  let ?r = "name_request name port"
  have n: "unat (of_nat (length name) :: byte) = length name" using assms(1) by (simp add: unat_of_nat)
  have len: "length ?r = length name + 7" by (simp add: name_request_def)
  have at: "?r ! 0 = socks_ver5" "?r ! 1 = socks_connect" "?r ! 3 = 3" "?r ! 4 = of_nat (length name)"
    by (simp_all add: name_request_def)
  show "whole_request ?r"
    using at n len by (simp add: whole_request_def request_length_def)
  have hi: "unat ((5 :: byte) + of_nat (length name)) = (if 251 \<le> length name then length name - 251 else length name + 5)"
  proof -
    have "unat ((5 :: byte) + of_nat (length name)) = (5 + length name) mod 256" using n by (simp add: unat_word_ariths)
    also have "\<dots> = (if 251 \<le> length name then length name - 251 else length name + 5)" using assms(1) by (simp add: mod_if)
    finally show ?thesis .
  qed
  have port: "request_port ?r = port"
  proof -
    have "?r ! (5 + length name) = of_nat (port div 256)" "?r ! (6 + length name) = of_nat port"
      by (simp_all add: name_request_def nth_append)
    moreover have "unat (of_nat (port div 256) :: byte) = port div 256" "unat (of_nat port :: byte) = port mod 256"
      using assms(2) by (simp_all add: unat_of_nat)
    ultimately show ?thesis using len by (simp add: request_port_def)
  qed
  have name: "take (length name) (drop 5 ?r) = name" by (simp add: name_request_def)
  show "request_addr 3 ?r = (if 251 \<le> length name then Crashed else Returned (join_host_port (byte_text name) (show_nat port)))"
  proof (cases "251 \<le> length name")
    case True
    with assms(1) have "length name - 251 < 5" by simp
    with True show ?thesis using at hi by (simp add: request_addr_def request_host_def Let_def)
  next
    case False
    then show ?thesis using at hi port name by (simp add: request_addr_def request_host_def Let_def)
  qed
qed

section \<open>Lemmas: the servers\<close>

definition fails_ok :: "nat \<Rightarrow> nat list \<Rightarrow> bool" where
  "fails_ok n fails \<longleftrightarrow> length fails = n \<and> (\<forall>f \<in> set fails. f \<le> max_fail_cnt)"

lemma connect_fails_ok:
  assumes "fails_ok n fails" "i < n"
  shows "fails_ok n (snd (connect_to_server dial i fails))"
proof -
  have "fails_ok n (fails[i := f])" if "f \<le> max_fail_cnt" for f
    using assms(1) that set_update_subset_insert [of fails i f] by (auto simp: fails_ok_def)
  then show ?thesis using assms(1) by (auto simp: connect_to_server_def split: option.split)
qed

lemma connect_result [simp]: "fst (connect_to_server dial i fails) = dial i"
  by (simp add: connect_to_server_def split: option.split)

text \<open>
  A pass over servers: the server that is found accepts and its count is cleared; otherwise those that were
  not skipped all refuse. The skipped ones are among them.
\<close>

lemma try_servers_run:
  assumes "fails_ok n fails" "\<forall>i \<in> set is. i < n" "try_servers dial skip is e fails = (r, skipped, fails')"
  shows "fails_ok n fails' \<and> set skipped \<subseteq> set is \<and>
    (case r of Inr i \<Rightarrow> i \<in> set is \<and> dial i = None \<and> fails' ! i = 0
             | Inl e' \<Rightarrow> (\<forall>i \<in> set is - set skipped. dial i \<noteq> None) \<and> (e \<noteq> None \<or> set is - set skipped \<noteq> {} \<longrightarrow> e' \<noteq> None))"
  using assms
proof (induction "is" arbitrary: e fails r skipped fails')
  case Nil
  then show ?case by auto
next
  case (Cons i js)
  show ?case
  proof (cases "skip i fails")
    case True
    obtain r1 s1 f1 where t: "try_servers dial skip js e fails = (r1, s1, f1)" by (cases "try_servers dial skip js e fails")
    from Cons.IH [OF Cons.prems(1) _ t] Cons.prems(2,3) True t show ?thesis by (auto split: sum.splits)
  next
    case False
    obtain f1 where f: "connect_to_server dial i fails = (dial i, f1)"
      by (cases "connect_to_server dial i fails") (metis connect_result fst_conv)
    have ok: "fails_ok n f1" using connect_fails_ok [OF Cons.prems(1), of i dial] Cons.prems(2) f by simp
    show ?thesis
    proof (cases "dial i")
      case None
      then have "f1 ! i = 0" using f Cons.prems(1,2) by (auto simp: connect_to_server_def fails_ok_def)
      then show ?thesis using Cons.prems(3) False f None ok by auto
    next
      case (Some x)
      then have "try_servers dial skip js (Some x) f1 = (r, skipped, fails')" using Cons.prems(3) False f by simp
      from Cons.IH [OF ok _ this] Cons.prems(2) Some show ?thesis by (auto split: sum.splits)
    qed
  qed
qed

lemma create_server_conn_run:
  assumes "fails_ok n fails" "create_server_conn dial roll n fails = (r, fails')"
  shows "fails_ok n fails'"
    "(\<exists>i < n. dial i = None) \<Longrightarrow> \<exists>i < n. r = Inr i \<and> dial i = None \<and> fails' ! i = 0"
    "\<not> (\<exists>i < n. dial i = None) \<Longrightarrow> 0 < n \<Longrightarrow> \<exists>e. r = Inl (Some e)"
proof -
  let ?skip = "\<lambda>i fs. 0 < fs ! i \<and> roll i (fs ! i + base_fail_cnt) \<noteq> 0"
  obtain r1 s1 f1 where t1: "try_servers dial ?skip [0..<n] None fails = (r1, s1, f1)" by (cases "try_servers dial ?skip [0..<n] None fails")
  note p1 = try_servers_run [OF assms(1) _ t1]
  have p1': "fails_ok n f1" "set s1 \<subseteq> {0..<n}"
    "case r1 of Inr i \<Rightarrow> i < n \<and> dial i = None \<and> f1 ! i = 0
       | Inl e \<Rightarrow> (\<forall>i \<in> {0..<n} - set s1. dial i \<noteq> None) \<and> ({0..<n} - set s1 \<noteq> {} \<longrightarrow> e \<noteq> None)"
    using p1 by (auto split: sum.splits)
  have *: "fails_ok n fails' \<and> (case r of Inr i \<Rightarrow> i < n \<and> dial i = None \<and> fails' ! i = 0
      | Inl e \<Rightarrow> (\<forall>i < n. dial i \<noteq> None) \<and> (0 < n \<longrightarrow> e \<noteq> None))"
  proof (cases r1)
    case (Inr i)
    then show ?thesis using assms(2) t1 p1' by (auto simp: create_server_conn_def)
  next
    case (Inl e)
    obtain r2 s2 f2 where t2: "try_servers dial (\<lambda>_ _. False) s1 e f1 = (r2, s2, f2)" by (cases "try_servers dial (\<lambda>_ _. False) s1 e f1")
    have below: "\<forall>i \<in> set s1. i < n" using p1'(2) by auto
    have "s2 = []" using t2
      by (induction s1 arbitrary: e f1) (auto split: option.splits prod.splits)
    then have "fails_ok n f2 \<and> (case r2 of Inr i \<Rightarrow> i \<in> set s1 \<and> dial i = None \<and> f2 ! i = 0
        | Inl e' \<Rightarrow> (\<forall>i \<in> set s1. dial i \<noteq> None) \<and> (e \<noteq> None \<or> set s1 \<noteq> {} \<longrightarrow> e' \<noteq> None))"
      using try_servers_run [OF p1'(1) _ t2] below by (cases r2) simp_all
    moreover have "r = r2" "fails' = f2" using assms(2) t1 t2 Inl by (simp_all add: create_server_conn_def)
    moreover have "\<forall>i < n. i \<in> set s1 \<or> dial i \<noteq> None" using p1'(3) Inl by auto
    moreover have "s1 = [] \<Longrightarrow> 0 < n \<Longrightarrow> e \<noteq> None" using p1'(3) Inl by auto
    ultimately show ?thesis using below by (cases r2; cases "s1 = []") auto
  qed
  then show "fails_ok n fails'" by simp
  show "(\<exists>i < n. dial i = None) \<Longrightarrow> \<exists>i < n. r = Inr i \<and> dial i = None \<and> fails' ! i = 0"
    using * by (auto split: sum.splits)
  show "\<not> (\<exists>i < n. dial i = None) \<Longrightarrow> 0 < n \<Longrightarrow> \<exists>e. r = Inl (Some e)"
    using * by (cases r) auto
qed

text \<open>Two servers with the same password share the cipher of the first one, whatever method the second has.\<close>

lemma cipher_cache_ignores_method:
  assumes "has_port a" "has_port b" "new_cipher m1 pw = Inr ci"
  shows "server_ciphers new_cipher [] [[a, pw, m1], [b, pw, m2]] = Some [(a, ci), (b, ci)]"
  using assms by simp

section \<open>Properties\<close>

text \<open>A client that waits for each reply: its greeting and its request never come in one piece.\<close>

definition socks_client :: "byte list list \<Rightarrow> byte list list \<Rightarrow> conn \<Rightarrow> bool" where
  "socks_client gs rs c \<longleftrightarrow>
     cn_chunks c = gs @ rs \<and> cn_write c = None \<and> (\<exists>methods. length methods < 256 \<and> concat gs = greeting methods)"

lemma serve_socks_request:
  assumes "socks_client gs rs c" "concat rs = req" "whole_request req" "fails_ok n fails" "0 < n"
  shows "\<exists>c' fails'. fails_ok n fails' \<and>
    (case request_result req of
       Returned (Inr (raw, addr)) \<Rightarrow>
         (\<exists>remote. serve_socks dial roll n c fails =
            (Returned \<lparr>sn_written = [socks_ver5, 0] @ socks_confirm, sn_remote = remote, sn_rest = c'\<rparr>, fails') \<and>
            (if \<exists>i < n. dial i = None then \<exists>i < n. dial i = None \<and> fails' ! i = 0 \<and> remote = Some (i, raw, addr) else remote = None))
     | Returned (Inl e) \<Rightarrow> False
     | _ \<Rightarrow> serve_socks dial roll n c fails = (Crashed, fails'))"
proof -
  obtain methods where m: "length methods < 256" "concat gs = greeting methods" and c: "cn_chunks c = gs @ rs" "cn_write c = None"
    using assms(1) by (auto simp: socks_client_def)
  let ?c0 = "c\<lparr>cn_chunks := gs\<rparr>"
  have b: "c = behind ?c0 rs" using c(1) by (simp add: behind_def)
  obtain c1 where h: "hand_shake c = (None, [socks_ver5, 0], behind c1 rs)" "concat (cn_chunks c1) = []" "cn_write c1 = None"
    using hand_shake_greeting [of ?c0 methods rs] m b c(2) by auto
  have "concat (cn_chunks (behind c1 rs)) = req" using h(2) assms(2) by simp
  then obtain c2 where g: "get_request (behind c1 rs) = (request_result req, c2)" "cn_write c2 = None"
    using get_request_whole [OF _ assms(3), of "behind c1 rs"] h(3) by auto
  obtain r fails' where s: "create_server_conn dial roll n fails = (r, fails')" by fastforce
  note run = create_server_conn_run [OF assms(4) s]
  show ?thesis
  proof (cases "request_addr 3 req")
    case (Returned addr)
    then have res: "request_result req = Returned (Inr (drop 3 req, addr))" by (simp add: request_result_def)
    show ?thesis
    proof (cases "\<exists>i < n. dial i = None")
      case True
      then obtain i where "i < n" "r = Inr i" "dial i = None" "fails' ! i = 0" using run(2) by blast
      then show ?thesis using run(1) res h g s True by (auto simp: serve_socks_def serve_socks_with_def)
    next
      case False
      then obtain x where "r = Inl (Some x)" using run(3) assms(5) by blast
      then show ?thesis using run(1) res h g s False by (auto simp: serve_socks_def serve_socks_with_def)
    qed
  next
    case Crashed
    then show ?thesis using h g assms(4) by (auto simp: serve_socks_def serve_socks_with_def request_result_def)
  next
    case Failed
    then show ?thesis by (auto simp: request_addr_def request_host_def Let_def split: outcome.splits if_splits)
  qed
qed

text \<open>
  C19. A long name ends the transport. For a name of at most 250 bytes and any pieces in which the greeting and the request
  arrive the connection is answered, and the address goes to a server that accepts, if there is one, whatever
  the fail counts and the dice; for a name of 251 to 255 bytes, which the protocol allows, the end of the name wraps
  around in a byte and the process crashes.
\<close>

theorem long_name_crashes:
  assumes "socks_client gs rs c" "concat rs = name_request name port" "length name < 256" "port < 65536" "fails_ok n fails" "0 < n"
  shows "if 251 \<le> length name then fst (serve_socks dial roll n c fails) = Crashed
    else \<exists>s. fst (serve_socks dial roll n c fails) = Returned s \<and> sn_written s = [socks_ver5, 0] @ socks_confirm \<and>
      (case sn_remote s of
         Some (i, raw, addr) \<Rightarrow>
           i < n \<and> dial i = None \<and> raw = drop 3 (name_request name port) \<and> addr = join_host_port (byte_text name) (show_nat port)
       | None \<Rightarrow> \<forall>i < n. dial i \<noteq> None)"
proof -
  note parts = name_request_parts [OF assms(3,4)]
  note run = serve_socks_request [OF assms(1,2) parts(1) assms(5,6), of dial roll]
  show ?thesis
  proof (cases "251 \<le> length name")
    case True
    then show ?thesis using run parts(2) by (auto simp: request_result_def)
  next
    case False
    then show ?thesis using run parts(2) by (auto simp: request_result_def split: if_splits option.splits)
  qed
qed

section \<open>Examples\<close>

definition demo_client :: conn where
  "demo_client = \<lparr>cn_chunks = [[5], [1, 0], [5, 1, 0], [3, 1, 97, 0, 80]], cn_error = eof, cn_write = None\<rparr>"

definition long_client :: conn where
  "long_client = \<lparr>cn_chunks = [[5, 1, 0], name_request (replicate 251 97) 80], cn_error = eof, cn_write = None\<rparr>"

lemma long_name_crashes_witness:
  "(\<exists>s. fst (serve_socks (\<lambda>i. if i = 1 then None else Some eof) (\<lambda>i k. 3) 2 demo_client [0, 7]) = Returned s \<and>
     (\<exists>raw. sn_remote s = Some (1, raw, ''a:80''))) \<and>
   fst (serve_socks (\<lambda>i. if i = 1 then None else Some eof) (\<lambda>i k. 3) 2 long_client [0, 7]) = Crashed"
proof -
  let ?dial = "\<lambda>i::nat. if i = 1 then None else Some eof" and ?roll = "\<lambda>(i::nat) (k::nat). 3::nat"
  have f: "fails_ok 2 [0, 7]" by (simp add: fails_ok_def max_fail_cnt_def)
  have g: "concat [[5], [1, 0]] = greeting [0]" "concat [[5, 1, 0]] = greeting [0]" by (simp_all add: greeting_def socks_ver5_def)
  have c: "socks_client [[5], [1, 0]] [[5, 1, 0], [3, 1, 97, 0, 80]] demo_client"
    unfolding socks_client_def by (intro conjI exI [of _ "[0]"]) (use g(1) in \<open>simp_all add: demo_client_def\<close>)
  have l: "socks_client [[5, 1, 0]] [name_request (replicate 251 97) 80] long_client"
    unfolding socks_client_def by (intro conjI exI [of _ "[0]"]) (use g(2) in \<open>simp_all add: long_client_def\<close>)
  have r: "concat [[5, 1, 0], [3, 1, 97, 0, 80]] = name_request [97] 80"
    by (simp add: name_request_def socks_ver5_def socks_connect_def)
  have "byte_text [97] = ''a''" "show_nat 80 = ''80''" by code_simp+
  then have "\<exists>s. fst (serve_socks ?dial ?roll 2 demo_client [0, 7]) = Returned s \<and> (\<exists>raw. sn_remote s = Some (1, raw, ''a:80''))"
    using long_name_crashes [OF c r _ _ f, of ?dial ?roll] by (auto simp: join_host_port_def split: option.splits if_splits)
  moreover have "fst (serve_socks ?dial ?roll 2 long_client [0, 7]) = Crashed"
    using long_name_crashes [OF l, of "replicate 251 97" 80 2 "[0, 7]" ?dial ?roll] f by simp
  ultimately show ?thesis ..
qed

end
