(* ===== verification/SsServer.thy ===== *)
theory SsServer
  imports Socks
begin

text \<open>
  The shadowsocks programs: the server with its ports and passwords (\<open>cmd/shadowsocks-server/server.go\<close>), and what
  the local program (\<open>cmd/shadowsocks-local/local.go\<close>) does otherwise than the transport of the client. A connection of
  the server is the deciphered one. A reload of the configuration runs alone; the listeners that it starts come up
  later, in any order.
\<close>

section \<open>A connection of the server\<close>

definition ss_get_request :: "conn \<Rightarrow> (err + string \<times> byte list option) outcome \<times> conn" where
  "ss_get_request c =
     (case read_at_least 260 2 c of
        (Some e, buf, c1) \<Rightarrow> (Returned (Inl e), c1)
      | (None, buf, c1) \<Rightarrow>
          (case request_length 0 buf of
             None \<Rightarrow> (Returned (Inl (Plain (''addr type '' @ show_nat (unat (buf ! 0)) @ '' not supported''))), c1)
           | Some len \<Rightarrow>
               (let (e, rest, c2) = (if length buf < len then read_full (len - length buf) c1 else (None, [], c1));
                    extra = (if len < length buf then Some (drop len buf) else None)
                in case e of
                     Some x \<Rightarrow> (Returned (Inl x), c2)
                   | None \<Rightarrow>
                       (case request_addr 0 (take len (buf @ rest)) of
                          Returned host \<Rightarrow> (Returned (Inr (host, extra)), c2)
                        | Crashed \<Rightarrow> (Crashed, c2)
                        | Failed \<Rightarrow> (Failed, c2)))))"

text \<open>
  The host that is connected to, what is written to it first, and what is then copied; \<open>None\<close> when the connection is
  closed instead. \<open>write_error\<close> is the error of the write.
\<close>

definition handle_connection ::
  "(string \<Rightarrow> err option) \<Rightarrow> err option \<Rightarrow> conn \<Rightarrow> (string \<times> byte list \<times> conn) option outcome" where
  "handle_connection dial write_error c =
     (case ss_get_request c of
        (Crashed, c1) \<Rightarrow> Crashed
      | (Failed, c1) \<Rightarrow> Failed
      | (Returned (Inl e), c1) \<Rightarrow> Returned None
      | (Returned (Inr (host, extra)), c1) \<Rightarrow>
          (case dial host of
             Some e \<Rightarrow> Returned None
           | None \<Rightarrow>
               (case extra of
                  None \<Rightarrow> Returned (Some (host, [], c1))
                | Some x \<Rightarrow> (case write_error of Some e \<Rightarrow> Returned None | None \<Rightarrow> Returned (Some (host, x, c1))))))"

text \<open>The counter of the connections and the count of which the log tells next.\<close>

definition log_cnt_delta :: int where "log_cnt_delta = 100"

definition connection_opened :: "int \<times> int \<Rightarrow> int \<times> int" where
  "connection_opened s = (let (cnt, nxt) = s; cnt1 = cnt + 1 in (cnt1, if 0 \<le> cnt1 - nxt then nxt + log_cnt_delta else nxt))"

definition connection_closed :: "int \<times> int \<Rightarrow> int \<times> int" where
  "connection_closed s = (fst s - 1, snd s)"

section \<open>Ports and passwords\<close>

record server_config =
  ssc_port :: int
  ssc_password :: string
  ssc_method :: string
  ssc_port_password :: "(string, string) gomap"

record port_listener =
  pl_port :: string
  pl_password :: string
  pl_open :: bool

text \<open>The manager's map has the password and the listener of a port; what waits are started goroutines.\<close>

record pass_state =
  ps_config :: server_config
  ps_ports :: "(string, string \<times> nat) gomap"
  ps_listeners :: "port_listener list"
  ps_pending :: "(string \<times> string) list"

definition pm_add :: "string \<Rightarrow> string \<Rightarrow> nat \<Rightarrow> pass_state \<Rightarrow> pass_state" where
  "pm_add port password i s = s\<lparr>ps_ports := AList.update port (password, i) (ps_ports s)\<rparr>"

definition pm_get :: "string \<Rightarrow> pass_state \<Rightarrow> (string \<times> nat) option" where
  "pm_get port s = map_of (ps_ports s) port"

definition close_listener :: "nat \<Rightarrow> pass_state \<Rightarrow> pass_state" where
  "close_listener i s = s\<lparr>ps_listeners := (ps_listeners s)[i := (ps_listeners s ! i)\<lparr>pl_open := False\<rparr>]\<rparr>"

definition pm_del :: "string \<Rightarrow> pass_state \<Rightarrow> pass_state" where
  "pm_del port s =
     (case pm_get port s of
        None \<Rightarrow> s
      | Some (_, i) \<Rightarrow> (let s1 = close_listener i s in s1\<lparr>ps_ports := AList.delete port (ps_ports s1)\<rparr>))"

definition start_run :: "string \<Rightarrow> string \<Rightarrow> pass_state \<Rightarrow> pass_state" where
  "start_run port password s = s\<lparr>ps_pending := ps_pending s @ [(port, password)]\<rparr>"

definition update_port_passwd :: "string \<Rightarrow> string \<Rightarrow> pass_state \<Rightarrow> pass_state" where
  "update_port_passwd port password s =
     (case pm_get port s of
        None \<Rightarrow> start_run port password s
      | Some (old, i) \<Rightarrow> if old = password then s else start_run port password (close_listener i s))"

text \<open>The start of \<open>run\<close>: a port that cannot be listened at ends the program, which an open listener is the reason for.\<close>

definition run_listen :: "string \<Rightarrow> string \<Rightarrow> pass_state \<Rightarrow> pass_state option" where
  "run_listen port password s =
     (if list_ex (\<lambda>l. pl_open l \<and> pl_port l = port) (ps_listeners s) then None
      else Some (pm_add port password (length (ps_listeners s))
             (s\<lparr>ps_listeners := ps_listeners s @ [\<lparr>pl_port = port, pl_password = password, pl_open = True\<rparr>]\<rparr>)))"

fun run_all :: "(string \<times> string) list \<Rightarrow> pass_state \<Rightarrow> pass_state option" where
  "run_all [] s = Some s"
| "run_all (r # rs) s = Option.bind (run_listen (fst r) (snd r) s) (run_all rs)"

definition settle :: "((string \<times> string) list \<Rightarrow> (string \<times> string) list) \<Rightarrow> pass_state \<Rightarrow> pass_state option" where
  "settle ord s = run_all (ord (ps_pending s)) (s\<lparr>ps_pending := []\<rparr>)"

text \<open>The cipher of a port is made for its first connection; an error closes the connection.\<close>

definition accept_conn :: "(string \<Rightarrow> string \<Rightarrow> string + 'c) \<Rightarrow> string \<Rightarrow> string \<Rightarrow> 'c option \<Rightarrow> 'c option \<times> 'c option" where
  "accept_conn new_cipher encmethod password cached =
     (case cached of
        Some c \<Rightarrow> (Some c, Some c)
      | None \<Rightarrow> (case new_cipher encmethod password of Inl e \<Rightarrow> (None, None) | Inr c \<Rightarrow> (Some c, Some c)))"

definition server_enough_options :: "server_config \<Rightarrow> bool" where
  "server_enough_options cfg \<longleftrightarrow> ssc_port cfg \<noteq> 0 \<and> ssc_password cfg \<noteq> []"

definition unify_port_password :: "server_config \<Rightarrow> err option \<times> server_config" where
  "unify_port_password cfg =
     (if ssc_port_password cfg = [] then
        (if \<not> server_enough_options cfg then (Some (Plain ''not enough options''), cfg)
         else (None, cfg\<lparr>ssc_port_password := [(itoa (ssc_port cfg), ssc_password cfg)]\<rparr>))
      else (None, cfg))"

text \<open>A reload, with the configuration that is parsed; \<open>ord\<close> ranges over the maps.\<close>

definition update_passwd ::
  "((string, string) gomap \<Rightarrow> (string, string) gomap) \<Rightarrow> string + server_config \<Rightarrow> pass_state \<Rightarrow> pass_state" where
  "update_passwd ord parsed s =
     (case parsed of
        Inl e \<Rightarrow> s
      | Inr new \<Rightarrow>
          (let old = ps_config s; (e, cfg) = unify_port_password new; s1 = s\<lparr>ps_config := cfg\<rparr> in
           if e \<noteq> None then s1
           else (let s2 = fold (\<lambda>(p, w). update_port_passwd p w) (ord (ssc_port_password cfg)) s1;
                     left = filter (\<lambda>(p, _). map_of (ssc_port_password cfg) p = None) (ssc_port_password old)
                 in fold (\<lambda>(p, _). pm_del p) (ord left) s2)))"

text \<open>The start of the server, with the configuration of the file and that of the flags.\<close>

definition server_start ::
  "(string \<Rightarrow> bool) \<Rightarrow> ((string, string) gomap \<Rightarrow> (string, string) gomap) \<Rightarrow> server_config \<Rightarrow> pass_state option" where
  "server_start cipher_ok ord cfg0 =
     (let cfg = (if ssc_method cfg0 = [] then cfg0\<lparr>ssc_method := ''aes-256-cfb''\<rparr> else cfg0) in
      if \<not> cipher_ok (ssc_method cfg) then None
      else (case unify_port_password cfg of
              (Some e, _) \<Rightarrow> None
            | (None, cfg') \<Rightarrow>
                Some \<lparr>ps_config = cfg', ps_ports = [], ps_listeners = [], ps_pending = ord (ssc_port_password cfg')\<rparr>))"

section \<open>The local program\<close>

text \<open>
  The address is only shown. Without the flag for debugging it is the port; with it the address, which has the port
  already, gets it again.
\<close>

definition local_request_addr :: "bool \<Rightarrow> byte list \<Rightarrow> string outcome" where
  "local_request_addr debug req =
     (case (if debug then request_addr 3 req else Returned []) of
        Returned host \<Rightarrow> Returned (join_host_port host (show_nat (request_port req)))
      | Crashed \<Rightarrow> Crashed
      | Failed \<Rightarrow> Failed)"

definition local_get_request :: "bool \<Rightarrow> conn \<Rightarrow> (err + byte list \<times> string) outcome \<times> conn" where
  "local_get_request debug c = get_request_with (local_request_addr debug) c"

definition local_handle_connection ::
  "bool \<Rightarrow> (nat \<Rightarrow> err option) \<Rightarrow> (nat \<Rightarrow> nat \<Rightarrow> nat) \<Rightarrow> nat \<Rightarrow> conn \<Rightarrow> nat list \<Rightarrow> session outcome \<times> nat list" where
  "local_handle_connection debug dial roll n c fails = serve_socks_with (local_get_request debug) dial roll n c fails"

text \<open>The options: \<open>None\<close> ends the program; otherwise the servers and the address to listen at.\<close>

definition local_main ::
  "(string \<Rightarrow> string \<Rightarrow> string + 'c) \<Rightarrow> string \<Rightarrow> ss_config \<Rightarrow> ('c servers \<times> string) option" where
  "local_main new_cipher cmd_local cfg0 =
     (let cfg = (if sc_method cfg0 = [] then cfg0\<lparr>sc_method := ''aes-256-cfb''\<rparr> else cfg0) in
      if sc_server_password cfg = [] \<and> \<not> enough_options cfg then None
      else if sc_server_password cfg \<noteq> [] \<and> sc_local_port cfg = 0 then None
      else map_option (\<lambda>srv. (srv, cmd_local @ '':'' @ itoa (sc_local_port cfg))) (parse_server_config new_cipher cfg))"

section \<open>Lemmas: from the client to the server\<close>

lemma read_at_least_got:
  assumes "read_at_least cap lo c = (None, got, c')" "lo \<le> cap"
  shows "lo \<le> length got" "length got \<le> cap"
  using assms read_chunks_run [of "[]" cap lo "cn_chunks c"]
  by (auto simp: read_at_least_def split: prod.splits if_splits)

lemma get_request_whole_rev:
  assumes "get_request c = (Returned (Inr (raw, addr)), c')"
  shows "\<exists>req. whole_request req \<and> raw = drop 3 req \<and> request_addr 3 req = Returned addr"
proof -
  obtain buf c1 where r: "read_at_least 263 5 c = (None, buf, c1)"
    using assms by (auto simp: get_request_def get_request_with_def split: prod.splits option.splits)
  have buf: "5 \<le> length buf" using read_at_least_got [OF r] by simp
  have head: "buf ! 0 = socks_ver5" "buf ! 1 = socks_connect"
    using assms r by (auto simp: get_request_def get_request_with_def split: if_splits option.splits prod.splits)
  then obtain len where len: "request_length 3 buf = Some len"
    using assms r by (auto simp: get_request_def get_request_with_def split: if_splits option.splits prod.splits)
  define e rest c2 where "e = fst (if length buf = len then (None, [], c1) else if length buf < len then read_full (len - length buf) c1
      else (Some err_req_extra, [], c1))" and
    "rest = fst (snd (if length buf = len then (None, [], c1) else if length buf < len then read_full (len - length buf) c1
      else (Some err_req_extra, [], c1)))" and
    "c2 = snd (snd (if length buf = len then (None, [], c1) else if length buf < len then read_full (len - length buf) c1
      else (Some err_req_extra, [], c1)))"
  have res: "e = None" "raw = drop 3 (buf @ rest)" "request_addr 3 (buf @ rest) = Returned addr"
    using assms r head len
    by (auto simp: get_request_def get_request_with_def e_def rest_def Let_def split: if_splits option.splits prod.splits outcome.splits)
  have "length (buf @ rest) = len"
    using res(1) read_at_least_got [of "len - length buf" "len - length buf" c1]
    by (cases "read_full (len - length buf) c1") (auto simp: e_def rest_def read_full_def split: if_splits)
  moreover have "request_length 3 (buf @ rest) = request_length 3 buf"
    using buf by (simp add: request_length_def nth_append)
  moreover have "buf \<noteq> []" using buf by auto
  ultimately have "whole_request (buf @ rest)"
    using buf head len by (simp add: whole_request_def nth_append)
  then show ?thesis using res by blast
qed

text \<open>What follows the version and the command reads the same at the server.\<close>

lemma byte_bound: "unat (b :: byte) < 256"
  using unsigned_less [of b, where ?'a = nat] by simp

lemma add_small_byte:
  assumes "\<not> unat ((5 :: byte) + b) < 5"
  shows "unat ((5 :: byte) + b) = 5 + unat b" "unat ((2 :: byte) + b) = 2 + unat b"
proof -
  have b: "unat b < 256" by (rule byte_bound)
  have "unat ((5 :: byte) + b) = (5 + unat b) mod 256" by (simp add: unat_word_ariths)
  moreover have "(5 + n) mod 256 = n - 251" if "251 \<le> n" "n < 256" for n :: nat using that by (simp add: mod_if)
  moreover have "n - 251 < 5" if "n < 256" for n :: nat using that by simp
  ultimately have "5 + unat b < 256" using assms b by (cases "251 \<le> unat b") (metis, simp)
  then show "unat ((5 :: byte) + b) = 5 + unat b" "unat ((2 :: byte) + b) = 2 + unat b" by (simp_all add: unat_word_ariths)
qed

text \<open>A deciphered name of 254 or 255 bytes ends the server.\<close>

lemma server_long_name_crashes:
  assumes "raw ! 0 = 3" "254 \<le> unat (raw ! 1)"
  shows "request_host 0 raw = Crashed"
proof -
  have "unat (raw ! 1) < 256" by (rule byte_bound)
  with assms(2) have "unat (raw ! 1) = 254 \<or> unat (raw ! 1) = 255" by linarith
  then have "unat ((2 :: byte) + raw ! 1) < 2" by (auto simp: unat_word_ariths)
  then show ?thesis using assms(1) by (simp add: request_host_def)
qed

lemma server_reads_request:
  assumes "whole_request req" "request_addr 3 req = Returned addr"
  shows "request_length 0 (drop 3 req) = Some (length (drop 3 req))" "request_addr 0 (drop 3 req) = Returned addr"
    "2 \<le> length (drop 3 req)" "length (drop 3 req) \<le> 260"
proof -
  let ?raw = "drop 3 req"
  have req: "5 \<le> length req" "request_length 3 req = Some (length req)" using assms(1) by (auto simp: whole_request_def)
  have at: "?raw ! 0 = req ! 3" "?raw ! 1 = req ! 4" using req(1) by simp_all
  have b: "unat (req ! 4) < 256" by (rule byte_bound)
  show "2 \<le> length ?raw" using req(1) by simp
  show "request_length 0 ?raw = Some (length ?raw)" using req at by (auto simp: request_length_def split: if_splits)
  show "length ?raw \<le> 260" using req(2) b by (auto simp: request_length_def split: if_splits)
  have port: "request_port ?raw = request_port req" using req(1) by (simp add: request_port_def)
  have "request_host 0 ?raw = request_host 3 req"
  proof (cases "req ! 3 = 1 \<or> req ! 3 = 4")
    case True
    then show ?thesis using at by (auto simp: request_host_def)
  next
    case False
    then have "\<not> unat (5 + req ! 4) < 5" using assms(2) by (auto simp: request_addr_def request_host_def Let_def split: if_splits)
    from add_small_byte [OF this] show ?thesis using False at by (simp add: request_host_def Let_def)
  qed
  then show "request_addr 0 ?raw = Returned addr" using assms(2) unfolding request_addr_def port by simp
qed

text \<open>The server takes the address from the front of what it gets, and the rest is to be forwarded.\<close>

lemma ss_get_request_front:
  assumes "concat (cn_chunks d) = raw @ payload" "request_length 0 raw = Some (length raw)" "2 \<le> length raw" "length raw \<le> 260"
    "request_addr 0 raw = Returned host"
  obtains extra d' where "ss_get_request d = (Returned (Inr (host, extra)), d')"
    "(case extra of None \<Rightarrow> [] | Some x \<Rightarrow> x) @ concat (cn_chunks d') = payload"
proof -
  let ?all = "raw @ payload"
  obtain k d1 where r: "read_at_least 260 2 d = (None, take k ?all, d1)" "2 \<le> k" "k \<le> 260" "k \<le> length ?all"
    "concat (cn_chunks d1) = drop k ?all"
    by (rule read_at_least_ok [of 2 d 260, unfolded assms(1)]) (use assms(3) in auto)
  have len: "length (take k ?all) = k" using r(4) by simp
  have ne: "raw \<noteq> []" using assms(3) by auto
  have "request_length 0 (take k ?all) = request_length 0 raw"
    using r(2) assms(3) ne by (simp add: request_length_def nth_append)
  then have rl: "request_length 0 (take k ?all) = Some (length raw)" using assms(2) by simp
  show ?thesis
  proof (cases "k < length raw")
    case True
    obtain d2 where f: "read_full (length raw - k) d1 = (None, take (length raw - k) (drop k ?all), d2)"
      "concat (cn_chunks d2) = drop (length raw - k) (drop k ?all)"
      by (rule read_full_ok [of "length raw - k" d1, unfolded r(5)]) (use True in auto)
    have "take k ?all @ take (length raw - k) (drop k ?all) = raw" "concat (cn_chunks d2) = payload" using True f(2) by simp_all
    then show ?thesis using that [of None d2] r(1) rl len True f(1) assms(5) by (simp add: ss_get_request_def)
  next
    case False
    have "take (length raw) (take k ?all) = raw" "drop (length raw) (take k ?all) @ concat (cn_chunks d1) = payload"
      "length raw = k \<Longrightarrow> concat (cn_chunks d1) = payload"
      using False r(5) by (simp_all add: min_absorb1)
    then show ?thesis
      using that [of "if length raw < k then Some (drop (length raw) (take k ?all)) else None" d1] r(1) rl len False assms(5)
      by (simp add: ss_get_request_def split: if_splits)
  qed
qed

lemma serve_socks_remote:
  assumes "serve_socks dial roll n c fails = (Returned s, fails')" "sn_remote s = Some (i, raw, addr)"
  shows "\<exists>c1 c2. get_request c1 = (Returned (Inr (raw, addr)), c2)"
  using assms
  by (auto simp: serve_socks_def serve_socks_with_def Let_def split: prod.splits option.splits outcome.splits sum.splits) blast

section \<open>Lemmas: the ports\<close>

text \<open>The password under which a port is served.\<close>

definition served :: "pass_state \<Rightarrow> string \<Rightarrow> string option" where
  "served s p = (case pm_get p s of None \<Rightarrow> None | Some (w, i) \<Rightarrow> if pl_open (ps_listeners s ! i) then Some w else None)"

text \<open>Each entry of the manager has its listener, and every open listener is the one of the entry of its port.\<close>

definition ports_ok :: "pass_state \<Rightarrow> bool" where
  "ports_ok s \<longleftrightarrow>
     (\<forall>p w i. pm_get p s = Some (w, i) \<longrightarrow>
        i < length (ps_listeners s) \<and> pl_port (ps_listeners s ! i) = p \<and> pl_password (ps_listeners s ! i) = w) \<and>
     (\<forall>i < length (ps_listeners s). pl_open (ps_listeners s ! i) \<longrightarrow>
        pm_get (pl_port (ps_listeners s ! i)) s = Some (pl_password (ps_listeners s ! i), i))"

lemma served_iff:
  assumes "ports_ok s"
  shows "served s p = Some w \<longleftrightarrow> (\<exists>l \<in> set (ps_listeners s). pl_open l \<and> pl_port l = p \<and> pl_password l = w)"
proof
  assume "served s p = Some w"
  then obtain i where "pm_get p s = Some (w, i)" "pl_open (ps_listeners s ! i)"
    by (auto simp: served_def split: option.splits if_splits)
  with assms show "\<exists>l \<in> set (ps_listeners s). pl_open l \<and> pl_port l = p \<and> pl_password l = w"
    unfolding ports_ok_def by (meson nth_mem)
next
  assume "\<exists>l \<in> set (ps_listeners s). pl_open l \<and> pl_port l = p \<and> pl_password l = w"
  then obtain i where "i < length (ps_listeners s)" "pl_open (ps_listeners s ! i)" "pl_port (ps_listeners s ! i) = p"
    "pl_password (ps_listeners s ! i) = w" by (auto simp: in_set_conv_nth)
  with assms show "served s p = Some w" unfolding ports_ok_def served_def by auto
qed

lemma pm_get_simps [simp]:
  "pm_get p (s\<lparr>ps_config := cfg\<rparr>) = pm_get p s" "pm_get p (s\<lparr>ps_pending := rs\<rparr>) = pm_get p s"
  "pm_get p (s\<lparr>ps_listeners := ls\<rparr>) = pm_get p s" "pm_get p (close_listener i s) = pm_get p s" "pm_get p (start_run q w s) = pm_get p s"
  by (simp_all add: pm_get_def close_listener_def start_run_def)

lemma close_listener_ports:
  assumes "ports_ok s" "pm_get p s = Some (w, i)"
  shows "ports_ok (close_listener i s)" "served (close_listener i s) = (served s)(p := None)"
proof -
  have i: "i < length (ps_listeners s)" "pl_port (ps_listeners s ! i) = p" using assms by (auto simp: ports_ok_def)
  then show "ports_ok (close_listener i s)"
    using assms by (simp add: ports_ok_def) (auto simp: close_listener_def nth_list_update)
  have "j \<noteq> i" if "pm_get q s = Some (w', j)" "q \<noteq> p" for q w' j
    using assms(1) that i(2) by (auto simp: ports_ok_def)
  then show "served (close_listener i s) = (served s)(p := None)"
    using assms(2) i(1) by (auto simp: served_def fun_eq_iff close_listener_def nth_list_update pm_get_def split: option.splits)
qed

lemma start_run_ports [simp]: "ports_ok (start_run p w s) = ports_ok s" "served (start_run p w s) = served s"
  by (simp_all add: ports_ok_def served_def fun_eq_iff split: option.split) (simp_all add: start_run_def)

lemma start_run_pending [simp]: "ps_pending (start_run p w s) = ps_pending s @ [(p, w)]" "ps_pending (close_listener i s) = ps_pending s"
  by (simp_all add: start_run_def close_listener_def)

lemma served_simps [simp]:
  "served (s\<lparr>ps_config := cfg\<rparr>) = served s" "served (s\<lparr>ps_pending := rs\<rparr>) = served s"
  "ports_ok (s\<lparr>ps_config := cfg\<rparr>) = ports_ok s" "ports_ok (s\<lparr>ps_pending := rs\<rparr>) = ports_ok s"
  by (simp_all add: served_def ports_ok_def fun_eq_iff split: option.split)

text \<open>One port of a reload, when its entry, if it has one, is open.\<close>

lemma update_port_passwd_run:
  assumes "ports_ok s" "pm_get p s \<noteq> None \<longrightarrow> served s p \<noteq> None"
  shows "ports_ok (update_port_passwd p w s)"
    "served (update_port_passwd p w s) = (served s)(p := if served s p = Some w then Some w else None)"
    "ps_pending (update_port_passwd p w s) = ps_pending s @ (if served s p = Some w then [] else [(p, w)])"
    "pm_get q (update_port_passwd p w s) = pm_get q s" "ps_config (update_port_passwd p w s) = ps_config s"
proof -
  consider (none) "pm_get p s = None" | (same) i where "pm_get p s = Some (w, i)" | (other) v i where "pm_get p s = Some (v, i)" "v \<noteq> w"
    by (metis option.exhaust prod.exhaust)
  then have "ports_ok (update_port_passwd p w s) \<and>
    served (update_port_passwd p w s) = (served s)(p := if served s p = Some w then Some w else None) \<and>
    ps_pending (update_port_passwd p w s) = ps_pending s @ (if served s p = Some w then [] else [(p, w)]) \<and>
    pm_get q (update_port_passwd p w s) = pm_get q s \<and> ps_config (update_port_passwd p w s) = ps_config s"
  proof cases
    case none
    then have "served s p = None" by (simp add: served_def)
    with none assms show ?thesis by (auto simp: update_port_passwd_def fun_eq_iff) (simp add: start_run_def)
  next
    case same
    then have "served s p = Some w" using assms(2) by (auto simp: served_def split: if_splits)
    with same assms show ?thesis by (auto simp: update_port_passwd_def fun_eq_iff)
  next
    case other
    then have "served s p \<noteq> Some w" by (auto simp: served_def)
    with other assms close_listener_ports [OF assms(1) other(1)] show ?thesis
      by (simp add: update_port_passwd_def) (simp add: start_run_def close_listener_def)
  qed
  then show "ports_ok (update_port_passwd p w s)"
    "served (update_port_passwd p w s) = (served s)(p := if served s p = Some w then Some w else None)"
    "ps_pending (update_port_passwd p w s) = ps_pending s @ (if served s p = Some w then [] else [(p, w)])"
    "pm_get q (update_port_passwd p w s) = pm_get q s" "ps_config (update_port_passwd p w s) = ps_config s"
    by simp_all
qed

lemma update_all_run:
  assumes "ports_ok s" "wf_map ps" "\<forall>p \<in> set (map fst ps). pm_get p s \<noteq> None \<longrightarrow> served s p \<noteq> None"
  shows "ports_ok (fold (\<lambda>(p, w). update_port_passwd p w) ps s) \<and>
    (\<forall>q. served (fold (\<lambda>(p, w). update_port_passwd p w) ps s) q =
       (case map_of ps q of None \<Rightarrow> served s q | Some w \<Rightarrow> if served s q = Some w then Some w else None)) \<and>
    ps_pending (fold (\<lambda>(p, w). update_port_passwd p w) ps s) = ps_pending s @ filter (\<lambda>(p, w). served s p \<noteq> Some w) ps \<and>
    (\<forall>q. pm_get q (fold (\<lambda>(p, w). update_port_passwd p w) ps s) = pm_get q s) \<and>
    ps_config (fold (\<lambda>(p, w). update_port_passwd p w) ps s) = ps_config s"
  using assms
proof (induction ps arbitrary: s)
  case Nil
  then show ?case by simp
next
  case (Cons a ps)
  obtain p w where a: "a = (p, w)" by fastforce
  have p: "p \<notin> set (map fst ps)" "wf_map ps" using Cons.prems(2) a by (simp_all add: wf_map_def)
  let ?s1 = "update_port_passwd p w s"
  have one: "pm_get p s \<noteq> None \<longrightarrow> served s p \<noteq> None" using Cons.prems(3) a by simp
  note u = update_port_passwd_run [OF Cons.prems(1) one]
  have "\<forall>q \<in> set (map fst ps). pm_get q ?s1 \<noteq> None \<longrightarrow> served ?s1 q \<noteq> None"
    using Cons.prems(3) p(1) u(2,4) a by auto
  note ih = Cons.IH [OF u(1) p(2) this]
  have filt: "filter (\<lambda>(q, v). served ?s1 q \<noteq> Some v) ps = filter (\<lambda>(q, v). served s q \<noteq> Some v) ps"
    using p(1) u(2) by (intro filter_cong) force+
  have mp: "map_of ps p = None" using p(1) by (simp add: map_of_eq_None_iff)
  show ?case
    using ih u filt mp a by (auto split: option.split)
qed

lemma pm_del_run:
  assumes "ports_ok s"
  shows "ports_ok (pm_del p s)" "served (pm_del p s) = (served s)(p := None)" "ps_pending (pm_del p s) = ps_pending s"
    "pm_get q (pm_del p s) = (if q = p then None else pm_get q s)" "ps_config (pm_del p s) = ps_config s"
proof -
  have "ports_ok (pm_del p s) \<and> served (pm_del p s) = (served s)(p := None) \<and> ps_pending (pm_del p s) = ps_pending s \<and>
    (\<forall>q. pm_get q (pm_del p s) = (if q = p then None else pm_get q s)) \<and> ps_config (pm_del p s) = ps_config s"
  proof (cases "pm_get p s")
    case None
    then show ?thesis using assms by (auto simp: pm_del_def served_def fun_eq_iff)
  next
    case (Some wi)
    obtain w i where wi: "pm_get p s = Some (w, i)" using Some by (cases wi) auto
    let ?c = "close_listener i s"
    let ?d = "?c\<lparr>ps_ports := AList.delete p (ps_ports ?c)\<rparr>"
    have d: "pm_del p s = ?d" using wi by (simp add: pm_del_def Let_def)
    have get: "pm_get q ?d = (if q = p then None else pm_get q s)" for q
      by (simp add: pm_get_def close_listener_def delete_conv restrict_map_def)
    have lst: "ps_listeners ?d = ps_listeners ?c" by simp
    have closed: "pl_open (ps_listeners ?c ! j) \<Longrightarrow> j < length (ps_listeners ?c) \<Longrightarrow> pl_port (ps_listeners ?c ! j) \<noteq> p" for j
      using close_listener_ports [OF assms wi] wi assms by (auto simp: ports_ok_def close_listener_def nth_list_update split: if_splits)
    have "ports_ok ?d"
      using close_listener_ports(1) [OF assms wi] closed unfolding ports_ok_def lst get by auto
    moreover have "served ?d = (served ?c)(p := None)"
      unfolding served_def get lst by (auto simp: fun_eq_iff split: option.split)
    ultimately show ?thesis
      using close_listener_ports(2) [OF assms wi] get by (simp add: d) (simp add: close_listener_def)
  qed
  then show "ports_ok (pm_del p s)" "served (pm_del p s) = (served s)(p := None)" "ps_pending (pm_del p s) = ps_pending s"
    "pm_get q (pm_del p s) = (if q = p then None else pm_get q s)" "ps_config (pm_del p s) = ps_config s"
    by simp_all
qed

lemma del_all_run:
  assumes "ports_ok s"
  shows "ports_ok (fold (\<lambda>(p, _). pm_del p) ps s) \<and>
    (\<forall>q. served (fold (\<lambda>(p, _). pm_del p) ps s) q = (if q \<in> set (map fst ps) then None else served s q)) \<and>
    ps_pending (fold (\<lambda>(p, _). pm_del p) ps s) = ps_pending s \<and>
    (\<forall>q. pm_get q (fold (\<lambda>(p, _). pm_del p) ps s) = (if q \<in> set (map fst ps) then None else pm_get q s)) \<and>
    ps_config (fold (\<lambda>(p, _). pm_del p) ps s) = ps_config s"
  using assms
proof (induction ps arbitrary: s)
  case Nil
  then show ?case by simp
next
  case (Cons a ps)
  obtain p v where a: "a = (p, v)" by fastforce
  note d = pm_del_run [OF Cons.prems, where p = p]
  note ih = Cons.IH [OF d(1)]
  show ?case using ih d a by auto
qed

lemma run_listen_run:
  assumes "ports_ok s" "served s p = None"
  obtains s' where "run_listen p w s = Some s'" "ports_ok s'" "served s' = (served s)(p \<mapsto> w)" "ps_pending s' = ps_pending s"
    "\<forall>q. pm_get q s' \<noteq> None \<longleftrightarrow> q = p \<or> pm_get q s \<noteq> None" "ps_config s' = ps_config s"
proof -
  let ?l = "\<lparr>pl_port = p, pl_password = w, pl_open = True\<rparr>"
  let ?s' = "pm_add p w (length (ps_listeners s)) (s\<lparr>ps_listeners := ps_listeners s @ [?l]\<rparr>)"
  have shut: "\<not> (pl_open l \<and> pl_port l = p)" if "l \<in> set (ps_listeners s)" for l
    using served_iff [OF assms(1), of p "pl_password l"] assms(2) that by auto
  then have r: "run_listen p w s = Some ?s'" by (auto simp: run_listen_def list_ex_iff)
  have get: "pm_get q ?s' = (if q = p then Some (w, length (ps_listeners s)) else pm_get q s)" for q
    by (simp add: pm_get_def pm_add_def update_conv')
  have lst: "ps_listeners ?s' = ps_listeners s @ [?l]" by (simp add: pm_add_def)
  have old: "pm_get q s = Some (v, i) \<Longrightarrow> i < length (ps_listeners s)" for q v i using assms(1) by (auto simp: ports_ok_def)
  have "ports_ok ?s'"
    using assms(1) shut unfolding ports_ok_def get lst by (auto simp: nth_append less_Suc_eq)
  moreover have "served ?s' = (served s)(p \<mapsto> w)"
    unfolding served_def get lst using old by (auto simp: fun_eq_iff nth_append split: option.split)
  ultimately show ?thesis using that [of ?s'] r get by (simp add: pm_add_def)
qed

lemma run_all_run:
  assumes "ports_ok s" "wf_map rs" "\<forall>p \<in> set (map fst rs). served s p = None"
  shows "\<exists>s'. run_all rs s = Some s' \<and> ports_ok s' \<and> served s' = served s ++ map_of rs \<and> ps_pending s' = ps_pending s \<and>
    (\<forall>q. pm_get q s' \<noteq> None \<longleftrightarrow> q \<in> set (map fst rs) \<or> pm_get q s \<noteq> None) \<and> ps_config s' = ps_config s"
  using assms
proof (induction rs arbitrary: s)
  case Nil
  then show ?case by simp
next
  case (Cons a rs)
  obtain p w where a: "a = (p, w)" by fastforce
  have p: "p \<notin> set (map fst rs)" "wf_map rs" using Cons.prems(2) a by (simp_all add: wf_map_def)
  have none: "served s p = None" using Cons.prems(3) a by simp
  obtain s1 where s1: "run_listen p w s = Some s1" "ports_ok s1" "served s1 = (served s)(p \<mapsto> w)" "ps_pending s1 = ps_pending s"
    "\<forall>q. pm_get q s1 \<noteq> None \<longleftrightarrow> q = p \<or> pm_get q s \<noteq> None" "ps_config s1 = ps_config s"
    by (rule run_listen_run [OF Cons.prems(1) none, of w])
  have "\<forall>q \<in> set (map fst rs). served s1 q = None" using Cons.prems(3) p(1) s1(3) by auto
  from Cons.IH [OF s1(2) p(2) this] obtain s' where s': "run_all rs s1 = Some s'" "ports_ok s'" "served s' = served s1 ++ map_of rs"
    "ps_pending s' = ps_pending s1" "\<forall>q. pm_get q s' \<noteq> None \<longleftrightarrow> q \<in> set (map fst rs) \<or> pm_get q s1 \<noteq> None"
    "ps_config s' = ps_config s1" by blast
  have mp: "map_of rs p = None" using p(1) by (simp add: map_of_eq_None_iff)
  have "served s' = served s ++ map_of (a # rs)"
    using s'(3) s1(3) mp a by (auto simp: map_add_def fun_eq_iff split: option.split)
  moreover have "pm_get q s' \<noteq> None \<longleftrightarrow> q \<in> set (map fst (a # rs)) \<or> pm_get q s \<noteq> None" for q
    using s'(5) s1(5) a by auto
  moreover have "run_all (a # rs) s = Some s'" using s'(1) s1(1) a by simp
  ultimately show ?case using s'(2,4,6) s1(4,6) by metis
qed

text \<open>What is served is what the configuration says.\<close>

definition serves_config :: "pass_state \<Rightarrow> bool" where
  "serves_config s \<longleftrightarrow>
     ports_ok s \<and> ps_pending s = [] \<and> served s = map_of (ssc_port_password (ps_config s)) \<and> (\<forall>p. pm_get p s \<noteq> None \<longrightarrow> served s p \<noteq> None)"

definition any_order :: "(('k, 'v) gomap \<Rightarrow> ('k, 'v) gomap) \<Rightarrow> bool" where
  "any_order ord \<longleftrightarrow> (\<forall>m. range_order m (ord m))"

lemma any_order_map:
  assumes "any_order ord" "wf_map m"
  shows "wf_map (ord m)" "map_of (ord m) = map_of m" "set (map fst (ord m)) = set (map fst m)"
proof -
  have "range_order m (ord m)" using assms(1) by (simp add: any_order_def)
  then show "wf_map (ord m)" "map_of (ord m) = map_of m" "set (map fst (ord m)) = set (map fst m)"
    using range_order_wf range_order_map_of range_order_set assms(2) by (blast, blast, simp add: range_order_set)
qed

lemma settle_run:
  assumes "ports_ok s" "any_order ord" "wf_map (ps_pending s)" "\<forall>p \<in> set (map fst (ps_pending s)). served s p = None"
  obtains s' where "settle ord s = Some s'" "ports_ok s'" "served s' = served s ++ map_of (ps_pending s)" "ps_pending s' = []"
    "\<forall>q. pm_get q s' \<noteq> None \<longleftrightarrow> q \<in> set (map fst (ps_pending s)) \<or> pm_get q s \<noteq> None" "ps_config s' = ps_config s"
proof -
  note o = any_order_map [OF assms(2,3)]
  have "\<exists>s'. run_all (ord (ps_pending s)) (s\<lparr>ps_pending := []\<rparr>) = Some s' \<and> ports_ok s' \<and>
      served s' = served (s\<lparr>ps_pending := []\<rparr>) ++ map_of (ord (ps_pending s)) \<and> ps_pending s' = ps_pending (s\<lparr>ps_pending := []\<rparr>) \<and>
      (\<forall>q. pm_get q s' \<noteq> None \<longleftrightarrow> q \<in> set (map fst (ord (ps_pending s))) \<or> pm_get q (s\<lparr>ps_pending := []\<rparr>) \<noteq> None) \<and>
      ps_config s' = ps_config (s\<lparr>ps_pending := []\<rparr>)"
    using assms(1,4) o(1,3) by (intro run_all_run) simp_all
  then show ?thesis using that o(2,3) by (auto simp: settle_def)
qed

text \<open>
  A reload with any ports open: those of the new configuration are served, those of the old one that are not
  in it are closed, and the others stay.
\<close>

definition all_open :: "pass_state \<Rightarrow> bool" where
  "all_open s \<longleftrightarrow> ports_ok s \<and> ps_pending s = [] \<and> (\<forall>p. pm_get p s \<noteq> None \<longrightarrow> served s p \<noteq> None)"

lemma serves_config_iff: "serves_config s \<longleftrightarrow> all_open s \<and> served s = map_of (ssc_port_password (ps_config s))"
  by (auto simp: serves_config_def all_open_def)

lemma reload_run:
  assumes "all_open s" "wf_map (ssc_port_password (ps_config s))" "any_order ord" "any_order ord'"
    and "unify_port_password new = (None, cfg)" "wf_map (ssc_port_password cfg)"
  shows "\<exists>s'. settle ord' (update_passwd ord (Inr new) s) = Some s' \<and> all_open s' \<and> ps_config s' = cfg \<and>
    served s' = (\<lambda>q. if map_of (ssc_port_password (ps_config s)) q = None then served s q else None) ++ map_of (ssc_port_password cfg)"
proof -
  let ?ps = "ssc_port_password cfg" and ?old = "ssc_port_password (ps_config s)"
  let ?s1 = "s\<lparr>ps_config := cfg\<rparr>"
  let ?s2 = "fold (\<lambda>(p, w). update_port_passwd p w) (ord ?ps) ?s1"
  let ?left = "filter (\<lambda>(p, _). map_of ?ps p = None) ?old"
  let ?s3 = "fold (\<lambda>(p, _). pm_del p) (ord ?left) ?s2"
  have s: "ports_ok s" "ps_pending s = []" "\<And>p. pm_get p s \<noteq> None \<Longrightarrow> served s p \<noteq> None"
    using assms(1) by (auto simp: all_open_def)
  note o = any_order_map [OF assms(3,6)]
  have left: "wf_map ?left" using assms(2) by simp
  note ol = any_order_map [OF assms(3) left]
  have open1: "\<forall>p \<in> set (map fst (ord ?ps)). pm_get p ?s1 \<noteq> None \<longrightarrow> served ?s1 p \<noteq> None" using s(3) by simp
  have ok1: "ports_ok ?s1" using s(1) by simp
  note u = update_all_run [OF ok1 o(1) open1]
  note d = del_all_run [OF conjunct1 [OF u], of "ord ?left"]
  have in_left: "q \<in> set (map fst (ord ?left)) \<longleftrightarrow> map_of ?old q \<noteq> None \<and> map_of ?ps q = None" for q
    unfolding ol(3) by (force simp: map_of_eq_None_iff)
  have served3: "served ?s3 q = (case map_of ?ps q of Some w \<Rightarrow> if served s q = Some w then Some w else None
      | None \<Rightarrow> if map_of ?old q = None then served s q else None)" for q
    using d u o(2) in_left [of q] by (auto split: option.splits)
  have pend3: "ps_pending ?s3 = filter (\<lambda>(p, w). served s p \<noteq> Some w) (ord ?ps)" using d u s(2) by simp
  have wf3: "wf_map (ps_pending ?s3)" unfolding pend3 using o(1) by simp
  have mp3: "map_of (ps_pending ?s3) q = (case map_of ?ps q of Some w \<Rightarrow> if served s q = Some w then None else Some w | None \<Rightarrow> None)" for q
    unfolding pend3 using map_of_filter_wf [OF o(1), of "\<lambda>p w. served s p \<noteq> Some w" q] o(2) by (auto split: option.split)
  have none3: "\<forall>p \<in> set (map fst (ps_pending ?s3)). served ?s3 p = None"
  proof
    fix p assume "p \<in> set (map fst (ps_pending ?s3))"
    then have "map_of (ps_pending ?s3) p \<noteq> None" by (simp add: map_of_eq_None_iff)
    then show "served ?s3 p = None" using mp3 served3 by (auto split: if_splits option.splits)
  qed
  obtain s' where s': "settle ord' ?s3 = Some s'" "ports_ok s'" "served s' = served ?s3 ++ map_of (ps_pending ?s3)" "ps_pending s' = []"
    "\<forall>q. pm_get q s' \<noteq> None \<longleftrightarrow> q \<in> set (map fst (ps_pending ?s3)) \<or> pm_get q ?s3 \<noteq> None" "ps_config s' = ps_config ?s3"
    by (rule settle_run [OF conjunct1 [OF d] assms(4) wf3 none3])
  have upd: "update_passwd ord (Inr new) s = ?s3" using assms(5) by (simp add: update_passwd_def)
  have cfg: "ps_config s' = cfg" using s'(6) d u by simp
  have serves: "served s' = (\<lambda>q. if map_of ?old q = None then served s q else None) ++ map_of ?ps"
    unfolding s'(3) by (auto simp: fun_eq_iff map_add_def mp3 served3 split: option.split)
  have "served s' q \<noteq> None" if "pm_get q s' \<noteq> None" for q
  proof (cases "map_of ?ps q")
    case (Some w)
    then show ?thesis using serves by (simp add: map_add_def)
  next
    case None
    then have "map_of (ps_pending ?s3) q = None" using mp3 [of q] by simp
    then have "q \<notin> set (map fst (ps_pending ?s3))" unfolding map_of_eq_None_iff by simp
    then have "pm_get q ?s3 \<noteq> None" using that s'(5) by blast
    then have "pm_get q s \<noteq> None" "map_of ?old q = None" using d u in_left [of q] None by (auto split: if_splits)
    then show ?thesis using s(3) [of q] serves None by (simp add: map_add_def)
  qed
  then have "all_open s'" using s'(2,4) by (simp add: all_open_def)
  then show ?thesis using s'(1) upd cfg serves by metis
qed

section \<open>Properties\<close>

text \<open>
  C18. The server connects to what the client asked for. When the transport of the client sends the address of a
  request, of whatever type, to a server, the server reads from it, in whatever pieces it arrives, the same
  host and port, and forwards exactly what follows the address.
\<close>

theorem server_dials_request:
  assumes "serve_socks dial roll n c fails = (Returned s, fails')" "sn_remote s = Some (i, raw, addr)"
    and "concat (cn_chunks d) = raw @ payload" "server_dial addr = None"
  shows "\<exists>first d'. handle_connection server_dial None d = Returned (Some (addr, first, d')) \<and> first @ concat (cn_chunks d') = payload"
proof -
  obtain req where req: "whole_request req" "raw = drop 3 req" "request_addr 3 req = Returned addr"
    using serve_socks_remote [OF assms(1,2)] get_request_whole_rev by blast
  note front = server_reads_request [OF req(1,3), folded req(2)]
  obtain extra d' where "ss_get_request d = (Returned (Inr (addr, extra)), d')"
    "(case extra of None \<Rightarrow> [] | Some x \<Rightarrow> x) @ concat (cn_chunks d') = payload"
    by (rule ss_get_request_front [OF assms(3) front(1,3,4,2)])
  then show ?thesis using assms(4) by (cases extra) (auto simp: handle_connection_def)
qed

text \<open>
  C33. A reload serves the new configuration. When every port of the configuration is served under its password, a
  reload with a usable configuration, after the listeners it starts have come up in any order, leaves exactly the
  ports of the new one served, each under its new password, and the program does not end.
\<close>

theorem reload_serves_config:
  assumes "serves_config s" "wf_map (ssc_port_password (ps_config s))" "any_order ord" "any_order ord'"
    and "unify_port_password new = (None, cfg)" "wf_map (ssc_port_password cfg)"
  shows "\<exists>s'. settle ord' (update_passwd ord (Inr new) s) = Some s' \<and> serves_config s' \<and> ps_config s' = cfg \<and>
    served s' = map_of (ssc_port_password cfg)"
proof -
  have s: "all_open s" "served s = map_of (ssc_port_password (ps_config s))" using assms(1) by (simp_all add: serves_config_iff)
  obtain s' where s': "settle ord' (update_passwd ord (Inr new) s) = Some s'" "all_open s'" "ps_config s' = cfg"
    "served s' = (\<lambda>q. if map_of (ssc_port_password (ps_config s)) q = None then served s q else None) ++ map_of (ssc_port_password cfg)"
    using reload_run [OF s(1) assms(2-6)] by blast
  have "served s' = map_of (ssc_port_password cfg)" using s'(4) s(2) by (auto simp: map_add_def fun_eq_iff split: option.split)
  then show ?thesis using s' by (simp add: serves_config_iff)
qed

text \<open>
  A bad reload leaves ports open. After a reload whose configuration names no port and a next one that is good, every
  port that was served before and is not in the new configuration is still served, because the bad configuration has
  replaced the one that lists it.
\<close>

lemma bad_reload_leaves_ports:
  assumes "serves_config s" "any_order ord" "any_order ord'"
    and "unify_port_password bad = (Some e, bad)" "unify_port_password new = (None, cfg)" "wf_map (ssc_port_password cfg)"
  shows "\<exists>s'. settle ord' (update_passwd ord (Inr new) (update_passwd ord (Inr bad) s)) = Some s' \<and>
    served s' = served s ++ map_of (ssc_port_password cfg)"
proof -
  let ?s1 = "update_passwd ord (Inr bad) s"
  have s1: "?s1 = s\<lparr>ps_config := bad\<rparr>" "ssc_port_password bad = []"
    using assms(4) by (auto simp: update_passwd_def unify_port_password_def split: if_splits)
  moreover have "all_open s" using assms(1) by (simp add: serves_config_iff)
  ultimately have "all_open ?s1" "wf_map (ssc_port_password (ps_config ?s1))" "served ?s1 = served s"
    by (simp_all add: all_open_def)
  from reload_run [OF this(1,2) assms(2,3,5,6)] this(3) s1 show ?thesis by auto
qed

section \<open>Examples\<close>

definition demo_ports :: "(string, string) gomap \<Rightarrow> server_config" where
  "demo_ports m = \<lparr>ssc_port = 0, ssc_password = [], ssc_method = ''m'', ssc_port_password = m\<rparr>"

definition demo_pass :: pass_state where
  "demo_pass = \<lparr>ps_config = demo_ports [(''1'', ''a''), (''2'', ''b'')], ps_ports = [(''1'', ''a'', 0), (''2'', ''b'', 1)],
     ps_listeners = [\<lparr>pl_port = ''1'', pl_password = ''a'', pl_open = True\<rparr>, \<lparr>pl_port = ''2'', pl_password = ''b'', pl_open = True\<rparr>],
     ps_pending = []\<rparr>"

lemma demo_serves: "serves_config demo_pass"
proof -
  have get: "pm_get p demo_pass = (if p = ''1'' then Some (''a'', 0) else if p = ''2'' then Some (''b'', 1) else None)" for p
    by (simp add: pm_get_def demo_pass_def)
  have "ports_ok demo_pass" unfolding ports_ok_def get by (simp add: demo_pass_def All_less_Suc)
  moreover have "served demo_pass = map_of (ssc_port_password (ps_config demo_pass))"
    unfolding served_def get by (simp add: demo_pass_def demo_ports_def fun_eq_iff)
  ultimately show ?thesis unfolding serves_config_def by (simp add: get) (simp add: demo_pass_def demo_ports_def)
qed

lemma any_order_same: "any_order (\<lambda>m. m)"
  by (simp add: any_order_def)

lemma demo_unify: "m \<noteq> [] \<Longrightarrow> unify_port_password (demo_ports m) = (None, demo_ports m)"
  "unify_port_password (demo_ports []) = (Some (Plain ''not enough options''), demo_ports [])"
  by (simp_all add: unify_port_password_def demo_ports_def server_enough_options_def)

lemma reload_serves_config_witness:
  "\<exists>s'. settle (\<lambda>m. m) (update_passwd (\<lambda>m. m) (Inr (demo_ports [(''2'', ''c''), (''3'', ''d'')])) demo_pass) = Some s' \<and>
     served s' ''1'' = None \<and> served s' ''2'' = Some ''c'' \<and> served s' ''3'' = Some ''d''"
proof -
  have w: "wf_map (ssc_port_password (ps_config demo_pass))" "wf_map (ssc_port_password (demo_ports [(''2'', ''c''), (''3'', ''d'')]))"
    by (simp_all add: demo_pass_def demo_ports_def wf_map_def)
  have u: "unify_port_password (demo_ports [(''2'', ''c''), (''3'', ''d'')]) = (None, demo_ports [(''2'', ''c''), (''3'', ''d'')])"
    by (rule demo_unify) simp
  show ?thesis
    using reload_serves_config [OF demo_serves w(1) any_order_same any_order_same u w(2)] by (auto simp: demo_ports_def)
qed

lemma bad_reload_leaves_ports_witness:
  "\<exists>s'. settle (\<lambda>m. m) (update_passwd (\<lambda>m. m) (Inr (demo_ports [(''2'', ''c'')]))
       (update_passwd (\<lambda>m. m) (Inr (demo_ports [])) demo_pass)) = Some s' \<and>
     served s' ''1'' = Some ''a'' \<and> served s' ''2'' = Some ''c''"
proof -
  have w: "wf_map (ssc_port_password (demo_ports [(''2'', ''c'')]))" by (simp add: demo_ports_def wf_map_def)
  have u: "unify_port_password (demo_ports [(''2'', ''c'')]) = (None, demo_ports [(''2'', ''c'')])" by (rule demo_unify) simp
  have "served demo_pass ''1'' = Some ''a''" using demo_serves by (simp add: serves_config_def demo_pass_def demo_ports_def)
  then show ?thesis
    using bad_reload_leaves_ports [OF demo_serves any_order_same any_order_same demo_unify(2) u w]
    by (auto simp: demo_ports_def map_add_def)
qed

lemma server_dials_request_witness:
  "\<exists>s raw. fst (serve_socks (\<lambda>i. None) (\<lambda>i k. 0) 1 demo_client [0]) = Returned s \<and> sn_remote s = Some (0, raw, ''a:80'') \<and>
     (\<exists>first d'. handle_connection (\<lambda>h. None) None \<lparr>cn_chunks = [raw @ [7]], cn_error = eof, cn_write = None\<rparr> =
        Returned (Some (''a:80'', first, d')) \<and> first @ concat (cn_chunks d') = [7])"
proof -
  let ?s = "\<lparr>sn_written = [5, 0] @ socks_confirm, sn_remote = Some (0, [3, 1, 97, 0, 80], ''a:80''),
    sn_rest = \<lparr>cn_chunks = [], cn_error = eof, cn_write = None\<rparr>\<rparr>"
  have s: "serve_socks (\<lambda>i. None) (\<lambda>i k. 0) 1 demo_client [0] = (Returned ?s, [0])"
    by code_simp
  have r: "sn_remote ?s = Some (0, [3, 1, 97, 0, 80], ''a:80'')" by simp
  from server_dials_request [OF s r, of "\<lparr>cn_chunks = [[3, 1, 97, 0, 80] @ [7]], cn_error = eof, cn_write = None\<rparr>" "[7]" "\<lambda>h. None"]
  show ?thesis using s by auto
qed

end
