(* ===== verification/ClientStart.thy ===== *)
theory ClientStart
  imports Pac
begin

text \<open>
  The start and the end of the client (\<open>pkg/client/client.go\<close>): the data that is wiped on request, the configuration
  that is read, upgraded and overridden by flags, and what the services, the proxy configuration and the
  client's interface start from. A fatal error and a panic end the program as \<open>Died\<close>, \<open>os.Exit\<close> as \<open>Ended\<close>.
\<close>

section \<open>The start\<close>

record start_flags =
  fl_wipe :: bool
  fl_save_extension :: bool
  fl_auth_key :: string
  fl_bind_addr :: string
  fl_central_addr :: string
  fl_upgrade_url :: string

text \<open>
  The disk: the directory of the configuration, its files, and whether directories can be made, files written, the extension
  saved and the internal server started.
\<close>

record start_env =
  se_dir :: string
  se_settings :: "string option"
  se_central :: "string option"
  se_dir_ok :: bool
  se_log_ok :: bool
  se_write_ok :: bool
  se_extension_ok :: bool
  se_http_ok :: bool
  se_now :: time

datatype 'a start_result = Ended nat | Died | Running 'a

definition wipe_data :: "start_flags \<Rightarrow> start_env \<Rightarrow> start_env option" where
  "wipe_data fl e =
     (if \<not> fl_wipe fl then Some e
      else if se_dir e = [] then None
      else if se_settings e = None then None
      else Some (e\<lparr>se_settings := None, se_central := None\<rparr>))"

text \<open>The flags that override the settings, and whether the settings changed.\<close>

definition override_settings :: "start_flags \<Rightarrow> settings \<times> bool \<Rightarrow> settings \<times> bool" where
  "override_settings fl sc0 =
     (let sc1 = (if fl_auth_key fl \<noteq> []
                 then ((fst sc0)\<lparr>s_local := (s_local (fst sc0))\<lparr>l_client_auth_key := fl_auth_key fl\<rparr>\<rparr>, True) else sc0);
          sc2 = (if fl_bind_addr fl \<noteq> []
                 then ((fst sc1)\<lparr>s_local := (s_local (fst sc1))\<lparr>l_client_bind_addr := fl_bind_addr fl\<rparr>\<rparr>, True) else sc1)
      in if fl_central_addr fl \<noteq> []
         then ((fst sc2)\<lparr>s_local := (s_local (fst sc2))\<lparr>l_central_addr := fl_central_addr fl\<rparr>\<rparr>, True) else sc2)"

text \<open>What the settings file holds before the client writes it, as far as it can be read.\<close>

definition settings_on_disk :: "(string \<Rightarrow> string) \<Rightarrow> string option \<Rightarrow> settings" where
  "settings_on_disk sha256 contents =
     (case contents of
        None \<Rightarrow> zero_settings
      | Some d \<Rightarrow> (case parse_config sha256 d of Returned s \<Rightarrow> s | _ \<Rightarrow> zero_settings))"

definition unread_config :: config where
  "unread_config =
     (let none = \<lparr>h_name = [], h_hosts = [], h_country_code = []\<rparr>
      in \<lparr>cfg_settings = zero_settings, cfg_blocked_central = none, cfg_blocked = none, cfg_direct = none, cfg_read = False\<rparr>)"

record running =
  rn_api :: client_api
  rn_transports :: "(string, transport) gomap"
  rn_manager :: "manager \<times> action list"
  rn_pac :: pac
  rn_binary_upgrades :: bool

text \<open>
  What \<open>Run\<close> starts with the configuration: the internal server, the connection manager, which panics without a
  connection to use, the lists of the proxy configuration and the upgraders.
\<close>

definition start_services ::
  "(nat \<Rightarrow> nat \<Rightarrow> nat) \<Rightarrow> (nat \<Rightarrow> bool) \<Rightarrow> ((string, bool) gomap \<Rightarrow> (string, bool) gomap) \<Rightarrow> start_flags \<Rightarrow> start_env \<Rightarrow>
   config \<Rightarrow> settings \<Rightarrow> running start_result" where
  "start_services rnd printable ord fl e c saved =
     (if \<not> se_http_ok e then Died
      else (let active = update_connections rnd (s_connections (cfg_settings c)) in
            case start_manager active of
              None \<Rightarrow> Died
            | Some m \<Rightarrow>
                Running
                  \<lparr>rn_api = \<lparr>ca_config = c, ca_active = active, ca_saved = saved, ca_language = l_language (s_local (cfg_settings c)),
                             ca_proxied = pac_hosts [h_hosts (cfg_blocked_central c), h_hosts (cfg_blocked c)],
                             ca_list_change = se_now e, ca_suggestions = [], ca_ids = \<lparr>ig_count = 0, ig_prefix = ''notify''\<rparr>,
                             ca_traffic = \<lparr>tt_opened = [], tt_read = 0, tt_write = 0, tt_throughput = []\<rparr>\<rparr>,
                   rn_transports = s_transports (cfg_settings c), rn_manager = m,
                   rn_pac = pac_blocked_list printable [h_hosts (cfg_blocked_central c), h_hosts (cfg_blocked c)]
                              (pac_direct_list printable (h_hosts (cfg_direct c)) (start_pac ord)),
                   rn_binary_upgrades = (fl_upgrade_url fl \<noteq> [])\<rparr>))"

definition run_client ::
  "upgrade_env \<Rightarrow> ((string, transport) gomap \<Rightarrow> (string, transport) gomap) \<Rightarrow> (nat \<Rightarrow> nat \<Rightarrow> nat) \<Rightarrow> (nat \<Rightarrow> bool) \<Rightarrow>
   ((string, bool) gomap \<Rightarrow> (string, bool) gomap) \<Rightarrow> start_flags \<Rightarrow> start_env \<Rightarrow> running start_result" where
  "run_client u ts rnd printable ord fl e0 =
     (case wipe_data fl e0 of
        None \<Rightarrow> Ended 1
      | Some e \<Rightarrow>
          if \<not> se_log_ok e then Ended 1
          else (case read_config (e_sha256 u) ts (se_dir_ok e) (se_settings e) (se_central e) unread_config of
                  Crashed \<Rightarrow> Died
                | Failed \<Rightarrow> Ended 0
                | Returned c \<Rightarrow>
                    if fl_save_extension fl \<and> \<not> se_extension_ok e then Died
                    else (case upgrade_config u c of
                            NotRead \<Rightarrow> Died
                          | Fatal \<Rightarrow> Died
                          | Upgraded c1 changed \<Rightarrow>
                              (let (s, changed') = override_settings fl (cfg_settings c1, changed);
                                   saved = (if changed' \<and> se_write_ok e then s else settings_on_disk (e_sha256 u) (se_settings e))
                               in start_services rnd printable ord fl e (c1\<lparr>cfg_settings := s\<rparr>) saved))))"

section \<open>The end\<close>

text \<open>
  Functions to run at the exit; one that registers another waits for the lock that \<open>exit\<close> holds. The exit writes
  the configuration, runs them in the order of their registration, and stops the services, each with a limit of time.
\<close>

record at_exit =
  ae_name :: string
  ae_registers :: bool

definition register_at_exit :: "at_exit \<Rightarrow> at_exit list \<Rightarrow> at_exit list" where
  "register_at_exit f fs = fs @ [f]"

fun run_at_exit :: "at_exit list \<Rightarrow> string list \<times> bool" where
  "run_at_exit [] = ([], True)"
| "run_at_exit (f # fs) =
     (if ae_registers f then ([ae_name f], False) else (let (names, ok) = run_at_exit fs in (ae_name f # names, ok)))"

text \<open>The names of the functions that ran, the settings on disk, and whether the program ended.\<close>

definition exit_client :: "bool \<Rightarrow> at_exit list \<Rightarrow> client_api \<Rightarrow> string list \<times> client_api \<times> bool" where
  "exit_client write_ok fs a =
     (let a' = (if write_ok then write_config a else a); (names, ok) = run_at_exit fs in (names, a', ok))"

section \<open>Lemmas\<close>

definition decodes_enabled :: "string \<Rightarrow> bool" where
  "decodes_enabled v = (case conn_decode v of Inl _ \<Rightarrow> False | Inr c \<Rightarrow> \<not> c_disabled c)"

lemma built_in_enabled: "list_all decodes_enabled v1_add" "list_all decodes_enabled v5_add"
  by code_simp+

lemma added_enabled:
  assumes "v \<in> set (v1_add @ v5_add)"
  shows "\<not> c_disabled (fst (decode_connection h v))"
proof -
  have "decodes_enabled v" using built_in_enabled assms unfolding list_all_iff set_append by blast
  then show ?thesis by (simp add: decodes_enabled_def decode_connection_def split: sum.splits)
qed

definition all_enabled :: "settings \<Rightarrow> bool" where
  "all_enabled s \<longleftrightarrow> (\<forall>c \<in> set (s_connections s). \<not> c_disabled c)"

lemma conn_with_id_mem: "conn_with_id i cs = Some c \<Longrightarrow> c \<in> set cs \<and> c_id c = i"
  by (auto simp: conn_with_id_def find_Some_iff)

lemma conn_with_id_own: "distinct (map c_id cs) \<Longrightarrow> c \<in> set cs \<Longrightarrow> conn_with_id (c_id c) cs = Some c"
  unfolding conn_with_id_def by (induction cs) auto

lemma updated_conn_source:
  assumes "updated_conn h m i = Some c"
  shows "\<exists>d. (d \<in> set (m_connections m) \<or> d \<in> (\<lambda>v. fst (decode_connection h v)) ` set (m_add m)) \<and> c_disabled c = c_disabled d"
proof -
  let ?kept = "if i \<in> set (m_remove m) then None else conn_with_id i (rev (m_connections m))"
  let ?added = "map_option protected (conn_with_id i (map (fst \<circ> decode_connection h) (m_add m)))"
  obtain d where d: "(case ?kept of Some c \<Rightarrow> Some c | None \<Rightarrow> ?added) = Some d" "c_disabled c = c_disabled d"
    using assms unfolding updated_conn_def Let_def by (cases "i \<in> set (m_protect m)") (auto simp: protected_def)
  show ?thesis
  proof (cases ?kept)
    case (Some k)
    then have "conn_with_id i (rev (m_connections m)) = Some d" using d(1) by (simp split: if_splits)
    then show ?thesis using conn_with_id_mem d(2) by fastforce
  next
    case None
    then obtain a where "conn_with_id i (map (fst \<circ> decode_connection h) (m_add m)) = Some a" "d = protected a" using d(1) by auto
    then have "a \<in> (\<lambda>v. fst (decode_connection h v)) ` set (m_add m)" "c_disabled c = c_disabled a"
      using conn_with_id_mem [of i "map (fst \<circ> decode_connection h) (m_add m)" a] d(2) by (auto simp: protected_def)
    then show ?thesis by blast
  qed
qed

lemma modify_update_enabled:
  assumes "\<forall>n. range_order n (ord n)" "set (m_add m) \<subseteq> set (v1_add @ v5_add)" "\<forall>c \<in> set (m_connections m). \<not> c_disabled c"
    and "modify_update h ord m = Some cs"
  shows "\<forall>c \<in> set cs. \<not> c_disabled c"
proof
  have add: "\<forall>v \<in> set (m_add m). snd (decode_connection h v) = None"
    using assms(2) v1_add_decodes v5_add_decodes decodes_decode unfolding list_all_iff by auto
  obtain cs' where "modify_update h ord m = Some cs'" "distinct (map c_id cs')" "\<forall>i. conn_with_id i cs' = updated_conn h m i"
    using modify_update_result [OF assms(1) add] by blast
  then have cs: "distinct (map c_id cs)" "\<And>i. conn_with_id i cs = updated_conn h m i" using assms(4) by simp_all
  fix c assume "c \<in> set cs"
  then have "updated_conn h m (c_id c) = Some c" using cs conn_with_id_own by metis
  from updated_conn_source [OF this] show "\<not> c_disabled c" using assms(2,3) added_enabled by fastforce
qed

lemma set_connections_enabled:
  assumes "set_connections s0 n (modify_update h ord m) = Some s'" "\<forall>n. range_order n (ord n)" "set (m_add m) \<subseteq> set (v1_add @ v5_add)"
    and "\<forall>c \<in> set (m_connections m). \<not> c_disabled c"
  shows "all_enabled s'"
proof -
  obtain cs where "modify_update h ord m = Some cs" "s_connections s' = cs"
    using assms(1) by (auto simp: set_connections_def split: option.splits)
  then show ?thesis using modify_update_enabled [OF assms(2-4)] by (simp add: all_enabled_def)
qed

lemma upgrade_case_enabled:
  assumes "env_ok e" "u \<in> set (upgrade_cases e)" "u s = Some s'" "all_enabled s"
  shows "all_enabled s'"
proof -
  have ord: "\<forall>m. range_order m (e_ord e n m)" for n using assms(1) by (simp add: env_ok_def)
  consider (plain) "u = upgrade_0 e \<or> u = upgrade_3 e \<or> u = upgrade_4 e"
    | (one) "u = upgrade_1 e" | (two) "u = upgrade_2 e" | (five) "u = upgrade_5 e"
    using assms(2) by (auto simp: upgrade_cases_def)
  then show ?thesis
  proof cases
    case plain
    then show ?thesis using assms(3,4) by (auto simp: upgrade_0_def upgrade_3_def upgrade_4_def all_enabled_def Let_def)
  next
    case one
    show ?thesis
      by (rule set_connections_enabled [OF assms(3) [unfolded one upgrade_1_def] ord]) (use assms(4) in \<open>simp_all add: all_enabled_def\<close>)
  next
    case two
    show ?thesis
      by (rule set_connections_enabled [OF assms(3) [unfolded two upgrade_2_def] ord]) (use assms(4) in \<open>simp_all add: all_enabled_def\<close>)
  next
    case five
    show ?thesis
      by (rule set_connections_enabled [OF assms(3) [unfolded five upgrade_5_def] ord]) (use assms(4) in \<open>simp_all add: all_enabled_def\<close>)
  qed
qed

lemma fall_through_enabled:
  "env_ok e \<Longrightarrow> set us \<subseteq> set (upgrade_cases e) \<Longrightarrow> fall_through us s = Some s' \<Longrightarrow> all_enabled s \<Longrightarrow> all_enabled s'"
  by (induction us arbitrary: s) (auto split: option.splits dest: upgrade_case_enabled)

text \<open>The settings of a first start: the current version, with connections that are all enabled.\<close>

lemma first_upgrade:
  assumes "env_ok e" "s_version s = 0" "s_connections s = []"
  obtains s' where "upgrade_settings e s = Some s'" "s_version s' = 6" "all_enabled s'" "s_connections s' \<noteq> []"
proof -
  obtain i where i: "own_id e i" using ex_own_id by blast
  obtain s' where s': "upgrade_settings e s = Some s'" "s_version s' = 6"
    using upgrade_settings_own [OF assms(1) i, of s] assms(2) by auto
  have "all_enabled s" using assms(3) by (simp add: all_enabled_def)
  then have "all_enabled s'"
    using s'(1) fall_through_enabled [OF assms(1) subset_refl] assms(2) by (simp add: upgrade_settings_def)
  moreover have "s_connections s' \<noteq> []"
    using upgrade_connections [OF assms(1) _ _ s'(1), of i] assms(2) by (auto simp: conn_with_id_def)
  ultimately show ?thesis using that s' by blast
qed

lemma override_fields [simp]:
  "s_connections (fst (override_settings fl sc)) = s_connections (fst sc)" "s_version (fst (override_settings fl sc)) = s_version (fst sc)"
  "s_transports (fst (override_settings fl sc)) = s_transports (fst sc)"
  "snd sc \<Longrightarrow> snd (override_settings fl sc)"
  by (simp_all add: override_settings_def Let_def)

lemma all_enabled_filter: "all_enabled s \<Longrightarrow> enabled (s_connections s) = s_connections s"
  by (auto simp: all_enabled_def enabled_def filter_id_conv)

lemma start_manager_some: "cs \<noteq> [] \<Longrightarrow> \<exists>m. start_manager cs = Some m"
  by (cases cs) (simp_all add: start_manager_def)

text \<open>What is read from the disk when there are no settings yet.\<close>

lemma read_first_config:
  assumes "se_dir_ok e" "se_settings e = None"
  obtains c where "read_config h ts (se_dir_ok e) (se_settings e) (se_central e) unread_config = Returned c" "cfg_read c"
    "s_version (cfg_settings c) = 0" "s_connections (cfg_settings c) = []"
proof -
  have d: "s_version default_settings = 0" "s_connections default_settings = []"
    by (simp_all add: default_settings_def zero_settings_def)
  let ?c = "(fst (read_host_files (se_central e) (install_settings ts default_settings unread_config)))\<lparr>cfg_read := True\<rparr>"
  show ?thesis
  proof (rule that [of ?c])
    show "read_config h ts (se_dir_ok e) (se_settings e) (se_central e) unread_config = Returned ?c"
      using assms by (simp add: read_config_def read_settings_def settings_template_parses)
  qed (simp_all add: d read_host_files_def install_settings_def Let_def split: prod.split)
qed

lemma run_client_after_read:
  assumes "wipe_data fl e0 = Some e" "se_log_ok e" "fl_save_extension fl \<longrightarrow> se_extension_ok e"
    and "read_config (e_sha256 u) ts (se_dir_ok e) (se_settings e) (se_central e) unread_config = Returned c" "cfg_read c"
    and "upgrade_config u c = Upgraded c1 changed"
  shows "run_client u ts rnd printable ord fl e0 =
    start_services rnd printable ord fl e (c1\<lparr>cfg_settings := fst (override_settings fl (cfg_settings c1, changed))\<rparr>)
      (if snd (override_settings fl (cfg_settings c1, changed)) \<and> se_write_ok e
       then fst (override_settings fl (cfg_settings c1, changed)) else settings_on_disk (e_sha256 u) (se_settings e))"
proof -
  have "\<not> (fl_save_extension fl \<and> \<not> se_extension_ok e)" using assms(3) by blast
  then show ?thesis
    using assms(1,2,4-6) unfolding run_client_def
    by (cases "override_settings fl (cfg_settings c1, changed)") (simp only: option.case if_False outcome.case upgrade_result.case not_True_eq_False Let_def prod.case fst_conv snd_conv)
qed

section \<open>Properties\<close>


definition no_flags :: start_flags where
  "no_flags = \<lparr>fl_wipe = False, fl_save_extension = False, fl_auth_key = [], fl_bind_addr = [], fl_central_addr = [], fl_upgrade_url = []\<rparr>"

definition empty_disk :: start_env where
  "empty_disk = \<lparr>se_dir = ''cfg'', se_settings = None, se_central = None, se_dir_ok = True, se_log_ok = True, se_write_ok = True,
                 se_extension_ok = True, se_http_ok = True, se_now = 0\<rparr>"


text \<open>
  C10. A client without an enabled connection does not start again. With settings of the current version in which every
  connection is disabled, which the interface lets a user save, the connection manager panics at each start, and no
  flag but the one that wipes the data helps.
\<close>

theorem disabled_connections_end_start:
  assumes "\<not> fl_wipe fl" "se_settings e = Some d" "parse_config (e_sha256 u) d = Returned s" "s_version s = 6"
    and "\<forall>c \<in> set (s_connections s). c_disabled c" "se_dir_ok e" "se_log_ok e"
  shows "run_client u ts rnd printable ord fl e = Died"
proof -
  let ?c = "(fst (read_host_files (se_central e) (install_settings ts s unread_config)))\<lparr>cfg_read := True\<rparr>"
  have c: "read_config (e_sha256 u) ts (se_dir_ok e) (se_settings e) (se_central e) unread_config = Returned ?c"
    using assms(2,3,6) by (simp add: read_config_def read_settings_def)
  have f: "s_version (cfg_settings ?c) = 6" "s_connections (cfg_settings ?c) = s_connections s" "cfg_read ?c"
    using assms(4) by (simp_all add: read_host_files_def install_settings_def Let_def split: prod.split)
  have up: "upgrade_config u ?c = Upgraded ?c False"
    using f(1) by (simp add: upgrade_config_def upgrade_settings_def)
  have none: "filter (\<lambda>c. \<not> c_disabled c) (s_connections s) = []" using assms(5) by (simp add: filter_empty_conv)
  have w: "wipe_data fl e = Some e" using assms(1) by (simp add: wipe_data_def)
  show ?thesis
  proof (cases "fl_save_extension fl \<and> \<not> se_extension_ok e")
    case True
    then show ?thesis using w c assms(7) by (simp add: run_client_def)
  next
    case False
    then show ?thesis
      using run_client_after_read [OF w assms(7) _ c f(3) up, of rnd printable ord] f(2) none
      by (simp add: start_services_def update_connections_def shuffle_def start_manager_def)
  qed
qed

definition disabled_settings :: string where
  "disabled_settings = ''{\"Version\":6,\"Connections\":[{\"ID\":\"a\",\"Disabled\":true}]}''"

definition disabled_parsed :: "settings option" where
  "disabled_parsed = (case parse_config (\<lambda>s. s) disabled_settings of Returned s \<Rightarrow> Some s | _ \<Rightarrow> None)"

lemma disabled_settings_parse:
  "map_option (\<lambda>s. (s_version s, map c_disabled (s_connections s))) disabled_parsed = Some (6, [True])"
  by code_simp

theorem disabled_connections_end_start_witness:
  "run_client plain_env id (\<lambda>_ _. 0) (\<lambda>_. True) id no_flags (empty_disk\<lparr>se_settings := Some disabled_settings\<rparr>) = Died"
proof -
  obtain s where s: "parse_config (\<lambda>s. s) disabled_settings = Returned s" "s_version s = 6" "map c_disabled (s_connections s) = [True]"
    using disabled_settings_parse by (auto simp: disabled_parsed_def split: outcome.splits)
  then have "\<forall>c \<in> set (s_connections s). c_disabled c" by auto
  then show ?thesis
    using disabled_connections_end_start [of no_flags "empty_disk\<lparr>se_settings := Some disabled_settings\<rparr>" disabled_settings plain_env s] s(1,2)
    by (simp add: no_flags_def empty_disk_def plain_env_def)
qed

end
