(* ===== verification/TorPt.thy ===== *)
theory TorPt
  imports Service Socks "HOL-Library.List_Lexorder" "HOL-Library.Char_ord"
begin

text \<open>
  The transports that run as pluggable transports (\<open>pkg/transport/torpt\<close>), with the parts of the package \<open>ptc\<close> they
  rest on: the arguments of a connection, the lines of the process of the transport and its environment. The socks5
  transport (\<open>pkg/transport/socks5\<close>), the transports of a program and the part a program plays
  (\<open>cmd/alkasir-client\<close>), and the server of the transports (\<open>cmd/alkasir-torpt-server\<close>), which decides what may be
  connected to.
\<close>

section \<open>Arguments\<close>

type_synonym pt_args = "(string, string list) gomap"

definition args_values :: "string \<Rightarrow> pt_args \<Rightarrow> string list" where
  "args_values k a = (case map_of a k of None \<Rightarrow> [] | Some vs \<Rightarrow> vs)"

definition args_add :: "string \<Rightarrow> string \<Rightarrow> pt_args \<Rightarrow> pt_args" where
  "args_add k v a = AList.update k (args_values k a @ [v]) a"

text \<open>The unescaped text up to a terminator, and what follows; \<open>None\<close> when the text ends in an escape.\<close>

fun index_unescaped :: "string \<Rightarrow> string \<Rightarrow> (string \<times> string) option" where
  "index_unescaped stops [] = Some ([], [])"
| "index_unescaped stops (c # cs) =
     (if c \<in> set stops then Some ([], c # cs)
      else if c = backslash then
        (case cs of [] \<Rightarrow> None | d # ds \<Rightarrow> map_option (apfst ((#) d)) (index_unescaped stops ds))
      else map_option (apfst ((#) c)) (index_unescaped stops cs))"

lemma index_unescaped_shorter: "index_unescaped stops s = Some (u, r) \<Longrightarrow> length r \<le> length s"
proof (induction stops s arbitrary: u r rule: index_unescaped.induct)
  case (2 stops c cs)
  then show ?case by (fastforce split: if_splits list.splits)
qed simp

function parse_arg_params :: "string \<Rightarrow> pt_args \<Rightarrow> string + pt_args" where
  "parse_arg_params s a =
     (case index_unescaped ''=;'' s of
        None \<Rightarrow> Inl (''nothing following final escape in '' @ go_quote s)
      | Some (key, []) \<Rightarrow> Inl (''no equals sign in '' @ go_quote s)
      | Some (key, c # r1) \<Rightarrow>
          if c \<noteq> CHR ''='' then Inl (''no equals sign in '' @ go_quote (take (length s - Suc (length r1)) s))
          else (case index_unescaped '';'' r1 of
                  None \<Rightarrow> Inl (''nothing following final escape in '' @ go_quote r1)
                | Some (v, r2) \<Rightarrow>
                    if key = [] then Inl (''empty key in '' @ go_quote (take (length s - length r2) s))
                    else (case r2 of [] \<Rightarrow> Inr (args_add key v a) | _ # r3 \<Rightarrow> parse_arg_params r3 (args_add key v a))))"
  by pat_completeness auto
termination
  by (relation "Wellfounded.measure (length \<circ> fst)") (auto dest!: index_unescaped_shorter)

definition parse_client_parameters :: "string \<Rightarrow> string + pt_args" where
  "parse_client_parameters s = (if s = [] then Inr [] else parse_arg_params s [])"

definition escape_arg :: "string \<Rightarrow> string" where
  "escape_arg s = concat (map (\<lambda>b. if b \<in> {backslash, CHR ''='', CHR '';''} then [backslash, b] else [b]) s)"

definition arg_pairs :: "pt_args \<Rightarrow> (string \<times> string) list" where
  "arg_pairs a = concat (map (\<lambda>k. map (Pair k) (args_values k a)) (sort (map fst a)))"

definition encode_client_args :: "pt_args \<Rightarrow> string" where
  "encode_client_args a = join '';'' (map (\<lambda>(k, v). escape_arg k @ ''='' @ escape_arg v) (arg_pairs a))"

section \<open>Quoted text\<close>

text \<open>\<open>strconv.Unquote\<close>: the bytes of the first character of a quoted text, and the rest of it.\<close>

fun digits_run :: "(char \<Rightarrow> nat option) \<Rightarrow> nat \<Rightarrow> nat \<Rightarrow> nat \<Rightarrow> string \<Rightarrow> (nat \<times> string) option" where
  "digits_run dig base 0 v s = Some (v, s)"
| "digits_run dig base (Suc n) v [] = None"
| "digits_run dig base (Suc n) v (c # s) =
     (case dig c of None \<Rightarrow> None | Some x \<Rightarrow> digits_run dig base n (v * base + x) s)"

definition octal_val :: "char \<Rightarrow> nat option" where
  "octal_val c = (if is_digit c \<and> digit_val c < 8 then Some (digit_val c) else None)"

definition plain_escape :: "char \<Rightarrow> char option" where
  "plain_escape e =
     map_of [(CHR ''a'', CHR 0x07), (CHR ''b'', CHR 0x08), (CHR ''f'', CHR 0x0C), (CHR ''n'', CHR 0x0A), (CHR ''r'', CHR 0x0D),
             (CHR ''t'', CHR 0x09), (CHR ''v'', CHR 0x0B), (backslash, backslash)] e"

definition hex_size :: "char \<Rightarrow> nat option" where
  "hex_size e = map_of [(CHR ''x'', 2), (CHR ''u'', 4), (CHR ''U'', 8)] e"

definition unquote_escape :: "char \<Rightarrow> char \<Rightarrow> string \<Rightarrow> (string \<times> string) option" where
  "unquote_escape quote e s =
     (case (plain_escape e, hex_size e, octal_val e) of
        (Some c, _, _) \<Rightarrow> Some ([c], s)
      | (None, Some n, _) \<Rightarrow>
          (case digits_run hex_val 16 n 0 s of
             None \<Rightarrow> None
           | Some (v, r) \<Rightarrow> if e = CHR ''x'' then Some ([char_of v], r) else if 0x10FFFF < v then None else Some (encode_rune v, r))
      | (None, None, Some x) \<Rightarrow>
          (case digits_run octal_val 8 2 x s of None \<Rightarrow> None | Some (v, r) \<Rightarrow> if 255 < v then None else Some ([char_of v], r))
      | (None, None, None) \<Rightarrow> if e = quote then Some ([e], s) else None)"

definition unquote_char :: "char \<Rightarrow> char \<Rightarrow> string \<Rightarrow> (string \<times> string) option" where
  "unquote_char quote c s =
     (if c = quote then None
      else if 128 \<le> (of_char c :: nat) then Some (encode_rune (fst (decode_rune (c # s))), drop (snd (decode_rune (c # s)) - 1) s)
      else if c \<noteq> backslash then Some ([c], s)
      else (case s of [] \<Rightarrow> None | e # r \<Rightarrow> unquote_escape quote e r))"

lemma digits_run_shorter: "digits_run d b n v s = Some (x, r) \<Longrightarrow> length r \<le> length s"
  by (induction d b n v s rule: digits_run.induct) (auto split: option.splits)

lemma unquote_escape_shorter: "unquote_escape q e s = Some (u, r) \<Longrightarrow> length r \<le> length s"
  by (auto simp: unquote_escape_def dest: digits_run_shorter split: option.splits if_splits)

lemma unquote_char_shorter: "unquote_char q c s = Some (u, r) \<Longrightarrow> length r \<le> length s"
  by (auto simp: unquote_char_def dest: unquote_escape_shorter split: if_splits list.splits)

function unquote_body :: "char \<Rightarrow> string \<Rightarrow> string option" where
  "unquote_body quote [] = Some []"
| "unquote_body quote (c # s) =
     (case unquote_char quote c s of
        None \<Rightarrow> None
      | Some (u, r) \<Rightarrow> if quote = CHR 0x27 then (if r = [] then Some u else None) else map_option ((@) u) (unquote_body quote r))"
  by pat_completeness auto
termination
  by (relation "Wellfounded.measure (length \<circ> snd)") (auto dest!: unquote_char_shorter)

definition go_unquote :: "string \<Rightarrow> string option" where
  "go_unquote s =
     (if length s < 2 \<or> hd s \<noteq> last s then None
      else let q = hd s; body = butlast (tl s); plain = backslash \<notin> set body \<and> q \<notin> set body in
        if q = CHR 0x60 then (if q \<in> set body then None else Some body)
        else if q \<noteq> dquote \<and> q \<noteq> CHR 0x27 then None
        else if CHR 0x0A \<in> set body then None
        else if plain \<and> (q = dquote \<or>
            (snd (decode_rune body) = length body \<and> (fst (decode_rune body) \<noteq> 0xFFFD \<or> snd (decode_rune body) \<noteq> 1))) then Some body
        else unquote_body q body)"

text \<open>\<open>Args.UnmarshalJSON\<close> is called on the text of the variable itself: a quoted text with the parameters.\<close>

definition unmarshal_args :: "string \<Rightarrow> string + pt_args" where
  "unmarshal_args s = (case go_unquote s of None \<Rightarrow> Inl ''invalid syntax'' | Some t \<Rightarrow> parse_client_parameters t)"

text \<open>The user and the password that carry the arguments to the transport; without arguments the slice panics.\<close>

definition dial_auth :: "pt_args \<Rightarrow> (string \<times> string) option" where
  "dial_auth a = (let s = encode_client_args a in if s = [] then None else Some (take 1 s, drop 1 s))"

text \<open>
  What the transport makes of them: a longer password is not offered, and the connection has no arguments then; a
  password of one zero byte stands for none.
\<close>

fun transport_params :: "string \<Rightarrow> string \<Rightarrow> bool \<Rightarrow> pt_args \<Rightarrow> string \<Rightarrow> pt_args option" where
  "transport_params key acc esc a [] = (if esc \<or> key = [] then None else Some (args_add key acc a))"
| "transport_params key acc esc a (c # cs) =
     (if c = backslash \<and> \<not> esc then transport_params key acc True a cs
      else if c = CHR ''='' \<and> \<not> esc \<and> key = [] then (if acc = [] then None else transport_params acc [] False a cs)
      else if c = CHR '';'' \<and> \<not> esc then
        (if key = [] \<or> cs = [] then None else transport_params [] [] False (args_add key acc a) cs)
      else if c \<notin> {backslash, CHR ''='', CHR '';''} \<and> esc then None
      else transport_params key (acc @ [c]) False a cs)"

definition received_args :: "string \<times> string \<Rightarrow> pt_args option" where
  "received_args up =
     (if length (snd up) \<ge> 256 then Some []
      else if fst up = [] \<or> length (fst up) \<ge> 256 then Some []
      else if snd up = [] then None
      else transport_params [] [] False [] (fst up @ (if snd up = [CHR 0x00] then [] else snd up)))"


section \<open>The process of a transport\<close>

text \<open>\<open>strings.Fields\<close>: the first argument is the word that is being read.\<close>

definition space_at :: "string \<Rightarrow> nat" where
  "space_at s = (case find (has_prefix s) space_encodings of None \<Rightarrow> 0 | Some e \<Rightarrow> length e)"

function fields_from :: "string \<Rightarrow> string \<Rightarrow> string list" where
  "fields_from w [] = (if w = [] then [] else [w])"
| "fields_from w (c # cs) =
     (case space_at (c # cs) of
        0 \<Rightarrow> fields_from (w @ [c]) cs
      | Suc n \<Rightarrow> (if w = [] then [] else [w]) @ fields_from [] (drop n cs))"
  by pat_completeness auto
termination
  by (relation "Wellfounded.measure (length \<circ> snd)") auto

definition pt_keywords :: "string list" where
  "pt_keywords = [''VERSION'', ''ENV-ERROR'', ''VERSION-ERROR'', ''SMETHOD'', ''SMETHOD-ERROR'', ''SMETHODS'', ''CMETHODS'',
     ''CMETHOD'', ''CMETHOD-ERROR'', ''PROXY'', ''PROXY_DONE'']"

definition methods_found :: "(string \<times> string) list \<Rightarrow> string + (string \<times> string) list" where
  "methods_found ms = (if ms = [] then Inl ''No requested methods found'' else Inr ms)"

text \<open>
  \<open>parseStdout\<close>: the methods and their addresses; the first argument is \<open>net.ResolveTCPAddr\<close>, the second whether the version was read.
  The error of a line names the line.
\<close>

fun parse_stdout :: "(string \<Rightarrow> string + string) \<Rightarrow> bool \<Rightarrow> (string \<times> string) list \<Rightarrow> string list \<Rightarrow> string + (string \<times> string) list" where
  "parse_stdout resolve version ms [] = methods_found ms"
| "parse_stdout resolve version ms (l # ls) =
     (case fields_from [] l of
        [] \<Rightarrow> parse_stdout resolve version ms ls
      | kw # args \<Rightarrow>
          if kw \<notin> set pt_keywords then Inl (''unknown keyword: '' @ kw @ '' in '' @ l)
          else if kw = ''ENV-ERROR'' \<or> kw = ''VERSION-ERROR'' then Inl (''Error: '' @ l)
          else if \<not> version then
            (if kw \<noteq> ''VERSION'' then Inl (''expected VERSION as first line: '' @ l)
             else if args = [] then Inl (''expected VERSION arg: '' @ l)
             else parse_stdout resolve True ms ls)
          else if kw \<in> {''SMETHODS'', ''CMETHODS''} \<and> args = [''DONE''] then methods_found ms
          else if kw = ''SMETHOD'' then
            (if length args < 2 then Inl (''expected SMETHOD args: '' @ l)
             else (case resolve (args ! 1) of Inl e \<Rightarrow> Inl e | Inr a \<Rightarrow> parse_stdout resolve version (ms @ [(hd args, a)]) ls))
          else if kw = ''CMETHOD'' then
            (if length args < 3 then Inl (''expected CMETHOD args: '' @ l)
             else (case resolve (args ! 2) of Inl e \<Rightarrow> Inl e | Inr a \<Rightarrow> parse_stdout resolve version (ms @ [(hd args, a)]) ls))
          else parse_stdout resolve version ms ls)"

text \<open>The environment of that process, without the variables of this program; \<open>state\<close> is the path of its state.\<close>

definition clean_env :: "string list \<Rightarrow> string list" where
  "clean_env environ = filter (\<lambda>v. v \<noteq> ''ALKASIR_DEBUG'' \<and> \<not> has_prefix v ''ALKASIR_'') environ"

definition pt_client_env :: "string \<Rightarrow> string list \<Rightarrow> string list" where
  "pt_client_env state methods =
     [''TOR_PT_MANAGED_TRANSPORT_VER=1'', ''TOR_PT_STATE_LOCATION='' @ state, ''TOR_PT_CLIENT_TRANSPORTS='' @ join '','' methods]"

definition pt_start_env :: "string list \<Rightarrow> string \<Rightarrow> string list \<Rightarrow> string list" where
  "pt_start_env environ state methods = clean_env environ @ pt_client_env state methods @ [''TOR_PT_EXIT_ON_STDIN_CLOSE=1'']"

section \<open>The transports torpt and socks5\<close>

record torpt_transport =
  tt_name :: string
  tt_transport :: string
  tt_remote_addr :: string
  tt_args :: pt_args

definition transport_names :: "string list" where
  "transport_names = [''obfs4'', ''obfs3'']"

definition torpt_check :: "environment \<Rightarrow> opt \<Rightarrow> server_error + torpt_transport" where
  "torpt_check env service_name =
     (if \<not> opt_is env service_name ''transport'' then Inl (service_not_found env)
      else let n = opt_get env (new_option ''transport'') in
        if n \<notin> set transport_names then Inl (transport_not_found env)
        else Inr \<lparr>tt_name = n, tt_transport = [], tt_remote_addr = [], tt_args = []\<rparr>)"

text \<open>An error that is printed and returned; a text that is not safe to print panics.\<close>

definition fails_with :: "method_handler \<Rightarrow> string \<Rightarrow> string \<Rightarrow> (string \<times> (string + 'a)) outcome" where
  "fails_with h msg out = (case print_error h msg out of None \<Rightarrow> Crashed | Some (out', _) \<Rightarrow> Returned (out', Inl msg))"

definition torpt_parse ::
  "environment \<Rightarrow> torpt_transport \<Rightarrow> string \<Rightarrow> (string \<times> (string + torpt_transport)) outcome" where
  "torpt_parse env s out =
     (let h = new_handler (tt_name s); remote = new_option ''remoteaddr''; secret = new_option ''secret'' in
      case opt_required env remote of
        Some e \<Rightarrow> fails_with h e out
      | None \<Rightarrow>
          (case opt_required env secret of
             Some e \<Rightarrow> fails_with h e out
           | None \<Rightarrow>
               (case unmarshal_args (opt_get env secret) of
                  Inl e \<Rightarrow> fails_with h e out
                | Inr a \<Rightarrow>
                    (case print_version env h out of
                       None \<Rightarrow> Crashed
                     | Some (out', _) \<Rightarrow> Returned (out', Inr (s\<lparr>tt_remote_addr := opt_get env remote, tt_args := a\<rparr>))))))"

text \<open>
  What the connections of a started transport go through: the listener of the pluggable transport, the user and
  the password that carry the arguments, and the address of the server. \<open>launch\<close> gives the lines that the process started
  with an environment prints.
\<close>

record pt_dialer =
  pd_via :: string
  pd_auth :: "string \<times> string"
  pd_server :: string
  pd_bound :: string

definition torpt_start ::
  "(string list \<Rightarrow> string list) \<Rightarrow> (string \<Rightarrow> string + string) \<Rightarrow> (string \<Rightarrow> string option) \<Rightarrow> string list \<Rightarrow> string \<Rightarrow>
   torpt_transport \<Rightarrow> string \<Rightarrow> (string \<times> (string + pt_dialer)) outcome" where
  "torpt_start launch resolve listen environ state s out =
     (let h = new_handler (tt_name s) in
      case parse_stdout resolve False [] (launch (pt_start_env environ state [tt_name s])) of
        Inl e \<Rightarrow> fails_with h e out
      | Inr ms \<Rightarrow>
          (case find (\<lambda>m. fst m = tt_name s) ms of
             None \<Rightarrow> fails_with h (''Method '' @ tt_name s @ '' not found'') out
           | Some (_, via) \<Rightarrow>
               (case (dial_auth (tt_args s), listen ''127.0.0.1:0'') of
                  (Some auth, Some bound) \<Rightarrow>
                    (case print_expose h ''socks5'' bound out of
                       None \<Rightarrow> Crashed
                     | Some out1 \<Rightarrow>
                         (case print_done out1 of
                            None \<Rightarrow> Crashed
                          | Some out2 \<Rightarrow>
                              Returned (out2, Inr \<lparr>pd_via = via, pd_auth = auth, pd_server = tt_remote_addr s, pd_bound = bound\<rparr>)))
                | _ \<Rightarrow> Crashed)))"

text \<open>The accepted connections, each with the result of its dial: how many are forwarded, and whether the process lives on.\<close>

fun torpt_forward :: "bool list \<Rightarrow> nat \<times> bool" where
  "torpt_forward [] = (0, True)"
| "torpt_forward (dialled # ds) = (if dialled then apfst Suc (torpt_forward ds) else (0, False))"

record socks5_transport =
  sk_name :: string
  sk_transport :: string
  sk_bind_addr :: string

definition socks5_check :: "environment \<Rightarrow> opt \<Rightarrow> server_error + socks5_transport" where
  "socks5_check env service_name =
     (if \<not> opt_is env service_name ''transport'' then Inl (service_not_found env)
      else if \<not> opt_is env (new_option ''transport'') ''socks5'' then Inl (transport_not_found env)
      else Inr \<lparr>sk_name = opt_get env service_name, sk_transport = opt_get env (new_option ''transport''), sk_bind_addr = []\<rparr>)"

definition socks5_parse :: "environment \<Rightarrow> socks5_transport \<Rightarrow> string \<Rightarrow> (string \<times> (server_error + socks5_transport)) option" where
  "socks5_parse env s out =
     (case print_version env (new_handler (sk_name s)) out of
        None \<Rightarrow> None
      | Some (out', Some e) \<Rightarrow> Some (out', Inl e)
      | Some (out', None) \<Rightarrow> Some (out', Inr (s\<lparr>sk_bind_addr := opt_get env (new_option ''bindaddr'')\<rparr>)))"

definition socks5_start :: "(string \<Rightarrow> string + string) \<Rightarrow> socks5_transport \<Rightarrow> string \<Rightarrow> (string \<times> (string + string)) outcome" where
  "socks5_start listen s out =
     (let h = new_handler (sk_name s) in
      case listen (sk_bind_addr s) of
        Inl e \<Rightarrow> fails_with h e out
      | Inr bound \<Rightarrow>
          (case print_expose h ''socks5'' bound out of
             None \<Rightarrow> Crashed
           | Some out1 \<Rightarrow> (case print_done out1 of None \<Rightarrow> Crashed | Some out2 \<Rightarrow> Returned (out2, Inr bound))))"

section \<open>The parts of a program\<close>

text \<open>The transports that the programs of the client are built with, and the part that a process plays.\<close>

datatype transport_parser = Socks5_Parser socks5_transport | Torpt_Parser torpt_transport | Ss_Parser ss_transport

definition checked :: "('a \<Rightarrow> transport_parser) \<Rightarrow> server_error + 'a \<Rightarrow> transport_parser option \<times> string option" where
  "checked f r = (case r of Inr t \<Rightarrow> (Some (f t), None) | Inl e \<Rightarrow> (None, Some (case error_text e of None \<Rightarrow> [] | Some t \<Rightarrow> t)))"

definition client_checkers :: "environment \<Rightarrow> (opt \<Rightarrow> transport_parser option \<times> string option) list" where
  "client_checkers env =
     [\<lambda>o1. checked Socks5_Parser (socks5_check env o1), \<lambda>o1. checked Torpt_Parser (torpt_check env o1),
      \<lambda>o1. checked Ss_Parser (ss_check env o1)]"

definition pt_check :: "environment \<Rightarrow> bool" where
  "pt_check env \<longleftrightarrow> getenv env ''TOR_PT_SERVER_TRANSPORTS'' \<noteq> [] \<or> getenv env ''TOR_PT_CLIENT_TRANSPORTS'' \<noteq> []"

datatype program_part = Runs_Service | Runs_Transport | Runs_Client

definition program_part :: "environment \<Rightarrow> program_part" where
  "program_part env = (if check_service_env env then Runs_Service else if pt_check env then Runs_Transport else Runs_Client)"

section \<open>What the server connects to\<close>

text \<open>
  A request of the SOCKS protocol as the package \<open>go-socks5\<close> reads it: the type of the address, the address or a name
  with its length before it, and the port.
\<close>

record destination =
  de_name :: string
  de_ip :: ip
  de_port :: nat

definition read_port :: "string \<Rightarrow> ip \<Rightarrow> byte list \<Rightarrow> destination option" where
  "read_port n i b = (case b of p # q # _ \<Rightarrow> Some \<lparr>de_name = n, de_ip = i, de_port = unat p * 256 + unat q\<rparr> | _ \<Rightarrow> None)"

definition read_destination :: "byte list \<Rightarrow> destination option" where
  "read_destination b =
     (case b of
        [] \<Rightarrow> None
      | t # r \<Rightarrow>
          if t = 1 then (if length r < 4 then None else read_port [] (take 4 r) (drop 4 r))
          else if t = 4 then (if length r < 16 then None else read_port [] (take 16 r) (drop 16 r))
          else if t = 3 then
            (case r of
               [] \<Rightarrow> None
             | l # n \<Rightarrow> if length n < unat l then None else read_port (byte_text (take (unat l) n)) [] (drop (unat l) n))
          else None)"

text \<open>\<open>PermitCommand.Allow\<close> with its two counters, and what the server does with a request that it read.\<close>

record permits =
  pm_allowed :: nat
  pm_denied :: nat

definition permit :: "destination \<Rightarrow> permits \<Rightarrow> bool \<times> permits" where
  "permit d p =
     (let r = accepted_ip (de_ip d) \<and> accepted_port (int (de_port d)) in
      (r, if r then p\<lparr>pm_allowed := Suc (pm_allowed p)\<rparr> else p\<lparr>pm_denied := Suc (pm_denied p)\<rparr>))"

datatype server_action = Connects ip nat | Replies nat

definition serve_destination :: "(string \<Rightarrow> ip option) \<Rightarrow> byte \<Rightarrow> destination \<Rightarrow> permits \<Rightarrow> server_action \<times> permits" where
  "serve_destination lookup cmd d p =
     (case (if de_name d = [] then Some (de_ip d) else lookup (de_name d)) of
        None \<Rightarrow> (Replies 4, p)
      | Some i \<Rightarrow>
          if cmd \<notin> {1, 2, 3} then (Replies 7, p)
          else (case permit (d\<lparr>de_ip := i\<rparr>) p of
                  (False, p') \<Rightarrow> (Replies 2, p')
                | (True, p') \<Rightarrow> if cmd = 1 then (Connects i (de_port d), p') else (Replies 7, p')))"

section \<open>The arguments survive\<close>

definition args_ok :: "pt_args \<Rightarrow> bool" where
  "args_ok a \<longleftrightarrow> wf_map a \<and> (\<forall>(k, vs) \<in> set a. k \<noteq> [] \<and> vs \<noteq> [])"

lemma args_ok_Nil [simp]: "args_ok []"
  by (simp add: args_ok_def)

lemma args_ok_add: "args_ok a \<Longrightarrow> k \<noteq> [] \<Longrightarrow> args_ok (args_add k v a)"
  unfolding args_ok_def args_add_def
  by (auto simp: map_of_wf [symmetric] update_conv' split: if_splits)

declare parse_arg_params.simps [simp del]

lemma args_add_nonempty [simp]: "args_add k v a \<noteq> []"
  by (cases a) (auto simp: args_add_def)

lemma parse_arg_params_ok: "args_ok a \<Longrightarrow> parse_arg_params s a = Inr b \<Longrightarrow> args_ok b \<and> b \<noteq> []"
proof (induction s a arbitrary: b rule: parse_arg_params.induct)
  case (1 s a)
  obtain key r1 v r2 where r: "index_unescaped ''=;'' s = Some (key, CHR ''='' # r1)" "index_unescaped '';'' r1 = Some (v, r2)"
    "key \<noteq> []" "(case r2 of [] \<Rightarrow> Inr (args_add key v a) | _ # r3 \<Rightarrow> parse_arg_params r3 (args_add key v a)) = Inr b"
    using 1(3) by (subst (asm) parse_arg_params.simps) (auto split: option.splits list.splits if_splits)
  show ?case
  proof (cases r2)
    case Nil
    then show ?thesis using r(3,4) args_ok_add [OF 1(2)] by auto
  next
    case (Cons c r3)
    then show ?thesis using r 1(1) [OF r(1) refl refl _ r(2) refl r(3) Cons args_ok_add [OF 1(2) r(3)]] by simp
  qed
qed

lemma parsed_args_ok: "parse_client_parameters s = Inr a \<Longrightarrow> args_ok a"
  using parse_arg_params_ok [OF args_ok_Nil] by (auto simp: parse_client_parameters_def split: if_splits)

text \<open>Reading back escaped text adds it to what was read so far.\<close>

lemma read_escaped:
  "transport_params key acc False a (escape_arg s @ r) = transport_params key (acc @ s) False a r"
  by (induction s arbitrary: acc) (auto simp: escape_arg_def)

lemma escape_arg_nonempty: "escape_arg s = [] \<longleftrightarrow> s = []"
  by (cases s) (auto simp: escape_arg_def)

definition pair_text :: "string \<times> string \<Rightarrow> string" where
  "pair_text = (\<lambda>(k, v). escape_arg k @ ''='' @ escape_arg v)"

lemma read_pairs:
  "ps \<noteq> [] \<Longrightarrow> \<forall>(k, v) \<in> set ps. k \<noteq> [] \<Longrightarrow>
   transport_params [] [] False a (join '';'' (map pair_text ps)) = Some (fold (\<lambda>(k, v). args_add k v) ps a)"
proof (induction ps arbitrary: a)
  case (Cons p ps)
  obtain k v where p: "p = (k, v)" "k \<noteq> []" using Cons.prems by (cases p) auto
  show ?case
  proof (cases ps)
    case Nil
    then show ?thesis using p read_escaped [of k "[]" a v "[]"] by (simp add: pair_text_def read_escaped)
  next
    case (Cons q qs)
    then have "join '';'' (map pair_text ps) \<noteq> []" by (cases q; cases qs) (auto simp: pair_text_def)
    then show ?thesis
      using p Cons.IH [of "args_add k v a"] Cons.prems Cons by (simp add: pair_text_def read_escaped)
  qed
qed simp

lemma values_add: "args_values j (args_add k v a) = (if j = k then args_values k a @ [v] else args_values j a)"
  by (simp add: args_values_def args_add_def update_conv')

lemma values_fold:
  "args_values j (fold (\<lambda>(k, v). args_add k v) ps a) = args_values j a @ map snd (filter (\<lambda>p. fst p = j) ps)"
  by (induction ps arbitrary: a) (auto simp: values_add)

lemma filter_pairs:
  "distinct ks \<Longrightarrow> map snd (filter (\<lambda>p. fst p = j) (concat (map (\<lambda>k. map (Pair k) (f k)) ks))) = (if j \<in> set ks then f j else [])"
  by (induction ks) (auto simp: filter_map comp_def filter_concat filter_empty_conv)

lemma arg_pairs_values:
  assumes "args_ok a"
  shows "map snd (filter (\<lambda>p. fst p = j) (arg_pairs a)) = args_values j a"
proof -
  have "distinct (sort (map fst a))" using assms by (simp add: args_ok_def wf_map_def)
  note filter_pairs [OF this, of j "\<lambda>k. args_values k a"]
  moreover have "j \<notin> fst ` set a \<Longrightarrow> args_values j a = []"
    by (simp add: args_values_def map_of_eq_None_iff [THEN iffD2])
  ultimately show ?thesis by (auto simp: arg_pairs_def)
qed

lemma arg_pairs_keys: "args_ok a \<Longrightarrow> \<forall>(k, v) \<in> set (arg_pairs a). k \<noteq> []"
  by (auto simp: arg_pairs_def args_ok_def)

lemma arg_pairs_Nil: "args_ok a \<Longrightarrow> arg_pairs a = [] \<longleftrightarrow> a = []"
proof
  assume ok: "args_ok a" and n: "arg_pairs a = []"
  show "a = []"
  proof (rule ccontr)
    assume "a \<noteq> []"
    then obtain k vs l where a: "a = (k, vs) # l" by (cases a) auto
    have "args_values k a = []" using arg_pairs_values [OF ok, of k] n by simp
    then show False using ok by (simp add: a args_ok_def args_values_def)
  qed
qed (simp add: arg_pairs_def)

lemma encode_client_args_eq: "encode_client_args a = join '';'' (map pair_text (arg_pairs a))"
  by (simp add: encode_client_args_def pair_text_def)

lemma encode_args_length:
  assumes "args_ok a" "a \<noteq> []"
  shows "2 \<le> length (encode_client_args a)" "length (encode_client_args a) = 2 \<Longrightarrow> drop 1 (encode_client_args a) = ''=''"
proof -
  obtain k v ps where ps: "arg_pairs a = (k, v) # ps" "k \<noteq> []"
    using arg_pairs_Nil [OF assms(1)] arg_pairs_keys [OF assms(1)] assms(2) by (cases "arg_pairs a") auto
  obtain c cs where e: "escape_arg k = c # cs" using ps(2) by (cases "escape_arg k") (auto simp: escape_arg_nonempty)
  obtain r where r: "encode_client_args a = c # cs @ ''='' @ r"
    by (cases ps) (auto simp: encode_client_args_eq ps(1) pair_text_def e)
  show "2 \<le> length (encode_client_args a)" by (simp add: r)
  show "length (encode_client_args a) = 2 \<Longrightarrow> drop 1 (encode_client_args a) = ''=''" by (auto simp: r)
qed

lemma values_map_of: "args_ok a \<Longrightarrow> args_ok b \<Longrightarrow> (\<forall>k. args_values k a = args_values k b) \<Longrightarrow> map_of a = map_of b"
proof
  fix k assume ok: "args_ok a" "args_ok b" and v: "\<forall>k. args_values k a = args_values k b"
  have "map_of x k = (if args_values k x = [] then None else Some (args_values k x))" if "args_ok x" for x
    using that by (auto simp: args_values_def args_ok_def split: option.splits dest: map_of_SomeD)
  then show "map_of a k = map_of b k" using ok v by simp
qed

lemma fold_add_ok: "args_ok a \<Longrightarrow> \<forall>(k, v) \<in> set ps. k \<noteq> [] \<Longrightarrow> args_ok (fold (\<lambda>(k, v). args_add k v) ps a)"
  by (induction ps arbitrary: a) (auto simp: args_ok_add)

lemma received_short:
  assumes "args_ok a" "dial_auth a = Some up" "length (encode_client_args a) \<le> 256"
  shows "\<exists>b. received_args up = Some b \<and> map_of b = map_of a"
proof -
  let ?s = "encode_client_args a"
  have ne: "a \<noteq> []" using assms(2) by (auto simp: dial_auth_def encode_client_args_def arg_pairs_def)
  have up: "up = (take 1 ?s, drop 1 ?s)" using assms(2) by (simp add: dial_auth_def Let_def split: if_splits)
  note l = encode_args_length [OF assms(1) ne]
  have zero: "drop 1 ?s \<noteq> [CHR 0x00]"
  proof
    assume d: "drop 1 ?s = [CHR 0x00]"
    then have "length (drop 1 ?s) = 1" by (simp del: length_drop)
    then have "length ?s = 2" by simp
    then show False using l(2) d by simp
  qed
  have "received_args up = transport_params [] [] False [] ?s"
    using l(1) assms(3) zero by (auto simp: received_args_def up)
  also have "\<dots> = Some (fold (\<lambda>(k, v). args_add k v) (arg_pairs a) [])"
    unfolding encode_client_args_eq
    by (rule read_pairs) (use arg_pairs_Nil [OF assms(1)] ne arg_pairs_keys [OF assms(1)] in auto)
  finally have "received_args up = Some (fold (\<lambda>(k, v). args_add k v) (arg_pairs a) [])" .
  moreover have "map_of (fold (\<lambda>(k, v). args_add k v) (arg_pairs a) []) = map_of a"
    by (rule values_map_of [OF fold_add_ok [OF args_ok_Nil arg_pairs_keys [OF assms(1)]] assms(1)])
      (simp add: values_fold arg_pairs_values [OF assms(1)], simp add: args_values_def [of _ "[]"])
  ultimately show ?thesis by blast
qed


lemma received_long:
  assumes "dial_auth a = Some up" "256 < length (encode_client_args a)"
  shows "received_args up = Some []"
proof -
  have "snd up = drop 1 (encode_client_args a)" using assms(1) by (auto simp: dial_auth_def Let_def split: if_splits)
  then have "256 \<le> length (snd up)" using assms(2) by simp
  then show ?thesis by (simp add: received_args_def)
qed

lemma dial_auth_none: "args_ok a \<Longrightarrow> dial_auth a = None \<longleftrightarrow> a = []"
proof
  assume "args_ok a" "dial_auth a = None"
  then show "a = []" using encode_args_length(1) [of a] by (cases "a = []") (simp_all add: dial_auth_def Let_def split: if_splits)
qed (simp add: dial_auth_def encode_client_args_def arg_pairs_def)

section \<open>Where the server connects to\<close>

definition dial_text :: "ip \<Rightarrow> nat \<Rightarrow> string" where
  "dial_text i port = join_host_port (if i = [] then [] else ip_string i) (show_nat port)"

lemma connects_permitted:
  "serve_destination lookup cmd d p = (Connects i port, p') \<Longrightarrow>
   accepted_ip i \<and> accepted_port (int port) \<and> cmd = 1 \<and> p' = p\<lparr>pm_allowed := Suc (pm_allowed p)\<rparr>"
  by (auto simp: serve_destination_def permit_def Let_def split: option.splits if_splits prod.splits bool.splits)

lemma accepted_ip_empty: "accepted_ip []"
proof -
  have "\<not> list_ex (\<lambda>n. net_contains n []) disallowed_nets" by (simp add: disallowed_nets_eq net_contains_def to4_def)
  moreover have "\<not> is_loopback []" "\<not> ip_equal [] (v4_prefix @ [0,0,0,0])" "\<not> ip_equal [] (replicate 16 0)"
    by (simp_all add: is_loopback_def ip_equal_def to4_def v4_prefix_def)
  ultimately show ?thesis by (simp add: accepted_ip_def)
qed

section \<open>Properties\<close>

text \<open>
  C37. The arguments of a transport arrive, or are lost as a whole. Whatever parameters a secret holds, the user and the
  password that the transport is dialled with are read by it as the same values of the same keys when their encoded
  text has at most 256 bytes, with every escaped character; a longer text is not sent, and the transport gets no argument.
  Only a secret without any parameter has no user and password: making them is a crash.
\<close>

theorem arguments_reach_transport:
  assumes "unmarshal_args secret = Inr a"
  shows "case dial_auth a of
      None \<Rightarrow> a = []
    | Some up \<Rightarrow> \<exists>b. received_args up = Some b \<and> map_of b = (if length (encode_client_args a) \<le> 256 then map_of a else Map.empty)"
proof -
  have ok: "args_ok a"
    using assms parsed_args_ok by (auto simp: unmarshal_args_def split: option.splits)
  show ?thesis
  proof (cases "dial_auth a")
    case None
    then show ?thesis using dial_auth_none [OF ok] by simp
  next
    case (Some up)
    then show ?thesis
      using received_short [OF ok Some] received_long [OF Some] by (cases "length (encode_client_args a) \<le> 256") auto
  qed
qed

definition demo_secret :: string where
  "demo_secret = dquote # ''cert=a'' @ [backslash, backslash] @ '';b;iat-mode=0;cert=c'' @ [dquote]"

theorem arguments_reach_transport_witness:
  "\<exists>a up b. unmarshal_args demo_secret = Inr a \<and> a \<noteq> [] \<and> dial_auth a = Some up \<and> received_args up = Some b \<and> map_of b = map_of a"
proof -
  have u: "unmarshal_args demo_secret = Inr [(''cert'', [''a;b'', ''c'']), (''iat-mode'', [''0''])]"
    "length (encode_client_args [(''cert'', [''a;b'', ''c'']), (''iat-mode'', [''0''])]) = 27"
    by code_simp+
  show ?thesis
  proof (cases "dial_auth [(''cert'', [''a;b'', ''c'']), (''iat-mode'', [''0''])]")
    case None
    then show ?thesis using arguments_reach_transport [OF u(1)] by simp
  next
    case (Some up)
    then show ?thesis using arguments_reach_transport [OF u(1)] u by (cases up) auto
  qed
qed

text \<open>
  C23. The server of the transports connects to no private network: whatever a client asks for, by an address or by a name and
  whatever the name resolves to, a connection that is made has a port that is not denied and, as an IPv4 address or
  mapped into IPv6, no loopback, private or zero address, and the counter of the allowed connections has one more.
\<close>

theorem server_avoids_private_networks:
  assumes "serve_destination lookup cmd d p = (Connects i port, p')"
    and "o1 < 256" "o2 < 256" "o3 < 256" "o4 < 256"
    and "i = [of_nat o1, of_nat o2, of_nat o3, of_nat o4] \<or> i = v4_prefix @ [of_nat o1, of_nat o2, of_nat o3, of_nat o4]"
  shows "\<not> reserved4 o1 o2 o3 o4 \<and> int port \<notin> set disallowed_ports \<and> pm_allowed p' = Suc (pm_allowed p)"
proof -
  let ?q = "[of_nat o1, of_nat o2, of_nat o3, of_nat o4] :: byte list"
  note c = connects_permitted [OF assms(1)]
  have "accepted_ip ?q" using c assms(6) accepted_ip_mapped [of ?q] by auto
  then show ?thesis using accepted_ip_octets [OF assms(2-5)] c by (simp add: accepted_port_def)
qed

definition demo_lookup :: "string \<Rightarrow> ip option" where
  "demo_lookup n = Some (v4_prefix @ [93, 184, 216, 34])"

theorem server_avoids_private_networks_witness:
  "serve_destination demo_lookup 1 \<lparr>de_name = ''a.b'', de_ip = [], de_port = 80\<rparr> \<lparr>pm_allowed = 0, pm_denied = 0\<rparr> =
     (Connects (v4_prefix @ [93, 184, 216, 34]) 80, \<lparr>pm_allowed = 1, pm_denied = 0\<rparr>) \<and> \<not> reserved4 93 184 216 34"
proof -
  have s: "serve_destination demo_lookup 1 \<lparr>de_name = ''a.b'', de_ip = [], de_port = 80\<rparr> \<lparr>pm_allowed = 0, pm_denied = 0\<rparr> =
     (Connects (v4_prefix @ [93, 184, 216, 34]) 80, \<lparr>pm_allowed = 1, pm_denied = 0\<rparr>)"
    using accepted_ip_octets [of 93 184 216 34] accepted_ip_mapped [of "[93, 184, 216, 34]"]
    by (simp add: serve_destination_def permit_def demo_lookup_def accepted_port_def disallowed_ports_def reserved4_def)
  from server_avoids_private_networks [OF s, of 93 184 216 34] s show ?thesis by simp
qed

text \<open>
  C24. An empty name leads past the check: a request for a name of no bytes is read as a destination without an address, which
  no denied network holds, and the address that is dialled for it has no host, which means the machine of the server.
\<close>

theorem empty_name_reaches_server:
  assumes "accepted_port (int (unat hi * 256 + unat lo))"
  shows "\<exists>d p'. read_destination (3 # 0 # hi # lo # rest) = Some d \<and>
    serve_destination lookup 1 d p = (Connects [] (unat hi * 256 + unat lo), p') \<and>
    dial_text [] (unat hi * 256 + unat lo) = CHR '':'' # show_nat (unat hi * 256 + unat lo)"
  using assms accepted_ip_empty
  by (auto simp: read_destination_def read_port_def byte_text_def serve_destination_def permit_def Let_def dial_text_def join_host_port_def)

theorem empty_name_reaches_server_witness:
  "\<exists>d p'. read_destination [3, 0, 0, 80] = Some d \<and>
     serve_destination demo_lookup 1 d \<lparr>pm_allowed = 0, pm_denied = 0\<rparr> = (Connects [] 80, p') \<and> dial_text [] 80 = '':80''"
proof -
  have "accepted_port (int (unat (0 :: byte) * 256 + unat (80 :: byte)))" "show_nat 80 = ''80''" by code_simp+
  from empty_name_reaches_server [OF this(1), of "[]" demo_lookup "\<lparr>pm_allowed = 0, pm_denied = 0\<rparr>"] this(2)
  show ?thesis by simp
qed

end
