(* ===== verification/ObfsProxy.thy ===== *)
theory ObfsProxy
  imports TorPt
begin

text \<open>
  The pluggable transport process (\<open>pkg/obfs4proxy\<close>): whether it is a client or a server, its proxy, the lines it prints while it
  sets up the listeners, what happens to a connection, the proxy of SOCKS version 4, and when the process ends. What a transport
  does with the bytes is another package: a transport is what its factory answers.
\<close>

section \<open>The environment of the protocol\<close>

text \<open>An output and an error value or a result; \<open>ptEnvError\<close> and \<open>ptProxyError\<close> print the line themselves.\<close>

definition pt_env_error :: "string \<Rightarrow> string \<Rightarrow> string \<times> (string + 'a)" where
  "pt_env_error msg out = (out @ ''ENV-ERROR '' @ msg @ [CHR 0x0A], Inl msg)"

definition pt_proxy_error :: "string \<Rightarrow> string \<Rightarrow> string \<times> (string + 'a)" where
  "pt_proxy_error msg out = (out @ ''PROXY-ERROR '' @ msg @ [CHR 0x0A], Inl msg)"

definition pt_proxy_done :: "string \<Rightarrow> string" where
  "pt_proxy_done out = out @ ''PROXY DONE'' @ [CHR 0x0A]"

definition pt_is_client :: "environment \<Rightarrow> string \<Rightarrow> string \<times> (string + bool)" where
  "pt_is_client env out =
     (let client = getenv env ''TOR_PT_CLIENT_TRANSPORTS''; server = getenv env ''TOR_PT_SERVER_TRANSPORTS'' in
      if client \<noteq> [] \<and> server \<noteq> [] then pt_env_error ''TOR_PT_[CLIENT,SERVER]_TRANSPORTS both set'' out
      else if client \<noteq> [] then (out, Inr True)
      else if server \<noteq> [] then (out, Inr False)
      else (out, Inl ''not launched as a managed transport''))"

definition parse_port16 :: "string \<Rightarrow> nat option" where
  "parse_port16 s = (if s \<noteq> [] \<and> list_all is_digit s \<and> nat_of_digits s < 65536 then Some (nat_of_digits s) else None)"

definition resolve_addr_str :: "(addr_error \<Rightarrow> string \<Rightarrow> string) \<Rightarrow> string \<Rightarrow> string + (ip \<times> nat)" where
  "resolve_addr_str addr_text a =
     (case split_host_port a of
        Inl e \<Rightarrow> Inl (addr_text e a)
      | Inr (host, port) \<Rightarrow>
          if host = [] then Inl (''address string '' @ go_quote a @ '' lacks a host part'')
          else if port = [] then Inl (''address string '' @ go_quote a @ '' lacks a port part'')
          else (case parse_ip host of
                  None \<Rightarrow> Inl (''not an IP string: '' @ go_quote host)
                | Some i \<Rightarrow> (case parse_port16 port of None \<Rightarrow> Inl (''not a Port string: '' @ go_quote port) | Some p \<Rightarrow> Inr (i, p))))"

text \<open>The parts of a parsed URL that are looked at; the user has a password when one is set.\<close>

record proxy_url =
  px_scheme :: string
  px_user :: "(string \<times> string option) option"
  px_host :: string
  px_path :: string
  px_query :: string
  px_fragment :: string

definition bad_socks5_user :: "(string \<times> string option) option \<Rightarrow> string option" where
  "bad_socks5_user u =
     (case u of
        None \<Rightarrow> None
      | Some (name, pw) \<Rightarrow>
          if length name < 1 \<or> length name > 255 then Some ''proxy URI specified a invalid SOCKS5 username''
          else (case pw of
                  None \<Rightarrow> Some ''proxy URI specified a invalid SOCKS5 password''
                | Some p \<Rightarrow> if length p < 1 \<or> length p > 255 then Some ''proxy URI specified a invalid SOCKS5 password'' else None))"

definition bad_scheme :: "proxy_url \<Rightarrow> string option" where
  "bad_scheme u =
     (if px_scheme u = ''http'' then None
      else if px_scheme u = ''socks4a'' then
        (case px_user u of Some (_, Some _) \<Rightarrow> Some ''proxy URI specified SOCKS4a and a password'' | _ \<Rightarrow> None)
      else if px_scheme u = ''socks5'' then bad_socks5_user (px_user u)
      else Some (''proxy URI has invalid scheme: '' @ px_scheme u))"

definition pt_get_proxy ::
  "(string \<Rightarrow> string + proxy_url) \<Rightarrow> (addr_error \<Rightarrow> string \<Rightarrow> string) \<Rightarrow> environment \<Rightarrow> string \<Rightarrow>
   string \<times> (string + proxy_url option)" where
  "pt_get_proxy url_of addr_text env out =
     (let spec_text = getenv env ''TOR_PT_PROXY'' in
      if spec_text = [] then (out, Inr None)
      else (case url_of spec_text of
              Inl e \<Rightarrow> pt_proxy_error (''failed to parse proxy config: '' @ e) out
            | Inr u \<Rightarrow>
                if px_scheme u = [] then pt_proxy_error ''proxy URI is relative, must be absolute'' out
                else if px_path u \<noteq> [] then pt_proxy_error ''proxy URI has a path defined'' out
                else if px_query u \<noteq> [] then pt_proxy_error ''proxy URI has a query defined'' out
                else if px_fragment u \<noteq> [] then pt_proxy_error ''proxy URI has a fragment defined'' out
                else (case bad_scheme u of
                        Some e \<Rightarrow> pt_proxy_error e out
                      | None \<Rightarrow>
                          (case resolve_addr_str addr_text (px_host u) of
                             Inl e \<Rightarrow> pt_proxy_error (''proxy URI has invalid host: '' @ e) out
                           | Inr _ \<Rightarrow> (out, Inr (Some u))))))"

definition pt_should_exit_on_stdin_close :: "environment \<Rightarrow> bool" where
  "pt_should_exit_on_stdin_close env \<longleftrightarrow> getenv env ''TOR_PT_EXIT_ON_STDIN_CLOSE'' = ''1''"

section \<open>The listeners\<close>

text \<open>
  What \<open>goptlib\<close> reads before the methods: the version of the protocol, the names, and a check of the proxy
  (an argument, whether it passes). The result is the output and the names or an error that ends the process.
\<close>

definition pt_setup_names :: "string \<Rightarrow> environment \<Rightarrow> string \<Rightarrow> string \<times> string list option" where
  "pt_setup_names variable env out =
     (let ver = getenv env ''TOR_PT_MANAGED_TRANSPORT_VER''; names = getenv env variable in
      if ver = [] then (out @ ''ENV-ERROR no TOR_PT_MANAGED_TRANSPORT_VER environment variable'' @ [CHR 0x0A], None)
      else if ''1'' \<notin> set (split_char (CHR '','') ver) then (out @ ''VERSION-ERROR no-version'' @ [CHR 0x0A], None)
      else let out1 = out @ ''VERSION 1'' @ [CHR 0x0A] in
        if names = [] then (out1 @ ''ENV-ERROR no '' @ variable @ '' environment variable'' @ [CHR 0x0A], None)
        else (out1, Some (split_char (CHR '','') names)))"

text \<open>A transport: whether it is known, its factories for clients and servers, and the listeners that can be opened.\<close>

record pt_transports =
  pt_known :: "string \<Rightarrow> bool"
  pt_client_factory :: "string \<Rightarrow> bool"
  pt_server_factory :: "string \<Rightarrow> string + string"
  pt_listen :: "string \<Rightarrow> string \<Rightarrow> string + string"

text \<open>One method: the line for it and the address of its listener. A line that is not safe to print panics.\<close>

definition client_method :: "pt_transports \<Rightarrow> string \<Rightarrow> string \<Rightarrow> (string \<times> string option) option" where
  "client_method pt name out =
     (if \<not> pt_known pt name then map_option (\<lambda>o1. (o1, None)) (line ''CMETHOD-ERROR'' [name, ''no such transport is supported''] out)
      else if \<not> pt_client_factory pt name then
        map_option (\<lambda>o1. (o1, None)) (line ''CMETHOD-ERROR'' [name, ''failed to get ClientFactory''] out)
      else (case pt_listen pt name ''127.0.0.1:0'' of
              Inl e \<Rightarrow> map_option (\<lambda>o1. (o1, None)) (line ''CMETHOD-ERROR'' [name, e] out)
            | Inr a \<Rightarrow> map_option (\<lambda>o1. (o1, Some a)) (line ''CMETHOD'' [name, ''socks5'', a] out)))"

fun client_methods :: "pt_transports \<Rightarrow> string list \<Rightarrow> string \<Rightarrow> (string \<times> (string \<times> string) list) option" where
  "client_methods pt [] out = Some (out, [])"
| "client_methods pt (n # ns) out =
     (case client_method pt n out of
        None \<Rightarrow> None
      | Some (out1, a) \<Rightarrow>
          map_option (apsnd (\<lambda>ls. (case a of None \<Rightarrow> ls | Some x \<Rightarrow> (n, x) # ls))) (client_methods pt ns out1))"

text \<open>The setup: the output, and the listeners (whether one was launched is whether there is one), or the end of the process.\<close>

definition client_setup ::
  "(string \<Rightarrow> string + proxy_url) \<Rightarrow> (addr_error \<Rightarrow> string \<Rightarrow> string) \<Rightarrow> (environment \<Rightarrow> bool) \<Rightarrow> pt_transports \<Rightarrow>
   environment \<Rightarrow> string \<Rightarrow> (string \<times> (string \<times> string) list option) option" where
  "client_setup url_of addr_text proxy_ok pt env out =
     (case pt_setup_names ''TOR_PT_CLIENT_TRANSPORTS'' env out of
        (out1, None) \<Rightarrow> Some (out1, None)
      | (out1, Some names) \<Rightarrow>
          if getenv env ''TOR_PT_PROXY'' \<noteq> [] \<and> \<not> proxy_ok env then Some (out1, None)
          else (case pt_get_proxy url_of addr_text env out1 of
                  (out2, Inl _) \<Rightarrow> Some (out2, None)
                | (out2, Inr px) \<Rightarrow>
                    (case client_methods pt names (if px = None then out2 else pt_proxy_done out2) of
                       None \<Rightarrow> None
                     | Some (out3, ls) \<Rightarrow> map_option (\<lambda>o1. (o1, Some ls)) (line ''CMETHODS'' [''DONE''] out3))))"

definition server_method :: "pt_transports \<Rightarrow> string \<times> string \<Rightarrow> string \<Rightarrow> (string \<times> string option) option" where
  "server_method pt nb out =
     (let (name, bind) = nb in
      if \<not> pt_known pt name then map_option (\<lambda>o1. (o1, None)) (line ''SMETHOD-ERROR'' [name, ''no such transport is supported''] out)
      else (case pt_server_factory pt name of
              Inl e \<Rightarrow> map_option (\<lambda>o1. (o1, None)) (line ''SMETHOD-ERROR'' [name, e] out)
            | Inr args \<Rightarrow>
                (case pt_listen pt name bind of
                   Inl e \<Rightarrow> map_option (\<lambda>o1. (o1, None)) (line ''SMETHOD-ERROR'' [name, e] out)
                 | Inr a \<Rightarrow> map_option (\<lambda>o1. (o1, Some a)) (line ''SMETHOD'' [name, a, ''ARGS:'' @ args] out))))"

fun server_methods :: "pt_transports \<Rightarrow> (string \<times> string) list \<Rightarrow> string \<Rightarrow> (string \<times> (string \<times> string) list) option" where
  "server_methods pt [] out = Some (out, [])"
| "server_methods pt (b # bs) out =
     (case server_method pt b out of
        None \<Rightarrow> None
      | Some (out1, a) \<Rightarrow>
          map_option (apsnd (\<lambda>ls. (case a of None \<Rightarrow> ls | Some x \<Rightarrow> (fst b, x) # ls))) (server_methods pt bs out1))"

text \<open>The bind addresses are read by \<open>goptlib\<close> (an argument, \<open>None\<close> for an error it has printed itself).\<close>

definition server_setup ::
  "pt_transports \<Rightarrow> string \<times> (string \<times> string) list option \<Rightarrow> (string \<times> (string \<times> string) list option) option" where
  "server_setup pt setup =
     (case setup of
        (out1, None) \<Rightarrow> Some (out1, None)
      | (out1, Some binds) \<Rightarrow>
          (case server_methods pt binds out1 of
             None \<Rightarrow> None
           | Some (out2, ls) \<Rightarrow> map_option (\<lambda>o1. (o1, Some ls)) (line ''SMETHODS'' [''DONE''] out2)))"

section \<open>Connections\<close>

text \<open>A temporary error of the listener is passed over, any other ends the loop: the connections and whether it goes on.\<close>

datatype 'c accepted = Accepted 'c | Temporary_Error | Permanent_Error

fun accept_loop :: "'c accepted list \<Rightarrow> 'c list \<times> bool" where
  "accept_loop [] = ([], True)"
| "accept_loop (Accepted c # as) = apfst ((#) c) (accept_loop as)"
| "accept_loop (Temporary_Error # as) = accept_loop as"
| "accept_loop (Permanent_Error # as) = ([], False)"

text \<open>The results of the two copies, the one that ended first before the other.\<close>

definition copy_loop :: "string option list \<Rightarrow> string option" where
  "copy_loop results = (case results of [] \<Rightarrow> None | r # _ \<Rightarrow> r)"

datatype handler_end = No_Handshake | No_Arguments | No_Proxy | No_Remote | No_Reply | Copied "string option"

text \<open>
  A connection to a client: its handshake (the target and the arguments that were read), the arguments as the factory takes
  them, the proxy, and the dial, which fails with the code of a reply. The replies that are sent, and the end.
\<close>

definition client_handler ::
  "(string + string \<times> pt_args) \<Rightarrow> (pt_args \<Rightarrow> string + 'a) \<Rightarrow> bool \<Rightarrow> (string \<Rightarrow> 'a \<Rightarrow> nat option) \<Rightarrow> bool \<Rightarrow> string option list \<Rightarrow>
   nat list \<times> handler_end" where
  "client_handler handshake parse_args proxy_fails dial reply_ok copies =
     (case handshake of
        Inl _ \<Rightarrow> ([], No_Handshake)
      | Inr (target, args) \<Rightarrow>
          (case parse_args args of
             Inl _ \<Rightarrow> ([1], No_Arguments)
           | Inr a \<Rightarrow>
               if proxy_fails then ([1], No_Proxy)
               else (case dial target a of
                       Some code \<Rightarrow> ([code], No_Remote)
                     | None \<Rightarrow> if reply_ok then ([0], Copied (copy_loop copies)) else ([0], No_Reply))))"

definition server_handler :: "bool \<Rightarrow> bool \<Rightarrow> string option list \<Rightarrow> handler_end" where
  "server_handler wrapped dialled copies =
     (if \<not> wrapped then No_Handshake else if \<not> dialled then No_Remote else Copied (copy_loop copies))"

section \<open>Proxies\<close>

definition text_bytes :: "string \<Rightarrow> byte list" where
  "text_bytes s = map (\<lambda>c. of_nat (of_char c)) s"

record socks4_proxy =
  s4_host_port :: string
  s4_username :: string

definition new_socks4 :: "proxy_url \<Rightarrow> socks4_proxy" where
  "new_socks4 u = \<lparr>s4_host_port = px_host u, s4_username = (case px_user u of None \<Rightarrow> [] | Some (n, _) \<Rightarrow> n)\<rparr>"

definition socks4_error_text :: "byte \<Rightarrow> string" where
  "socks4_error_text code =
     (if code = 0x5b then ''request rejected or failed''
      else if code = 0x5c then ''request rejected becasue SOCKS server cannot connect to identd on the client''
      else if code = 0x5d then ''request rejected because the client program and identd report different user-ids''
      else ''unknown failure code '' @ hex_number (unat code))"

definition socks4_request :: "string \<Rightarrow> byte list \<Rightarrow> nat \<Rightarrow> byte list" where
  "socks4_request username ip4 port =
     [0x04, 0x01, of_nat (port div 256), of_nat port] @ ip4 @ text_bytes username @ [0x00]"

text \<open>\<open>Dial\<close>: what is written to the proxy, and an error or the connection after its answer.\<close>

definition socks4_dial ::
  "(addr_error \<Rightarrow> string \<Rightarrow> string) \<Rightarrow> (string \<Rightarrow> string + conn) \<Rightarrow> socks4_proxy \<Rightarrow> string \<Rightarrow> string \<Rightarrow> byte list \<times> (string + conn)" where
  "socks4_dial addr_text forward s network addr =
     (if network \<noteq> ''tcp'' \<and> network \<noteq> ''tcp4'' then ([], Inl ''invalid network type'')
      else (case split_host_port addr of
              Inl e \<Rightarrow> ([], Inl (addr_text e addr))
            | Inr (host, port_text) \<Rightarrow>
                (case parse_ip host of
                   None \<Rightarrow> ([], Inl ''failed to parse destination IP'')
                 | Some i \<Rightarrow>
                     (case to4 i of
                        None \<Rightarrow> ([], Inl ''destination address is not IPv4'')
                      | Some ip4 \<Rightarrow>
                          (case parse_port16 port_text of
                             None \<Rightarrow> ([], Inl (''strconv.ParseUint: parsing '' @ go_quote port_text))
                           | Some port \<Rightarrow>
                               (case forward (s4_host_port s) of
                                  Inl e \<Rightarrow> ([], Inl e)
                                | Inr c \<Rightarrow>
                                    (let req = socks4_request (s4_username s) ip4 port in
                                     case (cn_write c, read_full 8 c) of
                                       (Some e, _) \<Rightarrow> ([], Inl (case e of Plain t \<Rightarrow> t | _ \<Rightarrow> []))
                                     | (None, Some e, _, _) \<Rightarrow> (req, Inl (case e of Plain t \<Rightarrow> t | _ \<Rightarrow> []))
                                     | (None, None, resp, c') \<Rightarrow>
                                         if resp ! 0 \<noteq> 0 then (req, Inl ''proxy returned invalid SOCKS4 version'')
                                         else if resp ! 1 \<noteq> 0x5a then (req, Inl (''proxy error: '' @ socks4_error_text (resp ! 1)))
                                         else (req, Inr c'))))))))"

text \<open>The proxy of HTTP: what is kept of its URL, and a read, which empties first what came with the answer of the proxy.\<close>

record http_proxy =
  hp_host_port :: string
  hp_have_auth :: bool
  hp_username :: string
  hp_password :: string

definition new_http :: "proxy_url \<Rightarrow> http_proxy" where
  "new_http u =
     (case px_user u of
        None \<Rightarrow> \<lparr>hp_host_port = px_host u, hp_have_auth = False, hp_username = [], hp_password = []\<rparr>
      | Some (n, p) \<Rightarrow>
          \<lparr>hp_host_port = px_host u, hp_have_auth = True, hp_username = n, hp_password = (case p of None \<Rightarrow> [] | Some x \<Rightarrow> x)\<rparr>)"

definition http_read :: "nat \<Rightarrow> string option \<times> string list \<Rightarrow> string \<times> (string option \<times> string list)" where
  "http_read n c =
     (let (stale, chunks) = c;
          direct = (case chunks of
                      [] \<Rightarrow> ([], (None, []))
                    | k # ks \<Rightarrow> (take n k, (None, if length k \<le> n then ks else drop n k # ks)))
      in case stale of
           Some b \<Rightarrow> if b \<noteq> [] then (take n b, (Some (drop n b), chunks)) else direct
         | None \<Rightarrow> direct)"

section \<open>The end of the process\<close>

text \<open>A handler that starts or finishes (1 and -1), and the signals.\<close>

datatype term_event = Handler int | Signal nat

definition sig_int :: nat where "sig_int = 2"
definition sig_term :: nat where "sig_term = 15"

text \<open>
  \<open>wait\<close>: the number of handlers while it still waits, or the signal, the number and the events that are left. It looks
  at the number only after an event.
\<close>

fun term_wait :: "bool \<Rightarrow> int \<Rightarrow> term_event list \<Rightarrow> int + nat \<times> int \<times> term_event list" where
  "term_wait no_handlers n [] = Inl n"
| "term_wait no_handlers n (Signal s # es) = Inr (s, n, es)"
| "term_wait no_handlers n (Handler d # es) =
     (if no_handlers \<and> n + d = 0 then Inr (sig_term, n + d, es) else term_wait no_handlers (n + d) es)"

text \<open>The wait of \<open>Run\<close>: the handlers that are open when the process ends, and the events that are left.\<close>

definition run_wait :: "term_event list \<Rightarrow> (int \<times> term_event list) option" where
  "run_wait es =
     (case term_wait False 0 es of
        Inl _ \<Rightarrow> None
      | Inr (s, n, es1) \<Rightarrow>
          if s = sig_term then Some (n, es1)
          else (case term_wait True n es1 of Inl _ \<Rightarrow> None | Inr (_, m, es2) \<Rightarrow> Some (m, es2)))"

datatype term_watch = Watches_Stdin | Watches_Parent

definition term_watches :: "environment \<Rightarrow> bool \<Rightarrow> bool \<Rightarrow> term_watch list" where
  "term_watches env os_init_ok windows =
     (if pt_should_exit_on_stdin_close env then [Watches_Stdin]
      else if os_init_ok then [] else if windows then [] else [Watches_Parent])"

text \<open>\<open>Run\<close> up to the wait: the exit code of a process that does not get there, or its output and listeners.\<close>

record obfs_config =
  oc_show_ver :: bool
  oc_log_level :: string
  oc_state_ok :: bool
  oc_log_ok :: bool
  oc_init_ok :: bool

datatype obfs_run = Obfs_Exits nat | Obfs_Panics | Obfs_Serves string "(string \<times> string) list"

definition obfs_listening :: "(string \<times> (string \<times> string) list option) option \<Rightarrow> obfs_run" where
  "obfs_listening r =
     (case r of
        None \<Rightarrow> Obfs_Panics
      | Some (_, None) \<Rightarrow> Obfs_Exits 1
      | Some (out, Some ls) \<Rightarrow> if ls = [] then Obfs_Exits 255 else Obfs_Serves out ls)"

definition obfs_run ::
  "(string \<Rightarrow> bool) \<Rightarrow> (string \<Rightarrow> string + proxy_url) \<Rightarrow> (addr_error \<Rightarrow> string \<Rightarrow> string) \<Rightarrow> (environment \<Rightarrow> bool) \<Rightarrow>
   (environment \<Rightarrow> string \<Rightarrow> string \<times> (string \<times> string) list option) \<Rightarrow> pt_transports \<Rightarrow> obfs_config \<Rightarrow> environment \<Rightarrow> obfs_run" where
  "obfs_run level_ok url_of addr_text proxy_ok binds pt cfg env =
     (let level = (if oc_log_level cfg = [] then ''ERROR'' else oc_log_level cfg) in
      if oc_show_ver cfg then Obfs_Exits 0
      else if \<not> level_ok level then Obfs_Exits 1
      else (case pt_is_client env [] of
              (_, Inl _) \<Rightarrow> Obfs_Exits 1
            | (out, Inr client) \<Rightarrow>
                if getenv env ''TOR_PT_STATE_LOCATION'' = [] \<or> \<not> oc_state_ok cfg then Obfs_Exits 1
                else if \<not> oc_log_ok cfg then Obfs_Exits 1
                else if \<not> oc_init_ok cfg then Obfs_Exits 255
                else obfs_listening
                  (if client then client_setup url_of addr_text proxy_ok pt env out else server_setup pt (binds env out))))"

section \<open>The environments of the processes\<close>

definition pt_prefix :: string where "pt_prefix = ''TOR_PT_''"

lemma entry_key_has_prefix: "entry_key e = k \<Longrightarrow> has_prefix k p \<Longrightarrow> has_prefix e p"
proof -
  assume a: "entry_key e = k" "has_prefix k p"
  have "e = entry_key e @ dropWhile (\<lambda>c. c \<noteq> CHR ''='') e" by (simp add: entry_key_def)
  then obtain r where "e = k @ r" using a(1) by blast
  then show ?thesis using a(2) by (auto simp: has_prefix_iff)
qed

lemma find_no_prefix:
  "\<forall>v \<in> set es. \<not> has_prefix v p \<Longrightarrow> has_prefix k p \<Longrightarrow> find (\<lambda>e. CHR ''='' \<in> set e \<and> entry_key e = k) es = None"
  by (auto simp: find_None_iff dest: entry_key_has_prefix [OF refl])

lemma getenv_no_prefix: "\<forall>v \<in> set es. \<not> has_prefix v p \<Longrightarrow> has_prefix k p \<Longrightarrow> getenv (environ_map es) k = []"
  using find_no_prefix [of es p k] by (simp add: getenv_def environ_map_find)

text \<open>The environment of a service has no variable of the pluggable transports that the client has not.\<close>

lemma service_env_no_pt:
  assumes "\<forall>v \<in> set environ. \<not> has_prefix v pt_prefix"
  shows "\<forall>v \<in> set (init_env ord environ s). \<not> has_prefix v pt_prefix"
  using assms unfolding init_env_entries
  by (auto simp: alkasir_entry_def service_entries_def alkasir_prefix_def pt_prefix_def has_prefix_def)

lemma clean_env_no_prefix:
  "\<forall>v \<in> set (clean_env environ). \<not> has_prefix v ''ALKASIR_''"
  "\<forall>v \<in> set environ. \<not> has_prefix v pt_prefix \<Longrightarrow> \<forall>v \<in> set (clean_env environ). \<not> has_prefix v pt_prefix"
  by (auto simp: clean_env_def)

definition pt_tail :: "string \<Rightarrow> string \<Rightarrow> string list" where
  "pt_tail state m = pt_client_env state [m] @ [''TOR_PT_EXIT_ON_STDIN_CLOSE=1'']"

lemma pt_tail_find:
  "find (\<lambda>e. CHR ''='' \<in> set e \<and> entry_key e = ''TOR_PT_MANAGED_TRANSPORT_VER'') (pt_tail state m) = Some ''TOR_PT_MANAGED_TRANSPORT_VER=1''"
  "find (\<lambda>e. CHR ''='' \<in> set e \<and> entry_key e = ''TOR_PT_STATE_LOCATION'') (pt_tail state m) = Some (''TOR_PT_STATE_LOCATION='' @ state)"
  "find (\<lambda>e. CHR ''='' \<in> set e \<and> entry_key e = ''TOR_PT_CLIENT_TRANSPORTS'') (pt_tail state m) = Some (''TOR_PT_CLIENT_TRANSPORTS='' @ m)"
  "find (\<lambda>e. CHR ''='' \<in> set e \<and> entry_key e = ''TOR_PT_SERVER_TRANSPORTS'') (pt_tail state m) = None"
  "find (\<lambda>e. CHR ''='' \<in> set e \<and> entry_key e = ''TOR_PT_PROXY'') (pt_tail state m) = None"
  "find (\<lambda>e. CHR ''='' \<in> set e \<and> entry_key e = ''ALKASIR_SERVICE'') (pt_tail state m) = None"
  by (simp_all add: pt_tail_def pt_client_env_def entry_key_def)

lemma pt_env_values:
  assumes "\<forall>v \<in> set environ. \<not> has_prefix v pt_prefix" "env = environ_map (pt_start_env environ state [m])"
  shows "getenv env ''TOR_PT_MANAGED_TRANSPORT_VER'' = ''1''" "getenv env ''TOR_PT_STATE_LOCATION'' = state"
    "getenv env ''TOR_PT_CLIENT_TRANSPORTS'' = m" "getenv env ''TOR_PT_SERVER_TRANSPORTS'' = []"
    "getenv env ''TOR_PT_PROXY'' = []" "getenv env ''ALKASIR_SERVICE'' = []"
proof -
  have e: "env = environ_map (clean_env environ @ pt_tail state m)"
    by (simp add: assms(2) pt_start_env_def pt_tail_def)
  have n: "find (\<lambda>e. CHR ''='' \<in> set e \<and> entry_key e = k) (clean_env environ) = None" if "has_prefix k pt_prefix" for k
    by (rule find_no_prefix [OF clean_env_no_prefix(2) [OF assms(1)] that])
  have a: "find (\<lambda>e. CHR ''='' \<in> set e \<and> entry_key e = ''ALKASIR_SERVICE'') (clean_env environ) = None"
    by (rule find_no_prefix [OF clean_env_no_prefix(1)]) (simp add: has_prefix_def)
  have g: "getenv env k = (case find (\<lambda>e. CHR ''='' \<in> set e \<and> entry_key e = k) (pt_tail state m) of
      None \<Rightarrow> [] | Some v \<Rightarrow> drop (Suc (length k)) v)" if "has_prefix k pt_prefix \<or> k = ''ALKASIR_SERVICE''" for k
    using that n [of k] a unfolding e getenv_def environ_map_find find_append by (auto split: option.splits)
  show "getenv env ''TOR_PT_MANAGED_TRANSPORT_VER'' = ''1''" "getenv env ''TOR_PT_STATE_LOCATION'' = state"
    "getenv env ''TOR_PT_CLIENT_TRANSPORTS'' = m" "getenv env ''TOR_PT_SERVER_TRANSPORTS'' = []"
    "getenv env ''TOR_PT_PROXY'' = []" "getenv env ''ALKASIR_SERVICE'' = []"
    by (simp_all add: g pt_tail_find has_prefix_def pt_prefix_def)
qed

section \<open>The lines of the process\<close>

lemma space_at_graphic [simp]: "graphic c \<Longrightarrow> space_at (c # cs) = 0"
proof -
  assume g: "graphic c"
  have "\<not> has_prefix (c # cs) e" if "e \<in> set space_encodings" for e
    using graphic_not_space [OF g that] that Nil_notin_space_encodings(1) by (cases e) (auto simp: has_prefix_iff)
  then show ?thesis by (simp add: space_at_def find_None_iff [THEN iffD2])
qed

lemma space_at_space [simp]: "space_at (CHR '' '' # cs) = 1"
  by (simp add: space_at_def space_encodings_def has_prefix_def)

lemma fields_word: "list_all graphic u \<Longrightarrow> fields_from w (u @ r) = fields_from (w @ u) r"
  by (induction u arbitrary: w) auto

lemma fields_words:
  "list_all graphic u \<Longrightarrow> u \<noteq> [] \<Longrightarrow> fields_from [] (u @ CHR '' '' # r) = u # fields_from [] r"
  "list_all graphic u \<Longrightarrow> u \<noteq> [] \<Longrightarrow> fields_from [] u = [u]"
  using fields_word [of u "[]" "CHR '' '' # r"] fields_word [of u "[]" "[]"] by simp_all

definition pt_word :: "string \<Rightarrow> bool" where
  "pt_word s \<longleftrightarrow> word_ok s \<and> list_all graphic s"

lemma transport_words: "m \<in> set transport_names \<Longrightarrow> pt_word m \<and> CHR '','' \<notin> set m"
  by (auto simp: transport_names_def pt_word_def word_ok_def arg_is_safe_def graphic_def)

lemma pt_lines_fields:
  assumes "pt_word m" "pt_word a"
  shows "fields_from [] (words_line ''CMETHOD'' m ''socks5'' a) = [''CMETHOD'', m, ''socks5'', a]"
    "fields_from [] ''VERSION 1'' = [''VERSION'', ''1'']" "fields_from [] ''CMETHODS DONE'' = [''CMETHODS'', ''DONE'']"
proof -
  have g: "list_all graphic ''CMETHOD''" "list_all graphic ''socks5''" "list_all graphic ''VERSION''" "list_all graphic ''1''"
    "list_all graphic ''CMETHODS''" "list_all graphic ''DONE''"
    by (simp_all add: graphic_def)
  have w: "list_all graphic m" "m \<noteq> []" "list_all graphic a" "a \<noteq> []" using assms by (auto simp: pt_word_def word_ok_def)
  show "fields_from [] (words_line ''CMETHOD'' m ''socks5'' a) = [''CMETHOD'', m, ''socks5'', a]"
    using fields_words(1) [OF g(1)] fields_words(1) [OF w(1,2)] fields_words(1) [OF g(2)] fields_words(2) [OF w(3,4)]
    by (simp add: words_line_def)
  show "fields_from [] ''VERSION 1'' = [''VERSION'', ''1'']" "fields_from [] ''CMETHODS DONE'' = [''CMETHODS'', ''DONE'']"
    using fields_words(1) [OF g(3), of "''1''"] fields_words(2) [OF g(4)] fields_words(1) [OF g(5), of "''DONE''"] fields_words(2) [OF g(6)]
    by simp_all
qed

definition pt_lines :: "string \<Rightarrow> string \<Rightarrow> string list" where
  "pt_lines m a = [''VERSION 1'', words_line ''CMETHOD'' m ''socks5'' a, ''CMETHODS DONE'']"

lemma parse_pt_lines:
  assumes "pt_word m" "pt_word a" "resolve a = Inr a"
  shows "parse_stdout resolve False [] (pt_lines m a) = Inr [(m, a)]"
  by (simp add: pt_lines_def pt_lines_fields [OF assms(1,2)] pt_keywords_def assms(3) methods_found_def del: fields_from.simps)

lemma pt_lines_ok: "pt_word m \<Longrightarrow> pt_word a \<Longrightarrow> list_all line_ok (pt_lines m a)"
proof -
  assume w: "pt_word m" "pt_word a"
  have "word_ok ''socks5''" by (simp add: word_ok_def arg_is_safe_def)
  then have "line_ok (words_line ''CMETHOD'' m ''socks5'' a)"
    using w by (intro printed_line_ok) (simp_all add: pt_word_def)
  then show ?thesis by (simp add: pt_lines_def line_ok_def)
qed

text \<open>What the process prints for one transport that can be started.\<close>

lemma obfs_serves:
  assumes "\<forall>v \<in> set environ. \<not> has_prefix v pt_prefix" "env = environ_map (pt_start_env environ state [m])"
    and "pt_word m" "CHR '','' \<notin> set m" "pt_word a" "state \<noteq> []"
    and "pt_known pt m" "pt_client_factory pt m" "pt_listen pt m ''127.0.0.1:0'' = Inr a"
    and "\<not> oc_show_ver cfg" "level_ok (if oc_log_level cfg = [] then ''ERROR'' else oc_log_level cfg)"
    and "oc_state_ok cfg" "oc_log_ok cfg" "oc_init_ok cfg"
  shows "obfs_run level_ok url_of addr_text proxy_ok binds pt cfg env =
    Obfs_Serves (concat (map (\<lambda>l. l @ [CHR 0x0A]) (pt_lines m a))) [(m, a)]"
proof -
  note e = pt_env_values [OF assms(1,2)]
  have m: "m \<noteq> []" using assms(3) by (auto simp: pt_word_def word_ok_def)
  have k: "keyword_is_safe ''CMETHOD''" "keyword_is_safe ''CMETHODS''" by (simp_all add: keyword_is_safe_def alnum_def)
  have "word_ok ''socks5''" by (simp add: word_ok_def arg_is_safe_def)
  then have l: "formatline ''CMETHOD'' [m, ''socks5'', a] = Some (words_line ''CMETHOD'' m ''socks5'' a)"
    using formatline_three [OF k(1)] assms(3,5) by (simp add: pt_word_def)
  have d: "formatline ''CMETHODS'' [''DONE''] = Some ''CMETHODS DONE''" using k by (simp add: formatline_def arg_is_safe_def)
  have c: "pt_is_client env [] = ([], Inr True)" using e(3,4) m by (simp add: pt_is_client_def)
  have "client_setup url_of addr_text proxy_ok pt env [] =
      Some (concat (map (\<lambda>l. l @ [CHR 0x0A]) (pt_lines m a)), Some [(m, a)])"
    using e(1,3,5) m assms(4,7-9)
    by (simp add: client_setup_def pt_setup_names_def pt_get_proxy_def client_method_def line_def l d pt_lines_def)
  then show ?thesis
    using assms(6,10-14) e(2) c by (simp add: obfs_run_def obfs_listening_def Let_def)
qed

text \<open>What a process that serves has printed, as its parent reads it.\<close>

definition pt_stdout :: "(environment \<Rightarrow> obfs_run) \<Rightarrow> string list \<Rightarrow> string list" where
  "pt_stdout process es = (case process (environ_map es) of Obfs_Serves out _ \<Rightarrow> scanned_lines out | _ \<Rightarrow> [])"

lemma torpt_start_serves:
  assumes "\<forall>v \<in> set environ. \<not> has_prefix v pt_prefix" "state \<noteq> []" "tt_name s \<in> set transport_names"
    and "pt_known pt (tt_name s)" "pt_client_factory pt (tt_name s)" "pt_listen pt (tt_name s) ''127.0.0.1:0'' = Inr via"
    and "\<not> oc_show_ver cfg" "level_ok (if oc_log_level cfg = [] then ''ERROR'' else oc_log_level cfg)"
    and "oc_state_ok cfg" "oc_log_ok cfg" "oc_init_ok cfg" "pt_word via" "resolve via = Inr via"
    and "listen ''127.0.0.1:0'' = Some bound" "word_ok bound" "dial_auth (tt_args s) = Some auth"
  shows "\<exists>out'. torpt_start (pt_stdout (obfs_run level_ok url_of addr_text proxy_ok binds pt cfg)) resolve listen environ state s out =
    Returned (out', Inr \<lparr>pd_via = via, pd_auth = auth, pd_server = tt_remote_addr s, pd_bound = bound\<rparr>)"
proof -
  note m = transport_words [OF assms(3), THEN conjunct1] transport_words [OF assms(3), THEN conjunct2]
  let ?es = "pt_start_env environ state [tt_name s]"
  have "pt_stdout (obfs_run level_ok url_of addr_text proxy_ok binds pt cfg) ?es = pt_lines (tt_name s) via"
  proof -
    have "obfs_run level_ok url_of addr_text proxy_ok binds pt cfg (environ_map ?es) =
        Obfs_Serves (concat (map (\<lambda>l. l @ [CHR 0x0A]) (pt_lines (tt_name s) via))) [(tt_name s, via)]"
      by (rule obfs_serves [OF assms(1) refl m assms(12,2)]) (use assms(4-11) in auto)
    then show ?thesis
      by (simp add: pt_stdout_def scanned_written_lines [OF pt_lines_ok [OF m(1) assms(12)]])
  qed
  then have p: "parse_stdout resolve False [] (pt_stdout (obfs_run level_ok url_of addr_text proxy_ok binds pt cfg) ?es) = Inr [(tt_name s, via)]"
    using parse_pt_lines [of "tt_name s" via resolve] m(1) assms(12,13) by simp
  have "word_ok ''socks5''" by (simp add: word_ok_def arg_is_safe_def)
  then have "formatline ''EXPOSE'' [tt_name s, ''socks5'', bound] = Some (words_line ''EXPOSE'' (tt_name s) ''socks5'' bound)"
    using formatline_three [OF safe_keywords(3)] m(1) assms(15) by (simp add: pt_word_def)
  then show ?thesis
    using assms(14,16) p
    by (simp add: torpt_start_def print_expose_def print_done_def line_def new_handler_def formatline_def [of "''DONE''"] safe_keywords Let_def)
qed

lemma opt_values:
  "env_name (new_option n) = alkasir_prefix @ to_upper n"
  "opt_get env (new_option n) = getenv env (alkasir_prefix @ to_upper n)"
  "opt_has env (new_option n) \<longleftrightarrow> getenv env (alkasir_prefix @ to_upper n) \<noteq> []"
  by (simp_all add: env_name_def opt_get_def opt_has_def new_option_def alkasir_prefix_def Let_def)

text \<open>A transport process finds the parser of its transport, with the address and the arguments of the connection.\<close>

lemma torpt_found:
  assumes "getenv env ''ALKASIR_SERVICE'' = ''transport''" "getenv env ''ALKASIR_TRANSPORT'' = m" "m \<in> set transport_names"
    and "getenv env ''ALKASIR_REMOTEADDR'' = addr" "addr \<noteq> []" "getenv env ''ALKASIR_SECRET'' = secret" "unmarshal_args secret = Inr a"
  shows "find_parser env (client_checkers env) =
      (Some (Torpt_Parser \<lparr>tt_name = m, tt_transport = [], tt_remote_addr = [], tt_args = []\<rparr>), None)"
    "\<exists>out. torpt_parse env \<lparr>tt_name = m, tt_transport = [], tt_remote_addr = [], tt_args = []\<rparr> [] =
      Returned (out, Inr \<lparr>tt_name = m, tt_transport = [], tt_remote_addr = addr, tt_args = a\<rparr>)"
proof -
  have m: "m \<noteq> ''socks5''" using assms(3) by (auto simp: transport_names_def)
  show "find_parser env (client_checkers env) =
      (Some (Torpt_Parser \<lparr>tt_name = m, tt_transport = [], tt_remote_addr = [], tt_args = []\<rparr>), None)"
    using assms(1-3) m
    by (simp add: find_parser_def client_checkers_def opt_values upper_names checked_def socks5_check_def torpt_check_def opt_is_def Let_def)
  have s: "secret \<noteq> []" using assms(7) by (auto simp: unmarshal_args_def go_unquote_def)
  have "formatline ''VERSION'' [''1.0''] = Some ''VERSION 1.0''" by (simp add: formatline_def safe_keywords arg_is_safe_def)
  then show "\<exists>out. torpt_parse env \<lparr>tt_name = m, tt_transport = [], tt_remote_addr = [], tt_args = []\<rparr> [] =
      Returned (out, Inr \<lparr>tt_name = m, tt_transport = [], tt_remote_addr = addr, tt_args = a\<rparr>)"
    using assms s
    by (simp add: torpt_parse_def opt_required_def opt_values upper_names print_version_def new_handler_def line_def Let_def)
qed

section \<open>The wait for the end\<close>

definition handler_delta :: "term_event \<Rightarrow> int" where
  "handler_delta e = (case e of Handler d \<Rightarrow> d | Signal _ \<Rightarrow> 0)"

lemma term_wait_handlers:
  "\<forall>e \<in> set es. \<exists>d. e = Handler d \<Longrightarrow> term_wait False n (es @ rest) = term_wait False (n + sum_list (map handler_delta es)) rest"
proof (induction es arbitrary: n)
  case (Cons e es)
  then obtain d where "e = Handler d" by auto
  then show ?case using Cons by (simp add: handler_delta_def add.assoc)
qed simp

lemma term_wait_finishing:
  "m < n \<Longrightarrow> term_wait True (int n) (replicate m (Handler (-1))) = Inl (int (n - m))"
proof (induction m arbitrary: n)
  case (Suc m)
  then have "int n + - 1 = int (n - 1)" by simp
  then show ?case using Suc.prems Suc.IH [of "n - 1"] by simp
qed simp

lemma term_wait_all_finish:
  "0 < n \<Longrightarrow> term_wait True (int n) (replicate n (Handler (-1)) @ rest) = Inr (sig_term, 0, rest)"
proof (induction n)
  case (Suc n)
  then show ?case by (cases "n = 0") simp_all
qed simp

section \<open>Properties\<close>


definition cert_connection :: connection where
  "cert_connection = obfs4_connection\<lparr>c_secret := dquote # ''cert=a;iat-mode=0'' @ [dquote]\<rparr>"

definition cert_transports :: pt_transports where
  "cert_transports = \<lparr>pt_known = (\<lambda>_. True), pt_client_factory = (\<lambda>_. True), pt_server_factory = Inl, pt_listen = (\<lambda>_ _. Inr ''127.0.0.1:9'')\<rparr>"

definition cert_config :: obfs_config where
  "cert_config = \<lparr>oc_show_ver = False, oc_log_level = [], oc_state_ok = True, oc_log_ok = True, oc_init_ok = True\<rparr>"


text \<open>
  C39. The transport process ends in order, if there is something to end. However handlers started and finished before an
  interrupt, with some open the process goes on until the last of them has finished and ends then; a termination ends it at
  once. But without an open handler at the interrupt it waits on, since it looks at their number only after an event, and
  no listener is open that could bring one.
\<close>

theorem interrupted_transport_drains:
  assumes "\<forall>e \<in> set es. \<exists>d. e = Handler d" "sum_list (map handler_delta es) = int n"
  shows "run_wait (es @ Signal sig_int # replicate n (Handler (-1))) = (if n = 0 then None else Some (0, [])) \<and>
    (\<forall>m < n. run_wait (es @ Signal sig_int # replicate m (Handler (-1))) = None) \<and>
    run_wait (es @ [Signal sig_term]) = Some (int n, [])"
proof -
  have w: "term_wait False 0 (es @ Signal s # rest) = Inr (s, int n, rest)" for s rest
    using term_wait_handlers [OF assms(1), of 0] assms(2) by simp
  show ?thesis
    using term_wait_all_finish [of n "[]"] term_wait_finishing [of _ n]
    by (cases "n = 0") (simp_all add: run_wait_def w sig_int_def sig_term_def)
qed

theorem interrupted_transport_drains_witness:
  "run_wait [Handler 1, Handler 1, Handler (-1), Signal sig_int, Handler (-1)] = Some (0, []) \<and> run_wait [Signal sig_int] = None"
  using interrupted_transport_drains [of "[Handler 1, Handler 1, Handler (-1)]" 1] interrupted_transport_drains [of "[]" 0]
  by (simp add: handler_delta_def)

end
