(* ===== verification/AccessLog.thy ===== *)
theory AccessLog
  imports GoPrelude Contracts
begin

text \<open>
  The record of requests: the access log with its formats (\<open>pkg/shared/middlewares/log.go\<close>), the log of errors alone
  (\<open>log_addons.go\<close>), the counters of responses (\<open>prometheusMW\<close>), and the middlewares of the interface of the central server
  (\<open>defaultAPI\<close> of \<open>pkg/central/api-common.go\<close>), around a handler. A format without \<open>{{\<close> is a list of literal bytes and of
  actions of the template it becomes.
\<close>

section \<open>Formats\<close>

text \<open>A request and what the inner middlewares leave in its environment; times are nanoseconds.\<close>

record log_request =
  lr_method :: string
  lr_uri :: string
  lr_proto :: string
  lr_query :: string
  lr_remote_addr :: string
  lr_user_agent :: string
  lr_referer :: string
  lr_remote_user :: "string option"
  lr_start :: "string option"
  lr_elapsed :: "int option"
  lr_status :: "int option"
  lr_bytes :: "int option"

datatype log_piece =
  Literal char | Bytes_Or_Dash | Bytes_Number | Microseconds | Remote_Addr | Proto | Method | Process_Id | Query_String |
  Request_Uri | Status | Colored_Status | Start_Time | Seconds | Remote_User | User_Agent | Referer

definition apache_adapter :: "(string \<times> log_piece list) list" where
  "apache_adapter =
     [(''%b'', [Bytes_Or_Dash]), (''%B'', [Bytes_Number]), (''%D'', [Microseconds]), (''%h'', [Remote_Addr]), (''%H'', [Proto]),
      (''%l'', [Literal (CHR ''-'')]), (''%m'', [Method]), (''%P'', [Process_Id]), (''%q'', [Query_String]),
      (''%r'', [Method, Literal (CHR '' ''), Request_Uri, Literal (CHR '' ''), Proto]), (''%s'', [Status]), (''%S'', [Colored_Status]),
      (''%t'', [Start_Time]), (''%T'', [Seconds]), (''%u'', [Remote_User]), (''%{User-Agent}i'', [User_Agent]), (''%{Referer}i'', [Referer])]"

text \<open>The replacer: at each byte the first pair in the order of the arguments, or the byte.\<close>

function convert_format :: "string \<Rightarrow> log_piece list" where
  "convert_format [] = []"
| "convert_format (c # cs) =
     (case find (\<lambda>p. has_prefix (c # cs) (fst p)) apache_adapter of
        None \<Rightarrow> Literal c # convert_format cs
      | Some (k, ps) \<Rightarrow> ps @ convert_format (drop (length k - 1) cs))"
  by pat_completeness auto
termination
  by (relation "Wellfounded.measure length") auto

definition esc :: string where "esc = [CHR 0x1B, CHR ''['']"

definition common_log_format :: string where
  "common_log_format = ''%h %l %u %t '' @ [CHR 0x22] @ ''%r'' @ [CHR 0x22] @ '' %s %b''"

definition default_log_format :: string where
  "default_log_format = ''%t %S'' @ esc @ ''0m '' @ esc @ ''36;1m%D'' @ [CHR 0xCE, CHR 0xBC] @ ''s'' @ esc @ ''0m '' @ [CHR 0x22] @ ''%r'' @
     [CHR 0x22] @ '' '' @ esc @ ''1;30m%u '' @ [CHR 0x22] @ ''%{User-Agent}i'' @ [CHR 0x22] @ esc @ ''0m''"

definition apache_query_string :: "log_request \<Rightarrow> string" where
  "apache_query_string r = (if lr_query r \<noteq> [] then CHR ''?'' # lr_query r else [])"

definition apache_remote_addr :: "log_request \<Rightarrow> string" where
  "apache_remote_addr r = takeWhile (\<lambda>c. c \<noteq> CHR '':'') (lr_remote_addr r)"

definition dash_if_empty :: "string \<Rightarrow> string" where
  "dash_if_empty s = (if s = [] then ''-'' else s)"

definition status_code :: "log_request \<Rightarrow> int" where
  "status_code r = (case lr_status r of None \<Rightarrow> 0 | Some c \<Rightarrow> c)"

definition bytes_written :: "log_request \<Rightarrow> int" where
  "bytes_written r = (case lr_bytes r of None \<Rightarrow> 0 | Some n \<Rightarrow> n)"

definition status_code_color :: "int \<Rightarrow> string" where
  "status_code_color c = (if 400 \<le> c \<and> c < 500 then ''1;33'' else if 500 \<le> c then ''0;31'' else ''0;32'')"

text \<open>
  The text of a piece; a missing response time panics in \<open>microseconds\<close>. The process id and the format of seconds
  are arguments. A quotient of \<open>int64\<close> is cut off towards zero.
\<close>

definition piece_text :: "int \<Rightarrow> (int \<Rightarrow> string) \<Rightarrow> log_request \<Rightarrow> log_piece \<Rightarrow> string option" where
  "piece_text pid seconds r p =
     (case p of
        Literal c \<Rightarrow> Some [c]
      | Bytes_Or_Dash \<Rightarrow> Some (if bytes_written r = 0 then ''-'' else itoa (bytes_written r))
      | Bytes_Number \<Rightarrow> Some (itoa (bytes_written r))
      | Microseconds \<Rightarrow> map_option (\<lambda>n. itoa (if n < 0 then - ((- n) div 1000) else n div 1000)) (lr_elapsed r)
      | Remote_Addr \<Rightarrow> Some (apache_remote_addr r)
      | Proto \<Rightarrow> Some (lr_proto r)
      | Method \<Rightarrow> Some (lr_method r)
      | Process_Id \<Rightarrow> Some (itoa pid)
      | Query_String \<Rightarrow> Some (apache_query_string r)
      | Request_Uri \<Rightarrow> Some (lr_uri r)
      | Status \<Rightarrow> Some (itoa (status_code r))
      | Colored_Status \<Rightarrow> Some (esc @ status_code_color (status_code r) @ ''m'' @ itoa (status_code r))
      | Start_Time \<Rightarrow> Some (case lr_start r of None \<Rightarrow> [] | Some t \<Rightarrow> t)
      | Seconds \<Rightarrow> Some (case lr_elapsed r of None \<Rightarrow> [] | Some n \<Rightarrow> seconds n)
      | Remote_User \<Rightarrow> Some (dash_if_empty (case lr_remote_user r of None \<Rightarrow> [] | Some u \<Rightarrow> u))
      | User_Agent \<Rightarrow> Some (dash_if_empty (lr_user_agent r))
      | Referer \<Rightarrow> Some (dash_if_empty (lr_referer r)))"

fun execute_template :: "int \<Rightarrow> (int \<Rightarrow> string) \<Rightarrow> log_request \<Rightarrow> log_piece list \<Rightarrow> string option" where
  "execute_template pid seconds r [] = Some []"
| "execute_template pid seconds r (p # ps) =
     (case (piece_text pid seconds r p, execute_template pid seconds r ps) of (Some a, Some b) \<Rightarrow> Some (a @ b) | _ \<Rightarrow> None)"

section \<open>Middlewares\<close>

text \<open>
  A handler takes the state of the server and a request to the state and the request with its environment. The log
  keeps the lines; a template that panics is \<open>None\<close>.
\<close>

type_synonym 's handler = "log_request \<Rightarrow> 's \<Rightarrow> log_request \<times> 's"

definition access_log ::
  "int \<Rightarrow> (int \<Rightarrow> string) \<Rightarrow> string \<Rightarrow> 's handler \<Rightarrow> log_request \<Rightarrow> 's \<times> string list \<Rightarrow> (log_request \<times> 's \<times> string list) option" where
  "access_log pid seconds fmt h r sl =
     (let f = (if fmt = [] then default_log_format else fmt);
          (r', s') = h r (fst sl)
      in map_option (\<lambda>m. (r', s', snd sl @ [m])) (execute_template pid seconds r' (convert_format f)))"

definition error_log ::
  "int \<Rightarrow> (int \<Rightarrow> string) \<Rightarrow> string \<Rightarrow> 's handler \<Rightarrow> log_request \<Rightarrow> 's \<times> string list \<Rightarrow> (log_request \<times> 's \<times> string list) option" where
  "error_log pid seconds fmt h r sl =
     (let (r', s') = h r (fst sl) in
      case lr_status r' of
        None \<Rightarrow> Some (r', s', snd sl)
      | Some c \<Rightarrow> if 299 < c then access_log pid seconds fmt (\<lambda>r s. (r, s)) r' (s', snd sl) else Some (r', s', snd sl))"

record counters =
  pc_requests :: nat
  pc_500 :: nat
  pc_5xx :: nat
  pc_400 :: nat
  pc_404 :: nat
  pc_4xx :: nat

definition count_response :: "log_request \<Rightarrow> counters \<Rightarrow> counters" where
  "count_response r c0 =
     (let c = c0\<lparr>pc_requests := Suc (pc_requests c0)\<rparr> in
      case lr_status r of
        None \<Rightarrow> c
      | Some s \<Rightarrow>
          if s = 500 then c\<lparr>pc_500 := Suc (pc_500 c)\<rparr>
          else if 500 < s then c\<lparr>pc_5xx := Suc (pc_5xx c)\<rparr>
          else if s = 400 then c\<lparr>pc_400 := Suc (pc_400 c)\<rparr>
          else if s = 404 then c\<lparr>pc_404 := Suc (pc_404 c)\<rparr>
          else if 400 < s then c\<lparr>pc_4xx := Suc (pc_4xx c)\<rparr>
          else c)"

text \<open>
  The interface of the central server. The handler gives a status and the size of its body, or panics, which the innermost
  middleware makes the status 500; the timer and the recorder write the environment, the log and the counters read it.
\<close>

record log_exchange =
  ex_start :: string
  ex_elapsed :: int
  ex_error_bytes :: int

definition timed_and_recorded ::
  "log_exchange \<Rightarrow> (log_request \<Rightarrow> 's \<Rightarrow> (int \<times> int) option \<times> 's) \<Rightarrow> 's handler" where
  "timed_and_recorded x h r s =
     (let (reply, s') = h r s; (code, n) = (case reply of Some cn \<Rightarrow> cn | None \<Rightarrow> (500, ex_error_bytes x)) in
      (r\<lparr>lr_start := Some (ex_start x), lr_elapsed := Some (ex_elapsed x), lr_status := Some code, lr_bytes := Some n\<rparr>, s'))"

definition central_log_format :: "bool \<Rightarrow> string" where
  "central_log_format verbose =
     ''%S'' @ esc @ ''0m '' @ esc @ ''36;1m%D'' @ [CHR 0xCE, CHR 0xBC] @ ''s'' @ esc @ ''0m '' @ [CHR 0x22] @ ''%r'' @ [CHR 0x22] @ '' '' @ esc @
     ''1;30m%u '' @ (if verbose then [CHR 0x22] @ ''%{User-Agent}i'' @ [CHR 0x22] else []) @ esc @ ''0m''"

definition central_api ::
  "int \<Rightarrow> (int \<Rightarrow> string) \<Rightarrow> bool \<Rightarrow> log_exchange \<Rightarrow> (log_request \<Rightarrow> 's \<Rightarrow> (int \<times> int) option \<times> 's) \<Rightarrow> log_request \<Rightarrow>
   's \<times> string list \<times> counters \<Rightarrow> ('s \<times> string list \<times> counters) option" where
  "central_api pid seconds verbose x h r st =
     (let (s, log, c) = st in
      map_option (\<lambda>(r', s', log'). (s', log', count_response r' c))
        (access_log pid seconds (central_log_format verbose) (timed_and_recorded x h) r (s, log)))"

section \<open>Lemmas\<close>

definition of_client :: "log_piece \<Rightarrow> bool" where
  "of_client p \<longleftrightarrow> p = Remote_Addr \<or> p = User_Agent"

lemma central_pieces:
  "list_all (\<lambda>p. \<not> of_client p) (convert_format (central_log_format False))"
  "list_all (\<lambda>p. p \<noteq> Remote_Addr) (convert_format (central_log_format True))"
  by code_simp+

lemma piece_text_client:
  "\<not> of_client p \<Longrightarrow> piece_text pid seconds (r\<lparr>lr_remote_addr := a, lr_user_agent := u\<rparr>) p = piece_text pid seconds r p"
  "p \<noteq> Remote_Addr \<Longrightarrow> piece_text pid seconds (r\<lparr>lr_remote_addr := a, lr_user_agent := u\<rparr>) p = piece_text pid seconds (r\<lparr>lr_user_agent := u\<rparr>) p"
  by (cases p; simp add: piece_text_def of_client_def status_code_def bytes_written_def apache_query_string_def)+

lemma execute_client:
  "list_all (\<lambda>p. \<not> of_client p) ps \<Longrightarrow>
   execute_template pid seconds (r\<lparr>lr_remote_addr := a, lr_user_agent := u\<rparr>) ps = execute_template pid seconds r ps"
  "list_all (\<lambda>p. p \<noteq> Remote_Addr) ps \<Longrightarrow>
   execute_template pid seconds (r\<lparr>lr_remote_addr := a, lr_user_agent := u\<rparr>) ps = execute_template pid seconds (r\<lparr>lr_user_agent := u\<rparr>) ps"
  by (induction ps) (simp_all add: piece_text_client)

lemma execute_total: "lr_elapsed r \<noteq> None \<Longrightarrow> \<exists>t. execute_template pid seconds r ps = Some t"
proof (induction ps)
  case (Cons p ps)
  have "\<exists>t. piece_text pid seconds r p = Some t" using Cons.prems by (cases p) (auto simp: piece_text_def)
  then show ?case using Cons by auto
qed simp

lemma central_format_nonempty [simp]: "central_log_format v \<noteq> []"
  by (simp add: central_log_format_def)

lemma recorded_client:
  assumes "\<forall>a u. h (r\<lparr>lr_remote_addr := a, lr_user_agent := u\<rparr>) s = h r s"
  shows "timed_and_recorded x h (r\<lparr>lr_remote_addr := a, lr_user_agent := u\<rparr>) s =
    ((fst (timed_and_recorded x h r s))\<lparr>lr_remote_addr := a, lr_user_agent := u\<rparr>, snd (h r s))"
  "lr_elapsed (fst (timed_and_recorded x h r s)) \<noteq> None"
  using assms by (simp_all add: timed_and_recorded_def split: prod.split)

lemma count_client [simp]: "count_response (r\<lparr>lr_remote_addr := a, lr_user_agent := u\<rparr>) c = count_response r c"
  by (simp add: count_response_def)

text \<open>The counters of classes leave out the codes that have a counter of their own.\<close>

definition class_counts :: "int list \<Rightarrow> counters" where
  "class_counts cs =
     \<lparr>pc_requests = length cs, pc_500 = length (filter (\<lambda>c. c = 500) cs), pc_5xx = length (filter (\<lambda>c. 500 < c) cs),
      pc_400 = length (filter (\<lambda>c. c = 400) cs), pc_404 = length (filter (\<lambda>c. c = 404) cs),
      pc_4xx = length (filter (\<lambda>c. 400 < c \<and> c < 500 \<and> c \<noteq> 404) cs)\<rparr>"

lemma counters_of_codes:
  "foldl (\<lambda>c r. count_response r c) (class_counts cs) (map (\<lambda>c. r\<lparr>lr_status := Some c\<rparr>) ds) = class_counts (cs @ ds)"
proof (induction ds arbitrary: cs)
  case (Cons d ds)
  have "count_response (r\<lparr>lr_status := Some d\<rparr>) (class_counts cs) = class_counts (cs @ [d])"
    by (simp add: count_response_def class_counts_def Let_def)
  then show ?case using Cons [of "cs @ [d]"] by simp
qed simp

text \<open>A request that ends without an error is not in the log of errors, however it is formatted.\<close>

lemma error_log_skips: "lr_status (fst (h r s)) = Some c \<Longrightarrow> c \<le> 299 \<Longrightarrow> error_log pid seconds fmt h r (s, log) = Some (fst (h r s), snd (h r s), log)"
  by (cases "h r s") (simp add: error_log_def)

section \<open>Properties\<close>


definition demo_request :: log_request where
  "demo_request = \<lparr>lr_method = ''GET'', lr_uri = ''/v1/x'', lr_proto = ''HTTP/1.1'', lr_query = [], lr_remote_addr = ''192.0.2.1:9'',
     lr_user_agent = ''a'', lr_referer = [], lr_remote_user = None, lr_start = None, lr_elapsed = None, lr_status = None, lr_bytes = None\<rparr>"


end
