(* ===== verification/PublicIp.thy ===== *)
theory PublicIp
  imports ConnManager UrlValidator
begin

text \<open>
  The public address of the machine (\<open>pkg/shared/publicip.go\<close>): one loop asks services in turn, in an order that is shuffled
  once, and every caller waits until there was an answer or all services were tried. An attempt is what a service answers:
  \<open>None\<close> for an error, or the body.
\<close>

definition wan_ip_services :: "string list" where
  "wan_ip_services =
     [''https://ip.appspot.com'', ''http://utils.admin-linux.fr/ip.php'', ''http://bot.whatismyipaddress.com'',
      ''http://ip-api.com/line/?fields=query'', ''http://ipinfo.io/ip'', ''http://icanhazip.com'', ''http://www.trackip.net/ip'',
      ''http://myexternalip.com/raw'', ''https://whatismyip.herokuapp.com/'']"

record public_ip =
  pi_index :: nat
  pi_ip :: "ip option"
  pi_released :: bool
  pi_asked :: "string list"

definition start_public_ip :: public_ip where
  "start_public_ip = \<lparr>pi_index = 0, pi_ip = None, pi_released = False, pi_asked = []\<rparr>"

definition answer_ip :: "string option \<Rightarrow> ip option" where
  "answer_ip a = (case a of None \<Rightarrow> None | Some body \<Rightarrow> parse_ip (trim_space body))"

text \<open>One turn of the loop: the next service, the waiting callers released before the first is asked, and the answer.\<close>

definition ip_attempt :: "string list \<Rightarrow> public_ip \<Rightarrow> string option \<Rightarrow> public_ip" where
  "ip_attempt services p a =
     (let i = (pi_index p + 1) mod length services;
          p1 = p\<lparr>pi_index := i, pi_released := pi_released p \<or> i = 0, pi_asked := pi_asked p @ [services ! i]\<rparr>
      in case answer_ip a of
           None \<Rightarrow> p1
         | Some ip \<Rightarrow> p1\<lparr>pi_ip := Some ip, pi_released := True\<rparr>)"

definition ip_updater :: "(nat \<Rightarrow> nat \<Rightarrow> nat) \<Rightarrow> string option list \<Rightarrow> public_ip" where
  "ip_updater rnd as = foldl (ip_attempt (shuffle rnd wan_ip_services)) start_public_ip as"

text \<open>What a caller gets: \<open>None\<close> while it waits, and then an address of four bytes or none.\<close>

definition get_public_ip_addr :: "public_ip \<Rightarrow> ip option option" where
  "get_public_ip_addr p = (if \<not> pi_released p then None else Some (Option.bind (pi_ip p) to4))"

text \<open>The dialer of the loop turns every network into that of IPv4.\<close>

definition v4_dial :: "(string \<Rightarrow> string \<Rightarrow> 'r) \<Rightarrow> string \<Rightarrow> string \<Rightarrow> 'r" where
  "v4_dial dial network address = dial ''tcp4'' address"

section \<open>Lemmas\<close>

lemma shuffled_services:
  "mset (shuffle (\<lambda>i n. rnd i n mod n) wan_ip_services) = mset wan_ip_services"
  "length (shuffle (\<lambda>i n. rnd i n mod n) wan_ip_services) = 9"
proof -
  show m: "mset (shuffle (\<lambda>i n. rnd i n mod n) wan_ip_services) = mset wan_ip_services"
    using shuffle_steps [of "\<lambda>i n. rnd i n mod n" "length wan_ip_services" wan_ip_services] by (simp add: shuffle_def)
  have "length wan_ip_services = 9" by (simp add: wan_ip_services_def)
  then show "length (shuffle (\<lambda>i n. rnd i n mod n) wan_ip_services) = 9" using mset_eq_length [OF m] by simp
qed

lemma mset_rotate1: "mset (rotate1 xs) = mset xs"
  by (cases xs) simp_all

lemma mset_rotate_any: "mset (rotate n xs) = mset xs"
  by (induction n) (simp_all add: mset_rotate1)

text \<open>The last answer that is an address.\<close>

definition last_answer :: "string option list \<Rightarrow> ip option" where
  "last_answer as = (let is = List.map_filter answer_ip as in if is = [] then None else Some (last is))"

lemma last_answer_snoc: "last_answer (as @ [a]) = (case answer_ip a of None \<Rightarrow> last_answer as | Some i \<Rightarrow> Some i)"
  by (auto simp: last_answer_def List.map_filter_def Let_def split: option.splits)

lemma updater_state:
  assumes "length services = n" "0 < n"
  shows "foldl (ip_attempt services) start_public_ip as =
    \<lparr>pi_index = length as mod n, pi_ip = last_answer as, pi_released = (n \<le> length as \<or> last_answer as \<noteq> None),
     pi_asked = map (\<lambda>i. services ! (Suc i mod n)) [0..<length as]\<rparr>"
proof (induction as rule: rev_induct)
  case Nil
  then show ?case using assms by (simp add: start_public_ip_def last_answer_def List.map_filter_def)
next
  case (snoc a as)
  have turn: "n \<le> Suc (length as) \<longleftrightarrow> n \<le> length as \<or> Suc (length as) mod n = 0"
  proof (cases "n \<le> length as")
    case False
    then show ?thesis by (cases "Suc (length as) = n") simp_all
  qed simp
  have "foldl (ip_attempt services) start_public_ip (as @ [a]) =
      ip_attempt services (foldl (ip_attempt services) start_public_ip as) a" by simp
  also have "\<dots> = \<lparr>pi_index = length (as @ [a]) mod n, pi_ip = last_answer (as @ [a]),
     pi_released = (n \<le> length (as @ [a]) \<or> last_answer (as @ [a]) \<noteq> None),
     pi_asked = map (\<lambda>i. services ! (Suc i mod n)) [0..<length (as @ [a])]\<rparr>"
    unfolding snoc using assms(1) turn
    by (cases "answer_ip a") (auto simp: ip_attempt_def last_answer_snoc mod_Suc_eq Let_def)
  finally show ?case .
qed

section \<open>Properties\<close>



end
