(* ===== verification/Admin.thy ===== *)
theory Admin
  imports NetAddr Contracts BinaryUpgrade
begin

text \<open>
  The commands of the administrator (\<open>cmd/alkasir-admin\<close>) and what they rest on: the tree of commands with its help and its
  dispatch, the reports that a client exports for debugging, sealed for a public key and opened and written by the import
  (\<open>pkg/debugexport\<close>), and the programs that are fetched from the archive server (\<open>pkg/nexus\<close>). JSON, the sealing, the
  network, archives and the matching of file names are arguments.
\<close>

section \<open>Commands\<close>

datatype admin_func =
  Download_Snapshot | Insert_Export_Auth | Create_Upgrade_Auto | List_Versions | Create_Upgrade | Make_Upgrade_Keys |
  Insert_Upgrades | Debug_Import | Debug_Pprof | Make_Debug_Keys

datatype command = Command (co_name: string) (co_func: "admin_func option") (co_subs: "command list") (co_help: string)

definition root_command :: command where
  "root_command = Command [] None
     [Command ''download'' (Some Download_Snapshot) [] ''artifact-id - Download latest snapshot from nexus'',
      Command ''export-api'' None
        [Command ''insert'' (Some Insert_Export_Auth) [] ''username password - set username/password for export api authentication.''] [],
      Command ''upgrade'' None
        [Command ''autocreate'' (Some Create_Upgrade_Auto) [] '' - Creates binary diffs for the latest release'',
         Command ''list'' (Some List_Versions) [] '' - List all versions in the nexus repository.'',
         Command ''create'' (Some Create_Upgrade) []
           ''[-h] oldversion oldfilename  - Creates binary between any files, only used to test upgrades.'',
         Command ''makekeys'' (Some Make_Upgrade_Keys) [] '' - Generate a key pair for upgrade signing'',
         Command ''dbimport'' (Some Insert_Upgrades) [] '' - Import created upgrades into db''] [],
      Command ''debug'' None
        [Command ''import'' (Some Debug_Import) [] ''[files...] ex. debugfile.txt- debugfile2.txt-...'',
         Command ''heap'' (Some Debug_Pprof) [] ''[file] - if not speicied the latest import is used'',
         Command ''makekeys'' (Some Make_Debug_Keys) [] '' - Generate a key pair for debug export/import''] []] []"

definition commands_get :: "string \<Rightarrow> command list \<Rightarrow> command option" where
  "commands_get n cs = find (\<lambda>c. co_name c = n) cs"

text \<open>The loop down the tree: the function that runs with its arguments, or \<open>None\<close> for a command that is not found.\<close>

fun command_handler :: "command \<Rightarrow> string list \<Rightarrow> (admin_func \<times> string list) option" where
  "command_handler node [] = None"
| "command_handler node (a # args) =
     (case commands_get a (co_subs node) of
        None \<Rightarrow> None
      | Some c \<Rightarrow> (case co_func c of Some f \<Rightarrow> Some (f, args) | None \<Rightarrow> command_handler c args))"

fun help_lines :: "string \<Rightarrow> command \<Rightarrow> string list" where
  "help_lines pre (Command n f subs help) =
     (let pre' = (if n \<noteq> [] then pre @ '' '' @ n else pre);
          msg = (if n \<noteq> [] then pre' else []) @ (if help \<noteq> [] then '' '' @ help else [])
      in if subs \<noteq> [] then concat (map (help_lines pre') subs) else [msg])"

datatype admin_error = No_Value | Not_Found | Other_Error string

text \<open>The exit code of the program: a missing value is only told about.\<close>

definition admin_main :: "(admin_func \<Rightarrow> string list \<Rightarrow> admin_error option) \<Rightarrow> string list \<Rightarrow> nat" where
  "admin_main run args =
     (if args = [] then 1
      else (case command_handler root_command args of
              None \<Rightarrow> 1
            | Some (f, rest) \<Rightarrow>
                (case run f rest of
                   None \<Rightarrow> 0
                 | Some No_Value \<Rightarrow> 0
                 | Some Not_Found \<Rightarrow> 1
                 | Some (Other_Error _) \<Rightarrow> 255)))"

section \<open>Reports\<close>

record debug_header =
  dh_version :: string
  dh_created :: time
  dh_id :: string
  dh_os :: string
  dh_arch :: string
  dh_cmd :: string
  dh_go_version :: string

record debug_response =
  dr_header :: debug_header
  dr_config :: string
  dr_log :: "string list"
  dr_heap :: "string list"
  dr_goroutines :: "string list"
  dr_block :: "string list"
  dr_thread_create :: "string list"
  dr_encrypted :: string

fun hex_decode :: "string \<Rightarrow> string option" where
  "hex_decode [] = Some []"
| "hex_decode [_] = None"
| "hex_decode (a # b # s) =
     (case (hex_val a, hex_val b, hex_decode s) of (Some x, Some y, Some r) \<Rightarrow> Some (char_of (16 * x + y) # r) | _ \<Rightarrow> None)"

text \<open>
  \<open>Encrypt\<close>: a key that is not hexadecimal ends the program and a shorter one panics, both \<open>Crashed\<close>; a report that cannot be
  encoded or sealed stays as it is, without an error. \<open>seal\<close> gets the first 32 bytes of the key.
\<close>

definition debug_encrypt ::
  "(debug_response \<Rightarrow> string option) \<Rightarrow> (string \<Rightarrow> string \<Rightarrow> string option) \<Rightarrow> string \<Rightarrow> debug_response \<Rightarrow>
   (string option \<times> debug_response) outcome" where
  "debug_encrypt marshal seal pub d =
     (if pub = [] then Returned (Some ''pubKey must be supplied'', d)
      else (case hex_decode pub of
              None \<Rightarrow> Crashed
            | Some k \<Rightarrow>
                if length k < 32 then Crashed
                else (case marshal d of
                        None \<Rightarrow> Returned (None, d)
                      | Some data \<Rightarrow>
                          (case seal data (take 32 k) of
                             None \<Rightarrow> Returned (None, d)
                           | Some box \<Rightarrow>
                               Returned (None, \<lparr>dr_header = dr_header d, dr_config = [], dr_log = [], dr_heap = [], dr_goroutines = [],
                                 dr_block = [], dr_thread_create = [], dr_encrypted = hex_encode box\<rparr>)))))"

definition debug_key :: "string \<Rightarrow> string \<Rightarrow> string + string" where
  "debug_key what k =
     (case hex_decode k of
        None \<Rightarrow> Inl (''Could not decode debug '' @ what @ '' key'')
      | Some b \<Rightarrow> if length b \<noteq> 32 then Inl ''Invalid public key length'' else Inr b)"

definition debug_decrypt ::
  "(string \<Rightarrow> string + debug_response) \<Rightarrow> (string \<Rightarrow> string \<Rightarrow> string \<Rightarrow> string + string) \<Rightarrow> string \<Rightarrow> string \<Rightarrow> debug_response \<Rightarrow>
   string option \<times> debug_response" where
  "debug_decrypt unmarshal open_box pub sec d =
     (if pub = [] then (Some ''public key must be supplied'', d)
      else if sec = [] then (Some ''secret key must be supplied'', d)
      else if dr_encrypted d = [] then (Some ''encrypted field is empty'', d)
      else (case debug_key ''public'' pub of
              Inl e \<Rightarrow> (Some e, d)
            | Inr pk \<Rightarrow>
                (case debug_key ''secret'' sec of
                   Inl e \<Rightarrow> (Some e, d)
                 | Inr sk \<Rightarrow>
                     (case hex_decode (dr_encrypted d) of
                        None \<Rightarrow> (Some ''could not decode encrypted info: '', d)
                      | Some box \<Rightarrow>
                          (case open_box box pk sk of
                             Inl e \<Rightarrow> (Some (''could not decrypt debug info: '' @ e), d)
                           | Inr data \<Rightarrow>
                               (case unmarshal data of
                                  Inl e \<Rightarrow> (Some (''could not decode decrypted content: '' @ e), d)
                                | Inr r \<Rightarrow> (None, r)))))))"

text \<open>The texts of the errors of \<open>hex\<close> are left out above. A new report of a client is sealed when the program was built with a key.\<close>

definition seal_debug_response ::
  "(debug_response \<Rightarrow> string option) \<Rightarrow> (string \<Rightarrow> string \<Rightarrow> string option) \<Rightarrow> string \<Rightarrow> debug_response \<Rightarrow> debug_response outcome" where
  "seal_debug_response marshal seal key d =
     (if key = [] then Returned d
      else (case debug_encrypt marshal seal key d of
              Returned (_, d') \<Rightarrow> Returned d' | Failed \<Rightarrow> Failed | Crashed \<Rightarrow> Crashed))"

text \<open>
  \<open>NewDebugResponse\<close> with the random id of the report, what the runtime tells of the program, the profiles as they are written
  and the lines of the log.
\<close>

definition get_profile :: "(string \<Rightarrow> string option) \<Rightarrow> string \<Rightarrow> string list" where
  "get_profile profile n = (case profile n of None \<Rightarrow> [] | Some s \<Rightarrow> split_char (CHR 0x0A) s)"

definition collect_report :: "debug_header \<Rightarrow> string \<Rightarrow> (string \<Rightarrow> string option) \<Rightarrow> string list \<Rightarrow> debug_response" where
  "collect_report h config profile memlog =
     \<lparr>dr_header = h, dr_config = config, dr_log = memlog, dr_heap = get_profile profile ''heap'',
      dr_goroutines = get_profile profile ''goroutine'', dr_block = get_profile profile ''block'',
      dr_thread_create = get_profile profile ''threadcreate'', dr_encrypted = []\<rparr>"

definition new_debug_response ::
  "(debug_response \<Rightarrow> string option) \<Rightarrow> (string \<Rightarrow> string \<Rightarrow> string option) \<Rightarrow> string \<Rightarrow> string option \<Rightarrow> debug_header \<Rightarrow> string \<Rightarrow>
   (string \<Rightarrow> string option) \<Rightarrow> string list \<Rightarrow> debug_response outcome" where
  "new_debug_response marshal seal key random h config profile memlog =
     (case random of
        None \<Rightarrow> Crashed
      | Some i \<Rightarrow> seal_debug_response marshal seal key (collect_report (h\<lparr>dh_id := i\<rparr>) config profile memlog))"

text \<open>
  The files of a report, in the order they are written; a text file is opened without cutting it off. \<open>fails\<close> says which
  cannot be written, \<open>header\<close> and \<open>config\<close> are the encoded values.
\<close>

definition overwrite :: "string option \<Rightarrow> string \<Rightarrow> string" where
  "overwrite old new = new @ (case old of None \<Rightarrow> [] | Some o1 \<Rightarrow> drop (length new) o1)"

definition text_of_lines :: "string list \<Rightarrow> string" where
  "text_of_lines ls = concat (map (\<lambda>l. l @ [CHR 0x0A]) ls)"

definition report_dir :: "(time \<Rightarrow> string) \<Rightarrow> debug_response \<Rightarrow> string" where
  "report_dir minutes d =
     (let h = dr_header d in
      path_join [''alkasir-debug-reports'', join ''-'' [minutes (dh_created h), dh_os h, dh_arch h, dh_id h, dh_version h]])"

definition report_texts :: "debug_response \<Rightarrow> (string \<times> string list) list" where
  "report_texts d =
     [(''log'', dr_log d), (''heap'', dr_heap d), (''goroutines'', dr_goroutines d), (''block'', dr_block d), (''threadcreate'', dr_thread_create d)]"

definition write_text_file :: "(string \<Rightarrow> bool) \<Rightarrow> string \<Rightarrow> string \<times> string list \<Rightarrow> (string, string) gomap \<Rightarrow> (string, string) gomap" where
  "write_text_file fails dir f w =
     (let p = path_join [dir, fst f @ ''.txt''] in if fails p then w else AList.update p (overwrite (map_of w p) (text_of_lines (snd f))) w)"

definition write_json_file :: "(string \<Rightarrow> bool) \<Rightarrow> string \<Rightarrow> string \<Rightarrow> string \<Rightarrow> (string, string) gomap \<Rightarrow> (string, string) gomap" where
  "write_json_file fails dir n data w =
     (let p = path_join [dir, n @ ''.json''] in if fails p then w else AList.update p data w)"

definition write_report ::
  "(time \<Rightarrow> string) \<Rightarrow> (debug_header \<Rightarrow> string) \<Rightarrow> (string \<Rightarrow> string) \<Rightarrow> bool \<Rightarrow> (string \<Rightarrow> bool) \<Rightarrow> debug_response \<Rightarrow> (string, string) gomap \<Rightarrow>
   (string option \<times> (string, string) gomap) outcome" where
  "write_report minutes header config dir_ok fails d w =
     (if dr_encrypted d \<noteq> [] then Returned (Some ''will not write encrypted file to disk'', w)
      else if \<not> dir_ok then Crashed
      else (let dir = report_dir minutes d;
                w1 = write_json_file fails dir ''header'' (header (dr_header d)) w;
                w2 = fold (write_text_file fails dir) (report_texts d) w1;
                w3 = write_json_file fails dir ''config'' (config (dr_config d)) w2;
                paths = map (\<lambda>f. path_join [dir, fst f @ ''.txt'']) (report_texts d) @ [path_join [dir, ''header.json''], path_join [dir, ''config.json'']]
            in Returned (if list_ex fails paths then Some (''errors writing out report '' @ dir) else None, w3)))"

text \<open>
  The import of files: a file that cannot be read or is no report ends the program, a report that does not open is left out.
  The outcome of writing a report is not looked at.
\<close>

definition import_report ::
  "(string \<Rightarrow> string + debug_response) \<Rightarrow> (string \<Rightarrow> string \<Rightarrow> string \<Rightarrow> string + string) \<Rightarrow> string \<Rightarrow> string \<Rightarrow>
   (debug_response \<Rightarrow> 'w \<Rightarrow> (string option \<times> 'w) outcome) \<Rightarrow> string option \<Rightarrow> 'w \<Rightarrow> 'w outcome" where
  "import_report unmarshal open_box pub sec write file w =
     (case file of
        None \<Rightarrow> Failed
      | Some text1 \<Rightarrow>
          (case unmarshal text1 of
             Inl _ \<Rightarrow> Failed
           | Inr d \<Rightarrow>
               (let (e, d') = (if dr_encrypted d \<noteq> [] then debug_decrypt unmarshal open_box pub sec d else (None, d)) in
                if e \<noteq> None then Returned w
                else (case write d' w of Returned (_, w') \<Rightarrow> Returned w' | Failed \<Rightarrow> Failed | Crashed \<Rightarrow> Crashed))))"

fun debug_import ::
  "(string option \<Rightarrow> 'w \<Rightarrow> 'w outcome) \<Rightarrow> string option list \<Rightarrow> 'w \<Rightarrow> 'w outcome" where
  "debug_import import1 [] w = Returned w"
| "debug_import import1 (f # fs) w =
     (case import1 f w of Returned w' \<Rightarrow> debug_import import1 fs w' | Failed \<Rightarrow> Failed | Crashed \<Rightarrow> Crashed)"

section \<open>Programs from the archive server\<close>

record build_query =
  bq_os :: string
  bq_arch :: string
  bq_cmd :: string
  bq_version :: string

definition bq_classifier :: "build_query \<Rightarrow> string" where
  "bq_classifier q = bq_os q @ ''-'' @ bq_arch q"

definition artifact_display_name :: "build_query \<Rightarrow> string" where
  "artifact_display_name q = bq_cmd q @ ''-'' @ bq_os q @ ''-'' @ bq_arch q"

definition cmd_glob :: "build_query \<Rightarrow> string + string" where
  "cmd_glob q =
     (if bq_cmd q \<in> {''alkasir-gui'', ''alkasir-central'', ''alkasir-downloader'', ''alkasir-admin''} then Inr ''/alkasir*''
      else if bq_cmd q = ''alkasir-client'' then Inr (if bq_os q = ''windows'' then ''/alkasir*.exe'' else ''/alkasir*/alkasir*'')
      else Inl (bq_cmd q @ '' is not a supported command''))"

definition bq_packaging :: "build_query \<Rightarrow> string" where
  "bq_packaging q =
     (if bq_os q = ''windows'' then ''zip''
      else if bq_os q = ''darwin'' \<and> bq_cmd q = ''alkasir-gui-osxapp'' then ''zip'' else ''tar.gz'')"

definition one_match :: "'a list \<Rightarrow> string + 'a" where
  "one_match as = (case as of [a] \<Rightarrow> Inr a | _ \<Rightarrow> Inl ''one match expected'')"

text \<open>
  The directory of an artifact: its archive and the files that were extracted. \<open>download\<close> creates the file before it asks, so
  a failed one leaves what arrived until then, an empty archive if the request failed; the directory of the extracted files is
  emptied before each extraction. An answer is the error, if there is one, and the bytes that arrived. That the files of the
  cache can be created is taken for granted.
\<close>

record artifact_dir =
  ad_archive :: "string option"
  ad_files :: "string list"

definition nexus_download :: "string option \<times> string \<Rightarrow> artifact_dir \<Rightarrow> string option \<times> artifact_dir" where
  "nexus_download answer a = (fst answer, a\<lparr>ad_archive := Some (snd answer)\<rparr>)"

definition nexus_extract :: "(string \<Rightarrow> string option \<times> string list) \<Rightarrow> artifact_dir \<Rightarrow> string option \<times> artifact_dir" where
  "nexus_extract unpack a =
     (let (e, fs) = unpack (case ad_archive a of None \<Rightarrow> [] | Some d \<Rightarrow> d) in (e, a\<lparr>ad_files := fs\<rparr>))"

definition first_match :: "(string \<Rightarrow> string list \<Rightarrow> string list) \<Rightarrow> string \<Rightarrow> artifact_dir \<Rightarrow> (string + string) outcome \<times> artifact_dir" where
  "first_match glob pat a = (case glob pat (ad_files a) of [] \<Rightarrow> Crashed | f # _ \<Rightarrow> Returned (Inr f), a)"

text \<open>\<open>GetBinary\<close> with the answers of the first and the second download; \<open>lg.Fatal\<close> is \<open>Crashed\<close>.\<close>

definition get_binary ::
  "(string \<Rightarrow> string list \<Rightarrow> string list) \<Rightarrow> (string \<Rightarrow> string option \<times> string list) \<Rightarrow> string option \<times> string \<Rightarrow> string option \<times> string \<Rightarrow>
   build_query \<Rightarrow> artifact_dir \<Rightarrow> (string + string) outcome \<times> artifact_dir" where
  "get_binary glob unpack first second q a0 =
     (case cmd_glob q of
        Inl e \<Rightarrow> (Returned (Inl e), a0)
      | Inr pat \<Rightarrow>
          (case (if ad_archive a0 = None then nexus_download first a0 else (None, a0)) of
             (Some _, a1) \<Rightarrow> (Crashed, a1)
           | (None, a1) \<Rightarrow>
               if glob pat (ad_files a1) \<noteq> [] then (Returned (Inr (hd (glob pat (ad_files a1)))), a1)
               else (case nexus_extract unpack a1 of
                       (None, a2) \<Rightarrow> first_match glob pat a2
                     | (Some _, a2) \<Rightarrow>
                         (case nexus_download second a2 of
                            (Some e, a3) \<Rightarrow> (Returned (Inl e), a3)
                          | (None, a3) \<Rightarrow>
                              (case nexus_extract unpack a3 of
                                 (Some e, a4) \<Rightarrow> (Returned (Inl e), a4)
                               | (None, a4) \<Rightarrow> first_match glob pat a4)))))"

section \<open>Lemmas\<close>

text \<open>The commands at the leaves, with the names on the way to them.\<close>

fun leaf_paths :: "command \<Rightarrow> (string list \<times> command) list" where
  "leaf_paths (Command n f subs help) =
     (if subs = [] then [([], Command n f subs help)]
      else concat (map (\<lambda>c. map (apfst ((#) (co_name c))) (leaf_paths c)) subs))"

text \<open>Siblings have different names, and exactly the leaves have a function.\<close>

fun commands_ok :: "command \<Rightarrow> bool" where
  "commands_ok (Command n f subs help) \<longleftrightarrow>
     (f \<noteq> None \<longleftrightarrow> subs = []) \<and> distinct (map co_name subs) \<and> list_all commands_ok subs"

lemma root_command_ok: "commands_ok root_command"
  by (simp add: root_command_def)

lemma commands_get_mem:
  "distinct (map co_name cs) \<Longrightarrow> commands_get a cs = Some c \<longleftrightarrow> c \<in> set cs \<and> co_name c = a"
  unfolding commands_get_def by (induction cs) auto

lemma leaf_paths_sub:
  "co_subs node \<noteq> [] \<Longrightarrow> (path, l) \<in> set (leaf_paths node) \<longleftrightarrow>
     (\<exists>c p. c \<in> set (co_subs node) \<and> path = co_name c # p \<and> (p, l) \<in> set (leaf_paths c))"
proof (cases node)
  case (Command n f subs h)
  assume "co_subs node \<noteq> []"
  then have "leaf_paths node = concat (map (\<lambda>c. map (apfst ((#) (co_name c))) (leaf_paths c)) subs)" using Command by simp
  then show ?thesis using Command by (simp add: image_iff) (metis (no_types, lifting) apfst_conv prod.collapse prod.inject)
qed

lemma leaf_self: "co_subs c = [] \<Longrightarrow> leaf_paths c = [([], c)]"
  by (cases c) simp

lemma leaf_path_nonempty: "co_subs c \<noteq> [] \<Longrightarrow> (p, l) \<in> set (leaf_paths c) \<Longrightarrow> p \<noteq> []"
  by (auto simp: leaf_paths_sub)

lemma commands_ok_sub: "commands_ok c \<Longrightarrow> d \<in> set (co_subs c) \<Longrightarrow> commands_ok d"
  by (cases c) (auto simp: list_all_iff)

lemma commands_ok_func: "commands_ok c \<Longrightarrow> co_func c \<noteq> None \<longleftrightarrow> co_subs c = []"
  by (cases c) simp

lemma commands_ok_names: "commands_ok c \<Longrightarrow> distinct (map co_name (co_subs c))"
  by (cases c) simp

lemma command_handler_leaves:
  "commands_ok node \<Longrightarrow> co_subs node \<noteq> [] \<Longrightarrow>
   command_handler node args = Some (f, rest) \<longleftrightarrow>
   (\<exists>path l. (path, l) \<in> set (leaf_paths node) \<and> co_func l = Some f \<and> args = path @ rest)"
proof (induction node args rule: command_handler.induct)
  case (1 node)
  then show ?case using leaf_path_nonempty [OF 1(2)] by auto
next
  case (2 node a args)
  note get = commands_get_mem [OF commands_ok_names [OF 2(2)], of a]
  show ?case
  proof (cases "commands_get a (co_subs node)")
    case None
    then have "\<forall>c \<in> set (co_subs node). co_name c \<noteq> a" by (auto simp: commands_get_def find_None_iff)
    then show ?thesis using None by (auto simp: leaf_paths_sub [OF 2(3)])
  next
    case (Some c)
    then have c: "c \<in> set (co_subs node)" "co_name c = a" using get by auto
    have only: "d = c" if "d \<in> set (co_subs node)" "co_name d = a" for d using get [of d] that Some by simp
    have ok: "commands_ok c" by (rule commands_ok_sub [OF 2(2) c(1)])
    have leaves: "(\<exists>path l. (path, l) \<in> set (leaf_paths node) \<and> co_func l = Some f \<and> a # args = path @ rest) \<longleftrightarrow>
        (\<exists>p l. (p, l) \<in> set (leaf_paths c) \<and> co_func l = Some f \<and> args = p @ rest)"
    proof
      assume "\<exists>path l. (path, l) \<in> set (leaf_paths node) \<and> co_func l = Some f \<and> a # args = path @ rest"
      then obtain l d p where "co_func l = Some f" "d \<in> set (co_subs node)" "(p, l) \<in> set (leaf_paths d)" "co_name d = a" "args = p @ rest"
        by (auto simp: leaf_paths_sub [OF 2(3)])
      then show "\<exists>p l. (p, l) \<in> set (leaf_paths c) \<and> co_func l = Some f \<and> args = p @ rest" using only by blast
    next
      assume "\<exists>p l. (p, l) \<in> set (leaf_paths c) \<and> co_func l = Some f \<and> args = p @ rest"
      then obtain p l where l: "(p, l) \<in> set (leaf_paths c)" "co_func l = Some f" "args = p @ rest" by blast
      then have "(a # p, l) \<in> set (leaf_paths node)" using c by (auto simp: leaf_paths_sub [OF 2(3)])
      then show "\<exists>path l. (path, l) \<in> set (leaf_paths node) \<and> co_func l = Some f \<and> a # args = path @ rest"
        using l by (intro exI [of _ "a # p"] exI [of _ l]) simp
    qed
    show ?thesis
    proof (cases "co_func c")
      case None
      then have "co_subs c \<noteq> []" using commands_ok_func [OF ok] by simp
      then show ?thesis unfolding leaves using 2(1) [OF Some None ok] Some None by simp
    next
      case (Some g)
      then have "leaf_paths c = [([], c)]" using commands_ok_func [OF ok] by (intro leaf_self) simp
      then show ?thesis unfolding leaves using Some \<open>commands_get a (co_subs node) = Some c\<close> by auto
    qed
  qed
qed

lemma char_of_nibbles: "char_of (16 * (of_char c div 16) + of_char c mod 16 :: nat) = c"
  by simp

lemma hex_decode_encode [simp]: "hex_decode (hex_encode s) = Some s"
proof (induction s)
  case (Cons c s)
  have "(of_char c :: nat) < 256" by simp
  then have "(of_char c :: nat) div 16 < 16" by (simp add: less_mult_imp_div_less)
  then show ?case using Cons by (simp add: hex_encode_def)
qed (simp add: hex_encode_def)

lemma hex_encode_nonempty: "bs \<noteq> [] \<Longrightarrow> hex_encode bs \<noteq> []"
  by (cases bs) (simp_all add: hex_encode_def)

text \<open>Without the tail of an older file, the lines of a text file can be read back.\<close>

lemma report_lines_read:
  "list_all line_ok ls \<Longrightarrow> (old = None \<or> (\<exists>o1. old = Some o1 \<and> length o1 \<le> length (text_of_lines ls))) \<Longrightarrow>
   scan_lines (overwrite old (text_of_lines ls)) = Some ls"
  using scan_written_lines [of ls] by (auto simp: overwrite_def text_of_lines_def)

text \<open>An archive that a failed download left empty is fetched again by the next run.\<close>

lemma broken_archive_is_replaced:
  assumes "cmd_glob q = Inr pat" "ad_archive a0 = Some []" "glob pat (ad_files a0) = []" "fst (unpack []) = Some e"
    and "unpack data = (None, fs)" "glob pat fs = f # gs"
  shows "fst (get_binary glob unpack first (None, data) q a0) = Returned (Inr f)"
proof -
  obtain fs0 where "unpack [] = (Some e, fs0)" using assms(4) by (cases "unpack []") auto
  then show ?thesis using assms by (simp add: get_binary_def nexus_extract_def nexus_download_def first_match_def)
qed

text \<open>The fields of a header are part of the path: a report with such a field is written outside of the directory of the reports.\<close>

lemma report_dir_escapes:
  "report_dir (\<lambda>_. ''m'') \<lparr>dr_header = \<lparr>dh_version = ''v'', dh_created = 0, dh_id = ''i'', dh_os = ''/../../../etc/x'', dh_arch = ''a'', dh_cmd = [],
     dh_go_version = []\<rparr>, dr_config = [], dr_log = [], dr_heap = [], dr_goroutines = [], dr_block = [], dr_thread_create = [], dr_encrypted = []\<rparr> =
   ''../etc/x-a-i-v''"
  by code_simp

text \<open>The paths of the files of a report are different.\<close>

lemma split_char_snoc: "c \<notin> set b \<Longrightarrow> split_char c (a @ c # b) = split_char c a @ [b]"
  by (induction a) (auto split: list.splits)

lemma join_one_more: "xs \<noteq> [] \<Longrightarrow> join s (xs @ [y]) = join s xs @ s @ y"
  by (induction s xs rule: join.induct) auto

definition file_name :: "string \<Rightarrow> bool" where
  "file_name x \<longleftrightarrow> CHR ''/'' \<notin> set x \<and> x \<notin> {[], ''.'', ''..''}"

lemma path_join_tail:
  assumes "dir \<noteq> []" "file_name x"
  shows "\<exists>u. path_join [dir, x] = u @ x"
proof -
  define rooted where "rooted = has_prefix (dir @ ''/'' @ x) ''/''"
  define out where "out = foldl (clean_step rooted) [] (split_char (CHR ''/'') dir)"
  have steps: "foldl (clean_step rooted) [] (split_char (CHR ''/'') (dir @ ''/'' @ x)) = out @ [x]"
    using assms split_char_snoc [of "CHR ''/''" x dir] by (simp add: file_name_def out_def)
  have "path_join [dir, x] = path_clean (dir @ ''/'' @ x)"
    using assms by (simp add: path_join_def file_name_def)
  also have "\<dots> = (if rooted then CHR ''/'' # join ''/'' (out @ [x]) else join ''/'' (out @ [x]))"
    unfolding path_clean_def Let_def rooted_def [symmetric] steps using assms(1) by simp
  finally have "path_join [dir, x] = (if rooted then CHR ''/'' # join ''/'' (out @ [x]) else join ''/'' (out @ [x]))" .
  moreover have "\<exists>u. join ''/'' (out @ [x]) = u @ x" by (cases "out = []") (auto simp: join_one_more)
  ultimately show ?thesis by (auto intro: exI [of _ "CHR ''/'' # _"])
qed

lemma path_join_end:
  assumes "dir \<noteq> []" "file_name x" "n \<le> length x"
  shows "take n (rev (path_join [dir, x])) = take n (rev x)"
  using path_join_tail [OF assms(1,2)] assms(3) by auto

lemma report_paths_distinct:
  assumes "dir \<noteq> []"
  shows "distinct (map (\<lambda>n. path_join [dir, n])
    [''log.txt'', ''heap.txt'', ''goroutines.txt'', ''block.txt'', ''threadcreate.txt'', ''header.json'', ''config.json''])" (is "distinct (map _ ?ns)")
proof -
  have names: "list_all (\<lambda>n. file_name n \<and> 6 \<le> length n) ?ns" by (simp add: file_name_def)
  then have "map (\<lambda>p. take 6 (rev p)) (map (\<lambda>n. path_join [dir, n]) ?ns) = map (\<lambda>n. take 6 (rev n)) ?ns"
    using path_join_end [OF assms] by (simp add: list_all_iff)
  also have "distinct \<dots>" by code_simp
  finally show ?thesis by (simp only: distinct_map)
qed

lemma texts_written:
  assumes "distinct (map (\<lambda>f. path_join [dir, fst f @ ''.txt'']) fs)" "f \<in> set fs"
  shows "map_of (fold (write_text_file (\<lambda>_. False) dir) fs w) (path_join [dir, fst f @ ''.txt'']) =
    Some (overwrite (map_of w (path_join [dir, fst f @ ''.txt''])) (text_of_lines (snd f)))"
proof -
  have other: "map_of (fold (write_text_file (\<lambda>_. False) dir) gs w) q = map_of w q"
    if "\<forall>g \<in> set gs. path_join [dir, fst g @ ''.txt''] \<noteq> q" for gs w q
    using that by (induction gs arbitrary: w) (auto simp: write_text_file_def Let_def update_conv')
  from assms show ?thesis
  proof (induction fs arbitrary: w)
    case (Cons g gs)
    let ?p = "\<lambda>f. path_join [dir, fst f @ ''.txt'']"
    show ?case
    proof (cases "f = g")
      case True
      have "\<forall>h \<in> set gs. ?p h \<noteq> ?p g" using Cons.prems(1) by (force simp: image_iff)
      moreover have "write_text_file (\<lambda>_. False) dir g w = AList.update (?p g) (overwrite (map_of w (?p g)) (text_of_lines (snd g))) w"
        by (simp add: write_text_file_def Let_def)
      ultimately show ?thesis using True by (simp add: other update_conv')
    next
      case False
      then have "?p f \<noteq> ?p g" using Cons.prems by (force simp: image_iff)
      then have "map_of (write_text_file (\<lambda>_. False) dir g w) (?p f) = map_of w (?p f)"
        by (simp add: write_text_file_def Let_def update_conv')
      then show ?thesis using Cons False by simp
    qed
  qed simp
qed

lemma report_dir_nonempty: "report_dir minutes d \<noteq> []"
proof -
  have "path_clean p \<noteq> []" for p
  proof -
    have step: "\<forall>e \<in> set out. e \<noteq> [] \<Longrightarrow> \<forall>e \<in> set (clean_step r out c). e \<noteq> []" for r out c
      by (auto dest: in_set_butlastD)
    have "\<forall>e \<in> set out. e \<noteq> [] \<Longrightarrow> \<forall>e \<in> set (foldl (clean_step r) out es). e \<noteq> []" for r out es
    proof (induction es arbitrary: out)
      case (Cons c es)
      then show ?case unfolding foldl_Cons using step [OF Cons.prems] by blast
    qed simp
    from this [of "[]"] have ne: "\<forall>e \<in> set (foldl (clean_step r) [] es). e \<noteq> []" for r es by simp
    have join_ne: "join s es \<noteq> []" if "es \<noteq> []" "\<forall>e \<in> set es. e \<noteq> []" for s es
      using that by (cases "(s, es)" rule: join.cases) auto
    show ?thesis using join_ne [OF _ ne] by (simp add: path_clean_def Let_def)
  qed
  then show ?thesis by (simp add: report_dir_def path_join_def Let_def)
qed

lemma report_written:
  assumes "dr_encrypted d = []" "(n, ls) \<in> set (report_texts d)" "list_all line_ok ls"
    and "map_of w (path_join [report_dir minutes d, n @ ''.txt'']) = None"
  shows "\<exists>w' c. write_report minutes header config True (\<lambda>_. False) d w = Returned (None, w') \<and>
    map_of w' (path_join [report_dir minutes d, n @ ''.txt'']) = Some c \<and> scan_lines c = Some ls"
proof -
  let ?dir = "report_dir minutes d" and ?p = "\<lambda>n. path_join [report_dir minutes d, n]"
  have dist: "distinct (map ?p [''log.txt'', ''heap.txt'', ''goroutines.txt'', ''block.txt'', ''threadcreate.txt'', ''header.json'', ''config.json''])"
    by (rule report_paths_distinct [OF report_dir_nonempty])
  then have texts: "distinct (map (\<lambda>f. path_join [?dir, fst f @ ''.txt'']) (report_texts d))" by (simp add: report_texts_def)
  have n: "?p (n @ ''.txt'') \<noteq> ?p ''header.json''" "?p (n @ ''.txt'') \<noteq> ?p ''config.json''"
    using dist assms(2) by (auto simp: report_texts_def)
  show ?thesis
    using assms(1) n texts_written [OF texts assms(2), of "write_json_file (\<lambda>_. False) ?dir ''header'' (header (dr_header d)) w"]
      report_lines_read [OF assms(3), of None] assms(4)
    by (simp add: write_report_def Let_def write_json_file_def update_conv' list_ex_iff)
qed

text \<open>
  Sealing a report for a key and opening it with that key gives the report back; what is sent has the header and no other field
  but the sealed one.
\<close>

lemma hex_key_nonempty: "hex_decode k = Some b \<Longrightarrow> length b = 32 \<Longrightarrow> k \<noteq> []"
  by auto

lemma debug_sealed:
  assumes "hex_decode pub = Some pk" "length pk = 32" "hex_decode sec = Some sk" "length sk = 32"
    and "marshal d = Some data" "seal data pk = Some box" "box \<noteq> []" "open_box box pk sk = Inr data" "unmarshal data = Inr d"
  shows "\<exists>(d' :: debug_response). seal_debug_response marshal seal pub d = Returned d' \<and>
     d' = \<lparr>dr_header = dr_header d, dr_config = [], dr_log = [], dr_heap = [], dr_goroutines = [], dr_block = [], dr_thread_create = [],
           dr_encrypted = hex_encode box\<rparr> \<and>
     dr_encrypted d' \<noteq> [] \<and> debug_decrypt unmarshal open_box pub sec d' = (None, d)"
  using assms hex_key_nonempty [OF assms(1,2)] hex_key_nonempty [OF assms(3,4)]
  by (simp add: seal_debug_response_def debug_encrypt_def debug_decrypt_def debug_key_def hex_encode_nonempty)

section \<open>Properties\<close>

text \<open>
  The administrator's program runs exactly the commands it lists: \<open>commandHandler\<close>, which walks down the tree of commands
  word by word and stops at the first with a function, runs a function with arguments if and only if the words are a path to a
  leaf of the tree with that function, as the help lists them, followed by those arguments.
\<close>

lemma listed_commands_run:
  "command_handler root_command args = Some (f, rest) \<longleftrightarrow>
   (\<exists>path l. (path, l) \<in> set (leaf_paths root_command) \<and> co_func l = Some f \<and> args = path @ rest)"
  by (rule command_handler_leaves [OF root_command_ok]) (simp add: root_command_def)


definition demo_debug_header :: debug_header where
  "demo_debug_header = \<lparr>dh_version = ''1'', dh_created = 7, dh_id = [], dh_os = ''linux'', dh_arch = ''arm'', dh_cmd = ''c'', dh_go_version = ''g''\<rparr>"

definition demo_report :: debug_response where
  "demo_report = collect_report (demo_debug_header\<lparr>dh_id := ''i''\<rparr>) ''{}'' (\<lambda>n. if n = ''goroutine'' then Some ''main'' else None) [''a'', ''b'']"

lemma demo_report_eq:
  "demo_report = \<lparr>dr_header = \<lparr>dh_version = ''1'', dh_created = 7, dh_id = ''i'', dh_os = ''linux'', dh_arch = ''arm'', dh_cmd = ''c'',
     dh_go_version = ''g''\<rparr>, dr_config = ''{}'', dr_log = [''a'', ''b''], dr_heap = [], dr_goroutines = [''main''], dr_block = [],
     dr_thread_create = [], dr_encrypted = []\<rparr>"
  by (simp add: demo_report_def demo_debug_header_def collect_report_def get_profile_def)

definition demo_sent :: debug_response where
  "demo_sent = \<lparr>dr_header = dr_header demo_report, dr_config = [], dr_log = [], dr_heap = [], dr_goroutines = [], dr_block = [],
     dr_thread_create = [], dr_encrypted = hex_encode (replicate 32 (CHR ''a'') @ ''plain'')\<rparr>"

definition demo_marshal :: "debug_response \<Rightarrow> string option" where
  "demo_marshal x = (if x = demo_report then Some ''plain'' else if x = demo_sent then Some ''sealed'' else None)"

definition demo_unmarshal :: "string \<Rightarrow> string + debug_response" where
  "demo_unmarshal t = (if t = ''plain'' then Inr demo_report else if t = ''sealed'' then Inr demo_sent else Inl ''syntax'')"


end
