(* ===== verification/AdminCmds.thy ===== *)
theory AdminCmds
  imports Admin ExportApi
begin

text \<open>
  What the administrator's commands do (\<open>cmd/alkasir-admin/alkasir-admin.go\<close>): the key files and the patches of the upgrade
  commands, the flags they take, new users of the export interface, and the profile of an imported report. The keys, the tools
  of the patches and the database's errors are arguments.
\<close>

section \<open>Flags\<close>

text \<open>
  \<open>FlagSet.Parse\<close> for flags that are all strings: \<open>vals\<close> are the values so far. The second component is \<open>False\<close> when
  \<open>Parse\<close> gave up with an error.
\<close>

definition flag_name :: "string \<Rightarrow> string option" where
  "flag_name s =
     (case s of
        [] \<Rightarrow> None
      | [_] \<Rightarrow> None
      | a # b # r \<Rightarrow> if a \<noteq> CHR ''-'' then None else if b = CHR ''-'' then Some r else Some (b # r))"

definition flag_split :: "string \<Rightarrow> string \<times> string option" where
  "flag_split n =
     (let k = takeWhile (\<lambda>c. c \<noteq> CHR ''='') n in (k, if k = n then None else Some (drop (length k + 1) n)))"

fun flag_parse :: "(string, string) gomap \<Rightarrow> string list \<Rightarrow> (string, string) gomap \<times> bool \<times> string list" where
  "flag_parse vals [] = (vals, True, [])"
| "flag_parse vals [s] =
     (case flag_name s of
        None \<Rightarrow> (vals, True, [s])
      | Some n \<Rightarrow>
          if s = ''--'' then (vals, True, [])
          else if n = [] \<or> hd n = CHR ''-'' \<or> hd n = CHR ''='' then (vals, False, [s])
          else (case flag_split n of
                  (k, v) \<Rightarrow>
                    if map_of vals k = None then (vals, False, [])
                    else (case v of Some x \<Rightarrow> (AList.update k x vals, True, []) | None \<Rightarrow> (vals, False, []))))"
| "flag_parse vals (s # t # args) =
     (case flag_name s of
        None \<Rightarrow> (vals, True, s # t # args)
      | Some n \<Rightarrow>
          if s = ''--'' then (vals, True, t # args)
          else if n = [] \<or> hd n = CHR ''-'' \<or> hd n = CHR ''='' then (vals, False, s # t # args)
          else (case flag_split n of
                  (k, v) \<Rightarrow>
                    if map_of vals k = None then (vals, False, t # args)
                    else (case v of
                            Some x \<Rightarrow> flag_parse (AList.update k x vals) (t # args)
                          | None \<Rightarrow> flag_parse (AList.update k t vals) args)))"

section \<open>Keys\<close>

text \<open>A file that must be new (\<open>O_CREATE|O_EXCL\<close>).\<close>

definition create_new :: "string \<Rightarrow> files \<Rightarrow> bool \<times> files" where
  "create_new p fs = (if fs p = None then (True, fs(p \<mapsto> [])) else (False, fs))"

definition private_key_file :: string where "private_key_file = ''upgrades-private-key.pem''"
definition public_key_file :: string where "public_key_file = ''upgrades-public-key.pem''"

text \<open>Both files are created before either outcome is looked at.\<close>

definition make_upgrade_keys :: "string \<times> string \<Rightarrow> files \<Rightarrow> admin_error option \<times> files" where
  "make_upgrade_keys keys fs =
     (let (priv_pem, pub_pem) = encode_keys (fst keys) (snd keys);
          (ok1, fs1) = create_new private_key_file fs;
          (ok2, fs2) = create_new public_key_file fs1
      in if \<not> ok1 then (Some (Other_Error ''file exists''), fs2)
         else if \<not> ok2 then (Some (Other_Error ''file exists''), fs2)
         else (None, fs2(private_key_file \<mapsto> priv_pem, public_key_file \<mapsto> pub_pem)))"

definition make_debug_keys :: "string + string \<times> string \<Rightarrow> admin_error option \<times> string list" where
  "make_debug_keys generated =
     (case generated of
        Inl e \<Rightarrow> (Some (Other_Error e), [])
      | Inr (pk, sk) \<Rightarrow> (None, [[], ''Public key:'', hex_encode pk, ''Secret key:'', hex_encode sk]))"

section \<open>Patches\<close>

definition key_flags :: "(string, string) gomap" where
  "key_flags = [(''privpem'', private_key_file), (''pubpem'', public_key_file)]"

definition flag_value :: "(string, string) gomap \<Rightarrow> string \<Rightarrow> string" where
  "flag_value vals k = (case map_of vals k of Some v \<Rightarrow> v | None \<Rightarrow> [])"

text \<open>\<open>createUpgrade\<close> goes on after an error of the flags; an error of the patch ends the program.\<close>

definition create_upgrade :: "patch_tools \<Rightarrow> string list \<Rightarrow> files \<Rightarrow> admin_error option outcome \<times> files" where
  "create_upgrade t args fs =
     (let (vals, _, rest) = flag_parse key_flags args in
      case fs (flag_value vals ''privpem'') of
        None \<Rightarrow> (Returned (Some (Other_Error ''no such file'')), fs)
      | Some priv_pem \<Rightarrow>
          (case fs (flag_value vals ''pubpem'') of
             None \<Rightarrow> (Returned (Some (Other_Error ''no such file'')), fs)
           | Some pub_pem \<Rightarrow>
               (case rest of
                  [newfile, oldfile] \<Rightarrow>
                    (case create_patch t \<lparr>pj_artifact = ''UPGRADETEST'', pj_old_binary = oldfile, pj_new_binary = newfile,
                         pj_old_version = ''0.0.1'', pj_new_version = ''0.0.2'', pj_private_key = priv_pem, pj_public_key = pub_pem\<rparr> fs of
                       (Inl _, fs') \<Rightarrow> (Crashed, fs')
                     | (Inr _, fs') \<Rightarrow> (Returned None, fs'))
                | _ \<Rightarrow> (Returned (Some No_Value), fs))))"

text \<open>The programs that patches are made of.\<close>

definition job_queries :: "build_query list" where
  "job_queries =
     map (\<lambda>(c, o1, a). \<lparr>bq_os = o1, bq_arch = a, bq_cmd = c, bq_version = []\<rparr>)
       [(''alkasir-gui'', ''windows'', ''386''), (''alkasir-gui'', ''windows'', ''amd64''), (''alkasir-gui'', ''darwin'', ''amd64''),
        (''alkasir-gui'', ''linux'', ''amd64''), (''alkasir-client'', ''linux'', ''amd64''), (''alkasir-client'', ''windows'', ''amd64''),
        (''alkasir-client'', ''darwin'', ''amd64''), (''alkasir-client'', ''linux'', ''386''), (''alkasir-client'', ''windows'', ''386''),
        (''alkasir-client'', ''darwin'', ''386'')]"

text \<open>
  \<open>createUpgradeAuto\<close>: \<open>patches\<close> is \<open>RunPatchesCreate\<close> on the keys, which returns no results with an error that
  panics; \<open>walk\<close> lists the files under a directory, and \<open>None\<close> when there is no such directory, on which the walk panics.
  A missing key file is only told about. The archive is the list of its members.
\<close>

definition create_upgrade_auto ::
  "(string \<Rightarrow> string \<Rightarrow> files \<Rightarrow> patch_result list option \<times> files) \<Rightarrow> (string \<Rightarrow> files \<Rightarrow> string list option) \<Rightarrow> string list \<Rightarrow> files \<Rightarrow>
   (string \<times> (string \<times> string) list) option outcome \<times> files" where
  "create_upgrade_auto patches walk args fs =
     (case flag_parse key_flags args of
        (vals, False, rest) \<Rightarrow> (Failed, fs)
      | (vals, True, rest) \<Rightarrow>
          (case (fs (flag_value vals ''privpem''), fs (flag_value vals ''pubpem'')) of
             (Some priv_pem, Some pub_pem) \<Rightarrow>
               (case patches priv_pem pub_pem fs of
                  (None, fs1) \<Rightarrow> (Crashed, fs1)
                | (Some [], fs1) \<Rightarrow> (Crashed, fs1)
                | (Some (r # rs), fs1) \<Rightarrow>
                    (case walk ''diffs'' fs1 of
                       None \<Rightarrow> (Crashed, fs1)
                     | Some ps \<Rightarrow>
                         (Returned (Some (''alkasir-binpatches-for-'' @ pr_new_version r @ ''.tar'',
                            map (\<lambda>p. (p, case fs1 p of Some d \<Rightarrow> d | None \<Rightarrow> [])) ps)), fs1)))
           | _ \<Rightarrow> (Returned None, fs)))"

definition find_json_files :: "(string \<Rightarrow> files \<Rightarrow> string list option) \<Rightarrow> string \<Rightarrow> files \<Rightarrow> string list outcome" where
  "find_json_files walk root fs =
     (case walk root fs of None \<Rightarrow> Crashed | Some ps \<Rightarrow> Returned (filter (\<lambda>p. has_suffix p ''.json'') ps))"

section \<open>The database and the archive server\<close>

text \<open>\<open>OpenDB\<close> with the errors of the connection and of the ping: whether a connection is kept.\<close>

definition open_db :: "string option \<Rightarrow> string option \<Rightarrow> string option \<times> bool" where
  "open_db conn ping = (case conn of Some e \<Rightarrow> (Some e, False) | None \<Rightarrow> (case ping of Some e \<Rightarrow> (Some e, False) | None \<Rightarrow> (None, True)))"

text \<open>The error of \<open>SetPassword\<close> is not looked at.\<close>

definition insert_export_api_auth ::
  "(string \<Rightarrow> string \<Rightarrow> string) \<Rightarrow> string + string \<Rightarrow> string option \<times> string option \<Rightarrow> string option \<Rightarrow> string list \<Rightarrow> database \<Rightarrow>
   admin_error option \<times> database" where
  "insert_export_api_auth kdf random opened fault args db =
     (case fst (open_db (fst opened) (snd opened)) of
        Some e \<Rightarrow> (Some (Other_Error e), db)
      | None \<Rightarrow>
          (case args of
             [user, password] \<Rightarrow>
               (let c = fst (set_password kdf random password
                               \<lparr>ac_username = user, ac_password_hash = None, ac_salt = None, ac_enabled = False\<rparr>);
                    (e, db') = insert_export_credentials fault c db
                in (map_option Other_Error e, db'))
           | _ \<Rightarrow> (Some No_Value, db)))"

definition download_snapshot :: "(build_query \<Rightarrow> string option) \<Rightarrow> string \<Rightarrow> string \<Rightarrow> string list \<Rightarrow> admin_error option" where
  "download_snapshot get_master os arch args =
     (case args of
        [] \<Rightarrow> Some No_Value
      | c # _ \<Rightarrow> map_option Other_Error (get_master \<lparr>bq_os = os, bq_arch = arch, bq_cmd = c, bq_version = []\<rparr>))"

text \<open>\<open>listVersions\<close>: an archive that cannot be asked is left out.\<close>

definition list_versions :: "(build_query \<Rightarrow> string + 'a list) \<Rightarrow> 'a list" where
  "list_versions versions = concat (map (\<lambda>q. case versions q of Inl _ \<Rightarrow> [] | Inr vs \<Rightarrow> vs) job_queries)"

section \<open>Profiles\<close>

definition debug_import_command :: "(string option \<Rightarrow> 'w \<Rightarrow> 'w outcome) \<Rightarrow> string option list \<Rightarrow> 'w \<Rightarrow> admin_error option \<times> 'w outcome" where
  "debug_import_command import1 files w = (if files = [] then (Some No_Value, Returned w) else (None, debug_import import1 files w))"

text \<open>
  \<open>debugLatestImport\<close> from the entries of the directory, with whether they are directories: the last name when they are
  sorted. No directory ends the program, an empty list panics.
\<close>

definition debug_latest_import :: "(string \<times> bool) list option \<Rightarrow> string outcome" where
  "debug_latest_import entries =
     (case entries of
        None \<Rightarrow> Failed
      | Some es \<Rightarrow>
          (let dirs = map fst (filter snd es) in
           if dirs = [] then Crashed else Returned (path_join [''alkasir-debug-reports'', last (sort dirs)])))"

text \<open>\<open>debugPprof\<close>: the arguments of \<open>go\<close>. A header or a program that cannot be had ends the program.\<close>

definition debug_pprof ::
  "(string \<Rightarrow> debug_header option) \<Rightarrow> (build_query \<Rightarrow> string option) \<Rightarrow> (string \<times> bool) list option \<Rightarrow> string list \<Rightarrow> string list outcome" where
  "debug_pprof header program entries args =
     (case (case args of [] \<Rightarrow> debug_latest_import entries | d # _ \<Rightarrow> Returned d) of
        Failed \<Rightarrow> Failed
      | Crashed \<Rightarrow> Crashed
      | Returned dir \<Rightarrow>
          (case header (path_join [dir, ''header.json'']) of
             None \<Rightarrow> Failed
           | Some h \<Rightarrow>
               (case program \<lparr>bq_os = dh_os h, bq_arch = dh_arch h, bq_cmd = ''alkasir-gui'', bq_version = dh_version h\<rparr> of
                  None \<Rightarrow> Failed
                | Some p \<Rightarrow> Returned [''tool'', ''pprof'', p, path_join [dir, ''heap.txt'']])))"

section \<open>Lemmas\<close>

lemma key_files_differ: "private_key_file \<noteq> public_key_file"
  by (simp add: private_key_file_def public_key_file_def)

text \<open>\<open>makekeys\<close> changes no file that exists, but one key file that exists leaves the other as an empty file.\<close>

lemma make_keys_keeps: "fs p = Some c \<Longrightarrow> snd (make_upgrade_keys keys fs) p = Some c"
  by (auto simp: make_upgrade_keys_def create_new_def key_files_differ split: prod.splits)

lemma make_keys_leaves_empty:
  "fs private_key_file = Some c \<Longrightarrow> fs public_key_file = None \<Longrightarrow>
   make_upgrade_keys keys fs = (Some (Other_Error ''file exists''), fs(public_key_file \<mapsto> []))"
  by (simp add: make_upgrade_keys_def create_new_def split: prod.splits)

lemma make_keys_new:
  "fs private_key_file = None \<Longrightarrow> fs public_key_file = None \<Longrightarrow>
   make_upgrade_keys (priv, pub) fs =
     (None, fs(private_key_file \<mapsto> pem_encode private_type priv, public_key_file \<mapsto> pem_encode public_type pub))"
  using key_files_differ by (auto simp: make_upgrade_keys_def create_new_def encode_keys_def)

lemma upgradetest_diffs:
  "diffs_file j = ''diffs/UPGRADETEST/0.0.1/0.0.2''"
  if "pj_artifact j = ''UPGRADETEST''" "pj_old_version j = ''0.0.1''" "pj_new_version j = ''0.0.2''"
proof -
  have "path_join [''diffs'', ''UPGRADETEST'', ''0.0.1'', ''0.0.2''] = ''diffs/UPGRADETEST/0.0.1/0.0.2''" by code_simp
  then show ?thesis by (simp add: diffs_file_def that)
qed

text \<open>A new user of the export interface can log in with the password of the command, and with no other.\<close>

lemma inserted_user_logs_in:
  assumes "insert_export_api_auth kdf (Inr salt) opened fault [user, password] db = (None, db')" "length salt = password_salt_len"
  shows "export_login kdf None user q db' \<longleftrightarrow> kdf password salt = kdf q salt"
proof -
  let ?c = "fst (set_password kdf (Inr salt) password \<lparr>ac_username = user, ac_password_hash = None, ac_salt = None, ac_enabled = False\<rparr>)"
  have set: "set_password kdf (Inr salt) password \<lparr>ac_username = user, ac_password_hash = None, ac_salt = None, ac_enabled = False\<rparr> = (?c, None)"
    by (simp add: set_password_def)
  have "ac_username ?c = user" by (simp add: set_password_def)
  moreover have "insert_export_credentials fault ?c db = (None, db')"
    using assms(1) by (auto simp: insert_export_api_auth_def split: option.splits prod.splits)
  moreover from this have "insert_export_credentials None ?c db = (None, db')"
    by (auto simp: insert_export_credentials_def split: option.splits if_splits)
  ultimately show ?thesis using export_login_set [OF set assms(2), of db db' q] by simp
qed

lemma no_report_panics: "debug_latest_import (Some []) = Crashed"
  by (simp add: debug_latest_import_def)

section \<open>Properties\<close>

text \<open>
  C30. The keys that the administrator makes sign the patches that the administrator creates. After \<open>upgrade makekeys\<close> in a
  directory without key files, \<open>upgrade create\<close> with a new and an old program, and no flags, writes their difference and a
  description with the version and the signature of the new program's hash by the private key that was made, and changes no file
  that was there.
\<close>

theorem made_keys_sign_patches:
  assumes "length priv = 64" "length pub = 32" "fs private_key_file = None" "fs public_key_file = None"
    and "fs newfile = Some new_data" "fs oldfile = Some old_data" "flag_name newfile = None"
    and "pt_diff t old_data new_data = Some diff" "pt_mkdir t = None" "\<And>p. pt_write t p = None"
    and "p \<notin> {''diffs/UPGRADETEST/0.0.1/0.0.2'', ''diffs/UPGRADETEST/0.0.1/0.0.2.json''}" "fs p = Some c"
  shows "\<exists>fs1 fs2. make_upgrade_keys (priv, pub) fs = (None, fs1) \<and> create_upgrade t [newfile, oldfile] fs1 = (Returned None, fs2) \<and>
    fs2 ''diffs/UPGRADETEST/0.0.1/0.0.2'' = Some diff \<and>
    fs2 ''diffs/UPGRADETEST/0.0.1/0.0.2.json'' = Some (json_lines
      [(''artifact'', ''UPGRADETEST''), (''oldVersion'', ''0.0.1''), (''newVersion'', ''0.0.2''),
       (''sha256sum'', b64_encode False (pt_sha256 t new_data)),
       (''ed25519sig'', b64_encode False (pt_sign t priv (pt_sha256 t new_data)))]) \<and>
    fs2 p = Some c"
proof -
  let ?fs1 = "fs(private_key_file \<mapsto> pem_encode private_type priv, public_key_file \<mapsto> pem_encode public_type pub)"
  have made: "make_upgrade_keys (priv, pub) fs = (None, ?fs1)" by (rule make_keys_new [OF assms(3,4)])
  have key: "decode_private_key (pem_encode private_type priv) = Inr priv"
    using decode_encoded_keys [OF assms(1,2)] by auto
  have keep: "?fs1 f = fs f" if "fs f \<noteq> None" for f using that assms(3,4) by auto
  have "flag_parse key_flags [newfile, oldfile] = (key_flags, True, [newfile, oldfile])" using assms(7) by simp
  moreover have "?fs1 (flag_value key_flags ''privpem'') = Some (pem_encode private_type priv)"
    "?fs1 (flag_value key_flags ''pubpem'') = Some (pem_encode public_type pub)"
    using key_files_differ by (simp_all add: flag_value_def key_flags_def)
  ultimately show ?thesis using made key keep [of newfile] keep [of oldfile] keep [of p] assms(5,6,8-)
    by (simp add: create_upgrade_def create_patch_def upgradetest_diffs patch_json_def Let_def)
qed

lemma made_keys_sign_patches_witness:
  "\<exists>fs1 fs2. make_upgrade_keys (demo_priv, demo_pub) [''new'' \<mapsto> ''n'', ''old'' \<mapsto> ''o''] = (None, fs1) \<and>
    create_upgrade demo_tools [''new'', ''old''] fs1 = (Returned None, fs2) \<and>
    fs2 ''diffs/UPGRADETEST/0.0.1/0.0.2'' = Some ''n'' \<and> fs2 ''new'' = Some ''n''"
  using made_keys_sign_patches [OF demo_lengths(1,2), of "[''new'' \<mapsto> ''n'', ''old'' \<mapsto> ''o'']" "''new''" "''n''" "''old''" "''o''" demo_tools "''n''" "''new''" "''n''"]
  by (auto simp: private_key_file_def public_key_file_def flag_name_def demo_tools_def)

end
