(* ===== verification/BuildTool.thy ===== *)
theory BuildTool
  imports AdminCmds
begin

text \<open>
  The build program (\<open>make.go\<close>): the programs it builds with their flags and commands, the archives of a release with the names
  in them, and the tasks with the commands that they run. The contents of directories, the environment and the user are arguments.
\<close>

section \<open>Flags and builders\<close>

record build_flags =
  bf_notests :: bool
  bf_offline :: bool
  bf_xcn :: bool
  bf_debug :: bool
  bf_optimize :: bool
  bf_docker :: bool
  bf_verbose :: bool
  bf_os :: string
  bf_arch :: string
  bf_cmd :: string

record builder =
  bd_os :: string
  bd_arch :: string
  bd_cmd :: string
  bd_gui :: bool
  bd_binary_name :: string
  bd_flat :: bool
  bd_xcn :: bool
  bd_built :: bool
  bd_browser :: bool
  bd_vars :: "string list"

text \<open>The first argument is the task unless it is a flag; the others are the flags.\<close>

definition chosen_task :: "string list \<Rightarrow> string \<times> string list" where
  "chosen_task args =
     (case args of
        [] \<Rightarrow> (''tasks'', [])
      | a # rest \<Rightarrow> if has_prefix a ''-'' then (''tasks'', args) else (a, rest))"

definition build_filter :: "string \<Rightarrow> string \<Rightarrow> bool" where
  "build_filter flag v \<longleftrightarrow> v \<in> set (split_char (CHR '','') flag)"

definition should_build :: "build_flags \<Rightarrow> builder \<Rightarrow> bool" where
  "should_build f b \<longleftrightarrow>
     \<not> (bf_os f \<noteq> [] \<and> \<not> build_filter (bf_os f) (bd_os b)) \<and>
     \<not> (bf_arch f \<noteq> [] \<and> \<not> build_filter (bf_arch f) (bd_arch b)) \<and>
     \<not> (bf_cmd f \<noteq> [] \<and> \<not> build_filter (bf_cmd f) (bd_cmd b))"

definition x_os_ext :: "string \<Rightarrow> string" where
  "x_os_ext os = (if os = ''windows'' then ''.exe'' else [])"

definition builder_dir :: "builder \<Rightarrow> string" where
  "builder_dir b = bd_cmd b @ ''-'' @ bd_os b @ ''-'' @ bd_arch b"

definition binary_file :: "builder \<Rightarrow> string" where
  "binary_file b =
     (if bd_binary_name b \<noteq> [] then bd_binary_name b @ x_os_ext (bd_os b)
      else bd_cmd b @ ''_'' @ bd_os b @ ''_'' @ bd_arch b @ x_os_ext (bd_os b))"

definition builder_filename :: "builder \<Rightarrow> string" where
  "builder_filename b = path_join [''./dist/'', builder_dir b, binary_file b]"

definition builder_artifact :: "builder \<Rightarrow> string list \<Rightarrow> string" where
  "builder_artifact b postfixes =
     bd_cmd b @ ''_'' @ (if postfixes = [] then [] else join ''-'' postfixes @ ''-'') @ bd_os b @ ''-'' @ bd_arch b"

definition osarch_cc :: "string \<Rightarrow> string option" where
  "osarch_cc osarch =
     map_of [(''darwin-386'', ''CC=o32-clang''), (''darwin-amd64'', ''CC=o64-clang''), (''linux-386'', []), (''linux-amd64'', []),
       (''windows-386'', ''CC=i686-w64-mingw32-gcc''), (''windows-amd64'', ''CC=x86_64-w64-mingw32-gcc'')] osarch"

definition build_env :: "build_flags \<Rightarrow> builder \<Rightarrow> string list option" where
  "build_env f b =
     (let env = [''GOOS='' @ bd_os b, ''GOARCH='' @ bd_arch b, ''GO15VENDOREXPERIMENT=1''] in
      if bf_xcn f \<and> bd_xcn b then
        (case osarch_cc (bd_os b @ ''-'' @ bd_arch b) of
           None \<Rightarrow> None
         | Some cc \<Rightarrow> Some (env @ (if cc \<noteq> [] then [cc] else []) @ [''CGO_ENABLED=1'']))
      else Some env)"

definition build_args :: "build_flags \<Rightarrow> builder \<Rightarrow> string list" where
  "build_args f b =
     (let ldflags = (if bf_optimize f \<or> bf_xcn f \<and> bd_os b = ''darwin'' then [''-s''] else []) @
                    (if bd_gui b \<and> bd_os b = ''windows'' then [''-H=windowsgui''] else []) @
                    map (\<lambda>v. ''-X '' @ v) (bd_vars b);
          s = join '' '' ldflags
      in [''go'', ''build''] @ (if s \<noteq> [] then [''-ldflags'', s] else []) @
         [''-o'', builder_filename b, ''cmd/'' @ bd_cmd b @ ''/'' @ bd_cmd b @ ''.go''])"

text \<open>
  \<open>Build\<close>: the arguments and the environment of the command, or \<open>None\<close> for what the program panics on. In the container the
  environment is given by arguments, and the command itself has that of the build program.
\<close>

definition build_command ::
  "build_flags \<Rightarrow> string list \<Rightarrow> string option \<Rightarrow> string option \<Rightarrow> builder \<Rightarrow> (string list \<times> string list) option" where
  "build_command f environ uid wd b =
     (case build_env f b of
        None \<Rightarrow> None
      | Some env \<Rightarrow>
          if \<not> bf_docker f then Some (build_args f b, environ @ env)
          else (case (uid, wd) of
                  (Some u, Some d) \<Rightarrow>
                    Some ([''docker'', ''run'', ''--rm'', ''-u'', u, ''-v='' @ d @ '':/go/src/github.com/alkasir/alkasir/''] @
                      concat (map (\<lambda>v. [''-e'', v]) env) @ [''alkasir-docker-xcn-builder''] @ build_args f b, environ)
                | _ \<Rightarrow> None))"

text \<open>The programs of a build; \<open>ord\<close> is the range over the map of the variables.\<close>

definition client_build_vars :: "(string \<Rightarrow> string) \<Rightarrow> ((string \<times> string) list \<Rightarrow> (string \<times> string) list) \<Rightarrow> string list" where
  "client_build_vars lookup ord =
     map (\<lambda>(k, v). v @ ''='' @ lookup k) (filter (\<lambda>(k, v). lookup k \<noteq> [])
       (ord [(''ALKASIR_CLIENT_VERSION'', ''github.com/alkasir/alkasir/pkg/client.VERSION''),
             (''ALKASIR_CLIENT_DIFF_URL'', ''github.com/alkasir/alkasir/pkg/client.upgradeDiffsBaseURL''),
             (''ALKASIR_CLIENT_CENTRAL_URL'', ''github.com/alkasir/alkasir/pkg/client/internal/config.centralAddr''),
             (''ALKASIR_CLIENT_DEBUG_PUBKEY'', ''github.com/alkasir/alkasir/pkg/debugexport.PublicKey'')]))"

definition default_targets :: "(string \<times> string) list" where
  "default_targets =
     [(''linux'', ''amd64''), (''linux'', ''386''), (''windows'', ''amd64''), (''windows'', ''386''), (''darwin'', ''amd64''), (''darwin'', ''386'')]"

definition plain_builder :: "string \<Rightarrow> string \<times> string \<Rightarrow> builder" where
  "plain_builder cmd t = \<lparr>bd_os = fst t, bd_arch = snd t, bd_cmd = cmd, bd_gui = False, bd_binary_name = [], bd_flat = False,
     bd_xcn = False, bd_built = False, bd_browser = False, bd_vars = []\<rparr>"

definition get_go_builders :: "build_flags \<Rightarrow> string list \<Rightarrow> builder list" where
  "get_go_builders f vars =
     filter (should_build f)
       (map (\<lambda>t. (plain_builder ''alkasir-client'' t)\<lparr>bd_browser := True, bd_vars := vars\<rparr>) default_targets @
        map (plain_builder ''alkasir-admin'') default_targets @
        (if bf_xcn f then
           map (\<lambda>t. (plain_builder ''alkasir-gui'' t)\<lparr>bd_xcn := True, bd_gui := True, bd_binary_name := ''alkasir'', bd_flat := True,
                  bd_browser := True, bd_vars := vars\<rparr>)
             (filter (\<lambda>t. t \<noteq> (''linux'', ''386'') \<and> t \<noteq> (''darwin'', ''386'')) default_targets)
         else []) @
        [(plain_builder ''alkasir-central'' (''linux'', ''amd64''))\<lparr>bd_binary_name := ''alkasir-central''\<rparr>])"

definition needs_browser :: "builder list \<Rightarrow> bool" where
  "needs_browser bs = list_ex bd_browser bs"

section \<open>Archives\<close>

text \<open>
  The names of the members, from the paths under a directory with whether they are directories, the directory itself first. A path
  outside of the directory panics.
\<close>

definition member_name :: "string \<Rightarrow> string \<Rightarrow> string option" where
  "member_name workdir p =
     (if \<not> has_prefix p workdir then None
      else (let n = drop (length workdir) p in Some (if has_prefix n ''/'' then tl n else n)))"

definition tar_names :: "string \<Rightarrow> string \<Rightarrow> (string \<times> bool) list \<Rightarrow> string list option" where
  "tar_names workdir pre paths =
     (let pre' = (if pre \<noteq> [] \<and> \<not> has_suffix pre ''/'' then pre @ ''/'' else pre);
          ns = map (\<lambda>(p, _). member_name workdir p) paths
      in if list_all (\<lambda>n. n \<noteq> None) ns then Some (map (\<lambda>n. pre' @ the n) ns) else None)"

definition zip_names :: "string \<Rightarrow> (string \<times> bool) list \<Rightarrow> string list option" where
  "zip_names workdir paths =
     (let slashed = map (\<lambda>c. if c = CHR 0x5C then CHR ''/'' else c);
          unslash = (\<lambda>n. if has_prefix n ''/'' then tl n else n);
          ns = map (\<lambda>(p, d). if has_prefix p workdir then Some (unslash (slashed (drop (length workdir) p)), d) else None) paths
      in if list_all (\<lambda>n. n \<noteq> None) ns
         then Some (map (\<lambda>(n, d). if d then n @ ''/'' else n) (filter (\<lambda>(n, d). n \<noteq> []) (map the ns))) else None)"

text \<open>The application of OS X: its files in the temporary directory, whose name is clean.\<close>

definition osx_app_paths :: "string \<Rightarrow> builder \<Rightarrow> (string \<times> bool) list" where
  "osx_app_paths workdir b =
     map (apfst ((@) workdir))
       [([], True), (''/Alkasir.app'', True), (''/Alkasir.app/Contents'', True), (''/Alkasir.app/Contents/MacOS'', True),
        (''/Alkasir.app/Contents/MacOS/'' @ bd_cmd b, False), (''/Alkasir.app/Contents/Resources'', True),
        (''/Alkasir.app/Contents/Resources/alkasir.icns'', False), (''/Alkasir.app/Contents/info.plist'', False)]"

text \<open>\<open>ReleaseArchive\<close>: the archives with their members, or \<open>None\<close> when the program panics.\<close>

definition dist_dir :: "builder \<Rightarrow> string" where
  "dist_dir b = path_join [''./dist/'', builder_dir b]"

definition program_archive :: "(string \<Rightarrow> (string \<times> bool) list) \<Rightarrow> builder \<Rightarrow> (string \<times> string list) option" where
  "program_archive walk b =
     (if bd_os b = ''windows'' then
        map_option (Pair (path_join [''dist-archives'', builder_artifact b [] @ ''.zip''])) (zip_names (dist_dir b) (walk (dist_dir b)))
      else if bd_os b = ''darwin'' \<or> bd_os b = ''linux'' then
        map_option (Pair (path_join [''dist-archives'', builder_artifact b [] @ ''.tar.gz'']))
          (tar_names (dist_dir b) (if bd_flat b then [] else builder_dir b) (walk (dist_dir b)))
      else None)"

definition release_archives ::
  "build_flags \<Rightarrow> (string \<Rightarrow> (string \<times> bool) list) \<Rightarrow> string \<Rightarrow> builder \<Rightarrow> (string \<times> string list) list option" where
  "release_archives f walk temp b =
     (if \<not> bd_built b then None
      else (case program_archive walk b of
              None \<Rightarrow> None
            | Some a \<Rightarrow>
                if bd_os b = ''darwin'' \<and> bf_xcn f \<and> bd_xcn b \<and> bd_gui b
                then map_option (\<lambda>ns. [a, (path_join [''dist-archives'', builder_artifact b [''osxapp''] @ ''.zip''], ns)])
                       (zip_names temp (osx_app_paths temp b))
                else Some [a]))"

section \<open>Tasks\<close>

datatype build_step =
  Run_Task string | Run_Command "string list" | Background_Command "string list" | Set_Optimize | Set_Xcn |
  Remove_Files "string list" | Move_File string string | Copy_File string string | Build_Go | Archive_Go | Run_Node_Reload |
  Decrypt_Credentials | Write_Makefile | Print_Tasks

definition tools_steps :: "build_step list" where
  "tools_steps = [Run_Command [''go'', ''install'',
     ''github.com/alkasir/alkasir/vendor/github.com/elazarl/go-bindata-assetfs/go-bindata-assetfs'',
     ''github.com/alkasir/alkasir/vendor/github.com/jteeuwen/go-bindata/go-bindata'']]"

definition webpack_mode :: "build_flags \<Rightarrow> string list" where
  "webpack_mode f = (if bf_debug f then [''-d''] else if bf_optimize f then [''-p''] else [])"

definition bindata_steps :: "string list \<Rightarrow> build_step list" where
  "bindata_steps dev =
     [Run_Command ([''go-bindata-assetfs''] @ dev @ [''-ignore='' @ [CHR 0x5C] @ ''.gitignore'', ''-prefix'', ''res/'', ''-pkg'', ''res'', ''res/...'']),
      Move_File ''bindata_assetfs.go'' ''pkg/res/data.go'',
      Run_Command ([''go-bindata-assetfs''] @ dev @ [''-ignore='' @ [CHR 0x5C] @ ''.gitignore'', ''-prefix'', ''browser/chrome-ext/src/'',
        ''-pkg'', ''chrome'', ''browser/chrome-ext/src/...'']),
      Move_File ''bindata_assetfs.go'' ''pkg/res/chrome/data.go'']"

definition removed_by_clean :: "string list" where
  "removed_by_clean =
     [''pkg/res/data.go'', ''res/generated/bundle.js'', ''res/generated/style.css'', ''browser/chrome-ext/src/src.zip'',
      ''dist/'', ''dist-archives/'', ''site/'', ''build/'', ''res/generated/'', ''res/messages/_ref'',
      ''browser/chrome-ext/src/javascripts'', ''AlkasirChromeExtension/'']"

definition vet_dirs :: "string list \<Rightarrow> string list" where
  "vet_dirs dirs =
     filter (\<lambda>d. \<not> list_ex (\<lambda>i. d = i \<or> has_prefix d (i @ ''/''))
         [''pkg/res'', ''pkg/lg'', ''pkg/client/ui/wm/platform'', ''cmd/alkasir-torpt-server/ptc'']) dirs"

definition copy_messages :: "build_step list" where
  "copy_messages =
     map (\<lambda>v. Copy_File (''res/messages/'' @ v @ ''/messages.json'') (''browser/chrome-ext/src/_locales/'' @ v @ ''/messages.json''))
       [''en'', ''sv'', ''fa'', ''ar'', ''zh'']"

definition translator_keys :: "build_step list" where
  "translator_keys =
     map (\<lambda>v. Run_Command [''go'', ''run'', ''cmd/alkasir-translator-tool/alkasir-translator-tool.go'', ''-basedir=res'', ''-reflang=en'',
         ''-lang='' @ v, ''-add_empty=true'', ''keys'']) [''fa'', ''sv'', ''zh'', ''ar''] @
     [Run_Command [''go'', ''run'', ''cmd/alkasir-translator-tool/alkasir-translator-tool.go'', ''-basedir=res'', ''-lang=en'', ''format'']]"

definition test_steps :: "build_flags \<Rightarrow> string list \<Rightarrow> build_step list" where
  "test_steps f tags =
     (if bf_notests f then []
      else [Run_Command [''./pkg/pac/make.sh''], Run_Command ([''go'', ''test''] @ tags @ [''./cmd/...'', ''./pkg/...''])])"

definition npm_steps :: "bool \<Rightarrow> build_step list" where
  "npm_steps verbose = [Run_Command ([''npm'', ''install''] @ (if verbose then [] else [''--silent'']))]"

text \<open>
  The steps of each task, when no command fails: \<open>dirs\<close> are the directories under \<open>pkg\<close> and \<open>cmd\<close>, and \<open>tag\<close> the tag of a release. What a task does
  at the same time is listed in one of the orders.
\<close>

definition release_steps :: "build_flags \<Rightarrow> build_step list" where
  "release_steps f =
     [Run_Task ''clean'', Set_Optimize, Set_Xcn] @
     (if needs_browser (get_go_builders (f\<lparr>bf_optimize := True, bf_xcn := True\<rparr>) [])
      then map Run_Task [''deps'', ''browser'', ''chrome'', ''bindata''] else []) @ [Build_Go, Archive_Go]"

definition all_steps :: "build_step list" where
  "all_steps = map Run_Task [''clean'', ''deps'', ''browser'', ''chrome'', ''bindata'', ''test'', ''dist-build'']"

definition chrome_ext_steps :: "build_step list" where
  "chrome_ext_steps = [Set_Optimize, Run_Task ''clean'', Run_Task ''chrome'', Decrypt_Credentials,
     Remove_Files [''browser/chrome-ext/src/src.zip''], Run_Command [''zip'', ''-r'', ''src'', ''.'']]"

definition deps_steps :: "build_flags \<Rightarrow> build_step list" where
  "deps_steps f = (if bf_offline f then [] else tools_steps @ npm_steps (bf_verbose f))"

definition fmt_steps :: "build_step list" where
  "fmt_steps = [Run_Command [''gofmt'', ''-w'', ''-s'', ''cmd'', ''pkg''], Run_Command [''goimports'', ''-w'', ''cmd'', ''pkg'']]"

definition vet_steps :: "string list \<Rightarrow> build_step list" where
  "vet_steps dirs = [Run_Command ([''go'', ''vet''] @ map (\<lambda>d. ''github.com/alkasir/alkasir/'' @ d) (vet_dirs dirs))]"

definition lint_steps :: "build_step list" where
  "lint_steps = [Run_Task ''govet'', Run_Command [''jsxhint'', ''browser/''], Run_Command [''coffeelint'', ''browser/''],
     Run_Command [''eslint'', ''-c'', ''browser/.eslintrc'', ''browser/script/'']]"

definition chrome_steps :: "build_flags \<Rightarrow> build_step list" where
  "chrome_steps f = [Run_Task ''chrome-copy-messages'', Run_Command ([''webpack'', ''--config'', ''webpack.chrome.config.js''] @ webpack_mode f)]"

definition browser_steps :: "build_flags \<Rightarrow> build_step list" where
  "browser_steps f = [Run_Command (''webpack'' # webpack_mode f)]"

definition hot_build_steps :: "build_step list" where
  "hot_build_steps = map Run_Task [''browser'', ''chrome'', ''bindata-dev'', ''hot'']"

definition hot_steps :: "build_step list" where
  "hot_steps = [Background_Command [''webpack'', ''--config'', ''webpack.chrome.config.js'', ''--watch'', ''--debug''],
     Background_Command [''node'', ''server.js''], Run_Node_Reload]"

definition bumpversion_steps :: "build_step list" where
  "bumpversion_steps = [Run_Command [''bumpversion'', ''release''], Run_Command [''bumpversion'', ''--no-tag'', ''patch'']]"

definition dist_build_steps :: "build_step list" where
  "dist_build_steps = map Run_Task [''clean'', ''browser'', ''chrome'', ''bindata'', ''dist-build-go'']"

definition ci_steps :: "string \<Rightarrow> build_step list" where
  "ci_steps tag =
     [Run_Task ''clean''] @ tools_steps @ npm_steps False @ [Run_Task ''browser'', Run_Task ''bindata'',
       Run_Command [''go'', ''test'', ''-tags='' @ [CHR 0x22] @ ''net'' @ [CHR 0x22], ''github.com/alkasir/alkasir/pkg/...''],
       Run_Command [''go'', ''test'', ''-tags='' @ [CHR 0x22] @ ''net'' @ [CHR 0x22], ''github.com/alkasir/alkasir/cmd/...''],
       Run_Task ''govet'', Run_Command [''./pkg/pac/make.sh''], Run_Task ''chrome'', Run_Command [''jsxhint'', ''browser/''],
       Run_Command [''coffeelint'', ''-f'', ''browser/.coffeelint'', ''browser/''],
       Run_Command [''eslint'', ''-c'', ''browser/.eslintrc'', ''browser/script/'', ''--ext'', ''.jsx,.js'', ''--ignore-pattern'',
         ''**/components/dev/**'']] @ (if tag \<noteq> [] then [Run_Task ''release''] else [])"

text \<open>The registry of the tasks.\<close>

definition build_tasks :: "build_flags \<Rightarrow> string list \<Rightarrow> string \<Rightarrow> (string \<times> build_step list) list" where
  "build_tasks f dirs tag =
     [(''all'', all_steps), (''dev'', [Run_Task ''bindata-dev'']), (''bindata'', bindata_steps []), (''bindata-dev'', bindata_steps [''-dev'']),
      (''browser'', browser_steps f), (''docs'', [Run_Command [''mkdocs'', ''build'', ''--clean'']]), (''hot'', hot_steps),
      (''hot-build'', hot_build_steps), (''bumpversion-patch'', bumpversion_steps), (''clean'', [Remove_Files removed_by_clean]),
      (''deps'', deps_steps f), (''dist'', [Run_Task ''dist-build-go'']), (''dist-build'', dist_build_steps), (''dist-build-go'', [Build_Go]),
      (''release'', release_steps f), (''releaseChromeExt'', chrome_ext_steps), (''tasks'', [Print_Tasks]), (''test'', test_steps f []),
      (''test-all'', test_steps f [''-tags='' @ [CHR 0x22] @ ''net databases'' @ [CHR 0x22]]), (''fmt'', fmt_steps), (''ci'', ci_steps tag),
      (''genMakefile'', [Write_Makefile]), (''lint'', lint_steps), (''govet'', vet_steps dirs), (''chrome'', chrome_steps f),
      (''chrome-copy-messages'', copy_messages), (''translations-fixup'', translator_keys)]"

text \<open>
  A task runs its steps and those of the tasks it runs; the flags it sets stay set. \<open>None\<close> is an unknown task, on which the program
  panics, or a nesting of more than \<open>n\<close> tasks.
\<close>

definition build_step_run ::
  "(build_flags \<Rightarrow> string \<Rightarrow> (build_flags \<times> build_step list) option) \<Rightarrow> (build_flags \<times> build_step list) option \<Rightarrow> build_step \<Rightarrow>
   (build_flags \<times> build_step list) option" where
  "build_step_run run st s =
     (case st of
        None \<Rightarrow> None
      | Some (f, done1) \<Rightarrow>
          (case s of
             Run_Task t \<Rightarrow> map_option (apsnd ((@) done1)) (run f t)
           | Set_Optimize \<Rightarrow> Some (f\<lparr>bf_optimize := True\<rparr>, done1)
           | Set_Xcn \<Rightarrow> Some (f\<lparr>bf_xcn := True\<rparr>, done1)
           | _ \<Rightarrow> Some (f, done1 @ [s])))"

fun run_task :: "nat \<Rightarrow> string list \<Rightarrow> string \<Rightarrow> build_flags \<Rightarrow> string \<Rightarrow> (build_flags \<times> build_step list) option" where
  "run_task 0 dirs tag f t = None"
| "run_task (Suc n) dirs tag f t =
     (case map_of (build_tasks f dirs tag) t of
        None \<Rightarrow> None
      | Some steps \<Rightarrow> foldl (build_step_run (run_task n dirs tag)) (Some (f, [])) steps)"

definition makefile_lines :: "string list \<Rightarrow> string list" where
  "makefile_lines sorted_names =
     concat (map (\<lambda>t. [''.PHONY: '' @ t, t @ '': make.bin'', [CHR 0x09] @ ''./make.bin '' @ t]) sorted_names)"

section \<open>Lemmas\<close>

text \<open>What needs the network: the tools and packages that \<open>deps\<close> installs.\<close>

definition installs :: "build_step \<Rightarrow> bool" where
  "installs s = (case s of Run_Command (c # a # args) \<Rightarrow> c = ''npm'' \<or> c = ''go'' \<and> a = ''install'' | _ \<Rightarrow> False)"

text \<open>The outcome of a task: it ends, keeps the flag of being offline, and installs nothing if that is set and it should not.\<close>

definition task_ok :: "bool \<Rightarrow> build_flags \<Rightarrow> (build_flags \<times> build_step list) option \<Rightarrow> bool" where
  "task_ok q f r =
     (case r of None \<Rightarrow> False
      | Some (f', done1) \<Rightarrow> bf_offline f' = bf_offline f \<and> (q \<and> bf_offline f \<longrightarrow> list_all (\<lambda>s. \<not> installs s) done1))"

text \<open>How deep a task can nest: every task runs tasks of a smaller rank only, and none runs \<open>ci\<close>.\<close>

definition task_rank :: "string \<Rightarrow> nat" where
  "task_rank t =
     (if t = ''all'' \<or> t = ''ci'' then 3
      else if t = ''hot-build'' \<or> t = ''dist-build'' \<or> t = ''release'' \<or> t = ''releaseChromeExt'' then 2
      else if t = ''dev'' \<or> t = ''dist'' \<or> t = ''lint'' \<or> t = ''chrome'' then 1 else 0)"

definition task_names :: "string list" where
  "task_names =
     [''all'', ''dev'', ''bindata'', ''bindata-dev'', ''browser'', ''docs'', ''hot'', ''hot-build'', ''bumpversion-patch'', ''clean'', ''deps'', ''dist'',
      ''dist-build'', ''dist-build-go'', ''release'', ''releaseChromeExt'', ''tasks'', ''test'', ''test-all'', ''fmt'', ''ci'', ''genMakefile'', ''lint'',
      ''govet'', ''chrome'', ''chrome-copy-messages'', ''translations-fixup'']"

lemma task_table: "map fst (build_tasks f dirs tag) = task_names"
  by (simp add: build_tasks_def task_names_def)

lemma task_names_distinct: "distinct task_names"
  by code_simp

definition step_fine :: "nat \<Rightarrow> bool \<Rightarrow> build_step \<Rightarrow> bool" where
  "step_fine n quiet s =
     (case s of Run_Task t \<Rightarrow> t \<in> set task_names \<and> t \<noteq> ''ci'' \<and> task_rank t < n | _ \<Rightarrow> quiet \<longrightarrow> \<not> installs s)"

lemma steps_fine:
  assumes runs: "\<And>t g. t \<in> set task_names \<Longrightarrow> t \<noteq> ''ci'' \<Longrightarrow> task_rank t < n \<Longrightarrow> task_ok True g (run g t)"
    and "list_all (step_fine n (q \<and> bf_offline f)) steps" "bf_offline g = bf_offline f"
    and "q \<and> bf_offline f \<longrightarrow> list_all (\<lambda>s. \<not> installs s) done1"
  shows "task_ok q f (foldl (build_step_run run) (Some (g, done1)) steps)"
  using assms(2-)
proof (induction steps arbitrary: g done1)
  case Nil
  then show ?case by (simp add: task_ok_def)
next
  case (Cons s steps)
  have "\<exists>g' done'. build_step_run run (Some (g, done1)) s = Some (g', done') \<and> bf_offline g' = bf_offline f \<and>
      (q \<and> bf_offline f \<longrightarrow> list_all (\<lambda>s. \<not> installs s) done')"
  proof (cases "\<exists>t. s = Run_Task t")
    case True
    then obtain t where t: "s = Run_Task t" by blast
    then have "task_ok True g (run g t)" using Cons.prems(1) runs by (simp add: step_fine_def)
    then show ?thesis using t Cons.prems by (auto simp: task_ok_def build_step_run_def split: option.splits)
  next
    case False
    then show ?thesis using Cons.prems by (cases s) (auto simp: build_step_run_def step_fine_def)
  qed
  then obtain g' done' where step: "build_step_run run (Some (g, done1)) s = Some (g', done')" "bf_offline g' = bf_offline f"
      "q \<and> bf_offline f \<longrightarrow> list_all (\<lambda>s. \<not> installs s) done'" by blast
  have "list_all (step_fine n (q \<and> bf_offline f)) steps" using Cons.prems(1) by simp
  from Cons.IH [OF this step(2,3)] show ?case using step(1) by simp
qed

lemma table_fine: "list_all (\<lambda>(t, steps). list_all (step_fine (task_rank t) (t \<noteq> ''ci'' \<and> bf_offline f)) steps) (build_tasks f dirs tag)"
  by (simp add: build_tasks_def step_fine_def installs_def task_rank_def task_names_def bindata_steps_def test_steps_def npm_steps_def
      tools_steps_def copy_messages_def translator_keys_def release_steps_def webpack_mode_def all_steps_def chrome_ext_steps_def
      deps_steps_def fmt_steps_def vet_steps_def lint_steps_def chrome_steps_def browser_steps_def hot_build_steps_def hot_steps_def
      bumpversion_steps_def dist_build_steps_def ci_steps_def)

lemma task_runs: "t \<in> set task_names \<Longrightarrow> task_rank t < n \<Longrightarrow> task_ok (t \<noteq> ''ci'') f (run_task n dirs tag f t)"
proof (induction n arbitrary: t f)
  case (Suc n)
  from Suc.prems(1) have "t \<in> fst ` set (build_tasks f dirs tag)" using task_table [of f dirs tag] by (metis set_map)
  then obtain steps where mem: "(t, steps) \<in> set (build_tasks f dirs tag)" by auto
  then have steps: "map_of (build_tasks f dirs tag) t = Some steps"
    using task_names_distinct task_table [of f dirs tag] by (intro map_of_is_SomeI) simp_all
  have fine: "list_all (step_fine (task_rank t) (t \<noteq> ''ci'' \<and> bf_offline f)) steps"
    using table_fine [of f dirs tag] mem by (auto simp: list_all_iff)
  have run: "task_ok True g (run_task n dirs tag g u)" if "u \<in> set task_names" "u \<noteq> ''ci''" "task_rank u < task_rank t" for u g
    using Suc.IH [of u g] that Suc.prems(2) by simp
  show ?case using steps_fine [of "task_rank t" "run_task n dirs tag" "t \<noteq> ''ci''" f steps f "[]", OF run fine] steps by simp
qed simp

text \<open>
  The files of an extracted archive, and the patterns of \<open>filepath.Glob\<close> with their only special character; what was built is
  the directory with the program.
\<close>

definition extracted :: "string list \<Rightarrow> string list" where
  "extracted names = filter (\<lambda>n. n \<noteq> []) (map (\<lambda>n. if has_suffix n ''/'' then butlast n else n) names)"

function glob_match :: "string \<Rightarrow> string \<Rightarrow> bool" where
  "glob_match [] s = (s = [])"
| "glob_match (c # p) [] = (c = CHR ''*'' \<and> glob_match p [])"
| "glob_match (c # p) (x # s) =
     (if c = CHR ''*'' then glob_match p (x # s) \<or> x \<noteq> CHR ''/'' \<and> glob_match (c # p) s else c = x \<and> glob_match p s)"
  by pat_completeness auto
termination by (relation "Wellfounded.measure (\<lambda>(p, s). length p + length s)") auto

definition glob_files :: "string \<Rightarrow> string list \<Rightarrow> string list" where
  "glob_files pat names = filter (\<lambda>n. glob_match pat (CHR ''/'' # n)) names"

definition dist_files :: "builder \<Rightarrow> (string \<times> bool) list" where
  "dist_files b = [(dist_dir b, True), (builder_filename b, False)]"

definition job_builder :: "string list \<Rightarrow> build_query \<Rightarrow> builder" where
  "job_builder vars q =
     (if bq_cmd q = ''alkasir-gui'' then
        (plain_builder ''alkasir-gui'' (bq_os q, bq_arch q))\<lparr>bd_xcn := True, bd_gui := True, bd_binary_name := ''alkasir'', bd_flat := True,
           bd_browser := True, bd_vars := vars\<rparr>
      else (plain_builder ''alkasir-client'' (bq_os q, bq_arch q))\<lparr>bd_browser := True, bd_vars := vars\<rparr>)"

definition archive_found :: "string list \<Rightarrow> build_query \<Rightarrow> bool" where
  "archive_found vars q =
     (let b = job_builder vars q in
      bd_cmd b = bq_cmd q \<and>
      (case (program_archive (\<lambda>_. dist_files b) b, cmd_glob q) of
         (Some (a, names), Inr pat) \<Rightarrow>
           has_suffix a (CHR ''.'' # bq_packaging q) \<and> glob_files pat (extracted names) = [last names] \<and> has_suffix (last names) (binary_file b)
       | _ \<Rightarrow> False))"

lemma archives_found: "list_all (archive_found vars) job_queries"
  by code_simp

definition gui_targets :: "(string \<times> string) list" where
  "gui_targets = filter (\<lambda>t. t \<noteq> (''linux'', ''386'') \<and> t \<noteq> (''darwin'', ''386'')) default_targets"

lemma jobs_have_targets:
  "list_all (\<lambda>q. list_ex (\<lambda>t. t = (bq_os q, bq_arch q)) (if bq_cmd q = ''alkasir-gui'' then gui_targets else default_targets)) job_queries"
  by code_simp

lemma job_builder_built:
  assumes "q \<in> set job_queries" "bf_xcn f" "bf_os f = []" "bf_arch f = []" "bf_cmd f = []"
  shows "job_builder vars q \<in> set (get_go_builders f vars)"
proof -
  have all: "filter (should_build f) bs = bs" for bs using assms(3-5) by (simp add: should_build_def)
  have target: "(bq_os q, bq_arch q) \<in> set (if bq_cmd q = ''alkasir-gui'' then gui_targets else default_targets)"
    using jobs_have_targets assms(1) by (auto simp: list_all_iff list_ex_iff simp del: if_split)
  show ?thesis
  proof (cases "bq_cmd q = ''alkasir-gui''")
    case True
    with target have "(bq_os q, bq_arch q) \<in> set gui_targets" by simp
    then show ?thesis unfolding get_go_builders_def all gui_targets_def [symmetric]
      using True assms(2) by (auto simp: job_builder_def)
  next
    case False
    with target have "(bq_os q, bq_arch q) \<in> set default_targets" by simp
    then show ?thesis unfolding get_go_builders_def all using False by (auto simp: job_builder_def)
  qed
qed

lemma has_prefix_refl [simp]: "has_prefix s s" "has_prefix (s @ u) s"
  by (simp_all add: has_prefix_def)

lemma osx_archive: "\<exists>ns. zip_names temp (osx_app_paths temp b) = Some ns"
  by (auto simp: zip_names_def osx_app_paths_def Let_def)

lemma release_program:
  "program_archive walk b = Some a \<Longrightarrow> \<exists>rest. release_archives f walk temp (b\<lparr>bd_built := True\<rparr>) = Some (a # rest)"
proof -
  assume a: "program_archive walk b = Some a"
  have "program_archive walk (b\<lparr>bd_built := True\<rparr>) = program_archive walk b"
    by (simp add: program_archive_def builder_artifact_def dist_dir_def builder_dir_def)
  then show ?thesis using a osx_archive [of temp "b\<lparr>bd_built := True\<rparr>"] by (auto simp: release_archives_def)
qed

lemma fresh_archive_is_unpacked:
  assumes "cmd_glob q = Inr pat" "glob pat [] = []" "unpack data = (None, fs)" "glob pat fs = [p]"
  shows "fst (get_binary glob unpack (None, data) second q \<lparr>ad_archive = None, ad_files = []\<rparr>) = Returned (Inr p)"
  using assms by (simp add: get_binary_def nexus_download_def nexus_extract_def first_match_def)

text \<open>
  The programs of the server and of the administrator are built into a directory of their archive, and their pattern finds the
  directory.
\<close>

lemma server_pattern_finds_directory:
  "let b = (plain_builder ''alkasir-central'' (''linux'', ''amd64''))\<lparr>bd_binary_name := ''alkasir-central''\<rparr>
   in map_option (\<lambda>(a, ns). (ns, glob_files ''/alkasir*'' (extracted ns))) (program_archive (\<lambda>_. dist_files b) b) =
     Some ([''alkasir-central-linux-amd64/'', ''alkasir-central-linux-amd64/alkasir-central''], [''alkasir-central-linux-amd64''])"
  by code_simp

section \<open>Properties\<close>


text \<open>
  Every task of the build tool ends, with at most four tasks inside each other, and a name that is no task never runs anything;
  with the flag for being offline, also when a task runs others, nothing but the task for the build server installs tools or packages.
\<close>

lemma build_tasks_end:
  "if t \<in> set task_names
   then \<exists>f' done1. run_task 4 dirs tag f t = Some (f', done1) \<and>
     (bf_offline f \<and> t \<noteq> ''ci'' \<longrightarrow> list_all (\<lambda>s. \<not> installs s) done1)
   else run_task n dirs tag f t = None"
proof (cases "t \<in> set task_names")
  case True
  have "task_rank t < 4" by (simp add: task_rank_def)
  with task_runs [OF True, of 4 f dirs tag] True show ?thesis by (auto simp: task_ok_def split: option.splits)
next
  case False
  then have "map_of (build_tasks f dirs tag) t = None"
    unfolding map_of_eq_None_iff using task_table [of f dirs tag] by (metis set_map)
  then show ?thesis using False by (cases n) simp_all
qed

definition release_flags :: build_flags where
  "release_flags = \<lparr>bf_notests = False, bf_offline = False, bf_xcn = True, bf_debug = False, bf_optimize = True, bf_docker = False,
     bf_verbose = False, bf_os = [], bf_arch = [], bf_cmd = []\<rparr>"


lemma build_tasks_end_witness:
  "\<exists>f' done1. run_task 4 [] [] (release_flags\<lparr>bf_offline := True\<rparr>) ''all'' = Some (f', done1) \<and> list_all (\<lambda>s. \<not> installs s) done1"
  using build_tasks_end [of "''all''" "[]" "[]" "release_flags\<lparr>bf_offline := True\<rparr>"] by (simp add: task_names_def release_flags_def)

end
