(* ===== verification/ClientHttp.thy ===== *)
theory ClientHttp
  imports ClientAuth GoUrl Pem
begin

text \<open>
  The internal web server of the client (\<open>client/http.go\<close>): where it listens, what the menu of the user interface opens and
  copies, the routes of the multiplexer and the pages. The network, the browser and the clipboard are arguments or outcomes.
\<close>

section \<open>Listening\<close>

text \<open>
  The configured address, and any free port of the machine when it is taken; an answer of the server within the first moment is
  its error.
\<close>

definition bind_local :: "(string \<Rightarrow> string + string) \<Rightarrow> string \<Rightarrow> string + string" where
  "bind_local listen configured =
     (case listen configured of Inr a \<Rightarrow> Inr a | Inl _ \<Rightarrow> listen ''127.0.0.1:'')"

definition start_internal_http :: "string option \<Rightarrow> (string \<Rightarrow> string + string) \<Rightarrow> string \<Rightarrow> bool \<Rightarrow> string + string" where
  "start_internal_http mux_error listen configured serve_failed =
     (case mux_error of
        Some e \<Rightarrow> Inl e
      | None \<Rightarrow>
          (case bind_local listen configured of
             Inl e \<Rightarrow> Inl e
           | Inr addr \<Rightarrow> if serve_failed then Inl ''Could not start internal http server'' else Inr addr))"

section \<open>The menu\<close>

datatype ui_action = Copy_Browser_Code | Open_In_Browser | Open_Help

datatype ui_effect = Opens string | Copies string | Logs_Error

definition base_url :: "string \<Rightarrow> string" where
  "base_url addr = ''http://'' @ addr @ ''?suk=''"

text \<open>
  One turn of the loop: a page is opened with a new key; the keys are cleaned up at its end, but not after an address that cannot
  be read. A code without a key or a port cannot be copied.
\<close>

definition ui_turn :: "string \<Rightarrow> string \<Rightarrow> string \<Rightarrow> time \<Rightarrow> time \<Rightarrow> ui_action \<Rightarrow> key_store \<Rightarrow> ui_effect \<times> key_store" where
  "ui_turn auth_key addr bytes now later act s =
     (case act of
        Copy_Browser_Code \<Rightarrow>
          (case set_hostport addr \<lparr>bc_key = auth_key, bc_host = [], bc_port = []\<rparr> of
             None \<Rightarrow> (Logs_Error, s)
           | Some bc \<Rightarrow>
               ((case bc_encode bc of None \<Rightarrow> Logs_Error | Some t \<Rightarrow> Copies t), key_cleanup later s))
      | Open_In_Browser \<Rightarrow>
          (let (k, s1) = key_new bytes now s in (Opens (base_url addr @ k @ ''#/''), key_cleanup later s1))
      | Open_Help \<Rightarrow>
          (let (k, s1) = key_new bytes now s in (Opens (base_url addr @ k @ ''#/docs/__/index''), key_cleanup later s1)))"

section \<open>Routes\<close>

datatype route = Asset_Files string | Source_Files string | Html_Page | Api_Routes

definition serve_mux :: "bool \<Rightarrow> (string \<times> route) list" where
  "serve_mux hot =
     (if hot then map (\<lambda>v. (''/'' @ v @ ''/'', Source_Files (''res/'' @ v))) [''img'', ''generated'', ''fonts'']
      else map (\<lambda>p. (p, Asset_Files p)) [''/img/'', ''/generated/'', ''/fonts/'']) @
     [(''/'', Html_Page), (''/api/'', Api_Routes)]"

text \<open>\<open>ServeMux\<close> takes the longest pattern that the path begins with; all patterns here end with a slash.\<close>

definition mux_route :: "bool \<Rightarrow> string \<Rightarrow> route option" where
  "mux_route hot path =
     map_option snd (fold (\<lambda>e best. if has_prefix path (fst e) \<and> (case best of None \<Rightarrow> True | Some b \<Rightarrow> length (fst b) < length (fst e))
       then Some e else best) (serve_mux hot) None)"

definition page_templates :: "string list \<Rightarrow> string list" where
  "page_templates assets =
     map (\<lambda>p. trim_prefix p ''templates/'') (filter (\<lambda>p. has_prefix p ''templates/'' \<and> has_suffix p ''html'') assets)"

section \<open>Lemmas\<close>

text \<open>
  What a browser requests for a link, and the parameter of its query, which has no escapes here.
\<close>

definition query_value :: "string \<Rightarrow> string \<Rightarrow> string" where
  "query_value n u =
     (let q = drop 1 (snd (split_at (CHR ''?'') (fst (split_at (CHR ''#'') u)))) in
      case find (\<lambda>p. fst (split_at (CHR ''='') p) = n) (split_char (CHR ''&'') q) of
        None \<Rightarrow> [] | Some p \<Rightarrow> drop 1 (snd (split_at (CHR ''='') p)))"

definition link_request :: "string \<Rightarrow> string option \<Rightarrow> auth_request" where
  "link_request u cookie =
     \<lparr>aq_suk = query_value ''suk'' u, aq_auth_key = query_value ''authKey'' u, aq_authorization = [], aq_cookie = cookie\<rparr>"

lemma hex_encode_chars: "c \<in> set (hex_encode bytes) \<Longrightarrow> c \<in> set ''0123456789abcdef''"
proof -
  have "list_all (\<lambda>d. hex_digit d \<in> set ''0123456789abcdef'') [0..<16]" by code_simp
  then have digit: "hex_digit d \<in> set ''0123456789abcdef''" if "d < 16" for d
    unfolding list_all_iff using that by (metis atLeastLessThan_iff set_upt zero_le)
  have "(of_char x :: nat) div 16 < 16" for x
  proof -
    have "(of_char x :: nat) < 256" by simp
    then show ?thesis by (simp only: less_mult_imp_div_less)
  qed
  moreover assume "c \<in> set (hex_encode bytes)"
  then obtain x where "c = hex_digit (of_char x div 16) \<or> c = hex_digit (of_char x mod 16)"
    by (auto simp: hex_encode_def)
  ultimately show ?thesis using digit [of "of_char x div 16"] digit [of "of_char x mod 16"]
    by (elim disjE) (simp_all only: mod_less_divisor zero_less_numeral)
qed

lemma split_at_here: "c \<notin> set a \<Longrightarrow> split_at c (a @ c # b) = (a, c # b)" "c \<notin> set a \<Longrightarrow> split_at c a = (a, [])"
  unfolding split_at_def by (induction a) auto

lemma link_query:
  assumes "CHR ''#'' \<notin> set addr" "CHR ''?'' \<notin> set addr" "k = hex_encode bytes"
  shows "link_request (base_url addr @ k @ CHR ''#'' # frag) cookie =
    \<lparr>aq_suk = k, aq_auth_key = [], aq_authorization = [], aq_cookie = cookie\<rparr>"
proof -
  have k: "CHR ''#'' \<notin> set k" "CHR ''?'' \<notin> set k" "CHR ''&'' \<notin> set k" "CHR ''='' \<notin> set k"
    using hex_encode_chars [of _ bytes] unfolding assms(3) by force+
  have "split_at (CHR ''#'') (base_url addr @ k @ CHR ''#'' # frag) = (base_url addr @ k, CHR ''#'' # frag)"
    using split_at_here(1) [of "CHR ''#''" "base_url addr @ k" frag] assms(1) k(1) by (simp add: base_url_def)
  moreover have "split_at (CHR ''?'') (base_url addr @ k) = (''http://'' @ addr, ''?suk='' @ k)"
    using split_at_here(1) [of "CHR ''?''" "''http://'' @ addr" "''suk='' @ k"] assms(2) by (simp add: base_url_def)
  moreover have "split_char (CHR ''&'') (''suk='' @ k) = [''suk='' @ k]" by (rule split_char_no_sep) (use k in simp)
  moreover have "split_at (CHR ''='') (''suk='' @ k) = (''suk'', CHR ''='' # k)"
    using split_at_here(1) [of "CHR ''=''" "''suk''" k] by simp
  ultimately have "query_value n (base_url addr @ k @ CHR ''#'' # frag) = (if n = ''suk'' then k else [])" for n
    unfolding query_value_def Let_def by simp
  then show ?thesis by (simp add: link_request_def)
qed

text \<open>The store after a page was opened.\<close>

lemma opened_store:
  assumes "act \<noteq> Copy_Browser_Code"
  shows "\<exists>frag. ui_turn key addr bytes now later act s =
    (Opens (base_url addr @ hex_encode bytes @ CHR ''#'' # frag), foldl (auth_step key) s [New_Key bytes now, Clean_Up later])"
  using assms by (cases act) (auto simp: ui_turn_def key_new_def Let_def)

lemma key_stays_gone:
  assumes "keys_ok s" "key_lookup s k = None" "list_all (\<lambda>e. \<not> touches k e) es"
  shows "key_lookup (foldl (auth_step key) s es) k = None"
  using assms(3)
proof (induction es rule: rev_induct)
  case (snoc e es)
  have "keys_ok (foldl (auth_step key) s es)" by (rule auth_run.run_good) (rule assms(1))
  from auth_step_lookup [OF this, of key e k] snoc show ?case by (cases e) (auto simp: touches_def)
qed (simp add: assms(2))

lemma mux_routes:
  "map (\<lambda>hot. map (mux_route hot) [''/api/x'', ''/api'', ''/img/a'']) [True, False] =
     [[Some Api_Routes, Some Html_Page, Some (Source_Files ''res/img'')], [Some Api_Routes, Some Html_Page, Some (Asset_Files ''/img/'')]]"
  by (simp add: mux_route_def serve_mux_def has_prefix_def)

section \<open>Properties\<close>



end
