(* ===== verification/CentralStart.thy ===== *)
theory CentralStart
  imports BinaryUpgrade Socks
begin

text \<open>
  The start of the central server (\<open>central/central.go\<close>) and the lookups of addresses that it makes of the files it finds
  (\<open>central/db/maxmind.go\<close>, \<open>central/db/internet.go\<close>). The databases, the network and the files are arguments; \<open>Failed\<close> is
  the end of the program by a logged error.
\<close>

section \<open>Initialization\<close>

text \<open>The directory of the data: that of the flag, or one in the home of the user.\<close>

definition data_dir :: "string \<Rightarrow> string option \<Rightarrow> string outcome" where
  "data_dir flag home =
     (if flag \<noteq> [] then Returned flag
      else (case home of None \<Rightarrow> Failed | Some h \<Rightarrow> Returned (path_join [h, ''.alkasir-central''])))"

definition valid_codes :: "string list \<Rightarrow> (string, bool) gomap" where
  "valid_codes codes = fold (\<lambda>c m. AList.update c True m) codes []"

text \<open>\<open>InitDB\<close> with the errors of the connection and of the ping: the limits of the pool that is kept.\<close>

definition init_db :: "string option \<Rightarrow> string option \<Rightarrow> int \<times> int \<Rightarrow> string + int \<times> int" where
  "init_db conn ping limits =
     (case conn of Some e \<Rightarrow> Inl e | None \<Rightarrow> (case ping of Some e \<Rightarrow> Inl e | None \<Rightarrow> Inr limits))"

text \<open>A file of the address databases: missing, damaged, or a reader of addresses.\<close>

datatype 'r geo_file = Missing_File | Damaged_File | Geo_Reader 'r

type_synonym country_reader = "ip \<Rightarrow> string option \<times> string"
type_synonym city_reader = "ip \<Rightarrow> string option \<times> nat"

definition country_reader_of :: "country_reader geo_file \<Rightarrow> country_reader outcome" where
  "country_reader_of f = (case f of Geo_Reader r \<Rightarrow> Returned r | _ \<Rightarrow> Failed)"

definition city_reader_of :: "city_reader geo_file \<Rightarrow> city_reader option outcome" where
  "city_reader_of f = (case f of Missing_File \<Rightarrow> Returned None | Damaged_File \<Rightarrow> Failed | Geo_Reader r \<Rightarrow> Returned (Some r))"

record central_init =
  ci_datadir :: string
  ci_codes :: "(string, bool) gomap"
  ci_limits :: "int \<times> int"
  ci_country :: country_reader
  ci_city :: "city_reader option"

definition init_central ::
  "string \<Rightarrow> string option \<Rightarrow> string list \<Rightarrow> string + int \<times> int \<Rightarrow> (string \<Rightarrow> country_reader geo_file) \<Rightarrow> (string \<Rightarrow> city_reader geo_file) \<Rightarrow>
   central_init outcome" where
  "init_central flag home codes database country city =
     (case data_dir flag home of
        Failed \<Rightarrow> Failed
      | Crashed \<Rightarrow> Crashed
      | Returned dir \<Rightarrow>
          (case database of
             Inl _ \<Rightarrow> Failed
           | Inr limits \<Rightarrow>
               (case country_reader_of (country (path_join [dir, ''internet'', ''GeoLite2-Country.mmdb''])) of
                  Returned r \<Rightarrow>
                    (case city_reader_of (city (path_join [dir, ''internet'', ''GeoLite2-City.mmdb''])) of
                       Returned c \<Rightarrow> Returned \<lparr>ci_datadir = dir, ci_codes = valid_codes codes, ci_limits = limits, ci_country = r, ci_city = c\<rparr>
                     | Failed \<Rightarrow> Failed | Crashed \<Rightarrow> Crashed)
                | Failed \<Rightarrow> Failed | Crashed \<Rightarrow> Crashed)))"

section \<open>Lookups\<close>

text \<open>An error of a lookup is only logged; without the file of the cities every city is zero.\<close>

definition ip_to_country_code :: "country_reader \<Rightarrow> ip \<Rightarrow> string" where
  "ip_to_country_code r ip = snd (r ip)"

definition ip_to_city_id :: "city_reader option \<Rightarrow> ip \<Rightarrow> nat" where
  "ip_to_city_id r ip = (case r of None \<Rightarrow> 0 | Some f \<Rightarrow> snd (f ip))"

definition ip_to_asn :: "(string \<Rightarrow> string + int option) \<Rightarrow> ip \<Rightarrow> string + int option" where
  "ip_to_asn current ip = current (ip_string ip)"

definition central_lookups :: "(string \<Rightarrow> string + int option) \<Rightarrow> central_init \<Rightarrow> lookups" where
  "central_lookups current i =
     \<lparr>lk_asn = ip_to_asn current, lk_country = ip_to_country_code (ci_country i), lk_city = (\<lambda>ip. int (ip_to_city_id (ci_city i) ip))\<rparr>"

section \<open>Running\<close>

text \<open>
  The three loads that are waited for: a failed one ends the program, but a table of the networks only when it is not offline. They
  run at the same time, and share nothing. The servers start after them.
\<close>

definition table_refresh :: "bool \<Rightarrow> string option \<Rightarrow> unit outcome" where
  "table_refresh offline err = (case err of None \<Rightarrow> Returned () | Some e \<Rightarrow> if offline then Returned () else Failed)"

datatype export_server = No_Export_Server string | Export_Server string

text \<open>Without a key the export server is not started, and a key is suggested; a key that is no base64 ends the program.\<close>

definition start_export_server :: "string \<Rightarrow> string option \<Rightarrow> export_server outcome" where
  "start_export_server key random =
     (if key = [] then (case random of None \<Rightarrow> Failed | Some b \<Rightarrow> Returned (No_Export_Server (b64_std_encode b)))
      else (case b64_std_decode key of None \<Rightarrow> Failed | Some k \<Rightarrow> Returned (Export_Server k)))"

record central_running =
  cr_tokens :: token_store
  cr_export :: export_server

definition run_central ::
  "time \<Rightarrow> bool \<Rightarrow> token_data list option \<Rightarrow> string option \<Rightarrow> string option \<Rightarrow> string \<Rightarrow> string option \<Rightarrow> central_running outcome" where
  "run_central now offline recents bgp cidr key random =
     (case (recents, table_refresh offline bgp, table_refresh offline cidr) of
        (Some rs, Returned _, Returned _) \<Rightarrow>
          (case start_export_server key random of
             Returned x \<Rightarrow> Returned \<lparr>cr_tokens = token_reset now rs empty_tokens, cr_export = x\<rparr>
           | Failed \<Rightarrow> Failed | Crashed \<Rightarrow> Crashed)
      | _ \<Rightarrow> Failed)"

text \<open>The gauge of the active connections, every second.\<close>

definition redis_gauge :: "nat option \<Rightarrow> nat" where
  "redis_gauge pool = (case pool of None \<Rightarrow> 0 | Some n \<Rightarrow> n)"

section \<open>Lemmas\<close>

text \<open>The key that is suggested starts the server when it is used.\<close>

lemma suggested_key_starts:
  assumes "start_export_server [] (Some b) = Returned (No_Export_Server k)" "b \<noteq> []"
  shows "start_export_server k random = Returned (Export_Server b)"
proof -
  have k: "k = b64_std_encode b" using assms(1) by (simp add: start_export_server_def)
  have "b64_std_decode k = Some b" unfolding k by (rule b64_std_decode_encode)
  moreover have "k \<noteq> []"
  proof
    assume "k = []"
    then have "b64_std_encode b = b64_std_encode []" using k by (simp add: b64_std_encode_def)
    then show False using b64_std_decode_encode [of b] b64_std_decode_encode [of "[]"] assms(2) by simp
  qed
  ultimately show ?thesis by (simp add: start_export_server_def)
qed

text \<open>The server runs exactly when the sessions were loaded, the tables too unless it is offline, and the key can be used.\<close>

lemma central_runs:
  "(\<exists>r. run_central now offline recents bgp cidr key random = Returned r) \<longleftrightarrow>
   recents \<noteq> None \<and> (offline \<or> bgp = None \<and> cidr = None) \<and> (if key = [] then random \<noteq> None else b64_std_decode key \<noteq> None)"
  by (auto simp: run_central_def table_refresh_def start_export_server_def split: option.splits)

lemma valid_codes_members: "map_of (valid_codes codes) c = (if c \<in> set codes then Some True else None)"
proof -
  have "map_of (fold (\<lambda>c m. AList.update c True m) codes m) c = (if c \<in> set codes then Some True else map_of m c)" for m
    by (induction codes arbitrary: m) (auto simp: update_conv')
  then show ?thesis by (simp add: valid_codes_def)
qed

lemma no_city_file: "init_central flag home codes db country (\<lambda>_. Missing_File) = Returned i \<Longrightarrow> lk_city (central_lookups current i) ip = 0"
  by (auto simp: init_central_def city_reader_of_def central_lookups_def ip_to_city_id_def split: outcome.splits sum.splits)

end
