(* ===== verification/ClientUi.thy ===== *)
theory ClientUi
  imports ClientApi Socks PublicIp
begin

text \<open>
  The texts and the menu of the client: the bundles of translations (\<open>pkg/i18n\<close>, \<open>client/i18n.go\<close>), the user interface that is
  set once (\<open>client/ui\<close>), the menu with its language (\<open>client/ui/wm\<close>), the test of the notifications (\<open>client/uitest.go\<close>), and
  the server that tells a client its address (\<open>cmd/alkasir-wanip-server\<close>). The decoder of JSON and the files of the program are
  arguments.
\<close>

section \<open>Translations\<close>

record message_item =
  mi_id :: string
  mi_message :: string
  mi_description :: string

record lang_bundle =
  bu_name :: string
  bu_items :: "(string, message_item) gomap"

definition bundle_text :: "lang_bundle \<Rightarrow> string \<Rightarrow> string" where
  "bundle_text b key =
     (let r = (case map_of (bu_items b) key of Some i \<Rightarrow> mi_message i | None \<Rightarrow> [])
      in if r = [] then ''['' @ key @ '']'' else r)"

definition bundle_has :: "lang_bundle \<Rightarrow> string \<Rightarrow> bool" where
  "bundle_has b key \<longleftrightarrow> map_of (bu_items b) key \<noteq> None"

text \<open>
  \<open>decode\<close> gives the objects that follow each other in the data, or \<open>None\<close> for an error, on which the program panics; they are
  decoded into the same map.
\<close>

definition add_bundle ::
  "(string \<Rightarrow> (string, message_item) gomap list option) \<Rightarrow> string \<Rightarrow> string \<Rightarrow> (string, lang_bundle) gomap \<Rightarrow> (string, lang_bundle) gomap option" where
  "add_bundle decode name data bs =
     (case decode data of
        None \<Rightarrow> None
      | Some objs \<Rightarrow>
          (let items = fold (\<lambda>(k, i) m. AList.update k i m) (concat objs) [] in
           Some (AList.update name \<lparr>bu_name = name, bu_items = map (\<lambda>(k, i). (k, i\<lparr>mi_id := k\<rparr>)) items\<rparr> bs)))"

definition text_func :: "string \<Rightarrow> (string, lang_bundle) gomap \<Rightarrow> (string \<Rightarrow> string) option" where
  "text_func name bs = map_option bundle_text (map_of bs name)"

definition has_func :: "string \<Rightarrow> (string, lang_bundle) gomap \<Rightarrow> (string \<Rightarrow> bool) option" where
  "has_func name bs = map_option bundle_has (map_of bs name)"

fun load_translations ::
  "(string \<Rightarrow> (string, message_item) gomap list option) \<Rightarrow> (string \<Rightarrow> string option) \<Rightarrow> string list \<Rightarrow> (string, lang_bundle) gomap \<Rightarrow>
   (string, lang_bundle) gomap option" where
  "load_translations decode asset [] bs = Some bs"
| "load_translations decode asset (l # ls) bs =
     (case asset (''messages/'' @ l @ ''/messages.json'') of
        None \<Rightarrow> None
      | Some data \<Rightarrow> (case add_bundle decode l data bs of None \<Rightarrow> None | Some bs' \<Rightarrow> load_translations decode asset ls bs'))"

section \<open>The user interface\<close>

definition ui_set :: "'u \<Rightarrow> 'u option \<Rightarrow> 'u option" where
  "ui_set u set_ui = (case set_ui of None \<Rightarrow> Some u | Some v \<Rightarrow> Some v)"

text \<open>The items of the menu, in the order they are added, with the texts they show; a language without a bundle changes nothing.\<close>

record menu_texts =
  mt_open :: string
  mt_help :: string
  mt_copy :: string
  mt_quit :: string

definition wm_language :: "(string, lang_bundle) gomap \<Rightarrow> string \<Rightarrow> menu_texts option \<Rightarrow> string option \<times> menu_texts option" where
  "wm_language bs lang menu =
     (case text_func lang bs of
        None \<Rightarrow> (Some ''bundle not found'', menu)
      | Some t \<Rightarrow> (None, Some \<lparr>mt_open = t ''open_in_browser'', mt_help = t ''action_help'',
                              mt_copy = t ''copy_browser_code_to_clipboard'', mt_quit = t ''quit_alkasir''\<rparr>))"

text \<open>Each item sends to its own channel of the interface.\<close>

datatype menu_item = Quit_Item | Copy_Item | Help_Item | Open_Item

datatype ui_channel = Quit_Channel | Copy_Browser_Code_Channel | Open_In_Browser_Channel | Help_Channel

definition menu_click :: "menu_item \<Rightarrow> ui_channel" where
  "menu_click i =
     (case i of Quit_Item \<Rightarrow> Quit_Channel | Copy_Item \<Rightarrow> Copy_Browser_Code_Channel | Help_Item \<Rightarrow> Help_Channel
      | Open_Item \<Rightarrow> Open_In_Browser_Channel)"

definition wm_icon :: "string \<Rightarrow> string" where
  "wm_icon goos = (if goos = ''windows'' then ''img/alkasir-icon-128x128.ico'' else ''img/alkasir-icon-16x16.png'')"

text \<open>The interface of the command line waits for each \<open>Done\<close>, and one too many panics.\<close>

definition cli_done :: "nat \<Rightarrow> nat option" where
  "cli_done waiting = (if waiting = 0 then None else Some (waiting - 1))"

section \<open>The test of the notifications\<close>

definition test_messages :: "string list" where
  "test_messages =
     [''blocklist_update_error'', ''blocklist_update_init'', ''blocklist_update_success'', ''blocklist_update_warning'', ''central_connected'',
      ''central_error'', ''central_warning'', ''extension_client_not_available'', ''extension_connected'', ''extension_disconnected'',
      ''listen_error'', ''network_connected'', ''network_error'', ''network_timeout_error'', ''server_error'', ''status_error'', ''status_ok'',
      ''status_warning'', ''suggest_denied'', ''suggest_this'', ''transport_connected'', ''transport_disconnected'', ''transport_error'',
      ''transport_init'', ''transport_warning'', ''transported_connection_opened'', ''unknown_error'']"

fun remove_first :: "string \<Rightarrow> string \<Rightarrow> string" where
  "remove_first p [] = []"
| "remove_first p (c # s) = (if has_prefix (c # s) p then drop (length p) (c # s) else c # remove_first p s)"

definition test_level :: "string \<Rightarrow> string" where
  "test_level v =
     (if contains v ''_ok'' \<or> contains v ''success'' then ''success''
      else if contains v ''warning'' then ''warning''
      else if contains v ''error'' then ''danger'' else ''info'')"

definition test_title :: "(string \<Rightarrow> bool) \<Rightarrow> string \<Rightarrow> string" where
  "test_title has v =
     fold (\<lambda>e t. if \<not> has t \<and> has (remove_first e v) then remove_first e v else t) [''_ok'', ''_error'', ''_warning''] (v @ ''_title'')"

definition test_notifications :: "(string, lang_bundle) gomap \<Rightarrow> string \<Rightarrow> notification list option" where
  "test_notifications bs lang =
     (case has_func lang bs of
        None \<Rightarrow> None
      | Some has \<Rightarrow>
          Some (map (\<lambda>v. \<lparr>nf_id = [], nf_level = test_level v, nf_title = test_title has v, nf_message = v @ ''_message'',
             nf_actions = [(''action_continue'', ''/suggestions/''), (''action_ok'', ''/setup-guide/''), (''action_help'', ''/setup-guide/'')]\<rparr>)
             test_messages))"

section \<open>Asking for the own address\<close>

definition wan_ip_reply :: "string \<Rightarrow> string" where
  "wan_ip_reply remote = (case split_host_port remote of Inl _ \<Rightarrow> [] | Inr (h, _) \<Rightarrow> h)"

section \<open>Lemmas\<close>

lemma bundle_text_nonempty: "bundle_text b key \<noteq> []"
  by (simp add: bundle_text_def Let_def)

text \<open>The last object of the data that has a key decides its text, and every item knows its key.\<close>

lemma fold_items:
  "map_of (fold (\<lambda>(k, i) m. AList.update k i m) kis m) key = (case map_of (rev kis) key of Some i \<Rightarrow> Some i | None \<Rightarrow> map_of m key)"
  by (induction kis arbitrary: m) (auto simp: update_conv' map_add_def split: option.splits)

lemma added_items:
  assumes "add_bundle decode name data bs = Some bs'" "decode data = Some objs"
  shows "\<exists>b. map_of bs' name = Some b \<and>
    map_of (bu_items b) key = map_option (\<lambda>i. i\<lparr>mi_id := key\<rparr>) (map_of (rev (concat objs)) key)"
proof -
  have keyed: "map_of (map (\<lambda>(k, i). (k, i\<lparr>mi_id := k\<rparr>)) kis) key = map_option (\<lambda>i. i\<lparr>mi_id := key\<rparr>) (map_of kis key)"
    for kis :: "(string, message_item) gomap"
    by (induction kis) auto
  show ?thesis using assms by (auto simp: add_bundle_def Let_def update_conv' keyed fold_items split: option.splits)
qed

text \<open>The languages that were loaded can be shown, and the others cannot when there were none before.\<close>

lemma add_bundle_names: "add_bundle decode name data bs = Some bs' \<Longrightarrow> map_of bs' l \<noteq> None \<longleftrightarrow> l = name \<or> map_of bs l \<noteq> None"
  by (auto simp: add_bundle_def Let_def update_conv' split: option.splits if_splits)

lemma loaded_languages:
  "load_translations decode asset ls bs = Some bs' \<Longrightarrow> map_of bs' l \<noteq> None \<longleftrightarrow> l \<in> set ls \<or> map_of bs l \<noteq> None"
proof (induction ls arbitrary: bs)
  case (Cons n ls)
  then obtain data b1 where "add_bundle decode n data bs = Some b1" "load_translations decode asset ls b1 = Some bs'"
    by (auto split: option.splits)
  then show ?case using Cons.IH [of b1] add_bundle_names [of decode n data bs b1 l] by auto
qed simp

lemma menu_language: "fst (wm_language bs lang menu) = None \<longleftrightarrow> map_of bs lang \<noteq> None"
  by (auto simp: wm_language_def text_func_def split: option.splits)

lemma ui_set_once: "ui_set v (ui_set u None) = Some u"
  by (simp add: ui_set_def)

end
