(* ===== verification/ConfigFiles.thy ===== *)
theory ConfigFiles
  imports BinaryUpgrade
begin

text \<open>
  Where the client keeps its files: the directory of the configuration and its creation (\<open>client/internal/config/util.go\<close>,
  \<open>ConfigPath\<close>), the writing of the settings (\<open>Write\<close>), and the random identifiers (\<open>shared/utils.go\<close>). The file system is an
  argument: what it says of a path, and its errors.
\<close>

definition config_path :: "string \<Rightarrow> string \<Rightarrow> string list \<Rightarrow> string" where
  "config_path goos home file = path_join ([home, if goos = ''windows'' then ''alkasir'' else ''.alkasir''] @ file)"

datatype stat_result = Stat_Dir | Stat_File | Stat_Missing | Stat_Error string

definition is_dir_exists :: "(string \<Rightarrow> stat_result) \<Rightarrow> string \<Rightarrow> string + bool" where
  "is_dir_exists stat p =
     (case stat p of
        Stat_Dir \<Rightarrow> Inr True
      | Stat_File \<Rightarrow> Inl (p @ '' exists but is not directory'')
      | Stat_Missing \<Rightarrow> Inr False
      | Stat_Error e \<Rightarrow> Inl e)"

text \<open>
  \<open>mkConfigDir\<close>: the error, the directory, and what the file system says afterwards. Only the last directory of the path is made.
\<close>

definition mk_config_dir ::
  "string \<Rightarrow> string \<Rightarrow> (string \<Rightarrow> bool) \<Rightarrow> string list \<Rightarrow> (string \<Rightarrow> stat_result) \<Rightarrow> string option \<times> string \<times> (string \<Rightarrow> stat_result)" where
  "mk_config_dir goos home mkdir_fails subpaths stat =
     (let root = config_path goos home [] in
      if root = [] then (Some ''file does not exist'', [], stat)
      else (let dir = path_join (root # subpaths) in
            case is_dir_exists stat dir of
              Inl e \<Rightarrow> (Some e, dir, stat)
            | Inr True \<Rightarrow> (None, dir, stat)
            | Inr False \<Rightarrow>
                if mkdir_fails dir then (Some ''Error create config directory'', dir, stat)
                else (None, dir, stat(dir := Stat_Dir))))"

text \<open>\<open>Write\<close>: the settings as text, in one file; a failed writing leaves what it left.\<close>

definition write_settings :: "string \<Rightarrow> string \<Rightarrow> ('s \<Rightarrow> string + string) \<Rightarrow> (string \<Rightarrow> (string \<times> string option) option) \<Rightarrow> 's \<Rightarrow> files \<Rightarrow>
   string option \<times> files" where
  "write_settings goos home marshal write_error s fs =
     (case marshal s of
        Inl e \<Rightarrow> (Some e, fs)
      | Inr data \<Rightarrow>
          (let p = config_path goos home [''settings.json''] in
           case write_error p of Some (e, left) \<Rightarrow> (Some e, fs(p := left)) | None \<Rightarrow> (None, fs(p \<mapsto> data))))"

text \<open>Random bytes in hexadecimal: with an error there are none.\<close>

definition secure_random_string :: "(nat \<Rightarrow> string + string) \<Rightarrow> nat \<Rightarrow> string \<times> string option" where
  "secure_random_string random n = (case random n of Inl e \<Rightarrow> ([], Some e) | Inr b \<Rightarrow> (hex_encode b, None))"

text \<open>A writer that hands everything to the disk: the bytes written and the error of either step.\<close>

definition sync_write :: "(string \<Rightarrow> nat \<times> string option) \<Rightarrow> string option \<Rightarrow> string \<Rightarrow> nat \<times> string option" where
  "sync_write write sync p = (case write p of (n, Some e) \<Rightarrow> (n, Some e) | (n, None) \<Rightarrow> (n, sync))"

section \<open>Lemmas\<close>

text \<open>Without an error the directory is there, nothing else changed, and asking again changes nothing.\<close>

lemma config_dir_made:
  assumes "mk_config_dir goos home fails subs stat = (None, dir, stat')"
  shows "stat' dir = Stat_Dir" "p \<noteq> dir \<Longrightarrow> stat' p = stat p" "mk_config_dir goos home fails subs stat' = (None, dir, stat')"
  using assms by (auto simp: mk_config_dir_def is_dir_exists_def Let_def split: stat_result.splits if_splits)

lemma settings_written:
  "write_settings goos home marshal write_error s fs = (None, fs') \<Longrightarrow>
   \<exists>data. marshal s = Inr data \<and> fs' (config_path goos home [''settings.json'']) = Some data"
  by (auto simp: write_settings_def Let_def split: sum.splits option.splits)

lemma random_string_length: "secure_random_string random n = (s, None) \<Longrightarrow> random n = Inr b \<Longrightarrow> length b = n \<Longrightarrow> length s = 2 * n"
  by (auto simp: secure_random_string_def)

lemma config_path_example: "config_path ''linux'' ''/home/u'' [''settings.json''] = ''/home/u/.alkasir/settings.json''"
  by code_simp

end
